(* ===== verification/Prelude.thy ===== *)
theory Prelude
  imports Main "HOL-Library.AList" "HOL-Library.Char_ord" "HOL-Library.List_Lexorder"
begin

text \<open>
  Shared ground of the development: Go maps as association lists, the in-place update of a map
  whose values are pointers, sorting of Go strings (byte-wise, the order of \<open>sort.Strings\<close>), and
  the theorem collections the component theories fill and use.

  A Go \<open>map[K]V\<close> is an association list with distinct keys. Lookup is \<^const>\<open>map_of\<close>, assignment is
  \<^const>\<open>AList.update\<close>, \<open>delete\<close> is \<^const>\<open>AList.delete\<close>. Go leaves the iteration order of a map
  open; the list fixes one, and the code sorts whatever it collects from such a loop.
\<close>

named_theorems map_simps \<open>lookups in updated Go maps\<close>
named_theorems go_defs \<open>definitions of the Go library functions\<close>
named_theorems api_defs \<open>definitions of the API object helpers\<close>

type_synonym ('k, 'v) gomap = "('k \<times> 'v) list"
type_synonym props = "(string, string) gomap"

definition keys :: "('k, 'v) gomap \<Rightarrow> 'k list" where
  "keys m = map fst m"

definition wf_map :: "('k, 'v) gomap \<Rightarrow> bool" where
  "wf_map m \<longleftrightarrow> distinct (keys m)"

text \<open>Reading a key that is not there yields Go's zero value, here the empty string.\<close>

definition mgets :: "props \<Rightarrow> string \<Rightarrow> string" where
  "mgets m k = (case map_of m k of None \<Rightarrow> '''' | Some v \<Rightarrow> v)"

text \<open>Writing through the pointer stored under a key.\<close>

definition mmod :: "'k \<Rightarrow> ('v \<Rightarrow> 'v) \<Rightarrow> ('k, 'v) gomap \<Rightarrow> ('k, 'v) gomap" where
  "mmod k f m = map (\<lambda>(k', v). (k', if k' = k then f v else v)) m"

text \<open>Writing through every pointer stored in the map.\<close>

definition mmodall :: "('v \<Rightarrow> 'v) \<Rightarrow> ('k, 'v) gomap \<Rightarrow> ('k, 'v) gomap" where
  "mmodall f m = map (\<lambda>(k, v). (k, f v)) m"

text \<open>Deleting several keys.\<close>

definition mdels :: "'k list \<Rightarrow> ('k, 'v) gomap \<Rightarrow> ('k, 'v) gomap" where
  "mdels ks m = fold AList.delete ks m"

subsection \<open>Lookups\<close>

lemma map_of_mmod [simp, map_simps]:
  "map_of (mmod k f m) k' = (if k' = k then map_option f (map_of m k) else map_of m k')"
  by (induction m) (auto simp: mmod_def)

lemma map_of_mmodall [simp, map_simps]: "map_of (mmodall f m) k = map_option f (map_of m k)"
  by (induction m) (auto simp: mmodall_def)

lemma map_of_update [simp, map_simps]:
  "map_of (AList.update k v m) k' = (if k' = k then Some v else map_of m k')"
  by (simp add: update_conv)

lemma map_of_delete [simp, map_simps]:
  "map_of (AList.delete k m) k' = (if k' = k then None else map_of m k')"
  by (simp add: delete_conv)

lemma map_of_mdels [simp, map_simps]:
  "map_of (mdels ks m) k = (if k \<in> set ks then None else map_of m k)"
  by (induction ks arbitrary: m) (auto simp: mdels_def)

lemma keys_mmod [simp]: "keys (mmod k f m) = keys m"
  by (induction m) (auto simp: mmod_def keys_def)

lemma keys_mmodall [simp]: "keys (mmodall f m) = keys m"
  by (induction m) (auto simp: mmodall_def keys_def)

lemma set_keys_update [simp]: "set (keys (AList.update k v m)) = insert k (set (keys m))"
  by (induction m) (auto simp: keys_def)

lemma set_keys_delete [simp]: "set (keys (AList.delete k m)) = set (keys m) - {k}"
  by (simp add: keys_def delete_keys)

lemma set_keys_mdels [simp]: "set (keys (mdels ks m)) = set (keys m) - set ks"
  by (induction ks arbitrary: m) (auto simp: mdels_def)

lemma in_keys_iff: "k \<in> set (keys m) \<longleftrightarrow> map_of m k \<noteq> None"
  by (auto simp: keys_def map_of_eq_None_iff)

lemma in_keys_Some: "map_of m k = Some v \<Longrightarrow> k \<in> set (keys m)"
  by (simp add: in_keys_iff)

subsection \<open>Well-formedness of maps\<close>

lemma wf_map_Nil [simp]: "wf_map []"
  by (simp add: wf_map_def keys_def)

lemma wf_map_mmod [simp]: "wf_map (mmod k f m) = wf_map m"
  by (simp add: wf_map_def)

lemma wf_map_mmodall [simp]: "wf_map (mmodall f m) = wf_map m"
  by (simp add: wf_map_def)

lemma wf_map_update [simp]: "wf_map m \<Longrightarrow> wf_map (AList.update k v m)"
  by (simp add: wf_map_def keys_def distinct_update)

lemma wf_map_delete [simp]: "wf_map m \<Longrightarrow> wf_map (AList.delete k m)"
  unfolding wf_map_def keys_def by (rule distinct_delete)

lemma wf_map_mdels [simp]: "wf_map m \<Longrightarrow> wf_map (mdels ks m)"
  by (induction ks arbitrary: m) (simp_all add: mdels_def)

lemma wf_map_in_iff: "wf_map m \<Longrightarrow> (k, v) \<in> set m \<longleftrightarrow> map_of m k = Some v"
  by (auto simp: wf_map_def keys_def map_of_eq_Some_iff)

subsection \<open>Sorted listings\<close>

lemma sort_eq_Nil [simp]: "sort xs = [] \<longleftrightarrow> xs = []"
  by (metis length_0_conv length_sort)

lemma filter_map_fst_Nil: "map fst (filter P m) = [] \<longleftrightarrow> (\<forall>kv \<in> set m. \<not> P kv)"
  by (auto simp: filter_empty_conv)

lemma sort_key_eq_Nil [simp]: "sort_key f xs = [] \<longleftrightarrow> xs = []"
  by (metis length_0_conv length_sort)

lemma is_none_None: "Option.is_none x \<Longrightarrow> x = None"
  by (simp add: Option.is_none_def)

end
