(* ===== verification/GoLib.thy ===== *)
theory GoLib
  imports Prelude
begin

text \<open>
  The parts of Go's standard library that the program uses: error values, \<open>strings\<close>, \<open>strconv\<close>,
  \<open>path\<close> and the width of \<open>int64\<close>. A Go string is its list of bytes. Character classes are the ASCII
  ones: the functions below agree with Go on ASCII text, which is what ZFS names, Kubernetes names
  and the parameters of the driver are.
\<close>

subsection \<open>Errors\<close>

text \<open>
  A Go error carries a text and, when it was made with \<open>%w\<close> from a sentinel (or is a
  \<open>sourceNotReadyError\<close>), the sentinel that \<open>errors.Is\<close> and \<open>errors.As\<close> look for. The three API status
  reasons are what \<open>apierrors.IsNotFound\<close>, \<open>IsConflict\<close> and \<open>IsAlreadyExists\<close> look for, \<open>OsNotExist\<close>
  and \<open>OsExist\<close> what \<open>os.IsNotExist\<close> and \<open>os.IsExist\<close> look for. \<open>SPanic\<close> marks a nil dereference: the program stops there, and the invariants show that it is never reached.
\<close>

datatype sentinel =
    ErrNotExist
  | ErrSnapshotsPartiallyExist
  | SourceNotReady
  | StatusNotFound
  | StatusConflict
  | StatusAlreadyExists
  | OsNotExist
  | OsExist
  | SPanic

datatype goerr = GoErr (err_is: "sentinel option") (err_text: string)

definition errors_Is :: "goerr \<Rightarrow> sentinel \<Rightarrow> bool" where
  "errors_Is e s \<longleftrightarrow> err_is e = Some s"

definition errorf :: "string \<Rightarrow> goerr" where
  "errorf msg = GoErr None msg"

text \<open>\<open>fmt.Errorf("prefix%w", err)\<close>: the text is prefixed, the sentinel stays.\<close>

definition wrapf :: "string \<Rightarrow> goerr \<Rightarrow> goerr" where
  "wrapf pre e = GoErr (err_is e) (pre @ err_text e)"

definition IsNotFound :: "goerr \<Rightarrow> bool" where
  "IsNotFound e \<longleftrightarrow> errors_Is e StatusNotFound"

definition go_panic :: goerr where
  "go_panic = GoErr (Some SPanic) ''invalid memory address or nil pointer dereference''"

lemma errors_Is_simps [simp]:
  "errors_Is (GoErr so t) s = (so = Some s)"
  "errors_Is (errorf t) s = False"
  "errors_Is (wrapf p e) s = errors_Is e s"
  by (simp_all add: errors_Is_def errorf_def wrapf_def)

subsection \<open>strings\<close>

definition HasPrefix :: "string \<Rightarrow> string \<Rightarrow> bool" where
  "HasPrefix s p \<longleftrightarrow> take (length p) s = p"

definition HasSuffix :: "string \<Rightarrow> string \<Rightarrow> bool" where
  "HasSuffix s p \<longleftrightarrow> HasPrefix (rev s) (rev p)"

definition TrimPrefix :: "string \<Rightarrow> string \<Rightarrow> string" where
  "TrimPrefix s p = (if HasPrefix s p then drop (length p) s else s)"

fun Contains :: "string \<Rightarrow> string \<Rightarrow> bool" where
  "Contains [] sub = (sub = [])"
| "Contains (c # cs) sub = (HasPrefix (c # cs) sub \<or> Contains cs sub)"

text \<open>\<open>Trim\<close>, \<open>TrimLeft\<close> and \<open>TrimRight\<close> with a cutset of one character.\<close>

definition TrimLeft :: "char \<Rightarrow> string \<Rightarrow> string" where
  "TrimLeft c s = dropWhile (\<lambda>x. x = c) s"

definition TrimRight :: "char \<Rightarrow> string \<Rightarrow> string" where
  "TrimRight c s = rev (dropWhile (\<lambda>x. x = c) (rev s))"

definition Trim :: "char \<Rightarrow> string \<Rightarrow> string" where
  "Trim c s = TrimRight c (TrimLeft c s)"

definition isSpace :: "char \<Rightarrow> bool" where
  "isSpace c \<longleftrightarrow> of_char c = (32::nat) \<or> (9 \<le> (of_char c :: nat) \<and> (of_char c :: nat) \<le> 13)"

definition TrimSpace :: "string \<Rightarrow> string" where
  "TrimSpace s = rev (dropWhile isSpace (rev (dropWhile isSpace s)))"

text \<open>\<open>strings.Split\<close> with a separator of one character.\<close>

fun Split :: "char \<Rightarrow> string \<Rightarrow> string list" where
  "Split c [] = [[]]"
| "Split c (x # xs) = (if x = c then [] # Split c xs
     else (case Split c xs of [] \<Rightarrow> [[x]] | y # ys \<Rightarrow> (x # y) # ys))"

fun Join :: "string \<Rightarrow> string list \<Rightarrow> string" where
  "Join sep [] = []"
| "Join sep [x] = x"
| "Join sep (x # y # ys) = x @ sep @ Join sep (y # ys)"

text \<open>\<open>strings.Fields\<close>: the maximal runs of non-space characters.\<close>

fun fields_go :: "string \<Rightarrow> string \<Rightarrow> string list" where
  "fields_go cur [] = (if cur = [] then [] else [rev cur])"
| "fields_go cur (x # xs) =
     (if isSpace x then (if cur = [] then fields_go [] xs else rev cur # fields_go [] xs)
      else fields_go (x # cur) xs)"

definition Fields :: "string \<Rightarrow> string list" where
  "Fields s = fields_go [] s"

definition lower_char :: "char \<Rightarrow> char" where
  "lower_char c = (let n = (of_char c :: nat) in if 65 \<le> n \<and> n \<le> 90 then char_of (n + 32) else c)"

definition upper_char :: "char \<Rightarrow> char" where
  "upper_char c = (let n = (of_char c :: nat) in if 97 \<le> n \<and> n \<le> 122 then char_of (n - 32) else c)"

definition ToLower :: "string \<Rightarrow> string" where "ToLower s = map lower_char s"

definition ToUpper :: "string \<Rightarrow> string" where "ToUpper s = map upper_char s"

text \<open>The text up to and the text after the first occurrence of a character.\<close>

definition before :: "char \<Rightarrow> string \<Rightarrow> string" where
  "before c s = takeWhile (\<lambda>x. x \<noteq> c) s"

definition after :: "char \<Rightarrow> string \<Rightarrow> string" where
  "after c s = tl (dropWhile (\<lambda>x. x \<noteq> c) s)"

text \<open>The text up to the last occurrence of a character.\<close>

definition beforeLast :: "char \<Rightarrow> string \<Rightarrow> string" where
  "beforeLast c s = rev (after c (rev s))"

subsection \<open>strconv\<close>

definition digit :: "nat \<Rightarrow> char" where
  "digit d = char_of (48 + d)"

fun nat_digits :: "nat \<Rightarrow> string" where
  "nat_digits n = (if n < 10 then [digit n] else nat_digits (n div 10) @ [digit (n mod 10)])"

declare nat_digits.simps [simp del]

definition FormatInt :: "int \<Rightarrow> string" where
  "FormatInt n = (if n < 0 then ''-'' @ nat_digits (nat (- n)) else nat_digits (nat n))"

text \<open>The same digits computed without unary numbers.\<close>

function int_digits :: "int \<Rightarrow> string" where
  "int_digits n = (if n < 10 then [digit (nat n)] else int_digits (n div 10) @ [digit (nat (n mod 10))])"
  by pat_completeness auto

termination by (relation "measure nat") auto

declare int_digits.simps [simp del]

lemma int_digits_nat: "int_digits (int k) = nat_digits k"
proof (induction k rule: less_induct)
  case (less k)
  show ?case
  proof (cases "k < 10")
    case False
    then have "int_digits (int k div 10) = nat_digits (k div 10)" using less [of "k div 10"] by (simp add: zdiv_int)
    moreover have "nat (int k mod 10) = k mod 10" by (simp add: nat_mod_distrib)
    ultimately show ?thesis using False by (subst int_digits.simps, subst nat_digits.simps) simp
  qed (subst int_digits.simps, subst nat_digits.simps, simp)
qed

lemma FormatInt_code [code]: "FormatInt n = (if n < 0 then ''-'' @ int_digits (- n) else int_digits n)"
  using int_digits_nat [of "nat n"] int_digits_nat [of "nat (- n)"] by (simp add: FormatInt_def split: if_splits)

datatype ures = UOk int | USyntax | URange

definition is_digit :: "char \<Rightarrow> bool" where
  "is_digit c \<longleftrightarrow> 48 \<le> (of_char c :: nat) \<and> (of_char c :: nat) \<le> 57"

definition digit_val :: "char \<Rightarrow> int" where
  "digit_val c = int (of_char c) - 48"

text \<open>The digit loop of \<open>strconv.ParseUint(s, 10, 64)\<close>: overflow is found before later characters
  are looked at.\<close>

fun parse_digits :: "int \<Rightarrow> string \<Rightarrow> ures" where
  "parse_digits n [] = UOk n"
| "parse_digits n (c # cs) =
     (if \<not> is_digit c then USyntax
      else if n \<ge> 2 ^ 64 div 10 + 1 then URange
      else let n1 = n * 10 + digit_val c in if n1 \<ge> 2 ^ 64 then URange else parse_digits n1 cs)"

definition ParseUint :: "string \<Rightarrow> ures" where
  "ParseUint s = (if s = [] then USyntax else parse_digits 0 s)"

text \<open>\<open>strconv.ParseInt(s, 10, 64)\<close>: the value, and whether there was an error. A syntax error
  yields 0, a range error the nearest bound, as in Go.\<close>

definition ParseInt :: "string \<Rightarrow> int \<times> bool" where
  "ParseInt s =
     (if s = [] then (0, True)
      else let neg = (hd s = CHR ''-'');
               body = (if hd s = CHR ''+'' \<or> hd s = CHR ''-'' then tl s else s)
           in (case ParseUint body of
                 USyntax \<Rightarrow> (0, True)
               | URange \<Rightarrow> (if neg then - (2 ^ 63) else 2 ^ 63 - 1, True)
               | UOk n \<Rightarrow>
                   (if \<not> neg \<and> n \<ge> 2 ^ 63 then (2 ^ 63 - 1, True)
                    else if neg \<and> n > 2 ^ 63 then (- (2 ^ 63), True)
                    else (if neg then - n else n, False))))"

text \<open>Two's complement wrap-around of \<open>int64\<close> arithmetic.\<close>

definition int64 :: "int \<Rightarrow> int" where
  "int64 x = (x + 2 ^ 63) mod 2 ^ 64 - 2 ^ 63"

definition is_int64 :: "int \<Rightarrow> bool" where
  "is_int64 x \<longleftrightarrow> - (2 ^ 63) \<le> x \<and> x < 2 ^ 63"

text \<open>\<open>strconv.Quote\<close>, the \<open>%q\<close> verb.\<close>

definition hex_digit :: "nat \<Rightarrow> char" where
  "hex_digit d = (if d < 10 then char_of (48 + d) else char_of (87 + d))"

definition quote_char :: "char \<Rightarrow> string" where
  "quote_char c =
     (let n = (of_char c :: nat) in
      if n = 34 \<or> n = 92 then [CHR 92, c]
      else if n = 7 then [CHR 92, CHR ''a''] else if n = 8 then [CHR 92, CHR ''b'']
      else if n = 12 then [CHR 92, CHR ''f''] else if n = 10 then [CHR 92, CHR ''n'']
      else if n = 13 then [CHR 92, CHR ''r''] else if n = 9 then [CHR 92, CHR ''t'']
      else if n = 11 then [CHR 92, CHR ''v'']
      else if n < 32 \<or> n > 126
        then [CHR 92, CHR ''x'', hex_digit (n div 16), hex_digit (n mod 16)]
      else [c])"

definition Quote :: "string \<Rightarrow> string" where
  "Quote s = CHR 34 # concat (map quote_char s) @ [CHR 34]"

subsection \<open>path\<close>

text \<open>The segment loop of \<open>path.Clean\<close>; \<open>out\<close> is the cleaned path so far, last segment first.\<close>

fun clean_segs :: "bool \<Rightarrow> string list \<Rightarrow> string list \<Rightarrow> string list" where
  "clean_segs rooted out [] = rev out"
| "clean_segs rooted out (x # xs) =
     (if x = '''' \<or> x = ''.'' then clean_segs rooted out xs
      else if x = ''..'' then
        (case out of
           [] \<Rightarrow> clean_segs rooted (if rooted then [] else [x]) xs
         | y # ys \<Rightarrow> clean_segs rooted (if y = ''..'' then x # out else ys) xs)
      else clean_segs rooted (x # out) xs)"

definition path_Clean :: "string \<Rightarrow> string" where
  "path_Clean p =
     (if p = '''' then ''.''
      else let rooted = HasPrefix p ''/'';
               body = Join ''/'' (clean_segs rooted [] (Split CHR ''/'' p))
           in if rooted then ''/'' @ body else if body = '''' then ''.'' else body)"

definition path_Join :: "string list \<Rightarrow> string" where
  "path_Join es =
     (let es' = dropWhile (\<lambda>e. e = '''') es
      in if es' = [] then '''' else path_Clean (Join ''/'' es'))"

text \<open>\<open>path.Split\<close>'s directory part keeps the slash.\<close>

definition path_Dir :: "string \<Rightarrow> string" where
  "path_Dir p = path_Clean (if CHR ''/'' \<in> set p then beforeLast CHR ''/'' p @ ''/'' else '''')"

definition path_Base :: "string \<Rightarrow> string" where
  "path_Base p =
     (if p = '''' then ''.''
      else let q = TrimRight CHR ''/'' p;
               b = rev (before CHR ''/'' (rev q))
           in if b = '''' then ''/'' else b)"

lemmas string_defs [go_defs] =
  HasPrefix_def HasSuffix_def TrimPrefix_def TrimLeft_def TrimRight_def Trim_def isSpace_def
  TrimSpace_def Fields_def lower_char_def upper_char_def ToLower_def ToUpper_def before_def
  after_def beforeLast_def

lemmas strconv_defs [go_defs] =
  digit_def FormatInt_def is_digit_def digit_val_def ParseUint_def ParseInt_def hex_digit_def
  quote_char_def Quote_def nat_digits.simps

lemmas path_defs [go_defs] = path_Clean_def path_Join_def path_Dir_def path_Base_def

subsection \<open>Facts about strings\<close>

lemma HasPrefix_append [simp]: "HasPrefix (p @ s) p"
  by (simp add: HasPrefix_def)

lemma HasPrefix_iff: "HasPrefix s p \<longleftrightarrow> (\<exists>t. s = p @ t)"
  unfolding HasPrefix_def by (metis append_eq_conv_conj append_take_drop_id)

lemma HasPrefix_trans: "HasPrefix s p \<Longrightarrow> HasPrefix p q \<Longrightarrow> HasPrefix s q"
  by (auto simp: HasPrefix_iff)

lemma HasSuffix_iff: "HasSuffix s p \<longleftrightarrow> (\<exists>t. s = t @ p)"
proof -
  have "HasSuffix s p \<longleftrightarrow> (\<exists>t. rev s = rev p @ t)" by (simp add: HasSuffix_def HasPrefix_iff)
  also have "\<dots> \<longleftrightarrow> (\<exists>t. s = t @ p)" by (metis rev_append rev_rev_ident)
  finally show ?thesis .
qed

lemma before_append [simp]: "c \<notin> set s \<Longrightarrow> before c (s @ c # t) = s"
  by (induction s) (auto simp: before_def)

lemma after_append [simp]: "c \<notin> set s \<Longrightarrow> after c (s @ c # t) = t"
  by (induction s) (auto simp: after_def)

lemma before_no [simp]: "c \<notin> set s \<Longrightarrow> before c s = s"
  by (simp add: before_def) (metis takeWhile_eq_all_conv)

lemma before_not_in [simp]: "c \<notin> set (before c s)"
  by (auto simp: before_def dest: set_takeWhileD)

lemma before_after: "c \<in> set s \<Longrightarrow> before c s @ c # after c s = s"
  by (induction s) (auto simp: before_def after_def)

lemma beforeLast_prefix: "c \<in> set s \<Longrightarrow> \<exists>t. s = beforeLast c s @ c # t \<and> c \<notin> set t"
proof -
  assume "c \<in> set s"
  then have "before c (rev s) @ c # after c (rev s) = rev s" by (simp add: before_after)
  then have "s = beforeLast c s @ c # rev (before c (rev s))"
    by (metis append.assoc append_Cons append_Nil beforeLast_def rev.simps(2) rev_append rev_rev_ident)
  then show ?thesis by (metis before_not_in set_rev)
qed

lemma Split_not_Nil [simp]: "Split c s \<noteq> []"
  by (induction s) (auto split: list.splits)

lemma Split_no: "c \<notin> set s \<Longrightarrow> Split c s = [s]"
  by (induction s) auto

lemma Split_append: "c \<notin> set s \<Longrightarrow> Split c (s @ c # t) = s # Split c t"
  by (induction s) auto

lemma Split_Join:
  "xs \<noteq> [] \<Longrightarrow> (\<forall>x \<in> set xs. c \<notin> set x) \<Longrightarrow> Split c (Join [c] xs) = xs"
proof (induction xs rule: induct_list012)
  case (3 x y zs)
  then have "Split c (Join [c] (x # y # zs)) = x # Split c (Join [c] (y # zs))"
    by (simp add: Split_append)
  with 3 show ?case by simp
qed (simp_all add: Split_no)

lemma Join_Split: "Join [c] (Split c s) = s"
proof (induction s)
  case (Cons x xs)
  then show ?case
    by (cases "Split c xs"; cases "tl (Split c xs)") (auto split: list.splits)
qed simp

lemma TrimSpace_no_space: "\<forall>c \<in> set s. \<not> isSpace c \<Longrightarrow> TrimSpace s = s"
proof -
  have dw: "\<forall>c \<in> set t. \<not> isSpace c \<Longrightarrow> dropWhile isSpace t = t" for t
    by (cases t) auto
  assume "\<forall>c \<in> set s. \<not> isSpace c"
  then show ?thesis by (simp add: TrimSpace_def dw)
qed

subsection \<open>Decimal numbers\<close>

lemma of_char_digit: "d < 10 \<Longrightarrow> (of_char (digit d) :: nat) = 48 + d"
  by (simp add: digit_def)

lemma is_digit_digit [simp]: "d < 10 \<Longrightarrow> is_digit (digit d)"
  by (simp add: is_digit_def of_char_digit)

lemma digit_val_digit [simp]: "d < 10 \<Longrightarrow> digit_val (digit d) = int d"
  by (simp add: digit_val_def of_char_digit)

lemma parse_digits_append:
  "parse_digits n xs = UOk k \<Longrightarrow> parse_digits n (xs @ ys) = parse_digits k ys"
  by (induction n xs rule: parse_digits.induct) (auto simp: Let_def split: if_splits)

lemma parse_nat_digits: "int n < 2 ^ 64 \<Longrightarrow> parse_digits 0 (nat_digits n) = UOk (int n)"
proof (induction n rule: nat_digits.induct)
  case (1 n)
  show ?case
  proof (cases "n < 10")
    case True
    then show ?thesis by (subst nat_digits.simps) simp
  next
    case False
    have q: "int (n div 10) < 2 ^ 64 div 10 + 1" using "1.prems" by simp
    have "parse_digits 0 (nat_digits (n div 10)) = UOk (int (n div 10))"
      using "1.IH" False "1.prems" by simp
    then have "parse_digits 0 (nat_digits n) = parse_digits (int (n div 10)) [digit (n mod 10)]"
      using False by (subst nat_digits.simps) (simp add: parse_digits_append)
    also have "\<dots> = UOk (int n)" using q "1.prems" by (simp add: Let_def zdiv_int zmod_int)
    finally show ?thesis .
  qed
qed

lemma nat_digits_not_Nil [simp]: "nat_digits n \<noteq> []"
  by (subst nat_digits.simps) simp

lemma nat_digits_digits: "c \<in> set (nat_digits n) \<Longrightarrow> is_digit c"
proof (induction n rule: nat_digits.induct)
  case (1 n)
  then show ?case
    by (cases "n < 10") (auto simp: nat_digits.simps [of n])
qed

lemma is_digit_not_sign: "is_digit c \<Longrightarrow> c \<noteq> CHR ''-'' \<and> c \<noteq> CHR ''+''"
  by (auto simp: is_digit_def)

lemma is_digit_not_space: "is_digit c \<Longrightarrow> \<not> isSpace c"
  by (auto simp: is_digit_def isSpace_def)

text \<open>Printing and parsing of \<open>int64\<close> values round-trip.\<close>

lemma ParseInt_FormatInt: "is_int64 n \<Longrightarrow> ParseInt (FormatInt n) = (n, False)"
proof (cases "n < 0")
  case True
  assume r: "is_int64 n"
  then have "parse_digits 0 (nat_digits (nat (- n))) = UOk (- n)"
    using True by (subst parse_nat_digits) (auto simp: is_int64_def)
  then show ?thesis using True r
    by (simp add: ParseInt_def FormatInt_def ParseUint_def is_int64_def)
next
  case False
  assume r: "is_int64 n"
  let ?s = "nat_digits (nat n)"
  have "is_digit (hd ?s)" by (rule nat_digits_digits [of _ "nat n"]) simp
  then have hd: "hd ?s \<noteq> CHR ''-''" "hd ?s \<noteq> CHR ''+''" by (auto dest: is_digit_not_sign)
  have "parse_digits 0 ?s = UOk n"
    using False r by (subst parse_nat_digits) (auto simp: is_int64_def)
  then show ?thesis using False r hd
    by (auto simp add: ParseInt_def FormatInt_def ParseUint_def is_int64_def)
qed

lemma FormatInt_no_space: "c \<in> set (FormatInt n) \<Longrightarrow> \<not> isSpace c"
  by (auto simp: FormatInt_def isSpace_def dest!: nat_digits_digits is_digit_not_space split: if_splits)

lemma TrimSpace_FormatInt [simp]: "TrimSpace (FormatInt n) = FormatInt n"
  by (rule TrimSpace_no_space) (blast dest: FormatInt_no_space)

lemma int64_id: "is_int64 x \<Longrightarrow> int64 x = x"
  by (simp add: int64_def is_int64_def)

lemma is_int64_int64 [simp]: "is_int64 (int64 x)"
proof -
  have "0 \<le> (x + 2 ^ 63) mod 2 ^ 64" and "(x + 2 ^ 63) mod 2 ^ 64 < (2 ^ 64 :: int)" by simp_all
  then show ?thesis by (simp add: int64_def is_int64_def)
qed

end
