(* ===== verification/ApiTypes.thy ===== *)
theory ApiTypes
  imports GoLib
begin

text \<open>
  The custom resources of \<open>src/api/v1alpha1\<close>. String-typed enumerations stay strings with named
  constants, as in the Go source; an optional pointer is an \<open>option\<close>; a time is its number of
  seconds. A \<open>resource.Quantity\<close> is known by what the code asks of it: \<open>Value()\<close>, \<open>IsZero()\<close> and the exact
  amount (in nano units) that \<open>Cmp\<close> compares.
  A field that is only rendered to a column of \<open>kubectl\<close> has no counterpart.
\<close>

type_synonym Time = int

record Quantity =
  q_Value :: int
  q_IsZero :: bool
  q_Amount :: int

text \<open>\<open>resource.NewQuantity\<close>: that many whole units.\<close>

definition NewQuantity :: "int \<Rightarrow> Quantity" where
  "NewQuantity n = \<lparr>q_Value = n, q_IsZero = (n = 0), q_Amount = n * 1000000000\<rparr>"

record Condition =
  cond_Type :: string
  cond_Status :: bool
  cond_Reason :: string
  cond_Message :: string
  cond_ObservedGeneration :: int
  cond_LastTransitionTime :: "Time option"

record ObjectMeta =
  om_Name :: string
  om_UID :: string
  om_Generation :: int
  om_CreationTimestamp :: Time
  om_DeletionTimestamp :: "Time option"
  om_Finalizers :: "string list"
  om_Labels :: props
  om_Controller :: "string option"

definition new_meta :: "string \<Rightarrow> ObjectMeta" where
  "new_meta n = \<lparr>om_Name = n, om_UID = '''', om_Generation = 0, om_CreationTimestamp = 0,
     om_DeletionTimestamp = None, om_Finalizers = [], om_Labels = [], om_Controller = None\<rparr>"

subsection \<open>ZfsDataset\<close>

type_synonym DatasetType = string

abbreviation DatasetTypeFilesystem :: DatasetType where "DatasetTypeFilesystem \<equiv> ''filesystem''"

abbreviation DatasetTypeVolume :: DatasetType where "DatasetTypeVolume \<equiv> ''volume''"

type_synonym ZfsDatasetPhase = string

abbreviation DatasetPhasePending :: ZfsDatasetPhase where "DatasetPhasePending \<equiv> ''Pending''"

abbreviation DatasetPhaseReady :: ZfsDatasetPhase where "DatasetPhaseReady \<equiv> ''Ready''"

abbreviation DatasetPhaseError :: ZfsDatasetPhase where "DatasetPhaseError \<equiv> ''Error''"

abbreviation DatasetPhaseLost :: ZfsDatasetPhase where "DatasetPhaseLost \<equiv> ''Lost''"

abbreviation DeleteBlockedReason :: string where "DeleteBlockedReason \<equiv> ''DeleteBlocked''"

record FilesystemConfig =
  fs_Quota :: "Quantity option"
  fs_UID :: "int option"
  fs_GID :: "int option"
  fs_Mode :: string

record VolumeConfig =
  vc_Size :: Quantity
  vc_Volblocksize :: string

record DatasetSource =
  src_Snapshot :: string
  src_Volume :: string
  src_ZfsSnapshotRef :: "string option"
  src_ZfsDatasetRef :: "string option"

record ZfsDatasetSpec =
  zds_PoolGUID :: string
  zds_Dataset :: string
  zds_Type :: DatasetType
  zds_Properties :: props
  zds_Filesystem :: "FilesystemConfig option"
  zds_Volume :: "VolumeConfig option"
  zds_Source :: "DatasetSource option"

record ZfsDatasetStatus =
  zdst_Phase :: ZfsDatasetPhase
  zdst_ProvisionedAt :: "Time option"
  zdst_CreationTime :: "Time option"
  zdst_Path :: string
  zdst_FSType :: string
  zdst_ObservedGeneration :: int
  zdst_Message :: string
  zdst_Conditions :: "Condition list"

record ZfsDataset =
  zd_Meta :: ObjectMeta
  zd_Spec :: ZfsDatasetSpec
  zd_Status :: ZfsDatasetStatus

subsection \<open>ZfsSnapshot\<close>

type_synonym ZfsSnapshotPhase = string

abbreviation SnapshotPhasePending :: ZfsSnapshotPhase where "SnapshotPhasePending \<equiv> ''Pending''"

abbreviation SnapshotPhaseReady :: ZfsSnapshotPhase where "SnapshotPhaseReady \<equiv> ''Ready''"

abbreviation SnapshotPhaseError :: ZfsSnapshotPhase where "SnapshotPhaseError \<equiv> ''Error''"

abbreviation SnapshotPhaseLost :: ZfsSnapshotPhase where "SnapshotPhaseLost \<equiv> ''Lost''"

record ZfsSnapshotSpec =
  zss_PoolGUID :: string
  zss_Dataset :: string
  zss_SnapshotName :: string
  zss_SourceVolume :: string
  zss_SourceType :: DatasetType
  zss_SourceFSType :: string
  zss_SourceVolblocksize :: string
  zss_SourceProperties :: props
  zss_GroupSnapshotID :: string

record ZfsSnapshotStatus =
  zsst_ProvisionedAt :: "Time option"
  zsst_Phase :: ZfsSnapshotPhase
  zsst_ReadyToUse :: bool
  zsst_CreationTime :: "Time option"
  zsst_RestoreSize :: "Quantity option"
  zsst_ObservedGeneration :: int
  zsst_Message :: string
  zsst_Conditions :: "Condition list"

record ZfsSnapshot =
  zs_Meta :: ObjectMeta
  zs_Spec :: ZfsSnapshotSpec
  zs_Status :: ZfsSnapshotStatus

definition zero_snapshot_status :: ZfsSnapshotStatus where
  "zero_snapshot_status = \<lparr>zsst_ProvisionedAt = None, zsst_Phase = '''', zsst_ReadyToUse = False,
     zsst_CreationTime = None, zsst_RestoreSize = None, zsst_ObservedGeneration = 0,
     zsst_Message = '''', zsst_Conditions = []\<rparr>"

subsection \<open>ZfsGroupSnapshot\<close>

type_synonym ZfsGroupSnapshotPhase = string

abbreviation GroupSnapshotPhasePending :: ZfsGroupSnapshotPhase where "GroupSnapshotPhasePending \<equiv> ''Pending''"

abbreviation GroupSnapshotPhaseReady :: ZfsGroupSnapshotPhase where "GroupSnapshotPhaseReady \<equiv> ''Ready''"

abbreviation GroupSnapshotPhaseError :: ZfsGroupSnapshotPhase where "GroupSnapshotPhaseError \<equiv> ''Error''"

abbreviation GroupSnapshotPhaseLost :: ZfsGroupSnapshotPhase where "GroupSnapshotPhaseLost \<equiv> ''Lost''"

record ZfsGroupSnapshotMember =
  gm_SourceVolume :: string
  gm_Dataset :: string
  gm_SnapshotName :: string
  gm_ZfsSnapshotRef :: string
  gm_SourceType :: DatasetType
  gm_SourceFSType :: string
  gm_SourceVolblocksize :: string
  gm_SourceProperties :: props

record ZfsGroupSnapshotSpec =
  zgs_PoolGUID :: string
  zgs_Members :: "ZfsGroupSnapshotMember list"

record ZfsGroupSnapshotStatus =
  zgst_ProvisionedAt :: "Time option"
  zgst_Phase :: ZfsGroupSnapshotPhase
  zgst_ReadyToUse :: bool
  zgst_CreationTime :: "Time option"
  zgst_ObservedGeneration :: int
  zgst_Message :: string
  zgst_Conditions :: "Condition list"

record ZfsGroupSnapshot =
  zg_Meta :: ObjectMeta
  zg_Spec :: ZfsGroupSnapshotSpec
  zg_Status :: ZfsGroupSnapshotStatus

subsection \<open>ZfsPool\<close>

type_synonym ZfsPoolHealth = string

abbreviation PoolHealthOnline :: ZfsPoolHealth where "PoolHealthOnline \<equiv> ''ONLINE''"

abbreviation PoolHealthDegraded :: ZfsPoolHealth where "PoolHealthDegraded \<equiv> ''DEGRADED''"

abbreviation PoolHealthFaulted :: ZfsPoolHealth where "PoolHealthFaulted \<equiv> ''FAULTED''"

abbreviation PoolHealthSuspended :: ZfsPoolHealth where "PoolHealthSuspended \<equiv> ''SUSPENDED''"

abbreviation PoolHealthNodeOffline :: ZfsPoolHealth where "PoolHealthNodeOffline \<equiv> ''NODE_OFFLINE''"

abbreviation PoolHealthUnknown :: ZfsPoolHealth where "PoolHealthUnknown \<equiv> ''UNKNOWN''"

record ZfsPoolStatus =
  zpst_GUID :: string
  zpst_PoolName :: string
  zpst_CurrentNode :: string
  zpst_CurrentIP :: string
  zpst_BaseMountPath :: string
  zpst_Health :: ZfsPoolHealth
  zpst_LastUpdated :: "Time option"
  zpst_Message :: string

record ZfsPool =
  zp_Meta :: ObjectMeta
  zp_Status :: ZfsPoolStatus

subsection \<open>NetworkExport, ZfsShare and ZfsShareAttachRequest\<close>

type_synonym Protocol = string

abbreviation ProtocolNFS :: Protocol where "ProtocolNFS \<equiv> ''nfs''"

abbreviation ProtocolNVMeoF :: Protocol where "ProtocolNVMeoF \<equiv> ''nvmeof''"

type_synonym NetworkExportPhase = string

abbreviation PhasePending :: NetworkExportPhase where "PhasePending \<equiv> ''Pending''"

abbreviation PhaseExported :: NetworkExportPhase where "PhaseExported \<equiv> ''Exported''"

abbreviation PhaseError :: NetworkExportPhase where "PhaseError \<equiv> ''Error''"

record NFSClient =
  nc_Client :: string
  nc_Options :: "string list"

record NFSExportSpec =
  nfs_Clients :: "NFSClient list"

record NVMeoFExportSpec =
  nvme_NQN :: string
  nvme_AllowedHosts :: "string list"
  nvme_DHChapSecretName :: string
  nvme_DHChapSecretNamespace :: string
  nvme_DHChapSecretKey :: string

record NetworkExportSpec =
  nes_NodeName :: string
  nes_Protocol :: Protocol
  nes_Path :: string
  nes_NFS :: "NFSExportSpec option"
  nes_NVMeoF :: "NVMeoFExportSpec option"

record NetworkExportStatus =
  nest_Phase :: NetworkExportPhase
  nest_ObservedGeneration :: int
  nest_NQN :: string
  nest_Message :: string
  nest_Conditions :: "Condition list"

record NetworkExport =
  ne_Meta :: ObjectMeta
  ne_Spec :: NetworkExportSpec
  ne_Status :: NetworkExportStatus

type_synonym ZfsSharePhase = string

abbreviation SharePhasePending :: ZfsSharePhase where "SharePhasePending \<equiv> ''Pending''"

abbreviation SharePhaseExporting :: ZfsSharePhase where "SharePhaseExporting \<equiv> ''Exporting''"

abbreviation SharePhaseBound :: ZfsSharePhase where "SharePhaseBound \<equiv> ''Bound''"

abbreviation SharePhaseError :: ZfsSharePhase where "SharePhaseError \<equiv> ''Error''"

record ZfsShareSpec =
  zshs_PoolGUID :: string
  zshs_Dataset :: string
  zshs_Protocol :: Protocol
  zshs_NFS :: "NFSExportSpec option"
  zshs_NVMeoF :: "NVMeoFExportSpec option"

record ZfsShareStatus =
  zshst_Phase :: ZfsSharePhase
  zshst_NodeName :: string
  zshst_Path :: string
  zshst_NetworkExportName :: string
  zshst_ObservedGeneration :: int
  zshst_Message :: string
  zshst_Conditions :: "Condition list"

record ZfsShare =
  zsh_Meta :: ObjectMeta
  zsh_Spec :: ZfsShareSpec
  zsh_Status :: ZfsShareStatus

record ZfsShareAttachRequestSpec =
  zars_VolumeName :: string
  zars_NodeName :: string
  zars_SingleNode :: bool

record ZfsShareAttachRequestStatus =
  zarst_Ready :: bool
  zarst_ShareName :: string
  zarst_ObservedGeneration :: int
  zarst_Message :: string
  zarst_Conditions :: "Condition list"

record ZfsShareAttachRequest =
  zar_Meta :: ObjectMeta
  zar_Spec :: ZfsShareAttachRequestSpec
  zar_Status :: ZfsShareAttachRequestStatus

end
