(* ===== verification/ZfsApi.thy ===== *)
theory ZfsApi
  imports GoLib
begin

text \<open>
  The vocabulary of \<open>src/internal/zpool/zfs.go\<close>: dataset kinds, the listing entry \<open>Dataset\<close> and the
  Go interface \<open>ZFS\<close>. The interface is a record of operations over a state of type \<open>'z\<close> that every
  operation threads, also when it fails. Two implementations follow: the in-memory one (theory
  \<open>MemZfs\<close>) and the command-line one (theory \<open>ZfsCli\<close>); the controllers take the record as an
  argument, as the Go code takes the interface value.
\<close>

type_synonym DatasetKind = string

abbreviation KindFilesystem :: DatasetKind where "KindFilesystem \<equiv> ''filesystem''"

abbreviation KindVolume :: DatasetKind where "KindVolume \<equiv> ''volume''"

abbreviation KindAll :: DatasetKind where "KindAll \<equiv> ''all''"

record Dataset =
  Dataset_Name :: string
  Dataset_Type :: DatasetKind
  Dataset_Mountpoint :: string

text \<open>An operation that only fails, and an operation that fails or yields a value.\<close>

type_synonym 's act = "'s \<Rightarrow> 's \<times> goerr option"
type_synonym ('s, 'a) query = "'s \<Rightarrow> 's \<times> (goerr + 'a)"

record 'z ZFS =
  CreateDataset :: "string \<Rightarrow> props \<Rightarrow> 'z act"
  CreateZvol :: "string \<Rightarrow> int \<Rightarrow> props \<Rightarrow> 'z act"
  Snapshot :: "string list \<Rightarrow> 'z act"
  Clone :: "string \<Rightarrow> string \<Rightarrow> props \<Rightarrow> 'z act"
  Promote :: "string \<Rightarrow> 'z act"
  Destroy :: "string \<Rightarrow> bool \<Rightarrow> 'z act"
  DestroySnapshotDeferred :: "string \<Rightarrow> 'z act"
  ListSnapshots :: "string \<Rightarrow> ('z, string list) query"
  Clones :: "string \<Rightarrow> ('z, string list) query"
  Get :: "string \<Rightarrow> string \<Rightarrow> ('z, string) query"
  SetProperty :: "string \<Rightarrow> string \<Rightarrow> string \<Rightarrow> 'z act"
  ListDatasets :: "DatasetKind \<Rightarrow> ('z, Dataset list) query"
  ApplyOwnership :: "string \<Rightarrow> int option \<Rightarrow> int option \<Rightarrow> string \<Rightarrow> 'z act"

text \<open>A process has more around it than ZFS: the operations of an implementation act on the first
  part of a larger state.\<close>

definition lift_op :: "('z \<Rightarrow> 'z \<times> 'r) \<Rightarrow> 'z \<times> 'k \<Rightarrow> ('z \<times> 'k) \<times> 'r" where
  "lift_op f w = (case f (fst w) of (z', r) \<Rightarrow> ((z', snd w), r))"

definition lift_ZFS :: "'z ZFS \<Rightarrow> ('z \<times> 'k) ZFS" where
  "lift_ZFS Z =
     \<lparr>CreateDataset = (\<lambda>n ps. lift_op (CreateDataset Z n ps)),
      CreateZvol = (\<lambda>n sz ps. lift_op (CreateZvol Z n sz ps)),
      Snapshot = (\<lambda>ns. lift_op (Snapshot Z ns)),
      Clone = (\<lambda>s d ps. lift_op (Clone Z s d ps)),
      Promote = (\<lambda>n. lift_op (Promote Z n)),
      Destroy = (\<lambda>n r. lift_op (Destroy Z n r)),
      DestroySnapshotDeferred = (\<lambda>s. lift_op (DestroySnapshotDeferred Z s)),
      ListSnapshots = (\<lambda>n. lift_op (ListSnapshots Z n)),
      Clones = (\<lambda>s. lift_op (Clones Z s)),
      Get = (\<lambda>n p. lift_op (Get Z n p)),
      SetProperty = (\<lambda>n p v. lift_op (SetProperty Z n p v)),
      ListDatasets = (\<lambda>k. lift_op (ListDatasets Z k)),
      ApplyOwnership = (\<lambda>mp u g md. lift_op (ApplyOwnership Z mp u g md))\<rparr>"

lemma lift_op_eq: "lift_op f w = (w', r) \<longleftrightarrow> (f (fst w) = (fst w', r) \<and> snd w' = snd w)"
  by (cases w') (auto simp: lift_op_def split: prod.splits)

lemma lift_ZFS_simps [simp]:
  "CreateDataset (lift_ZFS Z) n ps = lift_op (CreateDataset Z n ps)"
  "CreateZvol (lift_ZFS Z) n sz ps = lift_op (CreateZvol Z n sz ps)"
  "Snapshot (lift_ZFS Z) ns = lift_op (Snapshot Z ns)"
  "Clone (lift_ZFS Z) s d ps = lift_op (Clone Z s d ps)"
  "Promote (lift_ZFS Z) n = lift_op (Promote Z n)"
  "Destroy (lift_ZFS Z) n rc = lift_op (Destroy Z n rc)"
  "DestroySnapshotDeferred (lift_ZFS Z) s = lift_op (DestroySnapshotDeferred Z s)"
  "ListSnapshots (lift_ZFS Z) n = lift_op (ListSnapshots Z n)"
  "Clones (lift_ZFS Z) s = lift_op (Clones Z s)"
  "Get (lift_ZFS Z) n p = lift_op (Get Z n p)"
  "SetProperty (lift_ZFS Z) n p v = lift_op (SetProperty Z n p v)"
  "ListDatasets (lift_ZFS Z) k = lift_op (ListDatasets Z k)"
  "ApplyOwnership (lift_ZFS Z) mp u g md = lift_op (ApplyOwnership Z mp u g md)"
  by (simp_all add: lift_ZFS_def)

definition not_exist_err :: "string \<Rightarrow> goerr" where
  "not_exist_err name = GoErr (Some ErrNotExist) (''zfs: dataset does not exist: '' @ name)"

definition partially_exist_text :: string where
  "partially_exist_text = ''zfs: some of the requested snapshots already exist''"

text \<open>A full snapshot name is \<open>pool/dataset@snap\<close>.\<close>

definition snap_full :: "string \<Rightarrow> string \<Rightarrow> string" where
  "snap_full dn sn = dn @ ''@'' @ sn"

lemma errors_Is_not_exist [simp]: "errors_Is (not_exist_err n) s \<longleftrightarrow> s = ErrNotExist"
  by (auto simp: not_exist_err_def)

lemma snap_full_not_Nil [simp]: "snap_full dn sn \<noteq> ''''" "'''' \<noteq> snap_full dn sn"
  by (simp_all add: snap_full_def)

lemma at_in_snap_full [simp]: "CHR ''@'' \<in> set (snap_full dn sn)"
  by (simp add: snap_full_def)

lemma snap_full_inject [simp]:
  "CHR ''@'' \<notin> set dn \<Longrightarrow> CHR ''@'' \<notin> set dn' \<Longrightarrow>
   snap_full dn sn = snap_full dn' sn' \<longleftrightarrow> dn = dn' \<and> sn = sn'"
  unfolding snap_full_def using before_append [of "CHR ''@''"] after_append [of "CHR ''@''"]
  by (metis append_Cons append_Nil)

lemma snap_full_inject_snap [simp]: "snap_full dn sn = snap_full dn sn' \<longleftrightarrow> sn = sn'"
  by (simp add: snap_full_def)

end
