(* ===== verification/Kube.thy ===== *)
theory Kube
  imports ApiTypes ZfsApi
begin

text \<open>
  The Kubernetes libraries the controllers call. None of them is part of the repository, so each is a
  parameter: an interface value whose operations act on a state \<open>'w\<close>. The state is the world around
  the process (API server, informer cache, host), and every call may change it, so other processes
  that write between two calls, stale caches and failing calls are all included.

  The documented behaviour the properties need is stated by the predicates at the end of the theory.
\<close>

record 'w Reader =
  get_ZfsDataset :: "string \<Rightarrow> ('w, ZfsDataset) query"
  get_ZfsSnapshot :: "string \<Rightarrow> ('w, ZfsSnapshot) query"
  get_ZfsGroupSnapshot :: "string \<Rightarrow> ('w, ZfsGroupSnapshot) query"
  get_ZfsPool :: "string \<Rightarrow> ('w, ZfsPool) query"
  get_ZfsShare :: "string \<Rightarrow> ('w, ZfsShare) query"
  list_ZfsDataset :: "('w, ZfsDataset list) query"
  list_ZfsSnapshot :: "('w, ZfsSnapshot list) query"
  list_ZfsGroupSnapshot :: "('w, ZfsGroupSnapshot list) query"
  list_ZfsPool :: "('w, ZfsPool list) query"
  list_NetworkExport :: "('w, NetworkExport list) query"
  list_ZfsShareAttachRequest :: "('w, ZfsShareAttachRequest list) query"

text \<open>\<open>Update\<close> writes a whole object, \<open>Status().Patch(new, MergeFrom(old))\<close> the difference of two.\<close>

record 'w Client = "'w Reader" +
  update_ZfsDataset :: "ZfsDataset \<Rightarrow> 'w act"
  patch_status_ZfsDataset :: "ZfsDataset \<Rightarrow> ZfsDataset \<Rightarrow> 'w act"
  update_ZfsSnapshot :: "ZfsSnapshot \<Rightarrow> 'w act"
  patch_status_ZfsSnapshot :: "ZfsSnapshot \<Rightarrow> ZfsSnapshot \<Rightarrow> 'w act"
  create_ZfsSnapshot :: "ZfsSnapshot \<Rightarrow> 'w act"
  delete_ZfsSnapshot :: "ZfsSnapshot \<Rightarrow> 'w act"
  update_ZfsGroupSnapshot :: "ZfsGroupSnapshot \<Rightarrow> 'w act"
  patch_status_ZfsGroupSnapshot :: "ZfsGroupSnapshot \<Rightarrow> ZfsGroupSnapshot \<Rightarrow> 'w act"

text \<open>\<open>controllerutil\<close>, \<open>meta.SetStatusCondition\<close>, \<open>retry.RetryOnConflict\<close> and the clock.\<close>

record 'w KubeLib =
  ContainsFinalizer :: "ObjectMeta \<Rightarrow> string \<Rightarrow> bool"
  AddFinalizer :: "ObjectMeta \<Rightarrow> string \<Rightarrow> ObjectMeta"
  RemoveFinalizer :: "ObjectMeta \<Rightarrow> string \<Rightarrow> ObjectMeta \<times> bool"
  SetStatusCondition :: "Condition list \<Rightarrow> Condition \<Rightarrow> Condition list"
  RetryOnConflict :: "'w act \<Rightarrow> 'w act"
  Now :: "'w \<Rightarrow> 'w \<times> Time"

definition IgnoreNotFound :: "goerr \<Rightarrow> goerr option" where
  "IgnoreNotFound e = (if IsNotFound e then None else Some e)"

text \<open>The result of a reconcile: requeue after so many milliseconds (0 for none), and the error.\<close>

record Result =
  RequeueAfter :: int

abbreviation no_requeue :: Result where "no_requeue \<equiv> \<lparr>RequeueAfter = 0\<rparr>"

type_synonym 'w reconcile = "'w \<Rightarrow> 'w \<times> Result \<times> goerr option"

definition done_with :: "'w \<times> goerr option \<Rightarrow> 'w \<times> Result \<times> goerr option" where
  "done_with r = (fst r, no_requeue, snd r)"

definition requeue_with :: "int \<Rightarrow> 'w \<times> goerr option \<Rightarrow> 'w \<times> Result \<times> goerr option" where
  "requeue_with t r = (fst r, \<lparr>RequeueAfter = t\<rparr>, snd r)"

text \<open>\<open>zpool.ResourceName\<close> of \<open>src/internal/zpool/discover.go\<close>.\<close>

definition ResourceName :: "string \<Rightarrow> string" where
  "ResourceName guid = ''zpool-'' @ guid"

subsection \<open>Documented behaviour\<close>

text \<open>
  \<open>ContainsFinalizer\<close>, \<open>AddFinalizer\<close> and \<open>RemoveFinalizer\<close> treat the finalizers as a list of
  distinct strings; \<open>RetryOnConflict\<close> runs its function again while it reports a conflict, at least
  once, and returns what the last run returned.
\<close>

inductive retried :: "'w act \<Rightarrow> 'w \<Rightarrow> 'w \<times> goerr option \<Rightarrow> bool" for f where
  once: "retried f w (f w)"
| again: "f w = (w', Some e) \<Longrightarrow> errors_Is e StatusConflict \<Longrightarrow> retried f w' r \<Longrightarrow> retried f w r"

locale kube_lib =
  fixes L :: "'w KubeLib"
  assumes ContainsFinalizer_iff: "ContainsFinalizer L m f \<longleftrightarrow> f \<in> set (om_Finalizers m)"
    and AddFinalizer_eq: "AddFinalizer L m f =
      (if f \<in> set (om_Finalizers m) then m else m\<lparr>om_Finalizers := om_Finalizers m @ [f]\<rparr>)"
    and RemoveFinalizer_eq: "RemoveFinalizer L m f =
      (m\<lparr>om_Finalizers := filter (\<lambda>x. x \<noteq> f) (om_Finalizers m)\<rparr>, f \<in> set (om_Finalizers m))"
    and RetryOnConflict_retried: "retried act w (RetryOnConflict L act w)"
begin

text \<open>What holds of every single run, and is kept by it, holds after the retries.\<close>

lemma retry_invariant:
  assumes "I w" and "\<And>w w' r. I w \<Longrightarrow> f w = (w', r) \<Longrightarrow> I w'"
  shows "I (fst (RetryOnConflict L f w))"
proof -
  have "retried f w r \<Longrightarrow> I w \<Longrightarrow> I (fst r)" for w r
  proof (induction rule: retried.induct)
    case (once w)
    then show ?case using assms(2) [of w] by (cases "f w") auto
  qed (use assms(2) in blast)
  then show ?thesis using assms(1) RetryOnConflict_retried by blast
qed

lemma retry_last:
  assumes "\<And>w w'. f w = (w', None) \<Longrightarrow> P w'" "RetryOnConflict L f w = (w1, None)"
  shows "P w1"
proof -
  have "retried f w r \<Longrightarrow> snd r = None \<Longrightarrow> P (fst r)" for w r
    by (induction rule: retried.induct) (use assms(1) in \<open>auto intro: prod.exhaust_sel\<close>, metis prod.exhaust_sel)
  then show ?thesis using assms(2) RetryOnConflict_retried [of f w] by fastforce
qed

end

text \<open>An implementation that is as documented: \<open>DefaultRetry\<close> makes five attempts.\<close>

fun retry_steps :: "nat \<Rightarrow> 'w act \<Rightarrow> 'w act" where
  "retry_steps 0 f w = f w"
| "retry_steps (Suc k) f w =
     (case f w of
        (w', Some e) \<Rightarrow> if errors_Is e StatusConflict then retry_steps k f w' else (w', Some e)
      | (w', None) \<Rightarrow> (w', None))"

definition set_condition :: "Condition list \<Rightarrow> Condition \<Rightarrow> Condition list" where
  "set_condition cs c =
     (if cond_Type c \<in> cond_Type ` set cs
      then map (\<lambda>x. if cond_Type x = cond_Type c then c else x) cs else cs @ [c])"

definition std_lib :: "('w \<Rightarrow> Time) \<Rightarrow> 'w KubeLib" where
  "std_lib clock =
     \<lparr>ContainsFinalizer = (\<lambda>m f. f \<in> set (om_Finalizers m)),
      AddFinalizer = (\<lambda>m f. if f \<in> set (om_Finalizers m) then m
                            else m\<lparr>om_Finalizers := om_Finalizers m @ [f]\<rparr>),
      RemoveFinalizer = (\<lambda>m f. (m\<lparr>om_Finalizers := filter (\<lambda>x. x \<noteq> f) (om_Finalizers m)\<rparr>,
                                f \<in> set (om_Finalizers m))),
      SetStatusCondition = set_condition,
      RetryOnConflict = retry_steps 4,
      Now = (\<lambda>w. (w, clock w))\<rparr>"

lemma retried_retry_steps: "retried f w (retry_steps k f w)"
proof (induction k arbitrary: w)
  case (Suc k)
  show ?case
  proof (cases "\<exists>w' e. f w = (w', Some e) \<and> errors_Is e StatusConflict")
    case True
    then obtain w' e where "f w = (w', Some e)" "errors_Is e StatusConflict" by blast
    then show ?thesis using retried.again [of f w w' e, OF _ _ Suc] by simp
  next
    case False
    then have "retry_steps (Suc k) f w = f w" by (auto split: prod.splits option.splits)
    then show ?thesis by (simp only: retried.once)
  qed
qed (simp add: retried.once)

interpretation std: kube_lib "std_lib clock"
  by unfold_locales (simp_all add: std_lib_def retried_retry_steps)

end
