(* ===== verification/RawLocate.thy ===== *)
theory RawLocate
  imports Kube
begin

text \<open>
  \<open>src/internal/controller/rawlocate.go\<close> and the naming helpers the dataset and snapshot controllers
  share: full ZFS names, the backing clone's name, where a raw snapshot is now, and the time and size
  read back from ZFS.
\<close>

definition datasetName :: "string \<Rightarrow> string \<Rightarrow> goerr + string" where
  "datasetName poolName ds0 =
     (if poolName = '''' then Inl (errorf ''pool name is unknown'')
      else let ds = Trim CHR ''/'' ds0 in
        if ds = '''' then Inl (errorf ''dataset is empty'') else Inr (poolName @ ''/'' @ ds))"

definition snapshotFullName :: "string \<Rightarrow> string \<Rightarrow> string \<Rightarrow> goerr + string" where
  "snapshotFullName poolName ds0 snapName =
     (if poolName = '''' then Inl (errorf ''pool name is unknown'')
      else let ds = Trim CHR ''/'' ds0 in
        if ds = '''' then Inl (errorf ''dataset is empty'')
        else if snapName = '''' then Inl (errorf ''snapshot name is empty'')
        else Inr (poolName @ ''/'' @ ds @ ''@'' @ snapName))"

definition backingCloneFullName :: "string \<Rightarrow> string \<Rightarrow> string \<Rightarrow> string" where
  "backingCloneFullName poolName sourceDataset snapshotName =
     poolName @ ''/'' @ path_Join [path_Dir (Trim CHR ''/'' sourceDataset), snapshotName]"

text \<open>Does the object exist? An error other than "does not exist" is passed on.\<close>

definition zfs_exists :: "'w ZFS \<Rightarrow> string \<Rightarrow> ('w, bool) query" where
  "zfs_exists z n w =
     (case Get z n ''type'' w of
        (w1, Inl e) \<Rightarrow> (w1, if errors_Is e ErrNotExist then Inr False else Inl e)
      | (w1, Inr _) \<Rightarrow> (w1, Inr True))"

fun first_existing :: "'w ZFS \<Rightarrow> string list \<Rightarrow> ('w, string) query" where
  "first_existing z [] w = (w, Inr '''')"
| "first_existing z (cand # cs) w =
     (case zfs_exists z cand w of
        (w1, Inl e) \<Rightarrow> (w1, Inl e)
      | (w1, Inr ok) \<Rightarrow> if ok then (w1, Inr cand) else first_existing z cs w1)"

definition locateRawSnapshot :: "'w ZFS \<Rightarrow> string \<Rightarrow> string \<Rightarrow> string \<Rightarrow> ('w, string) query" where
  "locateRawSnapshot z backingFull recordedRaw suffix w =
     (let rest = first_existing z [backingFull @ ''@'' @ suffix, recordedRaw] in
      case Get z backingFull ''origin'' w of
        (w1, Inl e) \<Rightarrow> if errors_Is e ErrNotExist then rest w1 else (w1, Inl e)
      | (w1, Inr origin0) \<Rightarrow>
          (let origin = TrimSpace origin0 in
           if HasSuffix origin (''@'' @ suffix) then
             (case zfs_exists z origin w1 of
                (w2, Inl e) \<Rightarrow> (w2, Inl e)
              | (w2, Inr ok) \<Rightarrow> if ok then (w2, Inr origin) else rest w2)
           else rest w1))"

definition resolveDatasetPath :: "('w, 'b) Reader_scheme \<Rightarrow> string \<Rightarrow> string \<Rightarrow> ('w, string) query" where
  "resolveDatasetPath reader sourceVolume recorded w =
     (if sourceVolume = '''' then (w, Inr recorded)
      else (case get_ZfsDataset reader sourceVolume w of
              (w1, Inl e) \<Rightarrow> (w1, if IsNotFound e then Inr recorded else Inl e)
            | (w1, Inr src) \<Rightarrow> (w1, Inr (zds_Dataset (zd_Spec src)))))"

text \<open>\<open>time.Unix(sec, 0)\<close> is the time of that many seconds.\<close>

definition snapshotCreationTime :: "'w KubeLib \<Rightarrow> 'w ZFS \<Rightarrow> string \<Rightarrow> 'w \<Rightarrow> 'w \<times> Time" where
  "snapshotCreationTime L z full w =
     (case Get z full ''creation'' w of
        (w1, Inl e) \<Rightarrow> Now L w1
      | (w1, Inr val) \<Rightarrow>
          (case ParseInt (TrimSpace val) of (sec, bad) \<Rightarrow>
             if \<not> bad \<and> sec > 0 then (w1, sec) else Now L w1))"

definition snapshotRestoreSize :: "'w ZFS \<Rightarrow> string \<Rightarrow> 'w \<Rightarrow> 'w \<times> Quantity option" where
  "snapshotRestoreSize z full w =
     (case Get z full ''referenced'' w of
        (w1, Inl e) \<Rightarrow> (w1, None)
      | (w1, Inr val) \<Rightarrow>
          (case ParseInt (TrimSpace val) of (n, bad) \<Rightarrow>
             if bad \<or> n < 0 then (w1, None) else (w1, Some (NewQuantity n))))"

text \<open>Is the pool served by this node? (\<open>hostedHere\<close> in every reconciler of the agent.)\<close>

definition hosted_here :: "string \<Rightarrow> ZfsPool option \<Rightarrow> bool" where
  "hosted_here nodeName pool =
     (case pool of
        None \<Rightarrow> False
      | Some p \<Rightarrow> zpst_CurrentNode (zp_Status p) = nodeName \<and>
                  zpst_Health (zp_Status p) \<noteq> PoolHealthNodeOffline)"

text \<open>Reading the pool: a missing object is no error.\<close>

definition get_pool :: "('w, 'b) Reader_scheme \<Rightarrow> string \<Rightarrow> ('w, ZfsPool option) query" where
  "get_pool c guid w =
     (case get_ZfsPool c (ResourceName guid) w of
        (w1, Inl e) \<Rightarrow> (w1, if IsNotFound e then Inr None else Inl e)
      | (w1, Inr p) \<Rightarrow> (w1, Inr (Some p)))"

text \<open>The pool an event is about: its GUID, or the one in its object name.\<close>

definition pool_guid :: "ZfsPool \<Rightarrow> string" where
  "pool_guid p = (if zpst_GUID (zp_Status p) = '''' then TrimPrefix (om_Name (zp_Meta p)) ''zpool-''
                  else zpst_GUID (zp_Status p))"

abbreviation lostRecheckInterval :: int where "lostRecheckInterval \<equiv> 60000"

end
