(* ===== verification/GroupController.thy ===== *)
theory GroupController
  imports RawLocate
begin

text \<open>
  \<open>src/internal/controller/zfsgroupsnapshot_controller.go\<close>: the node agent that takes the raw
  snapshots of all members of a ZfsGroupSnapshot in one ZFS call, creates the member ZfsSnapshots
  that adopt them, derives the phase of the group from its members, and deletes them with the group.
\<close>

abbreviation zfsGroupSnapshotFinalizer :: string where
  "zfsGroupSnapshotFinalizer \<equiv> ''storage.simple-zfs-csi.io/zfsgroupsnapshot''"

abbreviation groupRequeue :: int where "groupRequeue \<equiv> 5000"

record 'w ZfsGroupSnapshotReconciler =
  gr_Client :: "'w Client"
  gr_Lib :: "'w KubeLib"
  gr_NodeName :: string
  gr_ZFS :: "'w ZFS"
  gr_APIReader :: "'w Reader option"

definition gr_gateReader :: "'w ZfsGroupSnapshotReconciler \<Rightarrow> 'w Reader" where
  "gr_gateReader r = (case gr_APIReader r of Some rd \<Rightarrow> rd | None \<Rightarrow> Reader.truncate (gr_Client r))"

subsection \<open>Status and finalizer\<close>

text \<open>\<open>patchStatus\<close> yields the object with the status it now has; it writes only a change.\<close>

definition gr_patchStatus ::
  "'w ZfsGroupSnapshotReconciler \<Rightarrow> ZfsGroupSnapshot \<Rightarrow> (ZfsGroupSnapshotStatus \<Rightarrow> 'w \<Rightarrow> 'w \<times> ZfsGroupSnapshotStatus)
     \<Rightarrow> ('w, ZfsGroupSnapshot) query" where
  "gr_patchStatus r grp mutate w =
     (case mutate (zg_Status grp) w of (w1, st) \<Rightarrow>
        if zg_Status grp = st then (w1, Inr grp)
        else (case patch_status_ZfsGroupSnapshot (gr_Client r) grp (grp\<lparr>zg_Status := st\<rparr>) w1 of
                (w2, Some e) \<Rightarrow> (w2, Inl e)
              | (w2, None) \<Rightarrow> (w2, Inr (grp\<lparr>zg_Status := st\<rparr>))))"

definition group_status ::
  "'w KubeLib \<Rightarrow> int \<Rightarrow> ZfsGroupSnapshotPhase \<Rightarrow> string \<Rightarrow> string \<Rightarrow> ZfsGroupSnapshotStatus \<Rightarrow> 'w \<Rightarrow> 'w \<times> ZfsGroupSnapshotStatus" where
  "group_status L gen phase reason message st w =
     (case (if phase = GroupSnapshotPhaseReady \<and> zgst_ProvisionedAt st = None
            then (case Now L w of (w1, now) \<Rightarrow> (w1, Some now)) else (w, zgst_ProvisionedAt st)) of
        (w1, prov) \<Rightarrow>
          (w1, st\<lparr>zgst_Phase := phase, zgst_ReadyToUse := (phase = GroupSnapshotPhaseReady),
                  zgst_ObservedGeneration := gen, zgst_Message := message, zgst_ProvisionedAt := prov,
                  zgst_Conditions := SetStatusCondition L (zgst_Conditions st)
                    \<lparr>cond_Type = ''Ready'', cond_Status = (phase = GroupSnapshotPhaseReady), cond_Reason = reason,
                     cond_Message = message, cond_ObservedGeneration = gen, cond_LastTransitionTime = None\<rparr>\<rparr>))"

definition gr_setStatus ::
  "'w ZfsGroupSnapshotReconciler \<Rightarrow> ZfsGroupSnapshot \<Rightarrow> ZfsGroupSnapshotPhase \<Rightarrow> string \<Rightarrow> string \<Rightarrow> 'w act" where
  "gr_setStatus r grp phase reason message w =
     (case gr_patchStatus r grp (group_status (gr_Lib r) (om_Generation (zg_Meta grp)) phase reason message) w of
        (w1, Inl e) \<Rightarrow> (w1, Some e)
      | (w1, Inr _) \<Rightarrow> (w1, None))"

definition release_group_once :: "'w ZfsGroupSnapshotReconciler \<Rightarrow> string \<Rightarrow> 'w act" where
  "release_group_once r n w =
     (case get_ZfsGroupSnapshot (gr_Client r) n w of
        (w1, Inl e) \<Rightarrow> (w1, IgnoreNotFound e)
      | (w1, Inr cur) \<Rightarrow>
          (case RemoveFinalizer (gr_Lib r) (zg_Meta cur) zfsGroupSnapshotFinalizer of (meta, removed) \<Rightarrow>
             if \<not> removed then (w1, None)
             else update_ZfsGroupSnapshot (gr_Client r) (cur\<lparr>zg_Meta := meta\<rparr>) w1))"

definition gr_releaseFinalizer :: "'w ZfsGroupSnapshotReconciler \<Rightarrow> ZfsGroupSnapshot \<Rightarrow> 'w act" where
  "gr_releaseFinalizer r grp = RetryOnConflict (gr_Lib r) (release_group_once r (om_Name (zg_Meta grp)))"

subsection \<open>Members\<close>

text \<open>The full names of a member's raw snapshot and of its source dataset.\<close>

definition memberRaw :: "('w, 'b) Reader_scheme \<Rightarrow> string \<Rightarrow> ZfsGroupSnapshotMember \<Rightarrow> ('w, string \<times> string) query" where
  "memberRaw reader poolName m w =
     (case resolveDatasetPath reader (gm_SourceVolume m) (gm_Dataset m) w of
        (w1, Inl e) \<Rightarrow> (w1, Inl e)
      | (w1, Inr path) \<Rightarrow>
          (w1, case snapshotFullName poolName path (gm_SnapshotName m) of
                 Inl e \<Rightarrow> Inl e
               | Inr raw \<Rightarrow> (case datasetName poolName path of Inl e \<Rightarrow> Inl e | Inr ds \<Rightarrow> Inr (raw, ds))))"

definition gr_exists :: "'w ZfsGroupSnapshotReconciler \<Rightarrow> string \<Rightarrow> ('w, bool) query" where
  "gr_exists r = zfs_exists (gr_ZFS r)"

definition sourceBlocker :: "'w ZfsGroupSnapshotReconciler \<Rightarrow> ZfsGroupSnapshotMember \<Rightarrow> string \<Rightarrow> ('w, string) query" where
  "sourceBlocker r m datasetFull w =
     (let dataset_there = (\<lambda>w. case gr_exists r datasetFull w of
            (w1, Inl e) \<Rightarrow> (w1, Inl e)
          | (w1, Inr ok) \<Rightarrow> (w1, Inr (if ok then '''' else
              ''source dataset '' @ datasetFull @ '' of volume '' @ Quote (gm_SourceVolume m) @ '' does not exist'')))
      in case get_ZfsDataset (gr_Client r) (gm_SourceVolume m) w of
           (w1, Inl e) \<Rightarrow> if IsNotFound e then dataset_there w1 else (w1, Inl e)
         | (w1, Inr src) \<Rightarrow>
             if om_DeletionTimestamp (zd_Meta src) \<noteq> None
             then (w1, Inr (''source volume '' @ Quote (gm_SourceVolume m) @ '' is being deleted''))
             else dataset_there w1)"

text \<open>What the first loop of \<open>provision\<close> finds: the names of every member and whether its raw snapshot
  exists. A name that cannot be built is reported in the status, a failing lookup is retried.\<close>

datatype scan_error = InvalidMember goerr | LookupFailed goerr

fun scan_members ::
  "'w ZfsGroupSnapshotReconciler \<Rightarrow> string \<Rightarrow> ZfsGroupSnapshotMember list
     \<Rightarrow> 'w \<Rightarrow> 'w \<times> (scan_error + (string \<times> string \<times> bool) list)" where
  "scan_members r poolName [] w = (w, Inr [])"
| "scan_members r poolName (m # ms) w =
     (case memberRaw (gr_Client r) poolName m w of
        (w1, Inl e) \<Rightarrow> (w1, Inl (InvalidMember e))
      | (w1, Inr (raw, ds)) \<Rightarrow>
          (case gr_exists r raw w1 of
             (w2, Inl e) \<Rightarrow> (w2, Inl (LookupFailed e))
           | (w2, Inr ok) \<Rightarrow>
               (case scan_members r poolName ms w2 of
                  (w3, Inl e) \<Rightarrow> (w3, Inl e)
                | (w3, Inr rest) \<Rightarrow> (w3, Inr ((raw, ds, ok) # rest)))))"

text \<open>The loop that asks every member's source; it stops at the first one that blocks.\<close>

fun first_blocker :: "'w ZfsGroupSnapshotReconciler \<Rightarrow> (ZfsGroupSnapshotMember \<times> string) list \<Rightarrow> ('w, string) query" where
  "first_blocker r [] w = (w, Inr '''')"
| "first_blocker r ((m, ds) # ms) w =
     (case sourceBlocker r m ds w of
        (w1, Inl e) \<Rightarrow> (w1, Inl e)
      | (w1, Inr msg) \<Rightarrow> if msg \<noteq> '''' then (w1, Inr msg) else first_blocker r ms w1)"

definition child_of :: "ZfsGroupSnapshot \<Rightarrow> ZfsGroupSnapshotMember \<Rightarrow> ZfsSnapshot" where
  "child_of grp m =
     \<lparr>zs_Meta = new_meta (gm_ZfsSnapshotRef m),
      zs_Spec = \<lparr>zss_PoolGUID = zgs_PoolGUID (zg_Spec grp), zss_Dataset = gm_Dataset m,
        zss_SnapshotName = gm_SnapshotName m, zss_SourceVolume = gm_SourceVolume m,
        zss_SourceType = gm_SourceType m, zss_SourceFSType = gm_SourceFSType m,
        zss_SourceVolblocksize = gm_SourceVolblocksize m, zss_SourceProperties = gm_SourceProperties m,
        zss_GroupSnapshotID = om_Name (zg_Meta grp)\<rparr>,
      zs_Status = zero_snapshot_status\<rparr>"

fun create_children :: "'w ZfsGroupSnapshotReconciler \<Rightarrow> ZfsGroupSnapshot \<Rightarrow> ZfsGroupSnapshotMember list \<Rightarrow> 'w act" where
  "create_children r grp [] w = (w, None)"
| "create_children r grp (m # ms) w =
     (case create_ZfsSnapshot (gr_Client r) (child_of grp m) w of
        (w1, None) \<Rightarrow> create_children r grp ms w1
      | (w1, Some e) \<Rightarrow>
          if errors_Is e StatusAlreadyExists then create_children r grp ms w1
          else (w1, Some (wrapf (''create member ZfsSnapshot '' @ Quote (gm_ZfsSnapshotRef m) @ '': '') e)))"

definition ensureChildren :: "'w ZfsGroupSnapshotReconciler \<Rightarrow> ZfsGroupSnapshot \<Rightarrow> 'w act" where
  "ensureChildren r grp = create_children r grp (zgs_Members (zg_Spec grp))"

subsection \<open>The phase of the group\<close>

record member_report =
  mr_missing :: "string list"
  mr_notReady :: "string list"
  mr_failed :: "string list"

definition report_child :: "ZfsSnapshot \<Rightarrow> member_report \<Rightarrow> member_report" where
  "report_child child rep =
     (if zsst_Phase (zs_Status child) = SnapshotPhaseError then
        rep\<lparr>mr_failed := mr_failed rep @ [om_Name (zs_Meta child) @ '': '' @ zsst_Message (zs_Status child)]\<rparr>
      else if \<not> (zsst_Phase (zs_Status child) = SnapshotPhaseReady \<and> zsst_ReadyToUse (zs_Status child)) then
        rep\<lparr>mr_notReady := mr_notReady rep @ [om_Name (zs_Meta child)]\<rparr>
      else rep)"

fun report_members :: "('w, 'b) Reader_scheme \<Rightarrow> ZfsGroupSnapshotMember list \<Rightarrow> member_report \<Rightarrow> ('w, member_report) query" where
  "report_members c [] rep w = (w, Inr rep)"
| "report_members c (m # ms) rep w =
     (case get_ZfsSnapshot c (gm_ZfsSnapshotRef m) w of
        (w1, Inl e) \<Rightarrow>
          if IsNotFound e then report_members c ms (rep\<lparr>mr_missing := mr_missing rep @ [gm_ZfsSnapshotRef m]\<rparr>) w1
          else (w1, Inl e)
      | (w1, Inr child) \<Rightarrow> report_members c ms (report_child child rep) w1)"

definition gr_derive :: "'w ZfsGroupSnapshotReconciler \<Rightarrow> ZfsGroupSnapshot \<Rightarrow> bool \<Rightarrow> 'w reconcile" where
  "gr_derive r grp provisioning w =
     (case report_members (gr_Client r) (zgs_Members (zg_Spec grp)) \<lparr>mr_missing = [], mr_notReady = [], mr_failed = []\<rparr> w of
        (w1, Inl e) \<Rightarrow> (w1, no_requeue, Some e)
      | (w1, Inr rep) \<Rightarrow>
          if mr_failed rep \<noteq> [] \<and> provisioning then
            done_with (gr_setStatus r grp GroupSnapshotPhaseError ''MemberFailed'' (Join ''; '' (mr_failed rep)) w1)
          else if mr_missing rep = [] \<and> mr_notReady rep = [] \<and> mr_failed rep = [] then
            done_with (gr_setStatus r grp GroupSnapshotPhaseReady ''Ready''
              (''all '' @ FormatInt (int (length (zgs_Members (zg_Spec grp)))) @ '' member snapshots are ready'') w1)
          else if provisioning then
            requeue_with groupRequeue (gr_setStatus r grp GroupSnapshotPhasePending ''WaitingForMembers''
              (''waiting for member snapshots: '' @ Join '', '' (mr_missing rep @ mr_notReady rep)) w1)
          else
            done_with (gr_setStatus r grp GroupSnapshotPhaseLost ''MembersLost''
              (''member snapshots missing or not ready: '' @
               Join '', '' (mr_missing rep @ mr_notReady rep @ mr_failed rep) @ ''; nothing is re-created'') w1))"

definition gr_observe :: "'w ZfsGroupSnapshotReconciler \<Rightarrow> ZfsGroupSnapshot \<Rightarrow> 'w reconcile" where
  "gr_observe r grp = gr_derive r grp False"

subsection \<open>Provisioning\<close>

text \<open>After the snapshots exist: the creation time once, the children, the phase. An empty member list
  has no first raw snapshot, where Go panics; the resource's validation rules it out.\<close>

definition gr_adopt :: "'w ZfsGroupSnapshotReconciler \<Rightarrow> ZfsGroupSnapshot \<Rightarrow> string list \<Rightarrow> 'w reconcile" where
  "gr_adopt r grp raws w =
     (let go_on = (\<lambda>grp w. case ensureChildren r grp w of
            (w1, Some e) \<Rightarrow> (w1, no_requeue, Some e)
          | (w1, None) \<Rightarrow> gr_derive r grp True w1)
      in if zgst_CreationTime (zg_Status grp) \<noteq> None then go_on grp w
         else (case raws of
                 [] \<Rightarrow> (w, no_requeue, Some go_panic)
               | raw # _ \<Rightarrow>
                   (case snapshotCreationTime (gr_Lib r) (gr_ZFS r) raw w of (w1, creation) \<Rightarrow>
                      (case gr_patchStatus r grp (\<lambda>st w. (w, st\<lparr>zgst_CreationTime := Some creation\<rparr>)) w1 of
                         (w2, Inl e) \<Rightarrow> (w2, no_requeue, Some e)
                       | (w2, Inr grp') \<Rightarrow> go_on grp' w2))))"

text \<open>The three-way decision on how many of the raw snapshots exist.\<close>

definition gr_take :: "'w ZfsGroupSnapshotReconciler \<Rightarrow> ZfsGroupSnapshot \<Rightarrow> string list \<Rightarrow> nat \<Rightarrow> 'w reconcile" where
  "gr_take r grp raws present w =
     (if present = length raws then gr_adopt r grp raws w
      else if present = 0 then
        (case Snapshot (gr_ZFS r) raws w of
           (w1, Some e) \<Rightarrow>
             if errors_Is e ErrSnapshotsPartiallyExist
             then done_with (gr_setStatus r grp GroupSnapshotPhaseError ''PartialRawSnapshots'' (err_text e) w1)
             else (fst (gr_setStatus r grp GroupSnapshotPhasePending ''SnapshotFailed'' (err_text e) w1), no_requeue, Some e)
         | (w1, None) \<Rightarrow> gr_adopt r grp raws w1)
      else done_with (gr_setStatus r grp GroupSnapshotPhaseError ''PartialRawSnapshots''
             (FormatInt (int present) @ '' of '' @ FormatInt (int (length raws)) @
              '' raw snapshots exist; refusing to take the rest at a different instant'') w))"

definition gr_provision :: "'w ZfsGroupSnapshotReconciler \<Rightarrow> ZfsGroupSnapshot \<Rightarrow> ZfsPool \<Rightarrow> 'w reconcile" where
  "gr_provision r grp0 p w =
     (case get_ZfsGroupSnapshot (gr_gateReader r) (om_Name (zg_Meta grp0)) w of
        (w1, Inl e) \<Rightarrow> (w1, no_requeue, IgnoreNotFound e)
      | (w1, Inr fresh) \<Rightarrow>
          if om_DeletionTimestamp (zg_Meta fresh) \<noteq> None \<or> zgst_ProvisionedAt (zg_Status fresh) \<noteq> None
          then (w1, \<lparr>RequeueAfter = 1000\<rparr>, None)
          else
            (let grp = grp0\<lparr>zg_Status := zg_Status fresh\<rparr>; ms = zgs_Members (zg_Spec grp) in
             case scan_members r (zpst_PoolName (zp_Status p)) ms w1 of
               (w2, Inl (InvalidMember e)) \<Rightarrow>
                 done_with (gr_setStatus r grp GroupSnapshotPhaseError ''InvalidGroupSnapshot'' (err_text e) w2)
             | (w2, Inl (LookupFailed e)) \<Rightarrow> (w2, no_requeue, Some e)
             | (w2, Inr found) \<Rightarrow>
                 (let raws = map fst found; present = length (filter (\<lambda>x. snd (snd x)) found) in
                  if present \<noteq> 0 then gr_take r grp raws present w2
                  else (case first_blocker r (zip ms (map (\<lambda>x. fst (snd x)) found)) w2 of
                          (w3, Inl e) \<Rightarrow> (w3, no_requeue, Some e)
                        | (w3, Inr msg) \<Rightarrow>
                            if msg \<noteq> ''''
                            then requeue_with groupRequeue
                                   (gr_setStatus r grp GroupSnapshotPhasePending ''SourceUnavailable'' msg w3)
                            else gr_take r grp raws present w3))))"

subsection \<open>Deleting\<close>

text \<open>The loop over the members: how many member objects are still there.\<close>

fun delete_members ::
  "'w ZfsGroupSnapshotReconciler \<Rightarrow> bool \<Rightarrow> string \<Rightarrow> ZfsGroupSnapshotMember list \<Rightarrow> nat \<Rightarrow> ('w, nat) query" where
  "delete_members r clean poolName [] remaining w = (w, Inr remaining)"
| "delete_members r clean poolName (m # ms) remaining w =
     (case get_ZfsSnapshot (gr_gateReader r) (gm_ZfsSnapshotRef m) w of
        (w1, Inr child) \<Rightarrow>
          if om_DeletionTimestamp (zs_Meta child) \<noteq> None then delete_members r clean poolName ms (remaining + 1) w1
          else (case delete_ZfsSnapshot (gr_Client r) child w1 of
                  (w2, None) \<Rightarrow> delete_members r clean poolName ms (remaining + 1) w2
                | (w2, Some e) \<Rightarrow> if IsNotFound e then delete_members r clean poolName ms (remaining + 1) w2
                                   else (w2, Inl e))
      | (w1, Inl e) \<Rightarrow>
          if \<not> IsNotFound e then (w1, Inl e)
          else if \<not> clean then delete_members r clean poolName ms remaining w1
          else (case memberRaw (gr_gateReader r) poolName m w1 of
                  (w2, Inl e2) \<Rightarrow> (w2, Inl e2)
                | (w2, Inr (raw, _)) \<Rightarrow>
                    (case Destroy (gr_ZFS r) raw False w2 of
                       (w3, Some e3) \<Rightarrow> (w3, Inl e3)
                     | (w3, None) \<Rightarrow> delete_members r clean poolName ms remaining w3)))"

definition gr_reconcileDelete :: "'w ZfsGroupSnapshotReconciler \<Rightarrow> ZfsGroupSnapshot \<Rightarrow> string \<Rightarrow> bool \<Rightarrow> 'w reconcile" where
  "gr_reconcileDelete r grp0 poolName hostedHere w =
     (case get_ZfsGroupSnapshot (gr_gateReader r) (om_Name (zg_Meta grp0)) w of
        (w1, Inl e) \<Rightarrow> (w1, no_requeue, IgnoreNotFound e)
      | (w1, Inr grp) \<Rightarrow>
          (case delete_members r (zgst_ProvisionedAt (zg_Status grp) = None \<and> hostedHere) poolName
                  (zgs_Members (zg_Spec grp)) 0 w1 of
             (w2, Inl e) \<Rightarrow> (w2, no_requeue, Some e)
           | (w2, Inr remaining) \<Rightarrow>
               if remaining > 0 then (w2, \<lparr>RequeueAfter = groupRequeue\<rparr>, None)
               else done_with (gr_releaseFinalizer r grp w2)))"

subsection \<open>Reconcile\<close>

definition gr_hosted :: "'w ZfsGroupSnapshotReconciler \<Rightarrow> ZfsGroupSnapshot \<Rightarrow> ZfsPool \<Rightarrow> 'w reconcile" where
  "gr_hosted r grp p w =
     (if \<not> ContainsFinalizer (gr_Lib r) (zg_Meta grp) zfsGroupSnapshotFinalizer then
        done_with (update_ZfsGroupSnapshot (gr_Client r)
          (grp\<lparr>zg_Meta := AddFinalizer (gr_Lib r) (zg_Meta grp) zfsGroupSnapshotFinalizer\<rparr>) w)
      else if zgst_ProvisionedAt (zg_Status grp) \<noteq> None then gr_observe r grp w
      else gr_provision r grp p w)"

definition gr_Reconcile :: "'w ZfsGroupSnapshotReconciler \<Rightarrow> string \<Rightarrow> 'w reconcile" where
  "gr_Reconcile r req w =
     (case get_ZfsGroupSnapshot (gr_Client r) req w of
        (w1, Inl e) \<Rightarrow> (w1, no_requeue, IgnoreNotFound e)
      | (w1, Inr grp) \<Rightarrow>
          (case get_pool (gr_Client r) (zgs_PoolGUID (zg_Spec grp)) w1 of
             (w2, Inl e) \<Rightarrow> (w2, no_requeue, Some e)
           | (w2, Inr pool) \<Rightarrow>
               (let hosted = hosted_here (gr_NodeName r) pool in
                if om_DeletionTimestamp (zg_Meta grp) \<noteq> None then
                  (if \<not> ContainsFinalizer (gr_Lib r) (zg_Meta grp) zfsGroupSnapshotFinalizer then (w2, no_requeue, None)
                   else (case pool of
                           None \<Rightarrow> gr_reconcileDelete r grp '''' False w2
                         | Some p \<Rightarrow> if hosted then gr_reconcileDelete r grp (zpst_PoolName (zp_Status p)) True w2
                                     else (w2, no_requeue, None)))
                else (case pool of
                        None \<Rightarrow> (w2, no_requeue, None)
                      | Some p \<Rightarrow> if \<not> hosted then (w2, no_requeue, None) else gr_hosted r grp p w2))))"

definition groupsForPool :: "('w, 'b) Reader_scheme \<Rightarrow> ZfsPool \<Rightarrow> 'w \<Rightarrow> 'w \<times> string list" where
  "groupsForPool c p w =
     (case list_ZfsGroupSnapshot c w of
        (w1, Inl e) \<Rightarrow> (w1, [])
      | (w1, Inr gs) \<Rightarrow>
          (w1, map (\<lambda>g. om_Name (zg_Meta g)) (filter (\<lambda>g. zgs_PoolGUID (zg_Spec g) = pool_guid p) gs)))"

definition groupForMember :: "ZfsSnapshot \<Rightarrow> string list" where
  "groupForMember snap =
     (if zss_GroupSnapshotID (zs_Spec snap) = '''' then [] else [zss_GroupSnapshotID (zs_Spec snap)])"

end
