(* ===== verification/MemZfs.thy ===== *)
theory MemZfs
  imports ZfsApi "HOL-Library.Product_Lexorder"
begin

text \<open>
  The in-memory ZFS of \<open>src/internal/zpool/memzfs/mem.go\<close>: datasets and zvols, snapshots, clones,
  promote, deferred destroy and user properties as one state machine with the error texts of real
  ZFS. One definition per method; the mutex makes every method one atomic step, so a method is a
  function from state to state. \<open>Inject\<close>, \<open>BusyAfterZvolCreate\<close> and the command log are part of the
  state, as in the code.
\<close>

subsection \<open>State\<close>

record snapshot =
  sn_name :: string
  sn_txg :: int
  sn_props :: props
  sn_deferred :: bool

record dataset =
  ds_name :: string
  ds_kind :: DatasetKind
  ds_props :: props
  ds_origin :: string
  ds_snaps :: "(string, snapshot) gomap"
  ds_volsize :: int

record injection =
  inj_op :: string
  inj_name :: string
  inj_err :: "goerr option"
  inj_times :: int

record Mem =
  m_ds :: "(string, dataset) gomap"
  m_txg :: int
  m_inj :: "injection list"
  m_log :: "string list"
  m_busy :: int
  m_freshZvol :: "(string, bool) gomap"
  m_owner :: "string list"

definition empty_dataset :: "string \<Rightarrow> DatasetKind \<Rightarrow> props \<Rightarrow> int \<Rightarrow> dataset" where
  "empty_dataset n kind ps sz =
     \<lparr>ds_name = n, ds_kind = kind, ds_props = ps, ds_origin = '''', ds_snaps = [], ds_volsize = sz\<rparr>"

definition Mem_New :: "string list \<Rightarrow> Mem" where
  "Mem_New pools =
     \<lparr>m_ds = fold (\<lambda>p ds. AList.update p (empty_dataset p KindFilesystem [] 0) ds) pools [],
      m_txg = 0, m_inj = [], m_log = [], m_busy = 0, m_freshZvol = [], m_owner = []\<rparr>"

definition Mem_Log :: "Mem \<Rightarrow> string list" where
  "Mem_Log m = m_log m"

definition Mem_Inject :: "string \<Rightarrow> string \<Rightarrow> goerr option \<Rightarrow> int \<Rightarrow> Mem \<Rightarrow> Mem" where
  "Mem_Inject op n err cnt m =
     m\<lparr>m_inj := m_inj m @ [\<lparr>inj_op = op, inj_name = n, inj_err = err, inj_times = cnt\<rparr>]\<rparr>"

definition Mem_BusyAfterZvolCreate :: "int \<Rightarrow> Mem \<Rightarrow> Mem" where
  "Mem_BusyAfterZvolCreate n m = m\<lparr>m_busy := n\<rparr>"

subsection \<open>Helpers\<close>

fun find_injection :: "string \<Rightarrow> string \<Rightarrow> injection list \<Rightarrow> injection list \<times> goerr option" where
  "find_injection op n [] = ([], None)"
| "find_injection op n (i # is) =
     (if inj_times i > 0 \<and> inj_op i = op \<and> (inj_name i = '''' \<or> inj_name i = n)
      then (i\<lparr>inj_times := inj_times i - 1\<rparr> # is, inj_err i)
      else (case find_injection op n is of (is', e) \<Rightarrow> (i # is', e)))"

definition injected :: "string \<Rightarrow> string \<Rightarrow> Mem act" where
  "injected op n m = (case find_injection op n (m_inj m) of (is, e) \<Rightarrow> (m\<lparr>m_inj := is\<rparr>, e))"

definition record_call :: "string \<Rightarrow> Mem \<Rightarrow> Mem" where
  "record_call line m = m\<lparr>m_log := m_log m @ [line]\<rparr>"

definition split_name :: "string \<Rightarrow> string \<times> string \<times> bool" where
  "split_name n = (if CHR ''@'' \<in> set n then (before CHR ''@'' n, after CHR ''@'' n, True)
                   else (n, '''', False))"

definition parentOf :: "string \<Rightarrow> string" where
  "parentOf n = (if CHR ''/'' \<in> set n then beforeLast CHR ''/'' n else '''')"

definition notExist :: "string \<Rightarrow> goerr" where
  "notExist n = errorf (''cannot open '' @ [CHR 39] @ n @ [CHR 39] @ '': dataset does not exist'')"

definition clonesOf :: "Mem \<Rightarrow> string \<Rightarrow> string list" where
  "clonesOf m snap = sort (map fst (filter (\<lambda>(n, d). ds_origin d = snap) (m_ds m)))"

definition children :: "Mem \<Rightarrow> string \<Rightarrow> string list" where
  "children m n = sort (filter (\<lambda>k. HasPrefix k (n @ ''/'')) (keys (m_ds m)))"

definition sortedSnaps :: "dataset \<Rightarrow> snapshot list" where
  "sortedSnaps d = sort_key (\<lambda>s. (sn_txg s, sn_name s)) (map snd (ds_snaps d))"

definition snapNames :: "dataset \<Rightarrow> string list" where
  "snapNames d = map (\<lambda>s. snap_full (ds_name d) (sn_name s)) (sortedSnaps d)"

text \<open>The snapshot stored under a full name, when the dataset and the snapshot exist.\<close>

definition snap_at :: "Mem \<Rightarrow> string \<Rightarrow> string \<Rightarrow> snapshot option" where
  "snap_at m dn sn = (case map_of (m_ds m) dn of None \<Rightarrow> None | Some d \<Rightarrow> map_of (ds_snaps d) sn)"

definition mod_ds :: "string \<Rightarrow> (dataset \<Rightarrow> dataset) \<Rightarrow> Mem \<Rightarrow> Mem" where
  "mod_ds n f m = m\<lparr>m_ds := mmod n f (m_ds m)\<rparr>"

definition del_snap :: "string \<Rightarrow> dataset \<Rightarrow> dataset" where
  "del_snap sn d = d\<lparr>ds_snaps := AList.delete sn (ds_snaps d)\<rparr>"

definition put_snap :: "string \<Rightarrow> snapshot \<Rightarrow> dataset \<Rightarrow> dataset" where
  "put_snap sn s d = d\<lparr>ds_snaps := AList.update sn s (ds_snaps d)\<rparr>"

definition mod_snap :: "string \<Rightarrow> (snapshot \<Rightarrow> snapshot) \<Rightarrow> dataset \<Rightarrow> dataset" where
  "mod_snap sn f d = d\<lparr>ds_snaps := mmod sn f (ds_snaps d)\<rparr>"

definition dropIfDone :: "string \<Rightarrow> Mem \<Rightarrow> Mem" where
  "dropIfDone full m =
     (case split_name full of (dsn, sn, ok) \<Rightarrow>
        if \<not> ok then m
        else (case snap_at m dsn sn of
                None \<Rightarrow> m
              | Some s \<Rightarrow> if sn_deferred s \<and> clonesOf m full = [] then mod_ds dsn (del_snap sn) m else m))"

subsection \<open>Creating datasets\<close>

definition create :: "string \<Rightarrow> DatasetKind \<Rightarrow> int \<Rightarrow> props \<Rightarrow> Mem act" where
  "create n kind sz ps m =
     (case injected ''create'' n m of
        (m1, Some e) \<Rightarrow> (m1, Some e)
      | (m1, None) \<Rightarrow>
          if map_of (m_ds m1) n \<noteq> None then
            (m1, Some (errorf (''cannot create '' @ [CHR 39] @ n @ [CHR 39] @ '': dataset already exists'')))
          else if parentOf n = '''' \<or> map_of (m_ds m1) (parentOf n) = None then
            (m1, Some (errorf (''cannot create '' @ [CHR 39] @ n @ [CHR 39] @ '': parent does not exist'')))
          else
            (let m2 = m1\<lparr>m_ds := AList.update n (empty_dataset n kind ps sz) (m_ds m1)\<rparr>
             in (if kind = KindVolume then m2\<lparr>m_freshZvol := AList.update n True (m_freshZvol m2)\<rparr>
                 else m2, None)))"

definition Mem_CreateDataset :: "string \<Rightarrow> props \<Rightarrow> Mem act" where
  "Mem_CreateDataset n ps m = create n KindFilesystem 0 ps (record_call (''create '' @ n) m)"

definition Mem_CreateZvol :: "string \<Rightarrow> int \<Rightarrow> props \<Rightarrow> Mem act" where
  "Mem_CreateZvol n sz ps m =
     (if sz \<le> 0 then (m, Some (errorf (''zvol size must be > 0, got '' @ FormatInt sz)))
      else create n KindVolume sz ps
             (record_call (''create -V '' @ FormatInt sz @ '' '' @ n) m))"

subsection \<open>Snapshots and clones\<close>

definition bad_snapshot_name :: "string \<Rightarrow> goerr" where
  "bad_snapshot_name n =
     errorf (''snapshot name '' @ Quote n @ '' must be of the form pool/dataset@snap'')"

text \<open>The loop that counts the names that exist; it stops at the first missing dataset.\<close>

fun count_existing :: "Mem \<Rightarrow> string list \<Rightarrow> goerr + nat" where
  "count_existing m [] = Inr 0"
| "count_existing m (n # ns) =
     (case split_name n of (dn, sn, _) \<Rightarrow>
       (case map_of (m_ds m) dn of
          None \<Rightarrow> Inl (notExist dn)
        | Some d \<Rightarrow>
            (case count_existing m ns of
               Inl e \<Rightarrow> Inl e
             | Inr k \<Rightarrow> Inr (if map_of (ds_snaps d) sn \<noteq> None then Suc k else k))))"

definition new_snap :: "string \<Rightarrow> int \<Rightarrow> snapshot" where
  "new_snap sn t = \<lparr>sn_name = sn, sn_txg = t, sn_props = [], sn_deferred = False\<rparr>"

definition take_snap :: "string \<Rightarrow> Mem \<Rightarrow> Mem" where
  "take_snap n m =
     (case split_name n of (dn, sn, _) \<Rightarrow> mod_ds dn (put_snap sn (new_snap sn (m_txg m))) m)"

definition Mem_Snapshot :: "string list \<Rightarrow> Mem act" where
  "Mem_Snapshot names m =
     (if names = [] then (m, Some (errorf ''snapshot name is empty''))
      else let m1 = record_call (''snapshot '' @ Join '' '' names) m in
        (case find (\<lambda>n. CHR ''@'' \<notin> set n) names of
           Some n \<Rightarrow> (m1, Some (bad_snapshot_name n))
         | None \<Rightarrow>
             (case injected ''snapshot'' (hd names) m1 of
                (m2, Some e) \<Rightarrow> (m2, Some e)
              | (m2, None) \<Rightarrow>
                  (case count_existing m2 names of
                     Inl e \<Rightarrow> (m2, Some e)
                   | Inr existing \<Rightarrow>
                       if existing > 0 then
                         (if existing = length names \<or> length names = 1 then (m2, None)
                          else (m2, Some (GoErr (Some ErrSnapshotsPartiallyExist) partially_exist_text)))
                       else (fold take_snap names (m2\<lparr>m_txg := m_txg m2 + 1\<rparr>), None)))))"

definition Mem_Clone :: "string \<Rightarrow> string \<Rightarrow> props \<Rightarrow> Mem act" where
  "Mem_Clone snap dest ps m =
     (let m1 = record_call (''clone '' @ snap @ '' '' @ dest) m in
      case split_name snap of (dn, sn, ok) \<Rightarrow>
        if \<not> ok then
          (m1, Some (errorf (''clone source '' @ Quote snap @ '' must be a snapshot (pool/dataset@snap)'')))
        else
          (case injected ''clone'' dest m1 of
             (m2, Some e) \<Rightarrow> (m2, Some e)
           | (m2, None) \<Rightarrow>
               (case map_of (m_ds m2) dn of
                  None \<Rightarrow> (m2, Some (notExist snap))
                | Some src \<Rightarrow>
                    if map_of (ds_snaps src) sn = None then (m2, Some (notExist snap))
                    else if map_of (m_ds m2) dest \<noteq> None then (m2, None)
                    else (case create dest (ds_kind src) (ds_volsize src) ps m2 of
                            (m3, Some e) \<Rightarrow> (m3, Some e)
                          | (m3, None) \<Rightarrow> (mod_ds dest (\<lambda>d. d\<lparr>ds_origin := snap\<rparr>) m3, None)))))"

subsection \<open>Promote\<close>

text \<open>The snapshots of the parent that are not younger than the origin. A missing origin snapshot
  is only dereferenced when the parent has snapshots.\<close>

definition moved_snaps :: "snapshot option \<Rightarrow> dataset \<Rightarrow> snapshot list option" where
  "moved_snaps o_snap p =
     (case o_snap of
        Some s0 \<Rightarrow> Some (filter (\<lambda>s. sn_txg s \<le> sn_txg s0) (sortedSnaps p))
      | None \<Rightarrow> if sortedSnaps p = [] then Some [] else None)"

definition reorigin :: "string \<Rightarrow> string \<Rightarrow> dataset \<Rightarrow> dataset" where
  "reorigin old new d = (if ds_origin d = old then d\<lparr>ds_origin := new\<rparr> else d)"

text \<open>One turn of the loop that relocates a snapshot from \<open>pn\<close> to \<open>name\<close>.\<close>

definition move_snap :: "string \<Rightarrow> string \<Rightarrow> snapshot \<Rightarrow> (string, dataset) gomap \<Rightarrow> (string, dataset) gomap" where
  "move_snap pn n s ds =
     mmodall (reorigin (snap_full pn (sn_name s)) (snap_full n (sn_name s)))
       (mmod n (put_snap (sn_name s) s) (mmod pn (del_snap (sn_name s)) ds))"

definition swap_origins :: "string \<Rightarrow> string \<Rightarrow> string \<Rightarrow> (string, dataset) gomap \<Rightarrow> (string, dataset) gomap" where
  "swap_origins pn n osn ds =
     (let po = (case map_of ds pn of None \<Rightarrow> '''' | Some p \<Rightarrow> ds_origin p) in
      mmod pn (\<lambda>p. p\<lparr>ds_origin := snap_full n osn\<rparr>) (mmod n (\<lambda>d. d\<lparr>ds_origin := po\<rparr>) ds))"

definition Mem_Promote :: "string \<Rightarrow> Mem act" where
  "Mem_Promote n m =
     (case map_of (m_ds m) n of
        None \<Rightarrow> (m, Some (not_exist_err n))
      | Some d \<Rightarrow>
          if ds_origin d = '''' then (m, None)
          else
            (case injected ''promote'' n (record_call (''promote '' @ n) m) of
               (m2, Some e) \<Rightarrow> (m2, Some (wrapf (''zfs promote '' @ n @ '' (attempt 1/20): '') e))
             | (m2, None) \<Rightarrow>
                 (case split_name (ds_origin d) of (pn, osn, _) \<Rightarrow>
                   (case map_of (m_ds m2) pn of
                      None \<Rightarrow> (m2, Some go_panic)
                    | Some p \<Rightarrow>
                        (case moved_snaps (map_of (ds_snaps p) osn) p of
                           None \<Rightarrow> (m2, Some go_panic)
                         | Some moved \<Rightarrow>
                             (case find (\<lambda>s. map_of (ds_snaps d) (sn_name s) \<noteq> None) moved of
                                Some s \<Rightarrow>
                                  (m2, Some (errorf (''zfs promote '' @ n @ '' (attempt 1/20): cannot promote ''
                                     @ [CHR 39] @ n @ [CHR 39] @ '': conflicting snapshot '' @ [CHR 39] @ sn_name s
                                     @ [CHR 39] @ '' from parent '' @ [CHR 39] @ pn @ ''@'' @ osn @ [CHR 39])))
                              | None \<Rightarrow>
                                  (m2\<lparr>m_ds := swap_origins pn n osn (fold (move_snap pn n) moved (m_ds m2))\<rparr>,
                                   None)))))))"

subsection \<open>Destroy\<close>

definition destroy_snapshot :: "string \<Rightarrow> string \<Rightarrow> string \<Rightarrow> Mem act" where
  "destroy_snapshot n dn sn m =
     (if snap_at m dn sn = None then (m, None)
      else let c = clonesOf m n in
        if c \<noteq> [] then
          (m, Some (errorf (''cannot destroy '' @ [CHR 39] @ n @ [CHR 39] @ '': snapshot has dependent clones''
             @ [CHR 10] @ ''use '' @ [CHR 39] @ ''-R'' @ [CHR 39] @ '' to destroy the following datasets:''
             @ [CHR 10] @ Join [CHR 10] c)))
        else (mod_ds dn (del_snap sn) m, None))"

text \<open>A zvol that was just created may be busy on its first destroy.\<close>

definition fresh_busy :: "string \<Rightarrow> dataset \<Rightarrow> Mem act" where
  "fresh_busy n d m =
     (if ds_kind d = KindVolume \<and> map_of (m_freshZvol m) n = Some True then
        (let m1 = m\<lparr>m_freshZvol := AList.delete n (m_freshZvol m)\<rparr> in
         if m_busy m1 > 0 then
           (m1\<lparr>m_busy := m_busy m1 - 1\<rparr>,
            Some (errorf (''cannot destroy '' @ [CHR 39] @ n @ [CHR 39] @ '': dataset is busy'')))
         else (m1, None))
      else (m, None))"

definition dependents_err :: "string \<Rightarrow> string \<Rightarrow> string \<Rightarrow> string \<Rightarrow> string list \<Rightarrow> goerr" where
  "dependents_err n kind what flag ds =
     errorf (''cannot destroy '' @ [CHR 39] @ n @ [CHR 39] @ '': '' @ kind @ '' has '' @ what @ [CHR 10]
       @ ''use '' @ [CHR 39] @ flag @ [CHR 39] @ '' to destroy the following datasets:'' @ [CHR 10]
       @ Join [CHR 10] ds)"

text \<open>Clones, outside the tree that is about to go, of the snapshots in the tree.\<close>

definition outside_clones :: "Mem \<Rightarrow> string list \<Rightarrow> string list" where
  "outside_clones m tree =
     concat (map (\<lambda>t. case map_of (m_ds m) t of
                        None \<Rightarrow> []
                      | Some d \<Rightarrow> concat (map (\<lambda>sn. filter (\<lambda>c. c \<notin> set tree) (clonesOf m sn)) (snapNames d)))
                 tree)"

definition tree_origins :: "Mem \<Rightarrow> string list \<Rightarrow> string list" where
  "tree_origins m tree =
     filter (\<lambda>og. og \<noteq> '''')
       (map (\<lambda>t. case map_of (m_ds m) t of None \<Rightarrow> '''' | Some d \<Rightarrow> ds_origin d) tree)"

definition remove_tree :: "string list \<Rightarrow> Mem \<Rightarrow> Mem" where
  "remove_tree tree m =
     fold dropIfDone (tree_origins m tree)
       (m\<lparr>m_ds := mdels tree (m_ds m), m_freshZvol := mdels tree (m_freshZvol m)\<rparr>)"

definition destroy_dataset :: "string \<Rightarrow> bool \<Rightarrow> Mem act" where
  "destroy_dataset n recursive m =
     (case map_of (m_ds m) n of
        None \<Rightarrow> (m, None)
      | Some d \<Rightarrow>
          (case fresh_busy n d m of
             (m1, Some e) \<Rightarrow> (m1, Some e)
           | (m1, None) \<Rightarrow>
               let kind = (if ds_kind d = KindVolume then ''volume'' else ''filesystem'');
                   cs = children m1 n;
                   tree = n # cs;
                   out = outside_clones m1 tree
               in if \<not> recursive \<and> (cs \<noteq> [] \<or> ds_snaps d \<noteq> [])
                    then (m1, Some (dependents_err n kind ''children'' ''-r'' (cs @ snapNames d)))
                  else if out \<noteq> [] then (m1, Some (dependents_err n kind ''dependent clones'' ''-R'' out))
                  else (remove_tree tree m1, None)))"

definition Mem_Destroy :: "string \<Rightarrow> bool \<Rightarrow> Mem act" where
  "Mem_Destroy n recursive m =
     (case injected ''destroy'' n (record_call (''destroy '' @ n) m) of
        (m1, Some e) \<Rightarrow> (m1, Some e)
      | (m1, None) \<Rightarrow>
          (case split_name n of (dn, sn, isSnap) \<Rightarrow>
             if isSnap then destroy_snapshot n dn sn m1 else destroy_dataset n recursive m1))"

definition Mem_DestroySnapshotDeferred :: "string \<Rightarrow> Mem act" where
  "Mem_DestroySnapshotDeferred n m =
     (let m1 = record_call (''destroy -d '' @ n) m in
      case split_name n of (dn, sn, ok) \<Rightarrow>
        if \<not> ok then (m1, Some (bad_snapshot_name n))
        else
          (case injected ''destroy-d'' n m1 of
             (m2, Some e) \<Rightarrow> (m2, Some e)
           | (m2, None) \<Rightarrow>
               if snap_at m2 dn sn = None then (m2, None)
               else if clonesOf m2 n = [] then (mod_ds dn (del_snap sn) m2, None)
               else (mod_ds dn (mod_snap sn (\<lambda>s. s\<lparr>sn_deferred := True\<rparr>)) m2, None)))"

subsection \<open>Queries and properties\<close>

definition Mem_ListSnapshots :: "string \<Rightarrow> (Mem, string list) query" where
  "Mem_ListSnapshots n m =
     (m, case map_of (m_ds m) n of None \<Rightarrow> Inl (not_exist_err n) | Some d \<Rightarrow> Inr (snapNames d))"

definition Mem_Clones :: "string \<Rightarrow> (Mem, string list) query" where
  "Mem_Clones snap m =
     (m, case split_name snap of (dn, sn, ok) \<Rightarrow>
           if \<not> ok then Inl (errorf (''clones requires a snapshot name (pool/dataset@snap), got '' @ Quote snap))
           else if snap_at m dn sn = None then Inl (not_exist_err snap)
           else Inr (clonesOf m snap))"

definition isUser :: "string \<Rightarrow> bool" where
  "isUser prop \<longleftrightarrow> Contains prop '':''"

lemma length_parentOf: "n \<noteq> '''' \<Longrightarrow> length (parentOf n) < length n"
proof (cases "CHR ''/'' \<in> set n")
  case True
  then obtain t where "n = beforeLast CHR ''/'' n @ CHR ''/'' # t"
    using beforeLast_prefix by blast
  then have "length n = length (beforeLast CHR ''/'' n) + Suc (length t)"
    by (metis length_append length_Cons)
  with True show ?thesis by (simp add: parentOf_def)
qed (simp add: parentOf_def)

function inherited :: "Mem \<Rightarrow> string \<Rightarrow> string \<Rightarrow> string" where
  "inherited m n prop =
     (if n = '''' then ''-''
      else case map_of (m_ds m) n of
             None \<Rightarrow> inherited m (parentOf n) prop
           | Some d \<Rightarrow> (case map_of (ds_props d) prop of
                         Some v \<Rightarrow> v
                       | None \<Rightarrow> inherited m (parentOf n) prop))"
  by pat_completeness auto
termination by (relation "measure (\<lambda>(m, n, prop). length n)") (auto simp: length_parentOf)

declare inherited.simps [simp del]

definition get_snapshot :: "Mem \<Rightarrow> string \<Rightarrow> string \<Rightarrow> snapshot \<Rightarrow> string \<Rightarrow> string" where
  "get_snapshot m n dn s prop =
     (if prop = ''type'' then ''snapshot''
      else if prop = ''clones'' then
        (let c = clonesOf m n in if c \<noteq> [] then Join '','' c else ''-'')
      else if prop = ''defer_destroy'' then (if sn_deferred s then ''on'' else ''off'')
      else if prop = ''createtxg'' then FormatInt (sn_txg s)
      else if prop = ''origin'' then ''-''
      else if isUser prop then
        (case map_of (sn_props s) prop of Some v \<Rightarrow> v | None \<Rightarrow> inherited m dn prop)
      else ''-'')"

definition get_dataset :: "Mem \<Rightarrow> string \<Rightarrow> dataset \<Rightarrow> string \<Rightarrow> string" where
  "get_dataset m dn d prop =
     (if prop = ''type'' then ds_kind d
      else if prop = ''origin'' then (if ds_origin d = '''' then ''-'' else ds_origin d)
      else if prop = ''clones'' \<or> prop = ''defer_destroy'' then ''-''
      else if prop = ''volsize'' then
        (if ds_kind d = KindVolume then FormatInt (ds_volsize d) else ''-'')
      else if isUser prop then inherited m dn prop
      else (case map_of (ds_props d) prop of Some v \<Rightarrow> v | None \<Rightarrow> ''-''))"

definition Mem_Get :: "string \<Rightarrow> string \<Rightarrow> (Mem, string) query" where
  "Mem_Get n prop m =
     (m, case split_name n of (dn, sn, isSnap) \<Rightarrow>
           (case map_of (m_ds m) dn of
              None \<Rightarrow> Inl (not_exist_err n)
            | Some d \<Rightarrow>
                if isSnap then
                  (case map_of (ds_snaps d) sn of
                     None \<Rightarrow> Inl (not_exist_err n)
                   | Some s \<Rightarrow> Inr (get_snapshot m n dn s prop))
                else Inr (get_dataset m dn d prop)))"

definition readonly_props :: "string list" where
  "readonly_props = [''origin'', ''clones'', ''type'', ''defer_destroy'', ''createtxg'']"

definition set_prop_err :: "string \<Rightarrow> string \<Rightarrow> goerr" where
  "set_prop_err n what = errorf (''cannot set property for '' @ [CHR 39] @ n @ [CHR 39] @ '': '' @ what)"

definition set_dataset_prop :: "string \<Rightarrow> string \<Rightarrow> string \<Rightarrow> Mem act" where
  "set_dataset_prop n prop v m =
     (if prop = ''volsize'' then
        (case ParseInt v of (k, bad) \<Rightarrow>
           if bad then (m, Some (set_prop_err n ''invalid volsize''))
           else (mod_ds n (\<lambda>d. d\<lparr>ds_volsize := k, ds_props := AList.update prop v (ds_props d)\<rparr>) m, None))
      else (mod_ds n (\<lambda>d. d\<lparr>ds_props := AList.update prop v (ds_props d)\<rparr>) m, None))"

definition Mem_SetProperty :: "string \<Rightarrow> string \<Rightarrow> string \<Rightarrow> Mem act" where
  "Mem_SetProperty n prop v m =
     (case injected ''set'' n (record_call (''set '' @ prop @ ''='' @ v @ '' '' @ n) m) of
        (m1, Some e) \<Rightarrow> (m1, Some e)
      | (m1, None) \<Rightarrow>
          (case split_name n of (dn, sn, isSnap) \<Rightarrow>
             if map_of (m_ds m1) dn = None \<or> isSnap \<and> snap_at m1 dn sn = None then (m1, Some (notExist n))
             else if prop \<in> set readonly_props then
               (m1, Some (set_prop_err n ([CHR 39] @ prop @ [CHR 39] @ '' is readonly'')))
             else if isSnap then
               (if \<not> isUser prop then
                  (m1, Some (set_prop_err n ''this property can not be modified for snapshots''))
                else (mod_ds dn (mod_snap sn (\<lambda>s. s\<lparr>sn_props := AList.update prop v (sn_props s)\<rparr>)) m1, None))
             else set_dataset_prop n prop v m1))"

definition list_entry :: "string \<Rightarrow> dataset \<Rightarrow> Dataset" where
  "list_entry n d =
     \<lparr>Dataset_Name = n, Dataset_Type = ds_kind d,
      Dataset_Mountpoint =
        (if ds_kind d = KindFilesystem then
           (let mp0 = mgets (ds_props d) ''mountpoint'';
                mp = (if mp0 = '''' then ''/'' @ n else mp0)
            in if mp = ''none'' \<or> mp = ''legacy'' then '''' else mp)
         else '''')\<rparr>"

definition Mem_List :: "DatasetKind \<Rightarrow> (Mem, Dataset list) query" where
  "Mem_List kind m =
     (m, Inr (concat (map (\<lambda>n. case map_of (m_ds m) n of
                                 None \<Rightarrow> []
                               | Some d \<Rightarrow> if kind \<noteq> KindAll \<and> ds_kind d \<noteq> kind then [] else [list_entry n d])
                          (sort (keys (m_ds m))))))"

definition Mem_ApplyOwnership :: "string \<Rightarrow> int option \<Rightarrow> int option \<Rightarrow> string \<Rightarrow> Mem act" where
  "Mem_ApplyOwnership mountpoint uid gid mode m = (m\<lparr>m_owner := m_owner m @ [mountpoint]\<rparr>, None)"

subsection \<open>The consistency check and the inspection methods\<close>

function origin_chain :: "Mem \<Rightarrow> string list \<Rightarrow> string \<Rightarrow> goerr option" where
  "origin_chain m seen o_full =
     (if o_full = '''' then None
      else let on = fst (split_name o_full) in
        if on \<in> set seen then Some (errorf (''origin cycle at '' @ on))
        else (case map_of (m_ds m) on of
                None \<Rightarrow> Some go_panic
              | Some d \<Rightarrow> origin_chain m (on # seen) (ds_origin d)))"
  by pat_completeness auto
termination
proof (relation "measure (\<lambda>(m, seen, o_full). card (set (keys (m_ds m)) - set seen))")
  show "wf (measure (\<lambda>(m :: Mem, seen, o_full :: string). card (set (keys (m_ds m)) - set seen)))"
    by simp
next
  fix m :: Mem and seen :: "string list" and o_full :: string and on d
  assume "on \<notin> set seen" "map_of (m_ds m) on = Some d"
  then have "on \<in> set (keys (m_ds m)) - set seen" by (simp add: in_keys_iff)
  then have "set (keys (m_ds m)) - set (on # seen) \<subset> set (keys (m_ds m)) - set seen" by auto
  then have "card (set (keys (m_ds m)) - set (on # seen)) < card (set (keys (m_ds m)) - set seen)"
    by (intro psubset_card_mono) simp_all
  then show "((m, on # seen, ds_origin d), m, seen, o_full)
      \<in> measure (\<lambda>(m, seen, o_full). card (set (keys (m_ds m)) - set seen))"
    by (simp only: in_measure case_prod_conv)
qed

declare origin_chain.simps [simp del]

definition check_dataset :: "Mem \<Rightarrow> string \<Rightarrow> dataset \<Rightarrow> goerr option" where
  "check_dataset m n d =
     (if parentOf n \<noteq> '''' \<and> map_of (m_ds m) (parentOf n) = None
        then Some (errorf (n @ '' has no parent '' @ parentOf n))
      else if ds_origin d \<noteq> '''' \<and>
              (case split_name (ds_origin d) of (dn, sn, _) \<Rightarrow> snap_at m dn sn = None)
        then Some (errorf (n @ '' has dangling origin '' @ ds_origin d))
      else (case find (\<lambda>(k, s). sn_deferred s \<and> clonesOf m (snap_full n (sn_name s)) = []) (ds_snaps d) of
              Some (k, s) \<Rightarrow>
                Some (errorf (snap_full n (sn_name s) @ '' is marked for deferred destroy but has no clones''))
            | None \<Rightarrow> origin_chain m [n] (ds_origin d)))"

fun first_error :: "('a \<Rightarrow> goerr option) \<Rightarrow> 'a list \<Rightarrow> goerr option" where
  "first_error f [] = None"
| "first_error f (x # xs) = (case f x of Some e \<Rightarrow> Some e | None \<Rightarrow> first_error f xs)"

definition Mem_Check :: "Mem \<Rightarrow> goerr option" where
  "Mem_Check m = first_error (\<lambda>(n, d). check_dataset m n d) (m_ds m)"

definition Mem_Datasets :: "Mem \<Rightarrow> string list" where
  "Mem_Datasets m = sort (keys (m_ds m))"

definition Mem_Snapshots :: "Mem \<Rightarrow> string list" where
  "Mem_Snapshots m = sort (concat (map (\<lambda>(n, d). map (snap_full n) (keys (ds_snaps d))) (m_ds m)))"

definition Mem_Deferred :: "Mem \<Rightarrow> string \<Rightarrow> bool" where
  "Mem_Deferred m full =
     (case split_name full of (dn, sn, ok) \<Rightarrow>
        ok \<and> (case snap_at m dn sn of None \<Rightarrow> False | Some s \<Rightarrow> sn_deferred s))"

definition Mem_Local :: "Mem \<Rightarrow> string \<Rightarrow> string \<Rightarrow> string" where
  "Mem_Local m n prop =
     (case split_name n of (dn, sn, isSnap) \<Rightarrow>
        (case map_of (m_ds m) dn of
           None \<Rightarrow> ''''
         | Some d \<Rightarrow>
             if isSnap then (case map_of (ds_snaps d) sn of None \<Rightarrow> '''' | Some s \<Rightarrow> mgets (sn_props s) prop)
             else mgets (ds_props d) prop))"

definition Mem_Origin :: "Mem \<Rightarrow> string \<Rightarrow> string" where
  "Mem_Origin m n = (case map_of (m_ds m) n of None \<Rightarrow> '''' | Some d \<Rightarrow> ds_origin d)"

text \<open>The compile-time assertion \<open>var _ zpool.ZFS = (*Mem)(nil)\<close>: the methods form an interface value.\<close>

definition mem_ZFS :: "Mem ZFS" where
  "mem_ZFS =
     \<lparr>CreateDataset = Mem_CreateDataset, CreateZvol = Mem_CreateZvol, Snapshot = Mem_Snapshot,
      Clone = Mem_Clone, Promote = Mem_Promote, Destroy = Mem_Destroy,
      DestroySnapshotDeferred = Mem_DestroySnapshotDeferred, ListSnapshots = Mem_ListSnapshots,
      Clones = Mem_Clones, Get = Mem_Get, SetProperty = Mem_SetProperty, ListDatasets = Mem_List,
      ApplyOwnership = Mem_ApplyOwnership\<rparr>"

end
