(* ===== verification/Labels.thy ===== *)
theory Labels
  imports MemZfs
begin

text \<open>
  \<open>src/internal/zpool/labels.go\<close>: the ZFS user properties that say what an object is for and which
  Kubernetes object owns it.
\<close>

abbreviation PropRole :: string where "PropRole \<equiv> ''simple-zfs-csi:role''"

abbreviation PropOwner :: string where "PropOwner \<equiv> ''simple-zfs-csi:owner''"

abbreviation RoleVolume :: string where "RoleVolume \<equiv> ''volume''"

abbreviation RoleRaw :: string where "RoleRaw \<equiv> ''raw''"

abbreviation RoleBacking :: string where "RoleBacking \<equiv> ''backing''"

abbreviation RoleCloneOrigin :: string where "RoleCloneOrigin \<equiv> ''clone-origin''"

definition LabelProps :: "string \<Rightarrow> string \<Rightarrow> props" where
  "LabelProps role owner =
     (let ps = [(PropRole, role)] in if owner \<noteq> '''' then AList.update PropOwner owner ps else ps)"

definition MergeLabels :: "props \<Rightarrow> string \<Rightarrow> string \<Rightarrow> props" where
  "MergeLabels ps role owner = fold (\<lambda>(k, v) out. AList.update k v out) (LabelProps role owner) ps"

fun ensure_props :: "'w ZFS \<Rightarrow> string \<Rightarrow> props \<Rightarrow> 'w act" where
  "ensure_props z n [] w = (w, None)"
| "ensure_props z n ((prop, want) # ps) w =
     (case Get z n prop w of
        (w1, Inl e) \<Rightarrow> (w1, Some e)
      | (w1, Inr got) \<Rightarrow>
          if TrimSpace got = want then ensure_props z n ps w1
          else (case SetProperty z n prop want w1 of
                  (w2, Some e) \<Rightarrow> (w2, Some e)
                | (w2, None) \<Rightarrow> ensure_props z n ps w2))"

definition EnsureLabels :: "'w ZFS \<Rightarrow> string \<Rightarrow> string \<Rightarrow> string \<Rightarrow> 'w act" where
  "EnsureLabels z n role owner = ensure_props z n (LabelProps role owner)"

lemma LabelProps_lookup:
  "map_of (LabelProps role owner) k =
     (if k = PropRole then Some role else if k = PropOwner \<and> owner \<noteq> '''' then Some owner else None)"
  by (simp add: LabelProps_def Let_def)

text \<open>The labels win over a user property of the same name; every other property stays.\<close>

lemma MergeLabels_lookup:
  "map_of (MergeLabels ps role owner) k =
     (case map_of (LabelProps role owner) k of Some v \<Rightarrow> Some v | None \<Rightarrow> map_of ps k)"
  by (auto simp: MergeLabels_def LabelProps_def Let_def)

end
