(* ===== verification/Frame.thy ===== *)
theory Frame
  imports RawLocate Labels
begin

text \<open>
  What a procedure leaves alone. A frame is a reflexive and transitive relation between the worlds
  before and after; a procedure keeps the frame when every run stays in it. The rules follow the
  shape of the procedures (sequence, branch, error exit), so that a frame property of a whole
  reconcile is read off the calls it makes.
\<close>

definition keeps :: "('w \<Rightarrow> 'w \<Rightarrow> bool) \<Rightarrow> ('w \<Rightarrow> 'w \<times> 'r) \<Rightarrow> bool" where
  "keeps R f \<longleftrightarrow> (\<forall>w. R w (fst (f w)))"

named_theorems keeps_rules \<open>composition of procedures that keep a frame\<close>

lemma keepsD: "keeps R f \<Longrightarrow> f w = (w', x) \<Longrightarrow> R w w'"
  unfolding keeps_def by (metis fst_conv)

lemma keeps_fst: "keeps R f \<Longrightarrow> R w (fst (f w))"
  by (simp add: keeps_def)

locale frame =
  fixes R :: "'w \<Rightarrow> 'w \<Rightarrow> bool"
  assumes frame_refl: "R w w" and frame_trans: "R w w1 \<Longrightarrow> R w1 w2 \<Longrightarrow> R w w2"
begin

lemma keeps_return [keeps_rules]: "keeps R (\<lambda>w. (w, x))"
  by (simp add: keeps_def frame_refl)

lemma keeps_bind [keeps_rules]:
  assumes "keeps R f" "\<And>x. keeps R (g x)"
  shows "keeps R (\<lambda>w. case f w of (w1, x) \<Rightarrow> g x w1)"
  using assms unfolding keeps_def by (auto split: prod.splits) (metis frame_trans fst_conv)

lemma keeps_if [keeps_rules]: "(c \<Longrightarrow> keeps R f) \<Longrightarrow> (\<not> c \<Longrightarrow> keeps R g) \<Longrightarrow> keeps R (\<lambda>w. if c then f w else g w)"
  by (simp add: keeps_def)

lemma keeps_option [keeps_rules]:
  "(x = None \<Longrightarrow> keeps R f) \<Longrightarrow> (\<And>y. x = Some y \<Longrightarrow> keeps R (g y)) \<Longrightarrow>
   keeps R (\<lambda>w. case x of None \<Rightarrow> f w | Some y \<Rightarrow> g y w)"
  by (cases x) (simp_all add: keeps_def)

lemma keeps_sum [keeps_rules]:
  "(\<And>e. x = Inl e \<Longrightarrow> keeps R (f e)) \<Longrightarrow> (\<And>y. x = Inr y \<Longrightarrow> keeps R (g y)) \<Longrightarrow>
   keeps R (\<lambda>w. case x of Inl e \<Rightarrow> f e w | Inr y \<Rightarrow> g y w)"
  by (cases x) (simp_all add: keeps_def)

lemma keeps_prod [keeps_rules]: "(\<And>a b. x = (a, b) \<Longrightarrow> keeps R (f a b)) \<Longrightarrow> keeps R (\<lambda>w. case x of (a, b) \<Rightarrow> f a b w)"
  by (cases x) (simp_all add: keeps_def)

lemma keeps_list [keeps_rules]:
  "(x = [] \<Longrightarrow> keeps R f) \<Longrightarrow> (\<And>y ys. x = y # ys \<Longrightarrow> keeps R (g y ys)) \<Longrightarrow>
   keeps R (\<lambda>w. case x of [] \<Rightarrow> f w | y # ys \<Rightarrow> g y ys w)"
  by (cases x) (simp_all add: keeps_def)

lemma keeps_done_with [keeps_rules]: "keeps R f \<Longrightarrow> keeps R (\<lambda>w. done_with (f w))"
  by (simp add: keeps_def done_with_def)

lemma keeps_requeue_with [keeps_rules]: "keeps R f \<Longrightarrow> keeps R (\<lambda>w. requeue_with t (f w))"
  by (simp add: keeps_def requeue_with_def)

lemma keeps_forget [keeps_rules]: "keeps R f \<Longrightarrow> keeps R (\<lambda>w. (fst (f w), x))"
  by (simp add: keeps_def)

end

text \<open>The calls a controller makes to Kubernetes, and the library it uses, keep the frame.\<close>

locale kube_frame = frame R + kube_lib L for R :: "'w \<Rightarrow> 'w \<Rightarrow> bool" and L +
  fixes c :: "'w Client" and gate :: "'w Reader"
  assumes now_keeps: "keeps R (Now L)"
    and get_keeps: "keeps R (get_ZfsDataset c n)" "keeps R (get_ZfsSnapshot c n)"
      "keeps R (get_ZfsGroupSnapshot c n)" "keeps R (get_ZfsPool c n)"
    and gate_keeps: "keeps R (get_ZfsDataset gate n)" "keeps R (get_ZfsSnapshot gate n)"
      "keeps R (get_ZfsGroupSnapshot gate n)" "keeps R (list_ZfsDataset gate)" "keeps R (list_ZfsSnapshot gate)"
    and write_keeps: "keeps R (update_ZfsDataset c vol)" "keeps R (patch_status_ZfsDataset c vol vol')"
      "keeps R (update_ZfsSnapshot c sn)" "keeps R (patch_status_ZfsSnapshot c sn sn')"
      "keeps R (create_ZfsSnapshot c sn)" "keeps R (delete_ZfsSnapshot c sn)"
      "keeps R (update_ZfsGroupSnapshot c grp)" "keeps R (patch_status_ZfsGroupSnapshot c grp grp')"
begin

lemmas call_keeps [keeps_rules] = now_keeps get_keeps gate_keeps write_keeps

lemma keeps_retry [keeps_rules]: "keeps R f \<Longrightarrow> keeps R (RetryOnConflict L f)"
  unfolding keeps_def
proof
  fix w assume "\<forall>w. R w (fst (f w))"
  then show "R w (fst (RetryOnConflict L f w))"
    by (intro retry_invariant [where I = "R w"]) (use frame_refl frame_trans in \<open>metis fst_conv\<close>)+
qed

lemma keeps_get_pool [keeps_rules]: "keeps R (get_pool c guid)"
  unfolding get_pool_def [abs_def] by (intro keeps_rules)

end

text \<open>Reading a ZFS property keeps the frame.\<close>

locale zfs_frame = frame R for R :: "'w \<Rightarrow> 'w \<Rightarrow> bool" +
  fixes Z :: "'w ZFS"
  assumes zfs_get_keeps: "keeps R (Get Z n prop)"
begin

declare zfs_get_keeps [keeps_rules]

lemma keeps_zfs_exists [keeps_rules]: "keeps R (zfs_exists Z n)"
  unfolding zfs_exists_def [abs_def] by (intro keeps_rules)

lemma keeps_first_existing [keeps_rules]: "keeps R (first_existing Z ns)"
proof (induction ns)
  case (Cons n ns)
  have "first_existing Z (n # ns) = (\<lambda>w. case zfs_exists Z n w of (w1, x) \<Rightarrow>
      case x of Inl e \<Rightarrow> (w1, Inl e) | Inr ok \<Rightarrow> if ok then (w1, Inr n) else first_existing Z ns w1)"
    by (rule ext) simp
  then show ?case by (simp only:) (intro keeps_rules Cons)
next
  case Nil
  have "first_existing Z [] = (\<lambda>w. (w, Inr []))" by (rule ext) simp
  then show ?case by (simp only:) (rule keeps_return)
qed

lemma keeps_locateRawSnapshot [keeps_rules]: "keeps R (locateRawSnapshot Z b recorded sn)"
  unfolding locateRawSnapshot_def [abs_def] Let_def by (intro keeps_rules)

lemma keeps_snapshotRestoreSize [keeps_rules]: "keeps R (snapshotRestoreSize Z full)"
  unfolding snapshotRestoreSize_def [abs_def] by (intro keeps_rules)

lemma keeps_ensure_props:
  assumes "\<And>p v. (p, v) \<in> set ps \<Longrightarrow> keeps R (SetProperty Z n p v)"
  shows "keeps R (ensure_props Z n ps)"
  using assms
proof (induction ps)
  case (Cons x ps)
  obtain p v where x: "x = (p, v)" by fastforce
  have "ensure_props Z n (x # ps) = (\<lambda>w. case Get Z n p w of (w1, y) \<Rightarrow>
      case y of Inl e \<Rightarrow> (w1, Some e) | Inr got \<Rightarrow> if TrimSpace got = v then ensure_props Z n ps w1
        else (case SetProperty Z n p v w1 of (w2, z) \<Rightarrow> case z of None \<Rightarrow> ensure_props Z n ps w2 | Some e \<Rightarrow> (w2, Some e)))"
    by (rule ext) (simp add: x)
  moreover have "keeps R (ensure_props Z n ps)" "keeps R (SetProperty Z n p v)" using Cons x by auto
  ultimately show ?case by (simp only:) (intro keeps_rules)
next
  case Nil
  have "ensure_props Z n [] = (\<lambda>w. (w, None))" by (rule ext) simp
  then show ?case by (simp only:) (rule keeps_return)
qed

lemma keeps_EnsureLabels:
  "(\<And>p v. p \<in> {PropRole, PropOwner} \<Longrightarrow> keeps R (SetProperty Z n p v)) \<Longrightarrow> keeps R (EnsureLabels Z n role owner)"
  unfolding EnsureLabels_def by (rule keeps_ensure_props) (auto simp: LabelProps_def Let_def split: if_splits)

end

locale agent_frame = kube_frame R L c gate + zfs_frame R Z
  for R :: "'w \<Rightarrow> 'w \<Rightarrow> bool" and L c gate Z
begin

lemma keeps_creationTime [keeps_rules]: "keeps R (snapshotCreationTime L Z full)"
  unfolding snapshotCreationTime_def [abs_def] by (intro keeps_rules)

end

end
