(* ===== verification/GroupSafety.thy ===== *)
theory GroupSafety
  imports GroupController Frame
begin

text \<open>
  What the group agent does to ZFS: nothing outside its node, nothing once the group is provisioned,
  and for a new group at most the one call that takes every member's snapshot.
\<close>

locale gr_kube = kube_frame R "gr_Lib r" "gr_Client r" "gr_gateReader r"
  for R :: "'w \<Rightarrow> 'w \<Rightarrow> bool" and r
begin

lemma keeps_gr_patchStatus:
  assumes "\<And>st. keeps R (mutate st)"
  shows "keeps R (gr_patchStatus r grp mutate)"
  unfolding gr_patchStatus_def [abs_def] by (intro keeps_rules assms)

lemma keeps_group_status: "keeps R (group_status (gr_Lib r) gen phase reason msg st)"
  unfolding group_status_def [abs_def] if_distrib by (intro keeps_rules)

lemma keeps_gr_setStatus [keeps_rules]: "keeps R (gr_setStatus r grp phase reason msg)"
  unfolding gr_setStatus_def [abs_def] by (intro keeps_rules keeps_gr_patchStatus keeps_group_status)

lemma keeps_gr_release [keeps_rules]: "keeps R (gr_releaseFinalizer r grp)"
proof -
  have "keeps R (release_group_once r n)" for n
    unfolding release_group_once_def [abs_def] by (intro keeps_rules)
  then show ?thesis unfolding gr_releaseFinalizer_def by (intro keeps_rules)
qed

lemma keeps_memberRaw [keeps_rules]:
  "keeps R (memberRaw (gr_Client r) pn m)" "keeps R (memberRaw (gr_gateReader r) pn m)"
  unfolding memberRaw_def [abs_def] resolveDatasetPath_def [abs_def] by (intro keeps_rules)+

lemma keeps_create_children: "keeps R (create_children r grp ms)"
proof (induction ms)
  case (Cons m ms)
  have "create_children r grp (m # ms) = (\<lambda>w. case create_ZfsSnapshot (gr_Client r) (child_of grp m) w of (w1, x) \<Rightarrow>
      case x of None \<Rightarrow> create_children r grp ms w1
      | Some e \<Rightarrow> if errors_Is e StatusAlreadyExists then create_children r grp ms w1
          else (w1, Some (wrapf (''create member ZfsSnapshot '' @ Quote (gm_ZfsSnapshotRef m) @ '': '') e)))"
    by (rule ext) simp
  then show ?case by (simp only:) (intro keeps_rules Cons)
next
  case Nil
  have "create_children r grp [] = (\<lambda>w. (w, None))" by (rule ext) simp
  then show ?case by (simp only:) (rule keeps_return)
qed

lemma keeps_ensureChildren [keeps_rules]: "keeps R (ensureChildren r grp)"
  unfolding ensureChildren_def by (rule keeps_create_children)

lemma keeps_report_members: "keeps R (report_members (gr_Client r) ms rep)"
proof (induction ms arbitrary: rep)
  case (Cons m ms)
  have "report_members (gr_Client r) (m # ms) rep = (\<lambda>w. case get_ZfsSnapshot (gr_Client r) (gm_ZfsSnapshotRef m) w of (w1, x) \<Rightarrow>
      case x of Inl e \<Rightarrow> if IsNotFound e
          then report_members (gr_Client r) ms (rep\<lparr>mr_missing := mr_missing rep @ [gm_ZfsSnapshotRef m]\<rparr>) w1
          else (w1, Inl e)
      | Inr child \<Rightarrow> report_members (gr_Client r) ms (report_child child rep) w1)"
    by (rule ext) simp
  then show ?case by (simp only:) (intro keeps_rules Cons)
next
  case Nil
  have "report_members (gr_Client r) [] rep = (\<lambda>w. (w, Inr rep))" by (rule ext) simp
  then show ?case by (simp only:) (rule keeps_return)
qed

lemma keeps_gr_derive [keeps_rules]: "keeps R (gr_derive r grp prov)"
  unfolding gr_derive_def [abs_def] by (intro keeps_rules keeps_report_members)

text \<open>Without the cleaning of unclaimed raw snapshots, deletion is a matter of the API only.\<close>

lemma keeps_delete_unclean: "keeps R (delete_members r False pn ms n)"
proof (induction ms arbitrary: n)
  case (Cons m ms)
  have "delete_members r False pn (m # ms) n = (\<lambda>w. case get_ZfsSnapshot (gr_gateReader r) (gm_ZfsSnapshotRef m) w of (w1, x) \<Rightarrow>
      case x of Inl e \<Rightarrow> if \<not> IsNotFound e then (w1, Inl e) else delete_members r False pn ms n w1
      | Inr child \<Rightarrow> if om_DeletionTimestamp (zs_Meta child) \<noteq> None then delete_members r False pn ms (n + 1) w1
          else (case delete_ZfsSnapshot (gr_Client r) child w1 of (w2, y) \<Rightarrow> case y of
                  None \<Rightarrow> delete_members r False pn ms (n + 1) w2
                | Some e \<Rightarrow> if IsNotFound e then delete_members r False pn ms (n + 1) w2 else (w2, Inl e)))"
    by (rule ext) (simp split: sum.split prod.split)
  then show ?case by (simp only:) (intro keeps_rules Cons)
next
  case Nil
  have "delete_members r False pn [] n = (\<lambda>w. (w, Inr n))" by (rule ext) simp
  then show ?case by (simp only:) (rule keeps_return)
qed

lemma keeps_delete_elsewhere [keeps_rules]: "keeps R (gr_reconcileDelete r grp pn False)"
  unfolding gr_reconcileDelete_def [abs_def] simp_thms by (intro keeps_rules keeps_delete_unclean)

lemma gr_reads_keep:
  assumes "get_ZfsGroupSnapshot (gr_Client r) req w = (w1, Inr grp)" "get_pool (gr_Client r) guid w1 = (w2, Inr pool)"
  shows "R w w2"
  using frame_trans [OF keepsD [OF get_keeps(3) assms(1)] keepsD [OF keeps_get_pool assms(2)]] .

lemma gr_reconcile_elsewhere:
  assumes "get_ZfsGroupSnapshot (gr_Client r) req w = (w1, Inr grp)"
    "get_pool (gr_Client r) (zgs_PoolGUID (zg_Spec grp)) w1 = (w2, Inr pool)" "\<not> hosted_here (gr_NodeName r) pool"
  shows "R w (fst (gr_Reconcile r req w))"
proof -
  have "R w2 (fst (gr_Reconcile r req w))"
    using assms frame_refl [of w2] keeps_fst [OF keeps_delete_elsewhere, of w2]
    by (cases pool) (simp_all add: gr_Reconcile_def)
  with gr_reads_keep [OF assms(1,2)] show ?thesis by (rule frame_trans)
qed

text \<open>A provisioned group: observing it and deleting it never reach ZFS.\<close>

lemma gr_reconcile_provisioned:
  assumes "get_ZfsGroupSnapshot (gr_Client r) req w = (w1, Inr grp)" "om_DeletionTimestamp (zg_Meta grp) = None"
    "zgst_ProvisionedAt (zg_Status grp) \<noteq> None" "get_pool (gr_Client r) (zgs_PoolGUID (zg_Spec grp)) w1 = (w2, Inr pool)"
  shows "R w (fst (gr_Reconcile r req w))"
proof -
  have "keeps R (gr_hosted r grp p)" for p
    unfolding gr_hosted_def [abs_def] gr_observe_def using assms(3) by (intro keeps_rules) blast
  then have "R w2 (fst (gr_Reconcile r req w))"
    using assms frame_refl [of w2] by (cases pool) (simp_all add: gr_Reconcile_def keeps_fst)
  with gr_reads_keep [OF assms(1,4)] show ?thesis by (rule frame_trans)
qed

end

text \<open>The names the scan collects are those of the members' raw snapshots, in their order.\<close>

definition member_names :: "string list \<Rightarrow> ZfsGroupSnapshotMember list \<Rightarrow> bool" where
  "member_names raws ms \<longleftrightarrow> list_all2 (\<lambda>n m. \<exists>ds. n = snap_full ds (gm_SnapshotName m)) raws ms"

lemma scan_members_names:
  "scan_members r pn ms w = (w', Inr found) \<Longrightarrow> member_names (map fst found) ms"
proof (induction ms arbitrary: w found)
  case (Cons m ms)
  then obtain w1 raw ds ok w2 rest where m: "memberRaw (gr_Client r) pn m w = (w1, Inr (raw, ds))"
    "scan_members r pn ms w2 = (w', Inr rest)" "found = (raw, ds, ok) # rest"
    by (auto split: prod.splits sum.splits)
  have "\<exists>d. raw = snap_full d (gm_SnapshotName m)"
    using m(1) by (auto simp: memberRaw_def snapshotFullName_def Let_def snap_full_def split: prod.splits sum.splits if_splits)
  then show ?case using Cons.IH [OF m(2)] m(3) by (simp add: member_names_def)
qed (simp add: member_names_def)

text \<open>Nothing happens outside the frame but one snapshot call for these names.\<close>

definition one_call :: "('w \<Rightarrow> 'w \<Rightarrow> bool) \<Rightarrow> 'w ZFS \<Rightarrow> string list \<Rightarrow> 'w \<Rightarrow> 'w \<Rightarrow> bool" where
  "one_call R Z raws w w' \<longleftrightarrow> R w w' \<or> (\<exists>w1. R w w1 \<and> R (fst (Snapshot Z raws w1)) w')"

locale gr_frame = gr_kube R r + agent_frame R "gr_Lib r" "gr_Client r" "gr_gateReader r" "gr_ZFS r"
  for R :: "'w \<Rightarrow> 'w \<Rightarrow> bool" and r
begin

lemma keeps_gr_exists [keeps_rules]: "keeps R (gr_exists r n)"
  unfolding gr_exists_def by (intro keeps_rules)

lemma keeps_snapshotCreationTime: "keeps R (snapshotCreationTime (gr_Lib r) (gr_ZFS r) full)"
  unfolding snapshotCreationTime_def [abs_def] by (intro keeps_rules)

lemma keeps_gr_adopt [keeps_rules]: "keeps R (gr_adopt r grp raws)"
  unfolding gr_adopt_def [abs_def] Let_def
  by (intro keeps_rules keeps_snapshotCreationTime keeps_gr_patchStatus)

lemma keeps_sourceBlocker [keeps_rules]: "keeps R (sourceBlocker r m ds)"
  unfolding sourceBlocker_def [abs_def] Let_def by (intro keeps_rules)

lemma keeps_first_blocker [keeps_rules]: "keeps R (first_blocker r xs)"
proof (induction xs)
  case (Cons x xs)
  obtain m ds where x: "x = (m, ds)" by fastforce
  have "first_blocker r (x # xs) = (\<lambda>w. case sourceBlocker r m ds w of (w1, y) \<Rightarrow> case y of Inl e \<Rightarrow> (w1, Inl e)
      | Inr msg \<Rightarrow> if msg \<noteq> '''' then (w1, Inr msg) else first_blocker r xs w1)"
    by (rule ext) (simp add: x)
  then show ?case by (simp only:) (intro keeps_rules Cons)
next
  case Nil
  have "first_blocker r [] = (\<lambda>w. (w, Inr ''''))" by (rule ext) simp
  then show ?case by (simp only:) (rule keeps_return)
qed

lemma keeps_scan_members [keeps_rules]: "keeps R (scan_members r pn ms)"
proof (induction ms)
  case (Cons m ms)
  have "scan_members r pn (m # ms) = (\<lambda>w. case memberRaw (gr_Client r) pn m w of (w1, x) \<Rightarrow> case x of
      Inl e \<Rightarrow> (w1, Inl (InvalidMember e)) | Inr y \<Rightarrow> (case y of (raw, ds) \<Rightarrow>
        (case gr_exists r raw w1 of (w2, z) \<Rightarrow> case z of Inl e \<Rightarrow> (w2, Inl (LookupFailed e)) | Inr ok \<Rightarrow>
           (case scan_members r pn ms w2 of (w3, u) \<Rightarrow> case u of Inl e \<Rightarrow> (w3, Inl e)
              | Inr rest \<Rightarrow> (w3, Inr ((raw, ds, ok) # rest))))))"
    by (rule ext) (simp split: sum.split prod.split)
  then show ?case by (simp only:) (intro keeps_rules Cons)
next
  case Nil
  have "scan_members r pn [] = (\<lambda>w. (w, Inr []))" by (rule ext) simp
  then show ?case by (simp only:) (rule keeps_return)
qed

text \<open>A pass over a group that is not being deleted keeps the frame, unless it makes the one snapshot
  call, for the names of all its members at once; before and after that call it keeps the frame.\<close>

lemma gr_take_one_call: "one_call R (gr_ZFS r) raws w (fst (gr_take r grp raws present w))"
proof -
  have st: "R w (fst (gr_setStatus r grp ph a b w))" for grp ph a b w by (rule keeps_fst [OF keeps_gr_setStatus])
  have ad: "R w (fst (gr_adopt r grp raws w))" for grp w by (rule keeps_fst [OF keeps_gr_adopt])
  show ?thesis unfolding one_call_def gr_take_def done_with_def using frame_refl [of w] st ad
    by (auto split: prod.splits option.splits)
qed

lemma one_call_after: "R w w1 \<Longrightarrow> one_call R (gr_ZFS r) raws w1 w' \<Longrightarrow> one_call R (gr_ZFS r) raws w w'"
  unfolding one_call_def using frame_trans by blast

lemma gr_provision_one_call:
  "\<exists>raws. one_call R (gr_ZFS r) raws w (fst (gr_provision r grp p w)) \<and>
     (R w (fst (gr_provision r grp p w)) \<or> member_names raws (zgs_Members (zg_Spec grp)))"
proof -
  let ?ms = "zgs_Members (zg_Spec grp)" and ?pn = "zpst_PoolName (zp_Status p)"
  have quiet: "R w w' \<Longrightarrow> ?thesis" if "w' = fst (gr_provision r grp p w)" for w'
    using that unfolding one_call_def by blast
  obtain w1 x where g: "get_ZfsGroupSnapshot (gr_gateReader r) (om_Name (zg_Meta grp)) w = (w1, x)" by fastforce
  have k1: "R w w1" by (rule keepsD [OF gate_keeps(3) g])
  show ?thesis
  proof (cases "\<exists>fresh. x = Inr fresh \<and> om_DeletionTimestamp (zg_Meta fresh) = None \<and> zgst_ProvisionedAt (zg_Status fresh) = None")
    case False
    then show ?thesis using k1 by (intro quiet [OF refl]) (auto simp: gr_provision_def g split: sum.split)
  next
    case True
    then obtain fresh where x: "x = Inr fresh" "om_DeletionTimestamp (zg_Meta fresh) = None"
      "zgst_ProvisionedAt (zg_Status fresh) = None" by blast
    define grp1 where "grp1 = grp\<lparr>zg_Status := zg_Status fresh\<rparr>"
    have sp [simp]: "zg_Spec grp1 = zg_Spec grp" by (simp add: grp1_def)
    obtain w2 y where sc: "scan_members r ?pn ?ms w1 = (w2, y)" by fastforce
    have k2: "R w w2" using frame_trans [OF k1 keepsD [OF keeps_scan_members sc]] .
    have st: "R w2 (fst (gr_setStatus r grp1 ph a b w2))" for ph a b w2 by (rule keeps_fst [OF keeps_gr_setStatus])
    show ?thesis
    proof (cases y)
      case (Inl er)
      then have "R w2 (fst (gr_provision r grp p w))" using st frame_refl
        by (cases er) (simp_all add: gr_provision_def g x sc Let_def done_with_def grp1_def [symmetric])
      then show ?thesis using frame_trans [OF k2] by (intro quiet [OF refl]) blast
    next
      case (Inr found)
      let ?raws = "map fst found" and ?n = "length (filter (\<lambda>x. snd (snd x)) found)"
      have names: "member_names ?raws ?ms" using scan_members_names sc Inr by metis
      obtain w3 z where fb: "first_blocker r (zip ?ms (map (\<lambda>x. fst (snd x)) found)) w2 = (w3, z)" by fastforce
      have k3: "R w2 w3" by (rule keepsD [OF keeps_first_blocker fb])
      have "one_call R (gr_ZFS r) ?raws w2 (fst (gr_provision r grp p w))"
      proof (cases "?n \<noteq> 0")
        case True
        then show ?thesis using gr_take_one_call by (simp add: gr_provision_def g x sc Inr Let_def grp1_def [symmetric])
      next
        case False
        then have "gr_provision r grp p w = (case z of Inl e \<Rightarrow> (w3, no_requeue, Some e) | Inr msg \<Rightarrow>
            if msg \<noteq> '''' then requeue_with groupRequeue (gr_setStatus r grp1 GroupSnapshotPhasePending ''SourceUnavailable'' msg w3)
            else gr_take r grp1 ?raws ?n w3)"
          using x by (simp add: gr_provision_def g sc Inr Let_def grp1_def [symmetric] fb)
        moreover have "one_call R (gr_ZFS r) ?raws w3 (fst (gr_take r grp1 ?raws ?n w3))" by (rule gr_take_one_call)
        moreover have "one_call R (gr_ZFS r) ?raws w3 w3" "one_call R (gr_ZFS r) ?raws w3 (fst (gr_setStatus r grp1 ph a b w3))" for ph a b
          using st frame_refl by (auto simp: one_call_def)
        ultimately have "one_call R (gr_ZFS r) ?raws w3 (fst (gr_provision r grp p w))"
          by (auto simp: requeue_with_def split: sum.split)
        then show ?thesis by (rule one_call_after [OF k3])
      qed
      then show ?thesis using names one_call_after [OF k2] by blast
    qed
  qed
qed

lemma gr_reconcile_one_call:
  assumes "get_ZfsGroupSnapshot (gr_Client r) req w = (w1, Inr grp)" "om_DeletionTimestamp (zg_Meta grp) = None"
  shows "\<exists>raws. one_call R (gr_ZFS r) raws w (fst (gr_Reconcile r req w)) \<and>
     (R w (fst (gr_Reconcile r req w)) \<or> member_names raws (zgs_Members (zg_Spec grp)))"
proof -
  have k1: "R w w1" by (rule keepsD [OF get_keeps(3) assms(1)])
  obtain w2 pl where gp: "get_pool (gr_Client r) (zgs_PoolGUID (zg_Spec grp)) w1 = (w2, pl)" by fastforce
  have k2: "R w w2" using frame_trans [OF k1 keepsD [OF keeps_get_pool gp]] .
  have up: "R w2 (fst (done_with (update_ZfsGroupSnapshot (gr_Client r) g w2)))" "R w2 (fst (gr_observe r grp w2))" for g
    using keeps_fst [OF write_keeps(7)] keeps_fst [OF keeps_gr_derive] by (simp_all add: done_with_def gr_observe_def)
  have "R w2 (fst (gr_hosted r grp p w2)) \<or> gr_hosted r grp p w2 = gr_provision r grp p w2" for p
    using up by (simp add: gr_hosted_def)
  then have "R w2 (fst (gr_Reconcile r req w)) \<or> (\<exists>p. gr_Reconcile r req w = gr_provision r grp p w2)"
    using assms frame_refl [of w2] by (cases pl; cases "projr pl") (auto simp: gr_Reconcile_def gp)
  then consider "R w2 (fst (gr_Reconcile r req w))" | p where "gr_Reconcile r req w = gr_provision r grp p w2" by blast
  then show ?thesis
  proof cases
    case 1
    then show ?thesis using frame_trans [OF k2] unfolding one_call_def by blast
  next
    case 2
    then show ?thesis using gr_provision_one_call [of w2 grp p] one_call_after [OF k2] frame_trans [OF k2] by metis
  qed
qed

text \<open>Deleting a group keeps every frame that destroying a member's raw snapshot keeps.\<close>

lemma memberRaw_at: "memberRaw c pn m w = (w', Inr (raw, ds)) \<Longrightarrow> CHR ''@'' \<in> set raw"
  by (auto simp: memberRaw_def snapshotFullName_def Let_def split: prod.splits sum.splits if_splits)

lemma keeps_delete_members:
  assumes "\<And>n. CHR ''@'' \<in> set n \<Longrightarrow> keeps R (Destroy (gr_ZFS r) n False)"
  shows "keeps R (delete_members r clean pn ms n)"
proof (induction ms arbitrary: n)
  case (Cons m ms)
  have d: "keeps R (\<lambda>w. case memberRaw (gr_gateReader r) pn m w of (w2, Inl e2) \<Rightarrow> (w2, Inl e2)
      | (w2, Inr (raw, _)) \<Rightarrow> (case Destroy (gr_ZFS r) raw False w2 of (w3, Some e3) \<Rightarrow> (w3, Inl e3)
          | (w3, None) \<Rightarrow> delete_members r clean pn ms n w3))" for n
    unfolding keeps_def
  proof
    fix w
    obtain w2 x where m: "memberRaw (gr_gateReader r) pn m w = (w2, x)" by fastforce
    have k: "R w w2" by (rule keepsD [OF keeps_memberRaw(2) m])
    show "R w (fst (case memberRaw (gr_gateReader r) pn m w of (w2, Inl e2) \<Rightarrow> (w2, Inl e2)
      | (w2, Inr (raw, _)) \<Rightarrow> (case Destroy (gr_ZFS r) raw False w2 of (w3, Some e3) \<Rightarrow> (w3, Inl e3)
          | (w3, None) \<Rightarrow> delete_members r clean pn ms n w3)))"
    proof (cases x)
      case (Inr y)
      obtain raw ds where y: "y = (raw, ds)" by fastforce
      obtain w3 e where ds: "Destroy (gr_ZFS r) raw False w2 = (w3, e)" by fastforce
      have "R w2 w3" by (rule keepsD [OF assms ds], rule memberRaw_at [OF m [unfolded Inr y]])
      then have "R w w3" by (rule frame_trans [OF k])
      then show ?thesis using frame_trans keeps_fst [OF Cons, of w3 n] by (auto simp: m Inr y ds split: option.split)
    qed (simp add: m k)
  qed
  have "delete_members r clean pn (m # ms) n = (\<lambda>w. case get_ZfsSnapshot (gr_gateReader r) (gm_ZfsSnapshotRef m) w of (w1, x) \<Rightarrow>
      case x of Inl e \<Rightarrow> if \<not> IsNotFound e then (w1, Inl e) else if \<not> clean then delete_members r clean pn ms n w1
        else (case memberRaw (gr_gateReader r) pn m w1 of (w2, Inl e2) \<Rightarrow> (w2, Inl e2)
          | (w2, Inr (raw, _)) \<Rightarrow> (case Destroy (gr_ZFS r) raw False w2 of (w3, Some e3) \<Rightarrow> (w3, Inl e3)
              | (w3, None) \<Rightarrow> delete_members r clean pn ms n w3))
      | Inr child \<Rightarrow> if om_DeletionTimestamp (zs_Meta child) \<noteq> None then delete_members r clean pn ms (n + 1) w1
          else (case delete_ZfsSnapshot (gr_Client r) child w1 of (w2, y) \<Rightarrow> case y of
                  None \<Rightarrow> delete_members r clean pn ms (n + 1) w2
                | Some e \<Rightarrow> if IsNotFound e then delete_members r clean pn ms (n + 1) w2 else (w2, Inl e)))"
    by (rule ext) (simp split: sum.split prod.split)
  then show ?case by (simp only:) (intro keeps_rules Cons d)
next
  case Nil
  have "delete_members r clean pn [] n = (\<lambda>w. (w, Inr n))" by (rule ext) simp
  then show ?case by (simp only:) (rule keeps_return)
qed

lemma gr_reconcile_delete:
  assumes "get_ZfsGroupSnapshot (gr_Client r) req w = (w1, Inr grp)" "om_DeletionTimestamp (zg_Meta grp) \<noteq> None"
    "\<And>n. CHR ''@'' \<in> set n \<Longrightarrow> keeps R (Destroy (gr_ZFS r) n False)"
  shows "R w (fst (gr_Reconcile r req w))"
proof -
  have k1: "R w w1" by (rule keepsD [OF get_keeps(3) assms(1)])
  obtain w2 pl where gp: "get_pool (gr_Client r) (zgs_PoolGUID (zg_Spec grp)) w1 = (w2, pl)" by fastforce
  have k2: "R w w2" using frame_trans [OF k1 keepsD [OF keeps_get_pool gp]] .
  have "keeps R (gr_reconcileDelete r grp pn h)" for pn h
    unfolding gr_reconcileDelete_def [abs_def] by (intro keeps_rules keeps_delete_members assms(3))
  then have "R w2 (fst (gr_reconcileDelete r grp pn h w2))" for pn h by (rule keeps_fst)
  then have "R w2 (fst (gr_Reconcile r req w))"
    using assms(1,2) frame_refl [of w2] by (cases pl; cases "projr pl") (auto simp: gr_Reconcile_def gp)
  then show ?thesis by (rule frame_trans [OF k2])
qed

end

end
