(* ===== verification/Detach.thy ===== *)
theory Detach
  imports Labels Kube
begin

text \<open>
  \<open>src/internal/controller/promote.go\<close>: the loop that empties a dataset of snapshots before a
  non-recursive destroy, by asking ZFS for the clone graph, destroying what nothing clones and
  promoting one dependent away per round.
\<close>

definition maxDetachRounds :: nat where
  "maxDetachRounds = 100"

text \<open>The expression \<open>^(clone-.+|csi-snap-.+)$\<close>; a dot matches everything but a newline.\<close>

definition driverSnapshotSuffix :: "string \<Rightarrow> bool" where
  "driverSnapshotSuffix s \<longleftrightarrow>
     (\<exists>p \<in> set [''clone-'', ''csi-snap-'']. HasPrefix s p \<and> drop (length p) s \<noteq> '''' \<and>
        CHR 10 \<notin> set (drop (length p) s))"

definition splitSnapshot :: "string \<Rightarrow> string \<times> string" where
  "splitSnapshot full = (if CHR ''@'' \<in> set full then (before CHR ''@'' full, after CHR ''@'' full)
                         else (full, ''''))"

definition datasetPathOf :: "string \<Rightarrow> string \<Rightarrow> string" where
  "datasetPathOf poolName full = Trim CHR ''/'' (TrimPrefix (TrimPrefix full poolName) ''/'')"

definition em_dash :: string where
  "em_dash = [CHR 0xE2, CHR 0x80, CHR 0x94]"

definition foreign_snapshot_err :: "string \<Rightarrow> goerr" where
  "foreign_snapshot_err full =
     errorf (''snapshot '' @ Quote full @ '' was not created by this driver; refusing to destroy it ''
       @ em_dash @ '' remove it manually to continue'')"

definition assertDriverSnapshot :: "string \<Rightarrow> goerr option" where
  "assertDriverSnapshot full =
     (if \<not> driverSnapshotSuffix (snd (splitSnapshot full)) then Some (foreign_snapshot_err full) else None)"

definition unknown_clone_err :: "string \<Rightarrow> string \<Rightarrow> goerr" where
  "unknown_clone_err snap clone =
     errorf (''snapshot '' @ Quote snap @ '' is cloned by '' @ Quote clone
       @ '', which is neither a known ZfsDataset nor a live ZfsSnapshot''
       @ [CHR 39] @ ''s backing clone on this pool; refusing to promote a dataset the driver does not manage ''
       @ em_dash @ '' resolve it manually'')"

definition known_paths :: "string \<Rightarrow> ZfsDataset list \<Rightarrow> string list" where
  "known_paths poolGUID ds =
     map (\<lambda>d. Trim CHR ''/'' (zds_Dataset (zd_Spec d)))
       (filter (\<lambda>d. zds_PoolGUID (zd_Spec d) = poolGUID) ds)"

definition backing_names :: "string \<Rightarrow> ZfsSnapshot list \<Rightarrow> string list" where
  "backing_names poolGUID ss =
     map (\<lambda>s. zss_SnapshotName (zs_Spec s))
       (filter (\<lambda>s. zss_PoolGUID (zs_Spec s) = poolGUID \<and> zss_SnapshotName (zs_Spec s) \<noteq> '''') ss)"

definition is_known :: "string list \<Rightarrow> string list \<Rightarrow> string \<Rightarrow> string \<Rightarrow> bool" where
  "is_known known backing poolName clone =
     (let p = datasetPathOf poolName clone in p \<in> set known \<or> path_Base p \<in> set backing)"

definition assertKnownDatasets ::
  "('w, 'b) Reader_scheme \<Rightarrow> string \<Rightarrow> string \<Rightarrow> string \<Rightarrow> string list \<Rightarrow> 'w act" where
  "assertKnownDatasets c poolGUID poolName snap clones w =
     (case list_ZfsDataset c w of
        (w1, Inl e) \<Rightarrow> (w1, Some e)
      | (w1, Inr ds) \<Rightarrow>
          (case list_ZfsSnapshot c w1 of
             (w2, Inl e) \<Rightarrow> (w2, Some e)
           | (w2, Inr ss) \<Rightarrow>
               (case find (\<lambda>cl. \<not> is_known (known_paths poolGUID ds) (backing_names poolGUID ss) poolName cl) clones of
                  Some cl \<Rightarrow> (w2, Some (unknown_clone_err snap cl))
                | None \<Rightarrow> (w2, None))))"

text \<open>
  The scan of one round: every snapshot that nothing clones is destroyed, the others are collected
  with their clones, oldest first.
\<close>

fun scan_snaps :: "'w ZFS \<Rightarrow> string list \<Rightarrow> ('w, (string \<times> string list) list) query" where
  "scan_snaps z [] w = (w, Inr [])"
| "scan_snaps z (snap # snaps) w =
     (case Clones z snap w of
        (w1, Inl e) \<Rightarrow> if errors_Is e ErrNotExist then scan_snaps z snaps w1 else (w1, Inl e)
      | (w1, Inr clones) \<Rightarrow>
          if clones = [] then
            (case DestroySnapshotDeferred z snap w1 of
               (w2, Some e) \<Rightarrow> (w2, Inl (wrapf (''destroy snapshot '' @ Quote snap @ '': '') e))
             | (w2, None) \<Rightarrow> scan_snaps z snaps w2)
          else
            (case scan_snaps z snaps w1 of
               (w2, Inl e) \<Rightarrow> (w2, Inl e)
             | (w2, Inr cs) \<Rightarrow> (w2, Inr ((snap, clones) # cs))))"

definition candidates :: "(string \<times> string list) list \<Rightarrow> (string \<times> string) list" where
  "candidates cs = concat (map (\<lambda>(snap, clones). map (\<lambda>cl. (snap, cl)) clones) cs)"

text \<open>The first candidate labelled as a backing clone, if there is one.\<close>

fun find_backing :: "'w ZFS \<Rightarrow> (string \<times> string) list \<Rightarrow> ('w, (string \<times> string) option) query" where
  "find_backing z [] w = (w, Inr None)"
| "find_backing z ((snap, clone) # cs) w =
     (case Get z clone PropRole w of
        (w1, Inl e) \<Rightarrow> if errors_Is e ErrNotExist then find_backing z cs w1 else (w1, Inl e)
      | (w1, Inr role) \<Rightarrow>
          if TrimSpace role = RoleBacking then (w1, Inr (Some (snap, clone))) else find_backing z cs w1)"

definition promote_away_err :: "string \<Rightarrow> string \<Rightarrow> goerr \<Rightarrow> goerr" where
  "promote_away_err clone snap e =
     wrapf (''promote '' @ Quote clone @ '' away from '' @ Quote snap @ '': '') e"

text \<open>One promote: choose a candidate, make sure the driver knows the clones, promote it.\<close>

definition promote_one ::
  "('w, 'b) Reader_scheme \<Rightarrow> 'w ZFS \<Rightarrow> string \<Rightarrow> string \<Rightarrow> (string \<times> string list) list \<Rightarrow> 'w act" where
  "promote_one c z poolGUID poolName cs w =
     (case find_backing z (candidates cs) w of
        (w1, Inl e) \<Rightarrow> (w1, Some e)
      | (w1, Inr found) \<Rightarrow>
          (case (case found of Some cd \<Rightarrow> cd | None \<Rightarrow> hd (candidates cs)) of (snap, clone) \<Rightarrow>
             (case assertKnownDatasets c poolGUID poolName snap (case map_of cs snap of None \<Rightarrow> [] | Some l \<Rightarrow> l) w1 of
                (w2, Some e) \<Rightarrow> (w2, Some e)
              | (w2, None) \<Rightarrow>
                  (case Promote z clone w2 of
                     (w3, Some e) \<Rightarrow> (w3, Some (promote_away_err clone snap e))
                   | (w3, None) \<Rightarrow> (w3, None)))))"

definition not_converged_err :: "string \<Rightarrow> goerr" where
  "not_converged_err full =
     errorf (''detaching dependents of '' @ Quote full @ '' did not converge after ''
       @ FormatInt (int maxDetachRounds) @ '' rounds'')"

fun detach_rounds ::
  "nat \<Rightarrow> ('w, 'b) Reader_scheme \<Rightarrow> 'w ZFS \<Rightarrow> string \<Rightarrow> string \<Rightarrow> string \<Rightarrow> 'w act" where
  "detach_rounds 0 c z poolGUID poolName full w = (w, Some (not_converged_err full))"
| "detach_rounds (Suc k) c z poolGUID poolName full w =
     (case ListSnapshots z full w of
        (w1, Inl e) \<Rightarrow> (w1, if errors_Is e ErrNotExist then None else Some e)
      | (w1, Inr snaps) \<Rightarrow>
          if snaps = [] then (w1, None)
          else
            (case find (\<lambda>s. assertDriverSnapshot s \<noteq> None) snaps of
               Some s \<Rightarrow> (w1, assertDriverSnapshot s)
             | None \<Rightarrow>
                 (case scan_snaps z snaps w1 of
                    (w2, Inl e) \<Rightarrow> (w2, Some e)
                  | (w2, Inr cs) \<Rightarrow>
                      if candidates cs = [] then (w2, None)
                      else
                        (case promote_one c z poolGUID poolName cs w2 of
                           (w3, Some e) \<Rightarrow> (w3, Some e)
                         | (w3, None) \<Rightarrow> detach_rounds k c z poolGUID poolName full w3))))"

definition detachAndCleanSnapshots ::
  "('w, 'b) Reader_scheme \<Rightarrow> 'w ZFS \<Rightarrow> string \<Rightarrow> string \<Rightarrow> string \<Rightarrow> 'w act" where
  "detachAndCleanSnapshots = detach_rounds maxDetachRounds"

end
