(* ===== verification/DetachSpec.thy ===== *)
theory DetachSpec
  imports Detach
begin

text \<open>
  What the detach loop of \<open>promote.go\<close> does to the clone graph.

  The locale \<open>clone_graph\<close> is the contract between the loop and a ZFS implementation: what the
  listing calls report, and that a deferred destroy and a promote act on an abstract view of the
  graph. The loop is then a sequence of abstract shedding steps.
\<close>

definition quiet_reader :: "('w \<Rightarrow> 'v) \<Rightarrow> ('w, 'b) Reader_scheme \<Rightarrow> bool" where
  "quiet_reader view c \<longleftrightarrow>
     (\<forall>w. view (fst (list_ZfsDataset c w)) = view w \<and> view (fst (list_ZfsSnapshot c w)) = view w)"

lemma quiet_assertKnown:
  "quiet_reader view c \<Longrightarrow> assertKnownDatasets c g p s cl w = (w', r) \<Longrightarrow> view w' = view w"
  unfolding quiet_reader_def assertKnownDatasets_def
  by (auto split: prod.splits sum.splits option.splits) (metis fst_conv)+

locale clone_graph =
  fixes Z :: "'w ZFS" and view :: "'w \<Rightarrow> 'v" and inv :: "'v \<Rightarrow> bool"
    and snaps :: "'v \<Rightarrow> string \<Rightarrow> string set" and clones :: "'v \<Rightarrow> string \<Rightarrow> string set"
    and destroy1 :: "'v \<Rightarrow> string \<Rightarrow> 'v" and promote1 :: "'v \<Rightarrow> string \<Rightarrow> 'v"
    and can_promote :: "'v \<Rightarrow> string \<Rightarrow> bool"
  assumes list_view: "ListSnapshots Z d w = (w', r) \<Longrightarrow> view w' = view w"
    and list_snaps: "inv (view w) \<Longrightarrow> ListSnapshots Z d w = (w', Inr l) \<Longrightarrow> set l = snaps (view w) d"
    and list_distinct: "inv (view w) \<Longrightarrow> ListSnapshots Z d w = (w', Inr l) \<Longrightarrow> distinct l"
    and list_gone: "inv (view w) \<Longrightarrow> ListSnapshots Z d w = (w', Inl e) \<Longrightarrow> errors_Is e ErrNotExist \<Longrightarrow>
      snaps (view w) d = {}"
    and clones_view: "Clones Z s w = (w', rc) \<Longrightarrow> view w' = view w"
    and clones_set: "inv (view w) \<Longrightarrow> Clones Z s w = (w', Inr l) \<Longrightarrow> set l = clones (view w) s"
    and clones_gone: "inv (view w) \<Longrightarrow> Clones Z s w = (w', Inl e) \<Longrightarrow> errors_Is e ErrNotExist \<Longrightarrow>
      s \<notin> snaps (view w) d"
    and get_view: "Get Z n p w = (w', rg) \<Longrightarrow> view w' = view w"
    and destroy_ok: "inv (view w) \<Longrightarrow> clones (view w) s = {} \<Longrightarrow> DestroySnapshotDeferred Z s w = (w', None) \<Longrightarrow>
      view w' = destroy1 (view w) s"
    and destroy_fail: "DestroySnapshotDeferred Z s w = (w', Some e) \<Longrightarrow> view w' = view w"
    and promote_ok: "inv (view w) \<Longrightarrow> c \<in> clones (view w) s \<Longrightarrow> s \<in> snaps (view w) d \<Longrightarrow>
      Promote Z c w = (w', None) \<Longrightarrow> can_promote (view w) c \<and> view w' = promote1 (view w) c"
    and promote_fail: "inv (view w) \<Longrightarrow> Promote Z c w = (w', Some e) \<Longrightarrow> view w' = view w"
    and inv_destroy1: "inv v \<Longrightarrow> clones v s = {} \<Longrightarrow> inv (destroy1 v s)"
    and snaps_destroy1: "inv v \<Longrightarrow> clones v s = {} \<Longrightarrow> snaps (destroy1 v s) d = snaps v d - {s}"
    and clones_destroy1: "inv v \<Longrightarrow> clones v s = {} \<Longrightarrow> clones (destroy1 v s) s' = clones v s'"
    and inv_promote: "inv (view w) \<Longrightarrow> Promote Z c w = (w', rp) \<Longrightarrow> inv (view w')"
begin

text \<open>The abstract steps: drop a snapshot of the dataset that nothing clones, or promote a clone of
  one of its snapshots.\<close>

inductive shed :: "string \<Rightarrow> 'v \<Rightarrow> 'v \<Rightarrow> bool" for full where
  refl: "inv v \<Longrightarrow> shed full v v"
| drop: "shed full v v1 \<Longrightarrow> s \<in> snaps v1 full \<Longrightarrow> clones v1 s = {} \<Longrightarrow> shed full v (destroy1 v1 s)"
| promote: "shed full v v1 \<Longrightarrow> s \<in> snaps v1 full \<Longrightarrow> c \<in> clones v1 s \<Longrightarrow> can_promote v1 c \<Longrightarrow>
     inv (promote1 v1 c) \<Longrightarrow>
     shed full v (promote1 v1 c)"

lemma shed_inv: "shed full v v' \<Longrightarrow> inv v \<and> inv v'"
  by (induction rule: shed.induct) (auto simp: inv_destroy1)

lemma shed_trans: "shed full v1 v2 \<Longrightarrow> shed full v0 v1 \<Longrightarrow> shed full v0 v2"
  by (induction rule: shed.induct) (auto intro: shed.intros)

lemma scan_clones:
  "inv (view w) \<Longrightarrow> set l \<subseteq> snaps (view w) full \<Longrightarrow> distinct l \<Longrightarrow> scan_snaps Z l w = (w', r) \<Longrightarrow>
   clones (view w') x = clones (view w) x"
proof (induction l arbitrary: w w' r)
  case (Cons s l)
  obtain w1 rc where cl: "Clones Z s w = (w1, rc)" by fastforce
  have v1: "view w1 = view w" using clones_view [OF cl] .
  have go: "clones (view w2) x = clones (view w) x" if "scan_snaps Z l w1 = (w2, r2)" for w2 r2
    using Cons.IH [of w1 w2 r2] Cons.prems that v1 by auto
  show ?case
  proof (cases rc)
    case (Inl e)
    then show ?thesis using Cons.prems(4) cl v1 go by (auto split: if_splits)
  next
    case (Inr c0)
    show ?thesis
    proof (cases "c0 = []")
      case False
      then show ?thesis using Cons.prems(4) cl v1 go Inr by (auto split: prod.splits sum.splits)
    next
      case True
      obtain w2 rd where d: "DestroySnapshotDeferred Z s w1 = (w2, rd)" by fastforce
      have inv1: "inv (view w1)" and none: "clones (view w1) s = {}"
        using clones_set [OF Cons.prems(1) cl [unfolded Inr]] True v1 Cons.prems(1) by auto
      show ?thesis
      proof (cases rd)
        case (Some e)
        then show ?thesis using Cons.prems(4) cl Inr True d v1 destroy_fail [OF d [unfolded Some]] by auto
      next
        case None
        have v2: "view w2 = destroy1 (view w1) s" using destroy_ok [OF inv1 none d [unfolded None]] .
        have "set l \<subseteq> snaps (view w2) full" "inv (view w2)" "clones (view w2) x = clones (view w) x"
          using Cons.prems(2,3) v1 v2 snaps_destroy1 [OF inv1 none] inv_destroy1 [OF inv1 none]
            clones_destroy1 [OF inv1 none] by auto
        then show ?thesis using Cons.IH [of w2 w' r] Cons.prems(3,4) cl Inr True d None by auto
      qed
    qed
  qed
qed simp

text \<open>The scan drops exactly the snapshots that nothing clones.\<close>

lemma scan_shed:
  "inv (view w) \<Longrightarrow> set l \<subseteq> snaps (view w) full \<Longrightarrow> distinct l \<Longrightarrow> scan_snaps Z l w = (w', r) \<Longrightarrow>
   shed full (view w) (view w') \<and>
   (\<forall>cs. r = Inr cs \<longrightarrow>
      snaps (view w') full = (snaps (view w) full - set l) \<union> set (map fst cs) \<and>
      (\<forall>(s, cl) \<in> set cs. s \<in> set l \<and> cl \<noteq> [] \<and> set cl = clones (view w') s))"
proof (induction l arbitrary: w w' r)
  case Nil
  then show ?case by (auto intro: shed.refl)
next
  case (Cons s l)
  obtain w1 rc where cl: "Clones Z s w = (w1, rc)" by fastforce
  have v1: "view w1 = view w" using clones_view [OF cl] .
  have inv1: "inv (view w1)" using Cons.prems(1) v1 by simp
  have dist: "distinct l" and fresh: "s \<notin> set l" using Cons.prems(3) by auto
  have sub: "set l \<subseteq> snaps (view w1) full" "s \<in> snaps (view w) full" using Cons.prems(2) v1 by auto
  show ?case
  proof (cases rc)
    case (Inl e)
    have "\<not> errors_Is e ErrNotExist" using clones_gone [OF Cons.prems(1) cl [unfolded Inl]] sub(2) by blast
    then show ?thesis using Cons.prems cl Inl v1 by (auto intro: shed.refl)
  next
    case (Inr clones0)
    have cset: "set clones0 = clones (view w) s" using clones_set [OF Cons.prems(1) cl [unfolded Inr]] .
    show ?thesis
    proof (cases "clones0 = []")
      case True
      obtain w2 rd where d: "DestroySnapshotDeferred Z s w1 = (w2, rd)" by fastforce
      have none: "clones (view w1) s = {}" using True cset v1 by auto
      show ?thesis
      proof (cases rd)
        case (Some e)
        then show ?thesis using Cons.prems cl Inr True d v1 destroy_fail [OF d [unfolded Some]]
          by (auto intro: shed.refl)
      next
        case None
        have v2: "view w2 = destroy1 (view w) s" using destroy_ok [OF inv1 none d [unfolded None]] v1 by simp
        have inv2: "inv (view w2)" and sn2: "snaps (view w2) full = snaps (view w) full - {s}"
          using inv_destroy1 [OF inv1 none] snaps_destroy1 [OF inv1 none] v1 v2 by auto
        have "set l \<subseteq> snaps (view w2) full" using sub(1) v1 sn2 fresh by auto
        from Cons.IH [OF inv2 this dist, of w' r] have ih: "shed full (view w2) (view w')"
            "\<And>cs. r = Inr cs \<Longrightarrow> snaps (view w') full = (snaps (view w2) full - set l) \<union> set (map fst cs) \<and>
              (\<forall>(s, cl) \<in> set cs. s \<in> set l \<and> cl \<noteq> [] \<and> set cl = clones (view w') s)"
          using Cons.prems(4) cl Inr True d None by auto
        have "shed full (view w) (view w2)"
          using shed.drop [OF shed.refl [OF Cons.prems(1)] sub(2)] none v1 v2 by simp
        then have "shed full (view w) (view w')" using ih(1) shed_trans by blast
        with ih(2) sn2 show ?thesis by fastforce
      qed
    next
      case False
      obtain w2 rs where sc: "scan_snaps Z l w1 = (w2, rs)" by fastforce
      have ih: "shed full (view w1) (view w2)"
          "\<And>cs. rs = Inr cs \<Longrightarrow> snaps (view w2) full = (snaps (view w1) full - set l) \<union> set (map fst cs) \<and>
            (\<forall>(s, cl) \<in> set cs. s \<in> set l \<and> cl \<noteq> [] \<and> set cl = clones (view w2) s)"
        using Cons.IH [OF inv1 sub(1) dist sc] by auto
      have w2: "w' = w2" "r = (case rs of Inl e \<Rightarrow> Inl e | Inr cs \<Rightarrow> Inr ((s, clones0) # cs))"
        using Cons.prems(4) cl Inr False sc by (auto split: sum.splits)
      have keep: "clones (view w2) s = clones (view w1) s"
        using scan_clones [OF inv1 sub(1) dist sc] .
      show ?thesis
      proof (cases rs)
        case (Inr cs)
        have "snaps (view w2) full = snaps (view w) full - set (s # l) \<union> set (map fst ((s, clones0) # cs))"
          using ih(2) [OF Inr] sub(2) fresh v1 by auto
        moreover have "set clones0 = clones (view w2) s" using cset keep v1 by simp
        ultimately show ?thesis using ih w2 v1 Inr False by auto
      qed (use ih(1) w2 v1 in auto)
    qed
  qed
qed

lemma scan_distinct: "distinct l \<Longrightarrow> scan_snaps Z l w = (w', Inr cs) \<Longrightarrow> distinct (map fst cs) \<and> fst ` set cs \<subseteq> set l"
proof (induction l arbitrary: w w' cs)
  case (Cons s l)
  have go: "distinct (map fst cs') \<and> fst ` set cs' \<subseteq> set l" if "scan_snaps Z l w1 = (w2, Inr cs')" for w1 w2 cs'
    using Cons.IH [OF _ that] Cons.prems(1) by simp
  show ?case using Cons.prems(2)
    by (auto split: prod.splits sum.splits option.splits if_splits dest!: go intro: Cons.prems(1))
      (use Cons.prems(1) in \<open>auto dest!: go\<close>)
qed simp

lemma find_backing_view:
  "find_backing Z cs w = (w', r) \<Longrightarrow> view w' = view w \<and> (\<forall>cd. r = Inr (Some cd) \<longrightarrow> cd \<in> set cs)"
proof (induction cs arbitrary: w w' r)
  case (Cons cd cs)
  obtain snap clone where cd: "cd = (snap, clone)" by fastforce
  obtain w1 rg where g: "Get Z clone PropRole w = (w1, rg)" by fastforce
  have "view w1 = view w" using get_view [OF g] .
  then show ?case using Cons.prems Cons.IH [of w1 w' r] g unfolding cd
    by (auto split: sum.splits if_splits)
qed simp

lemma in_candidates: "(s, c) \<in> set (candidates cs) \<Longrightarrow> \<exists>cl. (s, cl) \<in> set cs \<and> c \<in> set cl"
  by (auto simp: candidates_def)

lemma promote_one_shed:
  assumes inv: "inv (view w)" and c: "quiet_reader view c" and ne: "candidates cs \<noteq> []"
    and cs: "\<forall>(s, cl) \<in> set cs. s \<in> snaps (view w) full \<and> set cl = clones (view w) s"
    and r: "promote_one c Z g p cs w = (w', r)"
  shows "shed full (view w) (view w')"
proof -
  obtain w1 rf where f: "find_backing Z (candidates cs) w = (w1, rf)" by fastforce
  have v1: "view w1 = view w" using find_backing_view [OF f] by blast
  show ?thesis
  proof (cases rf)
    case (Inl e)
    then show ?thesis using r f v1 inv by (auto simp: promote_one_def intro: shed.refl)
  next
    case (Inr found)
    obtain snap clone where pick: "(case found of Some cd \<Rightarrow> cd | None \<Rightarrow> hd (candidates cs)) = (snap, clone)"
      by fastforce
    have "(snap, clone) \<in> set (candidates cs)"
      using pick find_backing_view [OF f] Inr hd_in_set [OF ne] by (cases found) auto
    then have sc: "snap \<in> snaps (view w) full" "clone \<in> clones (view w) snap"
      using in_candidates cs by fastforce+
    obtain w2 ra where a: "assertKnownDatasets c g p snap (case map_of cs snap of None \<Rightarrow> [] | Some l \<Rightarrow> l) w1 = (w2, ra)"
      by fastforce
    have v2: "view w2 = view w" using quiet_assertKnown [OF c a] v1 by simp
    show ?thesis
    proof (cases ra)
      case (Some e)
      then show ?thesis using r f Inr pick a v2 inv by (auto simp: promote_one_def intro: shed.refl)
    next
      case None
      obtain w3 rp where p: "Promote Z clone w2 = (w3, rp)" by fastforce
      have w': "w' = w3" using r f Inr pick a None p by (auto simp: promote_one_def split: option.splits)
      have inv3: "inv (view w3)" using inv_promote [OF _ p] inv v2 by simp
      show ?thesis
      proof (cases rp)
        case (Some e)
        then show ?thesis using promote_fail [of w2 clone w3 e] p v2 inv w' by (auto intro: shed.refl)
      next
        case None
        then have "can_promote (view w) clone" "view w3 = promote1 (view w) clone"
          using promote_ok [of w2 clone snap full w3] p v2 inv sc by simp_all
        then show ?thesis using shed.promote [OF shed.refl [OF inv] sc] inv3 w' by simp
      qed
    qed
  qed
qed

text \<open>The loop is a sequence of shedding steps, and when it reports success the dataset has no
  snapshot left.\<close>

lemma detach_rounds_shed:
  assumes "quiet_reader view c"
  shows "inv (view w) \<Longrightarrow> detach_rounds k c Z g p full w = (w', r) \<Longrightarrow>
    shed full (view w) (view w') \<and> (r = None \<longrightarrow> snaps (view w') full = {})"
proof (induction k arbitrary: w)
  case 0
  then show ?case by (auto intro: shed.refl)
next
  case (Suc k)
  obtain w1 rl where l: "ListSnapshots Z full w = (w1, rl)" by fastforce
  have v1: "view w1 = view w" using list_view [OF l] .
  show ?case
  proof (cases rl)
    case (Inl e)
    then show ?thesis using Suc.prems l v1 list_gone [OF Suc.prems(1) l [unfolded Inl]]
      by (auto intro: shed.refl split: if_splits)
  next
    case (Inr sl)
    have sl: "set sl = snaps (view w1) full" "distinct sl"
      using list_snaps [OF Suc.prems(1)] list_distinct [OF Suc.prems(1)] l Inr v1 by auto
    have inv1: "inv (view w1)" using Suc.prems(1) v1 by simp
    obtain w2 rs where sc: "scan_snaps Z sl w1 = (w2, rs)" by fastforce
    have sh: "shed full (view w1) (view w2)"
      and scs: "\<And>cs. rs = Inr cs \<Longrightarrow> snaps (view w2) full = set (map fst cs) \<and>
        (\<forall>(s, cl) \<in> set cs. s \<in> set sl \<and> cl \<noteq> [] \<and> set cl = clones (view w2) s)"
      using scan_shed [OF inv1 _ sl(2) sc, of full] sl(1) by auto
    consider (empty) "sl = []" | (foreign) s where "sl \<noteq> []" "find (\<lambda>s. assertDriverSnapshot s \<noteq> None) sl = Some s"
      | (scan) "sl \<noteq> []" "find (\<lambda>s. assertDriverSnapshot s \<noteq> None) sl = None"
      by (cases "find (\<lambda>s. assertDriverSnapshot s \<noteq> None) sl") auto
    then show ?thesis
    proof cases
      case empty
      then show ?thesis using Suc.prems l Inr v1 sl by (auto intro: shed.refl)
    next
      case (foreign s)
      then have "assertDriverSnapshot s \<noteq> None" by (auto simp: find_Some_iff)
      then show ?thesis using Suc.prems l Inr v1 foreign by (auto intro: shed.refl)
    next
      case scan
      show ?thesis
      proof (cases rs)
        case (Inl e)
        then show ?thesis using Suc.prems l Inr scan sc sh v1 by auto
      next
        case (Inr cs)
        note found = scs [OF Inr]
        show ?thesis
        proof (cases "candidates cs = []")
          case True
          then have "cs = []" using found by (cases cs) (auto simp: candidates_def)
          then show ?thesis using Suc.prems l \<open>rl = Inr sl\<close> scan sc sh v1 Inr found by (auto simp: candidates_def)
        next
          case False
          obtain w3 rp where p: "promote_one c Z g p cs w2 = (w3, rp)" by fastforce
          have inv2: "inv (view w2)" using shed_inv [OF sh] by simp
          have "s \<in> snaps (view w2) full \<and> set cl = clones (view w2) s" if "(s, cl) \<in> set cs" for s cl
            using found that image_eqI [of s fst "(s, cl)" "set cs"] by auto
          then have "\<forall>(s, cl) \<in> set cs. s \<in> snaps (view w2) full \<and> set cl = clones (view w2) s" by blast
          then have sh3: "shed full (view w2) (view w3)"
            using promote_one_shed [OF inv2 assms False _ p] by blast
          have sh13: "shed full (view w) (view w3)" using shed_trans [OF sh3 sh] v1 by simp
          have eq: "detach_rounds (Suc k) c Z g p full w =
              (case rp of Some e \<Rightarrow> (w3, Some e) | None \<Rightarrow> detach_rounds k c Z g p full w3)"
            using l \<open>rl = Inr sl\<close> scan sc Inr False p by (simp split: option.splits)
          show ?thesis
          proof (cases rp)
            case (Some e)
            then show ?thesis using Suc.prems(2) eq sh13 by auto
          next
            case None
            then have d: "detach_rounds k c Z g p full w3 = (w', r)" using Suc.prems(2) eq by simp
            have "inv (view w3)" using shed_inv [OF sh3] by simp
            then show ?thesis using Suc.IH [OF _ d] shed_trans [OF _ sh13] by blast
          qed
        qed
      qed
    qed
  qed
qed

end


text \<open>When nothing fails on its own, the loop reaches its end: a promote takes at least one snapshot off
  the dataset, so fewer snapshots than rounds are enough.\<close>

locale live_graph = clone_graph +
  fixes calm :: "'w \<Rightarrow> bool"
  assumes calm_list: "calm w \<Longrightarrow> ListSnapshots Z d w = (w', r) \<Longrightarrow>
      calm w' \<and> (\<forall>e. r = Inl e \<longrightarrow> errors_Is e ErrNotExist)"
    and calm_clones: "calm w \<Longrightarrow> inv (view w) \<Longrightarrow> s \<in> snaps (view w) d \<Longrightarrow> Clones Z s w = (w', rc) \<Longrightarrow>
      calm w' \<and> (\<exists>l. rc = Inr l)"
    and calm_destroy: "calm w \<Longrightarrow> inv (view w) \<Longrightarrow> s \<in> snaps (view w) d \<Longrightarrow>
      DestroySnapshotDeferred Z s w = (w', rd) \<Longrightarrow> calm w' \<and> rd = None"
    and calm_get: "calm w \<Longrightarrow> Get Z n p w = (w', rg) \<Longrightarrow> calm w' \<and> (\<forall>e. rg = Inl e \<longrightarrow> errors_Is e ErrNotExist)"
    and calm_promote: "calm w \<Longrightarrow> inv (view w) \<Longrightarrow> can_promote (view w) c \<Longrightarrow> Promote Z c w = (w', rp) \<Longrightarrow>
      calm w' \<and> rp = None"
    and promote_shrinks: "inv v \<Longrightarrow> s \<in> snaps v d \<Longrightarrow> c \<in> clones v s \<Longrightarrow> can_promote v c \<Longrightarrow>
      snaps (promote1 v c) d \<subset> snaps v d"
    and finite_snaps: "inv v \<Longrightarrow> finite (snaps v d)"
begin

lemma calm_scan:
  "calm w \<Longrightarrow> inv (view w) \<Longrightarrow> set l \<subseteq> snaps (view w) full \<Longrightarrow> distinct l \<Longrightarrow> scan_snaps Z l w = (w', r) \<Longrightarrow>
   calm w' \<and> (\<exists>cs. r = Inr cs)"
proof (induction l arbitrary: w w' r)
  case (Cons s l)
  obtain w1 rc where cl: "Clones Z s w = (w1, rc)" by fastforce
  have v1: "view w1 = view w" using clones_view [OF cl] .
  have in1: "s \<in> snaps (view w) full" "set l \<subseteq> snaps (view w1) full" "inv (view w1)" using Cons.prems v1 by auto
  obtain c0 where c0: "rc = Inr c0" and calm1: "calm w1" using calm_clones [OF Cons.prems(1,2) in1(1) cl] by blast
  show ?case
  proof (cases "c0 = []")
    case False
    obtain w2 rs where sc: "scan_snaps Z l w1 = (w2, rs)" by fastforce
    show ?thesis using Cons.IH [OF calm1 in1(3,2) _ sc] Cons.prems cl c0 sc False by auto
  next
    case True
    obtain w2 rd where d: "DestroySnapshotDeferred Z s w1 = (w2, rd)" by fastforce
    have rd: "rd = None" "calm w2" using calm_destroy [OF calm1 in1(3) _ d] in1(1) v1 by auto
    have none: "clones (view w1) s = {}" using clones_set [OF Cons.prems(2) cl [unfolded c0]] True v1 by auto
    have v2: "view w2 = destroy1 (view w1) s" using destroy_ok [OF in1(3) none d [unfolded rd(1)]] .
    have "set l \<subseteq> snaps (view w2) full" "inv (view w2)"
      using Cons.prems(4) in1 v2 snaps_destroy1 [OF in1(3) none] inv_destroy1 [OF in1(3) none] by auto
    then show ?thesis using Cons.IH [OF rd(2), of w' r] Cons.prems(4,5) cl c0 True d rd(1) by auto
  qed
qed simp

lemma calm_find_backing: "calm w \<Longrightarrow> find_backing Z cs w = (w', r) \<Longrightarrow> calm w' \<and> (\<exists>x. r = Inr x)"
proof (induction cs arbitrary: w w' r)
  case (Cons cd cs)
  obtain snap clone where cd: "cd = (snap, clone)" by fastforce
  obtain w1 rg where g: "Get Z clone PropRole w = (w1, rg)" by fastforce
  show ?case using Cons.prems(2) Cons.IH [of w1 w' r] calm_get [OF Cons.prems(1) g] g unfolding cd
    by (auto split: sum.splits if_splits)
qed simp

text \<open>The conditions under which nothing is refused: \<open>P\<close> holds along the way, all snapshots of the
  dataset carry driver names, and the clones are known and free of conflicting names.\<close>

lemma promote_one_live:
  assumes w: "calm w" "inv (view w)" and c: "quiet_reader view c" and ne: "candidates cs \<noteq> []"
    and dist: "distinct (map fst cs)"
    and cs: "\<forall>(s, cl) \<in> set cs. s \<in> snaps (view w) full \<and> set cl = clones (view w) s"
    and can: "\<And>s cl. s \<in> snaps (view w) full \<Longrightarrow> cl \<in> clones (view w) s \<Longrightarrow> can_promote (view w) cl"
    and known: "\<And>w1 s cl. calm w1 \<Longrightarrow> view w1 = view w \<Longrightarrow> s \<in> snaps (view w) full \<Longrightarrow> set cl = clones (view w) s \<Longrightarrow>
      calm (fst (assertKnownDatasets c g p s cl w1)) \<and> snd (assertKnownDatasets c g p s cl w1) = None"
    and r: "promote_one c Z g p cs w = (w', r)"
  shows "r = None \<and> calm w' \<and> snaps (view w') full \<subset> snaps (view w) full"
proof -
  obtain w1 rf where f: "find_backing Z (candidates cs) w = (w1, rf)" by fastforce
  have v1: "view w1 = view w" using find_backing_view [OF f] by blast
  obtain found where Inr: "rf = Inr found" and calm1: "calm w1" using calm_find_backing [OF w(1) f] by blast
  obtain snap clone where pick: "(case found of Some cd \<Rightarrow> cd | None \<Rightarrow> hd (candidates cs)) = (snap, clone)"
    by fastforce
  have "(snap, clone) \<in> set (candidates cs)"
    using pick find_backing_view [OF f] Inr hd_in_set [OF ne] by (cases found) auto
  then obtain cl where cl: "(snap, cl) \<in> set cs" "clone \<in> set cl" using in_candidates by blast
  then have sc: "snap \<in> snaps (view w) full" "clone \<in> clones (view w) snap" "set cl = clones (view w) snap"
    using cs by auto
  have look: "map_of cs snap = Some cl" using cl(1) dist by (simp add: map_of_eq_Some_iff)
  obtain w2 ra where a: "assertKnownDatasets c g p snap cl w1 = (w2, ra)" by fastforce
  have ra: "ra = None" "calm w2" using known [OF calm1 v1 sc(1,3)] a by auto
  have v2: "view w2 = view w" using quiet_assertKnown [OF c a] v1 by simp
  obtain w3 rp where p: "Promote Z clone w2 = (w3, rp)" by fastforce
  have can2: "can_promote (view w2) clone" and inv2: "inv (view w2)" using can sc v2 w(2) by auto
  have rp: "rp = None" "calm w3" using calm_promote [OF ra(2) inv2 can2 p] by auto
  have "w' = w3 \<and> r = None"
    using r f Inr pick look a ra(1) p rp(1) by (auto simp: promote_one_def)
  moreover have "snaps (view w3) full \<subset> snaps (view w) full"
    using promote_ok [of w2 clone snap full w3] promote_shrinks [OF inv2 _ _ can2, of snap full] p rp(1) sc v2 inv2 by auto
  ultimately show ?thesis using rp(2) by blast
qed

lemma detach_rounds_live:
  assumes c: "quiet_reader view c"
    and closed: "\<And>v v'. P v \<Longrightarrow> shed full v v' \<Longrightarrow> P v'"
    and driver: "\<And>v s. P v \<Longrightarrow> s \<in> snaps v full \<Longrightarrow> assertDriverSnapshot s = None"
    and can: "\<And>v s cl. P v \<Longrightarrow> inv v \<Longrightarrow> s \<in> snaps v full \<Longrightarrow> cl \<in> clones v s \<Longrightarrow> can_promote v cl"
    and known: "\<And>w s cl. calm w \<Longrightarrow> P (view w) \<Longrightarrow> s \<in> snaps (view w) full \<Longrightarrow> set cl = clones (view w) s \<Longrightarrow>
      calm (fst (assertKnownDatasets c g p s cl w)) \<and> snd (assertKnownDatasets c g p s cl w) = None"
  shows "calm w \<Longrightarrow> inv (view w) \<Longrightarrow> P (view w) \<Longrightarrow> card (snaps (view w) full) < k \<Longrightarrow>
    snd (detach_rounds k c Z g p full w) = None"
proof (induction k arbitrary: w)
  case (Suc k)
  obtain w1 rl where l: "ListSnapshots Z full w = (w1, rl)" by fastforce
  have v1: "view w1 = view w" and calm1: "calm w1" and rl: "\<And>e. rl = Inl e \<Longrightarrow> errors_Is e ErrNotExist"
    using list_view [OF l] calm_list [OF Suc.prems(1) l] by auto
  show ?case
  proof (cases rl)
    case (Inl e)
    then show ?thesis using l rl by simp
  next
    case (Inr sl)
    have inv1: "inv (view w1)" using Suc.prems(2) v1 by simp
    have sl: "set sl = snaps (view w1) full" "distinct sl"
      using list_snaps [OF Suc.prems(2)] list_distinct [OF Suc.prems(2)] l Inr v1 by auto
    have nof: "find (\<lambda>s. assertDriverSnapshot s \<noteq> None) sl = None"
      using driver [OF Suc.prems(3)] sl(1) v1 by (simp add: find_None_iff)
    obtain w2 rs where sc: "scan_snaps Z sl w1 = (w2, rs)" by fastforce
    obtain cs where cs: "rs = Inr cs" and calm2: "calm w2"
      using calm_scan [OF calm1 inv1 _ sl(2) sc, of full] sl(1) by auto
    have sh: "shed full (view w1) (view w2)"
      and scs: "snaps (view w2) full = set (map fst cs)"
        "\<forall>(s, cl) \<in> set cs. s \<in> set sl \<and> cl \<noteq> [] \<and> set cl = clones (view w2) s"
      using scan_shed [OF inv1 _ sl(2) sc, of full] sl(1) cs by auto
    have inv2: "inv (view w2)" using shed_inv [OF sh] by simp
    have P2: "P (view w2)" using closed [OF Suc.prems(3)] sh v1 by simp
    show ?thesis
    proof (cases "sl = [] \<or> candidates cs = []")
      case True
      then show ?thesis using l Inr nof sc cs by auto
    next
      case False
      obtain w3 rp where p: "promote_one c Z g p cs w2 = (w3, rp)" by fastforce
      have cs2: "\<forall>(s, cl) \<in> set cs. s \<in> snaps (view w2) full \<and> set cl = clones (view w2) s"
        using scs by (auto intro: rev_image_eqI)
      have live: "rp = None \<and> calm w3 \<and> snaps (view w3) full \<subset> snaps (view w2) full"
      proof (rule promote_one_live [OF calm2 inv2 c _ _ cs2 _ _ p])
        show "candidates cs \<noteq> []" using False by simp
        show "distinct (map fst cs)" using scan_distinct [OF sl(2) sc [unfolded cs]] by simp
      qed (use can [OF P2 inv2] known P2 in auto)
      have sh3: "shed full (view w2) (view w3)"
        using promote_one_shed [OF inv2 c _ cs2 p] False by blast
      have "card (snaps (view w3) full) < card (snaps (view w2) full)"
        using live finite_snaps [OF inv2] by (simp add: psubset_card_mono)
      also have "card (snaps (view w2) full) \<le> card (snaps (view w) full)"
        using scs sl v1 finite_snaps [OF Suc.prems(2)] by (intro card_mono) auto
      finally have "card (snaps (view w3) full) < k" using Suc.prems(4) by simp
      then have "snd (detach_rounds k c Z g p full w3) = None"
        using Suc.IH [of w3] live shed_inv [OF sh3] closed [OF P2 sh3] by simp
      then show ?thesis using l Inr nof sc cs p live False by simp
    qed
  qed
qed simp

end
end
