(* ===== verification/MemZfs_Inv.thy ===== *)
theory MemZfs_Inv
  imports MemZfs
begin

text \<open>
  The well-formedness invariant of the in-memory ZFS and its preservation by every method.

  The invariant says more than the method \<open>Check\<close> tests: besides parents, origins and deferred marks it
  has the lineage law of ZFS (the origin of a dataset is older than every snapshot the dataset itself
  carries), which makes the clone graph acyclic and is what a promote has to keep.
\<close>

type_synonym dsmap = "(string, dataset) gomap"

subsection \<open>Views of the dataset map\<close>

definition snap_in :: "dsmap \<Rightarrow> string \<Rightarrow> string \<Rightarrow> snapshot option" where
  "snap_in ds dn sn = (case map_of ds dn of None \<Rightarrow> None | Some d \<Rightarrow> map_of (ds_snaps d) sn)"

definition origin_in :: "dsmap \<Rightarrow> string \<Rightarrow> string" where
  "origin_in ds n = (case map_of ds n of None \<Rightarrow> '''' | Some d \<Rightarrow> ds_origin d)"

definition cloned :: "dsmap \<Rightarrow> string \<Rightarrow> bool" where
  "cloned ds full \<longleftrightarrow> (\<exists>n d. map_of ds n = Some d \<and> ds_origin d = full)"

definition is_name :: "string \<Rightarrow> bool" where
  "is_name n \<longleftrightarrow> CHR ''@'' \<notin> set n"

definition names_ok :: "dsmap \<Rightarrow> bool" where
  "names_ok ds \<longleftrightarrow> wf_map ds \<and>
     (\<forall>n d. map_of ds n = Some d \<longrightarrow> ds_name d = n \<and> is_name n \<and> wf_map (ds_snaps d) \<and>
        (\<forall>sn s. map_of (ds_snaps d) sn = Some s \<longrightarrow> sn_name s = sn))"

definition parents_ok :: "dsmap \<Rightarrow> bool" where
  "parents_ok ds \<longleftrightarrow>
     (\<forall>n d. map_of ds n = Some d \<longrightarrow> parentOf n = '''' \<or> map_of ds (parentOf n) \<noteq> None)"

definition deferred_ok :: "dsmap \<Rightarrow> bool" where
  "deferred_ok ds \<longleftrightarrow>
     (\<forall>dn sn s. snap_in ds dn sn = Some s \<longrightarrow> sn_deferred s \<longrightarrow> cloned ds (snap_full dn sn))"

definition txg_ok :: "int \<Rightarrow> dsmap \<Rightarrow> bool" where
  "txg_ok t ds \<longleftrightarrow> (\<forall>dn sn s. snap_in ds dn sn = Some s \<longrightarrow> sn_txg s \<le> t)"

definition has_origin :: "dsmap \<Rightarrow> string \<Rightarrow> string \<Rightarrow> bool" where
  "has_origin ds n og \<longleftrightarrow>
     (\<exists>pn osn os. og = snap_full pn osn \<and> snap_in ds pn osn = Some os \<and>
        (\<forall>sn s. snap_in ds n sn = Some s \<longrightarrow> sn_txg os < sn_txg s))"

definition lineage_ok :: "dsmap \<Rightarrow> bool" where
  "lineage_ok ds \<longleftrightarrow>
     (\<forall>n d. map_of ds n = Some d \<longrightarrow> ds_origin d = '''' \<or> has_origin ds n (ds_origin d))"

definition ds_inv :: "int \<Rightarrow> dsmap \<Rightarrow> bool" where
  "ds_inv t ds \<longleftrightarrow> names_ok ds \<and> parents_ok ds \<and> deferred_ok ds \<and> txg_ok t ds \<and> lineage_ok ds"

definition mem_inv :: "Mem \<Rightarrow> bool" where
  "mem_inv m \<longleftrightarrow> ds_inv (m_txg m) (m_ds m)"

lemmas inv_defs = names_ok_def parents_ok_def deferred_ok_def txg_ok_def lineage_ok_def

lemma snap_at_snap_in: "snap_at m = snap_in (m_ds m)"
  by (simp add: snap_at_def snap_in_def fun_eq_iff)

lemma snap_in_dom: "snap_in ds dn sn = Some s \<Longrightarrow> \<exists>d. map_of ds dn = Some d \<and> map_of (ds_snaps d) sn = Some s"
  by (auto simp: snap_in_def split: option.splits)

lemma snap_in_Some: "map_of ds dn = Some d \<Longrightarrow> snap_in ds dn sn = map_of (ds_snaps d) sn"
  by (simp add: snap_in_def)

lemma names_okD:
  assumes "names_ok ds" "map_of ds n = Some d"
  shows "ds_name d = n" "is_name n" "wf_map (ds_snaps d)"
    "map_of (ds_snaps d) sn = Some s \<Longrightarrow> sn_name s = sn"
  using assms by (auto simp: names_ok_def)

lemma names_ok_snap: "names_ok ds \<Longrightarrow> snap_in ds dn sn = Some s \<Longrightarrow> is_name dn \<and> sn_name s = sn"
  by (auto dest!: snap_in_dom simp: names_ok_def)

lemma split_name_full [simp]: "is_name dn \<Longrightarrow> split_name (snap_full dn sn) = (dn, sn, True)"
  by (simp add: split_name_def snap_full_def is_name_def)

lemma split_name_plain [simp]: "is_name n \<Longrightarrow> split_name n = (n, '''', False)"
  by (simp add: split_name_def is_name_def)

lemma split_name_snap: "split_name n = (dn, sn, True) \<Longrightarrow> n = snap_full dn sn \<and> is_name dn"
  by (auto simp: split_name_def snap_full_def is_name_def before_after split: if_splits)

lemma split_name_ds: "split_name n = (dn, sn, False) \<Longrightarrow> dn = n \<and> is_name n"
  by (auto simp: split_name_def is_name_def split: if_splits)

lemma is_name_not_full [simp]: "is_name n \<Longrightarrow> n \<noteq> snap_full dn sn"
  by (auto simp: is_name_def)

lemma snap_full_inj: "is_name dn \<Longrightarrow> is_name dn' \<Longrightarrow> snap_full dn sn = snap_full dn' sn' \<longleftrightarrow> dn = dn' \<and> sn = sn'"
  by (simp add: is_name_def)

lemma set_clonesOf: "names_ok (m_ds m) \<Longrightarrow> n \<in> set (clonesOf m full) \<longleftrightarrow>
   (\<exists>d. map_of (m_ds m) n = Some d \<and> ds_origin d = full)"
proof -
  assume "names_ok (m_ds m)"
  then have "(n, d) \<in> set (m_ds m) \<longleftrightarrow> map_of (m_ds m) n = Some d" for d
    by (simp add: names_ok_def wf_map_in_iff)
  moreover have "n \<in> set (clonesOf m full) \<longleftrightarrow> (\<exists>d. (n, d) \<in> set (m_ds m) \<and> ds_origin d = full)"
    unfolding clonesOf_def set_sort set_map set_filter by (auto simp: image_iff)
  ultimately show ?thesis by simp
qed

lemma clonesOf_Nil: "names_ok (m_ds m) \<Longrightarrow> clonesOf m full = [] \<longleftrightarrow> \<not> cloned (m_ds m) full"
  using set_clonesOf [of m _ full] unfolding cloned_def by (metis list.set_intros(1) neq_Nil_conv set_ConsD empty_iff empty_set)

subsection \<open>Consequences\<close>

lemma lineageE:
  assumes "names_ok ds" "lineage_ok ds" "map_of ds n = Some d" "ds_origin d \<noteq> ''''"
  obtains pn osn p os where "ds_origin d = snap_full pn osn" "is_name pn" "map_of ds pn = Some p"
    "map_of (ds_snaps p) osn = Some os" "pn \<noteq> n"
    "\<And>sn s. map_of (ds_snaps d) sn = Some s \<Longrightarrow> sn_txg os < sn_txg s"
proof -
  from assms(2-4) obtain pn osn os where o: "ds_origin d = snap_full pn osn"
      "snap_in ds pn osn = Some os" "\<And>sn s. snap_in ds n sn = Some s \<Longrightarrow> sn_txg os < sn_txg s"
    by (fastforce simp: lineage_ok_def has_origin_def)
  moreover from o have "pn \<noteq> n" by fastforce
  ultimately show ?thesis using that assms(1) names_ok_snap [OF assms(1) o(2)] snap_in_dom [OF o(2)]
    by (metis (no_types) assms(3) snap_in_Some)
qed

text \<open>Along a chain of origins the transaction groups decrease, so the walk of \<open>Check\<close> finds no cycle.\<close>

definition older_origin :: "dsmap \<Rightarrow> string list \<Rightarrow> string \<Rightarrow> bool" where
  "older_origin ds seen og \<longleftrightarrow> og = '''' \<or> (\<exists>pn osn os. og = snap_full pn osn \<and> snap_in ds pn osn = Some os \<and>
     (\<forall>k \<in> set seen. \<forall>sn s. snap_in ds k sn = Some s \<longrightarrow> sn_txg os < sn_txg s))"

lemma older_origin_start: "lineage_ok ds \<Longrightarrow> map_of ds n = Some d \<Longrightarrow> older_origin ds [n] (ds_origin d)"
  by (auto simp: lineage_ok_def older_origin_def has_origin_def)

lemma older_origin_step:
  assumes "names_ok ds" "lineage_ok ds" "older_origin ds seen og" "og \<noteq> ''''" "on = fst (split_name og)"
  obtains d where "map_of ds on = Some d" "on \<notin> set seen" "older_origin ds (on # seen) (ds_origin d)"
proof -
  from assms(3,4) obtain pn osn os where og: "og = snap_full pn osn" "snap_in ds pn osn = Some os"
      and lt: "\<And>k sn s. k \<in> set seen \<Longrightarrow> snap_in ds k sn = Some s \<Longrightarrow> sn_txg os < sn_txg s"
    unfolding older_origin_def by blast
  have on: "on = pn" using assms(1,5) og names_ok_snap by fastforce
  obtain d where d: "map_of ds pn = Some d" using snap_in_dom [OF og(2)] by blast
  have fresh: "pn \<notin> set seen" using lt og(2) by fastforce
  have "older_origin ds (pn # seen) (ds_origin d)"
  proof (cases "ds_origin d = ''''")
    case False
    then have "has_origin ds pn (ds_origin d)" using assms(2) d by (auto simp: lineage_ok_def)
    then obtain qn qs q where q: "ds_origin d = snap_full qn qs" "snap_in ds qn qs = Some q"
        "\<And>sn s. snap_in ds pn sn = Some s \<Longrightarrow> sn_txg q < sn_txg s"
      unfolding has_origin_def by blast
    have "sn_txg q < sn_txg os" using q(3) og(2) by blast
    with q lt show ?thesis unfolding older_origin_def by (metis less_trans set_ConsD)
  qed (simp add: older_origin_def)
  with d fresh on that show ?thesis by blast
qed

lemma origin_chain_None:
  "names_ok (m_ds m) \<Longrightarrow> lineage_ok (m_ds m) \<Longrightarrow> older_origin (m_ds m) seen og \<Longrightarrow>
   origin_chain m seen og = None"
proof (induction m seen og rule: origin_chain.induct)
  case (1 m seen og)
  show ?case
  proof (cases "og = ''''")
    case False
    then obtain d where "map_of (m_ds m) (fst (split_name og)) = Some d"
        "fst (split_name og) \<notin> set seen" "older_origin (m_ds m) (fst (split_name og) # seen) (ds_origin d)"
      using older_origin_step [OF 1(2-4)] by blast
    with 1 False show ?thesis by (subst origin_chain.simps) (simp add: Let_def)
  qed (simp add: origin_chain.simps)
qed

lemma first_error_None: "first_error f xs = None \<longleftrightarrow> (\<forall>x \<in> set xs. f x = None)"
  by (induction xs) (auto split: option.splits)

lemma check_dataset_None:
  assumes inv: "ds_inv t (m_ds m)" and d: "map_of (m_ds m) n = Some d"
  shows "check_dataset m n d = None"
proof -
  have inv': "names_ok (m_ds m)" "parents_ok (m_ds m)" "deferred_ok (m_ds m)" "lineage_ok (m_ds m)"
    using inv by (auto simp: ds_inv_def)
  have par: "\<not> (parentOf n \<noteq> '''' \<and> map_of (m_ds m) (parentOf n) = None)"
    using inv'(2) d unfolding parents_ok_def by blast
  have ori: "\<not> (ds_origin d \<noteq> '''' \<and>
      (case split_name (ds_origin d) of (dn, sn, _) \<Rightarrow> snap_at m dn sn = None))"
    using lineageE [OF inv'(1,4) d] by (fastforce simp: snap_at_def)
  have def0: "\<not> (sn_deferred s \<and> clonesOf m (snap_full n (sn_name s)) = [])" if "(k, s) \<in> set (ds_snaps d)" for k s
  proof -
    have s: "map_of (ds_snaps d) k = Some s" using that names_okD(3) [OF inv'(1) d] by (simp add: wf_map_in_iff)
    have "sn_name s = k" using names_okD(4) [OF inv'(1) d s] .
    moreover have "sn_deferred s \<longrightarrow> cloned (m_ds m) (snap_full n k)"
      using inv'(3) s d unfolding deferred_ok_def by (metis snap_in_Some)
    ultimately show ?thesis by (simp add: clonesOf_Nil [OF inv'(1)])
  qed
  have def1: "find (\<lambda>(k, s). sn_deferred s \<and> clonesOf m (snap_full n (sn_name s)) = []) (ds_snaps d) = None"
    using def0 by (simp add: find_None_iff split: prod.splits)
  have chain: "origin_chain m [n] (ds_origin d) = None"
    using inv' d by (simp add: origin_chain_None older_origin_start)
  show ?thesis unfolding check_dataset_def using par ori def1 chain by simp
qed

lemma mem_inv_Check: "mem_inv m \<Longrightarrow> Mem_Check m = None"
  unfolding Mem_Check_def mem_inv_def
  by (auto simp: first_error_None wf_map_in_iff ds_inv_def names_ok_def
      intro!: check_dataset_None [unfolded ds_inv_def names_ok_def])


lemma cloned_alt: "cloned ds full \<longleftrightarrow> (\<exists>n. map_option ds_origin (map_of ds n) = Some full)"
  by (auto simp: cloned_def)

subsection \<open>Adding a dataset\<close>

lemma snap_in_update_empty:
  "map_of ds n = None \<Longrightarrow> ds_snaps d = [] \<Longrightarrow> snap_in (AList.update n d ds) = snap_in ds"
  by (auto simp: snap_in_def fun_eq_iff)

lemma cloned_update: "cloned ds full \<Longrightarrow> map_of ds n = None \<Longrightarrow> cloned (AList.update n d ds) full"
  unfolding cloned_def by (metis map_of_update option.distinct(1))

lemma ds_inv_add:
  assumes inv: "ds_inv t ds" and new: "map_of ds n = None" "is_name n" "map_of ds (parentOf n) \<noteq> None"
    and d: "ds_name d = n" "ds_snaps d = []" "ds_origin d = '''' \<or> (\<exists>pn osn os. ds_origin d = snap_full pn osn \<and> snap_in ds pn osn = Some os)"
  shows "ds_inv t (AList.update n d ds)"
proof -
  note s = snap_in_update_empty [OF new(1) d(2)]
  have "names_ok (AList.update n d ds)" using inv new d by (auto simp: ds_inv_def names_ok_def)
  moreover have "parents_ok (AList.update n d ds)" using inv new by (auto simp: ds_inv_def parents_ok_def)
  moreover have "deferred_ok (AList.update n d ds)"
    using inv cloned_update [OF _ new(1)] by (auto simp: ds_inv_def deferred_ok_def s)
  moreover have "txg_ok t (AList.update n d ds)" using inv by (auto simp: ds_inv_def txg_ok_def s)
  moreover have "lineage_ok (AList.update n d ds)"
    using inv d(3) new(1) by (auto simp: ds_inv_def lineage_ok_def has_origin_def s snap_in_def)
  ultimately show ?thesis by (simp add: ds_inv_def)
qed

subsection \<open>Changes that keep the clone graph\<close>

text \<open>A rewrite of one dataset that keeps its name, origin and the identity of its snapshots.\<close>

definition same_graph :: "dataset \<Rightarrow> dataset \<Rightarrow> bool" where
  "same_graph d d' \<longleftrightarrow> ds_name d' = ds_name d \<and> ds_origin d' = ds_origin d \<and> wf_map (ds_snaps d') = wf_map (ds_snaps d) \<and>
     (\<forall>sn. rel_option (\<lambda>s s'. sn_name s' = sn_name s \<and> sn_txg s' = sn_txg s)
              (map_of (ds_snaps d) sn) (map_of (ds_snaps d') sn))"

lemma cloned_mmod: "(\<And>d. map_of ds n = Some d \<Longrightarrow> ds_origin (f d) = ds_origin d) \<Longrightarrow> cloned (mmod n f ds) full = cloned ds full"
proof -
  assume "\<And>d. map_of ds n = Some d \<Longrightarrow> ds_origin (f d) = ds_origin d"
  then have "map_option ds_origin (map_of (mmod n f ds) k) = map_option ds_origin (map_of ds k)" for k
    by (cases "map_of ds n") auto
  then show ?thesis by (simp only: cloned_alt)
qed

lemma has_origin_mono:
  assumes "has_origin ds n og"
    and "\<And>dn sn s. snap_in ds dn sn = Some s \<Longrightarrow> \<exists>s'. snap_in ds' dn sn = Some s' \<and> sn_txg s' = sn_txg s"
    and "\<And>sn s'. snap_in ds' n sn = Some s' \<Longrightarrow> \<exists>s. snap_in ds n sn = Some s \<and> sn_txg s' = sn_txg s"
  shows "has_origin ds' n og"
proof -
  from assms(1) obtain pn osn os where o: "og = snap_full pn osn" "snap_in ds pn osn = Some os"
    "\<And>sn s. snap_in ds n sn = Some s \<Longrightarrow> sn_txg os < sn_txg s" unfolding has_origin_def by blast
  from assms(2) [OF o(2)] obtain os' where os': "snap_in ds' pn osn = Some os'" "sn_txg os' = sn_txg os" by blast
  have "sn_txg os' < sn_txg s'" if "snap_in ds' n sn = Some s'" for sn s'
    using assms(3) [OF that] o(3) os'(2) by metis
  with o(1) os'(1) show ?thesis unfolding has_origin_def by blast
qed

lemma rel_option_SomeD: "rel_option R x y \<Longrightarrow> x = Some a \<Longrightarrow> \<exists>b. y = Some b \<and> R a b"
  by (cases y) auto

lemma rel_option_SomeD2: "rel_option R x y \<Longrightarrow> y = Some b \<Longrightarrow> \<exists>a. x = Some a \<and> R a b"
  by (cases x) auto

lemma ds_inv_same_graph:
  assumes inv: "ds_inv t ds" and g: "\<And>d. map_of ds n = Some d \<Longrightarrow> same_graph d (f d)"
    and def: "\<And>d sn s'. map_of ds n = Some d \<Longrightarrow> map_of (ds_snaps (f d)) sn = Some s' \<Longrightarrow> sn_deferred s' \<Longrightarrow>
                cloned ds (snap_full n sn)"
  shows "ds_inv t (mmod n f ds)"
proof -
  have c: "cloned (mmod n f ds) = cloned ds"
    using g by (intro ext cloned_mmod) (auto simp: same_graph_def)
  have rel: "rel_option (\<lambda>s s'. sn_name s' = sn_name s \<and> sn_txg s' = sn_txg s) (snap_in ds dn sn) (snap_in (mmod n f ds) dn sn)"
    for dn sn
    using g by (auto simp: snap_in_def same_graph_def option.rel_refl split: option.splits)
  note fwd = rel_option_SomeD [OF rel] and bwd = rel_option_SomeD2 [OF rel]
  have "names_ok (mmod n f ds)"
    unfolding names_ok_def
  proof (intro conjI allI impI)
    show "wf_map (mmod n f ds)" using inv by (simp add: ds_inv_def names_ok_def)
    fix k d' assume k: "map_of (mmod n f ds) k = Some d'"
    then obtain d where d: "map_of ds k = Some d" "d' = (if k = n then f d else d)" by (auto split: if_splits)
    have nd: "ds_name d = k" "is_name k" "wf_map (ds_snaps d)"
      using inv names_okD(1-3) [OF _ d(1)] by (auto simp: ds_inv_def)
    show "ds_name d' = k" "is_name k" "wf_map (ds_snaps d')" using nd d g by (auto simp: same_graph_def)
    fix sn s' assume "map_of (ds_snaps d') sn = Some s'"
    then have "snap_in (mmod n f ds) k sn = Some s'" using k by (simp add: snap_in_def)
    then obtain s where "snap_in ds k sn = Some s" "sn_name s' = sn_name s" using bwd by blast
    then show "sn_name s' = sn" using inv names_ok_snap by (auto simp: ds_inv_def)
  qed
  moreover have "parents_ok (mmod n f ds)" using inv by (auto simp: ds_inv_def parents_ok_def split: if_splits)
  moreover have "deferred_ok (mmod n f ds)"
  proof -
    have "cloned ds (snap_full dn sn)" if "snap_in (mmod n f ds) dn sn = Some s" "sn_deferred s" for dn sn s
      using that inv def by (cases "dn = n") (auto simp: ds_inv_def deferred_ok_def snap_in_def split: option.splits)
    then show ?thesis by (simp add: deferred_ok_def c)
  qed
  moreover have "txg_ok t (mmod n f ds)" using inv bwd unfolding ds_inv_def txg_ok_def by metis
  moreover have "lineage_ok (mmod n f ds)"
    unfolding lineage_ok_def
  proof (intro allI impI)
    fix k d' assume "map_of (mmod n f ds) k = Some d'"
    then obtain d where d: "map_of ds k = Some d" "ds_origin d' = ds_origin d"
      using g by (auto simp: same_graph_def split: if_splits)
    then have "ds_origin d = '''' \<or> has_origin ds k (ds_origin d)" using inv by (auto simp: ds_inv_def lineage_ok_def)
    then show "ds_origin d' = '''' \<or> has_origin (mmod n f ds) k (ds_origin d')"
      using d(2) has_origin_mono [of ds k "ds_origin d" "mmod n f ds"] fwd bwd by fastforce
  qed
  ultimately show ?thesis by (simp add: ds_inv_def)
qed

subsection \<open>Adding snapshots\<close>

lemma ds_inv_mono: "ds_inv t ds \<Longrightarrow> t \<le> t' \<Longrightarrow> ds_inv t' ds"
  by (force simp: ds_inv_def txg_ok_def)

lemma snap_in_put: "snap_in (mmod dn (put_snap sn s) ds) a b =
   (if a = dn \<and> b = sn \<and> map_of ds dn \<noteq> None then Some s else snap_in ds a b)"
  by (auto simp: snap_in_def put_snap_def split: option.splits)

lemma cloned_put [simp]: "cloned (mmod dn (put_snap sn s) ds) full = cloned ds full"
  by (rule cloned_mmod) (simp add: put_snap_def)

lemma cloned_del [simp]: "cloned (mmod dn (del_snap sn) ds) full = cloned ds full"
  by (rule cloned_mmod) (simp add: del_snap_def)

definition origins_before :: "int \<Rightarrow> dsmap \<Rightarrow> bool" where
  "origins_before t ds \<longleftrightarrow>
     (\<forall>pn osn os. snap_in ds pn osn = Some os \<longrightarrow> cloned ds (snap_full pn osn) \<longrightarrow> sn_txg os < t)"

lemma names_ok_put: "names_ok ds \<Longrightarrow> sn_name s = sn \<Longrightarrow> names_ok (mmod dn (put_snap sn s) ds)"
  unfolding names_ok_def by (auto simp: put_snap_def split: if_splits)

lemma parents_ok_mmod: "parents_ok ds \<Longrightarrow> parents_ok (mmod n f ds)"
  unfolding parents_ok_def by (auto split: if_splits)

lemma cloned_origin: "map_of ds n = Some d \<Longrightarrow> cloned ds (ds_origin d)"
  by (auto simp: cloned_def)

lemma ds_inv_take:
  assumes inv: "ds_inv t ds" "origins_before t ds"
    and old: "snap_in ds dn sn = None \<or> snap_in ds dn sn = Some (new_snap sn t)"
  defines "ds' \<equiv> mmod dn (put_snap sn (new_snap sn t)) ds"
  shows "ds_inv t ds' \<and> origins_before t ds'"
proof -
  have parts: "names_ok ds" "parents_ok ds" "deferred_ok ds" "txg_ok t ds" "lineage_ok ds"
    using inv(1) by (auto simp: ds_inv_def)
  have new: "snap_in ds' a b = (if a = dn \<and> b = sn \<and> map_of ds dn \<noteq> None then Some (new_snap sn t) else snap_in ds a b)" for a b
    unfolding ds'_def by (rule snap_in_put)
  have old': "snap_in ds' a b = Some s" if "snap_in ds a b = Some s" for a b s using that old by (auto simp: new)
  have c: "cloned ds' = cloned ds" by (simp add: ds'_def fun_eq_iff)
  have ob: "origins_before t ds'"
    unfolding origins_before_def c
  proof (intro allI impI)
    fix pn osn os assume os: "snap_in ds' pn osn = Some os" and cl: "cloned ds (snap_full pn osn)"
    obtain n d where nd: "map_of ds n = Some d" "ds_origin d = snap_full pn osn" using cl by (auto simp: cloned_def)
    then have "has_origin ds n (snap_full pn osn)" using parts(5) by (fastforce simp: lineage_ok_def)
    then obtain pn' osn' os' where p: "snap_full pn osn = snap_full pn' osn'" "snap_in ds pn' osn' = Some os'"
      unfolding has_origin_def by blast
    have "is_name pn'" using names_ok_snap [OF parts(1) p(2)] by simp
    moreover have "is_name pn" using os parts(1) names_okD(2) snap_in_dom [OF os]
      by (metis (no_types, lifting) ds'_def map_of_mmod map_option_eq_Some)
    ultimately have "pn = pn'" "osn = osn'" using p(1) by (simp_all add: snap_full_inj)
    with p os old' have "snap_in ds pn osn = Some os" by (metis option.inject)
    then show "sn_txg os < t" using inv(2) cl by (auto simp: origins_before_def)
  qed
  have "names_ok ds'" unfolding ds'_def using parts(1) by (rule names_ok_put) (simp add: new_snap_def)
  moreover have "parents_ok ds'" unfolding ds'_def using parts(2) by (rule parents_ok_mmod)
  moreover have "deferred_ok ds'" using parts(3) by (auto simp: deferred_ok_def c new new_snap_def)
  moreover have "txg_ok t ds'" using parts(4) by (auto simp: txg_ok_def new new_snap_def)
  moreover have "lineage_ok ds'"
    unfolding lineage_ok_def
  proof (intro allI impI)
    fix n d' assume "map_of ds' n = Some d'"
    then obtain d where d: "map_of ds n = Some d" "ds_origin d' = ds_origin d"
      by (auto simp: ds'_def put_snap_def split: if_splits)
    show "ds_origin d' = '''' \<or> has_origin ds' n (ds_origin d')"
    proof (cases "ds_origin d = ''''")
      case False
      then have "has_origin ds n (ds_origin d)" using parts(5) d(1) by (auto simp: lineage_ok_def)
      then obtain pn osn os where o: "ds_origin d = snap_full pn osn" "snap_in ds pn osn = Some os"
          "\<And>sn s. snap_in ds n sn = Some s \<Longrightarrow> sn_txg os < sn_txg s"
        unfolding has_origin_def by blast
      have "sn_txg os < t" using inv(2) o(1,2) cloned_origin [OF d(1)] by (auto simp: origins_before_def)
      then have "sn_txg os < sn_txg s" if "snap_in ds' n b = Some s" for b s
        using that o(3) by (auto simp: new new_snap_def split: if_splits)
      with d(2) o(1) old' [OF o(2)] show ?thesis unfolding has_origin_def by auto
    qed (simp add: d)
  qed
  ultimately show ?thesis using ob by (simp add: ds_inv_def)
qed

lemma take_snap_txg [simp]: "m_txg (take_snap n m) = m_txg m"
  by (simp add: take_snap_def mod_ds_def split: prod.splits)

lemma fold_take_snap_inv:
  "ds_inv (m_txg m) (m_ds m) \<Longrightarrow> origins_before (m_txg m) (m_ds m) \<Longrightarrow>
   (\<forall>n \<in> set ns. \<exists>dn sn b. split_name n = (dn, sn, b) \<and>
      (snap_in (m_ds m) dn sn = None \<or> snap_in (m_ds m) dn sn = Some (new_snap sn (m_txg m)))) \<Longrightarrow>
   mem_inv (fold take_snap ns m)"
proof (induction ns arbitrary: m)
  case (Cons n ns)
  obtain dn sn b where s: "split_name n = (dn, sn, b)" by (cases "split_name n") auto
  let ?m = "take_snap n m"
  have m: "m_ds ?m = mmod dn (put_snap sn (new_snap sn (m_txg m))) (m_ds m)"
    by (simp add: take_snap_def mod_ds_def s)
  have "ds_inv (m_txg ?m) (m_ds ?m) \<and> origins_before (m_txg ?m) (m_ds ?m)"
    unfolding m using Cons.prems s by (simp add: ds_inv_take)
  moreover have "\<forall>n \<in> set ns. \<exists>dn sn b. split_name n = (dn, sn, b) \<and>
      (snap_in (m_ds ?m) dn sn = None \<or> snap_in (m_ds ?m) dn sn = Some (new_snap sn (m_txg ?m)))"
    using Cons.prems(3) by (fastforce simp: m snap_in_put)
  ultimately show ?case using Cons.IH [of ?m] by simp
qed (simp add: mem_inv_def)

subsection \<open>Removing a snapshot that nothing clones\<close>

lemma snap_in_del: "names_ok ds \<Longrightarrow> snap_in (mmod dn (del_snap sn) ds) a b = (if a = dn \<and> b = sn then None else snap_in ds a b)"
  by (auto simp: snap_in_def del_snap_def split: option.splits)

definition deferred_but :: "string list \<Rightarrow> dsmap \<Rightarrow> bool" where
  "deferred_but os ds \<longleftrightarrow>
     (\<forall>dn sn s. snap_in ds dn sn = Some s \<longrightarrow> sn_deferred s \<longrightarrow> cloned ds (snap_full dn sn) \<or> snap_full dn sn \<in> set os)"

definition ds_inv_but :: "string list \<Rightarrow> int \<Rightarrow> dsmap \<Rightarrow> bool" where
  "ds_inv_but os t ds \<longleftrightarrow> names_ok ds \<and> parents_ok ds \<and> deferred_but os ds \<and> txg_ok t ds \<and> lineage_ok ds"

lemma ds_inv_but_Nil: "ds_inv_but [] t ds = ds_inv t ds"
  by (simp add: ds_inv_but_def ds_inv_def deferred_but_def deferred_ok_def)

lemma ds_inv_but_del:
  assumes inv: "ds_inv_but os t ds" and nc: "\<not> cloned ds (snap_full dn sn)"
  shows "ds_inv_but os t (mmod dn (del_snap sn) ds)" (is "ds_inv_but os t ?ds")
proof -
  have parts: "names_ok ds" "parents_ok ds" "deferred_but os ds" "txg_ok t ds" "lineage_ok ds"
    using inv by (auto simp: ds_inv_but_def)
  note s = snap_in_del [OF parts(1)]
  have "names_ok ?ds" using parts(1) unfolding names_ok_def by (auto simp: del_snap_def split: if_splits)
  moreover have "parents_ok ?ds" using parts(2) by (rule parents_ok_mmod)
  moreover have "deferred_but os ?ds" using parts(3) by (simp add: deferred_but_def s)
  moreover have "txg_ok t ?ds" using parts(4) by (simp add: txg_ok_def s)
  moreover have "lineage_ok ?ds"
    unfolding lineage_ok_def
  proof (intro allI impI)
    fix n d' assume "map_of ?ds n = Some d'"
    then obtain d where d: "map_of ds n = Some d" "ds_origin d' = ds_origin d"
      by (auto simp: del_snap_def split: if_splits)
    have ne: "ds_origin d \<noteq> snap_full dn sn" using nc cloned_origin [OF d(1)] by auto
    show "ds_origin d' = '''' \<or> has_origin ?ds n (ds_origin d')"
    proof (cases "ds_origin d = ''''")
      case False
      then have "has_origin ds n (ds_origin d)" using parts(5) d by (auto simp: lineage_ok_def)
      then obtain pn osn os where o: "ds_origin d = snap_full pn osn" "snap_in ds pn osn = Some os"
          "\<And>b s. snap_in ds n b = Some s \<Longrightarrow> sn_txg os < sn_txg s"
        unfolding has_origin_def by blast
      then have "snap_in ?ds pn osn = Some os" using ne by (auto simp: s)
      moreover have "sn_txg os < sn_txg s'" if "snap_in ?ds n b = Some s'" for b s'
        using that o(3) by (auto simp: s split: if_splits)
      ultimately show ?thesis using d(2) o(1) unfolding has_origin_def by auto
    qed (simp add: d)
  qed
  ultimately show ?thesis by (simp add: ds_inv_but_def)
qed

lemma ds_inv_del: "ds_inv t ds \<Longrightarrow> \<not> cloned ds (snap_full dn sn) \<Longrightarrow> ds_inv t (mmod dn (del_snap sn) ds)"
  using ds_inv_but_del [of "[]"] by (simp add: ds_inv_but_Nil)

subsection \<open>Removing a tree of datasets\<close>

lemma snap_in_mdels: "snap_in (mdels tree ds) dn sn = (if dn \<in> set tree then None else snap_in ds dn sn)"
  by (simp add: snap_in_def)

lemma ds_inv_remove:
  assumes inv: "ds_inv t ds"
    and closed: "\<And>k d. map_of ds k = Some d \<Longrightarrow> parentOf k \<noteq> '''' \<Longrightarrow> parentOf k \<in> set tree \<Longrightarrow> k \<in> set tree"
    and inside: "\<And>dn sn s n d. dn \<in> set tree \<Longrightarrow> snap_in ds dn sn = Some s \<Longrightarrow> map_of ds n = Some d \<Longrightarrow>
                   ds_origin d = snap_full dn sn \<Longrightarrow> n \<in> set tree"
    and os: "\<And>n d. n \<in> set tree \<Longrightarrow> map_of ds n = Some d \<Longrightarrow> ds_origin d \<noteq> '''' \<Longrightarrow> ds_origin d \<in> set os"
  shows "ds_inv_but os t (mdels tree ds)" (is "ds_inv_but os t ?ds")
proof -
  have parts: "names_ok ds" "parents_ok ds" "deferred_ok ds" "txg_ok t ds" "lineage_ok ds"
    using inv by (auto simp: ds_inv_def)
  have "names_ok ?ds" using parts(1) by (auto simp: names_ok_def split: if_splits)
  moreover have "parents_ok ?ds" using parts(2) closed by (auto simp: parents_ok_def split: if_splits)
  moreover have "deferred_but os ?ds"
    unfolding deferred_but_def
  proof (intro allI impI)
    fix dn sn s assume s: "snap_in ?ds dn sn = Some s" "sn_deferred s"
    then have "cloned ds (snap_full dn sn)" using parts(3) by (auto simp: deferred_ok_def snap_in_mdels split: if_splits)
    then obtain n d where nd: "map_of ds n = Some d" "ds_origin d = snap_full dn sn" by (auto simp: cloned_def)
    show "cloned ?ds (snap_full dn sn) \<or> snap_full dn sn \<in> set os"
    proof (cases "n \<in> set tree")
      case True
      with os nd have "snap_full dn sn \<in> set os" by (metis snap_full_not_Nil(1))
      then show ?thesis ..
    next
      case False
      with nd have "map_of ?ds n = Some d" by simp
      with nd(2) show ?thesis unfolding cloned_def by blast
    qed
  qed
  moreover have "txg_ok t ?ds" using parts(4) by (simp add: txg_ok_def snap_in_mdels)
  moreover have "lineage_ok ?ds"
    unfolding lineage_ok_def
  proof (intro allI impI)
    fix n d assume "map_of ?ds n = Some d"
    then have nd: "map_of ds n = Some d" "n \<notin> set tree" by (auto split: if_splits)
    show "ds_origin d = '''' \<or> has_origin ?ds n (ds_origin d)"
    proof (cases "ds_origin d = ''''")
      case False
      then have "has_origin ds n (ds_origin d)" using parts(5) nd(1) by (auto simp: lineage_ok_def)
      then obtain pn osn os where o: "ds_origin d = snap_full pn osn" "snap_in ds pn osn = Some os"
          "\<And>b s. snap_in ds n b = Some s \<Longrightarrow> sn_txg os < sn_txg s"
        unfolding has_origin_def by blast
      have "pn \<notin> set tree" using inside [OF _ o(2) nd(1) o(1)] nd(2) by blast
      with o nd(2) show ?thesis unfolding has_origin_def by (auto simp: snap_in_mdels)
    qed simp
  qed
  ultimately show ?thesis by (simp add: ds_inv_but_def)
qed

lemma dropIfDone_txg [simp]: "m_txg (dropIfDone og m) = m_txg m"
  by (simp add: dropIfDone_def mod_ds_def split: prod.splits option.splits)

lemma deferred_but_drop:
  "deferred_but (og # os) ds \<Longrightarrow>
   (\<And>dn sn s. snap_full dn sn = og \<Longrightarrow> snap_in ds dn sn = Some s \<Longrightarrow> sn_deferred s \<Longrightarrow> cloned ds og) \<Longrightarrow>
   deferred_but os ds"
  unfolding deferred_but_def by fastforce

lemma dropIfDone_inv:
  assumes inv: "ds_inv_but (og # os) t (m_ds m)"
  shows "ds_inv_but os t (m_ds (dropIfDone og m))"
proof -
  have nm: "names_ok (m_ds m)" using inv by (simp add: ds_inv_but_def)
  have keep: "ds_inv_but os t (m_ds m)"
    if "\<And>dn sn s. snap_full dn sn = og \<Longrightarrow> snap_in (m_ds m) dn sn = Some s \<Longrightarrow> sn_deferred s \<Longrightarrow> cloned (m_ds m) og"
    using inv that deferred_but_drop unfolding ds_inv_but_def by blast
  obtain dn sn ok where sp: "split_name og = (dn, sn, ok)" by (cases "split_name og") auto
  show ?thesis
  proof (cases ok)
    case False
    then have "is_name og" using sp split_name_ds by simp
    then have "ds_inv_but os t (m_ds m)" by (intro keep) (auto simp: is_name_def)
    with False sp show ?thesis by (simp add: dropIfDone_def)
  next
    case True
    then have og: "og = snap_full dn sn" "is_name dn" using sp split_name_snap by simp_all
    have same: "dn' = dn \<and> sn' = sn" if "snap_full dn' sn' = og" "snap_in (m_ds m) dn' sn' = Some s" for dn' sn' s
      using that og names_ok_snap [OF nm that(2)] by (simp add: snap_full_inj)
    show ?thesis
    proof (cases "\<exists>s. snap_in (m_ds m) dn sn = Some s \<and> sn_deferred s \<and> \<not> cloned (m_ds m) og")
      case False
      then have "m_ds (dropIfDone og m) = m_ds m"
        using True sp by (auto simp: dropIfDone_def snap_at_snap_in clonesOf_Nil [OF nm] split: option.splits)
      moreover have "ds_inv_but os t (m_ds m)" using False same by (intro keep) blast
      ultimately show ?thesis by simp
    next
      case gone: True
      then have m': "m_ds (dropIfDone og m) = mmod dn (del_snap sn) (m_ds m)"
        using True sp by (auto simp: dropIfDone_def snap_at_snap_in clonesOf_Nil [OF nm] mod_ds_def)
      have "ds_inv_but (og # os) t (mmod dn (del_snap sn) (m_ds m))"
        using inv gone og by (intro ds_inv_but_del) auto
      moreover have "deferred_but os (mmod dn (del_snap sn) (m_ds m))"
      proof (rule deferred_but_drop)
        show "deferred_but (og # os) (mmod dn (del_snap sn) (m_ds m))" using calculation by (simp add: ds_inv_but_def)
        fix dn' sn' s
        assume og': "snap_full dn' sn' = og" and s: "snap_in (mmod dn (del_snap sn) (m_ds m)) dn' sn' = Some s"
        then have "\<not> (dn' = dn \<and> sn' = sn)" "snap_in (m_ds m) dn' sn' = Some s"
          by (simp_all add: snap_in_del [OF nm] split: if_splits)
        with same og' show "cloned (mmod dn (del_snap sn) (m_ds m)) og" by blast
      qed
      ultimately show ?thesis unfolding m' ds_inv_but_def by blast
    qed
  qed
qed

lemma fold_dropIfDone_inv: "ds_inv_but os (m_txg m) (m_ds m) \<Longrightarrow> mem_inv (fold dropIfDone os m)"
proof (induction os arbitrary: m)
  case (Cons og os)
  then show ?case using dropIfDone_inv [OF Cons.prems] by simp
qed (simp add: mem_inv_def ds_inv_but_Nil)

lemma parentOf_child:
  assumes "parentOf k \<noteq> ''''" "parentOf k = n \<or> HasPrefix (parentOf k) (n @ ''/'')"
  shows "HasPrefix k (n @ ''/'')"
proof -
  have "CHR ''/'' \<in> set k" using assms(1) by (auto simp: parentOf_def split: if_splits)
  then obtain t where "k = parentOf k @ ''/'' @ t"
    using beforeLast_prefix [of "CHR ''/''" k] by (auto simp: parentOf_def)
  with assms(2) show ?thesis by (metis HasPrefix_iff append.assoc)
qed

lemma set_sortedSnaps:
  assumes "names_ok ds" "map_of ds n = Some d"
  shows "set (sortedSnaps d) = {s. map_of (ds_snaps d) (sn_name s) = Some s}"
proof -
  have "s \<in> snd ` set (ds_snaps d) \<longleftrightarrow> map_of (ds_snaps d) (sn_name s) = Some s" for s
  proof
    assume "s \<in> snd ` set (ds_snaps d)"
    then obtain k where "(k, s) \<in> set (ds_snaps d)" by auto
    then have "map_of (ds_snaps d) k = Some s" using names_okD(3) [OF assms] by (simp add: wf_map_in_iff)
    then show "map_of (ds_snaps d) (sn_name s) = Some s" using names_okD(4) [OF assms] by simp
  qed (force dest: map_of_SomeD)
  then show ?thesis by (auto simp: sortedSnaps_def)
qed

lemma tree_origins_iff: "og \<in> set (tree_origins m tree) \<longleftrightarrow>
   og \<noteq> '''' \<and> (\<exists>n \<in> set tree. origin_in (m_ds m) n = og)"
  by (auto simp: tree_origins_def origin_in_def)

lemma set_snapNames: "names_ok ds \<Longrightarrow> map_of ds n = Some d \<Longrightarrow>
   set (snapNames d) = {snap_full n sn | sn s. map_of (ds_snaps d) sn = Some s}"
proof -
  assume a: "names_ok ds" "map_of ds n = Some d"
  have "set (snapNames d) = (\<lambda>s. snap_full n (sn_name s)) ` {s. map_of (ds_snaps d) (sn_name s) = Some s}"
    using set_sortedSnaps [OF a] names_okD(1) [OF a] by (simp add: snapNames_def)
  also have "\<dots> = {snap_full n sn | sn s. map_of (ds_snaps d) sn = Some s}"
  proof (intro equalityI subsetI)
    fix x assume "x \<in> {snap_full n sn | sn s. map_of (ds_snaps d) sn = Some s}"
    then obtain sn s where x: "x = snap_full n sn" "map_of (ds_snaps d) sn = Some s" by blast
    moreover have "sn_name s = sn" using names_okD(4) [OF a x(2)] .
    ultimately show "x \<in> (\<lambda>s. snap_full n (sn_name s)) ` {s. map_of (ds_snaps d) (sn_name s) = Some s}" by auto
  qed blast
  finally show ?thesis .
qed

end
