(* ===== verification/MemZfs_Promote.thy ===== *)
theory MemZfs_Promote
  imports MemZfs_Inv
begin

text \<open>
  What \<open>Mem.Promote\<close> does to the clone graph: the relocation loop in closed form, and the proof that a
  promote keeps the invariant, keeps every snapshot and keeps every clone relation.
\<close>

subsection \<open>Promote\<close>

text \<open>The loop of \<open>Promote\<close> in closed form: what it does to the origin and to the snapshots of each
  dataset.\<close>

primrec reorigin_all :: "string \<Rightarrow> string \<Rightarrow> string list \<Rightarrow> string \<Rightarrow> string" where
  "reorigin_all pn n [] og = og"
| "reorigin_all pn n (x # xs) og = (if og = snap_full pn x then snap_full n x else reorigin_all pn n xs og)"

lemma reorigin_all_new [simp]:
  "is_name pn \<Longrightarrow> is_name n \<Longrightarrow> pn \<noteq> n \<Longrightarrow> reorigin_all pn n xs (snap_full n x) = snap_full n x"
  by (induction xs) (auto simp: snap_full_inj)

lemma reorigin_all_old:
  "reorigin_all pn n xs (snap_full pn x) = (if x \<in> set xs then snap_full n x else snap_full pn x)"
  by (induction xs) auto

lemma reorigin_all_other:
  "is_name pn \<Longrightarrow> is_name q \<Longrightarrow> pn \<noteq> q \<Longrightarrow> reorigin_all pn n xs (snap_full q x) = snap_full q x"
  by (induction xs) (auto simp: snap_full_inj)

lemma reorigin_all_Nil [simp]: "reorigin_all pn n xs '''' = ''''"
  by (induction xs) auto

abbreviation put_all :: "snapshot list \<Rightarrow> (string, snapshot) gomap \<Rightarrow> (string, snapshot) gomap" where
  "put_all xs m \<equiv> fold (\<lambda>s. AList.update (sn_name s) s) xs m"

abbreviation del_all :: "snapshot list \<Rightarrow> (string, snapshot) gomap \<Rightarrow> (string, snapshot) gomap" where
  "del_all xs m \<equiv> fold (\<lambda>s. AList.delete (sn_name s)) xs m"

lemma fold_move_snap:
  assumes "is_name pn" "is_name n" "pn \<noteq> n"
  shows "map_of (fold (move_snap pn n) moved ds) k =
    map_option (\<lambda>d. d\<lparr>ds_origin := reorigin_all pn n (map sn_name moved) (ds_origin d),
       ds_snaps := (if k = n then put_all moved (ds_snaps d) else if k = pn then del_all moved (ds_snaps d)
                    else ds_snaps d)\<rparr>) (map_of ds k)"
proof (induction moved arbitrary: ds)
  case Nil
  show ?case by (cases "map_of ds k") simp_all
next
  case (Cons s moved)
  show ?case
    unfolding fold_Cons comp_apply Cons.IH using assms
    by (cases "map_of ds k"; cases "k = n"; cases "k = pn")
      (simp_all add: move_snap_def reorigin_def put_snap_def del_snap_def)
qed

lemma keys_move_snap [simp]: "keys (move_snap pn n s ds) = keys ds"
  by (simp add: move_snap_def)

lemma keys_fold_move_snap [simp]: "keys (fold (move_snap pn n) moved ds) = keys ds"
  by (induction moved arbitrary: ds) simp_all

lemma map_of_del_all: "map_of (del_all xs m) sn = (if sn \<in> sn_name ` set xs then None else map_of m sn)"
  by (induction xs arbitrary: m) auto

lemma map_of_put_all_other: "sn \<notin> sn_name ` set xs \<Longrightarrow> map_of (put_all xs m) sn = map_of m sn"
  by (induction xs arbitrary: m) auto

lemma map_of_put_all:
  "s \<in> set xs \<Longrightarrow> (\<And>s'. s' \<in> set xs \<Longrightarrow> sn_name s' = sn_name s \<Longrightarrow> s' = s) \<Longrightarrow>
   map_of (put_all xs m) (sn_name s) = Some s"
proof (induction xs arbitrary: m)
  case (Cons x xs)
  show ?case
  proof (cases "s \<in> set xs")
    case False
    then have "sn_name s \<notin> sn_name ` set xs" using Cons.prems(2) by fastforce
    then show ?thesis using Cons.prems False by (auto simp: map_of_put_all_other)
  qed (use Cons in auto)
qed simp

lemma wf_put_all: "wf_map m \<Longrightarrow> wf_map (put_all xs m)"
  by (induction xs arbitrary: m) simp_all

lemma wf_del_all: "wf_map m \<Longrightarrow> wf_map (del_all xs m)"
  by (induction xs arbitrary: m) simp_all

definition promoted :: "string \<Rightarrow> string \<Rightarrow> string \<Rightarrow> snapshot list \<Rightarrow> dsmap \<Rightarrow> dsmap" where
  "promoted pn n osn moved ds = swap_origins pn n osn (fold (move_snap pn n) moved ds)"

text \<open>The situation in which the loop runs: \<open>n\<close> is a clone of \<open>pn@osn\<close>, and no snapshot that is about
  to move has the name of one that \<open>n\<close> has.\<close>

definition promotable :: "dsmap \<Rightarrow> string \<Rightarrow> string \<Rightarrow> string \<Rightarrow> snapshot \<Rightarrow> snapshot list \<Rightarrow> bool" where
  "promotable ds n pn osn os moved \<longleftrightarrow>
     pn \<noteq> n \<and> is_name pn \<and> map_of ds n \<noteq> None \<and> origin_in ds n = snap_full pn osn \<and>
     snap_in ds pn osn = Some os \<and>
     (\<forall>s. s \<in> set moved \<longleftrightarrow> snap_in ds pn (sn_name s) = Some s \<and> sn_txg s \<le> sn_txg os) \<and>
     (\<forall>s \<in> set moved. snap_in ds n (sn_name s) = None)"

definition moves :: "dsmap \<Rightarrow> string \<Rightarrow> snapshot \<Rightarrow> string \<Rightarrow> bool" where
  "moves ds pn os sn \<longleftrightarrow> (\<exists>s. snap_in ds pn sn = Some s \<and> sn_txg s \<le> sn_txg os)"

lemma map_of_promoted:
  assumes "is_name pn" "is_name n" "pn \<noteq> n"
  shows "map_of (promoted pn n osn moved ds) k =
    map_option (\<lambda>d. d\<lparr>ds_origin :=
       (if k = pn then snap_full n osn
        else if k = n then reorigin_all pn n (map sn_name moved) (origin_in ds pn)
        else reorigin_all pn n (map sn_name moved) (ds_origin d)),
       ds_snaps := (if k = n then put_all moved (ds_snaps d) else if k = pn then del_all moved (ds_snaps d)
                    else ds_snaps d)\<rparr>) (map_of ds k)"
  using assms
  by (cases "map_of ds k"; cases "map_of ds pn")
    (auto simp: promoted_def swap_origins_def fold_move_snap origin_in_def)

lemma promotable_names:
  "names_ok ds \<Longrightarrow> promotable ds n pn osn os moved \<Longrightarrow> is_name n \<and> is_name pn \<and> pn \<noteq> n \<and> n \<noteq> pn"
  by (auto simp: promotable_def names_ok_def)

lemma promotable_moved:
  assumes "names_ok ds" "promotable ds n pn osn os moved"
  shows "sn \<in> sn_name ` set moved \<longleftrightarrow> moves ds pn os sn"
    and "snap_in ds pn sn = Some s \<Longrightarrow> sn_txg s \<le> sn_txg os \<Longrightarrow> s \<in> set moved"
proof -
  show *: "snap_in ds pn sn = Some s \<Longrightarrow> sn_txg s \<le> sn_txg os \<Longrightarrow> s \<in> set moved" for sn s
    using assms names_ok_snap [OF assms(1), of pn sn s] by (auto simp: promotable_def)
  show "sn \<in> sn_name ` set moved \<longleftrightarrow> moves ds pn os sn"
  proof
    assume "moves ds pn os sn"
    then obtain s where s: "snap_in ds pn sn = Some s" "sn_txg s \<le> sn_txg os" unfolding moves_def by blast
    then have "s \<in> set moved" "sn = sn_name s" using * names_ok_snap [OF assms(1) s(1)] by auto
    then show "sn \<in> sn_name ` set moved" by simp
  qed (use assms(2) in \<open>auto simp: promotable_def moves_def\<close>)
qed

lemma snap_in_promoted:
  assumes "names_ok ds" "promotable ds n pn osn os moved"
  shows "snap_in (promoted pn n osn moved ds) k sn =
    (if k = n \<and> moves ds pn os sn then snap_in ds pn sn
     else if k = pn \<and> moves ds pn os sn then None else snap_in ds k sn)"
proof -
  note nm = promotable_names [OF assms] and mv = promotable_moved [OF assms]
  have look: "snap_in (promoted pn n osn moved ds) k sn =
     (case map_of ds k of None \<Rightarrow> None | Some d \<Rightarrow>
        map_of (if k = n then put_all moved (ds_snaps d) else if k = pn then del_all moved (ds_snaps d) else ds_snaps d) sn)"
    using nm by (simp add: snap_in_def map_of_promoted split: option.splits)
  have n: "map_of (put_all moved m) sn = snap_in ds pn sn" if mvs: "moves ds pn os sn" for m
  proof -
    obtain s where s: "snap_in ds pn sn = Some s" "sn_txg s \<le> sn_txg os" using mvs by (auto simp: moves_def)
    have "sn_name s = sn" using names_ok_snap [OF assms(1) s(1)] by simp
    moreover have "s \<in> set moved" using mv(2) s by blast
    moreover have "map_of (put_all moved m) (sn_name s) = Some s"
    proof (rule map_of_put_all)
      show "s \<in> set moved" by fact
      fix s' assume "s' \<in> set moved" "sn_name s' = sn_name s"
      then show "s' = s" using assms(2) s(1) \<open>sn_name s = sn\<close> by (auto simp: promotable_def)
    qed
    ultimately show ?thesis using s(1) by simp
  qed
  have n0: "map_of (put_all moved m) sn = map_of m sn" if "\<not> moves ds pn os sn" for m
    using that mv(1) [of sn] by (simp add: map_of_put_all_other)
  have "map_of ds n \<noteq> None" using assms(2) by (simp add: promotable_def)
  then show ?thesis
    unfolding look using nm n n0 by (auto simp: map_of_del_all mv(1) snap_in_def split: option.splits)
qed

lemma origin_in_promoted:
  assumes "names_ok ds" "promotable ds n pn osn os moved"
  shows "origin_in (promoted pn n osn moved ds) k =
    (if map_of ds k = None then '''' else if k = pn then snap_full n osn
     else reorigin_all pn n (map sn_name moved) (origin_in ds (if k = n then pn else k)))"
  using promotable_names [OF assms] by (auto simp: origin_in_def map_of_promoted split: option.splits)

lemma map_of_origin_in: "map_of ds k = Some d \<Longrightarrow> ds_origin d = origin_in ds k"
  by (simp add: origin_in_def)

lemma cloned_origin_in: "full \<noteq> '''' \<Longrightarrow> cloned ds full \<longleftrightarrow> (\<exists>k. origin_in ds k = full)"
  unfolding cloned_def origin_in_def by (auto split: option.splits)

lemma lineage_origin_in:
  "lineage_ok ds \<longleftrightarrow> (\<forall>k. origin_in ds k = '''' \<or> has_origin ds k (origin_in ds k))"
  unfolding lineage_ok_def origin_in_def by (auto split: option.splits)

lemma has_origin_inD: "names_ok ds \<Longrightarrow> has_origin ds k og \<Longrightarrow>
   \<exists>q qs s. og = snap_full q qs \<and> is_name q \<and> snap_in ds q qs = Some s \<and>
     (\<forall>b s'. snap_in ds k b = Some s' \<longrightarrow> sn_txg s < sn_txg s')"
  unfolding has_origin_def using names_ok_snap by blast

lemma dom_promoted: "names_ok ds \<Longrightarrow> promotable ds n pn osn os moved \<Longrightarrow>
   map_of (promoted pn n osn moved ds) k = None \<longleftrightarrow> map_of ds k = None"
  using promotable_names [of ds n pn osn os moved] by (simp add: map_of_promoted)

text \<open>Where the origins point after a promote: a clone follows its origin snapshot.\<close>

lemma origin_follows:
  assumes inv: "names_ok ds" "lineage_ok ds" and pr: "promotable ds n pn osn os moved"
    and k: "origin_in ds k = snap_full q qs" "is_name q" "snap_in ds q qs = Some s" "k \<noteq> n"
  shows "reorigin_all pn n (map sn_name moved) (snap_full q qs) =
           (if q = pn \<and> moves ds pn os qs then snap_full n qs else snap_full q qs)"
    and "snap_in (promoted pn n osn moved ds) (if q = pn \<and> moves ds pn os qs then n else q) qs = Some s"
proof -
  note nm = promotable_names [OF inv(1) pr]
  show "reorigin_all pn n (map sn_name moved) (snap_full q qs) =
           (if q = pn \<and> moves ds pn os qs then snap_full n qs else snap_full q qs)"
    using nm k(2) promotable_moved(1) [OF inv(1) pr, of qs]
    by (cases "q = pn") (auto simp: reorigin_all_old reorigin_all_other)
  have "\<not> (q = n \<and> moves ds pn os qs)"
    using pr k(3) names_ok_snap [OF inv(1)] by (fastforce simp: promotable_def moves_def)
  then show "snap_in (promoted pn n osn moved ds) (if q = pn \<and> moves ds pn os qs then n else q) qs = Some s"
    using k(3) nm by (auto simp: snap_in_promoted [OF inv(1) pr])
qed

lemma promotable_origin_older:
  assumes "names_ok ds" "lineage_ok ds" "promotable ds n pn osn os moved" "snap_in ds n b = Some s"
  shows "sn_txg os < sn_txg s"
proof -
  have "has_origin ds n (snap_full pn osn)"
    using assms(2,3) unfolding lineage_origin_in promotable_def by (metis snap_full_not_Nil(1))
  then obtain q qs s0 where "snap_full pn osn = snap_full q qs" "is_name q" "snap_in ds q qs = Some s0"
      "\<forall>b s'. snap_in ds n b = Some s' \<longrightarrow> sn_txg s0 < sn_txg s'"
    using has_origin_inD [OF assms(1)] by metis
  moreover have "is_name pn" "snap_in ds pn osn = Some os" using assms(3) by (auto simp: promotable_def)
  ultimately show ?thesis using assms(4) by (metis option.inject snap_full_inj)
qed

text \<open>The parent's own origin lies outside the two datasets and before all their snapshots.\<close>

lemma parent_origin:
  assumes inv: "names_ok ds" "lineage_ok ds" and pr: "promotable ds n pn osn os moved"
    and po: "origin_in ds pn \<noteq> ''''"
  obtains q qs s where "origin_in ds pn = snap_full q qs" "is_name q" "snap_in ds q qs = Some s"
    "q \<noteq> pn" "q \<noteq> n" "sn_txg s < sn_txg os" "\<And>b s'. snap_in ds pn b = Some s' \<Longrightarrow> sn_txg s < sn_txg s'"
proof -
  have os: "snap_in ds pn osn = Some os" using pr by (simp add: promotable_def)
  have "has_origin ds pn (origin_in ds pn)" using inv(2) po unfolding lineage_origin_in by blast
  then obtain q qs s where q: "origin_in ds pn = snap_full q qs" "is_name q" "snap_in ds q qs = Some s"
      "\<And>b s'. snap_in ds pn b = Some s' \<Longrightarrow> sn_txg s < sn_txg s'"
    using has_origin_inD [OF inv(1)] by metis
  have lt: "sn_txg s < sn_txg os" using q(4) os by blast
  have "q \<noteq> pn" using q(3,4) by blast
  moreover have "q \<noteq> n" using promotable_origin_older [OF inv pr] q(3) lt by (metis less_asym)
  ultimately show ?thesis using that q lt by blast
qed

lemma lineage_promoted:
  assumes inv: "names_ok ds" "lineage_ok ds" and pr: "promotable ds n pn osn os moved"
  shows "lineage_ok (promoted pn n osn moved ds)" (is "lineage_ok ?ds")
  unfolding lineage_origin_in
proof
  fix k
  note nm = promotable_names [OF inv(1) pr] and si = snap_in_promoted [OF inv(1) pr]
  have os: "snap_in ds pn osn = Some os" "moves ds pn os osn" using pr by (auto simp: promotable_def moves_def)
  have old: "sn_txg os < sn_txg s" if "snap_in ds pn b = Some s" "\<not> moves ds pn os b" for b s
    using that by (fastforce simp: moves_def)
  show "origin_in ?ds k = '''' \<or> has_origin ?ds k (origin_in ?ds k)"
  proof (cases "map_of ds k = None")
    case True
    then show ?thesis by (simp add: origin_in_promoted [OF inv(1) pr])
  next
    case kin: False
    consider (p) "k = pn" | (n) "k = n" | (o) "k \<noteq> pn" "k \<noteq> n" by blast
    then show ?thesis
    proof cases
      case p
      have "snap_in ?ds n osn = Some os" using os nm by (simp add: si)
      moreover have "sn_txg os < sn_txg s" if "snap_in ?ds pn b = Some s" for b s
        using that old nm by (auto simp: si split: if_splits)
      ultimately have "has_origin ?ds pn (snap_full n osn)" unfolding has_origin_def by blast
      then show ?thesis using p kin by (simp add: origin_in_promoted [OF inv(1) pr])
    next
      case n
      show ?thesis
      proof (cases "origin_in ds pn = ''''")
        case True
        then show ?thesis using n nm kin by (simp add: origin_in_promoted [OF inv(1) pr])
      next
        case False
        then obtain q qs s where q: "origin_in ds pn = snap_full q qs" "is_name q" "snap_in ds q qs = Some s"
            "q \<noteq> pn" "q \<noteq> n" "sn_txg s < sn_txg os" "\<And>b s'. snap_in ds pn b = Some s' \<Longrightarrow> sn_txg s < sn_txg s'"
          using parent_origin [OF inv pr] by metis
        have "origin_in ?ds n = snap_full q qs"
          using nm kin n q by (simp add: origin_in_promoted [OF inv(1) pr] reorigin_all_other)
        moreover have "snap_in ?ds q qs = Some s" using q by (simp add: si)
        moreover have "sn_txg s < sn_txg s'" if "snap_in ?ds n b = Some s'" for b s'
          using that q(6,7) promotable_origin_older [OF inv pr, of b s'] nm by (auto simp: si split: if_splits)
        ultimately show ?thesis using n unfolding has_origin_def by blast
      qed
    next
      case o
      show ?thesis
      proof (cases "origin_in ds k = ''''")
        case True
        then show ?thesis using o kin by (simp add: origin_in_promoted [OF inv(1) pr])
      next
        case False
        then have "has_origin ds k (origin_in ds k)" using inv(2) unfolding lineage_origin_in by blast
        then obtain q qs s where q: "origin_in ds k = snap_full q qs" "is_name q" "snap_in ds q qs = Some s"
            "\<And>b s'. snap_in ds k b = Some s' \<Longrightarrow> sn_txg s < sn_txg s'"
          using has_origin_inD [OF inv(1)] by metis
        note f = origin_follows [OF inv pr q(1-3) o(2)]
        have "origin_in ?ds k = snap_full (if q = pn \<and> moves ds pn os qs then n else q) qs"
          using kin o q(1) f(1) by (simp add: origin_in_promoted [OF inv(1) pr])
        moreover have "sn_txg s < sn_txg s'" if "snap_in ?ds k b = Some s'" for b s'
          using that q(4) o by (auto simp: si)
        ultimately show ?thesis using f(2) unfolding has_origin_def by blast
      qed
    qed
  qed
qed

text \<open>Every snapshot keeps its clones across a promote; the promoted clone is replaced by the parent.\<close>

lemma cloned_promoted:
  assumes inv: "names_ok ds" "lineage_ok ds" and pr: "promotable ds n pn osn os moved"
    and c: "cloned ds (snap_full a b)" and s: "snap_in ds a b = Some s"
  shows "cloned (promoted pn n osn moved ds) (snap_full (if a = pn \<and> moves ds pn os b then n else a) b)"
proof -
  note nm = promotable_names [OF inv(1) pr]
  have an: "is_name a" using names_ok_snap [OF inv(1) s] by simp
  obtain k where k: "origin_in ds k = snap_full a b" using c by (auto simp: cloned_origin_in)
  have kin: "map_of ds k \<noteq> None" using k by (auto simp: origin_in_def split: option.splits)
  have nin: "map_of ds n \<noteq> None" and on: "origin_in ds n = snap_full pn osn"
    and os: "snap_in ds pn osn = Some os" using pr by (auto simp: promotable_def)
  have pin: "map_of ds pn \<noteq> None" using os by (auto simp: snap_in_def split: option.splits)
  have "\<exists>j. origin_in (promoted pn n osn moved ds) j = snap_full (if a = pn \<and> moves ds pn os b then n else a) b"
  proof (cases "k = n")
    case True
    then have "a = pn" "b = osn" using k on an nm by (auto simp: snap_full_inj)
    moreover have "moves ds pn os osn" using os by (auto simp: moves_def)
    ultimately show ?thesis using pin by (intro exI [of _ pn]) (simp add: origin_in_promoted [OF inv(1) pr])
  next
    case kn: False
    note f = origin_follows [OF inv pr k an s kn]
    show ?thesis
    proof (cases "k = pn")
      case True
      then show ?thesis using f(1) nin k nm by (intro exI [of _ n]) (auto simp: origin_in_promoted [OF inv(1) pr])
    next
      case False
      then show ?thesis using f(1) kin k kn by (intro exI [of _ k]) (simp add: origin_in_promoted [OF inv(1) pr])
    qed
  qed
  then show ?thesis by (simp add: cloned_origin_in)
qed

lemma names_ok_promoted:
  assumes nm: "names_ok ds" and pr: "promotable ds n pn osn os moved"
  shows "names_ok (promoted pn n osn moved ds)" (is "names_ok ?ds")
  unfolding names_ok_def
proof (intro conjI allI impI)
  note n = promotable_names [OF nm pr]
  show "wf_map ?ds" using nm by (simp add: promoted_def swap_origins_def names_ok_def wf_map_def)
  fix k d' assume k: "map_of ?ds k = Some d'"
  then obtain d where d: "map_of ds k = Some d" "ds_name d' = ds_name d" "wf_map (ds_snaps d) \<Longrightarrow> wf_map (ds_snaps d')"
    using n by (auto simp: map_of_promoted wf_put_all wf_del_all)
  show "ds_name d' = k" "is_name k" "wf_map (ds_snaps d')" using d names_okD [OF nm d(1)] by auto
  fix sn s assume "map_of (ds_snaps d') sn = Some s"
  then have "snap_in ?ds k sn = Some s" using k by (simp add: snap_in_def)
  then have "\<exists>k. snap_in ds k sn = Some s" by (auto simp: snap_in_promoted [OF nm pr] split: if_splits)
  then show "sn_name s = sn" using names_ok_snap [OF nm] by blast
qed

lemma ds_inv_promoted:
  assumes inv: "ds_inv t ds" and pr: "promotable ds n pn osn os moved"
  shows "ds_inv t (promoted pn n osn moved ds)" (is "ds_inv t ?ds")
proof -
  have parts: "names_ok ds" "parents_ok ds" "deferred_ok ds" "txg_ok t ds" "lineage_ok ds"
    using inv by (auto simp: ds_inv_def)
  note nm = promotable_names [OF parts(1) pr] and si = snap_in_promoted [OF parts(1) pr]
  have "names_ok ?ds" using parts(1) pr by (rule names_ok_promoted)
  moreover have "parents_ok ?ds"
    using parts(2) dom_promoted [OF parts(1) pr] unfolding parents_ok_def by (metis option.exhaust option.distinct(1))
  moreover have "deferred_ok ?ds"
    unfolding deferred_ok_def
  proof (intro allI impI)
    fix dn sn s assume s: "snap_in ?ds dn sn = Some s" "sn_deferred s"
    define a where "a = (if dn = n \<and> moves ds pn os sn then pn else dn)"
    have a: "snap_in ds a sn = Some s" "(if a = pn \<and> moves ds pn os sn then n else a) = dn"
      using s(1) nm by (auto simp: a_def si split: if_splits)
    then have "cloned ds (snap_full a sn)" using parts(3) s(2) by (auto simp: deferred_ok_def)
    then show "cloned ?ds (snap_full dn sn)" using cloned_promoted [OF parts(1,5) pr _ a(1)] a(2) by simp
  qed
  moreover have "txg_ok t ?ds" using parts(4) by (auto simp: txg_ok_def si)
  moreover have "lineage_ok ?ds" using lineage_promoted [OF parts(1,5) pr] .
  ultimately show ?thesis by (simp add: ds_inv_def)
qed

end
