(* ===== verification/MemZfs_Ops.thy ===== *)
theory MemZfs_Ops
  imports MemZfs_Promote
begin

text \<open>
  Every method of the in-memory ZFS keeps the invariant; the reachable states; what the deferred
  destroy, promote and the listing methods return. These are the facts the controllers rely on.
\<close>

lemma mmod_update_new: "map_of m k = None \<Longrightarrow> mmod k f (AList.update k v m) = AList.update k (f v) m"
  by (induction m) (auto simp: mmod_def split: if_splits)

subsection \<open>Every method keeps the invariant\<close>

lemma injected_same:
  "injected op n m = (m', e) \<Longrightarrow>
   m_ds m' = m_ds m \<and> m_txg m' = m_txg m \<and> m_log m' = m_log m \<and> m_freshZvol m' = m_freshZvol m \<and> m_busy m' = m_busy m"
  by (auto simp: injected_def split: prod.splits)

lemma find_injection_err: "find_injection op n is = (is', Some e) \<Longrightarrow> \<exists>i \<in> set is. inj_err i = Some e"
  by (induction "is" arbitrary: is') (auto split: if_splits prod.splits)

lemma injected_err: "injected op n m = (m', Some e) \<Longrightarrow> \<exists>i \<in> set (m_inj m). inj_err i = Some e"
  by (auto simp: injected_def dest: find_injection_err split: prod.splits)

lemma record_call_same [simp]:
  "m_ds (record_call l m) = m_ds m" "m_txg (record_call l m) = m_txg m" "m_inj (record_call l m) = m_inj m"
  "m_freshZvol (record_call l m) = m_freshZvol m" "m_busy (record_call l m) = m_busy m"
  by (simp_all add: record_call_def)

lemma mem_inv_cong: "m_ds m' = m_ds m \<Longrightarrow> m_txg m' = m_txg m \<Longrightarrow> mem_inv m' = mem_inv m"
  by (simp add: mem_inv_def)

lemma mem_inv_record [simp]:
  "mem_inv (record_call l m) = mem_inv m" "mem_inv (m\<lparr>m_inj := is\<rparr>) = mem_inv m"
  "mem_inv (m\<lparr>m_busy := b\<rparr>) = mem_inv m" "mem_inv (m\<lparr>m_owner := os\<rparr>) = mem_inv m"
  by (simp_all add: mem_inv_def)

lemma injected_inv: "injected op n m = (m', e) \<Longrightarrow> mem_inv m' = mem_inv m"
  by (auto dest!: injected_same simp: mem_inv_def)

lemma empty_dataset_simps [simp]:
  "ds_name (empty_dataset n kind ps sz) = n" "ds_kind (empty_dataset n kind ps sz) = kind"
  "ds_props (empty_dataset n kind ps sz) = ps" "ds_origin (empty_dataset n kind ps sz) = ''''"
  "ds_snaps (empty_dataset n kind ps sz) = []" "ds_volsize (empty_dataset n kind ps sz) = sz"
  by (simp_all add: empty_dataset_def)

lemma New_inv:
  assumes "\<forall>p \<in> set pools. is_name p \<and> parentOf p = ''''"
  shows "mem_inv (Mem_New pools)"
proof -
  let ?add = "\<lambda>p. AList.update p (empty_dataset p KindFilesystem [] 0)"
  have look: "map_of (fold ?add ps ds) k = (if k \<in> set ps then Some (empty_dataset k KindFilesystem [] 0) else map_of ds k)"
    for ps k and ds :: dsmap by (induction ps arbitrary: ds) auto
  have wf: "wf_map ds \<Longrightarrow> wf_map (fold ?add ps ds)" for ps and ds :: dsmap
    by (induction ps arbitrary: ds) simp_all
  have "snap_in (fold ?add pools []) dn sn = None" for dn sn by (simp add: snap_in_def look)
  then show ?thesis using assms wf [of "[]" pools]
    by (auto simp: mem_inv_def Mem_New_def ds_inv_def inv_defs look split: if_splits)
qed

lemma create_inv:
  assumes "mem_inv m" "is_name n"
  shows "mem_inv (fst (create n kind sz ps m))"
proof -
  obtain m1 e where i: "injected ''create'' n m = (m1, e)" by fastforce
  have inv1: "mem_inv m1" using injected_inv [OF i] assms(1) by simp
  have "mem_inv (m1\<lparr>m_ds := AList.update n (empty_dataset n kind ps sz) (m_ds m1)\<rparr>)"
    if "map_of (m_ds m1) n = None" "map_of (m_ds m1) (parentOf n) \<noteq> None"
    using inv1 that assms(2) by (simp add: mem_inv_def) (intro ds_inv_add; simp)
  then have "mem_inv (m1\<lparr>m_ds := AList.update n (empty_dataset n kind ps sz) (m_ds m1), m_freshZvol := f\<rparr>)"
    if "map_of (m_ds m1) n = None" "map_of (m_ds m1) (parentOf n) \<noteq> None" for f
    using that by (simp add: mem_inv_def)
  then show ?thesis using inv1 by (auto simp: create_def i Let_def mem_inv_def split: option.splits)
qed

lemma CreateDataset_inv: "mem_inv m \<Longrightarrow> is_name n \<Longrightarrow> mem_inv (fst (Mem_CreateDataset n ps m))"
  by (simp add: Mem_CreateDataset_def create_inv)

lemma CreateZvol_inv: "mem_inv m \<Longrightarrow> is_name n \<Longrightarrow> mem_inv (fst (Mem_CreateZvol n sz ps m))"
  by (simp add: Mem_CreateZvol_def create_inv)

lemma count_existing_0:
  "count_existing m ns = Inr 0 \<Longrightarrow> n \<in> set ns \<Longrightarrow> split_name n = (dn, sn, b) \<Longrightarrow>
   map_of (m_ds m) dn \<noteq> None \<and> snap_in (m_ds m) dn sn = None"
proof (induction ns)
  case (Cons x ns)
  then show ?case
    by (auto simp: snap_in_def split: prod.splits option.splits sum.splits if_splits)
qed simp

lemma origins_before_next: "ds_inv t ds \<Longrightarrow> origins_before (t + 1) ds"
  by (fastforce simp: origins_before_def ds_inv_def txg_ok_def)

lemma Snapshot_inv:
  assumes "mem_inv m"
  shows "mem_inv (fst (Mem_Snapshot names m))"
proof -
  define m1 where "m1 = record_call (''snapshot '' @ Join '' '' names) m"
  have inv1: "mem_inv m1" using assms by (simp only: m1_def mem_inv_record)
  obtain m2 e where i: "injected ''snapshot'' (hd names) m1 = (m2, e)" by fastforce
  have inv2: "mem_inv m2" using injected_inv [OF i] inv1 by simp
  have "mem_inv (fold take_snap names (m2\<lparr>m_txg := m_txg m2 + 1\<rparr>))" if c: "count_existing m2 names = Inr 0"
  proof (rule fold_take_snap_inv)
    show "ds_inv (m_txg (m2\<lparr>m_txg := m_txg m2 + 1\<rparr>)) (m_ds (m2\<lparr>m_txg := m_txg m2 + 1\<rparr>))"
      using inv2 ds_inv_mono [of "m_txg m2" "m_ds m2" "m_txg m2 + 1"] by (simp add: mem_inv_def)
    show "origins_before (m_txg (m2\<lparr>m_txg := m_txg m2 + 1\<rparr>)) (m_ds (m2\<lparr>m_txg := m_txg m2 + 1\<rparr>))"
      using inv2 by (simp add: mem_inv_def origins_before_next)
    show "\<forall>n \<in> set names. \<exists>dn sn b. split_name n = (dn, sn, b) \<and>
      (snap_in (m_ds (m2\<lparr>m_txg := m_txg m2 + 1\<rparr>)) dn sn = None \<or>
       snap_in (m_ds (m2\<lparr>m_txg := m_txg m2 + 1\<rparr>)) dn sn = Some (new_snap sn (m_txg (m2\<lparr>m_txg := m_txg m2 + 1\<rparr>))))"
    proof
      fix n assume "n \<in> set names"
      then show "\<exists>dn sn b. split_name n = (dn, sn, b) \<and>
          (snap_in (m_ds (m2\<lparr>m_txg := m_txg m2 + 1\<rparr>)) dn sn = None \<or>
           snap_in (m_ds (m2\<lparr>m_txg := m_txg m2 + 1\<rparr>)) dn sn = Some (new_snap sn (m_txg (m2\<lparr>m_txg := m_txg m2 + 1\<rparr>))))"
        using count_existing_0 [OF c] by (cases "split_name n") auto
    qed
  qed
  then show ?thesis using assms inv1 inv2 unfolding Mem_Snapshot_def m1_def [symmetric] Let_def i
    by (auto split: option.splits sum.splits)
qed

lemma Clone_inv:
  assumes "mem_inv m" "is_name dest"
  shows "mem_inv (fst (Mem_Clone snap dest ps m))"
proof -
  define m1 where "m1 = record_call (''clone '' @ snap @ '' '' @ dest) m"
  have inv1: "mem_inv m1" using assms(1) by (simp only: m1_def mem_inv_record)
  obtain dn sn ok where sp: "split_name snap = (dn, sn, ok)" by (cases "split_name snap") auto
  obtain m2 e where i: "injected ''clone'' dest m1 = (m2, e)" by fastforce
  have inv2: "mem_inv m2" using injected_inv [OF i] inv1 by simp
  have step: "mem_inv (mod_ds dest (\<lambda>d. d\<lparr>ds_origin := snap\<rparr>) m3)"
    if src: "map_of (m_ds m2) dn = Some src" "map_of (ds_snaps src) sn \<noteq> None" and ok
      and new: "map_of (m_ds m2) dest = None"
      and c: "create dest (ds_kind src) (ds_volsize src) ps m2 = (m3, None)" for src m3
  proof -
    obtain m2' where i2: "injected ''create'' dest m2 = (m2', None)" using c
      by (cases "injected ''create'' dest m2") (auto simp: create_def split: option.splits)
    have par: "map_of (m_ds m2) (parentOf dest) \<noteq> None" and txg: "m_txg m3 = m_txg m2"
      and ds: "m_ds m3 = AList.update dest (empty_dataset dest (ds_kind src) ps (ds_volsize src)) (m_ds m2)"
      using c i2 injected_same [OF i2] by (auto simp: create_def Let_def split: if_splits)
    let ?d = "(empty_dataset dest (ds_kind src) ps (ds_volsize src))\<lparr>ds_origin := snap\<rparr>"
    have "ds_inv (m_txg m2) (AList.update dest ?d (m_ds m2))"
    proof (rule ds_inv_add)
      show "ds_inv (m_txg m2) (m_ds m2)" using inv2 by (simp add: mem_inv_def)
      have "snap = snap_full dn sn" using sp \<open>ok\<close> split_name_snap by simp
      moreover obtain os where "snap_in (m_ds m2) dn sn = Some os" using src by (auto simp: snap_in_def)
      ultimately show "ds_origin ?d = '''' \<or> (\<exists>pn osn os. ds_origin ?d = snap_full pn osn \<and> snap_in (m_ds m2) pn osn = Some os)"
        by fastforce
    qed (use new par assms(2) in simp_all)
    moreover have "mmod dest (\<lambda>d. d\<lparr>ds_origin := snap\<rparr>) (m_ds m3) = AList.update dest ?d (m_ds m2)"
      unfolding ds using new by (rule mmod_update_new)
    ultimately show ?thesis by (simp add: mem_inv_def mod_ds_def txg)
  qed
  have cr: "mem_inv m3" if "create dest k z ps m2 = (m3, e)" for k z m3 e
    using create_inv [OF inv2 assms(2), of k z ps] that by simp
  show ?thesis using inv1 inv2 step cr unfolding Mem_Clone_def m1_def [symmetric] Let_def sp i prod.case
    by (auto split: option.splits prod.splits)
qed

text \<open>A promote of a clone either reports a failure and leaves the datasets alone, or relocates the
  origin snapshot and everything older. The nil dereferences of the source are not reached.\<close>

definition moved_of :: "dsmap \<Rightarrow> string \<Rightarrow> snapshot \<Rightarrow> snapshot list" where
  "moved_of ds pn os =
     (case map_of ds pn of None \<Rightarrow> [] | Some p \<Rightarrow> filter (\<lambda>s. sn_txg s \<le> sn_txg os) (sortedSnaps p))"

definition no_panic_inj :: "Mem \<Rightarrow> bool" where
  "no_panic_inj m \<longleftrightarrow> (\<forall>i \<in> set (m_inj m). \<forall>e. inj_err i = Some e \<longrightarrow> \<not> errors_Is e SPanic)"

lemma Promote_cases:
  assumes inv: "mem_inv m"
  obtains (missing) "map_of (m_ds m) n = None" "Mem_Promote n m = (m, Some (not_exist_err n))"
  | (independent) d where "map_of (m_ds m) n = Some d" "ds_origin d = ''''" "Mem_Promote n m = (m, None)"
  | (failed) m2 e d where "map_of (m_ds m) n = Some d" "ds_origin d \<noteq> ''''" "Mem_Promote n m = (m2, Some e)"
      "m_ds m2 = m_ds m" "m_txg m2 = m_txg m" "no_panic_inj m \<Longrightarrow> \<not> errors_Is e SPanic"
  | (moved) m2 d pn osn os where "map_of (m_ds m) n = Some d" "ds_origin d = snap_full pn osn"
      "promotable (m_ds m) n pn osn os (moved_of (m_ds m) pn os)" "Mem_Promote n m = (m2, None)"
      "m_ds m2 = promoted pn n osn (moved_of (m_ds m) pn os) (m_ds m)" "m_txg m2 = m_txg m"
proof (cases "map_of (m_ds m) n")
  case None
  then show ?thesis using missing by (simp add: Mem_Promote_def)
next
  case (Some d)
  have parts: "names_ok (m_ds m)" "lineage_ok (m_ds m)" using inv by (auto simp: mem_inv_def ds_inv_def)
  show ?thesis
  proof (cases "ds_origin d = ''''")
    case True
    then show ?thesis using Some independent by (simp add: Mem_Promote_def)
  next
    case False
    then obtain pn osn p os where o: "ds_origin d = snap_full pn osn" "is_name pn" "map_of (m_ds m) pn = Some p"
        "map_of (ds_snaps p) osn = Some os" "pn \<noteq> n"
      using lineageE [OF parts Some] by metis
    define m1 where "m1 = record_call (''promote '' @ n) m"
    have m1: "m_ds m1 = m_ds m" "m_txg m1 = m_txg m" "m_inj m1 = m_inj m" by (simp_all only: m1_def record_call_same)
    obtain m2 e where i: "injected ''promote'' n m1 = (m2, e)" by fastforce
    have m2: "m_ds m2 = m_ds m" "m_txg m2 = m_txg m" using injected_same [OF i] m1 by auto
    define mv where "mv = filter (\<lambda>s. sn_txg s \<le> sn_txg os) (sortedSnaps p)"
    note unf = Mem_Promote_def m1_def [symmetric] i o(1) split_name_full [OF o(2)] m2(1) o(3,4)
    show ?thesis
    proof (cases e)
      case (Some e')
      have "Mem_Promote n m = (m2, Some (wrapf (''zfs promote '' @ n @ '' (attempt 1/20): '') e'))"
        unfolding Mem_Promote_def m1_def [symmetric] i using False \<open>map_of (m_ds m) n = Some d\<close> Some by simp
      moreover have "no_panic_inj m \<Longrightarrow> \<not> errors_Is e' SPanic"
        using injected_err [OF i [unfolded Some]] m1(3) by (auto simp: no_panic_inj_def)
      ultimately show ?thesis using failed [OF \<open>map_of (m_ds m) n = Some d\<close> False] m2 by auto
    next
      case None
      have set: "s \<in> set mv \<longleftrightarrow> snap_in (m_ds m) pn (sn_name s) = Some s \<and> sn_txg s \<le> sn_txg os" for s
        using set_sortedSnaps [OF parts(1) o(3)] o(3) by (auto simp: mv_def snap_in_def)
      show ?thesis
      proof (cases "find (\<lambda>s. map_of (ds_snaps d) (sn_name s) \<noteq> None) mv")
        case (Some s)
        then have "\<exists>msg. Mem_Promote n m = (m2, Some (errorf msg))"
          unfolding unf using \<open>map_of (m_ds m) n = Some d\<close> None o
          by (auto simp: moved_snaps_def mv_def m2)
        then show ?thesis using failed [OF \<open>map_of (m_ds m) n = Some d\<close> False] m2 by auto
      next
        case nofind: None
        have "Mem_Promote n m = (m2\<lparr>m_ds := promoted pn n osn mv (m_ds m)\<rparr>, None)"
          unfolding unf promoted_def using \<open>map_of (m_ds m) n = Some d\<close> None nofind o
          by (simp add: moved_snaps_def mv_def m2)
        moreover have "promotable (m_ds m) n pn osn os mv"
          using \<open>map_of (m_ds m) n = Some d\<close> o set nofind
          by (auto simp: promotable_def origin_in_def snap_in_def find_None_iff)
        moreover have "mv = moved_of (m_ds m) pn os" using o(3) by (simp add: mv_def moved_of_def)
        ultimately show ?thesis using moved [OF \<open>map_of (m_ds m) n = Some d\<close> o(1)] m2 by simp
      qed
    qed
  qed
qed

lemma Promote_inv: "mem_inv m \<Longrightarrow> mem_inv (fst (Mem_Promote n m))"
  by (rule Promote_cases [of m n]) (auto simp: mem_inv_def ds_inv_promoted)

lemma destroy_snapshot_inv: "mem_inv m \<Longrightarrow> mem_inv (fst (destroy_snapshot (snap_full dn sn) dn sn m))"
  by (auto simp: destroy_snapshot_def Let_def mem_inv_def mod_ds_def ds_inv_def clonesOf_Nil
      intro!: ds_inv_del [unfolded ds_inv_def])

lemma outside_clones_Nil:
  assumes "names_ok (m_ds m)" "outside_clones m tree = []" "dn \<in> set tree" "snap_in (m_ds m) dn sn = Some s"
    "map_of (m_ds m) n = Some d" "ds_origin d = snap_full dn sn"
  shows "n \<in> set tree"
proof -
  obtain x where x: "map_of (m_ds m) dn = Some x" "map_of (ds_snaps x) sn = Some s" using snap_in_dom [OF assms(4)] by blast
  have "snap_full dn sn \<in> set (snapNames x)" using set_snapNames [OF assms(1) x(1)] x(2) by blast
  then have "filter (\<lambda>c. c \<notin> set tree) (clonesOf m (snap_full dn sn)) = []"
    using assms(2,3) x(1) by (auto simp: outside_clones_def concat_eq_Nil_conv)
  moreover have "n \<in> set (clonesOf m (snap_full dn sn))" using set_clonesOf [OF assms(1)] assms(5,6) by blast
  ultimately show ?thesis by (auto simp: filter_empty_conv)
qed

lemma remove_tree_inv:
  assumes "mem_inv m" "outside_clones m (n # children m n) = []"
  shows "mem_inv (remove_tree (n # children m n) m)"
proof -
  let ?tree = "n # children m n"
  have inv: "ds_inv (m_txg m) (m_ds m)" and nm: "names_ok (m_ds m)" using assms(1) by (auto simp: mem_inv_def ds_inv_def)
  have "ds_inv_but (tree_origins m ?tree) (m_txg m) (mdels ?tree (m_ds m))"
  proof (rule ds_inv_remove [OF inv])
    fix k d assume k: "map_of (m_ds m) k = Some d" "parentOf k \<noteq> ''''" "parentOf k \<in> set ?tree"
    then have "HasPrefix k (n @ ''/'')" by (intro parentOf_child) (auto simp: children_def)
    with k(1) show "k \<in> set ?tree" by (auto simp: children_def in_keys_iff)
  next
    fix dn sn s k d
    assume "dn \<in> set ?tree" "snap_in (m_ds m) dn sn = Some s" "map_of (m_ds m) k = Some d" "ds_origin d = snap_full dn sn"
    then show "k \<in> set ?tree" by (rule outside_clones_Nil [OF nm assms(2)])
  next
    fix k d assume "k \<in> set ?tree" "map_of (m_ds m) k = Some d" "ds_origin d \<noteq> ''''"
    then show "ds_origin d \<in> set (tree_origins m ?tree)" unfolding tree_origins_iff origin_in_def by force
  qed
  then show ?thesis unfolding remove_tree_def by (intro fold_dropIfDone_inv) simp
qed

lemma fresh_busy_same: "fresh_busy n d m = (m1, e) \<Longrightarrow> m_ds m1 = m_ds m \<and> m_txg m1 = m_txg m"
  by (auto simp: fresh_busy_def Let_def split: if_splits)

lemma destroy_dataset_inv: "mem_inv m \<Longrightarrow> mem_inv (fst (destroy_dataset n r m))"
proof (cases "map_of (m_ds m) n")
  case (Some d)
  assume "mem_inv m"
  obtain m1 e where f: "fresh_busy n d m = (m1, e)" by fastforce
  define cs where "cs = children m1 n"
  have "mem_inv m1" using \<open>mem_inv m\<close> fresh_busy_same [OF f] by (simp add: mem_inv_def)
  moreover from this have "outside_clones m1 (n # cs) = [] \<Longrightarrow> mem_inv (remove_tree (n # cs) m1)"
    unfolding cs_def by (rule remove_tree_inv)
  ultimately show ?thesis
    unfolding destroy_dataset_def Some option.case f prod.case Let_def cs_def [symmetric]
    by (auto split: option.splits)
qed (simp add: destroy_dataset_def)

lemma Destroy_inv:
  assumes "mem_inv m"
  shows "mem_inv (fst (Mem_Destroy n r m))"
proof -
  define m1 where "m1 = record_call (''destroy '' @ n) m"
  obtain m2 e where i: "injected ''destroy'' n m1 = (m2, e)" by fastforce
  have inv2: "mem_inv m2" using injected_inv [OF i] assms by (simp only: m1_def mem_inv_record)
  obtain dn sn b where sp: "split_name n = (dn, sn, b)" by (cases "split_name n") auto
  have "b \<Longrightarrow> n = snap_full dn sn" using sp split_name_snap by simp
  with inv2 show ?thesis
    unfolding Mem_Destroy_def m1_def [symmetric] i sp prod.case
    by (auto simp: destroy_snapshot_inv destroy_dataset_inv split: option.splits)
qed

lemma DestroySnapshotDeferred_inv:
  assumes "mem_inv m"
  shows "mem_inv (fst (Mem_DestroySnapshotDeferred n m))"
proof -
  define m1 where "m1 = record_call (''destroy -d '' @ n) m"
  have inv1: "mem_inv m1" using assms by (simp only: m1_def mem_inv_record)
  obtain m2 e where i: "injected ''destroy-d'' n m1 = (m2, e)" by fastforce
  have inv2: "ds_inv (m_txg m2) (m_ds m2)" using injected_inv [OF i] inv1 by (simp add: mem_inv_def)
  have nm: "names_ok (m_ds m2)" using inv2 by (simp add: ds_inv_def)
  obtain dn sn b where sp: "split_name n = (dn, sn, b)" by (cases "split_name n") auto
  have n: "b \<Longrightarrow> n = snap_full dn sn" using sp split_name_snap by simp
  have "ds_inv (m_txg m2) (mmod dn (del_snap sn) (m_ds m2))" if "b" "clonesOf m2 n = []"
    using that inv2 n by (auto simp: clonesOf_Nil [OF nm] intro: ds_inv_del)
  moreover have "ds_inv (m_txg m2) (mmod dn (mod_snap sn (\<lambda>s. s\<lparr>sn_deferred := True\<rparr>)) (m_ds m2))"
    if "b" "clonesOf m2 n \<noteq> []"
  proof (rule ds_inv_same_graph [OF inv2])
    fix d sn' s' assume d: "map_of (m_ds m2) dn = Some d" and s': "sn_deferred s'"
      "map_of (ds_snaps (mod_snap sn (\<lambda>s. s\<lparr>sn_deferred := True\<rparr>) d)) sn' = Some s'"
    show "cloned (m_ds m2) (snap_full dn sn')"
    proof (cases "sn' = sn")
      case True
      then show ?thesis using that n by (simp add: clonesOf_Nil [OF nm])
    next
      case False
      then have "snap_in (m_ds m2) dn sn' = Some s'" using s'(2) d by (simp add: mod_snap_def snap_in_def)
      then show ?thesis using inv2 s'(1) by (auto simp: ds_inv_def deferred_ok_def)
    qed
  qed (auto simp: same_graph_def mod_snap_def option.rel_map option.rel_refl)
  ultimately show ?thesis using inv1 inv2
    unfolding Mem_DestroySnapshotDeferred_def m1_def [symmetric] i sp prod.case Let_def
    by (auto simp: mem_inv_def mod_ds_def split: option.splits)
qed

lemma SetProperty_inv:
  assumes "mem_inv m"
  shows "mem_inv (fst (Mem_SetProperty n prop v m))"
proof -
  define m1 where "m1 = record_call (''set '' @ prop @ ''='' @ v @ '' '' @ n) m"
  obtain m2 e where i: "injected ''set'' n m1 = (m2, e)" by fastforce
  have inv2: "ds_inv (m_txg m2) (m_ds m2)"
    using injected_inv [OF i] assms by (simp add: m1_def mem_inv_def)
  have def: "map_of (m_ds m2) k = Some d \<Longrightarrow> map_of (ds_snaps d) sn = Some s \<Longrightarrow> sn_deferred s \<Longrightarrow>
      cloned (m_ds m2) (snap_full k sn)" for k d sn s
    using inv2 unfolding ds_inv_def deferred_ok_def by (metis snap_in_Some)
  obtain dn sn b where sp: "split_name n = (dn, sn, b)" by (cases "split_name n") auto
  have ds: "ds_inv (m_txg m2) (mmod k (\<lambda>d. d\<lparr>ds_props := f (ds_props d)\<rparr>) (m_ds m2))"
      "ds_inv (m_txg m2) (mmod k (\<lambda>d. d\<lparr>ds_volsize := z, ds_props := f (ds_props d)\<rparr>) (m_ds m2))" for k f z
    by (rule ds_inv_same_graph [OF inv2]; auto simp: same_graph_def option.rel_refl dest: def)+
  have sn: "ds_inv (m_txg m2) (mmod dn (mod_snap sn (\<lambda>s. s\<lparr>sn_props := f (sn_props s)\<rparr>)) (m_ds m2))" for f
  proof (rule ds_inv_same_graph [OF inv2])
    fix d sn' s' assume d: "map_of (m_ds m2) dn = Some d" and s': "sn_deferred s'"
      "map_of (ds_snaps (mod_snap sn (\<lambda>s. s\<lparr>sn_props := f (sn_props s)\<rparr>) d)) sn' = Some s'"
    then obtain s where "map_of (ds_snaps d) sn' = Some s" "sn_deferred s"
      by (auto simp: mod_snap_def split: if_splits)
    then show "cloned (m_ds m2) (snap_full dn sn')" using d def by blast
  qed (auto simp: same_graph_def mod_snap_def option.rel_map option.rel_refl)
  show ?thesis using inv2 ds sn
    unfolding Mem_SetProperty_def m1_def [symmetric] i sp prod.case
    by (auto simp: mem_inv_def mod_ds_def set_dataset_prop_def split: option.splits prod.splits)
qed

subsection \<open>Reachable states\<close>

text \<open>A call of a method that changes state. Names of new datasets carry no \<open>@\<close>, as ZFS demands.\<close>

datatype mem_op =
    OpInject string string "goerr option" int
  | OpBusy int
  | OpCreateDataset string props
  | OpCreateZvol string int props
  | OpSnapshot "string list"
  | OpClone string string props
  | OpPromote string
  | OpDestroy string bool
  | OpDestroyDeferred string
  | OpSet string string string
  | OpOwnership string "int option" "int option" string

fun op_ok :: "mem_op \<Rightarrow> bool" where
  "op_ok (OpCreateDataset n ps) = is_name n"
| "op_ok (OpCreateZvol n sz ps) = is_name n"
| "op_ok (OpClone snap dest ps) = is_name dest"
| "op_ok _ = True"

fun run_op :: "mem_op \<Rightarrow> Mem act" where
  "run_op (OpInject op n e k) m = (Mem_Inject op n e k m, None)"
| "run_op (OpBusy k) m = (Mem_BusyAfterZvolCreate k m, None)"
| "run_op (OpCreateDataset n ps) m = Mem_CreateDataset n ps m"
| "run_op (OpCreateZvol n sz ps) m = Mem_CreateZvol n sz ps m"
| "run_op (OpSnapshot ns) m = Mem_Snapshot ns m"
| "run_op (OpClone snap dest ps) m = Mem_Clone snap dest ps m"
| "run_op (OpPromote n) m = Mem_Promote n m"
| "run_op (OpDestroy n r) m = Mem_Destroy n r m"
| "run_op (OpDestroyDeferred n) m = Mem_DestroySnapshotDeferred n m"
| "run_op (OpSet n p v) m = Mem_SetProperty n p v m"
| "run_op (OpOwnership mp u g md) m = Mem_ApplyOwnership mp u g md m"

inductive mem_reachable :: "Mem \<Rightarrow> bool" where
  start: "\<forall>p \<in> set pools. is_name p \<and> parentOf p = '''' \<Longrightarrow> mem_reachable (Mem_New pools)"
| step: "mem_reachable m \<Longrightarrow> op_ok op \<Longrightarrow> run_op op m = (m', e) \<Longrightarrow> mem_reachable m'"

lemma run_op_inv: "mem_inv m \<Longrightarrow> op_ok op \<Longrightarrow> mem_inv (fst (run_op op m))"
  by (cases op)
    (simp_all add: CreateDataset_inv CreateZvol_inv Snapshot_inv Clone_inv Promote_inv Destroy_inv
      DestroySnapshotDeferred_inv SetProperty_inv Mem_Inject_def Mem_BusyAfterZvolCreate_def
      Mem_ApplyOwnership_def)

lemma reachable_inv: "mem_reachable m \<Longrightarrow> mem_inv m"
proof (induction rule: mem_reachable.induct)
  case (step m op m' e)
  then show ?case using run_op_inv [of m op] by simp
qed (simp add: New_inv)

definition run_ops :: "mem_op list \<Rightarrow> Mem \<Rightarrow> Mem" where
  "run_ops ops m = fold (\<lambda>op m. fst (run_op op m)) ops m"

lemma run_ops_reachable: "mem_reachable m \<Longrightarrow> \<forall>op \<in> set ops. op_ok op \<Longrightarrow> mem_reachable (run_ops ops m)"
proof (induction ops arbitrary: m)
  case (Cons op ops)
  have "mem_reachable (fst (run_op op m))"
    using Cons.prems mem_reachable.step [of m op "fst (run_op op m)" "snd (run_op op m)"] by simp
  then show ?case using Cons by (simp add: run_ops_def)
qed (simp add: run_ops_def)

subsection \<open>An atomic snapshot call\<close>

lemma fold_take_snap_view:
  "map_of (m_ds (fold take_snap ns m)) k = None \<longleftrightarrow> map_of (m_ds m) k = None"
  "m_txg (fold take_snap ns m) = m_txg m"
  "origin_in (m_ds (fold take_snap ns m)) k = origin_in (m_ds m) k"
proof -
  have t: "map_of (m_ds (take_snap n m)) k = None \<longleftrightarrow> map_of (m_ds m) k = None"
    "origin_in (m_ds (take_snap n m)) k = origin_in (m_ds m) k" for n m
    by (auto simp: take_snap_def mod_ds_def origin_in_def put_snap_def split: prod.splits option.splits)
  show "map_of (m_ds (fold take_snap ns m)) k = None \<longleftrightarrow> map_of (m_ds m) k = None"
    by (induction ns arbitrary: m) (simp_all add: t)
  show "m_txg (fold take_snap ns m) = m_txg m" by (induction ns arbitrary: m) simp_all
  show "origin_in (m_ds (fold take_snap ns m)) k = origin_in (m_ds m) k"
    by (induction ns arbitrary: m) (simp_all add: t)
qed

lemma fold_take_snap_snap_in:
  "snap_in (m_ds (fold take_snap ns m)) dn sn =
     (if map_of (m_ds m) dn \<noteq> None \<and> (\<exists>n \<in> set ns. \<exists>b. split_name n = (dn, sn, b))
      then Some (new_snap sn (m_txg m)) else snap_in (m_ds m) dn sn)"
proof (induction ns arbitrary: m)
  case (Cons n ns)
  obtain dn' sn' b where sp: "split_name n = (dn', sn', b)" by (cases "split_name n") auto
  have t: "m_ds (take_snap n m) = mmod dn' (put_snap sn' (new_snap sn' (m_txg m))) (m_ds m)"
    by (simp add: take_snap_def mod_ds_def sp)
  have "map_of (m_ds (take_snap n m)) dn \<noteq> None \<longleftrightarrow> map_of (m_ds m) dn \<noteq> None" by (simp add: t)
  then show ?case using Cons [of "take_snap n m"] sp by (auto simp: t snap_in_put)
qed simp

text \<open>Either nothing changed, or every named snapshot was taken, all in one new transaction group that
  is younger than every snapshot there was; no other snapshot changed.\<close>

lemma Snapshot_cases:
  assumes "Mem_Snapshot names m = (m', r)"
  shows "(m_ds m' = m_ds m \<and> m_txg m' = m_txg m) \<or>
    (r = None \<and> m_txg m' = m_txg m + 1 \<and>
     (\<forall>dn sn. snap_in (m_ds m') dn sn =
        (if snap_full dn sn \<in> set names \<and> is_name dn then Some (new_snap sn (m_txg m + 1)) else snap_in (m_ds m) dn sn)) \<and>
     (\<forall>dn sn. snap_full dn sn \<in> set names \<and> is_name dn \<longrightarrow> map_of (m_ds m) dn \<noteq> None \<and> snap_in (m_ds m) dn sn = None))"
proof -
  define m1 where "m1 = record_call (''snapshot '' @ Join '' '' names) m"
  have m1: "m_ds m1 = m_ds m" "m_txg m1 = m_txg m" by (simp_all only: m1_def record_call_same)
  obtain m2 e where i: "injected ''snapshot'' (hd names) m1 = (m2, e)" by fastforce
  have m2: "m_ds m2 = m_ds m" "m_txg m2 = m_txg m" using injected_same [OF i] m1 by auto
  show ?thesis
  proof (cases "names \<noteq> [] \<and> find (\<lambda>n. CHR ''@'' \<notin> set n) names = None \<and> e = None \<and> count_existing m2 names = Inr 0")
    case False
    then have "m_ds m' = m_ds m \<and> m_txg m' = m_txg m"
      using assms m1 m2 unfolding Mem_Snapshot_def m1_def [symmetric] Let_def i
      by (auto split: option.splits sum.splits if_splits)
    then show ?thesis ..
  next
    case True
    let ?m3 = "m2\<lparr>m_txg := m_txg m2 + 1\<rparr>"
    have eq: "m' = fold take_snap names ?m3" "r = None"
      using assms True unfolding Mem_Snapshot_def m1_def [symmetric] Let_def i by auto
    have at: "\<And>n. n \<in> set names \<Longrightarrow> CHR ''@'' \<in> set n" using True by (auto simp: find_None_iff)
    have nm: "(\<exists>n \<in> set names. \<exists>b. split_name n = (dn, sn, b)) \<longleftrightarrow> snap_full dn sn \<in> set names \<and> is_name dn" for dn sn
    proof
      assume "\<exists>n \<in> set names. \<exists>b. split_name n = (dn, sn, b)"
      then obtain n b where n: "n \<in> set names" "split_name n = (dn, sn, b)" by blast
      have "b" using n(2) at [OF n(1)] by (simp add: split_name_def)
      then show "snap_full dn sn \<in> set names \<and> is_name dn" using n split_name_snap [of n dn sn] by auto
    qed (auto intro!: bexI)
    have ex: "map_of (m_ds m) dn \<noteq> None \<and> snap_in (m_ds m) dn sn = None" if "snap_full dn sn \<in> set names \<and> is_name dn" for dn sn
      using that True m2 count_existing_0 [of m2 names "snap_full dn sn" dn sn True] by simp
    have "snap_in (m_ds m') dn sn =
        (if snap_full dn sn \<in> set names \<and> is_name dn then Some (new_snap sn (m_txg m + 1)) else snap_in (m_ds m) dn sn)" for dn sn
      using ex [of dn sn] unfolding eq fold_take_snap_snap_in nm by (auto simp: m2)
    moreover have "m_txg m' = m_txg m + 1" using eq(1) fold_take_snap_view(2) [of names ?m3] m2 by simp
    ultimately show ?thesis using ex eq(2) by blast
  qed
qed

subsection \<open>Destroying an emptied dataset\<close>

lemma outside_clones_empty:
  "map_of (m_ds m) n = Some d \<Longrightarrow> ds_snaps d = [] \<Longrightarrow> outside_clones m [n] = []"
  by (simp add: outside_clones_def snapNames_def sortedSnaps_def)

lemma dropIfDone_dom: "map_of (m_ds (dropIfDone og m)) k = None \<longleftrightarrow> map_of (m_ds m) k = None"
  by (auto simp: dropIfDone_def mod_ds_def split: prod.splits option.splits)

lemma fold_dropIfDone_dom: "map_of (m_ds (fold dropIfDone os m)) k = None \<longleftrightarrow> map_of (m_ds m) k = None"
  by (induction os arbitrary: m) (simp_all add: dropIfDone_dom)

lemma Destroy_empty:
  assumes "is_name n" "m_inj m = []" "map_of (m_ds m) n = Some d" "ds_snaps d = []" "children m n = []"
    "map_of (m_freshZvol m) n \<noteq> Some True \<or> m_busy m \<le> 0"
  shows "snd (Mem_Destroy n False m) = None"
    "map_of (m_ds (fst (Mem_Destroy n False m))) k = None \<longleftrightarrow> k = n \<or> map_of (m_ds m) k = None"
proof -
  define m1 where "m1 = record_call (''destroy '' @ n) m"
  have m1: "m_ds m1 = m_ds m" "m_inj m1 = []" "m_freshZvol m1 = m_freshZvol m" "m_busy m1 = m_busy m"
    using assms(2) by (simp_all only: m1_def record_call_same)
  obtain m2 where i: "injected ''destroy'' n m1 = (m2, None)" "m_ds m2 = m_ds m" "m_freshZvol m2 = m_freshZvol m" "m_busy m2 = m_busy m"
    using m1 by (simp add: injected_def)
  obtain m3 e where fb: "fresh_busy n d m2 = (m3, e)" by fastforce
  have "e = None" using fb assms(6) i by (auto simp: fresh_busy_def Let_def split: if_splits)
  then have f: "fresh_busy n d m2 = (m3, None)" "m_ds m3 = m_ds m"
    using fb fresh_busy_same [OF fb] i(2) by auto
  have c: "children m3 n = []" using assms(5) f by (simp add: children_def)
  have o: "outside_clones m3 [n] = []" using assms(3,4) f outside_clones_empty by simp
  have "Mem_Destroy n False m = (remove_tree [n] m3, None)"
    using assms(1,3,4) i f c o
    unfolding Mem_Destroy_def m1_def [symmetric] i(1) prod.case option.case
    by (simp add: destroy_dataset_def Let_def)
  then show "snd (Mem_Destroy n False m) = None"
      "map_of (m_ds (fst (Mem_Destroy n False m))) k = None \<longleftrightarrow> k = n \<or> map_of (m_ds m) k = None"
    using f by (simp_all add: remove_tree_def fold_dropIfDone_dom)
qed

subsection \<open>What a promote does\<close>

lemma origin_has_snap:
  assumes "names_ok ds" "lineage_ok ds" "origin_in ds k = snap_full q qs" "is_name q"
  shows "\<exists>s. snap_in ds q qs = Some s"
proof -
  have "has_origin ds k (snap_full q qs)" using assms(2,3) unfolding lineage_origin_in by (metis snap_full_not_Nil(1))
  then show ?thesis using has_origin_inD [OF assms(1)] assms(4) by (metis snap_full_inj)
qed

lemma Promote_spec:
  assumes inv: "mem_inv m" and d: "map_of (m_ds m) n = Some d" "ds_origin d = snap_full pn osn" "is_name pn"
    "snap_in (m_ds m) pn osn = Some os" and run: "Mem_Promote n m = (m', None)"
  shows "snap_in (m_ds m') k sn =
        (if k = n \<and> moves (m_ds m) pn os sn then snap_in (m_ds m) pn sn
         else if k = pn \<and> moves (m_ds m) pn os sn then None else snap_in (m_ds m) k sn)"
    "origin_in (m_ds m') pn = snap_full n osn"
    "k \<noteq> n \<Longrightarrow> k \<noteq> pn \<Longrightarrow> origin_in (m_ds m) k = snap_full q qs \<Longrightarrow> is_name q \<Longrightarrow>
        origin_in (m_ds m') k = snap_full (if q = pn \<and> moves (m_ds m) pn os qs then n else q) qs"
proof -
  have nm: "names_ok (m_ds m)" "lineage_ok (m_ds m)" using inv by (auto simp: mem_inv_def ds_inv_def)
  define mv where "mv = moved_of (m_ds m) pn os"
  have pr: "promotable (m_ds m) n pn osn os mv" and m': "m_ds m' = promoted pn n osn mv (m_ds m)"
  proof -
    have "promotable (m_ds m) n pn osn os mv \<and> m_ds m' = promoted pn n osn mv (m_ds m)"
      using inv
    proof (cases rule: Promote_cases [where n = n])
      case (moved m2 d' pn' osn' os')
      have "is_name pn'" "snap_in (m_ds m) pn' osn' = Some os'" using moved(3) by (auto simp: promotable_def)
      moreover have "snap_full pn' osn' = snap_full pn osn" using moved(1,2) d(1,2) by simp
      ultimately have "pn' = pn" "osn' = osn" "os' = os" using d(3,4) by (auto simp: snap_full_inj)
      then show ?thesis using moved run by (simp add: mv_def)
    qed (use d run in auto)
    then show "promotable (m_ds m) n pn osn os mv" "m_ds m' = promoted pn n osn mv (m_ds m)" by blast+
  qed
  show "snap_in (m_ds m') k sn =
        (if k = n \<and> moves (m_ds m) pn os sn then snap_in (m_ds m) pn sn
         else if k = pn \<and> moves (m_ds m) pn os sn then None else snap_in (m_ds m) k sn)"
    unfolding m' by (rule snap_in_promoted [OF nm(1) pr])
  have "map_of (m_ds m) pn \<noteq> None" using d(4) by (auto simp: snap_in_def split: option.splits)
  then show "origin_in (m_ds m') pn = snap_full n osn" unfolding m' by (simp add: origin_in_promoted [OF nm(1) pr])
  assume k: "k \<noteq> n" "k \<noteq> pn" "origin_in (m_ds m) k = snap_full q qs" "is_name q"
  obtain s where "snap_in (m_ds m) q qs = Some s" using origin_has_snap [OF nm k(3,4)] by blast
  moreover have "map_of (m_ds m) k \<noteq> None" using k(3) by (auto simp: origin_in_def split: option.splits)
  ultimately show "origin_in (m_ds m') k = snap_full (if q = pn \<and> moves (m_ds m) pn os qs then n else q) qs"
    using origin_follows(1) [OF nm pr k(3,4) _ k(1)] k unfolding m' by (simp add: origin_in_promoted [OF nm(1) pr])
qed

end
