(* ===== verification/DetachMem.thy ===== *)
theory DetachMem
  imports DetachSpec MemZfs_Ops
begin

text \<open>
  The detach loop on the in-memory ZFS: the contract of theory \<open>DetachSpec\<close> is discharged for it, and
  what the loop keeps and reaches is read off the clone graph.
\<close>

subsection \<open>The contract\<close>

type_synonym graph = "int \<times> dsmap"

definition mem_view :: "Mem \<times> 'k \<Rightarrow> graph" where
  "mem_view w = (m_txg (fst w), m_ds (fst w))"

definition graph_inv :: "graph \<Rightarrow> bool" where
  "graph_inv v \<longleftrightarrow> ds_inv (fst v) (snd v)"

definition graph_snaps :: "graph \<Rightarrow> string \<Rightarrow> string set" where
  "graph_snaps v d = {snap_full d sn | sn. snap_in (snd v) d sn \<noteq> None}"

definition graph_clones :: "graph \<Rightarrow> string \<Rightarrow> string set" where
  "graph_clones v s = {n. \<exists>d. map_of (snd v) n = Some d \<and> ds_origin d = s}"

definition graph_destroy :: "graph \<Rightarrow> string \<Rightarrow> graph" where
  "graph_destroy v s =
     (case split_name s of (dn, sn, ok) \<Rightarrow>
        if \<not> ok \<or> snap_in (snd v) dn sn = None then v else (fst v, mmod dn (del_snap sn) (snd v)))"

definition graph_promote :: "graph \<Rightarrow> string \<Rightarrow> graph" where
  "graph_promote v c =
     (case split_name (origin_in (snd v) c) of (pn, osn, ok) \<Rightarrow>
        (case snap_in (snd v) pn osn of
           None \<Rightarrow> v
         | Some os \<Rightarrow> (fst v, promoted pn c osn (moved_of (snd v) pn os) (snd v))))"

definition graph_can_promote :: "graph \<Rightarrow> string \<Rightarrow> bool" where
  "graph_can_promote v c \<longleftrightarrow>
     (\<exists>pn osn os. promotable (snd v) c pn osn os (moved_of (snd v) pn os))"

lemma mem_inv_view: "mem_inv (fst w) = graph_inv (mem_view w)"
  by (simp add: mem_inv_def graph_inv_def mem_view_def)

lemma graph_clones_empty: "graph_clones v s = {} \<longleftrightarrow> \<not> cloned (snd v) s"
  by (auto simp: graph_clones_def cloned_def)

lemma graph_clones_origin: "s \<noteq> '''' \<Longrightarrow> c \<in> graph_clones v s \<longleftrightarrow> origin_in (snd v) c = s"
  by (auto simp: graph_clones_def origin_in_def split: option.splits)

lemma graph_clones_alt: "graph_clones v s = {n. map_option ds_origin (map_of (snd v) n) = Some s}"
  by (auto simp: graph_clones_def)

lemma in_graph_snaps: "s \<in> graph_snaps v d \<longleftrightarrow> (\<exists>sn. s = snap_full d sn \<and> snap_in (snd v) d sn \<noteq> None)"
  by (auto simp: graph_snaps_def)

lemma graph_snaps_name: "graph_inv v \<Longrightarrow> graph_snaps v d \<noteq> {} \<Longrightarrow> is_name d"
  using names_ok_snap by (fastforce simp: graph_inv_def ds_inv_def graph_snaps_def)

lemma distinct_snapNames:
  assumes "names_ok ds" "map_of ds n = Some d"
  shows "distinct (snapNames d)"
proof -
  have "distinct (map fst (ds_snaps d))" using names_okD(3) [OF assms] by (simp add: wf_map_def keys_def)
  moreover have "map fst (ds_snaps d) = map sn_name (map snd (ds_snaps d))"
  proof -
    have "fst x = sn_name (snd x)" if "x \<in> set (ds_snaps d)" for x
    proof -
      have "map_of (ds_snaps d) (fst x) = Some (snd x)"
        using that names_okD(3) [OF assms] wf_map_in_iff [of "ds_snaps d" "fst x" "snd x"] by simp
      then show ?thesis using names_okD(4) [OF assms] by simp
    qed
    then show ?thesis by simp
  qed
  ultimately have "distinct (map sn_name (map snd (ds_snaps d)))" by simp
  then have "distinct (map snd (ds_snaps d))" "inj_on sn_name (set (map snd (ds_snaps d)))"
    by (simp_all only: distinct_map)
  then have "distinct (map sn_name (sortedSnaps d))"
    unfolding sortedSnaps_def distinct_map set_sort distinct_sort by blast
  then show ?thesis unfolding snapNames_def by (simp add: distinct_map inj_on_def)
qed

lemma DSD_cases:
  assumes "Mem_DestroySnapshotDeferred s m = (m', r)"
  shows "(r \<noteq> None \<and> m_ds m' = m_ds m \<and> m_txg m' = m_txg m) \<or>
    (\<exists>dn sn. r = None \<and> split_name s = (dn, sn, True) \<and> m_txg m' = m_txg m \<and>
       m_ds m' = (if snap_in (m_ds m) dn sn = None then m_ds m
                  else if clonesOf m s = [] then mmod dn (del_snap sn) (m_ds m)
                  else mmod dn (mod_snap sn (\<lambda>s. s\<lparr>sn_deferred := True\<rparr>)) (m_ds m)))"
proof -
  define m1 where "m1 = record_call (''destroy -d '' @ s) m"
  have m1: "m_ds m1 = m_ds m" "m_txg m1 = m_txg m" by (simp_all only: m1_def record_call_same)
  obtain m2 e where i: "injected ''destroy-d'' s m1 = (m2, e)" by fastforce
  have m2: "m_ds m2 = m_ds m" "m_txg m2 = m_txg m" using injected_same [OF i] m1 by auto
  have cl: "clonesOf m2 s = clonesOf m s" using m2 by (simp add: clonesOf_def)
  obtain dn sn b where sp: "split_name s = (dn, sn, b)" by (cases "split_name s") auto
  show ?thesis
    using assms m1 m2 cl
    unfolding Mem_DestroySnapshotDeferred_def m1_def [symmetric] i sp prod.case Let_def snap_at_snap_in
    by (auto simp: mod_ds_def split: option.splits if_splits)
qed

lemma graph_inv_parts: "graph_inv v \<Longrightarrow> names_ok (snd v) \<and> lineage_ok (snd v) \<and> deferred_ok (snd v)"
  by (simp add: graph_inv_def ds_inv_def)

interpretation mg: clone_graph "lift_ZFS mem_ZFS :: (Mem \<times> 'k) ZFS" mem_view graph_inv graph_snaps
  graph_clones graph_destroy graph_promote graph_can_promote
proof (unfold_locales, goal_cases)
  case (1 d w w' r)
  then show ?case by (auto simp: mem_ZFS_def lift_op_eq Mem_ListSnapshots_def mem_view_def)
next
  case (2 w d w' l)
  then obtain x where x: "map_of (m_ds (fst w)) d = Some x" "l = snapNames x"
    by (auto simp: mem_ZFS_def lift_op_eq Mem_ListSnapshots_def split: option.splits)
  have "names_ok (m_ds (fst w))" using 2(1) graph_inv_parts by (auto simp: mem_view_def)
  then show ?case using x set_snapNames [of "m_ds (fst w)" d x] by (auto simp: graph_snaps_def mem_view_def snap_in_def)
next
  case (3 w d w' l)
  then obtain x where x: "map_of (m_ds (fst w)) d = Some x" "l = snapNames x"
    by (auto simp: mem_ZFS_def lift_op_eq Mem_ListSnapshots_def split: option.splits)
  have "names_ok (m_ds (fst w))" using 3(1) graph_inv_parts by (auto simp: mem_view_def)
  then show ?case using x distinct_snapNames by blast
next
  case (4 w d w' e)
  then have "map_of (m_ds (fst w)) d = None"
    by (auto simp: mem_ZFS_def lift_op_eq Mem_ListSnapshots_def split: option.splits)
  then show ?case by (simp add: graph_snaps_def mem_view_def snap_in_def)
next
  case (5 s w w' rc)
  then show ?case by (auto simp: mem_ZFS_def lift_op_eq Mem_Clones_def mem_view_def)
next
  case (6 w s w' l)
  then have "l = clonesOf (fst w) s"
    by (auto simp: mem_ZFS_def lift_op_eq Mem_Clones_def split: prod.splits if_splits)
  moreover have "names_ok (m_ds (fst w))" using 6(1) graph_inv_parts by (auto simp: mem_view_def)
  ultimately show ?case using set_clonesOf by (auto simp: graph_clones_def mem_view_def)
next
  case (7 w s w' e d)
  show ?case
  proof
    assume "s \<in> graph_snaps (mem_view w) d"
    then obtain sn where s: "s = snap_full d sn" "snap_in (m_ds (fst w)) d sn \<noteq> None"
      by (auto simp: in_graph_snaps mem_view_def)
    have "is_name d" using 7(1) s names_ok_snap graph_inv_parts by (fastforce simp: mem_view_def)
    with s 7(2) show False by (auto simp: mem_ZFS_def lift_op_eq Mem_Clones_def snap_at_snap_in)
  qed
next
  case (8 n p w w' rg)
  then show ?case by (auto simp: mem_ZFS_def lift_op_eq Mem_Get_def mem_view_def)
next
  case (9 w s w' )
  have nm: "names_ok (m_ds (fst w))" using 9(1) graph_inv_parts by (auto simp: mem_view_def)
  have "clonesOf (fst w) s = []" using 9(2) clonesOf_Nil [OF nm] by (simp add: graph_clones_empty mem_view_def)
  then show ?case using DSD_cases [of s "fst w" "fst w'" None] 9(3)
    by (auto simp: mem_ZFS_def lift_op_eq graph_destroy_def mem_view_def)
next
  case (10 s w w' e)
  then show ?case using DSD_cases [of s "fst w" "fst w'" "Some e"] by (auto simp: mem_ZFS_def lift_op_eq mem_view_def)
next
  case (11 w c s d w')
  have p: "Mem_Promote c (fst w) = (fst w', None)" using 11(4) by (simp add: mem_ZFS_def lift_op_eq)
  obtain sn where s: "s = snap_full d sn" "snap_in (m_ds (fst w)) d sn \<noteq> None" using 11(3) by (auto simp: in_graph_snaps mem_view_def)
  have o: "origin_in (m_ds (fst w)) c = s" using 11(2) s(1) graph_clones_origin [of s c "mem_view w"] by (simp add: mem_view_def)
  have inv: "mem_inv (fst w)" using 11(1) by (simp add: mem_inv_view)
  from inv show ?case
  proof (cases rule: Promote_cases [where n = c])
    case (moved m2 x pn osn os)
    have "is_name pn" "snap_in (m_ds (fst w)) pn osn = Some os" "origin_in (m_ds (fst w)) c = snap_full pn osn"
      using moved(3) by (auto simp: promotable_def)
    then show ?thesis using moved p by (auto simp: graph_promote_def mem_view_def graph_can_promote_def)
  qed (use p o s in \<open>auto simp: origin_in_def\<close>)
next
  case (12 w c w' e)
  have p: "Mem_Promote c (fst w) = (fst w', Some e)" using 12(2) by (simp add: mem_ZFS_def lift_op_eq)
  have inv: "mem_inv (fst w)" using 12(1) by (simp add: mem_inv_view)
  show ?case by (cases rule: Promote_cases [OF inv, of c]) (use p in \<open>auto simp: mem_view_def\<close>)
next
  case (13 v s)
  then show ?case using ds_inv_del [of "fst v" "snd v"] split_name_snap [of s]
    by (auto simp: graph_destroy_def graph_inv_def graph_clones_empty split: prod.splits)
next
  case (14 v s d)
  then have nm: "names_ok (snd v)" using graph_inv_parts by blast
  obtain dn sn ok where sp: "split_name s = (dn, sn, ok)" by (cases "split_name s") auto
  show ?case
  proof (cases "ok \<and> snap_in (snd v) dn sn \<noteq> None")
    case True
    then have s: "s = snap_full dn sn" "is_name dn" using sp split_name_snap by auto
    have "is_name d \<or> graph_snaps v d = {}" using graph_snaps_name [OF 14(1)] by blast
    then show ?thesis using True sp s
      by (auto simp: graph_destroy_def graph_snaps_def snap_in_del [OF nm] snap_full_inj split: if_splits)
  next
    case False
    have "s \<notin> graph_snaps v d"
    proof
      assume "s \<in> graph_snaps v d"
      moreover from this have "is_name d" using graph_snaps_name [OF 14(1)] by blast
      ultimately show False using False sp by (auto simp: in_graph_snaps)
    qed
    then show ?thesis using False sp by (auto simp: graph_destroy_def)
  qed
next
  case (15 v s s')
  have "map_option ds_origin (map_of (snd (graph_destroy v s)) n) = map_option ds_origin (map_of (snd v) n)" for n
    by (cases "map_of (snd v) n") (auto simp: graph_destroy_def del_snap_def split: prod.splits)
  then show ?case by (simp only: graph_clones_alt)
next
  case (16 w c w' rp)
  then show ?case using Promote_inv [of "fst w" c] by (simp add: mem_ZFS_def lift_op_eq flip: mem_inv_view)
qed


subsection \<open>Nothing that is needed is lost\<close>

text \<open>
  Between two states, every dataset stays with its kind, properties and size; every snapshot of another
  dataset stays where it is; every snapshot of \<open>full\<close> that has a clone still exists, unchanged, on
  \<open>full\<close> or on another dataset, and still has a clone.
\<close>

definition keeps_data :: "string \<Rightarrow> dsmap \<Rightarrow> dsmap \<Rightarrow> bool" where
  "keeps_data full ds ds' \<longleftrightarrow>
     (\<forall>n. map_option (\<lambda>d. (ds_kind d, ds_props d, ds_volsize d)) (map_of ds' n) =
          map_option (\<lambda>d. (ds_kind d, ds_props d, ds_volsize d)) (map_of ds n)) \<and>
     (\<forall>dn sn s. snap_in ds dn sn = Some s \<longrightarrow> dn \<noteq> full \<or> cloned ds (snap_full dn sn) \<longrightarrow>
        (\<exists>dn'. snap_in ds' dn' sn = Some s \<and> (dn \<noteq> full \<longrightarrow> dn' = dn) \<and>
           (cloned ds (snap_full dn sn) \<longrightarrow> cloned ds' (snap_full dn' sn))))"

lemma graph_promote_promoted:
  "graph_inv v \<Longrightarrow> promotable (snd v) c pn osn os mv \<Longrightarrow>
   graph_promote v c = (fst v, promoted pn c osn (moved_of (snd v) pn os) (snd v))"
  by (auto simp: graph_promote_def promotable_def)

lemma clone_promotable:
  assumes "graph_inv v" "s \<in> graph_snaps v full" "c \<in> graph_clones v s" "promotable (snd v) c pn osn os mv"
  shows "pn = full" "s = snap_full full osn"
proof -
  obtain sn where s: "s = snap_full full sn" "snap_in (snd v) full sn \<noteq> None" using assms(2) by (auto simp: in_graph_snaps)
  have "is_name full" using graph_snaps_name [OF assms(1)] assms(2) by blast
  moreover have "snap_full pn osn = s" "is_name pn"
    using assms(3,4) s(1) graph_clones_origin [of s c v] by (auto simp: promotable_def)
  ultimately show "pn = full" "s = snap_full full osn" using s(1) by (auto simp: snap_full_inj)
qed

lemma shed_keeps: "mg.shed full v v' \<Longrightarrow> keeps_data full (snd v) (snd v')"
proof (induction rule: mg.shed.induct)
  case (refl v)
  then show ?case by (auto simp: keeps_data_def)
next
  case (drop v v1 s)
  have inv1: "graph_inv v1" using mg.shed_inv [OF drop.hyps(1)] by simp
  then have nm: "names_ok (snd v1)" using graph_inv_parts by blast
  obtain sn where s: "s = snap_full full sn" "snap_in (snd v1) full sn \<noteq> None" using drop.hyps(2) by (auto simp: in_graph_snaps)
  have fn: "is_name full" using graph_snaps_name [OF inv1] drop.hyps(2) by blast
  have g: "snd (graph_destroy v1 s) = mmod full (del_snap sn) (snd v1)" using s fn by (auto simp: graph_destroy_def)
  have nc: "\<not> cloned (snd v1) s" using drop.hyps(3) by (simp add: graph_clones_empty)
  show ?case
    unfolding keeps_data_def g
  proof (intro conjI allI impI)
    fix n
    show "map_option (\<lambda>d. (ds_kind d, ds_props d, ds_volsize d)) (map_of (mmod full (del_snap sn) (snd v1)) n) =
          map_option (\<lambda>d. (ds_kind d, ds_props d, ds_volsize d)) (map_of (snd v) n)"
      using drop.IH by (auto simp: keeps_data_def del_snap_def option.map_comp comp_def)
  next
    fix dn b x assume x: "snap_in (snd v) dn b = Some x" "dn \<noteq> full \<or> cloned (snd v) (snap_full dn b)"
    then obtain dn' where d: "snap_in (snd v1) dn' b = Some x" "dn \<noteq> full \<longrightarrow> dn' = dn"
        "cloned (snd v) (snap_full dn b) \<longrightarrow> cloned (snd v1) (snap_full dn' b)"
      using drop.IH unfolding keeps_data_def by blast
    have "\<not> (dn' = full \<and> b = sn)" using d(2,3) x(2) nc s(1) by auto
    then show "\<exists>dn'. snap_in (mmod full (del_snap sn) (snd v1)) dn' b = Some x \<and> (dn \<noteq> full \<longrightarrow> dn' = dn) \<and>
        (cloned (snd v) (snap_full dn b) \<longrightarrow> cloned (mmod full (del_snap sn) (snd v1)) (snap_full dn' b))"
      using d by (intro exI [of _ dn']) (simp add: snap_in_del [OF nm])
  qed
next
  case (promote v v1 s c)
  have inv1: "graph_inv v1" using mg.shed_inv [OF promote.hyps(1)] by simp
  then have nm: "names_ok (snd v1)" "lineage_ok (snd v1)" using graph_inv_parts by blast+
  obtain pn osn os where pr0: "promotable (snd v1) c pn osn os (moved_of (snd v1) pn os)"
    using promote.hyps(4) by (auto simp: graph_can_promote_def)
  note eq = clone_promotable [OF inv1 promote.hyps(2,3) pr0]
  define mv where "mv = moved_of (snd v1) full os"
  have pr: "promotable (snd v1) c full osn os mv" using pr0 eq(1) by (simp add: mv_def)
  have g: "snd (graph_promote v1 c) = promoted full c osn mv (snd v1)"
    using graph_promote_promoted [OF inv1 pr] by (simp add: mv_def)
  note cn = promotable_names [OF nm(1) pr] and si = snap_in_promoted [OF nm(1) pr]
  show ?case
    unfolding keeps_data_def g
  proof (intro conjI allI impI)
    fix n
    show "map_option (\<lambda>d. (ds_kind d, ds_props d, ds_volsize d)) (map_of (promoted full c osn mv (snd v1)) n) =
          map_option (\<lambda>d. (ds_kind d, ds_props d, ds_volsize d)) (map_of (snd v) n)"
      using promote.IH cn by (simp add: keeps_data_def map_of_promoted option.map_comp comp_def)
  next
    fix dn b x assume x: "snap_in (snd v) dn b = Some x" "dn \<noteq> full \<or> cloned (snd v) (snap_full dn b)"
    then obtain dn' where d: "snap_in (snd v1) dn' b = Some x" "dn \<noteq> full \<longrightarrow> dn' = dn"
        "cloned (snd v) (snap_full dn b) \<longrightarrow> cloned (snd v1) (snap_full dn' b)"
      using promote.IH unfolding keeps_data_def by blast
    define dn2 where "dn2 = (if dn' = full \<and> moves (snd v1) full os b then c else dn')"
    have noconf: "\<not> (dn' = c \<and> moves (snd v1) full os b)"
      using pr d(1) names_ok_snap [OF nm(1)] by (fastforce simp: promotable_def moves_def)
    have "snap_in (promoted full c osn mv (snd v1)) dn2 b = Some x"
      using d(1) noconf cn by (auto simp: dn2_def si)
    moreover have "cloned (snd v1) (snap_full dn' b) \<Longrightarrow> cloned (promoted full c osn mv (snd v1)) (snap_full dn2 b)"
      using cloned_promoted [OF nm pr _ d(1)] by (simp add: dn2_def)
    moreover have "dn \<noteq> full \<Longrightarrow> dn2 = dn" using d(2) by (simp add: dn2_def)
    ultimately show "\<exists>dn'. snap_in (promoted full c osn mv (snd v1)) dn' b = Some x \<and> (dn \<noteq> full \<longrightarrow> dn' = dn) \<and>
        (cloned (snd v) (snap_full dn b) \<longrightarrow> cloned (promoted full c osn mv (snd v1)) (snap_full dn' b))"
      using d(3) by blast
  qed
qed

lemma detach_mem:
  assumes "mem_inv (fst w)" "quiet_reader mem_view c"
    "detachAndCleanSnapshots c (lift_ZFS mem_ZFS) g p full w = (w', r)"
  shows "mem_inv (fst w')" "keeps_data full (m_ds (fst w)) (m_ds (fst w'))"
    "r = None \<Longrightarrow> snap_in (m_ds (fst w')) full sn = None"
proof -
  have "mg.shed full (mem_view w) (mem_view w') \<and> (r = None \<longrightarrow> graph_snaps (mem_view w') full = {})"
    using mg.detach_rounds_shed [OF assms(2), of w] assms(1,3)
    unfolding detachAndCleanSnapshots_def mem_inv_view by blast
  then show "mem_inv (fst w')" "keeps_data full (m_ds (fst w)) (m_ds (fst w'))"
      "r = None \<Longrightarrow> snap_in (m_ds (fst w')) full sn = None"
    using mg.shed_inv [of full "mem_view w" "mem_view w'"] shed_keeps [of full "mem_view w" "mem_view w'"]
    by (auto simp: mem_inv_view mem_view_def graph_snaps_def)
qed

subsection \<open>The loop reaches its end\<close>

definition calm :: "Mem \<times> 'k \<Rightarrow> bool" where
  "calm w \<longleftrightarrow> m_inj (fst w) = []"

lemma injected_calm: "m_inj m = [] \<Longrightarrow> injected op n m = (m\<lparr>m_inj := []\<rparr>, None)"
  by (simp add: injected_def)

lemma DSD_calm:
  assumes "m_inj m = []" "is_name dn"
  shows "m_inj (fst (Mem_DestroySnapshotDeferred (snap_full dn sn) m)) = []"
    "snd (Mem_DestroySnapshotDeferred (snap_full dn sn) m) = None"
  using assms by (auto simp: Mem_DestroySnapshotDeferred_def Let_def injected_calm mod_ds_def record_call_def)

lemma Promote_calm:
  assumes "m_inj m = []" "promotable (m_ds m) n pn osn os (moved_of (m_ds m) pn os)"
  shows "m_inj (fst (Mem_Promote n m)) = [] \<and> snd (Mem_Promote n m) = None"
proof -
  obtain d where d: "map_of (m_ds m) n = Some d" "ds_origin d = snap_full pn osn" "is_name pn"
    using assms(2) by (auto simp: promotable_def origin_in_def)
  obtain p where p: "map_of (m_ds m) pn = Some p" "map_of (ds_snaps p) osn = Some os"
    using assms(2) snap_in_dom by (fastforce simp: promotable_def)
  have "find (\<lambda>s. map_of (ds_snaps d) (sn_name s) \<noteq> None) (moved_of (m_ds m) pn os) = None"
    using assms(2) d(1) by (auto simp: promotable_def find_None_iff snap_in_def)
  then show ?thesis using assms(1) d p
    by (simp add: Mem_Promote_def injected_calm moved_snaps_def moved_of_def record_call_def)
qed

lemma promoted_shrinks:
  assumes inv: "graph_inv v" and s: "s \<in> graph_snaps v full" and c: "c \<in> graph_clones v s" and can: "graph_can_promote v c"
  shows "graph_snaps (graph_promote v c) full \<subset> graph_snaps v full"
proof -
  obtain pn osn os where pr0: "promotable (snd v) c pn osn os (moved_of (snd v) pn os)"
    using can by (auto simp: graph_can_promote_def)
  note eq = clone_promotable [OF inv s c pr0]
  have pr: "promotable (snd v) c full osn os (moved_of (snd v) full os)" using pr0 eq(1) by simp
  have nm: "names_ok (snd v)" using graph_inv_parts [OF inv] by blast
  note si = snap_in_promoted [OF nm pr] and cn = promotable_names [OF nm pr]
  have sub: "graph_snaps (graph_promote v c) full \<subseteq> graph_snaps v full"
    using cn by (auto simp: graph_promote_promoted [OF inv pr] graph_snaps_def si split: if_splits)
  have "moves (snd v) full os osn" using pr by (auto simp: promotable_def moves_def)
  then have "s \<notin> graph_snaps (graph_promote v c) full"
    using cn eq(2) by (auto simp: graph_promote_promoted [OF inv pr] graph_snaps_def si)
  then show ?thesis using sub s by blast
qed

lemma finite_graph_snaps: "finite (graph_snaps v d)"
proof -
  have "graph_snaps v d \<subseteq> snap_full d ` {sn. \<exists>x. map_of (snd v) d = Some x \<and> sn \<in> dom (map_of (ds_snaps x))}"
    by (auto simp: graph_snaps_def snap_in_def split: option.splits)
  moreover have "finite {sn. \<exists>x. map_of (snd v) d = Some x \<and> sn \<in> dom (map_of (ds_snaps x))}"
    by (cases "map_of (snd v) d") (simp_all add: finite_dom_map_of)
  ultimately show ?thesis by (meson finite_imageI finite_subset)
qed

interpretation ml: live_graph "lift_ZFS mem_ZFS :: (Mem \<times> 'k) ZFS" mem_view graph_inv graph_snaps
  graph_clones graph_destroy graph_promote graph_can_promote calm
proof (unfold_locales, goal_cases)
  case (1 w d w' r)
  then show ?case by (auto simp: calm_def mem_ZFS_def lift_op_eq Mem_ListSnapshots_def split: option.splits)
next
  case (2 w s d w' rc)
  obtain sn where s: "s = snap_full d sn" "snap_in (m_ds (fst w)) d sn \<noteq> None"
    using 2(3) by (auto simp: in_graph_snaps mem_view_def)
  moreover have "is_name d" using graph_snaps_name [OF 2(2)] 2(3) by blast
  ultimately show ?case using 2(1,4) by (auto simp: calm_def mem_ZFS_def lift_op_eq Mem_Clones_def snap_at_snap_in)
next
  case (3 w s d w' rd)
  obtain sn where s: "s = snap_full d sn" using 3(3) by (auto simp: in_graph_snaps)
  moreover have "is_name d" using graph_snaps_name [OF 3(2)] 3(3) by blast
  ultimately show ?case using 3(1,4) DSD_calm [of "fst w" d sn] by (simp add: calm_def mem_ZFS_def lift_op_eq)
next
  case (4 w n p w' rg)
  then show ?case by (auto simp: calm_def mem_ZFS_def lift_op_eq Mem_Get_def split: option.splits prod.splits if_splits)
next
  case (5 w c w' rp)
  then obtain pn osn os where "promotable (m_ds (fst w)) c pn osn os (moved_of (m_ds (fst w)) pn os)"
    by (auto simp: graph_can_promote_def mem_view_def)
  then show ?case using Promote_calm [of "fst w" c pn osn os] 5 by (simp add: calm_def mem_ZFS_def lift_op_eq)
next
  case (6 v s d c)
  then show ?case by (rule promoted_shrinks)
next
  case (7 v d)
  show ?case by (rule finite_graph_snaps)
qed

text \<open>Snapshot short names are unique on the pool (the driver uses UUIDs and object names).\<close>

definition unique_names :: "dsmap \<Rightarrow> bool" where
  "unique_names ds \<longleftrightarrow> (\<forall>dn dn' sn. snap_in ds dn sn \<noteq> None \<longrightarrow> snap_in ds dn' sn \<noteq> None \<longrightarrow> dn = dn')"

lemma promoted_source:
  assumes "names_ok ds" "promotable ds n pn osn os mv" "snap_in (promoted pn n osn mv ds) k b = Some s"
  shows "snap_in ds (if k = n \<and> moves ds pn os b then pn else k) b = Some s" "\<not> (k = pn \<and> moves ds pn os b)"
  using assms(3) promotable_names [OF assms(1,2)] by (auto simp: snap_in_promoted [OF assms(1,2)] split: if_splits)

lemma unique_names_promoted:
  assumes "names_ok ds" "promotable ds n pn osn os mv" "unique_names ds"
  shows "unique_names (promoted pn n osn mv ds)"
  unfolding unique_names_def
proof (intro allI impI)
  fix k1 k2 b
  assume "snap_in (promoted pn n osn mv ds) k1 b \<noteq> None" "snap_in (promoted pn n osn mv ds) k2 b \<noteq> None"
  then obtain s1 s2 where "snap_in (promoted pn n osn mv ds) k1 b = Some s1" "snap_in (promoted pn n osn mv ds) k2 b = Some s2" by blast
  note src = promoted_source [OF assms(1,2) this(1)] promoted_source [OF assms(1,2) this(2)]
  have "(if k1 = n \<and> moves ds pn os b then pn else k1) = (if k2 = n \<and> moves ds pn os b then pn else k2)"
    using assms(3) src(1,3) unfolding unique_names_def by blast
  then show "k1 = k2" using src(2,4) by (auto split: if_splits)
qed

definition detachable :: "(string \<Rightarrow> bool) \<Rightarrow> string \<Rightarrow> dsmap \<Rightarrow> bool" where
  "detachable known full ds \<longleftrightarrow> unique_names ds \<and>
     (\<forall>sn. snap_in ds full sn \<noteq> None \<longrightarrow> driverSnapshotSuffix sn) \<and>
     (\<forall>n. n \<noteq> full \<longrightarrow> origin_in ds n \<noteq> '''' \<longrightarrow> known n)"

lemma reorigin_all_eq_Nil [simp]: "reorigin_all pn n xs og = '''' \<longleftrightarrow> og = ''''"
  by (induction xs) auto

lemma origin_in_del: "origin_in (mmod dn (del_snap sn) ds) k = origin_in ds k"
  by (cases "map_of ds k") (auto simp: origin_in_def del_snap_def split: option.splits)

lemma detachable_shed: "mg.shed full v v' \<Longrightarrow> detachable known full (snd v) \<Longrightarrow> detachable known full (snd v')"
proof (induction rule: mg.shed.induct)
  case (drop v v1 s)
  have inv1: "graph_inv v1" using mg.shed_inv [OF drop.hyps(1)] by simp
  then have nm: "names_ok (snd v1)" using graph_inv_parts by blast
  obtain dn sn ok where sp: "split_name s = (dn, sn, ok)" by (cases "split_name s") auto
  have "snap_in (snd (graph_destroy v1 s)) a b \<noteq> None \<Longrightarrow> snap_in (snd v1) a b \<noteq> None" for a b
    by (auto simp: graph_destroy_def sp snap_in_del [OF nm] split: if_splits)
  moreover have "origin_in (snd (graph_destroy v1 s)) k = origin_in (snd v1) k" for k
    by (simp add: graph_destroy_def sp origin_in_del)
  ultimately show ?case using drop.IH [OF drop.prems] unfolding detachable_def unique_names_def by metis
next
  case (promote v v1 s c)
  have inv1: "graph_inv v1" using mg.shed_inv [OF promote.hyps(1)] by simp
  then have nm: "names_ok (snd v1)" using graph_inv_parts by blast
  obtain pn osn os where pr0: "promotable (snd v1) c pn osn os (moved_of (snd v1) pn os)"
    using promote.hyps(4) by (auto simp: graph_can_promote_def)
  note eq = clone_promotable [OF inv1 promote.hyps(2,3) pr0]
  define mv where "mv = moved_of (snd v1) full os"
  have pr: "promotable (snd v1) c full osn os mv" using pr0 eq(1) by (simp add: mv_def)
  have g: "snd (graph_promote v1 c) = promoted full c osn mv (snd v1)"
    using graph_promote_promoted [OF inv1 pr] by (simp add: mv_def)
  note cn = promotable_names [OF nm pr] and si = snap_in_promoted [OF nm pr]
  have d1: "detachable known full (snd v1)" using promote.IH promote.prems by blast
  then have u: "unique_names (snd v1)" by (simp add: detachable_def)
  have "unique_names (promoted full c osn mv (snd v1))" by (rule unique_names_promoted [OF nm pr u])
  moreover have "driverSnapshotSuffix b" if "snap_in (promoted full c osn mv (snd v1)) full b \<noteq> None" for b
    using that d1 cn by (auto simp: detachable_def si split: if_splits)
  moreover have "known k" if "k \<noteq> full" "origin_in (promoted full c osn mv (snd v1)) k \<noteq> ''''" for k
  proof (cases "k = c")
    case True
    have "origin_in (snd v1) c \<noteq> ''''" using pr by (simp add: promotable_def)
    then show ?thesis using True d1 that(1) by (simp add: detachable_def)
  next
    case False
    then have "origin_in (snd v1) k \<noteq> ''''"
      using that by (auto simp: origin_in_promoted [OF nm pr] split: if_splits)
    then show ?thesis using d1 that(1) by (simp add: detachable_def)
  qed
  ultimately show ?case unfolding g detachable_def by blast
qed

lemma unique_can_promote:
  assumes "graph_inv v" "unique_names (snd v)" "s \<in> graph_snaps v full" "c \<in> graph_clones v s"
  shows "graph_can_promote v c" "c \<noteq> full"
proof -
  have nm: "names_ok (snd v)" and ln: "lineage_ok (snd v)" using graph_inv_parts [OF assms(1)] by auto
  obtain sn os where s: "s = snap_full full sn" "snap_in (snd v) full sn = Some os" using assms(3) by (auto simp: in_graph_snaps)
  have fn: "is_name full" using graph_snaps_name [OF assms(1)] assms(3) by blast
  obtain x where x: "map_of (snd v) c = Some x" "ds_origin x = snap_full full sn"
    using assms(4) s(1) by (auto simp: graph_clones_def)
  obtain pn osn where l: "ds_origin x = snap_full pn osn" "is_name pn" "pn \<noteq> c"
    using lineageE [OF nm ln x(1)] x(2) by (metis snap_full_not_Nil(1))
  then show fc: "c \<noteq> full" using x(2) fn by (auto simp: snap_full_inj)
  obtain q where q: "map_of (snd v) full = Some q" using snap_in_dom [OF s(2)] by blast
  have mv: "y \<in> set (moved_of (snd v) full os) \<longleftrightarrow> snap_in (snd v) full (sn_name y) = Some y \<and> sn_txg y \<le> sn_txg os" for y
    using set_sortedSnaps [OF nm q] q by (auto simp: moved_of_def snap_in_def)
  moreover have "snap_in (snd v) c (sn_name y) = None" if "y \<in> set (moved_of (snd v) full os)" for y
    using that mv assms(2) fc unfolding unique_names_def by (metis option.distinct(1))
  ultimately have "promotable (snd v) c full sn os (moved_of (snd v) full os)"
    using fc fn x s(2) by (auto simp: promotable_def origin_in_def)
  then show "graph_can_promote v c" unfolding graph_can_promote_def by blast
qed

text \<open>A reader that answers with the given objects and changes nothing.\<close>

definition answers :: "('w, 'b) Reader_scheme \<Rightarrow> ZfsDataset list \<Rightarrow> ZfsSnapshot list \<Rightarrow> bool" where
  "answers c dl sl \<longleftrightarrow> (\<forall>w. list_ZfsDataset c w = (w, Inr dl) \<and> list_ZfsSnapshot c w = (w, Inr sl))"

lemma assertKnown_answers:
  assumes "answers c dl sl" "\<forall>n \<in> set cl. is_known (known_paths g dl) (backing_names g sl) p n"
  shows "assertKnownDatasets c g p s cl w = (w, None)"
proof -
  have "find (\<lambda>n. \<not> is_known (known_paths g dl) (backing_names g sl) p n) cl = None"
    using assms(2) by (auto simp: find_None_iff)
  then show ?thesis using assms(1) by (simp add: assertKnownDatasets_def answers_def)
qed

lemma assertDriver_full: "is_name dn \<Longrightarrow> driverSnapshotSuffix sn \<Longrightarrow> assertDriverSnapshot (snap_full dn sn) = None"
  by (simp add: assertDriverSnapshot_def splitSnapshot_def snap_full_def is_name_def)

lemma detach_mem_live:
  fixes w :: "Mem \<times> 'k"
  assumes inv: "mem_inv (fst w)" and calm0: "m_inj (fst w) = []" and c: "answers c dl sl"
    and det: "detachable (is_known (known_paths g dl) (backing_names g sl) p) full (m_ds (fst w))"
    and few: "card {sn. snap_in (m_ds (fst w)) full sn \<noteq> None} < maxDetachRounds"
  shows "snd (detachAndCleanSnapshots c (lift_ZFS mem_ZFS) g p full w) = None"
proof -
  let ?known = "is_known (known_paths g dl) (backing_names g sl) p"
  let ?P = "\<lambda>v. graph_inv v \<and> detachable ?known full (snd v)"
  have q: "quiet_reader mem_view c" using c by (auto simp: quiet_reader_def answers_def)
  have closed: "?P v'" if "?P v" "mg.shed full v v'" for v v'
    using that detachable_shed mg.shed_inv by blast
  have driver: "assertDriverSnapshot s = None" if "?P v" "s \<in> graph_snaps v full" for v s
  proof -
    have "is_name full" using that graph_snaps_name [of v full] by blast
    then show ?thesis using that assertDriver_full by (auto simp: in_graph_snaps detachable_def)
  qed
  have can: "graph_can_promote v cl" if "?P v" "s \<in> graph_snaps v full" "cl \<in> graph_clones v s" for v s cl
    using that unique_can_promote(1) by (auto simp: detachable_def)
  have known: "calm (fst (assertKnownDatasets c g p s cl w)) \<and> snd (assertKnownDatasets c g p s cl w) = None"
    if "calm w" "?P (mem_view w)" "s \<in> graph_snaps (mem_view w) full" "set cl = graph_clones (mem_view w) s"
    for w :: "Mem \<times> 'k" and s cl
  proof -
    have "?known n" if n: "n \<in> set cl" for n
    proof -
      obtain sn where sn: "s = snap_full full sn" using \<open>s \<in> _\<close> by (auto simp: in_graph_snaps)
      have "origin_in (snd (mem_view w)) n = s"
        using n \<open>set cl = _\<close> sn graph_clones_origin [of s n "mem_view w"] by auto
      moreover have "n \<noteq> full"
        using unique_can_promote(2) [of "mem_view w" s full n] \<open>?P _\<close> \<open>s \<in> _\<close> \<open>set cl = _\<close> n by (auto simp: detachable_def)
      ultimately show ?thesis using \<open>?P _\<close> sn by (auto simp: detachable_def)
    qed
    then have "assertKnownDatasets c g p s cl w = (w, None)" using assertKnown_answers [OF c] by blast
    then show ?thesis using \<open>calm w\<close> by simp
  qed
  have "graph_snaps (mem_view w) full = snap_full full ` {sn. snap_in (m_ds (fst w)) full sn \<noteq> None}"
    by (auto simp: graph_snaps_def mem_view_def)
  then have few': "card (graph_snaps (mem_view w) full) < maxDetachRounds"
    using few by (simp add: card_image inj_on_def)
  have "calm w" "graph_inv (mem_view w)" "?P (mem_view w)"
    using calm0 inv det by (simp_all add: calm_def mem_inv_view) (simp add: mem_view_def)
  then show ?thesis unfolding detachAndCleanSnapshots_def
  proof (intro ml.detach_rounds_live [where P = ?P, OF q])
    fix v s cl assume "?P v" "s \<in> graph_snaps v full" "cl \<in> graph_clones v s"
    then show "graph_can_promote v cl" by (rule can)
  next
    show "card (graph_snaps (mem_view w) full) < maxDetachRounds" by (rule few')
  qed (rule closed driver known; assumption)+
qed

subsection \<open>Snapshots the driver did not create\<close>

lemma detach_foreign:
  assumes "ListSnapshots z full w = (w1, Inr l)" "s \<in> set l" "\<not> driverSnapshotSuffix (snd (splitSnapshot s))"
  shows "\<exists>s' \<in> set l. detachAndCleanSnapshots c z g p full w = (w1, Some (foreign_snapshot_err s'))"
proof -
  have "find (\<lambda>s. assertDriverSnapshot s \<noteq> None) l \<noteq> None"
    using assms(2,3) by (auto simp: find_None_iff assertDriverSnapshot_def)
  then obtain s' where f: "find (\<lambda>s. assertDriverSnapshot s \<noteq> None) l = Some s'" by blast
  then have "s' \<in> set l" "assertDriverSnapshot s' = Some (foreign_snapshot_err s')"
    by (auto simp: find_Some_iff assertDriverSnapshot_def split: if_splits)
  moreover have "l \<noteq> []" using assms(2) by auto
  ultimately have "detach_rounds (Suc k) c z g p full w = (w1, Some (foreign_snapshot_err s'))" for k using assms(1) f by simp
  moreover have "maxDetachRounds = Suc 99" by (simp add: maxDetachRounds_def)
  ultimately show ?thesis using \<open>s' \<in> set l\<close> unfolding detachAndCleanSnapshots_def by metis
qed

lemma detach_foreign_mem:
  assumes inv: "mem_inv (fst w)" and s: "snap_in (m_ds (fst w)) full sn \<noteq> None" "\<not> driverSnapshotSuffix sn"
  shows "\<exists>sn'. snap_in (m_ds (fst w)) full sn' \<noteq> None \<and>
    detachAndCleanSnapshots c (lift_ZFS mem_ZFS) g p full w = (w, Some (foreign_snapshot_err (snap_full full sn')))"
proof -
  have nm: "names_ok (m_ds (fst w))" using inv by (simp add: mem_inv_def ds_inv_def)
  obtain d where d: "map_of (m_ds (fst w)) full = Some d" using s(1) by (auto simp: snap_in_def split: option.splits)
  have fn: "is_name full" using names_okD [OF nm d] by simp
  have l: "ListSnapshots (lift_ZFS mem_ZFS) full w = (w, Inr (snapNames d))"
    using d by (cases w) (simp add: mem_ZFS_def lift_op_def Mem_ListSnapshots_def)
  have mem: "x \<in> set (snapNames d) \<longleftrightarrow> (\<exists>sn. x = snap_full full sn \<and> snap_in (m_ds (fst w)) full sn \<noteq> None)" for x
    using set_snapNames [OF nm d] d by (auto simp: snap_in_def)
  have "snap_full full sn \<in> set (snapNames d)" using mem s(1) by blast
  moreover have "snd (splitSnapshot (snap_full full sn)) = sn"
    using fn by (simp add: splitSnapshot_def snap_full_def is_name_def)
  ultimately show ?thesis using detach_foreign [OF l] s(2) mem by metis
qed

end
