(* ===== verification/Track.thy ===== *)
theory Track
  imports RawLocate DetachMem
begin

text \<open>
  Where a raw snapshot is: the backing clone answers it, through every promote. The theory states
  what the names on a driver's pool look like, what the backing clone knows of its raw snapshot, and
  that the steps of the detach loop keep both.
\<close>

subsection \<open>Names on a driver's pool\<close>

definition plain :: "string \<Rightarrow> bool" where
  "plain n \<longleftrightarrow> (\<forall>c \<in> set n. \<not> isSpace c \<and> c \<noteq> CHR ''@'')"

definition plain_names :: "dsmap \<Rightarrow> bool" where
  "plain_names ds \<longleftrightarrow> (\<forall>n. map_of ds n \<noteq> None \<longrightarrow> plain n) \<and> (\<forall>dn sn. snap_in ds dn sn \<noteq> None \<longrightarrow> plain sn)"

text \<open>No snapshot call names one dataset twice, so the snapshots of a dataset have different times.\<close>

definition strict_txg :: "dsmap \<Rightarrow> bool" where
  "strict_txg ds \<longleftrightarrow>
     (\<forall>dn a b s t. snap_in ds dn a = Some s \<longrightarrow> snap_in ds dn b = Some t \<longrightarrow> sn_txg s = sn_txg t \<longrightarrow> a = b)"

definition driver_names :: "dsmap \<Rightarrow> bool" where
  "driver_names ds \<longleftrightarrow> unique_names ds \<and> strict_txg ds \<and> plain_names ds"

lemma driver_names_sub:
  assumes "driver_names ds" "\<And>n. map_of ds' n \<noteq> None \<Longrightarrow> map_of ds n \<noteq> None"
    "\<And>dn sn s. snap_in ds' dn sn = Some s \<Longrightarrow> \<exists>t. snap_in ds dn sn = Some t \<and> sn_txg t = sn_txg s"
  shows "driver_names ds'"
proof -
  have sub: "snap_in ds' dn sn \<noteq> None \<Longrightarrow> snap_in ds dn sn \<noteq> None" for dn sn using assms(3) by fastforce
  have "unique_names ds'" using assms(1) sub unfolding driver_names_def unique_names_def by blast
  moreover have "strict_txg ds'" using assms(1,3) unfolding driver_names_def strict_txg_def by metis
  moreover have "plain_names ds'" using assms(1,2) sub unfolding driver_names_def plain_names_def by blast
  ultimately show ?thesis by (simp add: driver_names_def)
qed

lemma driver_plain: "driver_names ds \<Longrightarrow> snap_in ds dn sn = Some s \<Longrightarrow> plain dn \<and> plain sn"
  unfolding driver_names_def plain_names_def using snap_in_dom by (metis option.distinct(1))

lemma strict_txg_promoted:
  assumes nm: "names_ok ds" "lineage_ok ds" and pr: "promotable ds n pn osn os mv" and st: "strict_txg ds"
  shows "strict_txg (promoted pn n osn mv ds)"
  unfolding strict_txg_def
proof (intro allI impI)
  fix k a b s t
  assume s: "snap_in (promoted pn n osn mv ds) k a = Some s" and t: "snap_in (promoted pn n osn mv ds) k b = Some t"
    and eq: "sn_txg s = sn_txg t"
  define src where "src c = (if k = n \<and> moves ds pn os c then pn else k)" for c
  have sa: "snap_in ds (src a) a = Some s" "snap_in ds (src b) b = Some t"
    using promoted_source(1) [OF nm(1) pr s] promoted_source(1) [OF nm(1) pr t] by (simp_all add: src_def)
  show "a = b"
  proof (cases "src a = src b")
    case True
    then show ?thesis using sa eq st unfolding strict_txg_def by metis
  next
    case False
    then have kn: "k = n" "moves ds pn os a \<noteq> moves ds pn os b" by (auto simp: src_def split: if_splits)
    have lo: "sn_txg x \<le> sn_txg os" if "moves ds pn os c" "snap_in ds (src c) c = Some x" for c x
      using that kn(1) by (auto simp: moves_def src_def)
    have hi: "sn_txg os < sn_txg x" if "\<not> moves ds pn os c" "snap_in ds (src c) c = Some x" for c x
      using that kn(1) promotable_origin_older [OF nm pr] by (auto simp: src_def)
    show ?thesis using sa eq kn(2) lo hi by (metis leD)
  qed
qed

lemma driver_names_promoted:
  assumes nm: "names_ok ds" "lineage_ok ds" and pr: "promotable ds n pn osn os mv" and d: "driver_names ds"
  shows "driver_names (promoted pn n osn mv ds)"
proof -
  have "plain_names (promoted pn n osn mv ds)"
    using d promoted_source(1) [OF nm(1) pr]
    unfolding driver_names_def plain_names_def dom_promoted [OF nm(1) pr] by (metis not_None_eq)
  then show ?thesis using d unique_names_promoted [OF nm(1) pr] strict_txg_promoted [OF nm pr] by (simp add: driver_names_def)
qed

subsection \<open>What the backing clone knows\<close>

text \<open>The raw snapshot \<open>sn\<close> is on \<open>r\<close>: either the backing clone \<open>b\<close> is still a clone of it and has no
  snapshots, or it has moved onto \<open>b\<close>, where it is the youngest snapshot.\<close>

definition clone_of_raw :: "dsmap \<Rightarrow> string \<Rightarrow> string \<Rightarrow> string \<Rightarrow> bool" where
  "clone_of_raw ds b sn r \<longleftrightarrow> snap_in ds r sn \<noteq> None \<and> origin_in ds b = snap_full r sn \<and> (\<forall>x. snap_in ds b x = None)"

definition owns_raw :: "dsmap \<Rightarrow> string \<Rightarrow> string \<Rightarrow> bool" where
  "owns_raw ds b sn \<longleftrightarrow>
     (\<exists>s. snap_in ds b sn = Some s \<and> (\<forall>x t. snap_in ds b x = Some t \<longrightarrow> x \<noteq> sn \<longrightarrow> sn_txg t < sn_txg s))"

definition raw_at :: "dsmap \<Rightarrow> string \<Rightarrow> string \<Rightarrow> string \<Rightarrow> bool" where
  "raw_at ds b sn r \<longleftrightarrow> clone_of_raw ds b sn r \<or> r = b \<and> owns_raw ds b sn"

lemmas raw_defs = raw_at_def clone_of_raw_def owns_raw_def

lemma raw_at_snap: "raw_at ds b sn r \<Longrightarrow> \<exists>s. snap_in ds r sn = Some s"
  by (auto simp: raw_defs)

lemma raw_at_backing: "raw_at ds b sn r \<Longrightarrow> \<exists>d. map_of ds b = Some d"
  by (auto simp: raw_defs origin_in_def snap_in_def split: option.splits)

lemma raw_at_del:
  assumes "names_ok ds" "raw_at ds b sn r" "\<not> cloned ds (snap_full full x)" "b \<noteq> full"
  shows "raw_at (mmod full (del_snap x) ds) b sn r"
    "snap_in (mmod full (del_snap x) ds) r sn = snap_in ds r sn"
proof -
  have "\<not> (r = full \<and> sn = x)" using assms by (auto simp: raw_defs cloned_origin_in)
  then show "snap_in (mmod full (del_snap x) ds) r sn = snap_in ds r sn" by (auto simp: snap_in_del [OF assms(1)])
  then show "raw_at (mmod full (del_snap x) ds) b sn r"
    using assms(2,4) by (auto simp: raw_defs origin_in_del snap_in_del [OF assms(1)])
qed

text \<open>A promote carries the raw snapshot along, or leaves it where it is.\<close>

lemma snap_in_follows:
  assumes "names_ok ds" "promotable ds n pn osn os mv" "snap_in ds r sn = Some s"
  shows "snap_in (promoted pn n osn mv ds) (if r = pn \<and> moves ds pn os sn then n else r) sn = Some s"
proof -
  have "\<not> (r = n \<and> moves ds pn os sn)"
    using assms(2,3) names_ok_snap [OF assms(1)] by (fastforce simp: promotable_def moves_def)
  then show ?thesis using assms(3) promotable_names [OF assms(1,2)] by (auto simp: snap_in_promoted [OF assms(1,2)])
qed

lemma clone_of_raw_promoted:
  assumes nm: "names_ok ds" "lineage_ok ds" and pr: "promotable ds n pn osn os mv"
    and st: "strict_txg ds" and c: "clone_of_raw ds b sn r"
  shows "raw_at (promoted pn n osn mv ds) b sn (if r = pn \<and> moves ds pn os sn then n else r)"
proof -
  note si = snap_in_promoted [OF nm(1) pr] and cn = promotable_names [OF nm(1) pr]
  have on: "origin_in ds n = snap_full pn osn" "snap_in ds pn osn = Some os" using pr by (auto simp: promotable_def)
  obtain s where s: "snap_in ds r sn = Some s" and ob: "origin_in ds b = snap_full r sn" and no: "\<And>x. snap_in ds b x = None"
    using c by (auto simp: clone_of_raw_def)
  have rn: "is_name r" using names_ok_snap [OF nm(1) s] by simp
  have bin: "map_of ds b \<noteq> None" using ob by (auto simp: origin_in_def split: option.splits)
  have bp: "b \<noteq> pn" using no on(2) by auto
  note sn = snap_in_follows [OF nm(1) pr s]
  show ?thesis
  proof (cases "b = n")
    case True
    then have eq: "r = pn" "osn = sn" using ob on(1) rn cn by (auto simp: snap_full_inj)
    then have "os = s" using on(2) s by simp
    have "sn_txg t < sn_txg s" if t: "snap_in (promoted pn n osn mv ds) b x = Some t" "x \<noteq> sn" for x t
    proof -
      have "snap_in ds pn x = Some t" "sn_txg t \<le> sn_txg s"
        using t True no \<open>os = s\<close> by (auto simp: si moves_def split: if_splits)
      then show ?thesis using st t(2) s eq(1) unfolding strict_txg_def by (metis order_le_less)
    qed
    moreover have "moves ds pn os sn" using on(2) eq by (auto simp: moves_def)
    ultimately show ?thesis using sn True eq by (auto simp: raw_at_def owns_raw_def)
  next
    case bn: False
    have "origin_in (promoted pn n osn mv ds) b = snap_full (if r = pn \<and> moves ds pn os sn then n else r) sn"
      using origin_follows(1) [OF nm pr ob rn s bn] bp bn bin ob by (simp add: origin_in_promoted [OF nm(1) pr])
    moreover have "snap_in (promoted pn n osn mv ds) b x = None" for x using bn bp no by (simp add: si)
    ultimately show ?thesis using sn by (auto simp: raw_at_def clone_of_raw_def)
  qed
qed

lemma owns_raw_promoted_away:
  assumes nm: "names_ok ds" and pr: "promotable ds n b osn os mv" and o: "owns_raw ds b sn"
  shows "raw_at (promoted b n osn mv ds) b sn (if moves ds b os sn then n else b)"
proof -
  note si = snap_in_promoted [OF nm pr] and cn = promotable_names [OF nm pr]
  have on: "snap_in ds b osn = Some os" using pr by (auto simp: promotable_def)
  obtain s where s: "snap_in ds b sn = Some s" and own: "\<And>x t. snap_in ds b x = Some t \<Longrightarrow> x \<noteq> sn \<Longrightarrow> sn_txg t < sn_txg s"
    using o by (auto simp: owns_raw_def)
  note sn = snap_in_follows [OF nm pr s]
  show ?thesis
  proof (cases "osn = sn")
    case True
    then have "os = s" using on s by simp
    have "snap_in (promoted b n osn mv ds) b x = None" for x
    proof (cases "snap_in ds b x")
      case (Some t)
      then have "moves ds b os x" using \<open>os = s\<close> own [of x t] s by (cases "x = sn") (auto simp: moves_def)
      then show ?thesis using cn by (simp add: si)
    qed (use cn in \<open>auto simp: si\<close>)
    moreover have "origin_in (promoted b n osn mv ds) b = snap_full n sn"
      using True on unfolding origin_in_promoted [OF nm pr] by (auto simp: snap_in_def split: option.splits)
    moreover have "moves ds b os sn" using on True by (auto simp: moves_def)
    ultimately show ?thesis using sn by (auto simp: raw_at_def clone_of_raw_def)
  next
    case False
    then have "\<not> moves ds b os sn" using s own on by (fastforce simp: moves_def)
    then show ?thesis using sn own s cn by (auto simp: raw_at_def owns_raw_def si split: if_splits)
  qed
qed

lemma owns_raw_promoted:
  assumes nm: "names_ok ds" "lineage_ok ds" and pr: "promotable ds n pn osn os mv" and o: "owns_raw ds b sn" and bp: "b \<noteq> pn"
  shows "owns_raw (promoted pn n osn mv ds) b sn"
proof -
  note si = snap_in_promoted [OF nm(1) pr]
  obtain s where s: "snap_in ds b sn = Some s" and own: "\<And>x t. snap_in ds b x = Some t \<Longrightarrow> x \<noteq> sn \<Longrightarrow> sn_txg t < sn_txg s"
    using o by (auto simp: owns_raw_def)
  have "sn_txg t < sn_txg s" if "snap_in (promoted pn n osn mv ds) b x = Some t" "x \<noteq> sn" for x t
  proof (cases "b = n \<and> moves ds pn os x")
    case True
    then have "sn_txg t \<le> sn_txg os" using that by (auto simp: si moves_def)
    then show ?thesis using promotable_origin_older [OF nm pr, of sn s] s True by simp
  next
    case False
    then show ?thesis using that bp own by (auto simp: si)
  qed
  then show ?thesis using snap_in_follows [OF nm(1) pr s] bp by (auto simp: owns_raw_def)
qed

lemma raw_at_promoted:
  assumes nm: "names_ok ds" "lineage_ok ds" and pr: "promotable ds n pn osn os mv"
    and st: "strict_txg ds" and r: "raw_at ds b sn r"
  shows "raw_at (promoted pn n osn mv ds) b sn (if r = pn \<and> moves ds pn os sn then n else r)"
    "snap_in (promoted pn n osn mv ds) (if r = pn \<and> moves ds pn os sn then n else r) sn = snap_in ds r sn"
proof -
  consider (clone) "clone_of_raw ds b sn r" | (away) "r = b" "owns_raw ds b sn" "b = pn" | (own) "r = b" "owns_raw ds b sn" "b \<noteq> pn"
    using r by (auto simp: raw_at_def)
  then show "raw_at (promoted pn n osn mv ds) b sn (if r = pn \<and> moves ds pn os sn then n else r)"
  proof cases
    case clone
    then show ?thesis by (rule clone_of_raw_promoted [OF nm pr st])
  next
    case away
    then show ?thesis using owns_raw_promoted_away [of ds n b osn os mv sn] nm(1) pr by (auto split: if_splits)
  next
    case own
    then show ?thesis using owns_raw_promoted [OF nm pr] by (simp add: raw_at_def)
  qed
  show "snap_in (promoted pn n osn mv ds) (if r = pn \<and> moves ds pn os sn then n else r) sn = snap_in ds r sn"
    using raw_at_snap [OF r] snap_in_follows [OF nm(1) pr] by fastforce
qed

text \<open>The steps of the detach loop on another dataset keep the names in order and the raw snapshot
  known.\<close>

lemma shed_raw_at:
  "mg.shed full v v' \<Longrightarrow> driver_names (snd v) \<Longrightarrow>
   driver_names (snd v') \<and>
   (\<forall>b sn r. raw_at (snd v) b sn r \<longrightarrow> b \<noteq> full \<longrightarrow>
      (\<exists>r'. raw_at (snd v') b sn r' \<and> snap_in (snd v') r' sn = snap_in (snd v) r sn))"
proof (induction rule: mg.shed.induct)
  case (refl v)
  then show ?case by blast
next
  case (drop v v1 s)
  have inv1: "graph_inv v1" using mg.shed_inv [OF drop.hyps(1)] by simp
  then have nm: "names_ok (snd v1)" using graph_inv_parts by blast
  obtain x where s: "s = snap_full full x" "snap_in (snd v1) full x \<noteq> None" using drop.hyps(2) by (auto simp: in_graph_snaps)
  have fn: "is_name full" using graph_snaps_name [OF inv1] drop.hyps(2) by blast
  have g: "snd (graph_destroy v1 s) = mmod full (del_snap x) (snd v1)" using s fn by (auto simp: graph_destroy_def)
  have nc: "\<not> cloned (snd v1) (snap_full full x)" using drop.hyps(3) s(1) by (simp add: graph_clones_empty)
  have "driver_names (snd (graph_destroy v1 s))"
    by (rule driver_names_sub [of "snd v1"]) (use drop in \<open>auto simp: g snap_in_del [OF nm] split: if_splits\<close>)
  then show ?case using drop.IH [OF drop.prems] raw_at_del [OF nm _ nc] unfolding g by metis
next
  case (promote v v1 s c)
  have inv1: "graph_inv v1" using mg.shed_inv [OF promote.hyps(1)] by simp
  then have nm: "names_ok (snd v1)" "lineage_ok (snd v1)" using graph_inv_parts by blast+
  obtain pn osn os where pr: "promotable (snd v1) c pn osn os (moved_of (snd v1) pn os)"
    using promote.hyps(4) by (auto simp: graph_can_promote_def)
  have g: "snd (graph_promote v1 c) = promoted pn c osn (moved_of (snd v1) pn os) (snd v1)"
    using graph_promote_promoted [OF inv1 pr] by simp
  have dn: "driver_names (snd v1)" using promote.IH [OF promote.prems] by blast
  then have st: "strict_txg (snd v1)" by (simp add: driver_names_def)
  show ?case using promote.IH [OF promote.prems] driver_names_promoted [OF nm pr dn] raw_at_promoted [OF nm pr st]
    unfolding g by metis
qed

text \<open>A promote of any dataset, with any outcome.\<close>

lemma Promote_raw_at:
  assumes inv: "mem_inv m" and dn: "driver_names (m_ds m)" and raw: "raw_at (m_ds m) b sn r" and run: "Mem_Promote n m = (m', e)"
  shows "\<exists>r'. driver_names (m_ds m') \<and> raw_at (m_ds m') b sn r' \<and> snap_in (m_ds m') r' sn = snap_in (m_ds m) r sn"
proof -
  have nm: "names_ok (m_ds m)" "lineage_ok (m_ds m)" using inv by (auto simp: mem_inv_def ds_inv_def)
  have st: "strict_txg (m_ds m)" using dn by (simp add: driver_names_def)
  show ?thesis
  proof (cases rule: Promote_cases [OF inv, of n])
    case (4 m2 d pn osn os)
    then have "m_ds m' = promoted pn n osn (moved_of (m_ds m) pn os) (m_ds m)" using run by simp
    then show ?thesis using driver_names_promoted [OF nm 4(3) dn] raw_at_promoted [OF nm 4(3) st raw] by auto
  qed (use run dn raw in auto)
qed

subsection \<open>Looking the raw snapshot up\<close>

lemma plain_full: "plain dn \<Longrightarrow> plain sn \<Longrightarrow> TrimSpace (snap_full dn sn) = snap_full dn sn"
  by (rule TrimSpace_no_space) (auto simp: snap_full_def plain_def isSpace_def)

lemma HasSuffix_full: "plain sn \<Longrightarrow> plain x \<Longrightarrow> HasSuffix (snap_full dn x) (''@'' @ sn) \<longleftrightarrow> x = sn"
proof
  assume p: "plain sn" "plain x" and "HasSuffix (snap_full dn x) (''@'' @ sn)"
  then obtain t where t: "dn @ CHR ''@'' # x = t @ CHR ''@'' # sn" by (auto simp: HasSuffix_iff snap_full_def)
  have "rev x @ CHR ''@'' # rev dn = rev sn @ CHR ''@'' # rev t" using arg_cong [OF t, of rev] by simp
  moreover have "CHR ''@'' \<notin> set (rev x)" "CHR ''@'' \<notin> set (rev sn)" using p by (auto simp: plain_def)
  ultimately have "rev x = rev sn" by (metis before_append)
  then show "x = sn" by simp
qed (auto simp: HasSuffix_iff snap_full_def)

lemma exists_mem:
  assumes "is_name dn"
  shows "zfs_exists (lift_ZFS mem_ZFS) (snap_full dn sn) w = (w, Inr (snap_in (m_ds (fst w)) dn sn \<noteq> None))"
  using assms by (cases w) (auto simp: zfs_exists_def mem_ZFS_def lift_op_def Mem_Get_def snap_in_def split: option.splits)

text \<open>The origin of the backing clone, as the lookup reads it, decides between the two places.\<close>

lemma origin_suffix:
  assumes inv: "mem_inv m" and dn: "driver_names (m_ds m)" and r: "raw_at (m_ds m) b sn r" and d: "map_of (m_ds m) b = Some d"
  defines "og \<equiv> if ds_origin d = '''' then ''-'' else ds_origin d"
  shows "HasSuffix (TrimSpace og) (''@'' @ sn) \<Longrightarrow> TrimSpace og = snap_full r sn"
    "\<not> HasSuffix (TrimSpace og) (''@'' @ sn) \<Longrightarrow> r = b"
proof -
  have nm: "names_ok (m_ds m)" "lineage_ok (m_ds m)" using inv by (auto simp: mem_inv_def ds_inv_def)
  obtain s where s: "snap_in (m_ds m) r sn = Some s" using raw_at_snap [OF r] by blast
  have psn: "plain r" "plain sn" using driver_plain [OF dn s] by simp_all
  {
    assume suf: "HasSuffix (TrimSpace og) (''@'' @ sn)"
    then have "CHR ''@'' \<in> set (TrimSpace og)" by (auto simp: HasSuffix_iff)
    then have ne: "ds_origin d \<noteq> ''''" by (auto simp: og_def TrimSpace_def isSpace_def)
    obtain q qs p t where q: "ds_origin d = snap_full q qs" "map_of (m_ds m) q = Some p" "map_of (ds_snaps p) qs = Some t"
      using lineageE [OF nm d ne] by metis
    have "plain q" "plain qs" using driver_plain [OF dn, of q qs t] q by (auto simp: snap_in_def)
    then have og: "TrimSpace og = snap_full q qs" and "qs = sn"
      using suf q(1) ne plain_full [of q qs] HasSuffix_full [OF psn(2), of qs q] by (auto simp: og_def)
    moreover have "q = r" using q \<open>qs = sn\<close> s dn unfolding driver_names_def unique_names_def
      by (metis option.distinct(1) snap_in_Some)
    ultimately show "TrimSpace og = snap_full r sn" by simp
  }
  assume nos: "\<not> HasSuffix (TrimSpace og) (''@'' @ sn)"
  show "r = b"
  proof (rule ccontr)
    assume "r \<noteq> b"
    then have "ds_origin d = snap_full r sn" using r d by (simp add: raw_defs origin_in_def)
    then have "TrimSpace og = snap_full r sn" using plain_full psn by (simp add: og_def)
    then show False using nos HasSuffix_full [OF psn(2) psn(2), of r] by simp
  qed
qed

lemma locate_mem:
  assumes inv: "mem_inv (fst w)" and dn: "driver_names (m_ds (fst w))" and r: "raw_at (m_ds (fst w)) b sn r"
  shows "locateRawSnapshot (lift_ZFS mem_ZFS) b recorded sn w = (w, Inr (snap_full r sn))"
proof -
  obtain s where s: "snap_in (m_ds (fst w)) r sn = Some s" using raw_at_snap [OF r] by blast
  obtain d where d: "map_of (m_ds (fst w)) b = Some d" using raw_at_backing [OF r] by blast
  have rn: "is_name r" "is_name b"
    using names_ok_snap [OF _ s] names_okD [OF _ d] inv by (auto simp: mem_inv_def ds_inv_def)
  define og where "og = (if ds_origin d = '''' then ''-'' else ds_origin d)"
  note suf = origin_suffix [OF inv dn r d, folded og_def]
  have get: "Get (lift_ZFS mem_ZFS) b ''origin'' w = (w, Inr og)"
    using d rn by (cases w) (simp add: mem_ZFS_def lift_op_def Mem_Get_def get_dataset_def og_def)
  have ex: "zfs_exists (lift_ZFS mem_ZFS) (snap_full r sn) w = (w, Inr True)" using exists_mem [OF rn(1), of sn w] s by simp
  show ?thesis
  proof (cases "HasSuffix (TrimSpace og) (''@'' @ sn)")
    case True
    then show ?thesis using suf(1) [OF True] ex unfolding locateRawSnapshot_def Let_def get by simp
  next
    case False
    then show ?thesis using suf(2) [OF False] ex unfolding locateRawSnapshot_def Let_def get
      by (simp add: snap_full_def)
  qed
qed

end
