(* ===== verification/DatasetController.thy ===== *)
theory DatasetController
  imports RawLocate Detach
begin

text \<open>
  \<open>src/internal/controller/zfsdataset_controller.go\<close>: the node agent that creates, resizes and
  destroys the ZFS object behind a ZfsDataset. One definition per function; \<open>Reconcile\<close> is split into
  the part that deletes and the part that provisions, as the source is. Log lines have no counterpart.
\<close>

abbreviation zfsDatasetFinalizer :: string where "zfsDatasetFinalizer \<equiv> ''storage.simple-zfs-csi.io/zfsdataset''"

abbreviation sourceRetryInterval :: int where "sourceRetryInterval \<equiv> 10000"

record 'w ZfsDatasetReconciler =
  dr_Client :: "'w Client"
  dr_Lib :: "'w KubeLib"
  dr_NodeName :: string
  dr_ZFS :: "'w ZFS"
  dr_APIReader :: "'w Reader option"

definition dr_gateReader :: "'w ZfsDatasetReconciler \<Rightarrow> 'w Reader" where
  "dr_gateReader r = (case dr_APIReader r of Some rd \<Rightarrow> rd | None \<Rightarrow> Reader.truncate (dr_Client r))"

subsection \<open>Sizes, properties and paths\<close>

text \<open>Go's \<open>int64\<close>: the sum wraps around.\<close>

definition alignUp :: "int \<Rightarrow> int \<Rightarrow> int" where
  "alignUp sz block =
     (if block \<le> 0 \<or> sz \<le> 0 then (if sz < 0 then 0 else sz)
      else let r = sz mod block in if r \<noteq> 0 then int64 (sz + (block - r)) else sz)"

definition unit_mult :: "char \<Rightarrow> int option" where
  "unit_mult c = (if c = CHR ''k'' then Some 1024 else if c = CHR ''m'' then Some (1024 * 1024)
                  else if c = CHR ''g'' then Some (1024 * 1024 * 1024) else None)"

definition volblockBytes :: "string \<Rightarrow> int" where
  "volblockBytes s0 =
     (let s = TrimSpace (ToLower s0) in
      if s = '''' then 16384
      else let (mult, s') = (case unit_mult (last s) of Some k \<Rightarrow> (k, butlast s) | None \<Rightarrow> (1, s));
               (n, bad) = ParseInt (TrimSpace s')
           in if bad \<or> n \<le> 0 then 16384 else int64 (n * mult))"

definition norm_refquota :: "string \<Rightarrow> string" where
  "norm_refquota s0 = (let s = TrimSpace s0 in
     if s = '''' \<or> s = ''-'' \<or> s = ''0'' \<or> s = ''none'' then ''none'' else s)"

definition refquotaEqual :: "string \<Rightarrow> string \<Rightarrow> bool" where
  "refquotaEqual current desired \<longleftrightarrow> norm_refquota current = norm_refquota desired"

definition quota_of :: "ZfsDataset \<Rightarrow> Quantity option" where
  "quota_of vol =
     (case zds_Filesystem (zd_Spec vol) of
        None \<Rightarrow> None
      | Some cfg \<Rightarrow> (case fs_Quota cfg of None \<Rightarrow> None | Some q \<Rightarrow> if q_IsZero q then None else Some q))"

definition filesystemProps :: "ZfsDataset \<Rightarrow> props" where
  "filesystemProps vol =
     (case quota_of vol of
        Some q \<Rightarrow> AList.update ''refquota'' (FormatInt (q_Value q)) (zds_Properties (zd_Spec vol))
      | None \<Rightarrow> zds_Properties (zd_Spec vol))"

definition volumeProps :: "ZfsDataset \<Rightarrow> props" where
  "volumeProps vol =
     (case zds_Volume (zd_Spec vol) of
        Some cfg \<Rightarrow> if vc_Volblocksize cfg \<noteq> ''''
                    then AList.update ''volblocksize'' (vc_Volblocksize cfg) (zds_Properties (zd_Spec vol))
                    else zds_Properties (zd_Spec vol)
      | None \<Rightarrow> zds_Properties (zd_Spec vol))"

definition deriveVolumePath :: "DatasetType \<Rightarrow> string \<Rightarrow> string \<Rightarrow> string \<Rightarrow> goerr + string" where
  "deriveVolumePath volType baseMountPath poolName ds0 =
     (let ds = Trim CHR ''/'' ds0 in
      if ds = '''' then Inl (errorf ''dataset is empty'')
      else if volType = DatasetTypeFilesystem then
        (if baseMountPath = '''' then Inl (errorf ''pool baseMountPath is unknown'')
         else Inr (path_Join [baseMountPath, ds]))
      else if volType = DatasetTypeVolume then
        (if poolName = '''' then Inl (errorf ''pool name is unknown'')
         else Inr (path_Join [''/dev/zvol'', poolName, ds]))
      else Inl (errorf (''unknown volume type '' @ Quote volType)))"

subsection \<open>Status and finalizer\<close>

definition datasetProvisioned :: "ZfsDataset \<Rightarrow> bool" where
  "datasetProvisioned vol \<longleftrightarrow> zdst_ProvisionedAt (zd_Status vol) \<noteq> None"

text \<open>The new status: \<open>now\<close> is only used when the dataset becomes Ready for the first time.\<close>

definition patched_status ::
  "'w KubeLib \<Rightarrow> Time \<Rightarrow> ZfsDataset \<Rightarrow> ZfsDatasetPhase \<Rightarrow> string \<Rightarrow> string \<Rightarrow> string \<Rightarrow> Time option \<Rightarrow> ZfsDatasetStatus" where
  "patched_status L now vol phase volPath reason message creation =
     (let st = zd_Status vol; gen = om_Generation (zd_Meta vol) in
      st\<lparr>zdst_Phase := phase, zdst_Path := volPath, zdst_ObservedGeneration := gen, zdst_Message := message,
         zdst_CreationTime := (if creation \<noteq> None then creation else zdst_CreationTime st),
         zdst_ProvisionedAt := (if phase = DatasetPhaseReady \<and> zdst_ProvisionedAt st = None then Some now
                                else zdst_ProvisionedAt st),
         zdst_Conditions := SetStatusCondition L (zdst_Conditions st)
           \<lparr>cond_Type = ''Ready'', cond_Status = (phase = DatasetPhaseReady), cond_Reason = reason,
            cond_Message = message, cond_ObservedGeneration = gen, cond_LastTransitionTime = None\<rparr>\<rparr>)"

definition dr_setStatusAt ::
  "'w ZfsDatasetReconciler \<Rightarrow> ZfsDataset \<Rightarrow> ZfsDatasetPhase \<Rightarrow> string \<Rightarrow> string \<Rightarrow> string \<Rightarrow> Time option \<Rightarrow> 'w act" where
  "dr_setStatusAt r vol phase volPath reason message creation w =
     (let L = dr_Lib r;
          (w1, now) = (if phase = DatasetPhaseReady \<and> zdst_ProvisionedAt (zd_Status vol) = None
                       then Now L w else (w, 0))
      in patch_status_ZfsDataset (dr_Client r) vol
           (vol\<lparr>zd_Status := patched_status L now vol phase volPath reason message creation\<rparr>) w1)"

definition dr_setStatus ::
  "'w ZfsDatasetReconciler \<Rightarrow> ZfsDataset \<Rightarrow> ZfsDatasetPhase \<Rightarrow> string \<Rightarrow> string \<Rightarrow> string \<Rightarrow> 'w act" where
  "dr_setStatus r vol phase volPath reason message = dr_setStatusAt r vol phase volPath reason message None"

definition release_once :: "'w ZfsDatasetReconciler \<Rightarrow> string \<Rightarrow> 'w act" where
  "release_once r n w =
     (case get_ZfsDataset (dr_Client r) n w of
        (w1, Inl e) \<Rightarrow> (w1, if IsNotFound e then None else Some e)
      | (w1, Inr cur) \<Rightarrow>
          (case RemoveFinalizer (dr_Lib r) (zd_Meta cur) zfsDatasetFinalizer of (meta, removed) \<Rightarrow>
             if \<not> removed then (w1, None)
             else update_ZfsDataset (dr_Client r) (cur\<lparr>zd_Meta := meta\<rparr>) w1))"

definition dr_releaseFinalizer :: "'w ZfsDatasetReconciler \<Rightarrow> ZfsDataset \<Rightarrow> 'w act" where
  "dr_releaseFinalizer r vol = RetryOnConflict (dr_Lib r) (release_once r (om_Name (zd_Meta vol)))"

subsection \<open>Creating and cloning\<close>

definition notReady :: "string \<Rightarrow> goerr" where
  "notReady msg = GoErr (Some SourceNotReady) msg"

definition cloneSnapshotSuffix :: "string \<Rightarrow> string" where
  "cloneSnapshotSuffix destName = destName"

definition resolveSnapshotRef :: "'w ZfsDatasetReconciler \<Rightarrow> ZfsDataset \<Rightarrow> string \<Rightarrow> string \<Rightarrow> ('w, string) query" where
  "resolveSnapshotRef r vol poolName n w =
     (case get_ZfsSnapshot (dr_Client r) n w of
        (w1, Inl e) \<Rightarrow>
          (w1, Inl (if IsNotFound e then notReady (''source ZfsSnapshot '' @ Quote n @ '' not found'') else e))
      | (w1, Inr snap) \<Rightarrow>
          if om_DeletionTimestamp (zs_Meta snap) \<noteq> None then
            (w1, Inl (notReady (''source ZfsSnapshot '' @ Quote n @ '' is being deleted'')))
          else if zsst_Phase (zs_Status snap) \<noteq> SnapshotPhaseReady then
            (w1, Inl (notReady (''source ZfsSnapshot '' @ Quote n @ '' is in phase ''
               @ Quote (zsst_Phase (zs_Status snap)) @ '', not Ready'')))
          else if zss_PoolGUID (zs_Spec snap) \<noteq> zds_PoolGUID (zd_Spec vol) then
            (w1, Inl (errorf (''source ZfsSnapshot '' @ Quote n @ '' is on pool '' @ zss_PoolGUID (zs_Spec snap)
               @ '', not '' @ zds_PoolGUID (zd_Spec vol))))
          else
            (case resolveDatasetPath (dr_Client r) (zss_SourceVolume (zs_Spec snap)) (zss_Dataset (zs_Spec snap)) w1 of
               (w2, Inl e) \<Rightarrow> (w2, Inl e)
             | (w2, Inr srcPath) \<Rightarrow>
                 (case snapshotFullName poolName srcPath (zss_SnapshotName (zs_Spec snap)) of
                    Inl e \<Rightarrow> (w2, Inl e)
                  | Inr recorded \<Rightarrow>
                      (case locateRawSnapshot (dr_ZFS r)
                              (backingCloneFullName poolName srcPath (zss_SnapshotName (zs_Spec snap))) recorded
                              (zss_SnapshotName (zs_Spec snap)) w2 of
                         (w3, Inl e) \<Rightarrow> (w3, Inl e)
                       | (w3, Inr raw) \<Rightarrow>
                           (w3, if raw = '''' then
                                  Inl (notReady (''raw snapshot of ZfsSnapshot '' @ Quote n @ '' not found''))
                                else Inr raw)))))"

definition cloneFromDataset ::
  "'w ZfsDatasetReconciler \<Rightarrow> ZfsDataset \<Rightarrow> string \<Rightarrow> string \<Rightarrow> string \<Rightarrow> props \<Rightarrow> 'w act" where
  "cloneFromDataset r vol poolName srcPath dest ps w =
     (let snapFull = poolName @ ''/'' @ srcPath @ ''@clone-'' @ cloneSnapshotSuffix (om_Name (zd_Meta vol)) in
      case Snapshot (dr_ZFS r) [snapFull] w of
        (w1, Some e) \<Rightarrow> (w1, Some e)
      | (w1, None) \<Rightarrow>
          (case EnsureLabels (dr_ZFS r) snapFull RoleCloneOrigin (om_UID (zd_Meta vol)) w1 of
             (w2, Some e) \<Rightarrow> (w2, Some e)
           | (w2, None) \<Rightarrow> Clone (dr_ZFS r) snapFull dest ps w2))"

definition dr_clone :: "'w ZfsDatasetReconciler \<Rightarrow> ZfsDataset \<Rightarrow> DatasetSource \<Rightarrow> string \<Rightarrow> string \<Rightarrow> 'w act" where
  "dr_clone r vol src poolName dest w =
     (let ps = MergeLabels (zds_Properties (zd_Spec vol)) RoleVolume (om_UID (zd_Meta vol)) in
      if src_Snapshot src \<noteq> '''' then
        Clone (dr_ZFS r) (poolName @ ''/'' @ TrimLeft CHR ''/'' (src_Snapshot src)) dest ps w
      else if src_Volume src \<noteq> '''' then
        cloneFromDataset r vol poolName (Trim CHR ''/'' (src_Volume src)) dest ps w
      else (case src_ZfsSnapshotRef src of
              Some n \<Rightarrow>
                (case resolveSnapshotRef r vol poolName n w of
                   (w1, Inl e) \<Rightarrow> (w1, Some e)
                 | (w1, Inr raw) \<Rightarrow> Clone (dr_ZFS r) raw dest ps w1)
            | None \<Rightarrow>
                (case src_ZfsDatasetRef src of
                   Some n \<Rightarrow>
                     (case get_ZfsDataset (dr_Client r) n w of
                        (w1, Inl e) \<Rightarrow>
                          (w1, Some (if IsNotFound e then notReady (''source ZfsDataset '' @ Quote n @ '' not found'') else e))
                      | (w1, Inr from) \<Rightarrow>
                          if om_DeletionTimestamp (zd_Meta from) \<noteq> None then
                            (w1, Some (notReady (''source ZfsDataset '' @ Quote (om_Name (zd_Meta from)) @ '' is being deleted'')))
                          else if zds_PoolGUID (zd_Spec from) \<noteq> zds_PoolGUID (zd_Spec vol) then
                            (w1, Some (errorf (''source ZfsDataset '' @ Quote (om_Name (zd_Meta from)) @ '' is on pool ''
                               @ zds_PoolGUID (zd_Spec from) @ '', not '' @ zds_PoolGUID (zd_Spec vol))))
                          else cloneFromDataset r vol poolName (Trim CHR ''/'' (zds_Dataset (zd_Spec from))) dest ps w1)
                 | None \<Rightarrow>
                     (w, Some (errorf ''spec.source sets none of snapshot, volume, zfsSnapshotRef, zfsDatasetRef'')))))"

definition dr_create :: "'w ZfsDatasetReconciler \<Rightarrow> ZfsDataset \<Rightarrow> string \<Rightarrow> string \<Rightarrow> 'w act" where
  "dr_create r vol poolName full w =
     (case zds_Source (zd_Spec vol) of
        Some src \<Rightarrow> dr_clone r vol src poolName full w
      | None \<Rightarrow>
          let uid = om_UID (zd_Meta vol); t = zds_Type (zd_Spec vol) in
          if t = DatasetTypeFilesystem then
            CreateDataset (dr_ZFS r) full (MergeLabels (filesystemProps vol) RoleVolume uid) w
          else if t = DatasetTypeVolume then
            (case zds_Volume (zd_Spec vol) of
               None \<Rightarrow> (w, Some (errorf ''spec.volume is required for volume''))
             | Some cfg \<Rightarrow>
                 CreateZvol (dr_ZFS r) full (q_Value (vc_Size cfg)) (MergeLabels (volumeProps vol) RoleVolume uid) w)
          else (w, Some (errorf (''unknown volume type '' @ Quote t))))"

definition applyRootOwnership :: "'w ZfsDatasetReconciler \<Rightarrow> ZfsDataset \<Rightarrow> string \<Rightarrow> string \<Rightarrow> 'w act" where
  "applyRootOwnership r vol baseMountPath poolName w =
     (if zds_Type (zd_Spec vol) \<noteq> DatasetTypeFilesystem then (w, None)
      else (case zds_Filesystem (zd_Spec vol) of
              None \<Rightarrow> (w, None)
            | Some fs \<Rightarrow>
                if fs_UID fs = None \<and> fs_GID fs = None \<and> fs_Mode fs = '''' then (w, None)
                else (case deriveVolumePath DatasetTypeFilesystem baseMountPath poolName (zds_Dataset (zd_Spec vol)) of
                        Inl e \<Rightarrow> (w, Some e)
                      | Inr mountpoint \<Rightarrow> ApplyOwnership (dr_ZFS r) mountpoint (fs_UID fs) (fs_GID fs) (fs_Mode fs) w)))"

definition ensureSize :: "'w ZFS \<Rightarrow> ZfsDataset \<Rightarrow> string \<Rightarrow> 'w act" where
  "ensureSize z vol full w =
     (if zds_Type (zd_Spec vol) = DatasetTypeFilesystem then
        (let desired = (case quota_of vol of Some q \<Rightarrow> FormatInt (q_Value q) | None \<Rightarrow> ''none'') in
         case Get z full ''refquota'' w of
           (w1, Inl e) \<Rightarrow> (w1, Some e)
         | (w1, Inr current) \<Rightarrow>
             if \<not> refquotaEqual current desired then SetProperty z full ''refquota'' desired w1 else (w1, None))
      else if zds_Type (zd_Spec vol) = DatasetTypeVolume then
        (case zds_Volume (zd_Spec vol) of
           None \<Rightarrow> (w, None)
         | Some cfg \<Rightarrow>
             (let desired = alignUp (q_Value (vc_Size cfg)) (volblockBytes (vc_Volblocksize cfg)) in
              case Get z full ''volsize'' w of
                (w1, Inl e) \<Rightarrow> (w1, Some e)
              | (w1, Inr current) \<Rightarrow>
                  if desired > fst (ParseInt (TrimSpace current))
                  then SetProperty z full ''volsize'' (FormatInt desired) w1 else (w1, None)))
      else (w, None))"

subsection \<open>Deleting\<close>

definition releaseCloneOrigin :: "'w ZFS \<Rightarrow> ZfsDataset \<Rightarrow> string \<Rightarrow> 'w act" where
  "releaseCloneOrigin z vol full w =
     (case zds_Source (zd_Spec vol) of
        None \<Rightarrow> (w, None)
      | Some src \<Rightarrow>
          if src_Volume src = '''' \<and> src_ZfsDatasetRef src = None then (w, None)
          else
            (let suffix = ''@clone-'' @ cloneSnapshotSuffix (om_Name (zd_Meta vol)); target = full @ suffix in
             case Get z target ''type'' w of
               (w1, Inr _) \<Rightarrow> DestroySnapshotDeferred z target w1
             | (w1, Inl e) \<Rightarrow>
                 if \<not> errors_Is e ErrNotExist then (w1, Some e)
                 else (case Get z full ''origin'' w1 of
                         (w2, Inl e2) \<Rightarrow> (w2, if errors_Is e2 ErrNotExist then None else Some e2)
                       | (w2, Inr origin) \<Rightarrow>
                           if \<not> HasSuffix (TrimSpace origin) suffix then (w2, None)
                           else DestroySnapshotDeferred z (TrimSpace origin) w2)))"

definition beforeDestroy :: "'w ZfsDatasetReconciler \<Rightarrow> ZfsDataset \<Rightarrow> string \<Rightarrow> string \<Rightarrow> 'w act" where
  "beforeDestroy r vol poolName full w =
     (case releaseCloneOrigin (dr_ZFS r) vol full w of
        (w1, Some e) \<Rightarrow> (w1, Some e)
      | (w1, None) \<Rightarrow>
          detachAndCleanSnapshots (dr_gateReader r) (dr_ZFS r) (zds_PoolGUID (zd_Spec vol)) poolName full w1)"

definition dr_delete :: "'w ZfsDatasetReconciler \<Rightarrow> ZfsDataset \<Rightarrow> ZfsPool option \<Rightarrow> 'w reconcile" where
  "dr_delete r vol pool w =
     (if \<not> ContainsFinalizer (dr_Lib r) (zd_Meta vol) zfsDatasetFinalizer then (w, no_requeue, None)
      else case pool of
        None \<Rightarrow> done_with (dr_releaseFinalizer r vol w)
      | Some p \<Rightarrow>
          if \<not> hosted_here (dr_NodeName r) pool then (w, no_requeue, None)
          else
            (case datasetName (zpst_PoolName (zp_Status p)) (zds_Dataset (zd_Spec vol)) of
               Inl e \<Rightarrow> (w, no_requeue, Some e)
             | Inr full \<Rightarrow>
                 (case beforeDestroy r vol (zpst_PoolName (zp_Status p)) full w of
                    (w1, Some e) \<Rightarrow>
                      (fst (dr_setStatus r vol DatasetPhaseError (zdst_Path (zd_Status vol)) DeleteBlockedReason (err_text e) w1),
                       no_requeue, Some e)
                  | (w1, None) \<Rightarrow>
                      (case Destroy (dr_ZFS r) full False w1 of
                         (w2, Some e) \<Rightarrow> (w2, no_requeue, Some e)
                       | (w2, None) \<Rightarrow> done_with (dr_releaseFinalizer r vol w2)))))"

subsection \<open>Provisioning\<close>

text \<open>The end of a pass over an existing dataset: labels, size, path, Ready.\<close>

definition dr_converge :: "'w ZfsDatasetReconciler \<Rightarrow> ZfsDataset \<Rightarrow> ZfsPool \<Rightarrow> string \<Rightarrow> 'w reconcile" where
  "dr_converge r vol p full w =
     (case (if \<not> datasetProvisioned vol then EnsureLabels (dr_ZFS r) full RoleVolume (om_UID (zd_Meta vol)) w else (w, None)) of
        (w1, Some e) \<Rightarrow> (w1, no_requeue, Some e)
      | (w1, None) \<Rightarrow>
          (case ensureSize (dr_ZFS r) vol full w1 of
             (w2, Some e) \<Rightarrow> done_with (dr_setStatus r vol DatasetPhaseError '''' ''ResizeFailed'' (err_text e) w2)
           | (w2, None) \<Rightarrow>
               (case deriveVolumePath (zds_Type (zd_Spec vol)) (zpst_BaseMountPath (zp_Status p))
                       (zpst_PoolName (zp_Status p)) (zds_Dataset (zd_Spec vol)) of
                  Inl e \<Rightarrow> done_with (dr_setStatus r vol DatasetPhaseError '''' ''PathDeriveFailed'' (err_text e) w2)
                | Inr volPath \<Rightarrow>
                    (let (w3, creation) =
                       (if zdst_CreationTime (zd_Status vol) = None
                        then (case snapshotCreationTime (dr_Lib r) (dr_ZFS r) full w2 of (w', t) \<Rightarrow> (w', Some t))
                        else (w2, None))
                     in done_with (dr_setStatusAt r vol DatasetPhaseReady volPath ''Ready''
                          (''provisioned '' @ full @ '' on '' @ dr_NodeName r) creation w3)))))"

text \<open>The dataset is not on disk: Lost when it was there before, else create it.\<close>

definition dr_absent :: "'w ZfsDatasetReconciler \<Rightarrow> ZfsDataset \<Rightarrow> ZfsPool \<Rightarrow> string \<Rightarrow> 'w reconcile" where
  "dr_absent r vol p full w =
     (if datasetProvisioned vol then
        (if zdst_Phase (zd_Status vol) \<noteq> DatasetPhaseLost then
           (case dr_setStatus r vol DatasetPhaseLost (zdst_Path (zd_Status vol)) ''DatasetLost''
                   (full @ '' no longer exists; a provisioned dataset is never re-created in place'') w of
              (w1, Some e) \<Rightarrow> (w1, no_requeue, Some e)
            | (w1, None) \<Rightarrow> (w1, \<lparr>RequeueAfter = lostRecheckInterval\<rparr>, None))
         else (w, \<lparr>RequeueAfter = lostRecheckInterval\<rparr>, None))
      else
        (case dr_create r vol (zpst_PoolName (zp_Status p)) full w of
           (w1, Some e) \<Rightarrow>
             if errors_Is e SourceNotReady
             then requeue_with sourceRetryInterval (dr_setStatus r vol DatasetPhaseError '''' ''SourceNotReady'' (err_text e) w1)
             else done_with (dr_setStatus r vol DatasetPhaseError '''' ''CreateFailed'' (err_text e) w1)
         | (w1, None) \<Rightarrow>
             (case applyRootOwnership r vol (zpst_BaseMountPath (zp_Status p)) (zpst_PoolName (zp_Status p)) w1 of
                (w2, Some e) \<Rightarrow> done_with (dr_setStatus r vol DatasetPhaseError '''' ''OwnershipFailed'' (err_text e) w2)
              | (w2, None) \<Rightarrow> dr_converge r vol p full w2)))"

definition dr_provision :: "'w ZfsDatasetReconciler \<Rightarrow> ZfsDataset \<Rightarrow> ZfsPool \<Rightarrow> 'w reconcile" where
  "dr_provision r vol p w =
     (if \<not> ContainsFinalizer (dr_Lib r) (zd_Meta vol) zfsDatasetFinalizer then
        done_with (update_ZfsDataset (dr_Client r)
          (vol\<lparr>zd_Meta := AddFinalizer (dr_Lib r) (zd_Meta vol) zfsDatasetFinalizer\<rparr>) w)
      else
        (case datasetName (zpst_PoolName (zp_Status p)) (zds_Dataset (zd_Spec vol)) of
           Inl e \<Rightarrow> done_with (dr_setStatus r vol DatasetPhaseError '''' ''InvalidDataset'' (err_text e) w)
         | Inr full \<Rightarrow>
             (case Get (dr_ZFS r) full ''type'' w of
                (w1, Inr _) \<Rightarrow> dr_converge r vol p full w1
              | (w1, Inl e) \<Rightarrow>
                  if \<not> errors_Is e ErrNotExist
                  then done_with (dr_setStatus r vol DatasetPhaseError '''' ''LookupFailed'' (err_text e) w1)
                  else dr_absent r vol p full w1)))"

definition dr_Reconcile :: "'w ZfsDatasetReconciler \<Rightarrow> string \<Rightarrow> 'w reconcile" where
  "dr_Reconcile r req w =
     (case get_ZfsDataset (dr_Client r) req w of
        (w1, Inl e) \<Rightarrow> (w1, no_requeue, IgnoreNotFound e)
      | (w1, Inr vol) \<Rightarrow>
          (case get_pool (dr_Client r) (zds_PoolGUID (zd_Spec vol)) w1 of
             (w2, Inl e) \<Rightarrow> (w2, no_requeue, Some e)
           | (w2, Inr pool) \<Rightarrow>
               if om_DeletionTimestamp (zd_Meta vol) \<noteq> None then dr_delete r vol pool w2
               else (case pool of
                       None \<Rightarrow> (w2, no_requeue, None)
                     | Some p \<Rightarrow> if \<not> hosted_here (dr_NodeName r) pool then (w2, no_requeue, None)
                                 else dr_provision r vol p w2)))"

definition volumesForPool :: "('w, 'b) Reader_scheme \<Rightarrow> ZfsPool \<Rightarrow> 'w \<Rightarrow> 'w \<times> string list" where
  "volumesForPool c p w =
     (case list_ZfsDataset c w of
        (w1, Inl e) \<Rightarrow> (w1, [])
      | (w1, Inr vs) \<Rightarrow>
          (w1, map (\<lambda>v. om_Name (zd_Meta v)) (filter (\<lambda>v. zds_PoolGUID (zd_Spec v) = pool_guid p) vs)))"

end
