(* ===== verification/DatasetSafety.thy ===== *)
theory DatasetSafety
  imports DatasetController Frame
begin

text \<open>
  What the dataset agent never does: act on a pool that another node serves, and create or destroy
  anything for a dataset that was provisioned before.
\<close>

locale dr_kube = kube_frame R "dr_Lib r" "dr_Client r" "dr_gateReader r"
  for R :: "'w \<Rightarrow> 'w \<Rightarrow> bool" and r
begin

lemma keeps_dr_setStatusAt [keeps_rules]: "keeps R (dr_setStatusAt r vol phase p reason msg t)"
  unfolding dr_setStatusAt_def [abs_def] Let_def by (intro keeps_rules)

lemma keeps_dr_setStatus [keeps_rules]: "keeps R (dr_setStatus r vol phase p reason msg)"
  unfolding dr_setStatus_def by (intro keeps_rules)

lemma keeps_release_once [keeps_rules]: "keeps R (release_once r n)"
  unfolding release_once_def [abs_def] by (intro keeps_rules)

lemma keeps_dr_releaseFinalizer [keeps_rules]: "keeps R (dr_releaseFinalizer r vol)"
  unfolding dr_releaseFinalizer_def by (intro keeps_rules)

lemma reads_keep:
  assumes "get_ZfsDataset (dr_Client r) req w = (w1, Inr vol)" "get_pool (dr_Client r) guid w1 = (w2, Inr pool)"
  shows "R w w2"
  using frame_trans [OF keepsD [OF get_keeps(1) assms(1)] keepsD [OF keeps_get_pool assms(2)]] .

text \<open>A reconcile of a dataset whose pool is not served here, or is unknown.\<close>

lemma reconcile_elsewhere:
  assumes "get_ZfsDataset (dr_Client r) req w = (w1, Inr vol)" "get_pool (dr_Client r) (zds_PoolGUID (zd_Spec vol)) w1 = (w2, Inr pool)"
    "\<not> hosted_here (dr_NodeName r) pool"
  shows "R w (fst (dr_Reconcile r req w))"
proof -
  note reads = reads_keep [OF assms(1,2)]
  have "R w2 (fst (dr_delete r vol pool w2))"
  proof -
    have "keeps R (dr_delete r vol pool)"
      unfolding dr_delete_def [abs_def] by (intro keeps_rules) (use assms(3) in blast)+
    then show ?thesis by (rule keeps_fst)
  qed
  then have "R w2 (fst (dr_Reconcile r req w))"
    using assms frame_refl [of w2] by (cases pool) (simp_all add: dr_Reconcile_def)
  with reads show ?thesis by (rule frame_trans)
qed

end

locale dr_frame = dr_kube R r + agent_frame R "dr_Lib r" "dr_Client r" "dr_gateReader r" "dr_ZFS r"
  for R :: "'w \<Rightarrow> 'w \<Rightarrow> bool" and r
begin

lemma keeps_ensureSize:
  "(\<And>prop v. prop \<in> {''refquota'', ''volsize''} \<Longrightarrow> keeps R (SetProperty (dr_ZFS r) full prop v)) \<Longrightarrow>
   keeps R (ensureSize (dr_ZFS r) vol full)"
  unfolding ensureSize_def [abs_def] Let_def by (intro keeps_rules) auto

text \<open>A dataset that was provisioned: whatever the pass does, it sets at most the size properties.\<close>

lemma keeps_provisioned:
  assumes p: "datasetProvisioned vol"
    and set: "\<And>prop v. prop \<in> {''refquota'', ''volsize''} \<Longrightarrow> keeps R (SetProperty (dr_ZFS r) full prop v)"
    and n: "datasetName (zpst_PoolName (zp_Status pool)) (zds_Dataset (zd_Spec vol)) = Inr full"
  shows "keeps R (dr_provision r vol pool)"
proof -
  have "keeps R (dr_absent r vol pool full)"
    unfolding dr_absent_def [abs_def] by (intro keeps_rules) (use p in blast)+
  moreover have "keeps R (dr_converge r vol pool full)"
    unfolding dr_converge_def [abs_def] Let_def
    by (intro keeps_rules keeps_ensureSize [OF set]) (use p in blast, assumption)
  ultimately show ?thesis unfolding dr_provision_def [abs_def] n sum.case by (intro keeps_rules)
qed

lemma reconcile_provisioned:
  assumes "get_ZfsDataset (dr_Client r) req w = (w1, Inr vol)" "get_pool (dr_Client r) (zds_PoolGUID (zd_Spec vol)) w1 = (w2, Inr pool)"
    "om_DeletionTimestamp (zd_Meta vol) = None" "datasetProvisioned vol"
    "\<And>full prop v. prop \<in> {''refquota'', ''volsize''} \<Longrightarrow> keeps R (SetProperty (dr_ZFS r) full prop v)"
  shows "R w (fst (dr_Reconcile r req w))"
proof -
  note reads = reads_keep [OF assms(1,2)]
  have "keeps R (dr_provision r vol p)" for p
  proof (cases "datasetName (zpst_PoolName (zp_Status p)) (zds_Dataset (zd_Spec vol))")
    case (Inl e)
    show ?thesis unfolding dr_provision_def [abs_def] Inl sum.case by (intro keeps_rules)
  next
    case (Inr full)
    then show ?thesis using keeps_provisioned assms(4,5) by blast
  qed
  then have "R w2 (fst (dr_provision r vol p w2))" for p by (simp add: keeps_fst)
  then have "R w2 (fst (dr_Reconcile r req w))"
    using assms(1-3) frame_refl [of w2] by (simp add: dr_Reconcile_def split: option.splits)
  with reads show ?thesis by (rule frame_trans)
qed

end

end
