(* ===== verification/SnapshotController.thy ===== *)
theory SnapshotController
  imports RawLocate Detach
begin

text \<open>
  \<open>src/internal/controller/zfssnapshot_controller.go\<close>: the node agent that takes the raw ZFS snapshot
  and its backing clone for a ZfsSnapshot, watches a settled one, and tears both down on deletion.
\<close>

abbreviation zfsSnapshotFinalizer :: string where "zfsSnapshotFinalizer \<equiv> ''storage.simple-zfs-csi.io/zfssnapshot''"

record 'w ZfsSnapshotReconciler =
  sr_Client :: "'w Client"
  sr_Lib :: "'w KubeLib"
  sr_NodeName :: string
  sr_ZFS :: "'w ZFS"
  sr_APIReader :: "'w Reader option"

definition sr_gateReader :: "'w ZfsSnapshotReconciler \<Rightarrow> 'w Reader" where
  "sr_gateReader r = (case sr_APIReader r of Some rd \<Rightarrow> rd | None \<Rightarrow> Reader.truncate (sr_Client r))"

definition sourceDatasetPath :: "('w, 'b) Reader_scheme \<Rightarrow> ZfsSnapshot \<Rightarrow> ('w, string) query" where
  "sourceDatasetPath reader snap = resolveDatasetPath reader (zss_SourceVolume (zs_Spec snap)) (zss_Dataset (zs_Spec snap))"

definition backingCloneProperties :: "DatasetType \<Rightarrow> props" where
  "backingCloneProperties t = (if t = DatasetTypeVolume then [(''volmode'', ''none'')] else [(''canmount'', ''off'')])"

subsection \<open>Status and finalizer\<close>

definition patched_snapshot_status ::
  "'w KubeLib \<Rightarrow> Time \<Rightarrow> ZfsSnapshot \<Rightarrow> ZfsSnapshotPhase \<Rightarrow> bool \<Rightarrow> Time option \<Rightarrow> Quantity option \<Rightarrow> string \<Rightarrow> string
     \<Rightarrow> ZfsSnapshotStatus" where
  "patched_snapshot_status L now snap phase ready creation restore reason message =
     (let st = zs_Status snap; gen = om_Generation (zs_Meta snap) in
      st\<lparr>zsst_Phase := phase, zsst_ReadyToUse := ready,
         zsst_CreationTime := (if creation \<noteq> None then creation else zsst_CreationTime st),
         zsst_ProvisionedAt := (if phase = SnapshotPhaseReady \<and> zsst_ProvisionedAt st = None then Some now
                                else zsst_ProvisionedAt st),
         zsst_RestoreSize := (if restore \<noteq> None then restore else zsst_RestoreSize st),
         zsst_ObservedGeneration := gen, zsst_Message := message,
         zsst_Conditions := SetStatusCondition L (zsst_Conditions st)
           \<lparr>cond_Type = ''Ready'', cond_Status = (phase = SnapshotPhaseReady), cond_Reason = reason,
            cond_Message = message, cond_ObservedGeneration = gen, cond_LastTransitionTime = None\<rparr>\<rparr>)"

definition setSnapshotStatus ::
  "'w ZfsSnapshotReconciler \<Rightarrow> ZfsSnapshot \<Rightarrow> ZfsSnapshotPhase \<Rightarrow> bool \<Rightarrow> Time option \<Rightarrow> Quantity option \<Rightarrow> string \<Rightarrow> string
     \<Rightarrow> 'w act" where
  "setSnapshotStatus r snap phase ready creation restore reason message w =
     (let L = sr_Lib r;
          (w1, now) = (if phase = SnapshotPhaseReady \<and> zsst_ProvisionedAt (zs_Status snap) = None
                       then Now L w else (w, 0))
      in patch_status_ZfsSnapshot (sr_Client r) snap
           (snap\<lparr>zs_Status := patched_snapshot_status L now snap phase ready creation restore reason message\<rparr>) w1)"

definition sr_fail :: "'w ZfsSnapshotReconciler \<Rightarrow> ZfsSnapshot \<Rightarrow> string \<Rightarrow> string \<Rightarrow> 'w reconcile" where
  "sr_fail r snap reason message w =
     done_with (setSnapshotStatus r snap SnapshotPhaseError False None None reason message w)"

definition release_snapshot_once :: "'w ZfsSnapshotReconciler \<Rightarrow> string \<Rightarrow> 'w act" where
  "release_snapshot_once r n w =
     (case get_ZfsSnapshot (sr_Client r) n w of
        (w1, Inl e) \<Rightarrow> (w1, if IsNotFound e then None else Some e)
      | (w1, Inr cur) \<Rightarrow>
          (case RemoveFinalizer (sr_Lib r) (zs_Meta cur) zfsSnapshotFinalizer of (meta, removed) \<Rightarrow>
             if \<not> removed then (w1, None)
             else update_ZfsSnapshot (sr_Client r) (cur\<lparr>zs_Meta := meta\<rparr>) w1))"

definition releaseSnapshotFinalizer :: "'w ZfsSnapshotReconciler \<Rightarrow> ZfsSnapshot \<Rightarrow> 'w act" where
  "releaseSnapshotFinalizer r snap = RetryOnConflict (sr_Lib r) (release_snapshot_once r (om_Name (zs_Meta snap)))"

subsection \<open>Deleting\<close>

definition releaseRaw :: "'w ZFS \<Rightarrow> string \<Rightarrow> string \<Rightarrow> string \<Rightarrow> 'w act" where
  "releaseRaw z snapName backingFull rawFull w =
     (case locateRawSnapshot z backingFull rawFull snapName w of
        (w1, Inl e) \<Rightarrow> (w1, Some e)
      | (w1, Inr raw) \<Rightarrow> if raw = '''' then (w1, None) else DestroySnapshotDeferred z raw w1)"

text \<open>The part of \<open>reconcileDelete\<close> that acts on ZFS, once the two names are known.\<close>

definition sr_teardown :: "('w, 'b) Reader_scheme \<Rightarrow> 'w ZFS \<Rightarrow> string \<Rightarrow> string \<Rightarrow> string \<Rightarrow> string \<Rightarrow> string \<Rightarrow> 'w act" where
  "sr_teardown c z poolGUID poolName snapName backingFull rawFull w =
     (case releaseRaw z snapName backingFull rawFull w of
        (w1, Some e) \<Rightarrow> (w1, Some e)
      | (w1, None) \<Rightarrow>
          (case detachAndCleanSnapshots c z poolGUID poolName backingFull w1 of
             (w2, Some e) \<Rightarrow> (w2, Some e)
           | (w2, None) \<Rightarrow> Destroy z backingFull False w2))"

definition sr_reconcileDelete :: "'w ZfsSnapshotReconciler \<Rightarrow> ZfsSnapshot \<Rightarrow> ZfsPool \<Rightarrow> 'w reconcile" where
  "sr_reconcileDelete r snap p w =
     (let poolName = zpst_PoolName (zp_Status p); snapName = zss_SnapshotName (zs_Spec snap) in
      case sourceDatasetPath (sr_gateReader r) snap w of
        (w1, Inl e) \<Rightarrow> (w1, no_requeue, Some e)
      | (w1, Inr datasetPath) \<Rightarrow>
          (case snapshotFullName poolName datasetPath snapName of
             Inl e \<Rightarrow> (w1, no_requeue, Some e)
           | Inr rawFull \<Rightarrow>
               (case datasetName poolName (path_Join [path_Dir (Trim CHR ''/'' datasetPath), snapName]) of
                  Inl e \<Rightarrow> (w1, no_requeue, Some e)
                | Inr backingFull \<Rightarrow>
                    (case sr_teardown (sr_gateReader r) (sr_ZFS r) (zss_PoolGUID (zs_Spec snap)) poolName snapName
                            backingFull rawFull w1 of
                       (w2, Some e) \<Rightarrow> (w2, no_requeue, Some e)
                     | (w2, None) \<Rightarrow> done_with (releaseSnapshotFinalizer r snap w2)))))"

subsection \<open>A settled snapshot\<close>

definition sr_reconcileSettled :: "'w ZfsSnapshotReconciler \<Rightarrow> ZfsSnapshot \<Rightarrow> ZfsPool \<Rightarrow> string \<Rightarrow> 'w reconcile" where
  "sr_reconcileSettled r snap p datasetPath w =
     (let poolName = zpst_PoolName (zp_Status p); snapName = zss_SnapshotName (zs_Spec snap);
          backingFull = backingCloneFullName poolName datasetPath snapName;
          recorded = (case snapshotFullName poolName datasetPath snapName of Inl e \<Rightarrow> '''' | Inr n \<Rightarrow> n)
      in case locateRawSnapshot (sr_ZFS r) backingFull recorded snapName w of
           (w1, Inl e) \<Rightarrow> (w1, no_requeue, Some e)
         | (w1, Inr raw) \<Rightarrow>
             if raw \<noteq> '''' \<and> zsst_Phase (zs_Status snap) = SnapshotPhaseReady then (w1, no_requeue, None)
             else if raw \<noteq> '''' then
               done_with (setSnapshotStatus r snap SnapshotPhaseReady True None None ''Ready''
                 (''raw snapshot '' @ raw @ '' is present again'') w1)
             else if zsst_Phase (zs_Status snap) = SnapshotPhaseLost then
               (w1, \<lparr>RequeueAfter = lostRecheckInterval\<rparr>, None)
             else
               (case setSnapshotStatus r snap SnapshotPhaseLost False None None ''PrimitivesLost''
                       (''raw snapshot '' @ Quote snapName @ '' no longer exists; a snapshot is never re-created in place'') w1 of
                  (w2, Some e) \<Rightarrow> (w2, no_requeue, Some e)
                | (w2, None) \<Rightarrow> (w2, \<lparr>RequeueAfter = lostRecheckInterval\<rparr>, None)))"

subsection \<open>Taking the snapshot and its backing clone\<close>

text \<open>The backing clone exists: label it, read creation time and size, report Ready.\<close>

definition sr_backing_ready :: "'w ZfsSnapshotReconciler \<Rightarrow> ZfsSnapshot \<Rightarrow> string \<Rightarrow> string \<Rightarrow> 'w reconcile" where
  "sr_backing_ready r snap rawFull backingFull w =
     (case EnsureLabels (sr_ZFS r) backingFull RoleBacking (om_UID (zs_Meta snap)) w of
        (w1, Some e) \<Rightarrow> (w1, no_requeue, Some e)
      | (w1, None) \<Rightarrow>
          (case snapshotCreationTime (sr_Lib r) (sr_ZFS r) rawFull w1 of (w2, creation) \<Rightarrow>
            (case snapshotRestoreSize (sr_ZFS r) rawFull w2 of (w3, restore) \<Rightarrow>
               done_with (setSnapshotStatus r snap SnapshotPhaseReady True (Some creation) restore ''Ready''
                 (''snapshot '' @ rawFull @ '' ready on '' @ sr_NodeName r @ '' (backing clone '' @ backingFull @ '')'') w3))))"

definition sr_reconcileBackingClone :: "'w ZfsSnapshotReconciler \<Rightarrow> ZfsSnapshot \<Rightarrow> ZfsPool \<Rightarrow> string \<Rightarrow> string \<Rightarrow> 'w reconcile" where
  "sr_reconcileBackingClone r snap p datasetPath rawFull w =
     (let backingName = zss_SnapshotName (zs_Spec snap) in
      case datasetName (zpst_PoolName (zp_Status p)) (path_Join [path_Dir (Trim CHR ''/'' datasetPath), backingName]) of
        Inl e \<Rightarrow> sr_fail r snap ''InvalidBackingClone'' (err_text e) w
      | Inr backingFull \<Rightarrow>
          (let sourceType = zss_SourceType (zs_Spec snap) in
           if sourceType = '''' then sr_fail r snap ''InvalidSnapshot'' ''spec.sourceType is required'' w
           else
             (case Get (sr_ZFS r) backingFull ''type'' w of
                (w1, Inr _) \<Rightarrow> sr_backing_ready r snap rawFull backingFull w1
              | (w1, Inl e) \<Rightarrow>
                  if \<not> errors_Is e ErrNotExist then sr_fail r snap ''LookupFailed'' (err_text e) w1
                  else
                    (case Clone (sr_ZFS r) rawFull backingFull
                            (MergeLabels (backingCloneProperties sourceType) RoleBacking (om_UID (zs_Meta snap))) w1 of
                       (w2, Some e2) \<Rightarrow> sr_fail r snap ''BackingCloneFailed'' (err_text e2) w2
                     | (w2, None) \<Rightarrow> sr_backing_ready r snap rawFull backingFull w2))))"

text \<open>The raw snapshot exists: label it and go on to the backing clone.\<close>

definition sr_raw_present :: "'w ZfsSnapshotReconciler \<Rightarrow> ZfsSnapshot \<Rightarrow> ZfsPool \<Rightarrow> string \<Rightarrow> string \<Rightarrow> 'w reconcile" where
  "sr_raw_present r snap p datasetPath full w =
     (case EnsureLabels (sr_ZFS r) full RoleRaw (om_UID (zs_Meta snap)) w of
        (w1, Some e) \<Rightarrow> (w1, no_requeue, Some e)
      | (w1, None) \<Rightarrow> sr_reconcileBackingClone r snap p datasetPath full w1)"

definition sr_raw_absent :: "'w ZfsSnapshotReconciler \<Rightarrow> ZfsSnapshot \<Rightarrow> ZfsPool \<Rightarrow> string \<Rightarrow> string \<Rightarrow> 'w reconcile" where
  "sr_raw_absent r snap p datasetPath full w =
     (case sourceDatasetPath (sr_gateReader r) snap w of
        (w1, Inl e) \<Rightarrow> (w1, no_requeue, Some e)
      | (w1, Inr direct) \<Rightarrow>
          if direct \<noteq> datasetPath then (w1, \<lparr>RequeueAfter = 1000\<rparr>, None)
          else if zss_GroupSnapshotID (zs_Spec snap) \<noteq> '''' then
            sr_fail r snap ''GroupRawSnapshotMissing''
              (''raw snapshot '' @ full @ '' of group '' @ Quote (zss_GroupSnapshotID (zs_Spec snap))
               @ '' not found; group snapshots are never re-taken'') w1
          else
            (case Snapshot (sr_ZFS r) [full] w1 of
               (w2, Some e) \<Rightarrow> sr_fail r snap ''SnapshotFailed'' (err_text e) w2
             | (w2, None) \<Rightarrow> sr_raw_present r snap p datasetPath full w2))"

definition sr_provision :: "'w ZfsSnapshotReconciler \<Rightarrow> ZfsSnapshot \<Rightarrow> ZfsPool \<Rightarrow> string \<Rightarrow> 'w reconcile" where
  "sr_provision r snap p datasetPath w =
     (case snapshotFullName (zpst_PoolName (zp_Status p)) datasetPath (zss_SnapshotName (zs_Spec snap)) of
        Inl e \<Rightarrow> sr_fail r snap ''InvalidSnapshot'' (err_text e) w
      | Inr full \<Rightarrow>
          (case Get (sr_ZFS r) full ''type'' w of
             (w1, Inr _) \<Rightarrow> sr_raw_present r snap p datasetPath full w1
           | (w1, Inl e) \<Rightarrow>
               if \<not> errors_Is e ErrNotExist then sr_fail r snap ''LookupFailed'' (err_text e) w1
               else sr_raw_absent r snap p datasetPath full w1))"

definition sr_hosted :: "'w ZfsSnapshotReconciler \<Rightarrow> ZfsSnapshot \<Rightarrow> ZfsPool \<Rightarrow> 'w reconcile" where
  "sr_hosted r snap p w =
     (if \<not> ContainsFinalizer (sr_Lib r) (zs_Meta snap) zfsSnapshotFinalizer then
        done_with (update_ZfsSnapshot (sr_Client r)
          (snap\<lparr>zs_Meta := AddFinalizer (sr_Lib r) (zs_Meta snap) zfsSnapshotFinalizer\<rparr>) w)
      else
        (case sourceDatasetPath (sr_Client r) snap w of
           (w1, Inl e) \<Rightarrow> (w1, no_requeue, Some e)
         | (w1, Inr datasetPath) \<Rightarrow>
             if zsst_ProvisionedAt (zs_Status snap) \<noteq> None then sr_reconcileSettled r snap p datasetPath w1
             else sr_provision r snap p datasetPath w1))"

definition sr_Reconcile :: "'w ZfsSnapshotReconciler \<Rightarrow> string \<Rightarrow> 'w reconcile" where
  "sr_Reconcile r req w =
     (case get_ZfsSnapshot (sr_Client r) req w of
        (w1, Inl e) \<Rightarrow> (w1, no_requeue, IgnoreNotFound e)
      | (w1, Inr snap) \<Rightarrow>
          (case get_pool (sr_Client r) (zss_PoolGUID (zs_Spec snap)) w1 of
             (w2, Inl e) \<Rightarrow> (w2, no_requeue, Some e)
           | (w2, Inr pool) \<Rightarrow>
               if om_DeletionTimestamp (zs_Meta snap) \<noteq> None then
                 (if \<not> ContainsFinalizer (sr_Lib r) (zs_Meta snap) zfsSnapshotFinalizer then (w2, no_requeue, None)
                  else (case pool of
                          None \<Rightarrow> done_with (releaseSnapshotFinalizer r snap w2)
                        | Some p \<Rightarrow> if hosted_here (sr_NodeName r) pool then sr_reconcileDelete r snap p w2
                                    else (w2, no_requeue, None)))
               else (case pool of
                       None \<Rightarrow> (w2, no_requeue, None)
                     | Some p \<Rightarrow> if \<not> hosted_here (sr_NodeName r) pool then (w2, no_requeue, None)
                                 else sr_hosted r snap p w2)))"

definition snapshotsForPool :: "('w, 'b) Reader_scheme \<Rightarrow> ZfsPool \<Rightarrow> 'w \<Rightarrow> 'w \<times> string list" where
  "snapshotsForPool c p w =
     (case list_ZfsSnapshot c w of
        (w1, Inl e) \<Rightarrow> (w1, [])
      | (w1, Inr ss) \<Rightarrow>
          (w1, map (\<lambda>s. om_Name (zs_Meta s)) (filter (\<lambda>s. zss_PoolGUID (zs_Spec s) = pool_guid p) ss)))"

end
