(* ===== verification/SnapshotSafety.thy ===== *)
theory SnapshotSafety
  imports SnapshotController Frame
begin

text \<open>
  What the snapshot agent never does: act on a pool that another node serves, re-create a snapshot
  that was Ready before, and take the snapshot of a group member by itself.
\<close>

locale sr_kube = kube_frame R "sr_Lib r" "sr_Client r" "sr_gateReader r"
  for R :: "'w \<Rightarrow> 'w \<Rightarrow> bool" and r
begin

lemma keeps_setSnapshotStatus [keeps_rules]: "keeps R (setSnapshotStatus r snap phase ready t q reason msg)"
  unfolding setSnapshotStatus_def [abs_def] Let_def by (intro keeps_rules)

lemma keeps_sr_fail [keeps_rules]: "keeps R (sr_fail r snap reason msg)"
  unfolding sr_fail_def [abs_def] by (intro keeps_rules)

lemma keeps_release_snapshot [keeps_rules]: "keeps R (releaseSnapshotFinalizer r snap)"
proof -
  have "keeps R (release_snapshot_once r n)" for n
    unfolding release_snapshot_once_def [abs_def] by (intro keeps_rules)
  then show ?thesis unfolding releaseSnapshotFinalizer_def by (intro keeps_rules)
qed

lemma keeps_sourcePath [keeps_rules]:
  "keeps R (sourceDatasetPath (sr_Client r) snap)" "keeps R (sourceDatasetPath (sr_gateReader r) snap)"
  unfolding sourceDatasetPath_def resolveDatasetPath_def [abs_def] by (intro keeps_rules)+

lemma sr_reads_keep:
  assumes "get_ZfsSnapshot (sr_Client r) req w = (w1, Inr snap)" "get_pool (sr_Client r) guid w1 = (w2, Inr pool)"
  shows "R w w2"
  using frame_trans [OF keepsD [OF get_keeps(2) assms(1)] keepsD [OF keeps_get_pool assms(2)]] .

lemma sr_reconcile_elsewhere:
  assumes "get_ZfsSnapshot (sr_Client r) req w = (w1, Inr snap)" "get_pool (sr_Client r) (zss_PoolGUID (zs_Spec snap)) w1 = (w2, Inr pool)"
    "\<not> hosted_here (sr_NodeName r) pool"
  shows "R w (fst (sr_Reconcile r req w))"
proof -
  have "R w2 (fst (done_with (releaseSnapshotFinalizer r snap w2)))"
    by (rule keeps_fst [where f = "\<lambda>w. done_with (releaseSnapshotFinalizer r snap w)"]) (intro keeps_rules)
  then have "R w2 (fst (sr_Reconcile r req w))"
    using assms frame_refl [of w2] by (cases pool) (simp_all add: sr_Reconcile_def)
  with sr_reads_keep [OF assms(1,2)] show ?thesis by (rule frame_trans)
qed

text \<open>Not being deleted, the pass over a hosted snapshot is \<open>sr_hosted\<close>.\<close>

lemma sr_reconcile_live:
  assumes "get_ZfsSnapshot (sr_Client r) req w = (w1, Inr snap)" "get_pool (sr_Client r) (zss_PoolGUID (zs_Spec snap)) w1 = (w2, Inr pool)"
    "om_DeletionTimestamp (zs_Meta snap) = None" "\<And>p. keeps R (sr_hosted r snap p)"
  shows "R w (fst (sr_Reconcile r req w))"
proof -
  have "R w2 (fst (sr_hosted r snap p w2))" for p using assms(4) by (rule keeps_fst)
  then have "R w2 (fst (sr_Reconcile r req w))"
    using assms(1-3) frame_refl [of w2] by (cases pool) (simp_all add: sr_Reconcile_def)
  with sr_reads_keep [OF assms(1,2)] show ?thesis by (rule frame_trans)
qed

end

locale sr_frame = sr_kube R r + agent_frame R "sr_Lib r" "sr_Client r" "sr_gateReader r" "sr_ZFS r"
  for R :: "'w \<Rightarrow> 'w \<Rightarrow> bool" and r
begin

lemma keeps_sr_reconcileSettled [keeps_rules]: "keeps R (sr_reconcileSettled r snap p path)"
  unfolding sr_reconcileSettled_def [abs_def] Let_def by (intro keeps_rules)

lemma keeps_settled:
  "zsst_ProvisionedAt (zs_Status snap) \<noteq> None \<Longrightarrow> keeps R (sr_hosted r snap p)"
  unfolding sr_hosted_def [abs_def] by (intro keeps_rules) blast

lemma keeps_backing_ready:
  "(\<And>n p v. keeps R (SetProperty (sr_ZFS r) n p v)) \<Longrightarrow> keeps R (sr_backing_ready r snap raw b)"
  unfolding sr_backing_ready_def [abs_def] by (intro keeps_rules keeps_EnsureLabels)

lemma keeps_raw_present:
  assumes "\<And>n p v. keeps R (SetProperty (sr_ZFS r) n p v)" "\<And>s d ps. keeps R (Clone (sr_ZFS r) s d ps)"
  shows "keeps R (sr_raw_present r snap p path full)"
  unfolding sr_raw_present_def [abs_def] sr_reconcileBackingClone_def [abs_def] Let_def
  by (intro keeps_rules keeps_EnsureLabels keeps_backing_ready assms)

lemma keeps_group_member:
  assumes "zss_GroupSnapshotID (zs_Spec snap) \<noteq> ''''"
    "\<And>n p v. keeps R (SetProperty (sr_ZFS r) n p v)" "\<And>s d ps. keeps R (Clone (sr_ZFS r) s d ps)"
  shows "keeps R (sr_hosted r snap p)"
proof -
  have "keeps R (sr_raw_absent r snap p path full)" for path full
    unfolding sr_raw_absent_def [abs_def] by (intro keeps_rules) (use assms(1) in blast)+
  then have "keeps R (sr_provision r snap p path)" for path
    unfolding sr_provision_def [abs_def] by (intro keeps_rules keeps_raw_present assms)
  then show ?thesis unfolding sr_hosted_def [abs_def] by (intro keeps_rules)
qed

end

end
