(* ===== verification/ApiStore.thy ===== *)
theory ApiStore
  imports DatasetSafety SnapshotSafety MemZfs_Ops
begin

text \<open>
  A small API server, the concrete instance of the Kubernetes parameters: objects by name, with the
  not-found and already-exists errors of the real one. The world is a pair of the in-memory ZFS (or
  any other state) and the store. The frame locales are interpreted on it.
\<close>

record api =
  a_datasets :: "(string, ZfsDataset) gomap"
  a_snapshots :: "(string, ZfsSnapshot) gomap"
  a_groups :: "(string, ZfsGroupSnapshot) gomap"
  a_pools :: "(string, ZfsPool) gomap"

definition empty_api :: api where
  "empty_api = \<lparr>a_datasets = [], a_snapshots = [], a_groups = [], a_pools = []\<rparr>"

definition api_not_found :: goerr where
  "api_not_found = GoErr (Some StatusNotFound) ''not found''"

definition api_get :: "(api \<Rightarrow> (string, 'o) gomap) \<Rightarrow> string \<Rightarrow> ('m \<times> api, 'o) query" where
  "api_get sel n w = (w, case map_of (sel (snd w)) n of None \<Rightarrow> Inl api_not_found | Some x \<Rightarrow> Inr x)"

definition api_list :: "(api \<Rightarrow> (string, 'o) gomap) \<Rightarrow> ('m \<times> api, 'o list) query" where
  "api_list sel w = (w, Inr (map snd (sel (snd w))))"

text \<open>Change a stored object; a missing one is an error.\<close>

definition api_change ::
  "(api \<Rightarrow> (string, 'o) gomap) \<Rightarrow> (((string, 'o) gomap \<Rightarrow> (string, 'o) gomap) \<Rightarrow> api \<Rightarrow> api) \<Rightarrow> string \<Rightarrow> ('o \<Rightarrow> 'o)
     \<Rightarrow> ('m \<times> api) act" where
  "api_change sel upd n f w =
     (if map_of (sel (snd w)) n = None then (w, Some api_not_found)
      else ((fst w, upd (mmod n f) (snd w)), None))"

definition api_create ::
  "(api \<Rightarrow> (string, 'o) gomap) \<Rightarrow> (((string, 'o) gomap \<Rightarrow> (string, 'o) gomap) \<Rightarrow> api \<Rightarrow> api) \<Rightarrow> string \<Rightarrow> 'o
     \<Rightarrow> ('m \<times> api) act" where
  "api_create sel upd n x w =
     (if map_of (sel (snd w)) n \<noteq> None then (w, Some (GoErr (Some StatusAlreadyExists) ''already exists''))
      else ((fst w, upd (AList.update n x) (snd w)), None))"

definition api_delete ::
  "(api \<Rightarrow> (string, 'o) gomap) \<Rightarrow> (((string, 'o) gomap \<Rightarrow> (string, 'o) gomap) \<Rightarrow> api \<Rightarrow> api) \<Rightarrow> string \<Rightarrow> ('m \<times> api) act" where
  "api_delete sel upd n w =
     (if map_of (sel (snd w)) n = None then (w, Some api_not_found) else ((fst w, upd (AList.delete n) (snd w)), None))"

definition api_reader :: "('m \<times> api) Reader" where
  "api_reader =
     \<lparr>get_ZfsDataset = api_get a_datasets, get_ZfsSnapshot = api_get a_snapshots,
      get_ZfsGroupSnapshot = api_get a_groups, get_ZfsPool = api_get a_pools,
      get_ZfsShare = (\<lambda>n w. (w, Inl api_not_found)),
      list_ZfsDataset = api_list a_datasets, list_ZfsSnapshot = api_list a_snapshots,
      list_ZfsGroupSnapshot = api_list a_groups, list_ZfsPool = api_list a_pools,
      list_NetworkExport = (\<lambda>w. (w, Inr [])), list_ZfsShareAttachRequest = (\<lambda>w. (w, Inr []))\<rparr>"

definition api_client :: "('m \<times> api) Client" where
  "api_client = Reader.extend api_reader
     \<lparr>update_ZfsDataset = (\<lambda>x. api_change a_datasets a_datasets_update (om_Name (zd_Meta x)) (\<lambda>_. x)),
      patch_status_ZfsDataset = (\<lambda>old new. api_change a_datasets a_datasets_update (om_Name (zd_Meta old))
        (\<lambda>x. x\<lparr>zd_Status := zd_Status new\<rparr>)),
      update_ZfsSnapshot = (\<lambda>x. api_change a_snapshots a_snapshots_update (om_Name (zs_Meta x)) (\<lambda>_. x)),
      patch_status_ZfsSnapshot = (\<lambda>old new. api_change a_snapshots a_snapshots_update (om_Name (zs_Meta old))
        (\<lambda>x. x\<lparr>zs_Status := zs_Status new\<rparr>)),
      create_ZfsSnapshot = (\<lambda>x. api_create a_snapshots a_snapshots_update (om_Name (zs_Meta x)) x),
      delete_ZfsSnapshot = (\<lambda>x. api_delete a_snapshots a_snapshots_update (om_Name (zs_Meta x))),
      update_ZfsGroupSnapshot = (\<lambda>x. api_change a_groups a_groups_update (om_Name (zg_Meta x)) (\<lambda>_. x)),
      patch_status_ZfsGroupSnapshot = (\<lambda>old new. api_change a_groups a_groups_update (om_Name (zg_Meta old))
        (\<lambda>x. x\<lparr>zg_Status := zg_Status new\<rparr>))\<rparr>"

text \<open>The agents on the in-memory ZFS and this API server.\<close>

definition demo_dr :: "string \<Rightarrow> (Mem \<times> api) ZfsDatasetReconciler" where
  "demo_dr node = \<lparr>dr_Client = api_client, dr_Lib = std_lib (\<lambda>w. 7), dr_NodeName = node,
     dr_ZFS = lift_ZFS mem_ZFS, dr_APIReader = Some api_reader\<rparr>"

definition demo_sr :: "string \<Rightarrow> (Mem \<times> api) ZfsSnapshotReconciler" where
  "demo_sr node = \<lparr>sr_Client = api_client, sr_Lib = std_lib (\<lambda>w. 7), sr_NodeName = node,
     sr_ZFS = lift_ZFS mem_ZFS, sr_APIReader = Some api_reader\<rparr>"

subsection \<open>Frames\<close>

definition same_zfs :: "'m \<times> 'k \<Rightarrow> 'm \<times> 'k \<Rightarrow> bool" where
  "same_zfs w w' \<longleftrightarrow> fst w' = fst w"

text \<open>No dataset and no snapshot appears, disappears or moves.\<close>

definition same_objects :: "Mem \<times> 'k \<Rightarrow> Mem \<times> 'k \<Rightarrow> bool" where
  "same_objects w w' \<longleftrightarrow> m_txg (fst w') = m_txg (fst w) \<and>
     (\<forall>n. map_option (\<lambda>d. (ds_kind d, ds_origin d, ds_snaps d)) (map_of (m_ds (fst w')) n) =
          map_option (\<lambda>d. (ds_kind d, ds_origin d, ds_snaps d)) (map_of (m_ds (fst w)) n))"

text \<open>No snapshot is taken: every snapshot call that takes one opens a new transaction group.\<close>

definition same_txg :: "Mem \<times> 'k \<Rightarrow> Mem \<times> 'k \<Rightarrow> bool" where
  "same_txg w w' \<longleftrightarrow> m_txg (fst w') = m_txg (fst w)"

interpretation same_zfs: frame same_zfs
  by unfold_locales (simp_all add: same_zfs_def)

interpretation same_objects: frame same_objects
  by unfold_locales (simp_all add: same_objects_def)

interpretation same_txg: frame same_txg
  by unfold_locales (simp_all add: same_txg_def)

lemma keeps_same_zfs_weaken:
  "keeps same_zfs f \<Longrightarrow> keeps same_objects f" "keeps same_zfs f \<Longrightarrow> keeps same_txg f"
  by (simp_all add: keeps_def same_zfs_def same_objects_def same_txg_def)

lemmas api_ops = api_get_def api_list_def api_change_def api_create_def api_delete_def

lemma api_keeps:
  "keeps same_zfs (api_get sel n)" "keeps same_zfs (api_list sel)" "keeps same_zfs (api_change sel1 upd1 n f)"
  "keeps same_zfs (api_create sel1 upd1 n x)" "keeps same_zfs (api_delete sel1 upd1 n)"
  by (simp_all add: keeps_def same_zfs_def api_ops)

lemma api_client_sel [simp]:
  "get_ZfsDataset api_client = api_get a_datasets" "get_ZfsSnapshot api_client = api_get a_snapshots"
  "get_ZfsGroupSnapshot api_client = api_get a_groups" "get_ZfsPool api_client = api_get a_pools"
  "get_ZfsDataset api_reader = api_get a_datasets" "get_ZfsSnapshot api_reader = api_get a_snapshots"
  "get_ZfsGroupSnapshot api_reader = api_get a_groups"
  "list_ZfsDataset api_reader = api_list a_datasets" "list_ZfsSnapshot api_reader = api_list a_snapshots"
  by (simp_all add: api_client_def api_reader_def Reader.defs)

lemma std_lib_Now [simp]: "Now (std_lib clock) w = (w, clock w)"
  by (simp add: std_lib_def)

interpretation api_frame: kube_frame same_zfs "std_lib clock" api_client api_reader
  by unfold_locales (simp_all add: api_keeps, simp_all add: keeps_def same_zfs_def api_ops api_client_def Reader.defs)

interpretation mem_frame: zfs_frame same_zfs "lift_ZFS mem_ZFS"
  by unfold_locales (simp add: keeps_def same_zfs_def mem_ZFS_def lift_op_def Mem_Get_def)

interpretation api_agent: agent_frame same_zfs "std_lib clock" api_client api_reader "lift_ZFS mem_ZFS" ..

interpretation demo_dr: dr_frame same_zfs "demo_dr node"
  using api_agent.agent_frame_axioms [of "\<lambda>w. 7"] api_frame.kube_frame_axioms [of "\<lambda>w. 7"]
  by (simp add: dr_frame_def dr_kube_def demo_dr_def dr_gateReader_def)

interpretation demo_sr: sr_frame same_zfs "demo_sr node"
  using api_agent.agent_frame_axioms [of "\<lambda>w. 7"] api_frame.kube_frame_axioms [of "\<lambda>w. 7"]
  by (simp add: sr_frame_def sr_kube_def demo_sr_def sr_gateReader_def)

subsection \<open>Weaker frames\<close>

text \<open>Calls that keep a frame keep every weaker one.\<close>

lemma kube_frame_weaken:
  assumes "kube_frame R L c g" "frame R'" and weaker: "\<And>w w'. R w w' \<Longrightarrow> R' w w'"
  shows "kube_frame R' L c g"
proof -
  have ax: "kube_frame_axioms R L c g" "kube_lib L" using assms(1) unfolding kube_frame_def by blast+
  have "kube_frame_axioms R' L c g"
    using ax(1) unfolding kube_frame_axioms_def keeps_def
    by (elim conjE, intro conjI allI) (rule weaker, elim allE, assumption)+
  then show ?thesis using assms(2) ax(2) unfolding kube_frame_def by blast
qed

lemma mem_get_keeps: "keeps same_zfs (Get (lift_ZFS mem_ZFS) n p)"
  by (rule mem_frame.zfs_get_keeps)

lemma keeps_lift:
  "(\<And>m. m_txg (fst (f m)) = m_txg m \<and> (\<forall>n. map_option (\<lambda>d. (ds_kind d, ds_origin d, ds_snaps d)) (map_of (m_ds (fst (f m))) n) =
      map_option (\<lambda>d. (ds_kind d, ds_origin d, ds_snaps d)) (map_of (m_ds m) n))) \<Longrightarrow> keeps same_objects (lift_op f)"
  "(\<And>m. m_txg (fst (f m)) = m_txg m) \<Longrightarrow> keeps same_txg (lift_op f)"
  unfolding keeps_def same_objects_def same_txg_def lift_op_def case_prod_beta fst_conv by simp_all

lemma SetProperty_txg: "m_txg (fst (Mem_SetProperty n p v m)) = m_txg m"
proof -
  define m1 where "m1 = record_call (''set '' @ p @ ''='' @ v @ '' '' @ n) m"
  obtain m2 e where i: "injected ''set'' n m1 = (m2, e)" by fastforce
  have m2: "m_txg m2 = m_txg m" using injected_same [OF i] by (simp only: m1_def record_call_same)
  show ?thesis using m2 unfolding Mem_SetProperty_def m1_def [symmetric] i
    by (auto simp: set_dataset_prop_def mod_ds_def split: option.splits prod.splits)
qed

lemma SetProperty_size_objects:
  assumes "p \<in> {''refquota'', ''volsize''}"
  shows "map_option (\<lambda>d. (ds_kind d, ds_origin d, ds_snaps d)) (map_of (m_ds (fst (Mem_SetProperty n p v m))) k) =
    map_option (\<lambda>d. (ds_kind d, ds_origin d, ds_snaps d)) (map_of (m_ds m) k)"
proof -
  define m1 where "m1 = record_call (''set '' @ p @ ''='' @ v @ '' '' @ n) m"
  obtain m2 e where i: "injected ''set'' n m1 = (m2, e)" by fastforce
  have m2: "m_ds m2 = m_ds m" using injected_same [OF i] by (simp only: m1_def record_call_same)
  have "\<not> isUser p" using assms by (auto simp: isUser_def HasPrefix_def)
  then show ?thesis using m2 unfolding Mem_SetProperty_def m1_def [symmetric] i
    by (auto simp: set_dataset_prop_def mod_ds_def option.map_comp comp_def split: option.splits prod.splits)
qed

lemma Clone_txg: "m_txg (fst (Mem_Clone s d ps m)) = m_txg m"
proof -
  define m1 where "m1 = record_call (''clone '' @ s @ '' '' @ d) m"
  obtain m2 e where i: "injected ''clone'' d m1 = (m2, e)" by fastforce
  have m2: "m_txg m2 = m_txg m" "m_txg m1 = m_txg m" using injected_same [OF i] by (simp_all only: m1_def record_call_same)
  have c: "create n k sz ps m = (m', e) \<Longrightarrow> m_txg m' = m_txg m" for n k sz m m' e
    by (auto simp: create_def Let_def dest: injected_same split: prod.splits option.splits if_splits)
  show ?thesis using m2 c unfolding Mem_Clone_def m1_def [symmetric] Let_def i
    by (auto simp: mod_ds_def split: option.splits prod.splits)
qed

lemma mem_set_keeps:
  "p \<in> {''refquota'', ''volsize''} \<Longrightarrow> keeps same_objects (SetProperty (lift_ZFS mem_ZFS) n p v)"
  "keeps same_txg (SetProperty (lift_ZFS mem_ZFS) n q v)" "keeps same_txg (Clone (lift_ZFS mem_ZFS) s d ps)"
  unfolding lift_ZFS_simps
  by (rule keeps_lift; simp add: mem_ZFS_def SetProperty_txg Clone_txg SetProperty_size_objects)+

text \<open>An agent on the in-memory ZFS whose API calls do not touch ZFS.\<close>

lemma dr_frame_objects:
  assumes "dr_kube same_zfs r" "dr_ZFS r = lift_ZFS mem_ZFS"
  shows "dr_frame same_objects r"
proof -
  have "kube_frame same_objects (dr_Lib r) (dr_Client r) (dr_gateReader r)"
    using assms(1) unfolding dr_kube_def
    by (rule kube_frame_weaken) (simp_all add: same_objects.frame_axioms same_zfs_def same_objects_def)
  moreover have "zfs_frame same_objects (dr_ZFS r)"
    unfolding assms(2) zfs_frame_def zfs_frame_axioms_def
    by (simp only: same_objects.frame_axioms keeps_same_zfs_weaken(1) [OF mem_get_keeps] simp_thms)
  ultimately show ?thesis by (simp add: dr_frame_def dr_kube_def agent_frame_def)
qed

lemma sr_frame_txg:
  assumes "sr_kube same_zfs r" "sr_ZFS r = lift_ZFS mem_ZFS"
  shows "sr_frame same_txg r"
proof -
  have "kube_frame same_txg (sr_Lib r) (sr_Client r) (sr_gateReader r)"
    using assms(1) unfolding sr_kube_def
    by (rule kube_frame_weaken) (simp_all add: same_txg.frame_axioms same_zfs_def same_txg_def)
  moreover have "zfs_frame same_txg (sr_ZFS r)"
    unfolding assms(2) zfs_frame_def zfs_frame_axioms_def
    by (simp only: same_txg.frame_axioms keeps_same_zfs_weaken(2) [OF mem_get_keeps] simp_thms)
  ultimately show ?thesis by (simp add: sr_frame_def sr_kube_def agent_frame_def)
qed

end
