(* ===== verification/VolumeDelete.thy ===== *)
theory VolumeDelete
  imports Track ApiStore
begin

text \<open>
  Deleting a volume on the in-memory ZFS, from the deferred destroy of its clone-origin snapshot over
  the detach loop to the destroy: what is gone at the end and what every other dataset and snapshot
  keeps.
\<close>

subsection \<open>A non-recursive destroy\<close>

definition core :: "dataset \<Rightarrow> DatasetKind \<times> props \<times> int \<times> string" where
  "core d = (ds_kind d, ds_props d, ds_volsize d, ds_origin d)"

lemma core_del [simp]: "map_option core (map_option (del_snap x) y) = map_option core y"
  by (cases y) (simp_all add: core_def del_snap_def)

lemma core_mod [simp]: "map_option core (map_option (mod_snap x f) y) = map_option core y"
  by (cases y) (simp_all add: core_def mod_snap_def)

lemma core_dom: "map_option core x = map_option core y \<Longrightarrow> x = None \<longleftrightarrow> y = None"
  by (cases x; cases y) auto

lemma core_ds_origin: "map_option core x = map_option core y \<Longrightarrow> map_option ds_origin x = map_option ds_origin y"
  by (cases x; cases y) (auto simp: core_def)

lemma core_origin: "map_option core (map_of ds' k) = map_option core (map_of ds k) \<Longrightarrow> origin_in ds' k = origin_in ds k"
  by (auto simp: origin_in_def core_def split: option.splits)

lemma dropIfDone_keeps:
  assumes "names_ok (m_ds m)"
  shows "map_option core (map_of (m_ds (dropIfDone og m)) k) = map_option core (map_of (m_ds m) k)"
    "snap_in (m_ds m) dn sn = Some s \<Longrightarrow> \<not> sn_deferred s \<Longrightarrow> snap_in (m_ds (dropIfDone og m)) dn sn = Some s"
    "snap_in (m_ds (dropIfDone og m)) dn sn = Some s \<Longrightarrow> snap_in (m_ds m) dn sn = Some s"
proof -
  have "m_ds (dropIfDone og m) = m_ds m \<or>
    (\<exists>dn sn t. snap_in (m_ds m) dn sn = Some t \<and> sn_deferred t \<and> m_ds (dropIfDone og m) = mmod dn (del_snap sn) (m_ds m))"
    by (auto simp: dropIfDone_def mod_ds_def snap_at_snap_in split: prod.splits option.splits)
  then show "map_option core (map_of (m_ds (dropIfDone og m)) k) = map_option core (map_of (m_ds m) k)"
    "snap_in (m_ds m) dn sn = Some s \<Longrightarrow> \<not> sn_deferred s \<Longrightarrow> snap_in (m_ds (dropIfDone og m)) dn sn = Some s"
    "snap_in (m_ds (dropIfDone og m)) dn sn = Some s \<Longrightarrow> snap_in (m_ds m) dn sn = Some s"
    by (auto simp: snap_in_del [OF assms] split: if_splits)
qed

lemma Destroy_cases:
  assumes "is_name n" "Mem_Destroy n False m = (m', e)"
  shows "(m_ds m' = m_ds m \<and> (e = None \<longrightarrow> map_of (m_ds m) n = None)) \<or>
    (\<exists>d og m1. e = None \<and> map_of (m_ds m) n = Some d \<and> ds_snaps d = [] \<and> m_ds m1 = mdels [n] (m_ds m) \<and>
       (m' = m1 \<or> m' = dropIfDone og m1))"
proof -
  define m1 where "m1 = record_call (''destroy '' @ n) m"
  obtain m2 e2 where i: "injected ''destroy'' n m1 = (m2, e2)" by fastforce
  have m2: "m_ds m2 = m_ds m" using injected_same [OF i] by (simp only: m1_def record_call_same)
  have D: "Mem_Destroy n False m = (case e2 of Some e \<Rightarrow> (m2, Some e) | None \<Rightarrow> destroy_dataset n False m2)"
    unfolding Mem_Destroy_def m1_def [symmetric] i prod.case split_name_plain [OF assms(1)] by (simp split: option.splits)
  show ?thesis
  proof (cases e2)
    case (Some x)
    then show ?thesis using D assms(2) m2 by auto
  next
    case None
    then have dd: "destroy_dataset n False m2 = (m', e)" using D assms(2) by simp
    show ?thesis
    proof (cases "map_of (m_ds m) n")
      case None
      then show ?thesis using dd m2 by (simp add: destroy_dataset_def)
    next
      case (Some d)
      obtain m3 e3 where f: "fresh_busy n d m2 = (m3, e3)" by fastforce
      have m3: "m_ds m3 = m_ds m" using fresh_busy_same [OF f] m2 by simp
      have "m' = m3 \<and> e \<noteq> None \<or> e = None \<and> ds_snaps d = [] \<and> m' = remove_tree [n] m3"
        using dd unfolding destroy_dataset_def m2 Some option.case f prod.case Let_def
        by (auto split: option.splits if_splits)
      moreover define m4 where "m4 = m3\<lparr>m_ds := mdels [n] (m_ds m3), m_freshZvol := mdels [n] (m_freshZvol m3)\<rparr>"
      moreover have "remove_tree [n] m3 = m4 \<or> (\<exists>og. remove_tree [n] m3 = dropIfDone og m4)"
        by (auto simp: remove_tree_def tree_origins_def m4_def)
      moreover have "m_ds m4 = mdels [n] (m_ds m)" using m3 by (simp add: m4_def)
      ultimately show ?thesis using m3 Some by blast
    qed
  qed
qed

lemma Destroy_keeps:
  assumes inv: "mem_inv m" and n: "is_name n" and D: "Mem_Destroy n False m = (m', e)"
  shows "k \<noteq> n \<Longrightarrow> map_option core (map_of (m_ds m') k) = map_option core (map_of (m_ds m) k)"
    "snap_in (m_ds m) dn sn = Some s \<Longrightarrow> \<not> sn_deferred s \<Longrightarrow> snap_in (m_ds m') dn sn = Some s"
    "snap_in (m_ds m') dn sn = Some s \<Longrightarrow> snap_in (m_ds m) dn sn = Some s"
    "e = None \<Longrightarrow> map_of (m_ds m') n = None"
proof -
  have nm: "names_ok (m_ds m)" using inv by (simp add: mem_inv_def ds_inv_def)
  consider (same) "m_ds m' = m_ds m" "e = None \<longrightarrow> map_of (m_ds m) n = None"
    | (gone) d og m1 where "e = None" "map_of (m_ds m) n = Some d" "ds_snaps d = []" "m_ds m1 = mdels [n] (m_ds m)" "m' = m1 \<or> m' = dropIfDone og m1"
    using Destroy_cases [OF n D] by blast
  then have "(k \<noteq> n \<longrightarrow> map_option core (map_of (m_ds m') k) = map_option core (map_of (m_ds m) k)) \<and>
    (snap_in (m_ds m) dn sn = Some s \<and> \<not> sn_deferred s \<longrightarrow> snap_in (m_ds m') dn sn = Some s) \<and>
    (snap_in (m_ds m') dn sn = Some s \<longrightarrow> snap_in (m_ds m) dn sn = Some s) \<and> (e = None \<longrightarrow> map_of (m_ds m') n = None)"
  proof cases
    case gone
    have nm1: "names_ok (m_ds m1)" using nm gone(4) by (auto simp: names_ok_def)
    have a: "map_option core (map_of (m_ds m') j) = map_option core (map_of (m_ds m1) j)" for j
      using gone(5) dropIfDone_keeps(1) [OF nm1] by auto
    have b: "snap_in (m_ds m1) dn sn = Some s \<Longrightarrow> \<not> sn_deferred s \<Longrightarrow> snap_in (m_ds m') dn sn = Some s"
      "snap_in (m_ds m') dn sn = Some s \<Longrightarrow> snap_in (m_ds m1) dn sn = Some s"
      using gone(5) dropIfDone_keeps(2,3) [OF nm1] by metis+
    have s: "snap_in (m_ds m1) dn sn = snap_in (m_ds m) dn sn" using gone(2,3,4) by (simp add: snap_in_def)
    have "map_of (m_ds m') n = None" using a [of n] gone(4) by simp
    then show ?thesis using a [of k] b s gone(4) by simp
  qed simp
  then show "k \<noteq> n \<Longrightarrow> map_option core (map_of (m_ds m') k) = map_option core (map_of (m_ds m) k)"
    "snap_in (m_ds m) dn sn = Some s \<Longrightarrow> \<not> sn_deferred s \<Longrightarrow> snap_in (m_ds m') dn sn = Some s"
    "snap_in (m_ds m') dn sn = Some s \<Longrightarrow> snap_in (m_ds m) dn sn = Some s"
    "e = None \<Longrightarrow> map_of (m_ds m') n = None" by simp_all
qed

subsection \<open>Releasing the clone origin\<close>

lemma DSD_keeps:
  assumes inv: "mem_inv m" and D: "Mem_DestroySnapshotDeferred t m = (m', e)"
  shows "map_option core (map_of (m_ds m') k) = map_option core (map_of (m_ds m) k)"
    "snap_full dn sn \<noteq> t \<Longrightarrow> snap_in (m_ds m') dn sn = snap_in (m_ds m) dn sn"
    "snap_in (m_ds m') dn sn = Some s' \<Longrightarrow> \<exists>s. snap_in (m_ds m) dn sn = Some s \<and> sn_txg s = sn_txg s'"
    "cloned (m_ds m') full = cloned (m_ds m) full"
proof -
  have nm: "names_ok (m_ds m)" using inv by (simp add: mem_inv_def ds_inv_def)
  consider (same) "m_ds m' = m_ds m"
    | (del) a b where "t = snap_full a b" "m_ds m' = mmod a (del_snap b) (m_ds m)"
    | (mark) a b where "t = snap_full a b" "m_ds m' = mmod a (mod_snap b (\<lambda>s. s\<lparr>sn_deferred := True\<rparr>)) (m_ds m)"
    using DSD_cases [OF D] split_name_snap by (metis (no_types, lifting))
  then have main: "(\<forall>k. map_option core (map_of (m_ds m') k) = map_option core (map_of (m_ds m) k)) \<and>
    (snap_full dn sn \<noteq> t \<longrightarrow> snap_in (m_ds m') dn sn = snap_in (m_ds m) dn sn) \<and>
    (snap_in (m_ds m') dn sn = Some s' \<longrightarrow> (\<exists>s. snap_in (m_ds m) dn sn = Some s \<and> sn_txg s = sn_txg s'))"
  proof cases
    case del
    then show ?thesis by (auto simp: snap_in_del [OF nm] split: if_splits)
  next
    case mark
    have "snap_in (m_ds m') x y = (if x = a \<and> y = b then map_option (\<lambda>s. s\<lparr>sn_deferred := True\<rparr>) (snap_in (m_ds m) x y)
        else snap_in (m_ds m) x y)" for x y
      using mark(2) by (auto simp: snap_in_def mod_snap_def split: option.splits)
    then show ?thesis using mark by (auto split: if_splits)
  qed auto
  then show "map_option core (map_of (m_ds m') k) = map_option core (map_of (m_ds m) k)"
    "snap_full dn sn \<noteq> t \<Longrightarrow> snap_in (m_ds m') dn sn = snap_in (m_ds m) dn sn"
    "snap_in (m_ds m') dn sn = Some s' \<Longrightarrow> \<exists>s. snap_in (m_ds m) dn sn = Some s \<and> sn_txg s = sn_txg s'" by blast+
  have "map_option ds_origin (map_of (m_ds m') k) = map_option ds_origin (map_of (m_ds m) k)" for k
    using main core_ds_origin by blast
  then show "cloned (m_ds m') full = cloned (m_ds m) full" unfolding cloned_alt by simp
qed

text \<open>What \<open>releaseCloneOrigin\<close> touches at most: one snapshot whose name ends in the clone suffix.\<close>

definition own_suffix :: "ZfsDataset \<Rightarrow> string" where
  "own_suffix vol = ''@clone-'' @ cloneSnapshotSuffix (om_Name (zd_Meta vol))"

lemma releaseCloneOrigin_mem:
  assumes "releaseCloneOrigin (lift_ZFS mem_ZFS) vol full w = (w', e)"
  shows "(fst w' = fst w) \<or> (\<exists>t. HasSuffix t (own_suffix vol) \<and> Mem_DestroySnapshotDeferred t (fst w) = (fst w', e))"
proof -
  have get: "Get (lift_ZFS mem_ZFS) n p w = (w, snd (Mem_Get n p (fst w)))" for n p
    by (cases w) (simp add: mem_ZFS_def lift_op_def Mem_Get_def)
  have dsd: "DestroySnapshotDeferred (lift_ZFS mem_ZFS) t w = (w', e) \<Longrightarrow> Mem_DestroySnapshotDeferred t (fst w) = (fst w', e)" for t
    by (simp add: mem_ZFS_def lift_op_eq)
  have "HasSuffix (full @ own_suffix vol) (own_suffix vol)" by (auto simp: HasSuffix_iff)
  then show ?thesis using assms dsd
    unfolding releaseCloneOrigin_def Let_def get prod.case own_suffix_def [symmetric]
    by (auto split: option.splits if_splits sum.splits)
qed

subsection \<open>The whole deletion\<close>

text \<open>
  What a deletion of \<open>full\<close> leaves of everything else: every other dataset with its kind, properties and
  size; every snapshot that is not already marked for destruction and is not the volume's own clone
  origin, when it is on another dataset or something still clones it.
\<close>

definition keeps_others :: "string \<Rightarrow> string \<Rightarrow> dsmap \<Rightarrow> dsmap \<Rightarrow> bool" where
  "keeps_others full suffix ds ds' \<longleftrightarrow>
     (\<forall>n. n \<noteq> full \<longrightarrow> map_option (\<lambda>d. (ds_kind d, ds_props d, ds_volsize d)) (map_of ds' n) =
          map_option (\<lambda>d. (ds_kind d, ds_props d, ds_volsize d)) (map_of ds n)) \<and>
     (\<forall>dn sn s. snap_in ds dn sn = Some s \<longrightarrow> \<not> sn_deferred s \<longrightarrow> \<not> HasSuffix (snap_full dn sn) suffix \<longrightarrow>
        dn \<noteq> full \<or> cloned ds (snap_full dn sn) \<longrightarrow>
        (\<exists>dn'. snap_in ds' dn' sn = Some s \<and> (dn \<noteq> full \<longrightarrow> dn' = dn)))"

lemma core_weaken: "map_option core x = map_option core y \<Longrightarrow>
    map_option (\<lambda>d. (ds_kind d, ds_props d, ds_volsize d)) x = map_option (\<lambda>d. (ds_kind d, ds_props d, ds_volsize d)) y"
  by (cases x; cases y) (auto simp: core_def)

text \<open>The three stages, as the agent runs them, with any outcome.\<close>

lemma release_step:
  assumes inv: "mem_inv (fst w)" and rel: "releaseCloneOrigin (lift_ZFS mem_ZFS) vol full w = (w1, e1)"
  shows "mem_inv (fst w1)" "map_option core (map_of (m_ds (fst w1)) k) = map_option core (map_of (m_ds (fst w)) k)"
    "\<not> HasSuffix (snap_full dn sn) (own_suffix vol) \<Longrightarrow> snap_in (m_ds (fst w1)) dn sn = snap_in (m_ds (fst w)) dn sn"
    "snap_in (m_ds (fst w1)) dn sn = Some s' \<Longrightarrow> \<exists>s. snap_in (m_ds (fst w)) dn sn = Some s \<and> sn_txg s = sn_txg s'"
    "cloned (m_ds (fst w1)) x = cloned (m_ds (fst w)) x"
proof -
  consider "fst w1 = fst w" | t where "HasSuffix t (own_suffix vol)" "Mem_DestroySnapshotDeferred t (fst w) = (fst w1, e1)"
    using releaseCloneOrigin_mem [OF rel] by blast
  then have "mem_inv (fst w1) \<and> map_option core (map_of (m_ds (fst w1)) k) = map_option core (map_of (m_ds (fst w)) k) \<and>
    (\<not> HasSuffix (snap_full dn sn) (own_suffix vol) \<longrightarrow> snap_in (m_ds (fst w1)) dn sn = snap_in (m_ds (fst w)) dn sn) \<and>
    (snap_in (m_ds (fst w1)) dn sn = Some s' \<longrightarrow> (\<exists>s. snap_in (m_ds (fst w)) dn sn = Some s \<and> sn_txg s = sn_txg s')) \<and>
    cloned (m_ds (fst w1)) x = cloned (m_ds (fst w)) x"
  proof cases
    case 1
    then show ?thesis using inv by simp
  next
    case (2 t)
    have "mem_inv (fst w1)" using DestroySnapshotDeferred_inv [OF inv, of t] 2(2) by simp
    moreover have "\<not> HasSuffix (snap_full dn sn) (own_suffix vol) \<Longrightarrow> snap_full dn sn \<noteq> t" using 2(1) by auto
    ultimately show ?thesis using DSD_keeps [OF inv 2(2)] by metis
  qed
  then show "mem_inv (fst w1)" "map_option core (map_of (m_ds (fst w1)) k) = map_option core (map_of (m_ds (fst w)) k)"
    "\<not> HasSuffix (snap_full dn sn) (own_suffix vol) \<Longrightarrow> snap_in (m_ds (fst w1)) dn sn = snap_in (m_ds (fst w)) dn sn"
    "snap_in (m_ds (fst w1)) dn sn = Some s' \<Longrightarrow> \<exists>s. snap_in (m_ds (fst w)) dn sn = Some s \<and> sn_txg s = sn_txg s'"
    "cloned (m_ds (fst w1)) x = cloned (m_ds (fst w)) x" by blast+
qed

text \<open>Releasing the clone origin and emptying the dataset.\<close>

lemma before_destroy_step:
  assumes inv: "mem_inv (fst w)" and q: "quiet_reader mem_view (dr_gateReader r)" and Z: "dr_ZFS r = lift_ZFS mem_ZFS"
    and bd: "beforeDestroy r vol p full w = (w2, e)"
  obtains w1 e1 where "releaseCloneOrigin (lift_ZFS mem_ZFS) vol full w = (w1, e1)"
    "mg.shed full (mem_view w1) (mem_view w2)" "mem_inv (fst w2)"
proof -
  obtain w1 e1 where rel: "releaseCloneOrigin (lift_ZFS mem_ZFS) vol full w = (w1, e1)" by fastforce
  have inv1: "mem_inv (fst w1)" using release_step(1) [OF inv rel] .
  have "mg.shed full (mem_view w1) (mem_view w2)"
  proof (cases e1)
    case None
    then have "detachAndCleanSnapshots (dr_gateReader r) (lift_ZFS mem_ZFS) (zds_PoolGUID (zd_Spec vol)) p full w1 = (w2, e)"
      using bd rel by (simp add: beforeDestroy_def Z)
    then show ?thesis using mg.detach_rounds_shed [OF q] inv1 unfolding detachAndCleanSnapshots_def mem_inv_view by blast
  next
    case (Some x)
    then show ?thesis using bd rel inv1 by (auto simp: beforeDestroy_def Z mem_inv_view intro: mg.shed.refl)
  qed
  then show ?thesis using that rel mg.shed_inv mem_inv_view by metis
qed

lemma before_destroy_keeps:
  assumes inv: "mem_inv (fst w)" and q: "quiet_reader mem_view (dr_gateReader r)" and Z: "dr_ZFS r = lift_ZFS mem_ZFS"
    and bd: "beforeDestroy r vol p full w = (w2, e)"
  shows "mem_inv (fst w2)" "keeps_others full (own_suffix vol) (m_ds (fst w)) (m_ds (fst w2))"
proof -
  obtain w1 e1 where st: "releaseCloneOrigin (lift_ZFS mem_ZFS) vol full w = (w1, e1)"
    "mg.shed full (mem_view w1) (mem_view w2)" "mem_inv (fst w2)" using before_destroy_step [OF assms] by metis
  show "mem_inv (fst w2)" by fact
  note rel = release_step [OF inv st(1)]
  have kd: "keeps_data full (m_ds (fst w1)) (m_ds (fst w2))" using shed_keeps [OF st(2)] by (simp add: mem_view_def)
  have "map_option (\<lambda>d. (ds_kind d, ds_props d, ds_volsize d)) (map_of (m_ds (fst w2)) n) =
      map_option (\<lambda>d. (ds_kind d, ds_props d, ds_volsize d)) (map_of (m_ds (fst w)) n)" for n
    using kd core_weaken [OF rel(2)] unfolding keeps_data_def by simp
  moreover have "\<exists>dn'. snap_in (m_ds (fst w2)) dn' sn = Some s \<and> (dn \<noteq> full \<longrightarrow> dn' = dn)"
    if "snap_in (m_ds (fst w)) dn sn = Some s" "\<not> HasSuffix (snap_full dn sn) (own_suffix vol)"
      "dn \<noteq> full \<or> cloned (m_ds (fst w)) (snap_full dn sn)" for dn sn s
    using kd that rel(3) [OF that(2)] rel(5) unfolding keeps_data_def by metis
  ultimately show "keeps_others full (own_suffix vol) (m_ds (fst w)) (m_ds (fst w2))" unfolding keeps_others_def by blast
qed

lemma keeps_others_destroy:
  assumes k: "keeps_others full suf ds (m_ds m)" and inv: "mem_inv m" and n: "is_name full"
    and D: "Mem_Destroy full False m = (m', e)"
  shows "keeps_others full suf ds (m_ds m')"
proof -
  have "map_option (\<lambda>d. (ds_kind d, ds_props d, ds_volsize d)) (map_of (m_ds m') n) =
      map_option (\<lambda>d. (ds_kind d, ds_props d, ds_volsize d)) (map_of ds n)" if "n \<noteq> full" for n
    using k core_weaken [OF Destroy_keeps(1) [OF inv n D that]] that unfolding keeps_others_def by simp
  moreover have "\<exists>dn'. snap_in (m_ds m') dn' sn = Some s \<and> (dn \<noteq> full \<longrightarrow> dn' = dn)"
    if "snap_in ds dn sn = Some s" "\<not> sn_deferred s" "\<not> HasSuffix (snap_full dn sn) suf" "dn \<noteq> full \<or> cloned ds (snap_full dn sn)" for dn sn s
    using k that Destroy_keeps(2) [OF inv n D] unfolding keeps_others_def by metis
  ultimately show ?thesis unfolding keeps_others_def by blast
qed

subsection \<open>Snapshots of a deleted volume stay restorable\<close>

lemma raw_at_sub:
  assumes "raw_at ds b sn r" "origin_in ds' b = origin_in ds b" "snap_in ds' r sn = snap_in ds r sn"
    "\<And>x t. snap_in ds' b x = Some t \<Longrightarrow> \<exists>s. snap_in ds b x = Some s \<and> sn_txg s = sn_txg t"
  shows "raw_at ds' b sn r"
proof -
  have none: "(\<forall>x. snap_in ds b x = None) \<Longrightarrow> snap_in ds' b x = None" for x
    using assms(4) [of x] by (cases "snap_in ds' b x") auto
  have "clone_of_raw ds b sn r \<Longrightarrow> clone_of_raw ds' b sn r" using assms(2,3) none by (auto simp: clone_of_raw_def)
  moreover have "owns_raw ds' b sn" if o: "owns_raw ds b sn" "r = b"
  proof -
    obtain s where s: "snap_in ds b sn = Some s" "\<And>x t. snap_in ds b x = Some t \<Longrightarrow> x \<noteq> sn \<Longrightarrow> sn_txg t < sn_txg s"
      using o(1) by (auto simp: owns_raw_def)
    have "sn_txg t < sn_txg s" if "snap_in ds' b x = Some t" "x \<noteq> sn" for x t using assms(4) [OF that(1)] s(2) that(2) by metis
    then show ?thesis using s(1) assms(3) o(2) by (auto simp: owns_raw_def)
  qed
  ultimately show ?thesis using assms(1) by (auto simp: raw_at_def)
qed

lemma before_destroy_raw:
  assumes inv: "mem_inv (fst w)" and q: "quiet_reader mem_view (dr_gateReader r)" and Z: "dr_ZFS r = lift_ZFS mem_ZFS"
    and bd: "beforeDestroy r vol p full w = (w2, e)"
    and dn: "driver_names (m_ds (fst w))" and raw: "raw_at (m_ds (fst w)) b sn rr" and b: "b \<noteq> full"
    and suf: "\<not> HasSuffix (snap_full rr sn) (own_suffix vol)"
  obtains r' where "driver_names (m_ds (fst w2))" "raw_at (m_ds (fst w2)) b sn r'"
    "snap_in (m_ds (fst w2)) r' sn = snap_in (m_ds (fst w)) rr sn"
proof -
  obtain w1 e1 where st: "releaseCloneOrigin (lift_ZFS mem_ZFS) vol full w = (w1, e1)"
    "mg.shed full (mem_view w1) (mem_view w2)" using before_destroy_step [OF inv q Z bd] by metis
  note rel = release_step [OF inv st(1)]
  have "map_of (m_ds (fst w1)) n \<noteq> None \<Longrightarrow> map_of (m_ds (fst w)) n \<noteq> None" for n using core_dom [OF rel(2) [of n]] by simp
  then have dn1: "driver_names (m_ds (fst w1))" by (rule driver_names_sub [OF dn]) (use rel(4) in blast)+
  have raw1: "raw_at (m_ds (fst w1)) b sn rr"
    by (rule raw_at_sub [OF raw core_origin [OF rel(2)] rel(3) [OF suf]]) (use rel(4) in blast)
  from shed_raw_at [OF st(2)] dn1 have dn2: "driver_names (m_ds (fst w2))" by (simp add: mem_view_def)
  from shed_raw_at [OF st(2)] dn1 raw1 b obtain r'
    where "raw_at (m_ds (fst w2)) b sn r'" "snap_in (m_ds (fst w2)) r' sn = snap_in (m_ds (fst w1)) rr sn"
    unfolding mem_view_def by (metis snd_conv)
  then show ?thesis using that dn2 rel(3) [OF suf] by simp
qed

lemma destroy_raw:
  assumes inv: "mem_inv m" and n: "is_name full" and D: "Mem_Destroy full False m = (m', e)"
    and dn: "driver_names (m_ds m)" and raw: "raw_at (m_ds m) b sn rr" and b: "b \<noteq> full"
    and s: "snap_in (m_ds m) rr sn = Some s" "\<not> sn_deferred s"
  shows "driver_names (m_ds m')" "raw_at (m_ds m') b sn rr" "snap_in (m_ds m') rr sn = Some s"
proof -
  note k = Destroy_keeps [OF inv n D]
  have "map_of (m_ds m') j \<noteq> None \<Longrightarrow> map_of (m_ds m) j \<noteq> None" for j
  proof (cases "j = full")
    case True
    then show "map_of (m_ds m') j \<noteq> None \<Longrightarrow> map_of (m_ds m) j \<noteq> None" using Destroy_cases [OF n D] k(4) by auto
  next
    case False
    then show "map_of (m_ds m') j \<noteq> None \<Longrightarrow> map_of (m_ds m) j \<noteq> None" using core_dom [OF k(1) [of j]] by simp
  qed
  then show "driver_names (m_ds m')" by (rule driver_names_sub [OF dn]) (use k(3) in blast)+
  show t: "snap_in (m_ds m') rr sn = Some s" using k(2) [OF s] .
  show "raw_at (m_ds m') b sn rr"
    by (rule raw_at_sub [OF raw core_origin [OF k(1) [OF b]]]) (use t s(1) k(3) in auto)
qed

subsection \<open>The agent\<close>

text \<open>A pass of the agent over a volume that is being deleted, on the node that serves its pool.\<close>

definition deletes :: "(Mem \<times> 'k) ZfsDatasetReconciler \<Rightarrow> string \<Rightarrow> Mem \<times> 'k \<Rightarrow> ZfsDataset \<Rightarrow> ZfsPool \<Rightarrow> string \<Rightarrow> bool" where
  "deletes r req w vol p full \<longleftrightarrow>
     (\<exists>w1 w2. get_ZfsDataset (dr_Client r) req w = (w1, Inr vol) \<and>
        get_pool (dr_Client r) (zds_PoolGUID (zd_Spec vol)) w1 = (w2, Inr (Some p))) \<and>
     om_DeletionTimestamp (zd_Meta vol) \<noteq> None \<and> zfsDatasetFinalizer \<in> set (om_Finalizers (zd_Meta vol)) \<and>
     hosted_here (dr_NodeName r) (Some p) \<and>
     datasetName (zpst_PoolName (zp_Status p)) (zds_Dataset (zd_Spec vol)) = Inr full \<and> is_name full"

lemma deletes_cases:
  assumes k: "dr_kube same_zfs r" and Z: "dr_ZFS r = lift_ZFS mem_ZFS" and d: "deletes r req w vol p full"
    and run: "dr_Reconcile r req w = (w', res, e)"
  obtains w2 w3 e3 where "fst w2 = fst w" "beforeDestroy r vol (zpst_PoolName (zp_Status p)) full w2 = (w3, e3)"
    "e3 \<noteq> None \<Longrightarrow> fst w' = fst w3 \<and> e \<noteq> None"
    "e3 = None \<Longrightarrow> \<exists>ed. Mem_Destroy full False (fst w3) = (fst w', ed) \<and> (e = None \<longrightarrow> ed = None)"
proof -
  obtain w1 w2 where g: "get_ZfsDataset (dr_Client r) req w = (w1, Inr vol)"
    "get_pool (dr_Client r) (zds_PoolGUID (zd_Spec vol)) w1 = (w2, Inr (Some p))" using d by (auto simp: deletes_def)
  have "same_zfs w w2" by (rule dr_kube.reads_keep [OF k g])
  then have w2: "fst w2 = fst w" by (simp add: same_zfs_def)
  have kf: "kube_frame same_zfs (dr_Lib r) (dr_Client r) (dr_gateReader r)" using k by (simp add: dr_kube_def)
  have fin: "ContainsFinalizer (dr_Lib r) (zd_Meta vol) zfsDatasetFinalizer"
    using d kube_lib.ContainsFinalizer_iff [of "dr_Lib r"] kf by (simp add: deletes_def kube_frame_def)
  have D: "dr_delete r vol (Some p) w2 = (w', res, e)" using run g d by (simp add: dr_Reconcile_def deletes_def)
  obtain w3 e3 where bd: "beforeDestroy r vol (zpst_PoolName (zp_Status p)) full w2 = (w3, e3)" by fastforce
  have st: "fst (fst (dr_setStatus r vol ph pa re ms w3)) = fst w3" for ph pa re ms
    using keeps_fst [OF dr_kube.keeps_dr_setStatus [OF k]] by (simp add: same_zfs_def)
  have rf: "fst (fst (dr_releaseFinalizer r vol w4)) = fst w4" for w4
    using keeps_fst [OF dr_kube.keeps_dr_releaseFinalizer [OF k]] by (simp add: same_zfs_def)
  show ?thesis
  proof (cases e3)
    case (Some x)
    then have "fst w' = fst w3 \<and> e \<noteq> None" using D d fin bd st by (auto simp: dr_delete_def deletes_def)
    then show ?thesis using that w2 bd Some by blast
  next
    case None
    obtain w4 ed where ds: "Destroy (dr_ZFS r) full False w3 = (w4, ed)" by fastforce
    have "Mem_Destroy full False (fst w3) = (fst w4, ed)" using ds by (simp add: Z mem_ZFS_def lift_op_eq)
    moreover have "fst w' = fst w4 \<and> (e = None \<longrightarrow> ed = None)"
      using D d fin bd None ds rf [of w4] by (auto simp: dr_delete_def deletes_def done_with_def split: option.splits)
    ultimately have "\<exists>ed. Mem_Destroy full False (fst w3) = (fst w', ed) \<and> (e = None \<longrightarrow> ed = None)" by simp
    then show ?thesis using that w2 bd None by blast
  qed
qed

lemma kube_quiet_reader:
  assumes "dr_kube same_zfs r"
  shows "quiet_reader mem_view (dr_gateReader r)"
proof -
  have kf: "kube_frame same_zfs (dr_Lib r) (dr_Client r) (dr_gateReader r)" using assms by (simp add: dr_kube_def)
  show ?thesis using keeps_fst [OF kube_frame.gate_keeps(4) [OF kf]] keeps_fst [OF kube_frame.gate_keeps(5) [OF kf]]
    by (simp add: quiet_reader_def same_zfs_def mem_view_def)
qed

lemma reconcile_deletes:
  assumes k: "dr_kube same_zfs r" and Z: "dr_ZFS r = lift_ZFS mem_ZFS" and inv: "mem_inv (fst w)"
    and d: "deletes r req w vol p full" and run: "dr_Reconcile r req w = (w', res, e)"
  shows "mem_inv (fst w')" "keeps_others full (own_suffix vol) (m_ds (fst w)) (m_ds (fst w'))"
    "e = None \<Longrightarrow> map_of (m_ds (fst w')) full = None"
proof -
  obtain w2 w3 e3 where st: "fst w2 = fst w" "beforeDestroy r vol (zpst_PoolName (zp_Status p)) full w2 = (w3, e3)"
    "e3 \<noteq> None \<Longrightarrow> fst w' = fst w3 \<and> e \<noteq> None"
    "e3 = None \<Longrightarrow> \<exists>ed. Mem_Destroy full False (fst w3) = (fst w', ed) \<and> (e = None \<longrightarrow> ed = None)"
    using deletes_cases [OF k Z d run] by metis
  have n: "is_name full" using d by (simp add: deletes_def)
  have b: "mem_inv (fst w3)" "keeps_others full (own_suffix vol) (m_ds (fst w)) (m_ds (fst w3))"
    using before_destroy_keeps [OF _ kube_quiet_reader [OF k] Z st(2)] inv st(1) by simp_all
  have "mem_inv (fst w') \<and> keeps_others full (own_suffix vol) (m_ds (fst w)) (m_ds (fst w')) \<and>
    (e = None \<longrightarrow> map_of (m_ds (fst w')) full = None)"
  proof (cases e3)
    case None
    then obtain ed where ed: "Mem_Destroy full False (fst w3) = (fst w', ed)" "e = None \<longrightarrow> ed = None" using st(4) by blast
    have "mem_inv (fst w')" using Destroy_inv [OF b(1), of full False] ed(1) by simp
    then show ?thesis using keeps_others_destroy [OF b(2,1) n ed(1)] Destroy_keeps(4) [OF b(1) n ed(1)] ed(2) by blast
  qed (use st(3) b in auto)
  then show "mem_inv (fst w')" "keeps_others full (own_suffix vol) (m_ds (fst w)) (m_ds (fst w'))"
    "e = None \<Longrightarrow> map_of (m_ds (fst w')) full = None" by blast+
qed

lemma reconcile_deletes_restorable:
  assumes k: "dr_kube same_zfs r" and Z: "dr_ZFS r = lift_ZFS mem_ZFS" and inv: "mem_inv (fst w)"
    and d: "deletes r req w vol p full" and run: "dr_Reconcile r req w = (w', res, e)"
    and dn: "driver_names (m_ds (fst w))" and raw: "raw_at (m_ds (fst w)) b sn rr" and b: "b \<noteq> full"
    and s: "snap_in (m_ds (fst w)) rr sn = Some s" "\<not> sn_deferred s" and suf: "sn \<noteq> ''clone-'' @ om_Name (zd_Meta vol)"
  shows "\<exists>r'. locateRawSnapshot (lift_ZFS mem_ZFS) b recorded sn w' = (w', Inr (snap_full r' sn)) \<and>
    snap_in (m_ds (fst w')) r' sn = Some s"
proof -
  obtain w2 w3 e3 where st: "fst w2 = fst w" "beforeDestroy r vol (zpst_PoolName (zp_Status p)) full w2 = (w3, e3)"
    "e3 \<noteq> None \<Longrightarrow> fst w' = fst w3 \<and> e \<noteq> None"
    "e3 = None \<Longrightarrow> \<exists>ed. Mem_Destroy full False (fst w3) = (fst w', ed) \<and> (e = None \<longrightarrow> ed = None)"
    using deletes_cases [OF k Z d run] by metis
  have n: "is_name full" using d by (simp add: deletes_def)
  have inv2: "mem_inv (fst w2)" using inv st(1) by simp
  have psn: "plain sn" using driver_plain [OF dn s(1)] by simp
  have suf': "\<not> HasSuffix (snap_full rr sn) (own_suffix vol)"
  proof
    assume "HasSuffix (snap_full rr sn) (own_suffix vol)"
    then obtain t where t: "rr @ CHR ''@'' # sn = t @ CHR ''@'' # ''clone-'' @ om_Name (zd_Meta vol)"
      by (auto simp: HasSuffix_iff snap_full_def own_suffix_def cloneSnapshotSuffix_def)
    have "is_name rr" using names_ok_snap [OF _ s(1)] inv by (simp add: mem_inv_def ds_inv_def)
    have "CHR ''@'' \<notin> set rr" "CHR ''@'' \<notin> set sn" using \<open>is_name rr\<close> psn by (auto simp: is_name_def plain_def)
    then show False using t suf append_Cons_eq_iff [of "CHR ''@''" rr sn] by simp
  qed
  obtain r' where r': "driver_names (m_ds (fst w3))" "raw_at (m_ds (fst w3)) b sn r'" "snap_in (m_ds (fst w3)) r' sn = Some s"
    using before_destroy_raw [OF inv2 kube_quiet_reader [OF k] Z st(2) _ _ b] dn raw suf' s(1) st(1) by metis
  have inv3: "mem_inv (fst w3)" using before_destroy_keeps(1) [OF inv2 kube_quiet_reader [OF k] Z st(2)] .
  have "driver_names (m_ds (fst w')) \<and> raw_at (m_ds (fst w')) b sn r' \<and> snap_in (m_ds (fst w')) r' sn = Some s"
  proof (cases e3)
    case None
    then obtain ed where "Mem_Destroy full False (fst w3) = (fst w', ed)" using st(4) by blast
    then show ?thesis using destroy_raw [OF inv3 n _ r'(1,2) b r'(3) s(2)] by blast
  qed (use st(3) r' in auto)
  then show ?thesis using locate_mem [of w' b sn r'] reconcile_deletes(1) [OF k Z inv d run] by blast
qed

end
