(* ===== verification/GroupMem.thy ===== *)
theory GroupMem
  imports GroupSafety VolumeDelete
begin

text \<open>
  The group agent on the in-memory ZFS: a pass over a new group takes no snapshot, or all of them in
  one transaction group; deleting a group destroys no snapshot but unclaimed ones of its members.
\<close>

definition demo_gr :: "string \<Rightarrow> (Mem \<times> api) ZfsGroupSnapshotReconciler" where
  "demo_gr node = \<lparr>gr_Client = api_client, gr_Lib = std_lib (\<lambda>w. 7), gr_NodeName = node,
     gr_ZFS = lift_ZFS mem_ZFS, gr_APIReader = Some api_reader\<rparr>"

interpretation demo_gr: gr_frame same_zfs "demo_gr node"
  using api_agent.agent_frame_axioms [of "\<lambda>w. 7"] api_frame.kube_frame_axioms [of "\<lambda>w. 7"]
  by (simp add: gr_frame_def gr_kube_def demo_gr_def gr_gateReader_def)

lemma gr_frame_mem:
  assumes "gr_kube same_zfs r" "gr_ZFS r = lift_ZFS mem_ZFS"
  shows "gr_frame same_zfs r"
  using assms mem_frame.zfs_frame_axioms by (simp add: gr_frame_def gr_kube_def agent_frame_def)

text \<open>Every snapshot is where it was, or the named ones are new and share one transaction group.\<close>

definition took :: "string list \<Rightarrow> Mem \<Rightarrow> Mem \<Rightarrow> bool" where
  "took names m m' \<longleftrightarrow>
     m_txg m' = m_txg m + 1 \<and>
     (\<forall>dn sn. snap_in (m_ds m') dn sn =
        (if snap_full dn sn \<in> set names \<and> is_name dn then Some (new_snap sn (m_txg m + 1)) else snap_in (m_ds m) dn sn)) \<and>
     (\<forall>dn sn. snap_full dn sn \<in> set names \<and> is_name dn \<longrightarrow> map_of (m_ds m) dn \<noteq> None \<and> snap_in (m_ds m) dn sn = None)"

lemma one_call_took:
  assumes "one_call same_zfs (lift_ZFS mem_ZFS) raws w w'"
  shows "(\<forall>dn sn. snap_in (m_ds (fst w')) dn sn = snap_in (m_ds (fst w)) dn sn) \<or> took raws (fst w) (fst w')"
proof -
  have "fst w' = fst w \<or> fst w' = fst (Mem_Snapshot raws (fst w))"
    using assms unfolding one_call_def same_zfs_def by (auto simp: mem_ZFS_def lift_op_def case_prod_beta)
  then show ?thesis
  proof
    assume "fst w' = fst (Mem_Snapshot raws (fst w))"
    then obtain e where "Mem_Snapshot raws (fst w) = (fst w', e)" by (metis prod.collapse)
    from Snapshot_cases [OF this] show ?thesis unfolding took_def by (elim disjE conjE) (simp, blast)
  qed simp
qed

text \<open>Datasets keep what they are, and snapshots that something clones stay.\<close>

definition keeps_cloned :: "Mem \<times> 'k \<Rightarrow> Mem \<times> 'k \<Rightarrow> bool" where
  "keeps_cloned w w' \<longleftrightarrow> (mem_inv (fst w) \<longrightarrow> mem_inv (fst w') \<and>
     (\<forall>k. map_option core (map_of (m_ds (fst w')) k) = map_option core (map_of (m_ds (fst w)) k)) \<and>
     (\<forall>dn sn s. snap_in (m_ds (fst w)) dn sn = Some s \<and> cloned (m_ds (fst w)) (snap_full dn sn) \<longrightarrow>
        snap_in (m_ds (fst w')) dn sn = Some s))"

lemma Destroy_snap_cases:
  assumes "Mem_Destroy n False m = (m', e)" "CHR ''@'' \<in> set n"
  shows "m_ds m' = m_ds m \<or> (clonesOf m n = [] \<and> m_ds m' = mmod (before CHR ''@'' n) (del_snap (after CHR ''@'' n)) (m_ds m))"
proof -
  define m1 where "m1 = record_call (''destroy '' @ n) m"
  obtain m2 e2 where i: "injected ''destroy'' n m1 = (m2, e2)" by fastforce
  have m2: "m_ds m2 = m_ds m" using injected_same [OF i] by (simp only: m1_def record_call_same)
  have c: "clonesOf m2 x = clonesOf m x" for x using m2 by (simp add: clonesOf_def)
  show ?thesis using assms m2 c unfolding Mem_Destroy_def m1_def [symmetric] i split_name_def
    by (auto simp: destroy_snapshot_def mod_ds_def Let_def split: option.splits if_splits)
qed

lemma cloned_core:
  assumes "\<forall>k. map_option core (map_of ds' k) = map_option core (map_of ds k)"
  shows "cloned ds' full = cloned ds full"
proof -
  have "(\<exists>d. map_of ds' k = Some d \<and> ds_origin d = full) = (\<exists>d. map_of ds k = Some d \<and> ds_origin d = full)" for k
    using assms [rule_format, of k] by (cases "map_of ds' k"; cases "map_of ds k") (auto simp: core_def)
  then show ?thesis unfolding cloned_def by blast
qed

interpretation keeps_cloned: frame keeps_cloned
proof
  fix w w1 w2 :: "Mem \<times> 'k"
  assume a: "keeps_cloned w w1" and b: "keeps_cloned w1 w2"
  show "keeps_cloned w w2" unfolding keeps_cloned_def
  proof (intro impI)
    assume "mem_inv (fst w)"
    then have 1: "mem_inv (fst w1)" "\<forall>k. map_option core (map_of (m_ds (fst w1)) k) = map_option core (map_of (m_ds (fst w)) k)"
      "\<forall>dn sn s. snap_in (m_ds (fst w)) dn sn = Some s \<and> cloned (m_ds (fst w)) (snap_full dn sn) \<longrightarrow> snap_in (m_ds (fst w1)) dn sn = Some s"
      using a unfolding keeps_cloned_def by blast+
    then have 2: "mem_inv (fst w2)" "\<forall>k. map_option core (map_of (m_ds (fst w2)) k) = map_option core (map_of (m_ds (fst w1)) k)"
      "\<forall>dn sn s. snap_in (m_ds (fst w1)) dn sn = Some s \<and> cloned (m_ds (fst w1)) (snap_full dn sn) \<longrightarrow> snap_in (m_ds (fst w2)) dn sn = Some s"
      using b unfolding keeps_cloned_def by blast+
    show "mem_inv (fst w2) \<and> (\<forall>k. map_option core (map_of (m_ds (fst w2)) k) = map_option core (map_of (m_ds (fst w)) k)) \<and>
        (\<forall>dn sn s. snap_in (m_ds (fst w)) dn sn = Some s \<and> cloned (m_ds (fst w)) (snap_full dn sn) \<longrightarrow> snap_in (m_ds (fst w2)) dn sn = Some s)"
      using 1 2 cloned_core [OF 1(2)] by (intro conjI allI impI) (simp_all only: simp_thms)
  qed
qed (simp add: keeps_cloned_def)

lemma same_zfs_keeps_cloned: "same_zfs w w' \<Longrightarrow> keeps_cloned w w'"
  by (simp add: same_zfs_def keeps_cloned_def)

lemma Destroy_keeps_cloned:
  assumes "CHR ''@'' \<in> set n"
  shows "keeps keeps_cloned (Destroy (lift_ZFS mem_ZFS) n False)"
  unfolding keeps_def
proof
  fix w :: "Mem \<times> 'k"
  obtain m' e where d: "Mem_Destroy n False (fst w) = (m', e)" by fastforce
  let ?a = "before CHR ''@'' n" and ?b = "after CHR ''@'' n"
  have n: "n = snap_full ?a ?b" using before_after [OF assms] by (simp add: snap_full_def)
  show "keeps_cloned w (fst (Destroy (lift_ZFS mem_ZFS) n False w))" unfolding keeps_cloned_def
  proof (intro impI)
    assume inv: "mem_inv (fst w)"
    have inv': "mem_inv m'" using Destroy_inv [OF inv, of n False] d by simp
    have nm: "names_ok (m_ds (fst w))" using inv by (simp add: mem_inv_def ds_inv_def)
    have fst': "fst (fst (Destroy (lift_ZFS mem_ZFS) n False w)) = m'" using d by (simp add: mem_ZFS_def lift_op_def)
    from Destroy_snap_cases [OF d assms]
    show "mem_inv (fst (fst (Destroy (lift_ZFS mem_ZFS) n False w))) \<and>
      (\<forall>k. map_option core (map_of (m_ds (fst (fst (Destroy (lift_ZFS mem_ZFS) n False w)))) k) = map_option core (map_of (m_ds (fst w)) k)) \<and>
      (\<forall>dn sn s. snap_in (m_ds (fst w)) dn sn = Some s \<and> cloned (m_ds (fst w)) (snap_full dn sn) \<longrightarrow>
        snap_in (m_ds (fst (fst (Destroy (lift_ZFS mem_ZFS) n False w)))) dn sn = Some s)"
      unfolding fst'
    proof
      assume "clonesOf (fst w) n = [] \<and> m_ds m' = mmod ?a (del_snap ?b) (m_ds (fst w))"
      then have c: "\<not> cloned (m_ds (fst w)) n" and m': "m_ds m' = mmod ?a (del_snap ?b) (m_ds (fst w))"
        by (auto simp: clonesOf_Nil [OF nm])
      have "snap_in (m_ds m') dn sn = snap_in (m_ds (fst w)) dn sn" if "cloned (m_ds (fst w)) (snap_full dn sn)" for dn sn
        using that c n unfolding m' snap_in_del [OF nm] by (metis (full_types))
      then show "mem_inv m' \<and> (\<forall>k. map_option core (map_of (m_ds m') k) = map_option core (map_of (m_ds (fst w)) k)) \<and>
        (\<forall>dn sn s. snap_in (m_ds (fst w)) dn sn = Some s \<and> cloned (m_ds (fst w)) (snap_full dn sn) \<longrightarrow> snap_in (m_ds m') dn sn = Some s)"
        using inv' by (simp add: m')
    qed (simp add: inv')
  qed
qed

lemma gr_frame_cloned:
  assumes "gr_kube same_zfs r" "gr_ZFS r = lift_ZFS mem_ZFS"
  shows "gr_frame keeps_cloned r"
proof -
  have "kube_frame keeps_cloned (gr_Lib r) (gr_Client r) (gr_gateReader r)"
    using assms(1) unfolding gr_kube_def
    by (rule kube_frame_weaken) (simp_all add: keeps_cloned.frame_axioms same_zfs_keeps_cloned)
  moreover have "zfs_frame keeps_cloned (gr_ZFS r)"
    unfolding assms(2) zfs_frame_def zfs_frame_axioms_def
    using keeps_cloned.frame_axioms mem_get_keeps same_zfs_keeps_cloned unfolding keeps_def by blast
  ultimately show ?thesis by (simp add: gr_frame_def gr_kube_def agent_frame_def)
qed

text \<open>A pass over a group being deleted.\<close>

lemma group_delete_keeps:
  assumes "gr_kube same_zfs r" "gr_ZFS r = lift_ZFS mem_ZFS"
    "get_ZfsGroupSnapshot (gr_Client r) req w = (w1, Inr grp)" "om_DeletionTimestamp (zg_Meta grp) \<noteq> None"
  shows "keeps_cloned w (fst (gr_Reconcile r req w))"
  by (rule gr_frame.gr_reconcile_delete [OF gr_frame_cloned [OF assms(1,2)] assms(3,4)])
     (simp only: assms(2) Destroy_keeps_cloned)

text \<open>A pass over a live group.\<close>

lemma group_one_instant:
  assumes "gr_kube same_zfs r" "gr_ZFS r = lift_ZFS mem_ZFS"
    "get_ZfsGroupSnapshot (gr_Client r) req w = (w1, Inr grp)" "om_DeletionTimestamp (zg_Meta grp) = None"
  shows "(\<forall>dn sn. snap_in (m_ds (fst (fst (gr_Reconcile r req w)))) dn sn = snap_in (m_ds (fst w)) dn sn) \<or>
     (\<exists>names. member_names names (zgs_Members (zg_Spec grp)) \<and> took names (fst w) (fst (fst (gr_Reconcile r req w))))"
proof -
  let ?w' = "fst (gr_Reconcile r req w)"
  obtain raws where r: "one_call same_zfs (lift_ZFS mem_ZFS) raws w ?w'"
    "same_zfs w ?w' \<or> member_names raws (zgs_Members (zg_Spec grp))"
    using gr_frame.gr_reconcile_one_call [OF gr_frame_mem [OF assms(1,2)] assms(3,4)] unfolding assms(2) by blast
  from r(2) show ?thesis
  proof
    assume "same_zfs w ?w'"
    then show ?thesis by (simp add: same_zfs_def)
  next
    assume "member_names raws (zgs_Members (zg_Spec grp))"
    then show ?thesis using one_call_took [OF r(1)] by blast
  qed
qed

end
