(* ===== verification/LabelsMem.thy ===== *)
theory LabelsMem
  imports Labels MemZfs_Ops
begin

text \<open>
  User properties of the in-memory ZFS as \<open>Get\<close> and \<open>SetProperty\<close> see them, and what \<open>EnsureLabels\<close>
  achieves on it.
\<close>

lemma Get_lift: "Get (lift_ZFS mem_ZFS) n prop w = (w, snd (Mem_Get n prop (fst w)))"
  by (cases w) (simp add: mem_ZFS_def lift_op_def Mem_Get_def)

lemma isUser_plain: "isUser p \<Longrightarrow> p \<notin> set readonly_props \<and> p \<noteq> ''volsize'' \<and> p \<noteq> ''clones'' \<and> p \<noteq> ''origin'' \<and>
    p \<noteq> ''type'' \<and> p \<noteq> ''defer_destroy'' \<and> p \<noteq> ''createtxg''"
  by (auto simp: readonly_props_def isUser_def HasPrefix_def)

lemma inherited_cong:
  assumes "\<And>k. map_option (\<lambda>d. map_of (ds_props d) p) (map_of (m_ds m') k) = map_option (\<lambda>d. map_of (ds_props d) p) (map_of (m_ds m) k)"
  shows "inherited m' n p = inherited m n p"
proof (induction "length n" arbitrary: n rule: less_induct)
  case less
  show ?case
  proof (cases "n = ''''")
    case True
    then show ?thesis by (simp add: inherited.simps)
  next
    case False
    then have IH: "inherited m' (parentOf n) p = inherited m (parentOf n) p" using less length_parentOf by blast
    show ?thesis using IH assms [of n]
      by (subst (1 2) inherited.simps) (auto split: option.splits)
  qed
qed

lemma inherited_own: "map_of (m_ds m) n = Some d \<Longrightarrow> map_of (ds_props d) p = Some v \<Longrightarrow> n \<noteq> '''' \<Longrightarrow> inherited m n p = v"
  by (subst inherited.simps) simp

text \<open>Setting a user property on an object that exists.\<close>

definition set_user :: "string \<Rightarrow> string \<Rightarrow> string \<Rightarrow> dsmap \<Rightarrow> dsmap" where
  "set_user n p v ds =
     (case split_name n of (dn, sn, isSnap) \<Rightarrow>
        if isSnap then mmod dn (mod_snap sn (\<lambda>s. s\<lparr>sn_props := AList.update p v (sn_props s)\<rparr>)) ds
        else mmod dn (\<lambda>d. d\<lparr>ds_props := AList.update p v (ds_props d)\<rparr>) ds)"

lemma SetProperty_user:
  assumes "isUser p" "Mem_SetProperty n p v m = (m', None)"
  shows "m_ds m' = set_user n p v (m_ds m)" "\<exists>x. snd (Mem_Get n p m) = Inr x"
proof -
  define m1 where "m1 = record_call (''set '' @ p @ ''='' @ v @ '' '' @ n) m"
  obtain m2 e where i: "injected ''set'' n m1 = (m2, e)" by fastforce
  have m2: "m_ds m2 = m_ds m" using injected_same [OF i] by (simp only: m1_def record_call_same)
  obtain dn sn b where sp: "split_name n = (dn, sn, b)" by (cases "split_name n") auto
  have dn: "\<not> b \<Longrightarrow> dn = n" using sp split_name_ds [of n dn sn] by simp
  note u = isUser_plain [OF assms(1)]
  have "e = None" "map_of (m_ds m) dn \<noteq> None" "b \<Longrightarrow> snap_in (m_ds m) dn sn \<noteq> None" "m_ds m' = set_user n p v (m_ds m)"
    using assms(2) u m2 dn assms(1)
    unfolding Mem_SetProperty_def m1_def [symmetric] i sp prod.case
    by (auto simp: snap_at_snap_in set_dataset_prop_def mod_ds_def set_user_def sp split: option.splits if_splits)
  then show "m_ds m' = set_user n p v (m_ds m)" "\<exists>x. snd (Mem_Get n p m) = Inr x"
    by (auto simp: Mem_Get_def sp snap_in_def split: option.splits)
qed

lemma Get_set_user:
  assumes u: "isUser p" "isUser q" and m': "m_ds m' = set_user n p v (m_ds m)" and g: "snd (Mem_Get n q m) = Inr x"
    and ne: "fst (split_name n) \<noteq> ''''"
  shows "snd (Mem_Get n q m') = Inr (if q = p then v else x)"
proof -
  obtain dn sn b where sp: "split_name n = (dn, sn, b)" by (cases "split_name n") auto
  note uq = isUser_plain [OF u(2)]
  have dn: "dn \<noteq> ''''" using ne sp by simp
  show ?thesis
  proof (cases b)
    case True
    then have mm: "m_ds m' = mmod dn (mod_snap sn (\<lambda>s. s\<lparr>sn_props := AList.update p v (sn_props s)\<rparr>)) (m_ds m)"
      using m' by (simp add: set_user_def sp)
    have inh: "inherited m' dn q = inherited m dn q"
      by (rule inherited_cong) (simp add: mm option.map_comp comp_def mod_snap_def)
    obtain d s where ds: "map_of (m_ds m) dn = Some d" "map_of (ds_snaps d) sn = Some s"
        "x = (case map_of (sn_props s) q of Some v \<Rightarrow> v | None \<Rightarrow> inherited m dn q)"
      using g True uq u(2) by (auto simp: Mem_Get_def sp get_snapshot_def split: option.splits)
    then show ?thesis using True uq u(2) inh
      by (simp add: Mem_Get_def sp mm mod_snap_def get_snapshot_def split: option.splits)
  next
    case False
    then have mm: "m_ds m' = mmod dn (\<lambda>d. d\<lparr>ds_props := AList.update p v (ds_props d)\<rparr>) (m_ds m)"
      using m' by (simp add: set_user_def sp)
    obtain d where d: "map_of (m_ds m) dn = Some d" "x = inherited m dn q"
      using g False uq u(2) by (auto simp: Mem_Get_def sp get_dataset_def split: option.splits)
    have "inherited m' dn q = (if q = p then v else inherited m dn q)"
    proof (cases "q = p")
      case True
      then show ?thesis using inherited_own [of m' dn] d dn by (simp add: mm)
    next
      case False
      then show ?thesis by (simp add: inherited_cong [of q m' m] mm option.map_comp comp_def)
    qed
    then show ?thesis using d False uq u(2) by (simp add: Mem_Get_def sp mm get_dataset_def)
  qed
qed

lemma ensure_props_mem:
  assumes "ensure_props (lift_ZFS mem_ZFS) n ps w = (w', None)" "\<forall>(p, v) \<in> set ps. isUser p \<and> TrimSpace v = v"
    "distinct (map fst ps)" "fst (split_name n) \<noteq> ''''"
  shows "\<forall>q x. isUser q \<and> q \<notin> fst ` set ps \<and> snd (Mem_Get n q (fst w)) = Inr x \<longrightarrow> snd (Mem_Get n q (fst w')) = Inr x"
    "\<forall>(p, v) \<in> set ps. \<exists>x. snd (Mem_Get n p (fst w')) = Inr x \<and> TrimSpace x = v"
proof -
  have main: "(\<forall>q x. isUser q \<and> q \<notin> fst ` set ps \<and> snd (Mem_Get n q (fst w)) = Inr x \<longrightarrow> snd (Mem_Get n q (fst w')) = Inr x) \<and>
    (\<forall>(p, v) \<in> set ps. \<exists>x. snd (Mem_Get n p (fst w')) = Inr x \<and> TrimSpace x = v)"
    using assms
  proof (induction ps arbitrary: w)
    case (Cons pv ps)
    obtain p v where pv: "pv = (p, v)" by fastforce
    have u: "isUser p" "TrimSpace v = v" "p \<notin> fst ` set ps" using Cons.prems(2,3) by (auto simp: pv)
    obtain got where got: "snd (Mem_Get n p (fst w)) = Inr got"
      using Cons.prems(1) unfolding pv ensure_props.simps Get_lift by (auto split: sum.splits)
    define ok where "ok = (TrimSpace got = v)"
    obtain w1 where w1: "ensure_props (lift_ZFS mem_ZFS) n ps w1 = (w', None)"
      "if ok then w1 = w else SetProperty (lift_ZFS mem_ZFS) n p v w = (w1, None)"
      using Cons.prems(1) got unfolding pv ensure_props.simps Get_lift ok_def
      by (auto split: if_splits prod.splits option.splits)
    have st: "snd (Mem_Get n q (fst w1)) = Inr (if q = p \<and> \<not> ok then v else x)"
      if "isUser q" "snd (Mem_Get n q (fst w)) = Inr x" for q x
    proof (cases ok)
      case False
      then have "Mem_SetProperty n p v (fst w) = (fst w1, None)" using w1(2) by (simp add: mem_ZFS_def lift_op_eq)
      then show ?thesis using Get_set_user [OF u(1) that(1) SetProperty_user(1) [OF u(1)] that(2) Cons.prems(4)] False by simp
    qed (use w1(2) that in simp)
    have "\<forall>(p, v) \<in> set ps. isUser p \<and> TrimSpace v = v" "distinct (map fst ps)" using Cons.prems(2,3) by auto
    note IH = Cons.IH [OF w1(1) this Cons.prems(4)]
    have IH1: "isUser q \<Longrightarrow> q \<notin> fst ` set ps \<Longrightarrow> snd (Mem_Get n q (fst w1)) = Inr x \<Longrightarrow> snd (Mem_Get n q (fst w')) = Inr x" for q x
      using conjunct1 [OF IH] by blast
    note IH2 = conjunct2 [OF IH]
    have "snd (Mem_Get n p (fst w')) = Inr (if ok then got else v)"
      using IH1 [OF u(1,3) st [OF u(1) got]] by simp
    then have "\<exists>x. snd (Mem_Get n p (fst w')) = Inr x \<and> TrimSpace x = v" using u(2) by (auto simp: ok_def)
    then show ?case using IH1 IH2 st by (auto simp: pv)
  qed simp
  show "\<forall>q x. isUser q \<and> q \<notin> fst ` set ps \<and> snd (Mem_Get n q (fst w)) = Inr x \<longrightarrow> snd (Mem_Get n q (fst w')) = Inr x"
    by (rule conjunct1 [OF main])
  show "\<forall>(p, v) \<in> set ps. \<exists>x. snd (Mem_Get n p (fst w')) = Inr x \<and> TrimSpace x = v" by (rule conjunct2 [OF main])
qed

lemma EnsureLabels_mem:
  assumes "EnsureLabels (lift_ZFS mem_ZFS) n role owner w = (w', None)" "TrimSpace role = role" "TrimSpace owner = owner"
    "fst (split_name n) \<noteq> ''''"
  shows "\<exists>x. snd (Mem_Get n PropRole (fst w')) = Inr x \<and> TrimSpace x = role"
    "owner \<noteq> '''' \<Longrightarrow> \<exists>x. snd (Mem_Get n PropOwner (fst w')) = Inr x \<and> TrimSpace x = owner"
proof -
  have u: "isUser PropRole" "isUser PropOwner" by (simp_all add: isUser_def HasPrefix_def)
  have "\<forall>(p, v) \<in> set (LabelProps role owner). isUser p \<and> TrimSpace v = v" "distinct (map fst (LabelProps role owner))"
    using u assms(2,3) by (auto simp: LabelProps_def Let_def)
  note e = ensure_props_mem(2) [OF assms(1) [unfolded EnsureLabels_def] this assms(4)]
  have "(PropRole, role) \<in> set (LabelProps role owner)" by (simp add: LabelProps_def Let_def)
  with e show "\<exists>x. snd (Mem_Get n PropRole (fst w')) = Inr x \<and> TrimSpace x = role" by fastforce
  assume "owner \<noteq> ''''"
  then have "(PropOwner, owner) \<in> set (LabelProps role owner)" by (simp add: LabelProps_def Let_def)
  with e show "\<exists>x. snd (Mem_Get n PropOwner (fst w')) = Inr x \<and> TrimSpace x = owner" by fastforce
qed

text \<open>Once the labels are there, a second call makes no write at all.\<close>

lemma ensure_props_idem:
  "\<forall>(p, v) \<in> set ps. \<exists>x. snd (Mem_Get n p (fst w)) = Inr x \<and> TrimSpace x = v \<Longrightarrow>
   ensure_props (lift_ZFS mem_ZFS) n ps w = (w, None)"
proof (induction ps)
  case (Cons pv ps)
  obtain p v where pv: "pv = (p, v)" by fastforce
  then show ?case using Cons unfolding pv ensure_props.simps Get_lift by auto
qed simp

end
