(* ===== verification/DatasetSize.thy ===== *)
theory DatasetSize
  imports DatasetController LabelsMem
begin

text \<open>
  Sizes: rounding to the block size, and how \<open>ensureSize\<close> converges the size of an existing object on
  the in-memory ZFS.
\<close>

lemma alignUp_spec:
  assumes "0 < sz" "0 < block" "sz + block \<le> 2 ^ 63"
  shows "alignUp sz block mod block = 0" "sz \<le> alignUp sz block" "alignUp sz block < sz + block"
proof -
  have b: "0 \<le> sz mod block" "sz mod block < block" using assms(2) by simp_all
  then have "sz mod block \<noteq> 0 \<Longrightarrow> is_int64 (sz + (block - sz mod block))"
    using assms unfolding is_int64_def by linarith
  then have a: "alignUp sz block = (if sz mod block \<noteq> 0 then sz + (block - sz mod block) else sz)"
    using assms by (auto simp: alignUp_def Let_def int64_id)
  have "sz + (block - sz mod block) = block * (sz div block + 1)"
    using mult_div_mod_eq [of block sz] by (simp add: algebra_simps)
  then have "(sz + (block - sz mod block)) mod block = 0" by (metis mod_mult_self1_is_0)
  then show "alignUp sz block mod block = 0" by (simp add: a)
  show "sz \<le> alignUp sz block" "alignUp sz block < sz + block" using assms(2) b unfolding a by (simp_all split: if_splits)
qed

lemma Set_lift: "SetProperty (lift_ZFS mem_ZFS) n prop v w = ((fst (Mem_SetProperty n prop v (fst w)), snd w), snd (Mem_SetProperty n prop v (fst w)))"
  by (cases w) (simp add: mem_ZFS_def lift_op_def split: prod.splits)

text \<open>A property is set on an existing dataset, or the call fails and no dataset changed.\<close>

lemma SetProperty_cases:
  assumes "is_name n" "Mem_SetProperty n prop v m = (m', e)" "map_of (m_ds m) n = Some d" "prop \<notin> set readonly_props"
  shows "(e \<noteq> None \<and> m_ds m' = m_ds m) \<or>
    (e = None \<and> m_ds m' = mmod n (\<lambda>d. d\<lparr>ds_volsize := (if prop = ''volsize'' then fst (ParseInt v) else ds_volsize d),
        ds_props := AList.update prop v (ds_props d)\<rparr>) (m_ds m))"
proof -
  define m1 where "m1 = record_call (''set '' @ prop @ ''='' @ v @ '' '' @ n) m"
  obtain m2 e2 where i: "injected ''set'' n m1 = (m2, e2)" by fastforce
  have m2: "m_ds m2 = m_ds m" using injected_same [OF i] by (simp only: m1_def record_call_same)
  have "Mem_SetProperty n prop v m = (case e2 of Some e \<Rightarrow> (m2, Some e) | None \<Rightarrow> set_dataset_prop n prop v m2)"
    unfolding Mem_SetProperty_def m1_def [symmetric] i prod.case split_name_plain [OF assms(1)]
    using assms(3,4) m2 by (simp split: option.splits)
  then show ?thesis using assms(2) m2
    by (auto simp: set_dataset_prop_def mod_ds_def split: option.splits prod.splits if_splits)
qed

lemma ensureSize_volume:
  assumes inv: "mem_inv (fst w)" and d: "map_of (m_ds (fst w)) full = Some d" "ds_kind d = KindVolume" "is_int64 (ds_volsize d)"
    and vol: "zds_Type (zd_Spec vol) = DatasetTypeVolume" "zds_Volume (zd_Spec vol) = Some cfg"
    and run: "ensureSize (lift_ZFS mem_ZFS) vol full w = (w', e)"
  defines "want \<equiv> alignUp (q_Value (vc_Size cfg)) (volblockBytes (vc_Volblocksize cfg))"
  assumes want: "is_int64 want"
  shows "\<exists>d'. map_of (m_ds (fst w')) full = Some d' \<and> ds_volsize d \<le> ds_volsize d' \<and>
    (e = None \<longrightarrow> ds_volsize d' = max (ds_volsize d) want)"
proof -
  have fn: "is_name full" using names_okD [OF _ d(1)] inv by (simp add: mem_inv_def ds_inv_def)
  have get: "Get (lift_ZFS mem_ZFS) full ''volsize'' w = (w, Inr (FormatInt (ds_volsize d)))"
    using d fn unfolding Get_lift by (simp add: Mem_Get_def get_dataset_def)
  have ne: "DatasetTypeVolume \<noteq> DatasetTypeFilesystem" by simp
  show ?thesis
  proof (cases "want > ds_volsize d")
    case False
    then have "w' = w" "e = None" using run vol ne get d(3) by (simp_all add: ensureSize_def want_def Let_def ParseInt_FormatInt)
    then show ?thesis using d(1) False by simp
  next
    case True
    then have s: "SetProperty (lift_ZFS mem_ZFS) full ''volsize'' (FormatInt want) w = (w', e)"
      using run vol ne get d(3) by (simp add: ensureSize_def want_def Let_def ParseInt_FormatInt)
    obtain m' where m': "Mem_SetProperty full ''volsize'' (FormatInt want) (fst w) = (m', e)" "fst w' = m'"
      using s unfolding Set_lift by (metis fst_conv prod.inject surjective_pairing)
    have "''volsize'' \<notin> set readonly_props" by (simp add: readonly_props_def)
    then show ?thesis using SetProperty_cases [OF fn m'(1) d(1)] d(1) True m'(2) want by (auto simp: ParseInt_FormatInt)
  qed
qed

lemma ensureSize_filesystem:
  assumes inv: "mem_inv (fst w)" and d: "map_of (m_ds (fst w)) full = Some d"
    and vol: "zds_Type (zd_Spec vol) = DatasetTypeFilesystem"
    and run: "ensureSize (lift_ZFS mem_ZFS) vol full w = (w', None)"
  shows "\<exists>v. snd (Mem_Get full ''refquota'' (fst w')) = Inr v \<and>
    refquotaEqual v (case quota_of vol of Some q \<Rightarrow> FormatInt (q_Value q) | None \<Rightarrow> ''none'')"
proof -
  let ?want = "case quota_of vol of Some q \<Rightarrow> FormatInt (q_Value q) | None \<Rightarrow> ''none''"
  have fn: "is_name full" using names_okD [OF _ d(1)] inv by (simp add: mem_inv_def ds_inv_def)
  have user: "\<not> isUser ''refquota''" by (simp add: isUser_def HasPrefix_def)
  obtain cur where get: "Get (lift_ZFS mem_ZFS) full ''refquota'' w = (w, Inr cur)" "snd (Mem_Get full ''refquota'' (fst w)) = Inr cur"
    using d fn unfolding Get_lift by (simp add: Mem_Get_def)
  show ?thesis
  proof (cases "refquotaEqual cur ?want")
    case True
    then have "w' = w" using run vol get(1) unfolding ensureSize_def Let_def by simp
    then show ?thesis using get(2) True by blast
  next
    case False
    then have s: "SetProperty (lift_ZFS mem_ZFS) full ''refquota'' ?want w = (w', None)"
      using run vol get(1) unfolding ensureSize_def Let_def by simp
    obtain m' where m': "Mem_SetProperty full ''refquota'' ?want (fst w) = (m', None)" "fst w' = m'"
      using s unfolding Set_lift by (metis fst_conv prod.inject surjective_pairing)
    have "''refquota'' \<notin> set readonly_props" by (simp add: readonly_props_def)
    then have "map_of (m_ds m') full = Some (d\<lparr>ds_props := AList.update ''refquota'' ?want (ds_props d)\<rparr>)"
      using SetProperty_cases [OF fn m'(1) d(1)] d(1) by auto
    then have "snd (Mem_Get full ''refquota'' m') = Inr ?want"
      using fn user by (simp add: Mem_Get_def get_dataset_def)
    then show ?thesis using m'(2) by (auto simp: refquotaEqual_def)
  qed
qed

end
