(* ===== verification/CsiParams.thy ===== *)
theory CsiParams
  imports ApiTypes
begin

text \<open>
  \<open>src/internal/csi/params.go\<close>: the three layers of volume parameters, their merge and their
  validation. A Go map that may be nil is an association list, empty for nil.
\<close>

abbreviation ParamPoolGUID :: string where "ParamPoolGUID \<equiv> ''poolGUID''"
abbreviation ParamProtocol :: string where "ParamProtocol \<equiv> ''protocol''"
abbreviation ParamDatasetPrefix :: string where "ParamDatasetPrefix \<equiv> ''datasetPrefix''"
abbreviation ParamVolblocksize :: string where "ParamVolblocksize \<equiv> ''volblocksize''"
abbreviation ParamRejectCrossPrefixClones :: string where "ParamRejectCrossPrefixClones \<equiv> ''rejectCrossPrefixClones''"
abbreviation ParamUID :: string where "ParamUID \<equiv> ''uid''"
abbreviation ParamGID :: string where "ParamGID \<equiv> ''gid''"
abbreviation ParamMode :: string where "ParamMode \<equiv> ''mode''"
abbreviation PropertyPrefix :: string where "PropertyPrefix \<equiv> ''property.''"
abbreviation reservedParamPrefix :: string where "reservedParamPrefix \<equiv> ''csi.storage.k8s.io/''"
abbreviation ReservedPVCName :: string where "ReservedPVCName \<equiv> ''csi.storage.k8s.io/pvc/name''"
abbreviation ReservedPVCNamespace :: string where "ReservedPVCNamespace \<equiv> ''csi.storage.k8s.io/pvc/namespace''"

definition storageClassOnlyParams :: "string list" where
  "storageClassOnlyParams = [ParamPoolGUID, ParamDatasetPrefix]"

record ResolvedParams =
  rp_PoolGUID :: string
  rp_Protocol :: Protocol
  rp_DatasetType :: DatasetType
  rp_DatasetPrefix :: string
  rp_RejectCrossPrefixClones :: bool
  rp_Volblocksize :: string
  rp_Properties :: props
  rp_UID :: "int option"
  rp_GID :: "int option"
  rp_Mode :: string

subsection \<open>Merging the layers\<close>

text \<open>One loop over a layer: the entries that pass the guard are stored under their new key.\<close>

definition merge_layer :: "(string \<Rightarrow> string option) \<Rightarrow> props \<Rightarrow> props \<Rightarrow> props" where
  "merge_layer key layer merged =
     fold (\<lambda>(k, v) m. case key k of None \<Rightarrow> m | Some k' \<Rightarrow> AList.update k' v m) layer merged"

definition default_key :: "string \<Rightarrow> string option" where
  "default_key k = (if k \<in> set storageClassOnlyParams then None else Some k)"

definition class_key :: "string \<Rightarrow> string option" where
  "class_key k = (if HasPrefix k reservedParamPrefix then None else Some k)"

definition annotation_key :: "string \<Rightarrow> string \<Rightarrow> string option" where
  "annotation_key annPrefix k =
     (if \<not> HasPrefix k annPrefix then None
      else let key = TrimPrefix k annPrefix in if key \<in> set storageClassOnlyParams then None else Some key)"

definition ResolveParameters :: "props \<Rightarrow> props \<Rightarrow> props \<Rightarrow> string \<Rightarrow> props" where
  "ResolveParameters defaults scParams pvcAnnotations annPrefix =
     (let m1 = merge_layer default_key defaults [];
          m2 = merge_layer class_key scParams m1
      in if annPrefix \<noteq> '''' then merge_layer (annotation_key annPrefix) pvcAnnotations m2 else m2)"

subsection \<open>Validation\<close>

text \<open>\<open>strconv.ParseBool\<close>.\<close>

definition ParseBool :: "string \<Rightarrow> bool option" where
  "ParseBool s =
     (if s \<in> {''1'', ''t'', ''T'', ''true'', ''TRUE'', ''True''} then Some True
      else if s \<in> {''0'', ''f'', ''F'', ''false'', ''FALSE'', ''False''} then Some False else None)"

text \<open>Does \<open>strconv.ParseUint(s, 8, 32)\<close> accept the text?\<close>

fun octal_value :: "nat \<Rightarrow> string \<Rightarrow> nat option" where
  "octal_value n [] = Some n"
| "octal_value n (c # cs) =
     (let d = (of_char c :: nat) in
      if 48 \<le> d \<and> d < 56 \<and> n * 8 + (d - 48) < 2 ^ 32 then octal_value (n * 8 + (d - 48)) cs else None)"

definition ParseUint_8_32 :: "string \<Rightarrow> nat option" where
  "ParseUint_8_32 s = (if s = '''' then None else octal_value 0 s)"

definition parseOptionalID :: "string \<Rightarrow> string \<Rightarrow> goerr + int option" where
  "parseOptionalID raw key =
     (let s = TrimSpace raw in
      if s = '''' then Inr None
      else (case ParseInt s of (n, bad) \<Rightarrow>
        if bad \<or> n < 0 then Inl (errorf (''parameter '' @ Quote key @ '' must be a non-negative integer, got '' @ Quote raw))
        else Inr (Some n)))"

definition parseOptionalMode :: "string \<Rightarrow> goerr + string" where
  "parseOptionalMode raw =
     (let s = TrimSpace raw in
      if s = '''' then Inr ''''
      else if ParseUint_8_32 s = None
        then Inl (errorf (''parameter '' @ Quote ParamMode @ '' must be an octal permission string (e.g. '' @ Quote ''0770''
               @ ''), got '' @ Quote raw))
      else Inr s)"

definition parse_protocol :: "string \<Rightarrow> goerr + (Protocol \<times> DatasetType)" where
  "parse_protocol raw =
     (let s = TrimSpace raw in
      if s = ProtocolNFS then Inr (ProtocolNFS, DatasetTypeFilesystem)
      else if s = ProtocolNVMeoF then Inr (ProtocolNVMeoF, DatasetTypeVolume)
      else if s = '''' then Inl (errorf (''parameter '' @ Quote ParamProtocol @ '' is required''))
      else Inl (errorf (''parameter '' @ Quote ParamProtocol @ '' must be '' @ Quote ProtocolNFS @ '' or '' @ Quote ProtocolNVMeoF
             @ '', got '' @ Quote raw)))"

definition parse_reject :: "string \<Rightarrow> goerr + bool" where
  "parse_reject raw =
     (let v = TrimSpace raw in
      if v = '''' then Inr False
      else (case ParseBool v of
              None \<Rightarrow> Inl (errorf (''parameter '' @ Quote ParamRejectCrossPrefixClones @ '' must be a boolean, got '' @ Quote v))
            | Some b \<Rightarrow> Inr b))"

text \<open>Ownership applies to filesystems only; for a zvol the parameters are not even looked at.\<close>

definition parse_ownership :: "DatasetType \<Rightarrow> props \<Rightarrow> goerr + (int option \<times> int option \<times> string)" where
  "parse_ownership t p =
     (if t = DatasetTypeFilesystem then
        (case parseOptionalID (mgets p ParamUID) ParamUID of
           Inl e \<Rightarrow> Inl e
         | Inr uid \<Rightarrow>
             (case parseOptionalID (mgets p ParamGID) ParamGID of
                Inl e \<Rightarrow> Inl e
              | Inr gid \<Rightarrow>
                  (case parseOptionalMode (mgets p ParamMode) of
                     Inl e \<Rightarrow> Inl e
                   | Inr mode \<Rightarrow> Inr (uid, gid, mode))))
      else Inr (None, None, ''''))"

definition property_params :: "props \<Rightarrow> props" where
  "property_params p =
     fold (\<lambda>(k, v) m. let name = TrimPrefix k PropertyPrefix in
             if name \<noteq> k \<and> name \<noteq> '''' then AList.update name v m else m) p []"

definition ParseParams :: "props \<Rightarrow> goerr + ResolvedParams" where
  "ParseParams p =
     (let guid = TrimSpace (mgets p ParamPoolGUID) in
      if guid = '''' then Inl (errorf (''parameter '' @ Quote ParamPoolGUID @ '' is required''))
      else (case parse_protocol (mgets p ParamProtocol) of
        Inl e \<Rightarrow> Inl e
      | Inr (proto, t) \<Rightarrow>
          (case parse_reject (mgets p ParamRejectCrossPrefixClones) of
             Inl e \<Rightarrow> Inl e
           | Inr reject \<Rightarrow>
               (case parse_ownership t p of
                  Inl e \<Rightarrow> Inl e
                | Inr (uid, gid, mode) \<Rightarrow>
                    Inr \<lparr>rp_PoolGUID = guid, rp_Protocol = proto, rp_DatasetType = t,
                         rp_DatasetPrefix = Trim CHR ''/'' (TrimSpace (mgets p ParamDatasetPrefix)),
                         rp_RejectCrossPrefixClones = reject,
                         rp_Volblocksize = TrimSpace (mgets p ParamVolblocksize),
                         rp_Properties = property_params p,
                         rp_UID = uid, rp_GID = gid, rp_Mode = mode\<rparr>))))"

definition rp_Dataset :: "ResolvedParams \<Rightarrow> string \<Rightarrow> string" where
  "rp_Dataset rp volName =
     (let name = Trim CHR ''/'' volName in
      if rp_DatasetPrefix rp = '''' then name else path_Join [rp_DatasetPrefix rp, name])"

subsection \<open>Precedence of the layers\<close>

text \<open>What a loop stores under a key: the last entry of the layer that maps to it, else what was there.\<close>

lemma merge_layer_Nil [simp]: "merge_layer key [] m = m"
  by (simp add: merge_layer_def)

lemma merge_layer_Cons [simp]:
  "merge_layer key ((k, v) # layer) m =
     merge_layer key layer (case key k of None \<Rightarrow> m | Some k' \<Rightarrow> AList.update k' v m)"
  by (simp add: merge_layer_def)

text \<open>A key that no entry of the layer maps to stays; one that a single key maps to is overridden by it.\<close>

lemma merge_layer_none: "(\<And>k. key k \<noteq> Some x) \<Longrightarrow> map_of (merge_layer key layer m) x = map_of m x"
proof (induction layer arbitrary: m)
  case (Cons kv layer)
  then show ?case by (cases kv) (auto split: option.split)
qed simp

lemma merge_layer_one:
  assumes "\<And>k. key k = Some x \<longleftrightarrow> k = y" "wf_map layer"
  shows "map_of (merge_layer key layer m) x = (case map_of layer y of Some v \<Rightarrow> Some v | None \<Rightarrow> map_of m x)"
  using assms(2)
proof (induction layer arbitrary: m)
  case (Cons kv layer)
  obtain k v where kv: "kv = (k, v)" by fastforce
  have wf: "wf_map layer" "map_of layer k = None"
    using Cons.prems by (auto simp: kv wf_map_def keys_def map_of_eq_None_iff)
  show ?case
  proof (cases "key k = Some x")
    case True
    then have "k = y" using assms(1) by blast
    then show ?thesis using Cons.IH [OF wf(1)] wf(2) True by (simp add: kv)
  next
    case False
    then have "k \<noteq> y" using assms(1) by blast
    then show ?thesis using Cons.IH [OF wf(1)] False by (auto simp: kv split: option.splits)
  qed
qed simp

lemma default_key_iff: "default_key k = Some x \<longleftrightarrow> k = x \<and> x \<notin> set storageClassOnlyParams"
  by (auto simp: default_key_def)

lemma class_key_iff: "class_key k = Some x \<longleftrightarrow> k = x \<and> \<not> HasPrefix x reservedParamPrefix"
  by (auto simp: class_key_def)

lemma annotation_key_iff:
  "annotation_key p k = Some x \<longleftrightarrow> k = p @ x \<and> x \<notin> set storageClassOnlyParams"
  by (auto simp: annotation_key_def Let_def HasPrefix_iff TrimPrefix_def)

definition annotated :: "props \<Rightarrow> string \<Rightarrow> string \<Rightarrow> string option" where
  "annotated anns p x = (if p = '''' then None else map_of anns (p @ x))"

lemma ResolveParameters_lookup:
  assumes "wf_map defaults" "wf_map sc" "wf_map anns"
  shows "map_of (ResolveParameters defaults sc anns p) x =
    (let from_class = (if HasPrefix x reservedParamPrefix then None else map_of sc x) in
     if x \<in> set storageClassOnlyParams then from_class
     else (case annotated anns p x of Some v \<Rightarrow> Some v | None \<Rightarrow>
            (case from_class of Some v \<Rightarrow> Some v | None \<Rightarrow> map_of defaults x)))"
proof -
  let ?sc = "x \<in> set storageClassOnlyParams" and ?res = "HasPrefix x reservedParamPrefix"
  have d: "map_of (merge_layer default_key defaults []) x = (if ?sc then None else map_of defaults x)"
  proof (cases ?sc)
    case True
    then show ?thesis by (simp add: merge_layer_none default_key_iff)
  next
    case False
    then have "map_of (merge_layer default_key defaults []) x = (case map_of defaults x of Some v \<Rightarrow> Some v | None \<Rightarrow> map_of [] x)"
      by (intro merge_layer_one assms(1)) (simp add: default_key_iff)
    then show ?thesis using False by (simp split: option.splits)
  qed
  have s: "map_of (merge_layer class_key sc m) x =
     (case (if ?res then None else map_of sc x) of Some v \<Rightarrow> Some v | None \<Rightarrow> map_of m x)" for m
  proof (cases ?res)
    case True
    then show ?thesis by (simp add: merge_layer_none class_key_iff)
  next
    case False
    then have "map_of (merge_layer class_key sc m) x = (case map_of sc x of Some v \<Rightarrow> Some v | None \<Rightarrow> map_of m x)"
      by (intro merge_layer_one assms(2)) (simp add: class_key_iff)
    then show ?thesis using False by simp
  qed
  have a: "map_of (merge_layer (annotation_key p) anns m) x =
     (if ?sc then map_of m x else (case map_of anns (p @ x) of Some v \<Rightarrow> Some v | None \<Rightarrow> map_of m x))" for m
  proof (cases ?sc)
    case True
    then show ?thesis by (simp add: merge_layer_none annotation_key_iff)
  next
    case False
    then have "map_of (merge_layer (annotation_key p) anns m) x = (case map_of anns (p @ x) of Some v \<Rightarrow> Some v | None \<Rightarrow> map_of m x)"
      by (intro merge_layer_one assms(3)) (simp add: annotation_key_iff)
    then show ?thesis using False by simp
  qed
  show ?thesis unfolding ResolveParameters_def Let_def annotated_def
    using d s a by (auto split: option.splits)
qed

end
