(* ===== verification/CsiTypes.thy ===== *)
theory CsiTypes
  imports Kube CsiParams
begin

text \<open>
  What the CSI services share: the gRPC status codes and the messages of the CSI protocol as far as
  the driver reads them, the Kubernetes client with the calls the services add, the libraries they
  use (unique identifiers, SHA-256, YAML, the clock behind a wait), and the polling loop. The
  libraries are parameters. A call that waits may never return: its result is an option, and
  \<open>None\<close> stands for a call that is still waiting.
\<close>

datatype code =
    InvalidArgument
  | NotFound
  | AlreadyExists
  | FailedPrecondition
  | Aborted
  | Internal
  | DeadlineExceeded

datatype csierr = Status (status_code: code) (status_message: string)

type_synonym ('w, 'a) cquery = "'w \<Rightarrow> 'w \<times> (csierr + 'a)"
type_synonym ('w, 'a) rpc = "'w \<Rightarrow> ('w \<times> (csierr + 'a)) option"

text \<open>The next call runs when the previous one returned a value.\<close>

definition then_rpc :: "('w \<times> (csierr + 'a)) option \<Rightarrow> ('a \<Rightarrow> ('w, 'b) rpc) \<Rightarrow> ('w \<times> (csierr + 'b)) option" where
  "then_rpc x f =
     (case x of
        None \<Rightarrow> None
      | Some (w, Inl e) \<Rightarrow> Some (w, Inl e)
      | Some (w, Inr a) \<Rightarrow> f a w)"

lemma then_rpc_simps [simp]:
  "then_rpc None f = None" "then_rpc (Some (w, Inl e)) f = Some (w, Inl e)" "then_rpc (Some (w, Inr a)) f = f a w"
  by (simp_all add: then_rpc_def)

lemma then_rpc_Some:
  "then_rpc x f = Some r \<longleftrightarrow> (\<exists>w e. x = Some (w, Inl e) \<and> r = (w, Inl e)) \<or> (\<exists>w a. x = Some (w, Inr a) \<and> f a w = Some r)"
  by (auto simp: then_rpc_def split: option.splits prod.splits sum.splits)

subsection \<open>Messages\<close>

datatype AccessMode =
    UNKNOWN | SINGLE_NODE_WRITER | SINGLE_NODE_READER_ONLY | MULTI_NODE_READER_ONLY
  | MULTI_NODE_SINGLE_WRITER | MULTI_NODE_MULTI_WRITER | SINGLE_NODE_SINGLE_WRITER | SINGLE_NODE_MULTI_WRITER

text \<open>\<open>GetBlock() != nil\<close>, the mount part's file system type, the access mode.\<close>

record VolumeCapability =
  cap_Block :: bool
  cap_Mount :: "string option"
  cap_AccessMode :: "AccessMode option"

record CapacityRange =
  cr_RequiredBytes :: int
  cr_LimitBytes :: int

datatype VolumeContentSource = ContentSnapshot string | ContentVolume string | ContentUnsupported

record CreateVolumeRequest =
  cvr_Name :: string
  cvr_VolumeCapabilities :: "VolumeCapability list"
  cvr_Parameters :: props
  cvr_CapacityRange :: "CapacityRange option"
  cvr_VolumeContentSource :: "VolumeContentSource option"

record CsiVolume =
  cv_VolumeId :: string
  cv_CapacityBytes :: int
  cv_ContentSource :: "VolumeContentSource option"

record PublishRequest =
  pr_VolumeId :: string
  pr_NodeId :: string
  pr_VolumeCapability :: "VolumeCapability option"

record CsiSnapshot =
  cs_SnapshotId :: string
  cs_SourceVolumeId :: string
  cs_SizeBytes :: int
  cs_CreationTime :: "Time option"
  cs_ReadyToUse :: bool
  cs_GroupSnapshotId :: string

subsection \<open>Client and libraries\<close>

record 'w CsiClient = "'w Client" +
  create_ZfsDataset :: "ZfsDataset \<Rightarrow> 'w act"
  delete_ZfsDataset :: "string \<Rightarrow> 'w act"
  replace_ZfsDataset :: "ZfsDataset \<Rightarrow> ('w, ZfsDataset) query"
  delete_ZfsShare :: "string \<Rightarrow> 'w act"
  get_ZfsShareAttachRequest :: "string \<Rightarrow> ('w, ZfsShareAttachRequest) query"
  create_ZfsShareAttachRequest :: "ZfsShareAttachRequest \<Rightarrow> 'w act"
  delete_ZfsShareAttachRequest :: "string \<Rightarrow> 'w act"
  create_ZfsGroupSnapshot :: "ZfsGroupSnapshot \<Rightarrow> 'w act"
  delete_ZfsGroupSnapshot :: "string \<Rightarrow> 'w act"
  get_ConfigMap :: "string \<Rightarrow> string \<Rightarrow> ('w, props) query"
  get_PersistentVolumeClaim :: "string \<Rightarrow> string \<Rightarrow> ('w, props) query"

text \<open>
  \<open>next_tick timeout interval\<close> is the \<open>select\<close> of a waiting loop: true when the ticker fires, false when
  the context is done. \<open>RetryOnConflict\<close> runs a closure that writes a captured generation, so it acts
  on the world together with that variable.
\<close>

record 'w CsiEnv =
  new_uuid :: "'w \<Rightarrow> 'w \<times> string"
  sha256_hex :: "string \<Rightarrow> string"
  yaml_Unmarshal :: "string \<Rightarrow> goerr + props"
  next_tick :: "int \<Rightarrow> int \<Rightarrow> 'w \<Rightarrow> 'w \<times> bool"
  ctx_done :: "'w \<Rightarrow> 'w \<times> bool"
  retry_gen :: "('w \<times> int) act \<Rightarrow> ('w \<times> int) act"

subsection \<open>Polling\<close>

text \<open>Check, and when there is no answer yet wait for a tick; the deadline gives the answer \<open>late\<close>.\<close>

partial_function (option) poll :: "('w \<Rightarrow> 'w \<times> 'r option) \<Rightarrow> ('w \<Rightarrow> 'w \<times> bool) \<Rightarrow> 'r \<Rightarrow> 'w \<Rightarrow> ('w \<times> 'r) option" where
  "poll check tick late w =
     (case check w of
        (w1, Some r) \<Rightarrow> Some (w1, r)
      | (w1, None) \<Rightarrow> (case tick w1 of (w2, fired) \<Rightarrow> if fired then poll check tick late w2 else Some (w2, late)))"

declare poll.simps [code]

text \<open>An answer is the deadline's, or one that a check gave.\<close>

lemma poll_result:
  assumes "poll check tick late w = Some y"
  shows "snd y = late \<or> (\<exists>w0. check w0 = (fst y, Some (snd y)))"
proof (rule poll.raw_induct [OF _ assms, where P = "\<lambda>check tick late w y. snd y = late \<or> (\<exists>w0. check w0 = (fst y, Some (snd y)))"])
  fix self :: "('a \<Rightarrow> 'a \<times> 'b option) \<Rightarrow> ('a \<Rightarrow> 'a \<times> bool) \<Rightarrow> 'b \<Rightarrow> 'a \<Rightarrow> ('a \<times> 'b) option" and check tick late w y
  assume IH: "\<And>check tick late w y. self check tick late w = Some y \<Longrightarrow> snd y = late \<or> (\<exists>w0. check w0 = (fst y, Some (snd y)))"
    and body: "(case check w of (w1, None) \<Rightarrow> (case tick w1 of (w2, fired) \<Rightarrow> if fired then self check tick late w2 else Some (w2, late))
      | (w1, Some r) \<Rightarrow> Some (w1, r)) = Some y"
  obtain w1 x where c: "check w = (w1, x)" by fastforce
  obtain w2 fired where t: "tick w1 = (w2, fired)" by fastforce
  show "snd y = late \<or> (\<exists>w0. check w0 = (fst y, Some (snd y)))"
    using body c t IH [of check tick late w2 y] by (cases x; cases fired) auto
qed

text \<open>When the time that is left shrinks with every tick, the loop ends.\<close>

lemma poll_terminates:
  assumes "\<And>w w1 w2. check w = (w1, None) \<Longrightarrow> tick w1 = (w2, True) \<Longrightarrow> left w2 < (left w :: nat)"
  shows "\<exists>r. poll check tick late w = Some r"
proof (induction "left w" arbitrary: w rule: less_induct)
  case less
  obtain w1 x where c: "check w = (w1, x)" by fastforce
  obtain w2 fired where t: "tick w1 = (w2, fired)" by fastforce
  show ?case using less assms [of w w1 w2] c t
    by (cases x; cases fired) (subst poll.simps, simp)+
qed

end
