(* ===== verification/CsiController.thy ===== *)
theory CsiController
  imports CsiTypes
begin

text \<open>
  \<open>src/internal/csi/controller.go\<close> and \<open>src/internal/csi/clone.go\<close>: the CSI controller service. A call
  translates a CSI request into Kubernetes objects and waits for the agents to act on them.
\<close>

record 'w ControllerServer =
  cs_Client :: "'w CsiClient"
  cs_Env :: "'w CsiEnv"
  cs_DefaultsConfigMap :: string
  cs_DefaultsNamespace :: string
  cs_AnnotationPrefix :: string
  cs_CreateTimeout :: int
  cs_PollInterval :: int

abbreviation defaultsConfigMapKey :: string where "defaultsConfigMapKey \<equiv> ''parameters.yaml''"

definition poll_interval :: "int \<Rightarrow> int" where
  "poll_interval n = (if n \<le> 0 then 1000 else n)"

definition cs_tick :: "'w ControllerServer \<Rightarrow> 'w \<Rightarrow> 'w \<times> bool" where
  "cs_tick c = next_tick (cs_Env c) (cs_CreateTimeout c) (poll_interval (cs_PollInterval c))"

subsection \<open>Sizes and capabilities\<close>

definition capacityBytes :: "CapacityRange option \<Rightarrow> int" where
  "capacityBytes cr =
     (case cr of None \<Rightarrow> 0 | Some r \<Rightarrow> if cr_RequiredBytes r > 0 then cr_RequiredBytes r else cr_LimitBytes r)"

definition hasBlockCapability :: "VolumeCapability list \<Rightarrow> bool" where
  "hasBlockCapability caps \<longleftrightarrow> (\<exists>c \<in> set caps. cap_Block c)"

definition hasMultiNodeAccessMode :: "VolumeCapability list \<Rightarrow> bool" where
  "hasMultiNodeAccessMode caps \<longleftrightarrow>
     (\<exists>c \<in> set caps. cap_AccessMode c \<in> {Some MULTI_NODE_READER_ONLY, Some MULTI_NODE_SINGLE_WRITER, Some MULTI_NODE_MULTI_WRITER})"

text \<open>A request without a capability is the list of a nil one, whose access mode is unknown.\<close>

definition the_capability :: "VolumeCapability option \<Rightarrow> VolumeCapability list" where
  "the_capability cap = (case cap of None \<Rightarrow> [] | Some c \<Rightarrow> [c])"

definition requestedFsType :: "VolumeCapability list \<Rightarrow> string" where
  "requestedFsType caps =
     (case find (\<lambda>c. cap_Mount c \<noteq> None \<and> cap_Mount c \<noteq> Some '''') caps of
        Some c \<Rightarrow> the (cap_Mount c) | None \<Rightarrow> '''')"

datatype rpc_type =
    RPC_CREATE_DELETE_VOLUME | RPC_PUBLISH_UNPUBLISH_VOLUME | RPC_EXPAND_VOLUME
  | RPC_CREATE_DELETE_SNAPSHOT | RPC_LIST_SNAPSHOTS | RPC_CLONE_VOLUME

definition ControllerGetCapabilities :: "rpc_type list" where
  "ControllerGetCapabilities =
     [RPC_CREATE_DELETE_VOLUME, RPC_PUBLISH_UNPUBLISH_VOLUME, RPC_EXPAND_VOLUME,
      RPC_CREATE_DELETE_SNAPSHOT, RPC_LIST_SNAPSHOTS, RPC_CLONE_VOLUME]"

subsection \<open>The spec of a volume\<close>

definition fs_config :: "ResolvedParams \<Rightarrow> int \<Rightarrow> FilesystemConfig" where
  "fs_config rp sizeBytes =
     \<lparr>fs_Quota = (if sizeBytes > 0 then Some (NewQuantity sizeBytes) else None),
      fs_UID = rp_UID rp, fs_GID = rp_GID rp, fs_Mode = rp_Mode rp\<rparr>"

definition volumeSpec :: "ResolvedParams \<Rightarrow> string \<Rightarrow> int \<Rightarrow> ZfsDatasetSpec" where
  "volumeSpec rp dataset sizeBytes =
     \<lparr>zds_PoolGUID = rp_PoolGUID rp, zds_Dataset = dataset, zds_Type = rp_DatasetType rp, zds_Properties = rp_Properties rp,
      zds_Filesystem =
        (let fs = fs_config rp sizeBytes in
         if rp_DatasetType rp = DatasetTypeFilesystem \<and>
            (fs_Quota fs \<noteq> None \<or> fs_UID fs \<noteq> None \<or> fs_GID fs \<noteq> None \<or> fs_Mode fs \<noteq> '''')
         then Some fs else None),
      zds_Volume =
        (if rp_DatasetType rp = DatasetTypeVolume
         then Some \<lparr>vc_Size = NewQuantity sizeBytes, vc_Volblocksize = rp_Volblocksize rp\<rparr> else None),
      zds_Source = None\<rparr>"

definition volumeSize :: "ZfsDatasetSpec \<Rightarrow> Quantity option" where
  "volumeSize spec =
     (if zds_Type spec = DatasetTypeVolume then map_option vc_Size (zds_Volume spec)
      else if zds_Type spec = DatasetTypeFilesystem
        then (case zds_Filesystem spec of None \<Rightarrow> None | Some fs \<Rightarrow> fs_Quota fs)
      else None)"

definition quantityEqual :: "Quantity option \<Rightarrow> Quantity option \<Rightarrow> bool" where
  "quantityEqual a b =
     (case (a, b) of (Some x, Some y) \<Rightarrow> q_Amount x = q_Amount y | _ \<Rightarrow> a = None \<and> b = None)"

definition datasetSourceEqual :: "DatasetSource option \<Rightarrow> DatasetSource option \<Rightarrow> bool" where
  "datasetSourceEqual a b =
     (case (a, b) of
        (Some x, Some y) \<Rightarrow> src_Snapshot x = src_Snapshot y \<and> src_Volume x = src_Volume y
      | _ \<Rightarrow> a = None \<and> b = None)"

definition volumeSpecCompatible :: "ZfsDatasetSpec \<Rightarrow> ZfsDatasetSpec \<Rightarrow> bool" where
  "volumeSpecCompatible existing desired \<longleftrightarrow>
     \<not> (zds_PoolGUID existing \<noteq> zds_PoolGUID desired \<or> zds_Type existing \<noteq> zds_Type desired) \<and>
     datasetSourceEqual (zds_Source existing) (zds_Source desired) \<and>
     quantityEqual (volumeSize existing) (volumeSize desired)"

subsection \<open>Layers of parameters\<close>

definition defaultParams :: "'w ControllerServer \<Rightarrow> ('w, props) cquery" where
  "defaultParams c w =
     (let ns = cs_DefaultsNamespace c; cm = cs_DefaultsConfigMap c in
      if cm = '''' then (w, Inr [])
      else (case get_ConfigMap (cs_Client c) ns cm w of
              (w1, Inl e) \<Rightarrow> (w1, if IsNotFound e then Inr []
                 else Inl (Status Internal (''get default-parameters ConfigMap '' @ ns @ ''/'' @ cm @ '': '' @ err_text e)))
            | (w1, Inr cfg) \<Rightarrow>
                (w1, if mgets cfg defaultsConfigMapKey = '''' then Inr []
                     else (case yaml_Unmarshal (cs_Env c) (mgets cfg defaultsConfigMapKey) of
                             Inl e \<Rightarrow> Inl (Status Internal (''parse default parameters from '' @ ns @ ''/'' @ cm @ ''[''
                               @ defaultsConfigMapKey @ '']: '' @ err_text e))
                           | Inr out \<Rightarrow> Inr out))))"

definition pvcAnnotations :: "'w ControllerServer \<Rightarrow> props \<Rightarrow> ('w, props) cquery" where
  "pvcAnnotations c params w =
     (let pvcName = mgets params ReservedPVCName; ns = mgets params ReservedPVCNamespace in
      if cs_AnnotationPrefix c = '''' \<or> pvcName = '''' \<or> ns = '''' then (w, Inr [])
      else (case get_PersistentVolumeClaim (cs_Client c) ns pvcName w of
              (w1, Inl e) \<Rightarrow> (w1, if IsNotFound e then Inr []
                 else Inl (Status Internal (''get PVC '' @ ns @ ''/'' @ pvcName @ '': '' @ err_text e)))
            | (w1, Inr anns) \<Rightarrow> (w1, Inr anns)))"

subsection \<open>Content sources\<close>

definition normalizedDatasetPrefix :: "string \<Rightarrow> string" where
  "normalizedDatasetPrefix prefix = (let p = Trim CHR ''/'' prefix in if p = '''' then ''.'' else p)"

definition checkSamePrefix :: "ResolvedParams \<Rightarrow> string \<Rightarrow> string \<Rightarrow> string \<Rightarrow> csierr option" where
  "checkSamePrefix rp sourceDataset kind n =
     (let srcPrefix = path_Dir (Trim CHR ''/'' sourceDataset); want = normalizedDatasetPrefix (rp_DatasetPrefix rp) in
      if \<not> rp_RejectCrossPrefixClones rp \<or> srcPrefix = want then None
      else Some (Status InvalidArgument (''cross-prefix '' @ kind @ '' unsupported: '' @ Quote n @ [CHR 39]
        @ ''s data lives under prefix '' @ Quote srcPrefix @ '', target prefix is '' @ Quote want)))"

definition unit_factor :: "char \<Rightarrow> int option" where
  "unit_factor c = (if c = CHR ''k'' then Some 1024 else if c = CHR ''m'' then Some (1024 * 1024)
                    else if c = CHR ''g'' then Some (1024 * 1024 * 1024) else None)"

definition volblocksizeBytes :: "string \<Rightarrow> int" where
  "volblocksizeBytes s0 =
     (let s = TrimSpace (ToLower s0) in
      if s = '''' then 16384
      else let (mult, s') = (case unit_factor (last s) of Some k \<Rightarrow> (k, butlast s) | None \<Rightarrow> (1, s));
               (n, bad) = ParseInt (TrimSpace s')
           in if bad \<or> n \<le> 0 then 16384 else int64 (n * mult))"

text \<open>The loop over the requested properties stops at the first one the source has with another value.\<close>

definition property_conflict :: "props \<Rightarrow> props \<Rightarrow> (string \<times> string \<times> string) option" where
  "property_conflict wanted have =
     (case find (\<lambda>(k, v). map_of have k \<noteq> None \<and> map_of have k \<noteq> Some v) wanted of
        None \<Rightarrow> None | Some (k, v) \<Rightarrow> Some (k, v, the (map_of have k)))"

definition checkCloneCompatibility :: "ResolvedParams \<Rightarrow> ZfsDataset option \<Rightarrow> string \<Rightarrow> csierr option" where
  "checkCloneCompatibility rp source requestedFS =
     (case source of
        None \<Rightarrow> None
      | Some src \<Rightarrow>
          (let n = om_Name (zd_Meta src);
               props_check = (case property_conflict (rp_Properties rp) (zds_Properties (zd_Spec src)) of
                 None \<Rightarrow> None
               | Some (k, v, have) \<Rightarrow> Some (Status InvalidArgument (''property '' @ Quote k @ '' mismatch: target requests '' @ Quote v
                   @ '', source '' @ Quote n @ '' has '' @ Quote have @ '' (a clone/restore cannot change structural ZFS properties)'')))
           in if rp_DatasetType rp = DatasetTypeVolume \<and> zds_Volume (zd_Spec src) \<noteq> None then
                (let want = volblocksizeBytes (rp_Volblocksize rp);
                     have = volblocksizeBytes (vc_Volblocksize (the (zds_Volume (zd_Spec src))));
                     fst = zdst_FSType (zd_Status src) in
                 if want \<noteq> have then
                   Some (Status InvalidArgument (''volblocksize mismatch: target resolves to '' @ FormatInt want @ '' bytes, source ''
                     @ Quote n @ '' is '' @ FormatInt have @ '' bytes (a clone/restore cannot change volblocksize)''))
                 else if requestedFS \<noteq> '''' \<and> fst \<noteq> '''' \<and> requestedFS \<noteq> fst then
                   Some (Status InvalidArgument (''fsType mismatch: requested '' @ Quote requestedFS @ '', source '' @ Quote n
                     @ '' was formatted as '' @ Quote fst @ '' (a clone/restore cannot change the on-disk filesystem)''))
                 else props_check)
              else props_check))"

definition zero_dataset :: "string \<Rightarrow> ZfsDatasetSpec \<Rightarrow> ZfsDataset" where
  "zero_dataset n spec =
     \<lparr>zd_Meta = new_meta n, zd_Spec = spec,
      zd_Status = \<lparr>zdst_Phase = '''', zdst_ProvisionedAt = None, zdst_CreationTime = None, zdst_Path = '''', zdst_FSType = '''',
        zdst_ObservedGeneration = 0, zdst_Message = '''', zdst_Conditions = []\<rparr>\<rparr>"

definition capturedSourceDataset :: "ZfsSnapshot \<Rightarrow> ZfsDataset option" where
  "capturedSourceDataset snap =
     (let s = zs_Spec snap in
      if zss_SourceFSType s = '''' \<and> zss_SourceVolblocksize s = '''' \<and> zss_SourceProperties s = [] then None
      else let ds = zero_dataset (if zss_SourceVolume s = '''' then om_Name (zs_Meta snap) else zss_SourceVolume s)
             \<lparr>zds_PoolGUID = '''', zds_Dataset = '''', zds_Type = zss_SourceType s, zds_Properties = zss_SourceProperties s,
              zds_Filesystem = None,
              zds_Volume = (if zss_SourceVolblocksize s \<noteq> ''''
                then Some \<lparr>vc_Size = NewQuantity 0, vc_Volblocksize = zss_SourceVolblocksize s\<rparr> else None),
              zds_Source = None\<rparr>
           in Some (ds\<lparr>zd_Status := (zd_Status ds)\<lparr>zdst_FSType := zss_SourceFSType s\<rparr>\<rparr>))"

definition snapshotCloneCompatibility ::
  "'w ControllerServer \<Rightarrow> ResolvedParams \<Rightarrow> ZfsSnapshot \<Rightarrow> VolumeCapability list \<Rightarrow> 'w \<Rightarrow> 'w \<times> csierr option" where
  "snapshotCloneCompatibility c rp snap caps w =
     (let captured = (\<lambda>w. (w, checkCloneCompatibility rp (capturedSourceDataset snap) (requestedFsType caps))) in
      if zss_SourceVolume (zs_Spec snap) \<noteq> '''' then
        (case get_ZfsDataset (cs_Client c) (zss_SourceVolume (zs_Spec snap)) w of
           (w1, Inr src) \<Rightarrow> (w1, checkCloneCompatibility rp (Some src) (requestedFsType caps))
         | (w1, Inl e) \<Rightarrow> captured w1)
      else captured w)"

definition sourceDatasetType :: "'w ControllerServer \<Rightarrow> string \<Rightarrow> 'w \<Rightarrow> 'w \<times> DatasetType" where
  "sourceDatasetType c n w =
     (if n = '''' then (w, '''')
      else (case get_ZfsDataset (cs_Client c) n w of
              (w1, Inl e) \<Rightarrow> (w1, '''') | (w1, Inr ds) \<Rightarrow> (w1, zds_Type (zd_Spec ds))))"

definition snapshotSourceType :: "'w ControllerServer \<Rightarrow> ZfsSnapshot \<Rightarrow> 'w \<Rightarrow> 'w \<times> DatasetType" where
  "snapshotSourceType c snap w =
     (if zss_SourceType (zs_Spec snap) \<noteq> '''' then (w, zss_SourceType (zs_Spec snap))
      else sourceDatasetType c (zss_SourceVolume (zs_Spec snap)) w)"

definition snapshotSourceDataset :: "'w ControllerServer \<Rightarrow> ZfsSnapshot \<Rightarrow> 'w \<Rightarrow> 'w \<times> string" where
  "snapshotSourceDataset c snap w =
     (if zss_SourceVolume (zs_Spec snap) = '''' then (w, zss_Dataset (zs_Spec snap))
      else (case get_ZfsDataset (cs_Client c) (zss_SourceVolume (zs_Spec snap)) w of
              (w1, Inl e) \<Rightarrow> (w1, zss_Dataset (zs_Spec snap)) | (w1, Inr ds) \<Rightarrow> (w1, zds_Dataset (zd_Spec ds))))"

definition snapshot_ref :: "string \<Rightarrow> DatasetSource" where
  "snapshot_ref n = \<lparr>src_Snapshot = '''', src_Volume = '''', src_ZfsSnapshotRef = Some n, src_ZfsDatasetRef = None\<rparr>"

definition dataset_ref :: "string \<Rightarrow> DatasetSource" where
  "dataset_ref n = \<lparr>src_Snapshot = '''', src_Volume = '''', src_ZfsSnapshotRef = None, src_ZfsDatasetRef = Some n\<rparr>"

definition restore_source ::
  "'w ControllerServer \<Rightarrow> ResolvedParams \<Rightarrow> VolumeCapability list \<Rightarrow> string \<Rightarrow> ZfsSnapshot \<Rightarrow> ('w, DatasetSource option) cquery" where
  "restore_source c rp caps n snap w =
     (if zss_PoolGUID (zs_Spec snap) \<noteq> rp_PoolGUID rp then
        (w, Inl (Status InvalidArgument (''cross-pool restore unsupported: snapshot '' @ Quote n @ '' is on pool ''
          @ zss_PoolGUID (zs_Spec snap) @ '', target pool is '' @ rp_PoolGUID rp)))
      else (case snapshotSourceType c snap w of (w1, srcType) \<Rightarrow>
        if srcType \<noteq> '''' \<and> srcType \<noteq> rp_DatasetType rp then
          (w1, Inl (Status InvalidArgument (''cannot restore a '' @ srcType @ '' snapshot into a '' @ rp_DatasetType rp
            @ '' (protocol '' @ rp_Protocol rp @ '') volume'')))
        else (case snapshotCloneCompatibility c rp snap caps w1 of
          (w2, Some e) \<Rightarrow> (w2, Inl e)
        | (w2, None) \<Rightarrow>
            if om_DeletionTimestamp (zs_Meta snap) \<noteq> None then
              (w2, Inl (Status FailedPrecondition (''snapshot '' @ Quote n @ '' is being deleted; retry'')))
            else if zsst_Phase (zs_Status snap) \<noteq> SnapshotPhaseReady then
              (w2, Inl (Status FailedPrecondition (''snapshot '' @ Quote n @ '' is in phase '' @ Quote (zsst_Phase (zs_Status snap))
                @ '', not yet restorable; retry'')))
            else (case snapshotSourceDataset c snap w2 of (w3, ds) \<Rightarrow>
              (w3, case checkSamePrefix rp ds ''restore'' n of
                     Some e \<Rightarrow> Inl e | None \<Rightarrow> Inr (Some (snapshot_ref n)))))))"

definition clone_source ::
  "ResolvedParams \<Rightarrow> VolumeCapability list \<Rightarrow> string \<Rightarrow> ZfsDataset \<Rightarrow> csierr + DatasetSource option" where
  "clone_source rp caps n src =
     (if zds_PoolGUID (zd_Spec src) \<noteq> rp_PoolGUID rp then
        Inl (Status InvalidArgument (''cross-pool clone unsupported: volume '' @ Quote n @ '' is on pool ''
          @ zds_PoolGUID (zd_Spec src) @ '', target pool is '' @ rp_PoolGUID rp))
      else if zds_Type (zd_Spec src) \<noteq> rp_DatasetType rp then
        Inl (Status InvalidArgument (''cannot clone a '' @ zds_Type (zd_Spec src) @ '' volume into a '' @ rp_DatasetType rp
          @ '' (protocol '' @ rp_Protocol rp @ '') volume''))
      else (case checkSamePrefix rp (zds_Dataset (zd_Spec src)) ''clone'' n of
              Some e \<Rightarrow> Inl e
            | None \<Rightarrow> (case checkCloneCompatibility rp (Some src) (requestedFsType caps) of
                         Some e \<Rightarrow> Inl e | None \<Rightarrow> Inr (Some (dataset_ref n)))))"

definition resolveContentSource ::
  "'w ControllerServer \<Rightarrow> CreateVolumeRequest \<Rightarrow> ResolvedParams \<Rightarrow> ('w, DatasetSource option) cquery" where
  "resolveContentSource c req rp w =
     (let caps = cvr_VolumeCapabilities req in
      case cvr_VolumeContentSource req of
        None \<Rightarrow> (w, Inr None)
      | Some (ContentSnapshot n) \<Rightarrow>
          if n = '''' then (w, Inl (Status InvalidArgument ''snapshot content source has no snapshot id''))
          else (case get_ZfsSnapshot (cs_Client c) n w of
                  (w1, Inl e) \<Rightarrow>
                    (w1, Inl (if IsNotFound e then Status NotFound (''source snapshot '' @ Quote n @ '' not found'')
                              else Status Internal (''get source snapshot '' @ Quote n @ '': '' @ err_text e)))
                | (w1, Inr snap) \<Rightarrow> restore_source c rp caps n snap w1)
      | Some (ContentVolume n) \<Rightarrow>
          if n = '''' then (w, Inl (Status InvalidArgument ''volume content source has no volume id''))
          else (case get_ZfsDataset (cs_Client c) n w of
                  (w1, Inl e) \<Rightarrow>
                    (w1, Inl (if IsNotFound e then Status NotFound (''source volume '' @ Quote n @ '' not found'')
                              else Status Internal (''get source volume '' @ Quote n @ '': '' @ err_text e)))
                | (w1, Inr src) \<Rightarrow> (w1, clone_source rp caps n src))
      | Some ContentUnsupported \<Rightarrow> (w, Inl (Status InvalidArgument ''unsupported volume content source'')))"

subsection \<open>Creating a volume\<close>

text \<open>A lost race with another creator starts over, so the recursion has no bound of its own.\<close>

partial_function (option) ensureVolume :: "'w CsiClient \<Rightarrow> string \<Rightarrow> ZfsDatasetSpec \<Rightarrow> ('w, ZfsDatasetSpec) rpc" where
  "ensureVolume c n desired w =
     (case get_ZfsDataset c n w of
        (w1, Inl e) \<Rightarrow>
          if IsNotFound e then
            (case create_ZfsDataset c (zero_dataset n desired) w1 of
               (w2, None) \<Rightarrow> Some (w2, Inr desired)
             | (w2, Some e2) \<Rightarrow>
                 if errors_Is e2 StatusAlreadyExists then ensureVolume c n desired w2
                 else Some (w2, Inl (Status Internal (''create ZfsDataset '' @ Quote n @ '': '' @ err_text e2))))
          else Some (w1, Inl (Status Internal (''get ZfsDataset '' @ Quote n @ '': '' @ err_text e)))
      | (w1, Inr existing) \<Rightarrow>
          Some (w1, if \<not> volumeSpecCompatible (zd_Spec existing) desired
                    then Inl (Status AlreadyExists (''volume '' @ Quote n @ '' already exists with different parameters''))
                    else Inr (zd_Spec existing)))"

declare ensureVolume.simps [code]

definition volume_ready :: "'w CsiClient \<Rightarrow> string \<Rightarrow> int \<Rightarrow> 'w \<Rightarrow> 'w \<times> (csierr + ZfsDataset) option" where
  "volume_ready c n minGeneration w =
     (case get_ZfsDataset c n w of
        (w1, Inl e) \<Rightarrow> (w1, Some (Inl (Status Internal (''get ZfsDataset '' @ Quote n @ '': '' @ err_text e))))
      | (w1, Inr vol) \<Rightarrow>
          (let observed = (zdst_ObservedGeneration (zd_Status vol) \<ge> minGeneration); ph = zdst_Phase (zd_Status vol) in
           (w1, if observed \<and> ph = DatasetPhaseReady then Some (Inr vol)
                else if observed \<and> (ph = DatasetPhaseError \<or> ph = DatasetPhaseLost) then
                  Some (Inl (Status Internal (''volume '' @ Quote n @ '' provisioning failed: '' @ zdst_Message (zd_Status vol))))
                else None)))"

definition waitVolumeReady :: "'w ControllerServer \<Rightarrow> string \<Rightarrow> int \<Rightarrow> ('w, ZfsDataset) rpc" where
  "waitVolumeReady c n minGeneration =
     poll (volume_ready (cs_Client c) n minGeneration) (cs_tick c)
       (Inl (Status DeadlineExceeded (''timed out waiting for volume '' @ Quote n @ '' to become ready'')))"

text \<open>The checks of \<open>CreateVolume\<close> that need no object: capabilities against the protocol, and the size.\<close>

definition check_request :: "ResolvedParams \<Rightarrow> VolumeCapability list \<Rightarrow> int \<Rightarrow> csierr option" where
  "check_request rp caps sizeBytes =
     (if hasBlockCapability caps \<and> rp_Protocol rp = ProtocolNFS
        then Some (Status InvalidArgument ''block volumeMode requires protocol nvmeof'')
      else if rp_Protocol rp = ProtocolNVMeoF \<and> hasMultiNodeAccessMode caps
        then Some (Status InvalidArgument ''protocol nvmeof is single-node only; multi-node (RWX) access modes are not supported (use protocol nfs)'')
      else if rp_DatasetType rp = DatasetTypeVolume \<and> sizeBytes \<le> 0
        then Some (Status InvalidArgument ''capacity is required for nvmeof (zvol) volumes'')
      else None)"

text \<open>From the resolved parameters on.\<close>

definition create_volume :: "'w ControllerServer \<Rightarrow> CreateVolumeRequest \<Rightarrow> ResolvedParams \<Rightarrow> ('w, CsiVolume) rpc" where
  "create_volume c req rp w =
     (let sizeBytes = capacityBytes (cvr_CapacityRange req) in
      case check_request rp (cvr_VolumeCapabilities req) sizeBytes of
        Some e \<Rightarrow> Some (w, Inl e)
      | None \<Rightarrow>
          then_rpc (Some (resolveContentSource c req rp w)) (\<lambda>source w1.
            case new_uuid (cs_Env c) w1 of (w2, uuid) \<Rightarrow>
              then_rpc (ensureVolume (cs_Client c) (cvr_Name req)
                          ((volumeSpec rp (rp_Dataset rp (''csi-vol-'' @ uuid)) sizeBytes)\<lparr>zds_Source := source\<rparr>) w2) (\<lambda>actual w3.
                then_rpc (waitVolumeReady c (cvr_Name req) 0 w3) (\<lambda>ready w4.
                  Some (w4, Inr \<lparr>cv_VolumeId = cvr_Name req, cv_CapacityBytes = sizeBytes,
                                 cv_ContentSource = cvr_VolumeContentSource req\<rparr>)))))"

definition CreateVolume :: "'w ControllerServer \<Rightarrow> CreateVolumeRequest \<Rightarrow> ('w, CsiVolume) rpc" where
  "CreateVolume c req w =
     (if cvr_Name req = '''' then Some (w, Inl (Status InvalidArgument ''volume name is required''))
      else if cvr_VolumeCapabilities req = [] then Some (w, Inl (Status InvalidArgument ''volume capabilities are required''))
      else then_rpc (Some (pvcAnnotations c (cvr_Parameters req) w)) (\<lambda>anns w1.
             then_rpc (Some (defaultParams c w1)) (\<lambda>defaults w2.
               case ParseParams (ResolveParameters defaults (cvr_Parameters req) anns (cs_AnnotationPrefix c)) of
                 Inl e \<Rightarrow> Some (w2, Inl (Status InvalidArgument (err_text e)))
               | Inr rp \<Rightarrow> create_volume c req rp w2)))"

subsection \<open>Deleting a volume\<close>

definition deleteRefusal :: "ZfsDataset \<Rightarrow> (string \<times> string) option" where
  "deleteRefusal vol =
     (if om_DeletionTimestamp (zd_Meta vol) = None then None
      else (case find (\<lambda>cond. cond_Reason cond = DeleteBlockedReason) (zdst_Conditions (zd_Status vol)) of
              None \<Rightarrow> None
            | Some cond \<Rightarrow> Some (cond_Reason cond,
                if cond_Message cond = '''' then zdst_Message (zd_Status vol) else cond_Message cond)))"

definition volume_gone :: "'w ControllerServer \<Rightarrow> string \<Rightarrow> 'w \<Rightarrow> 'w \<times> (csierr + unit) option" where
  "volume_gone c n w =
     (case get_ZfsDataset (cs_Client c) n w of
        (w1, Inl e) \<Rightarrow>
          if IsNotFound e then (w1, Some (Inr ()))
          else (case ctx_done (cs_Env c) w1 of (w2, over) \<Rightarrow>
            (w2, if \<not> over then Some (Inl (Status Internal (''get ZfsDataset '' @ Quote n @ '': '' @ err_text e))) else None))
      | (w1, Inr vol) \<Rightarrow>
          (w1, case deleteRefusal vol of
                 None \<Rightarrow> None
               | Some (reason, msg) \<Rightarrow> Some (Inl (Status FailedPrecondition
                   (''volume '' @ Quote n @ '' cannot be deleted ('' @ reason @ ''): '' @ msg)))))"

definition waitVolumeGone :: "'w ControllerServer \<Rightarrow> string \<Rightarrow> ('w, unit) rpc" where
  "waitVolumeGone c n =
     poll (volume_gone c n) (cs_tick c)
       (Inl (Status DeadlineExceeded (''timed out waiting for volume '' @ Quote n @ '' to be deleted'')))"

fun delete_requests :: "'w CsiClient \<Rightarrow> string \<Rightarrow> ZfsShareAttachRequest list \<Rightarrow> ('w, unit) cquery" where
  "delete_requests c volume [] w = (w, Inr ())"
| "delete_requests c volume (ar # ars) w =
     (if zars_VolumeName (zar_Spec ar) \<noteq> volume then delete_requests c volume ars w
      else (case delete_ZfsShareAttachRequest c (om_Name (zar_Meta ar)) w of
              (w1, None) \<Rightarrow> delete_requests c volume ars w1
            | (w1, Some e) \<Rightarrow>
                if IsNotFound e then delete_requests c volume ars w1
                else (w1, Inl (Status Internal (''delete attach request '' @ Quote (om_Name (zar_Meta ar)) @ '': '' @ err_text e)))))"

definition deleteAttachRequests :: "'w CsiClient \<Rightarrow> string \<Rightarrow> ('w, unit) cquery" where
  "deleteAttachRequests c volume w =
     (case list_ZfsShareAttachRequest c w of
        (w1, Inl e) \<Rightarrow> (w1, Inl (Status Internal (''list attach requests for '' @ Quote volume @ '': '' @ err_text e)))
      | (w1, Inr ars) \<Rightarrow> delete_requests c volume ars w1)"

text \<open>\<open>Delete\<close> of an object that is already gone is no error.\<close>

definition delete_kind :: "(string \<Rightarrow> 'w act) \<Rightarrow> string \<Rightarrow> string \<Rightarrow> ('w, unit) cquery" where
  "delete_kind del kind n w =
     (case del n w of
        (w1, None) \<Rightarrow> (w1, Inr ())
      | (w1, Some e) \<Rightarrow> (w1, if IsNotFound e then Inr ()
                              else Inl (Status Internal (''delete '' @ kind @ '' '' @ Quote n @ '': '' @ err_text e))))"

definition DeleteVolume :: "'w ControllerServer \<Rightarrow> string \<Rightarrow> ('w, unit) rpc" where
  "DeleteVolume c n w =
     (if n = '''' then Some (w, Inl (Status InvalidArgument ''volume id is required''))
      else then_rpc (Some (deleteAttachRequests (cs_Client c) n w)) (\<lambda>_ w1.
             then_rpc (Some (delete_kind (delete_ZfsShare (cs_Client c)) ''ZfsShare'' n w1)) (\<lambda>_ w2.
               then_rpc (Some (delete_kind (delete_ZfsDataset (cs_Client c)) ''ZfsDataset'' n w2)) (\<lambda>_ w3.
                 waitVolumeGone c n w3))))"

subsection \<open>Attaching and detaching\<close>

definition attachRequestName :: "'w CsiEnv \<Rightarrow> string \<Rightarrow> string \<Rightarrow> string" where
  "attachRequestName env volume node = volume @ ''-'' @ take 12 (sha256_hex env node)"

definition attachedNode :: "'w CsiClient \<Rightarrow> string \<Rightarrow> string \<Rightarrow> ('w, string) query" where
  "attachedNode c volume exclude w =
     (case list_ZfsShareAttachRequest c w of
        (w1, Inl e) \<Rightarrow> (w1, Inl e)
      | (w1, Inr ars) \<Rightarrow>
          (w1, Inr (case find (\<lambda>ar. zars_VolumeName (zar_Spec ar) = volume \<and> zars_NodeName (zar_Spec ar) \<noteq> exclude) ars of
                      None \<Rightarrow> '''' | Some ar \<Rightarrow> zars_NodeName (zar_Spec ar))))"

definition new_request :: "string \<Rightarrow> string \<Rightarrow> string \<Rightarrow> bool \<Rightarrow> ZfsShareAttachRequest" where
  "new_request n volume node singleNode =
     \<lparr>zar_Meta = new_meta n,
      zar_Spec = \<lparr>zars_VolumeName = volume, zars_NodeName = node, zars_SingleNode = singleNode\<rparr>,
      zar_Status = \<lparr>zarst_Ready = False, zarst_ShareName = '''', zarst_ObservedGeneration = 0, zarst_Message = '''',
        zarst_Conditions = []\<rparr>\<rparr>"

partial_function (option) ensureAttachRequest ::
  "'w CsiClient \<Rightarrow> string \<Rightarrow> string \<Rightarrow> string \<Rightarrow> bool \<Rightarrow> ('w, unit) rpc" where
  "ensureAttachRequest c n volume node singleNode w =
     (case get_ZfsShareAttachRequest c n w of
        (w1, Inl e) \<Rightarrow>
          if IsNotFound e then
            (case create_ZfsShareAttachRequest c (new_request n volume node singleNode) w1 of
               (w2, None) \<Rightarrow> Some (w2, Inr ())
             | (w2, Some e2) \<Rightarrow>
                 if errors_Is e2 StatusAlreadyExists then ensureAttachRequest c n volume node singleNode w2
                 else Some (w2, Inl (Status Internal (''create ZfsShareAttachRequest '' @ Quote n @ '': '' @ err_text e2))))
          else Some (w1, Inl (Status Internal (''get ZfsShareAttachRequest '' @ Quote n @ '': '' @ err_text e)))
      | (w1, Inr existing) \<Rightarrow>
          Some (w1, if zars_VolumeName (zar_Spec existing) \<noteq> volume \<or> zars_NodeName (zar_Spec existing) \<noteq> node
                    then Inl (Status AlreadyExists (''attach request '' @ Quote n @ '' already exists for a different (volume, node)''))
                    else Inr ()))"

declare ensureAttachRequest.simps [code]

definition attach_ready :: "'w CsiClient \<Rightarrow> string \<Rightarrow> 'w \<Rightarrow> 'w \<times> (csierr + unit) option" where
  "attach_ready c n w =
     (case get_ZfsShareAttachRequest c n w of
        (w1, Inl e) \<Rightarrow> (w1, Some (Inl (Status Internal (''get ZfsShareAttachRequest '' @ Quote n @ '': '' @ err_text e))))
      | (w1, Inr ar) \<Rightarrow>
          (w1, if zarst_Ready (zar_Status ar) \<and> zarst_ObservedGeneration (zar_Status ar) \<ge> om_Generation (zar_Meta ar)
               then Some (Inr ()) else None))"

definition waitAttachReady :: "'w ControllerServer \<Rightarrow> string \<Rightarrow> ('w, unit) rpc" where
  "waitAttachReady c n =
     poll (attach_ready (cs_Client c) n) (cs_tick c)
       (Inl (Status DeadlineExceeded (''timed out waiting for volume attach '' @ Quote n @ '' to become ready'')))"

text \<open>The guard for single-node volumes: another node holds an attach request.\<close>

definition check_single_node :: "'w CsiClient \<Rightarrow> string \<Rightarrow> string \<Rightarrow> ('w, unit) cquery" where
  "check_single_node c volumeID nodeID w =
     (case attachedNode c volumeID nodeID w of
        (w1, Inl e) \<Rightarrow> (w1, Inl (Status Internal (''list attach requests for '' @ Quote volumeID @ '': '' @ err_text e)))
      | (w1, Inr other) \<Rightarrow>
          (w1, if other \<noteq> ''''
               then Inl (Status FailedPrecondition (''volume '' @ Quote volumeID @ '' is already published to node '' @ Quote other
                 @ ''; single-node (RWO) volumes cannot be attached to '' @ Quote nodeID @ '' simultaneously''))
               else Inr ()))"

definition get_volume :: "'w CsiClient \<Rightarrow> string \<Rightarrow> ('w, ZfsDataset) cquery" where
  "get_volume c n w =
     (case get_ZfsDataset c n w of
        (w1, Inl e) \<Rightarrow>
          (w1, Inl (if IsNotFound e then Status NotFound (''volume '' @ Quote n @ '' not found'')
                    else Status Internal (''get ZfsDataset '' @ Quote n @ '': '' @ err_text e)))
      | (w1, Inr vol) \<Rightarrow> (w1, Inr vol))"

definition ControllerPublishVolume :: "'w ControllerServer \<Rightarrow> PublishRequest \<Rightarrow> ('w, unit) rpc" where
  "ControllerPublishVolume c req w =
     (let volumeID = pr_VolumeId req; nodeID = pr_NodeId req;
          multi = hasMultiNodeAccessMode (the_capability (pr_VolumeCapability req));
          n = attachRequestName (cs_Env c) volumeID nodeID in
      if volumeID = '''' then Some (w, Inl (Status InvalidArgument ''volume id is required''))
      else if nodeID = '''' then Some (w, Inl (Status InvalidArgument ''node id is required''))
      else then_rpc (Some (get_volume (cs_Client c) volumeID w)) (\<lambda>vol w1.
             if zds_Type (zd_Spec vol) = DatasetTypeVolume \<and> multi
             then Some (w1, Inl (Status InvalidArgument ''protocol nvmeof is single-node only; multi-node (RWX) access modes are not supported''))
             else then_rpc (Some (if \<not> multi then check_single_node (cs_Client c) volumeID nodeID w1 else (w1, Inr ()))) (\<lambda>_ w2.
               then_rpc (ensureAttachRequest (cs_Client c) n volumeID nodeID (\<not> multi) w2) (\<lambda>_ w3. waitAttachReady c n w3))))"

definition ControllerUnpublishVolume :: "'w ControllerServer \<Rightarrow> string \<Rightarrow> string \<Rightarrow> ('w, unit) rpc" where
  "ControllerUnpublishVolume c volumeID nodeID w =
     (if volumeID = '''' then Some (w, Inl (Status InvalidArgument ''volume id is required''))
      else if nodeID = '''' then Some (w, Inl (Status InvalidArgument ''node id is required''))
      else Some (delete_kind (delete_ZfsShareAttachRequest (cs_Client c)) ''ZfsShareAttachRequest''
                   (attachRequestName (cs_Env c) volumeID nodeID) w))"

subsection \<open>Growing a volume, validating capabilities\<close>

text \<open>The new spec, or none when the volume is already large enough.\<close>

definition grown_spec :: "int \<Rightarrow> ZfsDatasetSpec \<Rightarrow> ZfsDatasetSpec option" where
  "grown_spec required spec =
     (if zds_Type spec = DatasetTypeFilesystem then
        (let fs = (case zds_Filesystem spec of Some fs \<Rightarrow> fs
                   | None \<Rightarrow> \<lparr>fs_Quota = None, fs_UID = None, fs_GID = None, fs_Mode = ''''\<rparr>) in
         case fs_Quota fs of
           Some q \<Rightarrow> if q_Value q < required then Some (spec\<lparr>zds_Filesystem := Some (fs\<lparr>fs_Quota := Some (NewQuantity required)\<rparr>)\<rparr>) else None
         | None \<Rightarrow> Some (spec\<lparr>zds_Filesystem := Some (fs\<lparr>fs_Quota := Some (NewQuantity required)\<rparr>)\<rparr>))
      else if zds_Type spec = DatasetTypeVolume then
        (case zds_Volume spec of
           Some v \<Rightarrow> if q_Value (vc_Size v) < required then Some (spec\<lparr>zds_Volume := Some (v\<lparr>vc_Size := NewQuantity required\<rparr>)\<rparr>) else None
         | None \<Rightarrow> None)
      else None)"

definition grow_once :: "'w CsiClient \<Rightarrow> string \<Rightarrow> int \<Rightarrow> ('w \<times> int) act" where
  "grow_once c n required s =
     (case get_ZfsDataset c n (fst s) of
        (w1, Inl e) \<Rightarrow> ((w1, snd s), Some e)
      | (w1, Inr cur) \<Rightarrow>
          (case grown_spec required (zd_Spec cur) of
             None \<Rightarrow> ((w1, om_Generation (zd_Meta cur)), None)
           | Some spec \<Rightarrow>
               (case replace_ZfsDataset c (cur\<lparr>zd_Spec := spec\<rparr>) w1 of
                  (w2, Inl e) \<Rightarrow> ((w2, snd s), Some e)
                | (w2, Inr new) \<Rightarrow> ((w2, om_Generation (zd_Meta new)), None))))"

definition ControllerExpandVolume :: "'w ControllerServer \<Rightarrow> string \<Rightarrow> CapacityRange option \<Rightarrow> ('w, int \<times> bool) rpc" where
  "ControllerExpandVolume c n capacity w =
     (let required = capacityBytes capacity in
      if n = '''' then Some (w, Inl (Status InvalidArgument ''volume id is required''))
      else if required \<le> 0 then Some (w, Inl (Status InvalidArgument ''capacity range is required''))
      else then_rpc (Some (get_volume (cs_Client c) n w)) (\<lambda>vol w1.
        let t = zds_Type (zd_Spec vol) in
        if t \<noteq> DatasetTypeFilesystem \<and> t \<noteq> DatasetTypeVolume
          then Some (w1, Inl (Status Internal (''volume '' @ Quote n @ '' has unknown type '' @ Quote t)))
        else if t = DatasetTypeVolume \<and> zds_Volume (zd_Spec vol) = None
          then Some (w1, Inl (Status Internal (''volume '' @ Quote n @ '' has no size'')))
        else (case retry_gen (cs_Env c) (grow_once (cs_Client c) n required) (w1, 0) of
                ((w2, gen), Some e) \<Rightarrow> Some (w2, Inl (Status Internal (''update ZfsDataset '' @ Quote n @ '': '' @ err_text e)))
              | ((w2, gen), None) \<Rightarrow>
                  then_rpc (waitVolumeReady c n gen w2) (\<lambda>_ w3. Some (w3, Inr (required, t = DatasetTypeVolume))))))"

text \<open>\<open>Inr None\<close> confirms the capabilities, \<open>Inr (Some m)\<close> declines them with a message.\<close>

definition ValidateVolumeCapabilities ::
  "'w ControllerServer \<Rightarrow> string \<Rightarrow> VolumeCapability list \<Rightarrow> ('w, string option) cquery" where
  "ValidateVolumeCapabilities c n caps w =
     (if n = '''' then (w, Inl (Status InvalidArgument ''volume id is required''))
      else if caps = [] then (w, Inl (Status InvalidArgument ''volume capabilities are required''))
      else if \<exists>cap \<in> set caps. cap_AccessMode cap = None then (w, Inr (Some ''missing access mode''))
      else (case get_volume (cs_Client c) n w of
              (w1, Inl e) \<Rightarrow> (w1, Inl e)
            | (w1, Inr vol) \<Rightarrow>
                (w1, Inr (if zds_Type (zd_Spec vol) = DatasetTypeVolume \<and> hasMultiNodeAccessMode caps
                          then Some ''protocol nvmeof is single-node only; multi-node (RWX) access modes are not supported''
                          else None))))"

end
