(* ===== verification/CsiSnapshots.thy ===== *)
theory CsiSnapshots
  imports CsiController
begin

text \<open>
  \<open>src/internal/csi/snapshot.go\<close>, \<open>groupcontroller.go\<close>: the CSI calls for snapshots and
  group snapshots.
\<close>

subsection \<open>Snapshots\<close>

definition snapshotMessage :: "ZfsSnapshot \<Rightarrow> CsiSnapshot" where
  "snapshotMessage snap =
     \<lparr>cs_SnapshotId = om_Name (zs_Meta snap), cs_SourceVolumeId = zss_SourceVolume (zs_Spec snap),
      cs_SizeBytes = (case zsst_RestoreSize (zs_Status snap) of None \<Rightarrow> 0 | Some q \<Rightarrow> q_Value q),
      cs_CreationTime = zsst_CreationTime (zs_Status snap), cs_ReadyToUse = zsst_ReadyToUse (zs_Status snap),
      cs_GroupSnapshotId = zss_GroupSnapshotID (zs_Spec snap)\<rparr>"

definition zero_snapshot :: "string \<Rightarrow> ZfsSnapshotSpec \<Rightarrow> ZfsSnapshot" where
  "zero_snapshot n spec = \<lparr>zs_Meta = new_meta n, zs_Spec = spec, zs_Status = zero_snapshot_status\<rparr>"

definition zero_snapshot_spec :: ZfsSnapshotSpec where
  "zero_snapshot_spec = \<lparr>zss_PoolGUID = '''', zss_Dataset = '''', zss_SnapshotName = '''', zss_SourceVolume = '''', zss_SourceType = '''',
     zss_SourceFSType = '''', zss_SourceVolblocksize = '''', zss_SourceProperties = [], zss_GroupSnapshotID = ''''\<rparr>"

definition same_source :: "ZfsSnapshotSpec \<Rightarrow> ZfsSnapshotSpec \<Rightarrow> bool" where
  "same_source existing desired \<longleftrightarrow>
     \<not> (zss_PoolGUID existing \<noteq> zss_PoolGUID desired \<or> zss_Dataset existing \<noteq> zss_Dataset desired \<or>
        zss_SourceVolume existing \<noteq> zss_SourceVolume desired \<or> zss_SourceType existing \<noteq> zss_SourceType desired)"

partial_function (option) ensureSnapshot :: "'w CsiClient \<Rightarrow> string \<Rightarrow> ZfsSnapshotSpec \<Rightarrow> ('w, ZfsSnapshotSpec) rpc" where
  "ensureSnapshot c n desired w =
     (case get_ZfsSnapshot c n w of
        (w1, Inl e) \<Rightarrow>
          if IsNotFound e then
            (case create_ZfsSnapshot c (zero_snapshot n desired) w1 of
               (w2, None) \<Rightarrow> Some (w2, Inr desired)
             | (w2, Some e2) \<Rightarrow>
                 if errors_Is e2 StatusAlreadyExists then ensureSnapshot c n desired w2
                 else Some (w2, Inl (Status Internal (''create ZfsSnapshot '' @ Quote n @ '': '' @ err_text e2))))
          else Some (w1, Inl (Status Internal (''get ZfsSnapshot '' @ Quote n @ '': '' @ err_text e)))
      | (w1, Inr existing) \<Rightarrow>
          Some (w1, if \<not> same_source (zs_Spec existing) desired
                    then Inl (Status AlreadyExists (''snapshot '' @ Quote n @ '' already exists for a different source''))
                    else Inr (zs_Spec existing)))"

declare ensureSnapshot.simps [code]

definition snapshot_ready :: "'w CsiClient \<Rightarrow> string \<Rightarrow> 'w \<Rightarrow> 'w \<times> (csierr + ZfsSnapshot) option" where
  "snapshot_ready c n w =
     (case get_ZfsSnapshot c n w of
        (w1, Inl e) \<Rightarrow> (w1, Some (Inl (Status Internal (''get ZfsSnapshot '' @ Quote n @ '': '' @ err_text e))))
      | (w1, Inr snap) \<Rightarrow>
          (let st = zs_Status snap in
           (w1, if zsst_Phase st = SnapshotPhaseReady \<and> zsst_ReadyToUse st then Some (Inr snap)
                else if zsst_Phase st = SnapshotPhaseError \<or> zsst_Phase st = SnapshotPhaseLost
                  then Some (Inl (Status Internal (''snapshot '' @ Quote n @ '' failed: '' @ zsst_Message st)))
                else None)))"

definition waitSnapshotReady :: "'w ControllerServer \<Rightarrow> string \<Rightarrow> ('w, ZfsSnapshot) rpc" where
  "waitSnapshotReady c n =
     poll (snapshot_ready (cs_Client c) n) (cs_tick c)
       (Inl (Status DeadlineExceeded (''timed out waiting for snapshot '' @ Quote n @ '' to become ready'')))"

text \<open>What is recorded of the source at the time of the snapshot.\<close>

definition snapshot_spec :: "ZfsDataset \<Rightarrow> string \<Rightarrow> string \<Rightarrow> ZfsSnapshotSpec" where
  "snapshot_spec src sourceID uuid =
     \<lparr>zss_PoolGUID = zds_PoolGUID (zd_Spec src), zss_Dataset = zds_Dataset (zd_Spec src),
      zss_SnapshotName = ''csi-snap-'' @ uuid, zss_SourceVolume = sourceID, zss_SourceType = zds_Type (zd_Spec src),
      zss_SourceFSType = zdst_FSType (zd_Status src),
      zss_SourceVolblocksize = (case zds_Volume (zd_Spec src) of None \<Rightarrow> '''' | Some v \<Rightarrow> vc_Volblocksize v),
      zss_SourceProperties = zds_Properties (zd_Spec src), zss_GroupSnapshotID = ''''\<rparr>"

definition source_volume :: "'w CsiClient \<Rightarrow> string \<Rightarrow> ('w, ZfsDataset) cquery" where
  "source_volume c n w =
     (case get_ZfsDataset c n w of
        (w1, Inl e) \<Rightarrow>
          (w1, Inl (if IsNotFound e then Status NotFound (''source volume '' @ Quote n @ '' not found'')
                    else Status Internal (''get source ZfsDataset '' @ Quote n @ '': '' @ err_text e)))
      | (w1, Inr src) \<Rightarrow> (w1, Inr src))"

definition CreateSnapshot :: "'w ControllerServer \<Rightarrow> string \<Rightarrow> string \<Rightarrow> ('w, CsiSnapshot) rpc" where
  "CreateSnapshot c n sourceID w =
     (if n = '''' then Some (w, Inl (Status InvalidArgument ''snapshot name is required''))
      else if sourceID = '''' then Some (w, Inl (Status InvalidArgument ''source volume id is required''))
      else then_rpc (Some (source_volume (cs_Client c) sourceID w)) (\<lambda>src w1.
             case new_uuid (cs_Env c) w1 of (w2, uuid) \<Rightarrow>
               then_rpc (ensureSnapshot (cs_Client c) n (snapshot_spec src sourceID uuid) w2) (\<lambda>_ w3.
                 then_rpc (waitSnapshotReady c n w3) (\<lambda>snap w4. Some (w4, Inr (snapshotMessage snap))))))"

definition DeleteSnapshot :: "'w ControllerServer \<Rightarrow> string \<Rightarrow> ('w, unit) cquery" where
  "DeleteSnapshot c n w =
     (if n = '''' then (w, Inl (Status InvalidArgument ''snapshot id is required''))
      else (case get_ZfsSnapshot (cs_Client c) n w of
              (w1, Inl e) \<Rightarrow> (w1, if IsNotFound e then Inr ()
                 else Inl (Status Internal (''get ZfsSnapshot '' @ Quote n @ '': '' @ err_text e)))
            | (w1, Inr cur) \<Rightarrow>
                if zss_GroupSnapshotID (zs_Spec cur) \<noteq> '''' then
                  (w1, Inl (Status InvalidArgument (''snapshot '' @ Quote n @ '' is a member of group snapshot ''
                    @ Quote (zss_GroupSnapshotID (zs_Spec cur)) @ ''; delete the group instead'')))
                else delete_kind (\<lambda>n. delete_ZfsSnapshot (cs_Client c) (zero_snapshot n zero_snapshot_spec)) ''ZfsSnapshot'' n w1))"

record ListSnapshotsRequest =
  lsr_SnapshotId :: string
  lsr_SourceVolumeId :: string
  lsr_StartingToken :: string
  lsr_MaxEntries :: int

text \<open>The page of a sorted listing: the entries and the token of the next page, empty at the end.\<close>

definition snapshot_page :: "ZfsSnapshot list \<Rightarrow> string \<Rightarrow> int \<Rightarrow> csierr + (CsiSnapshot list \<times> string)" where
  "snapshot_page items tok maxEntries =
     (case (if tok = '''' then (0, False) else ParseInt tok) of (n, bad) \<Rightarrow>
        if bad \<or> n < 0 \<or> n > int (length items)
        then Inl (Status Aborted (''invalid starting_token '' @ Quote tok))
        else let start = nat n;
                 stop = (if maxEntries > 0 \<and> n + maxEntries < int (length items) then nat (n + maxEntries) else length items)
             in Inr (map snapshotMessage (take (stop - start) (drop start items)),
                     if stop < length items then FormatInt (int stop) else ''''))"

definition list_items :: "string \<Rightarrow> ZfsSnapshot list \<Rightarrow> ZfsSnapshot list" where
  "list_items sourceFilter ss =
     sort_key (\<lambda>s. om_Name (zs_Meta s)) (filter (\<lambda>s. sourceFilter = '''' \<or> zss_SourceVolume (zs_Spec s) = sourceFilter) ss)"

definition ListSnapshots :: "'w ControllerServer \<Rightarrow> ListSnapshotsRequest \<Rightarrow> ('w, CsiSnapshot list \<times> string) cquery" where
  "ListSnapshots c req w =
     (let n = lsr_SnapshotId req in
      if n \<noteq> '''' then
        (case get_ZfsSnapshot (cs_Client c) n w of
           (w1, Inl e) \<Rightarrow> (w1, if IsNotFound e then Inr ([], '''')
              else Inl (Status Internal (''get ZfsSnapshot '' @ Quote n @ '': '' @ err_text e)))
         | (w1, Inr snap) \<Rightarrow> (w1, Inr ([snapshotMessage snap], '''')))
      else (case list_ZfsSnapshot (cs_Client c) w of
              (w1, Inl e) \<Rightarrow> (w1, Inl (Status Internal (''list ZfsSnapshots: '' @ err_text e)))
            | (w1, Inr ss) \<Rightarrow> (w1, snapshot_page (list_items (lsr_SourceVolumeId req) ss) (lsr_StartingToken req) (lsr_MaxEntries req))))"

subsection \<open>Group snapshots\<close>

record 'w GroupControllerServer =
  gs_Client :: "'w CsiClient"
  gs_Env :: "'w CsiEnv"
  gs_CreateTimeout :: int
  gs_PollInterval :: int

record VolumeGroupSnapshot =
  vgs_GroupSnapshotId :: string
  vgs_Snapshots :: "CsiSnapshot list"
  vgs_CreationTime :: Time
  vgs_ReadyToUse :: bool

text \<open>The counting comparison of two lists of ids.\<close>

fun use_up :: "(string, nat) gomap \<Rightarrow> string list \<Rightarrow> bool" where
  "use_up counts [] = True"
| "use_up counts (x # xs) =
     (case map_of counts x of
        Some (Suc k) \<Rightarrow> use_up (AList.update x k counts) xs
      | _ \<Rightarrow> False)"

definition count_up :: "string list \<Rightarrow> (string, nat) gomap" where
  "count_up xs = fold (\<lambda>x m. AList.update x (Suc (case map_of m x of None \<Rightarrow> 0 | Some k \<Rightarrow> k)) m) xs []"

definition sameSet :: "string list \<Rightarrow> string list \<Rightarrow> bool" where
  "sameSet a b \<longleftrightarrow> length a = length b \<and> use_up (count_up a) b"

definition sameSourceVolumes :: "ZfsGroupSnapshot \<Rightarrow> string list \<Rightarrow> bool" where
  "sameSourceVolumes grp ids = sameSet (map gm_SourceVolume (zgs_Members (zg_Spec grp))) ids"

definition memberSnapshotIDs :: "ZfsGroupSnapshot \<Rightarrow> string list" where
  "memberSnapshotIDs grp = map gm_ZfsSnapshotRef (zgs_Members (zg_Spec grp))"

text \<open>\<open>strings.TrimRight(s, "-.")\<close>.\<close>

definition memberRefName :: "string \<Rightarrow> string \<Rightarrow> string" where
  "memberRefName groupName uuid =
     (let max = 253 - int (length uuid) - 1;
          g = (if int (length groupName) > max
               then rev (dropWhile (\<lambda>c. c = CHR ''-'' \<or> c = CHR ''.'') (rev (take (nat max) groupName))) else groupName)
      in g @ ''-'' @ uuid)"

fun check_ids :: "string list \<Rightarrow> string list \<Rightarrow> csierr option" where
  "check_ids seen [] = None"
| "check_ids seen (n # ns) =
     (if n = '''' then Some (Status InvalidArgument ''source_volume_ids must not contain an empty id'')
      else if n \<in> set seen then Some (Status InvalidArgument (''source volume '' @ Quote n @ '' is listed more than once''))
      else check_ids (n # seen) ns)"

definition group_member :: "string \<Rightarrow> string \<Rightarrow> string \<Rightarrow> string \<Rightarrow> ZfsDataset \<Rightarrow> ZfsGroupSnapshotMember" where
  "group_member groupName n uuid1 uuid2 src =
     \<lparr>gm_SourceVolume = n, gm_Dataset = zds_Dataset (zd_Spec src), gm_SnapshotName = ''csi-snap-'' @ uuid1,
      gm_ZfsSnapshotRef = memberRefName groupName uuid2, gm_SourceType = zds_Type (zd_Spec src),
      gm_SourceFSType = zdst_FSType (zd_Status src),
      gm_SourceVolblocksize = (case zds_Volume (zd_Spec src) of None \<Rightarrow> '''' | Some v \<Rightarrow> vc_Volblocksize v),
      gm_SourceProperties = zds_Properties (zd_Spec src)\<rparr>"

text \<open>The loop over the source volumes: the pool of each and its member.\<close>

fun build_members :: "'w GroupControllerServer \<Rightarrow> string \<Rightarrow> string list \<Rightarrow> ('w, (string \<times> ZfsGroupSnapshotMember) list) cquery" where
  "build_members g groupName [] w = (w, Inr [])"
| "build_members g groupName (n # ns) w =
     (case source_volume (gs_Client g) n w of
        (w1, Inl e) \<Rightarrow> (w1, Inl e)
      | (w1, Inr src) \<Rightarrow>
          (case new_uuid (gs_Env g) w1 of (w2, uuid1) \<Rightarrow>
             (case new_uuid (gs_Env g) w2 of (w3, uuid2) \<Rightarrow>
                (case build_members g groupName ns w3 of
                   (w4, Inl e) \<Rightarrow> (w4, Inl e)
                 | (w4, Inr ms) \<Rightarrow> (w4, Inr ((zds_PoolGUID (zd_Spec src), group_member groupName n uuid1 uuid2 src) # ms))))))"

definition buildSpec :: "'w GroupControllerServer \<Rightarrow> string \<Rightarrow> string list \<Rightarrow> ('w, ZfsGroupSnapshotSpec) cquery" where
  "buildSpec g groupName ids w =
     (case build_members g groupName ids w of
        (w1, Inl e) \<Rightarrow> (w1, Inl e)
      | (w1, Inr pms) \<Rightarrow>
          (let pools = remdups (map fst pms) in
           (w1, if length pools > 1
                then Inl (Status FailedPrecondition (''source volumes span several pools ('' @ Join '', '' (sort pools)
                  @ ''); a group snapshot is atomic only within one pool''))
                else Inr \<lparr>zgs_PoolGUID = (if pms = [] then '''' else fst (last pms)), zgs_Members = map snd pms\<rparr>)))"

definition group_ready :: "'w CsiClient \<Rightarrow> string \<Rightarrow> 'w \<Rightarrow> 'w \<times> (csierr + ZfsGroupSnapshot) option" where
  "group_ready c n w =
     (case get_ZfsGroupSnapshot c n w of
        (w1, Inl e) \<Rightarrow> (w1, Some (Inl (Status Internal (''get ZfsGroupSnapshot '' @ Quote n @ '': '' @ err_text e))))
      | (w1, Inr grp) \<Rightarrow>
          (let st = zg_Status grp in
           (w1, if om_DeletionTimestamp (zg_Meta grp) \<noteq> None
                  then Some (Inl (Status Aborted (''group snapshot '' @ Quote n @ '' is being deleted'')))
                else if zgst_Phase st = GroupSnapshotPhaseReady \<and> zgst_ReadyToUse st \<and> zgst_CreationTime st \<noteq> None
                  then Some (Inr grp)
                else if zgst_Phase st = GroupSnapshotPhaseError \<or> zgst_Phase st = GroupSnapshotPhaseLost
                  then Some (Inl (Status Internal (''group snapshot '' @ Quote n @ '' failed: '' @ zgst_Message st)))
                else None)))"

definition waitGroupReady :: "'w GroupControllerServer \<Rightarrow> string \<Rightarrow> ('w, ZfsGroupSnapshot) rpc" where
  "waitGroupReady g n =
     poll (group_ready (gs_Client g) n) (next_tick (gs_Env g) (gs_CreateTimeout g) (poll_interval (gs_PollInterval g)))
       (Inl (Status DeadlineExceeded (''timed out waiting for group snapshot '' @ Quote n @ '' to become ready'')))"

text \<open>The loop over the members: their messages, and whether all are ready to use.\<close>

fun member_messages ::
  "'w GroupControllerServer \<Rightarrow> ZfsGroupSnapshot \<Rightarrow> ZfsGroupSnapshotMember list \<Rightarrow> bool \<Rightarrow> ('w, CsiSnapshot list \<times> bool) cquery" where
  "member_messages g grp [] ready w = (w, Inr ([], ready))"
| "member_messages g grp (m # ms) ready w =
     (case get_ZfsSnapshot (gs_Client g) (gm_ZfsSnapshotRef m) w of
        (w1, Inl e) \<Rightarrow>
          (w1, Inl (if IsNotFound e then
                      (if zgst_ProvisionedAt (zg_Status grp) = None
                       then Status Aborted (''group snapshot '' @ Quote (om_Name (zg_Meta grp)) @ '' is still being provisioned: member snapshot ''
                         @ Quote (gm_ZfsSnapshotRef m) @ '' (source volume '' @ Quote (gm_SourceVolume m) @ '') has not been created yet'')
                       else Status FailedPrecondition (''member snapshot '' @ Quote (gm_ZfsSnapshotRef m) @ '' (source volume ''
                         @ Quote (gm_SourceVolume m) @ '') of group snapshot '' @ Quote (om_Name (zg_Meta grp)) @ '' no longer exists''))
                    else Status Internal (''get ZfsSnapshot '' @ Quote (gm_ZfsSnapshotRef m) @ '': '' @ err_text e)))
      | (w1, Inr child) \<Rightarrow>
          (case member_messages g grp ms (ready \<and> zsst_ReadyToUse (zs_Status child)) w1 of
             (w2, Inl e) \<Rightarrow> (w2, Inl e)
           | (w2, Inr (msgs, rdy)) \<Rightarrow>
               (w2, Inr ((snapshotMessage child)\<lparr>cs_GroupSnapshotId := om_Name (zg_Meta grp)\<rparr> # msgs, rdy))))"

definition groupMessage :: "'w GroupControllerServer \<Rightarrow> ZfsGroupSnapshot \<Rightarrow> ('w, VolumeGroupSnapshot) cquery" where
  "groupMessage g grp w =
     (case zgst_CreationTime (zg_Status grp) of
        None \<Rightarrow> (w, Inl (Status Aborted (''group snapshot '' @ Quote (om_Name (zg_Meta grp)) @ '' has not been taken yet'')))
      | Some t \<Rightarrow>
          (case member_messages g grp (zgs_Members (zg_Spec grp)) (zgst_ReadyToUse (zg_Status grp)) w of
             (w1, Inl e) \<Rightarrow> (w1, Inl e)
           | (w1, Inr (msgs, ready)) \<Rightarrow>
               (w1, Inr \<lparr>vgs_GroupSnapshotId = om_Name (zg_Meta grp), vgs_Snapshots = msgs, vgs_CreationTime = t,
                         vgs_ReadyToUse = ready\<rparr>)))"

definition zero_group :: "string \<Rightarrow> ZfsGroupSnapshotSpec \<Rightarrow> ZfsGroupSnapshot" where
  "zero_group n spec =
     \<lparr>zg_Meta = new_meta n, zg_Spec = spec,
      zg_Status = \<lparr>zgst_ProvisionedAt = None, zgst_Phase = '''', zgst_ReadyToUse = False, zgst_CreationTime = None,
        zgst_ObservedGeneration = 0, zgst_Message = '''', zgst_Conditions = []\<rparr>\<rparr>"

text \<open>The part of \<open>CreateVolumeGroupSnapshot\<close> that finds or makes the object; a lost race starts over.\<close>

partial_function (option) ensure_group :: "'w GroupControllerServer \<Rightarrow> string \<Rightarrow> string list \<Rightarrow> ('w, unit) rpc" where
  "ensure_group g n ids w =
     (case get_ZfsGroupSnapshot (gs_Client g) n w of
        (w1, Inr existing) \<Rightarrow>
          Some (w1, if om_DeletionTimestamp (zg_Meta existing) \<noteq> None
                      then Inl (Status Aborted (''group snapshot '' @ Quote n @ '' is being deleted''))
                    else if \<not> sameSourceVolumes existing ids
                      then Inl (Status AlreadyExists (''group snapshot '' @ Quote n @ '' already exists for a different set of source volumes''))
                    else Inr ())
      | (w1, Inl e) \<Rightarrow>
          if \<not> IsNotFound e then Some (w1, Inl (Status Internal (''get ZfsGroupSnapshot '' @ Quote n @ '': '' @ err_text e)))
          else (case buildSpec g n ids w1 of
                  (w2, Inl e2) \<Rightarrow> Some (w2, Inl e2)
                | (w2, Inr spec) \<Rightarrow>
                    (case create_ZfsGroupSnapshot (gs_Client g) (zero_group n spec) w2 of
                       (w3, None) \<Rightarrow> Some (w3, Inr ())
                     | (w3, Some e3) \<Rightarrow>
                         if errors_Is e3 StatusAlreadyExists then ensure_group g n ids w3
                         else Some (w3, Inl (Status Internal (''create ZfsGroupSnapshot '' @ Quote n @ '': '' @ err_text e3))))))"

declare ensure_group.simps [code]

definition CreateVolumeGroupSnapshot :: "'w GroupControllerServer \<Rightarrow> string \<Rightarrow> string list \<Rightarrow> ('w, VolumeGroupSnapshot) rpc" where
  "CreateVolumeGroupSnapshot g n ids w =
     (if n = '''' then Some (w, Inl (Status InvalidArgument ''group snapshot name is required''))
      else if ids = [] then Some (w, Inl (Status InvalidArgument ''source_volume_ids is required''))
      else (case check_ids [] ids of
              Some e \<Rightarrow> Some (w, Inl e)
            | None \<Rightarrow>
                then_rpc (ensure_group g n ids w) (\<lambda>_ w1.
                  then_rpc (waitGroupReady g n w1) (\<lambda>grp w2. Some (groupMessage g grp w2)))))"

definition get_group :: "'w GroupControllerServer \<Rightarrow> string \<Rightarrow> 'w \<Rightarrow> 'w \<times> (csierr + ZfsGroupSnapshot option)" where
  "get_group g n w =
     (case get_ZfsGroupSnapshot (gs_Client g) n w of
        (w1, Inl e) \<Rightarrow> (w1, if IsNotFound e then Inr None
           else Inl (Status Internal (''get ZfsGroupSnapshot '' @ Quote n @ '': '' @ err_text e)))
      | (w1, Inr grp) \<Rightarrow> (w1, Inr (Some grp)))"

abbreviation members_mismatch :: "string \<Rightarrow> csierr" where
  "members_mismatch n \<equiv> Status InvalidArgument (''snapshot_ids do not match the members of group snapshot '' @ Quote n)"

definition GetVolumeGroupSnapshot :: "'w GroupControllerServer \<Rightarrow> string \<Rightarrow> string list \<Rightarrow> ('w, VolumeGroupSnapshot) cquery" where
  "GetVolumeGroupSnapshot g n ids w =
     (if n = '''' then (w, Inl (Status InvalidArgument ''group snapshot id is required''))
      else (case get_group g n w of
              (w1, Inl e) \<Rightarrow> (w1, Inl e)
            | (w1, Inr None) \<Rightarrow> (w1, Inl (Status NotFound (''group snapshot '' @ Quote n @ '' not found'')))
            | (w1, Inr (Some grp)) \<Rightarrow>
                if \<not> sameSet (memberSnapshotIDs grp) ids then (w1, Inl (members_mismatch n)) else groupMessage g grp w1))"

definition DeleteVolumeGroupSnapshot :: "'w GroupControllerServer \<Rightarrow> string \<Rightarrow> string list \<Rightarrow> ('w, unit) cquery" where
  "DeleteVolumeGroupSnapshot g n ids w =
     (if n = '''' then (w, Inl (Status InvalidArgument ''group snapshot id is required''))
      else (case get_group g n w of
              (w1, Inl e) \<Rightarrow> (w1, Inl e)
            | (w1, Inr None) \<Rightarrow> (w1, Inr ())
            | (w1, Inr (Some grp)) \<Rightarrow>
                if \<not> sameSet (memberSnapshotIDs grp) ids then (w1, Inl (members_mismatch n))
                else delete_kind (\<lambda>_. delete_ZfsGroupSnapshot (gs_Client g) (om_Name (zg_Meta grp))) ''ZfsGroupSnapshot'' n w1))"

end
