(* ===== verification/CsiSpec.thy ===== *)
theory CsiSpec
  imports CsiSnapshots "HOL-Library.Multiset"
begin

text \<open>
  What the CSI services promise: the comparison of id lists is that of multisets, following the page
  tokens lists everything once, member names stay valid, a retry of a create finds its own object, a
  wait returns only what it waited for and returns by its deadline.
\<close>

subsection \<open>Lists of ids\<close>

definition counts :: "(string, nat) gomap \<Rightarrow> string \<Rightarrow> nat" where
  "counts m x = (case map_of m x of None \<Rightarrow> 0 | Some k \<Rightarrow> k)"

lemma counts_update: "counts (AList.update x k m) y = (if y = x then k else counts m y)"
  by (simp add: counts_def)

lemma counts_count_up: "counts (count_up xs) x = count (mset xs) x"
proof -
  let ?step = "\<lambda>x m. AList.update x (Suc (case map_of m x of None \<Rightarrow> 0 | Some k \<Rightarrow> k)) m"
  have "counts (fold ?step xs m) x = counts m x + count (mset xs) x" for m
  proof (induction xs arbitrary: m)
    case (Cons y xs)
    have "counts (?step y m) x = counts m x + (if x = y then 1 else 0)"
      by (simp add: counts_update counts_def)
    then show ?case using Cons [of "?step y m"] by simp
  qed simp
  from this [of "[]"] show ?thesis by (simp add: count_up_def counts_def)
qed

lemma use_up_iff: "use_up m xs \<longleftrightarrow> (\<forall>x. count (mset xs) x \<le> counts m x)"
proof (induction xs arbitrary: m)
  case (Cons y xs)
  show ?case
  proof (cases "counts m y")
    case 0
    then have "\<not> use_up m (y # xs)" by (auto simp: counts_def split: option.splits nat.splits)
    moreover have "\<not> count (mset (y # xs)) y \<le> counts m y" using 0 by simp
    ultimately show ?thesis by blast
  next
    case (Suc k)
    then have m: "map_of m y = Some (Suc k)" by (auto simp: counts_def split: option.splits)
    have "(\<forall>x. count (mset xs) x \<le> counts (AList.update y k m) x) \<longleftrightarrow> (\<forall>x. count (mset (y # xs)) x \<le> counts m x)"
      using Suc by (auto simp: counts_update)
    then show ?thesis using Cons [of "AList.update y k m"] m by simp
  qed
qed simp

lemma sameSet_mset: "sameSet a b \<longleftrightarrow> mset a = mset b"
proof
  assume s: "sameSet a b"
  then have "\<And>x. count (mset b) x \<le> count (mset a) x" by (simp add: sameSet_def use_up_iff counts_count_up)
  then have sub: "mset b \<subseteq># mset a" by (rule mset_subset_eqI)
  have "size (mset a) = size (mset b)" using s by (simp add: sameSet_def)
  then have "\<not> mset b \<subset># mset a" using mset_subset_size [of "mset b" "mset a"] by linarith
  with sub show "mset a = mset b" by (simp add: subset_mset.less_le)
next
  assume e: "mset a = mset b"
  then have "length a = length b" by (rule mset_eq_length)
  then show "sameSet a b" unfolding sameSet_def use_up_iff counts_count_up e by simp
qed

subsection \<open>Pages\<close>

text \<open>A client that follows the tokens.\<close>

fun follow :: "nat \<Rightarrow> ZfsSnapshot list \<Rightarrow> int \<Rightarrow> string \<Rightarrow> CsiSnapshot list option" where
  "follow 0 items k tok = None"
| "follow (Suc fuel) items k tok =
     (case snapshot_page items tok k of
        Inl e \<Rightarrow> None
      | Inr (entries, nxt) \<Rightarrow> if nxt = '''' then Some entries else map_option ((@) entries) (follow fuel items k nxt))"

lemma FormatInt_not_Nil [simp]: "FormatInt n \<noteq> []"
  by (simp add: FormatInt_def)

lemma snapshot_page_at:
  assumes "start \<le> length items" "int (length items) < 2 ^ 63"
  shows "snapshot_page items (if start = 0 then '''' else FormatInt (int start)) k =
    (let stop = (if k > 0 \<and> int start + k < int (length items) then start + nat k else length items)
     in Inr (map snapshotMessage (take (stop - start) (drop start items)), if stop < length items then FormatInt (int stop) else ''''))"
proof -
  have p: "(if (if start = 0 then '''' else FormatInt (int start)) = '''' then (0, False)
      else ParseInt (if start = 0 then '''' else FormatInt (int start))) = (int start, False)"
    using assms by (auto simp: ParseInt_FormatInt is_int64_def)
  show ?thesis using assms unfolding snapshot_page_def p by (simp add: Let_def nat_add_distrib)
qed

lemma follow_all:
  assumes "k > 0" "start \<le> length items" "int (length items) < 2 ^ 63" "length items - start < fuel"
  shows "follow fuel items k (if start = 0 then '''' else FormatInt (int start)) = Some (map snapshotMessage (drop start items))"
  using assms(2,4)
proof (induction fuel arbitrary: start)
  case (Suc fuel)
  define stop where "stop = (if int start + k < int (length items) then start + nat k else length items)"
  have page: "snapshot_page items (if start = 0 then '''' else FormatInt (int start)) k =
    Inr (map snapshotMessage (take (stop - start) (drop start items)), if stop < length items then FormatInt (int stop) else '''')"
    unfolding stop_def using snapshot_page_at [OF Suc.prems(1) assms(3)] assms(1) by (simp add: Let_def)
  show ?case
  proof (cases "stop < length items")
    case True
    then have s: "stop = start + nat k" "stop \<noteq> 0" "stop \<le> length items" "length items - stop < fuel"
      using assms(1) Suc.prems by (auto simp: stop_def split: if_splits)
    have "follow fuel items k (FormatInt (int stop)) = Some (map snapshotMessage (drop stop items))"
      using Suc.IH [OF s(3,4)] s(2) by simp
    moreover have "take (nat k) (drop start items) @ drop stop items = drop start items"
      using append_take_drop_id [of "nat k" "drop start items"] by (simp add: s(1) add.commute)
    ultimately show ?thesis using True by (simp add: page s(1) map_append [symmetric])
  next
    case False
    then have "stop = length items" using Suc.prems by (auto simp: stop_def split: if_splits)
    then show ?thesis by (simp add: page)
  qed
qed simp

subsection \<open>Names of members\<close>

lemma memberRefName_length:
  assumes "length uuid \<le> 252"
  shows "length (memberRefName g uuid) \<le> 253"
proof -
  have "length (dropWhile P xs) \<le> length xs" for P and xs :: string by (rule length_dropWhile_le)
  then have "length (rev (dropWhile P (rev (take n g)))) \<le> n" for P n by (metis length_rev length_take min.bounded_iff order_trans min.cobounded2)
  from this [of "\<lambda>c. c = CHR ''-'' \<or> c = CHR ''.''" "nat (253 - int (length uuid) - 1)"] show ?thesis
    using assms unfolding memberRefName_def Let_def by simp linarith
qed

subsection \<open>Creating again\<close>

lemma quantityEqual_New [simp]:
  "quantityEqual (Some (NewQuantity a)) (Some (NewQuantity b)) \<longleftrightarrow> a = b"
  by (simp add: quantityEqual_def NewQuantity_def)

text \<open>The size that counts for a type: a filesystem without a positive size has no quota.\<close>

definition counted_size :: "DatasetType \<Rightarrow> int \<Rightarrow> int" where
  "counted_size t sz = (if t = DatasetTypeFilesystem then max 0 sz else sz)"

lemma volumeSize_spec:
  "volumeSize ((volumeSpec rp ds sz)\<lparr>zds_Source := s\<rparr>) =
     (if rp_DatasetType rp = DatasetTypeVolume then Some (NewQuantity sz)
      else if rp_DatasetType rp = DatasetTypeFilesystem \<and> sz > 0 then Some (NewQuantity sz) else None)"
  by (simp add: volumeSize_def volumeSpec_def fs_config_def Let_def)

lemma volumeSpecCompatible_iff:
  assumes "rp_DatasetType rp \<in> {DatasetTypeFilesystem, DatasetTypeVolume}"
  shows "volumeSpecCompatible ((volumeSpec rp ds1 s1)\<lparr>zds_Source := src1\<rparr>) ((volumeSpec rp' ds2 s2)\<lparr>zds_Source := src2\<rparr>) \<longleftrightarrow>
    rp_PoolGUID rp = rp_PoolGUID rp' \<and> rp_DatasetType rp = rp_DatasetType rp' \<and> datasetSourceEqual src1 src2 \<and>
    counted_size (rp_DatasetType rp) s1 = counted_size (rp_DatasetType rp) s2"
proof -
  have q: "quantityEqual (Some x) None = False" "quantityEqual None (Some x) = False" "quantityEqual None None" for x
    by (simp_all add: quantityEqual_def)
  have spec: "zds_PoolGUID (volumeSpec r d s) = rp_PoolGUID r" "zds_Type (volumeSpec r d s) = rp_DatasetType r" for r d s
    by (simp_all add: volumeSpec_def)
  show ?thesis using assms unfolding volumeSpecCompatible_def volumeSize_spec
    by (auto simp: q spec counted_size_def max_def)
qed

text \<open>Whatever happens, the spec the call goes on with is the object's: the one just written, or one found
  under the name and judged compatible.\<close>

lemma ensureVolume_result:
  assumes "ensureVolume c n desired w = Some y"
  shows "(\<exists>w1. create_ZfsDataset c (zero_dataset n desired) w1 = (fst y, None) \<and> snd y = Inr desired) \<or>
    (\<exists>w1 ex. get_ZfsDataset c n w1 = (fst y, Inr ex) \<and> snd y = Inr (zd_Spec ex) \<and> volumeSpecCompatible (zd_Spec ex) desired) \<or>
    (\<exists>e. snd y = Inl e \<and> status_code e \<in> {Internal, AlreadyExists})" (is "?P c n desired y")
proof (rule ensureVolume.raw_induct [OF _ assms, where P = "\<lambda>c n desired w y. ?P c n desired y"])
  fix self c n desired w y
  assume IH: "\<And>c n desired w y. self c n desired w = Some y \<Longrightarrow> ?P c n desired y"
    and body: "(case get_ZfsDataset c n w of
        (w1, Inl e) \<Rightarrow>
          if IsNotFound e then
            (case create_ZfsDataset c (zero_dataset n desired) w1 of
               (w2, None) \<Rightarrow> Some (w2, Inr desired)
             | (w2, Some e2) \<Rightarrow>
                 if errors_Is e2 StatusAlreadyExists then self c n desired w2
                 else Some (w2, Inl (Status Internal (''create ZfsDataset '' @ Quote n @ '': '' @ err_text e2))))
          else Some (w1, Inl (Status Internal (''get ZfsDataset '' @ Quote n @ '': '' @ err_text e)))
      | (w1, Inr existing) \<Rightarrow>
          Some (w1, if \<not> volumeSpecCompatible (zd_Spec existing) desired
                    then Inl (Status AlreadyExists (''volume '' @ Quote n @ '' already exists with different parameters''))
                    else Inr (zd_Spec existing))) = Some y"
  show "?P c n desired y"
    using body IH [of c n desired _ y] by (fastforce split: prod.splits sum.splits if_splits option.splits)
qed

end
