(* ===== verification/CsiLive.thy ===== *)
theory CsiLive
  imports CsiSpec
begin

text \<open>
  The calls return. The context of a call has a deadline: \<open>left\<close> is the time that is left of it. No call
  turns the clock back, a tick of the polling loop and a race for an object's name take time, and
  after the deadline the context ends the loop and fails the calls.
\<close>

locale csi_deadline =
  fixes c :: "'w ControllerServer" and left :: "'w \<Rightarrow> nat"
  assumes tick_takes_time: "cs_tick c w = (w', True) \<Longrightarrow> left w' < left w"
    and race_takes_time: "create_ZfsDataset (cs_Client c) x w = (w', Some e) \<Longrightarrow> errors_Is e StatusAlreadyExists \<Longrightarrow> left w' < left w"
      "create_ZfsSnapshot (cs_Client c) s w = (w', Some e) \<Longrightarrow> errors_Is e StatusAlreadyExists \<Longrightarrow> left w' < left w"
      "create_ZfsShareAttachRequest (cs_Client c) a w = (w', Some e) \<Longrightarrow> errors_Is e StatusAlreadyExists \<Longrightarrow> left w' < left w"
    and get_forward: "left (fst (get_ZfsDataset (cs_Client c) n w)) \<le> left w"
      "left (fst (get_ZfsSnapshot (cs_Client c) n w)) \<le> left w"
      "left (fst (get_ZfsShareAttachRequest (cs_Client c) n w)) \<le> left w"
      "left (fst (ctx_done (cs_Env c) w)) \<le> left w"
begin

lemma forward:
  "get_ZfsDataset (cs_Client c) n w = (w', x) \<Longrightarrow> left w' \<le> left w"
  "get_ZfsSnapshot (cs_Client c) n w = (w', y) \<Longrightarrow> left w' \<le> left w"
  "get_ZfsShareAttachRequest (cs_Client c) n w = (w', z) \<Longrightarrow> left w' \<le> left w"
  "ctx_done (cs_Env c) w = (w', b) \<Longrightarrow> left w' \<le> left w"
  by (metis get_forward fst_conv)+

lemma poll_returns:
  assumes "\<And>w w1. check w = (w1, None) \<Longrightarrow> left w1 \<le> left w"
  shows "\<exists>r. poll check (cs_tick c) late w = Some r"
  by (rule poll_terminates [where left = left]) (use assms tick_takes_time order_less_le_trans in blast)

lemma waitVolumeReady_returns: "\<exists>r. waitVolumeReady c n g w = Some r"
  unfolding waitVolumeReady_def
  by (rule poll_returns) (auto simp: volume_ready_def Let_def dest: forward split: prod.splits sum.splits if_splits)

lemma waitVolumeGone_returns: "\<exists>r. waitVolumeGone c n w = Some r"
  unfolding waitVolumeGone_def
proof (rule poll_returns)
  fix w w1 assume g: "volume_gone c n w = (w1, None)"
  obtain w2 x where d: "get_ZfsDataset (cs_Client c) n w = (w2, x)" by fastforce
  obtain w3 b where t: "ctx_done (cs_Env c) w2 = (w3, b)" by fastforce
  show "left w1 \<le> left w" using g d t forward(1) [OF d] forward(4) [OF t]
    by (cases x) (auto simp: volume_gone_def split: if_splits)
qed

lemma waitSnapshotReady_returns: "\<exists>r. waitSnapshotReady c n w = Some r"
  unfolding waitSnapshotReady_def
  by (rule poll_returns) (auto simp: snapshot_ready_def Let_def dest: forward split: prod.splits sum.splits if_splits)

lemma waitAttachReady_returns: "\<exists>r. waitAttachReady c n w = Some r"
  unfolding waitAttachReady_def
  by (rule poll_returns) (auto simp: attach_ready_def dest: forward split: prod.splits sum.splits if_splits)

lemma ensureVolume_returns: "\<exists>r. ensureVolume (cs_Client c) n desired w = Some r"
proof (induction "left w" arbitrary: w rule: less_induct)
  case less
  obtain w1 x where g: "get_ZfsDataset (cs_Client c) n w = (w1, x)" by fastforce
  obtain w2 y where k: "create_ZfsDataset (cs_Client c) (zero_dataset n desired) w1 = (w2, y)" by fastforce
  have "left w2 < left w" if "y = Some e" "errors_Is e StatusAlreadyExists" for e
    using race_takes_time(1) k that forward(1) [OF g] order_less_le_trans by blast
  then show ?case using less
    by (subst ensureVolume.simps) (cases x; cases y; force simp: g k)
qed

lemma ensureSnapshot_returns: "\<exists>r. ensureSnapshot (cs_Client c) n desired w = Some r"
proof (induction "left w" arbitrary: w rule: less_induct)
  case less
  obtain w1 x where g: "get_ZfsSnapshot (cs_Client c) n w = (w1, x)" by fastforce
  obtain w2 y where k: "create_ZfsSnapshot (cs_Client c) (zero_snapshot n desired) w1 = (w2, y)" by fastforce
  have "left w2 < left w" if "y = Some e" "errors_Is e StatusAlreadyExists" for e
    using race_takes_time(2) k that forward(2) [OF g] order_less_le_trans by blast
  then show ?case using less
    by (subst ensureSnapshot.simps) (cases x; cases y; force simp: g k)
qed

lemma ensureAttachRequest_returns: "\<exists>r. ensureAttachRequest (cs_Client c) n volume node single w = Some r"
proof (induction "left w" arbitrary: w rule: less_induct)
  case less
  obtain w1 x where g: "get_ZfsShareAttachRequest (cs_Client c) n w = (w1, x)" by fastforce
  obtain w2 y where k: "create_ZfsShareAttachRequest (cs_Client c) (new_request n volume node single) w1 = (w2, y)" by fastforce
  have "left w2 < left w" if "y = Some e" "errors_Is e StatusAlreadyExists" for e
    using race_takes_time(3) k that forward(3) [OF g] order_less_le_trans by blast
  then show ?case using less
    by (subst ensureAttachRequest.simps) (cases x; cases y; force simp: g k)
qed

end

text \<open>A call returns when its parts do, whatever values they pass on.\<close>

definition returns :: "'a option \<Rightarrow> bool" where
  "returns x \<longleftrightarrow> (\<exists>r. x = Some r)"

named_theorems returns_rules \<open>composition of calls that return\<close>

lemma returns_Some [returns_rules]: "returns (Some x)"
  by (simp add: returns_def)

lemma returns_then [returns_rules]: "returns x \<Longrightarrow> (\<And>a w. returns (f a w)) \<Longrightarrow> returns (then_rpc x f)"
  unfolding returns_def then_rpc_def by (cases x) (auto split: prod.split sum.split)

lemma returns_if [returns_rules]: "(P \<Longrightarrow> returns x) \<Longrightarrow> (\<not> P \<Longrightarrow> returns y) \<Longrightarrow> returns (if P then x else y)"
  by simp

lemma returns_prod [returns_rules]: "(\<And>a b. returns (f a b)) \<Longrightarrow> returns (case p of (a, b) \<Rightarrow> f a b)"
  by (cases p) simp

lemma returns_option [returns_rules]: "returns x \<Longrightarrow> (\<And>a. returns (f a)) \<Longrightarrow> returns (case p of None \<Rightarrow> x | Some a \<Rightarrow> f a)"
  by (cases p) simp_all

lemma returns_sum [returns_rules]: "(\<And>a. returns (f a)) \<Longrightarrow> (\<And>b. returns (g b)) \<Longrightarrow> returns (case p of Inl a \<Rightarrow> f a | Inr b \<Rightarrow> g b)"
  by (cases p) simp_all

context csi_deadline
begin

lemmas [returns_rules] =
  ensureVolume_returns [folded returns_def] ensureSnapshot_returns [folded returns_def]
  ensureAttachRequest_returns [folded returns_def] waitVolumeReady_returns [folded returns_def]
  waitVolumeGone_returns [folded returns_def] waitSnapshotReady_returns [folded returns_def]
  waitAttachReady_returns [folded returns_def]

lemma CreateVolume_returns: "returns (CreateVolume c req w)"
  unfolding CreateVolume_def create_volume_def Let_def by (intro returns_rules)

lemma DeleteVolume_returns: "returns (DeleteVolume c n w)"
  unfolding DeleteVolume_def by (intro returns_rules)

lemma ControllerPublishVolume_returns: "returns (ControllerPublishVolume c req w)"
  unfolding ControllerPublishVolume_def Let_def by (intro returns_rules)

lemma CreateSnapshot_returns: "returns (CreateSnapshot c n src w)"
  unfolding CreateSnapshot_def by (intro returns_rules)

lemma ControllerExpandVolume_returns: "returns (ControllerExpandVolume c n cap w)"
  unfolding ControllerExpandVolume_def Let_def by (intro returns_rules)

end

end
