(* ===== verification/CsiDemo.thy ===== *)
theory CsiDemo
  imports CsiLive
begin

text \<open>
  More promises of the CSI calls, and a small world they run in: objects by name, a number of ticks
  until the deadline, and agents that make every volume Ready at the next tick.
\<close>

subsection \<open>What a successful wait has seen\<close>

lemma waitVolumeReady_sound:
  assumes "waitVolumeReady c n g w = Some (w', Inr vol)"
  shows "\<exists>w0. get_ZfsDataset (cs_Client c) n w0 = (w', Inr vol) \<and> zdst_Phase (zd_Status vol) = DatasetPhaseReady \<and>
    g \<le> zdst_ObservedGeneration (zd_Status vol)"
proof -
  obtain w0 where r: "volume_ready (cs_Client c) n g w0 = (w', Some (Inr vol))"
    using poll_result [OF assms [unfolded waitVolumeReady_def]] by auto
  obtain w1 x where "get_ZfsDataset (cs_Client c) n w0 = (w1, x)" by fastforce
  then show ?thesis using r by (cases x) (auto simp: volume_ready_def Let_def split: if_splits)
qed

lemma waitVolumeGone_sound:
  assumes "waitVolumeGone c n w = Some (w', Inr u)"
  shows "\<exists>w0 e. get_ZfsDataset (cs_Client c) n w0 = (w', Inl e) \<and> IsNotFound e"
proof -
  obtain w0 where "volume_gone c n w0 = (w', Some (Inr u))"
    using poll_result [OF assms [unfolded waitVolumeGone_def]] by auto
  moreover obtain w1 x where "get_ZfsDataset (cs_Client c) n w0 = (w1, x)" by fastforce
  ultimately show ?thesis by (cases x) (auto simp: volume_gone_def split: prod.splits if_splits option.splits)
qed

lemma waitAttachReady_sound:
  assumes "waitAttachReady c n w = Some (w', Inr u)"
  shows "\<exists>w0 ar. get_ZfsShareAttachRequest (cs_Client c) n w0 = (w', Inr ar) \<and> zarst_Ready (zar_Status ar) \<and>
    om_Generation (zar_Meta ar) \<le> zarst_ObservedGeneration (zar_Status ar)"
proof -
  obtain w0 where r: "attach_ready (cs_Client c) n w0 = (w', Some (Inr u))"
    using poll_result [OF assms [unfolded waitAttachReady_def]] by auto
  obtain w1 x where "get_ZfsShareAttachRequest (cs_Client c) n w0 = (w1, x)" by fastforce
  then show ?thesis using r by (cases x) (auto simp: attach_ready_def split: if_splits)
qed

lemma CreateVolume_sound:
  assumes "CreateVolume c req w = Some (w', Inr v)"
  shows "cv_VolumeId v = cvr_Name req \<and> cv_CapacityBytes v = capacityBytes (cvr_CapacityRange req) \<and>
    (\<exists>w0 vol. get_ZfsDataset (cs_Client c) (cvr_Name req) w0 = (w', Inr vol) \<and> zdst_Phase (zd_Status vol) = DatasetPhaseReady)"
proof -
  obtain w1 w2 anns defaults where "(case ParseParams (ResolveParameters defaults (cvr_Parameters req) anns (cs_AnnotationPrefix c)) of
      Inl e \<Rightarrow> Some (w2, Inl (Status InvalidArgument (err_text e))) | Inr rp \<Rightarrow> create_volume c req rp w2) = Some (w', Inr v)"
    using assms unfolding CreateVolume_def then_rpc_Some by (fastforce split: if_splits simp: then_rpc_Some)
  then obtain rp where cv: "create_volume c req rp w2 = Some (w', Inr v)" by (cases rule: sum.exhaust) (auto split: sum.splits)
  then have "check_request rp (cvr_VolumeCapabilities req) (capacityBytes (cvr_CapacityRange req)) = None"
    by (cases "check_request rp (cvr_VolumeCapabilities req) (capacityBytes (cvr_CapacityRange req))") (simp_all add: create_volume_def)
  with cv obtain w3 vol where "waitVolumeReady c (cvr_Name req) 0 w3 = Some (w', Inr vol)"
    "cv_VolumeId v = cvr_Name req" "cv_CapacityBytes v = capacityBytes (cvr_CapacityRange req)"
    by (auto simp: create_volume_def Let_def then_rpc_Some case_prod_beta)
  then show ?thesis using waitVolumeReady_sound [of c "cvr_Name req" 0 w3 w' vol] by fast
qed

text \<open>Deleting reports success only when the object was seen to be gone.\<close>

lemma DeleteVolume_sound:
  assumes "DeleteVolume c n w = Some (w', Inr u)"
  shows "\<exists>w0 e. get_ZfsDataset (cs_Client c) n w0 = (w', Inl e) \<and> IsNotFound e"
  using assms waitVolumeGone_sound by (auto simp: DeleteVolume_def then_rpc_Some split: if_splits)

subsection \<open>One node at a time\<close>

lemma publish_refused:
  assumes "pr_VolumeId req \<noteq> ''''" "pr_NodeId req \<noteq> ''''"
    "\<not> hasMultiNodeAccessMode (the_capability (pr_VolumeCapability req))"
    "get_ZfsDataset (cs_Client c) (pr_VolumeId req) w = (w1, Inr vol)"
    "list_ZfsShareAttachRequest (cs_Client c) w1 = (w2, Inr ars)"
    "ar \<in> set ars" "zars_VolumeName (zar_Spec ar) = pr_VolumeId req" "zars_NodeName (zar_Spec ar) \<noteq> pr_NodeId req"
    "\<forall>x \<in> set ars. zars_NodeName (zar_Spec x) \<noteq> ''''"
  shows "\<exists>msg. ControllerPublishVolume c req w = Some (w2, Inl (Status FailedPrecondition msg))"
proof -
  let ?P = "\<lambda>ar. zars_VolumeName (zar_Spec ar) = pr_VolumeId req \<and> zars_NodeName (zar_Spec ar) \<noteq> pr_NodeId req"
  obtain x where f: "find ?P ars = Some x" "x \<in> set ars"
    using assms(6-8) by (metis (mono_tags, lifting) find_None_iff find_Some_iff nth_mem not_None_eq)
  then have "zars_NodeName (zar_Spec x) \<noteq> ''''" using assms(9) by blast
  then show ?thesis using assms(1-5) f(1)
    by (simp add: ControllerPublishVolume_def Let_def get_volume_def check_single_node_def attachedNode_def)
qed

subsection \<open>Group messages are complete\<close>

lemma member_messages_complete:
  assumes "member_messages g grp ms ready w = (w', Inr (msgs, rdy))"
  shows "list_all2 (\<lambda>msg m. \<exists>w0 w1 child. get_ZfsSnapshot (gs_Client g) (gm_ZfsSnapshotRef m) w0 = (w1, Inr child) \<and>
      msg = (snapshotMessage child)\<lparr>cs_GroupSnapshotId := om_Name (zg_Meta grp)\<rparr>) msgs ms \<and>
    (rdy \<longleftrightarrow> ready \<and> (\<forall>msg \<in> set msgs. cs_ReadyToUse msg))"
  using assms
proof (induction ms arbitrary: ready w msgs)
  case (Cons m ms)
  then obtain w1 child rest where 1: "get_ZfsSnapshot (gs_Client g) (gm_ZfsSnapshotRef m) w = (w1, Inr child)"
    "member_messages g grp ms (ready \<and> zsst_ReadyToUse (zs_Status child)) w1 = (w', Inr (rest, rdy))"
    "msgs = (snapshotMessage child)\<lparr>cs_GroupSnapshotId := om_Name (zg_Meta grp)\<rparr> # rest"
    by (auto split: prod.splits sum.splits)
  have "cs_ReadyToUse ((snapshotMessage child)\<lparr>cs_GroupSnapshotId := om_Name (zg_Meta grp)\<rparr>) = zsst_ReadyToUse (zs_Status child)"
    by (simp add: snapshotMessage_def)
  then show ?case using Cons.IH [OF 1(2)] 1(1,3) by auto
qed simp

subsection \<open>A world to run in\<close>

record csi_world =
  cw_datasets :: "(string, ZfsDataset) gomap"
  cw_snapshots :: "(string, ZfsSnapshot) gomap"
  cw_requests :: "(string, ZfsShareAttachRequest) gomap"
  cw_left :: nat

definition cw_get :: "(csi_world \<Rightarrow> (string, 'o) gomap) \<Rightarrow> string \<Rightarrow> (csi_world, 'o) query" where
  "cw_get sel n w = (w, case map_of (sel w) n of None \<Rightarrow> Inl (GoErr (Some StatusNotFound) ''not found'') | Some x \<Rightarrow> Inr x)"

definition cw_create ::
  "(csi_world \<Rightarrow> (string, 'o) gomap) \<Rightarrow> (((string, 'o) gomap \<Rightarrow> (string, 'o) gomap) \<Rightarrow> csi_world \<Rightarrow> csi_world) \<Rightarrow> string \<Rightarrow> 'o
     \<Rightarrow> csi_world act" where
  "cw_create sel upd n x w =
     (if cw_left w = 0 then (w, Some (errorf ''context deadline exceeded''))
      else let w1 = w\<lparr>cw_left := cw_left w - 1\<rparr> in
        if map_of (sel w) n \<noteq> None then (w1, Some (GoErr (Some StatusAlreadyExists) ''already exists''))
        else (upd (AList.update n x) w1, None))"

definition cw_delete ::
  "(csi_world \<Rightarrow> (string, 'o) gomap) \<Rightarrow> (((string, 'o) gomap \<Rightarrow> (string, 'o) gomap) \<Rightarrow> csi_world \<Rightarrow> csi_world) \<Rightarrow> string
     \<Rightarrow> csi_world act" where
  "cw_delete sel upd n w =
     (if map_of (sel w) n = None then (w, Some (GoErr (Some StatusNotFound) ''not found'')) else (upd (AList.delete n) w, None))"

abbreviation unserved :: "csi_world \<Rightarrow> csi_world \<times> (goerr + 'a)" where
  "unserved w \<equiv> (w, Inl (errorf ''not served''))"

abbreviation unserved_act :: "csi_world act" where
  "unserved_act w \<equiv> (w, Some (errorf ''not served''))"

definition csi_client :: "csi_world CsiClient" where
  "csi_client =
     \<lparr>get_ZfsDataset = cw_get cw_datasets, get_ZfsSnapshot = cw_get cw_snapshots,
      get_ZfsGroupSnapshot = (\<lambda>n w. unserved w), get_ZfsPool = (\<lambda>n w. unserved w), get_ZfsShare = (\<lambda>n w. unserved w),
      list_ZfsDataset = (\<lambda>w. (w, Inr (map snd (cw_datasets w)))), list_ZfsSnapshot = (\<lambda>w. (w, Inr (map snd (cw_snapshots w)))),
      list_ZfsGroupSnapshot = (\<lambda>w. unserved w), list_ZfsPool = (\<lambda>w. unserved w), list_NetworkExport = (\<lambda>w. unserved w),
      list_ZfsShareAttachRequest = (\<lambda>w. (w, Inr (map snd (cw_requests w)))),
      update_ZfsDataset = (\<lambda>x. unserved_act), patch_status_ZfsDataset = (\<lambda>x y. unserved_act),
      update_ZfsSnapshot = (\<lambda>x. unserved_act), patch_status_ZfsSnapshot = (\<lambda>x y. unserved_act),
      create_ZfsSnapshot = (\<lambda>x. cw_create cw_snapshots cw_snapshots_update (om_Name (zs_Meta x)) x),
      delete_ZfsSnapshot = (\<lambda>x. cw_delete cw_snapshots cw_snapshots_update (om_Name (zs_Meta x))),
      update_ZfsGroupSnapshot = (\<lambda>x. unserved_act), patch_status_ZfsGroupSnapshot = (\<lambda>x y. unserved_act),
      create_ZfsDataset = (\<lambda>x. cw_create cw_datasets cw_datasets_update (om_Name (zd_Meta x)) x),
      delete_ZfsDataset = cw_delete cw_datasets cw_datasets_update,
      replace_ZfsDataset = (\<lambda>x w. unserved w),
      delete_ZfsShare = (\<lambda>n w. (w, None)),
      get_ZfsShareAttachRequest = cw_get cw_requests,
      create_ZfsShareAttachRequest = (\<lambda>x. cw_create cw_requests cw_requests_update (om_Name (zar_Meta x)) x),
      delete_ZfsShareAttachRequest = cw_delete cw_requests cw_requests_update,
      create_ZfsGroupSnapshot = (\<lambda>x. unserved_act), delete_ZfsGroupSnapshot = (\<lambda>n. unserved_act),
      get_ConfigMap = (\<lambda>ns n w. unserved w), get_PersistentVolumeClaim = (\<lambda>ns n w. unserved w)\<rparr>"

text \<open>At every tick the agents make all volumes Ready.\<close>

definition cw_tick :: "csi_world \<Rightarrow> csi_world \<times> bool" where
  "cw_tick w =
     (if cw_left w = 0 then (w, False)
      else (w\<lparr>cw_left := cw_left w - 1,
              cw_datasets := mmodall (\<lambda>d. d\<lparr>zd_Status := (zd_Status d)\<lparr>zdst_Phase := DatasetPhaseReady\<rparr>\<rparr>) (cw_datasets w)\<rparr>, True))"

definition csi_env :: "csi_world CsiEnv" where
  "csi_env =
     \<lparr>new_uuid = (\<lambda>w. (w, ''0000-1111'')), sha256_hex = (\<lambda>s. s @ ''0123456789abcdef''), yaml_Unmarshal = (\<lambda>s. Inr []),
      next_tick = (\<lambda>t i. cw_tick), ctx_done = (\<lambda>w. (w, cw_left w = 0)), retry_gen = (\<lambda>f. f)\<rparr>"

definition demo_cs :: "csi_world ControllerServer" where
  "demo_cs = \<lparr>cs_Client = csi_client, cs_Env = csi_env, cs_DefaultsConfigMap = '''', cs_DefaultsNamespace = '''',
     cs_AnnotationPrefix = '''', cs_CreateTimeout = 30000, cs_PollInterval = 0\<rparr>"

definition demo_csi_world :: csi_world where
  "demo_csi_world = \<lparr>cw_datasets = [], cw_snapshots = [], cw_requests = [], cw_left = 5\<rparr>"

interpretation demo_cs: csi_deadline demo_cs cw_left
  by unfold_locales
     (auto simp: demo_cs_def cs_tick_def csi_env_def csi_client_def cw_tick_def cw_create_def cw_get_def Let_def split: if_splits)

end
