(* ===== verification/Examples.thy ===== *)
theory Examples
  imports GroupMem DatasetSize CsiDemo
begin

text \<open>
  Concrete states: a pool with one volume, a snapshot of it and the snapshot's backing clone, and the
  Kubernetes objects that go with them. The properties are applied to them. The name conditions of
  theory \<open>Track\<close> speak about all strings; the checks below decide them on a concrete pool.
\<close>

subsection \<open>Deciding the name conditions\<close>

definition all_snaps :: "dsmap \<Rightarrow> (string \<times> string \<times> snapshot) list" where
  "all_snaps ds = concat (map (\<lambda>(dn, d). map (\<lambda>(sn, s). (dn, sn, s)) (ds_snaps d)) ds)"

lemma in_all_snaps: "snap_in ds dn sn = Some s \<Longrightarrow> (dn, sn, s) \<in> set (all_snaps ds)"
  by (force simp: all_snaps_def snap_in_def dest: map_of_SomeD split: option.splits)

definition driver_check :: "dsmap \<Rightarrow> bool" where
  "driver_check ds \<longleftrightarrow>
     (\<forall>(dn, sn, s) \<in> set (all_snaps ds). \<forall>(dn', sn', s') \<in> set (all_snaps ds).
        (sn = sn' \<longrightarrow> dn = dn') \<and> (dn = dn' \<and> sn_txg s = sn_txg s' \<longrightarrow> sn = sn')) \<and>
     (\<forall>n \<in> set (keys ds). plain n) \<and> (\<forall>(dn, sn, s) \<in> set (all_snaps ds). plain sn)"

lemma driver_check: "driver_check ds \<Longrightarrow> driver_names ds"
proof -
  assume c: "driver_check ds"
  have pair: "(sn = sn' \<longrightarrow> dn = dn') \<and> (dn = dn' \<and> sn_txg s = sn_txg s' \<longrightarrow> sn = sn')"
    if "snap_in ds dn sn = Some s" "snap_in ds dn' sn' = Some s'" for dn sn s dn' sn' s'
    using c in_all_snaps [OF that(1)] in_all_snaps [OF that(2)] unfolding driver_check_def by fastforce
  have "unique_names ds" unfolding unique_names_def using pair by blast
  moreover have "strict_txg ds" unfolding strict_txg_def using pair by blast
  moreover have "plain n" if "map_of ds n \<noteq> None" for n using c that in_keys_iff [of n ds] by (simp add: driver_check_def)
  moreover have "plain sn" if "snap_in ds dn sn = Some s" for dn sn s
    using c in_all_snaps [OF that] unfolding driver_check_def by fastforce
  ultimately show ?thesis unfolding driver_names_def plain_names_def by blast
qed

lemma raw_at_fresh:
  "snap_in ds r sn \<noteq> None \<Longrightarrow> origin_in ds b = snap_full r sn \<Longrightarrow> map_option ds_snaps (map_of ds b) = Some [] \<Longrightarrow> raw_at ds b sn r"
  by (auto simp: raw_at_def clone_of_raw_def snap_in_def)

definition detach_check :: "(string \<Rightarrow> bool) \<Rightarrow> string \<Rightarrow> dsmap \<Rightarrow> bool" where
  "detach_check known full ds \<longleftrightarrow> driver_check ds \<and>
     (\<forall>(dn, sn, s) \<in> set (all_snaps ds). dn = full \<longrightarrow> driverSnapshotSuffix sn) \<and>
     (\<forall>n \<in> set (keys ds). n \<noteq> full \<longrightarrow> origin_in ds n \<noteq> '''' \<longrightarrow> known n)"

lemma detach_check: "detach_check known full ds \<Longrightarrow> detachable known full ds"
proof -
  assume c: "detach_check known full ds"
  have "unique_names ds" using c driver_check by (simp add: detach_check_def driver_names_def)
  moreover have "driverSnapshotSuffix sn" if "snap_in ds full sn \<noteq> None" for sn
    using c that in_all_snaps [of ds full sn] by (auto simp: detach_check_def)
  moreover have "known n" if "n \<noteq> full" "origin_in ds n \<noteq> ''''" for n
  proof -
    have "n \<in> set (keys ds)" using that(2) by (auto simp: in_keys_iff origin_in_def split: option.splits)
    then show ?thesis using c that by (simp add: detach_check_def)
  qed
  ultimately show ?thesis by (simp add: detachable_def)
qed

lemma few_snaps: "card {sn. snap_in ds full sn \<noteq> None} \<le> length (all_snaps ds)"
proof -
  have "{sn. snap_in ds full sn \<noteq> None} \<subseteq> set (map (\<lambda>(dn, sn, s). sn) (all_snaps ds))"
    using in_all_snaps [of ds full] by force
  then have "card {sn. snap_in ds full sn \<noteq> None} \<le> card (set (map (\<lambda>(dn, sn, s). sn) (all_snaps ds)))"
    by (intro card_mono) simp_all
  also have "\<dots> \<le> length (all_snaps ds)" by (metis card_length length_map)
  finally show ?thesis .
qed

subsection \<open>A pool with a volume, a snapshot and its backing clone\<close>

definition demo_ops :: "mem_op list" where
  "demo_ops =
     [OpCreateDataset ''tank/k8s'' [],
      OpCreateDataset ''tank/k8s/vol'' (MergeLabels [] RoleVolume ''uid-vol''),
      OpSnapshot [''tank/k8s/vol@csi-snap-1''],
      OpClone ''tank/k8s/vol@csi-snap-1'' ''tank/k8s/csi-snap-1'' (MergeLabels [] RoleBacking ''uid-snap'')]"

definition demo :: Mem where
  "demo = run_ops demo_ops (Mem_New [''tank''])"

definition demo_pool :: ZfsPool where
  "demo_pool =
     \<lparr>zp_Meta = new_meta ''zpool-42'',
      zp_Status = \<lparr>zpst_GUID = ''42'', zpst_PoolName = ''tank'', zpst_CurrentNode = ''node-a'', zpst_CurrentIP = ''10.0.0.1'',
        zpst_BaseMountPath = ''/tank'', zpst_Health = PoolHealthOnline, zpst_LastUpdated = None, zpst_Message = ''''\<rparr>\<rparr>"

definition demo_vol :: ZfsDataset where
  "demo_vol =
     \<lparr>zd_Meta = (new_meta ''vol'')\<lparr>om_UID := ''uid-vol'', om_Finalizers := [zfsDatasetFinalizer]\<rparr>,
      zd_Spec = \<lparr>zds_PoolGUID = ''42'', zds_Dataset = ''k8s/vol'', zds_Type = DatasetTypeFilesystem, zds_Properties = [],
        zds_Filesystem = Some \<lparr>fs_Quota = Some (NewQuantity 64), fs_UID = None, fs_GID = None, fs_Mode = ''''\<rparr>,
        zds_Volume = None, zds_Source = None\<rparr>,
      zd_Status = \<lparr>zdst_Phase = DatasetPhaseReady, zdst_ProvisionedAt = Some 3, zdst_CreationTime = Some 3,
        zdst_Path = ''/tank/k8s/vol'', zdst_FSType = '''', zdst_ObservedGeneration = 0, zdst_Message = '''', zdst_Conditions = []\<rparr>\<rparr>"

definition demo_deleted :: ZfsDataset where
  "demo_deleted = demo_vol\<lparr>zd_Meta := (zd_Meta demo_vol)\<lparr>om_DeletionTimestamp := Some 5\<rparr>\<rparr>"

definition demo_snapshot :: ZfsSnapshot where
  "demo_snapshot =
     \<lparr>zs_Meta = (new_meta ''snap-1'')\<lparr>om_UID := ''uid-snap'', om_Finalizers := [zfsSnapshotFinalizer]\<rparr>,
      zs_Spec = \<lparr>zss_PoolGUID = ''42'', zss_Dataset = ''k8s/vol'', zss_SnapshotName = ''csi-snap-1'',
        zss_SourceVolume = ''vol'', zss_SourceType = DatasetTypeFilesystem, zss_SourceFSType = '''',
        zss_SourceVolblocksize = '''', zss_SourceProperties = [], zss_GroupSnapshotID = ''''\<rparr>,
      zs_Status = zero_snapshot_status\<rparr>"

definition demo_world :: "Mem \<times> api" where
  "demo_world = (demo, empty_api\<lparr>a_datasets := [(''vol'', demo_vol)], a_snapshots := [(''snap-1'', demo_snapshot)],
     a_pools := [(''zpool-42'', demo_pool)]\<rparr>)"

definition demo_delete_world :: "Mem \<times> api" where
  "demo_delete_world = (demo, (snd demo_world)\<lparr>a_datasets := [(''vol'', demo_deleted)]\<rparr>)"

lemma demo_ops_ok: "\<forall>op \<in> set demo_ops. op_ok op"
  by code_simp

lemma demo_start: "mem_reachable (Mem_New [''tank''])"
  by (rule mem_reachable.start) code_simp

lemma demo_reachable: "mem_reachable demo"
  unfolding demo_def using demo_start demo_ops_ok by (rule run_ops_reachable)

lemma demo_inv: "mem_inv demo"
  using demo_reachable by (rule reachable_inv)

lemma demo_names: "driver_names (m_ds demo)"
  by (rule driver_check) code_simp

lemma demo_raw: "raw_at (m_ds demo) ''tank/k8s/csi-snap-1'' ''csi-snap-1'' ''tank/k8s/vol''"
  by (rule raw_at_fresh) code_simp+

text \<open>A reader that answers with the demo snapshot whatever happens to the world.\<close>

definition not_found :: "'w \<Rightarrow> 'w \<times> (goerr + 'a)" where
  "not_found w = (w, Inl (GoErr (Some StatusNotFound) ''not found''))"

definition demo_reader :: "'w Reader" where
  "demo_reader =
     \<lparr>get_ZfsDataset = (\<lambda>n. not_found), get_ZfsSnapshot = (\<lambda>n. not_found),
      get_ZfsGroupSnapshot = (\<lambda>n. not_found), get_ZfsPool = (\<lambda>n. not_found),
      get_ZfsShare = (\<lambda>n. not_found),
      list_ZfsDataset = (\<lambda>w. (w, Inr [])), list_ZfsSnapshot = (\<lambda>w. (w, Inr [demo_snapshot])),
      list_ZfsGroupSnapshot = (\<lambda>w. (w, Inr [])), list_ZfsPool = (\<lambda>w. (w, Inr [])),
      list_NetworkExport = (\<lambda>w. (w, Inr [])), list_ZfsShareAttachRequest = (\<lambda>w. (w, Inr []))\<rparr>"

lemma demo_quiet: "quiet_reader mem_view demo_reader"
  by (simp add: quiet_reader_def demo_reader_def)

lemma demo_answers: "answers demo_reader [] [demo_snapshot]"
  by (simp add: answers_def demo_reader_def)

lemma demo_detachable:
  "detachable (is_known (known_paths ''42'' []) (backing_names ''42'' [demo_snapshot]) ''tank'') ''tank/k8s/vol'' (m_ds demo)"
  by (rule detach_check) code_simp

lemma demo_kube: "dr_kube same_zfs (demo_dr node)" "sr_kube same_zfs (demo_sr node)"
  using demo_dr.dr_kube_axioms demo_sr.sr_kube_axioms by blast+

lemma demo_deletes: "deletes (demo_dr ''node-a'') ''vol'' demo_delete_world demo_deleted demo_pool ''tank/k8s/vol''"
proof -
  have "get_ZfsDataset (dr_Client (demo_dr ''node-a'')) ''vol'' demo_delete_world = (demo_delete_world, Inr demo_deleted)"
    "get_pool (dr_Client (demo_dr ''node-a'')) (zds_PoolGUID (zd_Spec demo_deleted)) demo_delete_world = (demo_delete_world, Inr (Some demo_pool))"
    by code_simp+
  moreover have "om_DeletionTimestamp (zd_Meta demo_deleted) \<noteq> None \<and> zfsDatasetFinalizer \<in> set (om_Finalizers (zd_Meta demo_deleted)) \<and>
     hosted_here (dr_NodeName (demo_dr ''node-a'')) (Some demo_pool) \<and>
     datasetName (zpst_PoolName (zp_Status demo_pool)) (zds_Dataset (zd_Spec demo_deleted)) = Inr ''tank/k8s/vol'' \<and> is_name ''tank/k8s/vol''"
    by code_simp
  ultimately show ?thesis unfolding deletes_def by blast
qed

subsection \<open>More objects\<close>

text \<open>A snapshot that was Ready before, a member of a group that has no raw snapshot, and a group of two.\<close>

definition demo_settled :: ZfsSnapshot where
  "demo_settled = demo_snapshot\<lparr>zs_Status := zero_snapshot_status\<lparr>zsst_ProvisionedAt := Some 4, zsst_Phase := SnapshotPhaseReady\<rparr>\<rparr>"

definition demo_member :: ZfsSnapshot where
  "demo_member = demo_snapshot\<lparr>zs_Spec := (zs_Spec demo_snapshot)\<lparr>zss_SnapshotName := ''csi-g-1'', zss_GroupSnapshotID := ''grp''\<rparr>\<rparr>"

definition demo_group :: ZfsGroupSnapshot where
  "demo_group =
     \<lparr>zg_Meta = (new_meta ''grp'')\<lparr>om_Finalizers := [zfsGroupSnapshotFinalizer]\<rparr>,
      zg_Spec = \<lparr>zgs_PoolGUID = ''42'', zgs_Members =
        [\<lparr>gm_SourceVolume = ''vol'', gm_Dataset = ''k8s/vol'', gm_SnapshotName = ''csi-g-1'', gm_ZfsSnapshotRef = ''g-1'',
          gm_SourceType = DatasetTypeFilesystem, gm_SourceFSType = '''', gm_SourceVolblocksize = '''', gm_SourceProperties = []\<rparr>,
         \<lparr>gm_SourceVolume = ''base'', gm_Dataset = ''k8s'', gm_SnapshotName = ''csi-g-2'', gm_ZfsSnapshotRef = ''g-2'',
          gm_SourceType = DatasetTypeFilesystem, gm_SourceFSType = '''', gm_SourceVolblocksize = '''', gm_SourceProperties = []\<rparr>]\<rparr>,
      zg_Status = \<lparr>zgst_ProvisionedAt = None, zgst_Phase = '''', zgst_ReadyToUse = False, zgst_CreationTime = None,
        zgst_ObservedGeneration = 0, zgst_Message = '''', zgst_Conditions = []\<rparr>\<rparr>"

definition demo_group_deleted :: ZfsGroupSnapshot where
  "demo_group_deleted = demo_group\<lparr>zg_Meta := (zg_Meta demo_group)\<lparr>om_DeletionTimestamp := Some 5\<rparr>\<rparr>"

definition demo_group_ready :: ZfsGroupSnapshot where
  "demo_group_ready = demo_group\<lparr>zg_Status := (zg_Status demo_group)\<lparr>zgst_ProvisionedAt := Some 4\<rparr>\<rparr>"

definition with_snapshot :: "ZfsSnapshot \<Rightarrow> Mem \<times> api" where
  "with_snapshot s = (demo, (snd demo_world)\<lparr>a_snapshots := [(''snap-1'', s)]\<rparr>)"

definition with_group :: "ZfsGroupSnapshot \<Rightarrow> Mem \<times> api" where
  "with_group g = (demo, (snd demo_world)\<lparr>a_groups := [(''grp'', g)]\<rparr>)"

lemma demo_gr_kube: "gr_kube same_zfs (demo_gr node)"
  by (rule demo_gr.gr_kube_axioms)

lemma demo_agents [simp]:
  "dr_ZFS (demo_dr node) = lift_ZFS mem_ZFS" "sr_ZFS (demo_sr node) = lift_ZFS mem_ZFS" "gr_ZFS (demo_gr node) = lift_ZFS mem_ZFS"
  by (simp_all add: demo_dr_def demo_sr_def demo_gr_def)

lemma demo_gets:
  "get_ZfsDataset (dr_Client (demo_dr node)) ''vol'' demo_world = (demo_world, Inr demo_vol)"
  "get_pool (dr_Client (demo_dr node)) ''42'' demo_world = (demo_world, Inr (Some demo_pool))"
  "get_ZfsSnapshot (sr_Client (demo_sr node)) ''snap-1'' (with_snapshot s) = (with_snapshot s, Inr s)"
  "get_pool (sr_Client (demo_sr node)) ''42'' (with_snapshot s) = (with_snapshot s, Inr (Some demo_pool))"
  "get_ZfsGroupSnapshot (gr_Client (demo_gr node)) ''grp'' (with_group g) = (with_group g, Inr g)"
  "get_pool (gr_Client (demo_gr node)) ''42'' (with_group g) = (with_group g, Inr (Some demo_pool))"
  by (simp_all add: demo_dr_def demo_sr_def demo_gr_def demo_world_def with_snapshot_def with_group_def get_pool_def
        api_get_def ResourceName_def empty_api_def)

text \<open>A zvol that is smaller than its object asks for.\<close>

definition demo_zvol_mem :: Mem where
  "demo_zvol_mem = run_ops [OpCreateZvol ''tank/zv'' 8 []] (Mem_New [''tank''])"

definition demo_zvol :: ZfsDataset where
  "demo_zvol = demo_vol\<lparr>zd_Spec := (zd_Spec demo_vol)\<lparr>zds_Dataset := ''zv'', zds_Type := DatasetTypeVolume, zds_Filesystem := None,
     zds_Volume := Some \<lparr>vc_Size = NewQuantity 95, vc_Volblocksize = ''10''\<rparr>\<rparr>\<rparr>"

lemma demo_zvol_inv: "mem_inv demo_zvol_mem"
proof -
  have "\<forall>op \<in> set [OpCreateZvol ''tank/zv'' 8 []]. op_ok op" by code_simp
  with demo_start have "mem_reachable demo_zvol_mem" unfolding demo_zvol_mem_def by (rule run_ops_reachable)
  then show ?thesis by (rule reachable_inv)
qed

subsection \<open>CSI requests\<close>

definition demo_rp :: ResolvedParams where
  "demo_rp = \<lparr>rp_PoolGUID = ''42'', rp_Protocol = ProtocolNFS, rp_DatasetType = DatasetTypeFilesystem, rp_DatasetPrefix = ''k8s'',
     rp_RejectCrossPrefixClones = False, rp_Volblocksize = '''', rp_Properties = [], rp_UID = None, rp_GID = None, rp_Mode = ''''\<rparr>"

definition demo_create :: CreateVolumeRequest where
  "demo_create = \<lparr>cvr_Name = ''pvc'',
     cvr_VolumeCapabilities = [\<lparr>cap_Block = False, cap_Mount = Some '''', cap_AccessMode = Some MULTI_NODE_MULTI_WRITER\<rparr>],
     cvr_Parameters = [(''poolGUID'', ''42''), (''protocol'', ''nfs''), (''datasetPrefix'', ''k8s'')],
     cvr_CapacityRange = Some \<lparr>cr_RequiredBytes = 64, cr_LimitBytes = 0\<rparr>, cvr_VolumeContentSource = None\<rparr>"

text \<open>A volume restored from one snapshot, attached to a node, and the members of the demo group.\<close>

definition demo_restored :: csi_world where
  "demo_restored = demo_csi_world\<lparr>cw_datasets :=
     [(''pvc'', zero_dataset ''pvc'' ((volumeSpec demo_rp ''d2'' 10)\<lparr>zds_Source := Some (snapshot_ref ''snap-a'')\<rparr>))]\<rparr>"

definition demo_attached :: csi_world where
  "demo_attached = demo_restored\<lparr>cw_requests := [(''pvc-x'', new_request ''pvc-x'' ''pvc'' ''node-a'' True)]\<rparr>"

definition demo_members :: csi_world where
  "demo_members = demo_csi_world\<lparr>cw_snapshots := [(''g-1'', demo_member), (''g-2'', demo_member)]\<rparr>"

definition demo_gs :: "csi_world GroupControllerServer" where
  "demo_gs = \<lparr>gs_Client = csi_client, gs_Env = csi_env, gs_CreateTimeout = 30000, gs_PollInterval = 0\<rparr>"

end
