(* ===== verification/NvmeAuth.thy ===== *)
theory NvmeAuth
  imports GoLib "HOL-Library.Word"
begin

text \<open>
  \<open>src/internal/nvmeauth/nvmeauth.go\<close>: the host identity both ends of an NVMe-oF attachment derive,
  and the DH-CHAP key in the DHHC-1 format. Bytes are 8-bit words. The parts of Go's library the key
  needs (little-endian numbers, CRC-32, base64) are written out; the random source and the UUIDv5
  hash are parameters. The decoder at the end is the reading side of the format, and the round trip
  shows that a key carries its secret and the checksum of the secret.
\<close>

unbundle bit_operations_syntax

type_synonym byte = "8 word"
type_synonym bytes = "byte list"

abbreviation SecretKeyDHChap :: string where "SecretKeyDHChap \<equiv> ''dhchap-key''"

definition ResolveSecretKey :: "string \<Rightarrow> string" where
  "ResolveSecretKey configured = (if configured \<noteq> '''' then configured else SecretKeyDHChap)"

text \<open>\<open>uuid5 s\<close> is \<open>uuid.NewSHA1(hostNamespace, s).String()\<close>.\<close>

definition HostIdentity :: "(string \<Rightarrow> string) \<Rightarrow> string \<Rightarrow> string \<Rightarrow> string \<times> string" where
  "HostIdentity uuid5 nodeName volumeID =
     (let ident = uuid5 (nodeName @ ''/'' @ volumeID) in (''nqn.2014-08.org.nvmexpress:uuid:'' @ ident, ident))"

subsection \<open>CRC-32 (IEEE, reflected)\<close>

definition crc_bit :: "32 word \<Rightarrow> 32 word" where
  "crc_bit c = (if bit c 0 then drop_bit 1 c XOR 0xEDB88320 else drop_bit 1 c)"

definition crc_byte :: "32 word \<Rightarrow> byte \<Rightarrow> 32 word" where
  "crc_byte c b = (crc_bit ^^ 8) (c XOR ucast b)"

definition ChecksumIEEE :: "bytes \<Rightarrow> 32 word" where
  "ChecksumIEEE bs = NOT (foldl crc_byte (NOT 0) bs)"

text \<open>\<open>binary.LittleEndian\<close>\<close>

definition PutUint32 :: "32 word \<Rightarrow> bytes" where
  "PutUint32 v = map (\<lambda>i. ucast (drop_bit (8 * i) v)) [0, 1, 2, 3]"

definition Uint32 :: "bytes \<Rightarrow> 32 word" where
  "Uint32 bs = foldr (\<lambda>b acc. push_bit 8 acc OR ucast b) bs 0"

subsection \<open>Base64 with padding\<close>

definition b64_alphabet :: string where
  "b64_alphabet = ''ABCDEFGHIJKLMNOPQRSTUVWXYZabcdefghijklmnopqrstuvwxyz0123456789+/''"

definition b64_char :: "nat \<Rightarrow> char" where
  "b64_char n = b64_alphabet ! n"

fun b64_encode :: "bytes \<Rightarrow> string" where
  "b64_encode (a # b # c # bs) =
     (let n = unat a * 65536 + unat b * 256 + unat c in
      b64_char (n div 262144) # b64_char (n div 4096 mod 64) # b64_char (n div 64 mod 64) # b64_char (n mod 64)
        # b64_encode bs)"
| "b64_encode [a, b] =
     (let n = unat a * 65536 + unat b * 256 in
      [b64_char (n div 262144), b64_char (n div 4096 mod 64), b64_char (n div 64 mod 64), CHR ''=''])"
| "b64_encode [a] =
     (let n = unat a * 65536 in [b64_char (n div 262144), b64_char (n div 4096 mod 64), CHR ''='', CHR ''=''])"
| "b64_encode [] = []"

fun index_of :: "'a \<Rightarrow> 'a list \<Rightarrow> nat option" where
  "index_of x [] = None"
| "index_of x (y # ys) = (if x = y then Some 0 else map_option Suc (index_of x ys))"

definition b64_val :: "char \<Rightarrow> nat option" where
  "b64_val c = index_of c b64_alphabet"

fun b64_decode :: "string \<Rightarrow> bytes option" where
  "b64_decode [] = Some []"
| "b64_decode (p # q # r # s # rest) =
     (case (b64_val p, b64_val q) of
        (Some vp, Some vq) \<Rightarrow>
          if s = CHR ''='' then
            (if rest \<noteq> [] then None
             else if r = CHR ''='' then Some [of_nat (vp * 4 + vq div 16)]
             else (case b64_val r of None \<Rightarrow> None
                   | Some vr \<Rightarrow> Some [of_nat (vp * 4 + vq div 16), of_nat (vq mod 16 * 16 + vr div 4)]))
          else
            (case (b64_val r, b64_val s) of
               (Some vr, Some vs) \<Rightarrow>
                 map_option (\<lambda>t. of_nat (vp * 4 + vq div 16) # of_nat (vq mod 16 * 16 + vr div 4)
                                 # of_nat (vr mod 4 * 64 + vs) # t) (b64_decode rest)
             | _ \<Rightarrow> None)
      | _ \<Rightarrow> None)"
| "b64_decode _ = None"

subsection \<open>The key\<close>

definition formatDHChapKey :: "bytes \<Rightarrow> string" where
  "formatDHChapKey secret = ''DHHC-1:00:'' @ b64_encode (secret @ PutUint32 (ChecksumIEEE secret)) @ '':''"

text \<open>The random source gives the requested number of bytes or an error.\<close>

definition GenerateDHChapKey :: "(nat \<Rightarrow> 'w \<Rightarrow> 'w \<times> (goerr + bytes)) \<Rightarrow> 'w \<Rightarrow> 'w \<times> (goerr + string)" where
  "GenerateDHChapKey rand_Read w =
     (case rand_Read 32 w of
        (w1, Inl e) \<Rightarrow> (w1, Inl (wrapf ''generate dhchap secret: '' e))
      | (w1, Inr secret) \<Rightarrow> (w1, Inr (formatDHChapKey secret)))"

text \<open>The reading side: strip the frame, decode, split off the checksum and compare it.\<close>

definition parse_key :: "string \<Rightarrow> bytes option" where
  "parse_key k =
     (if \<not> HasPrefix k ''DHHC-1:00:'' \<or> \<not> HasSuffix k '':'' then None
      else case b64_decode (butlast (drop 10 k)) of
        None \<Rightarrow> None
      | Some buf \<Rightarrow>
          let n = length buf - 4; secret = take n buf in
          if length buf \<ge> 4 \<and> Uint32 (drop n buf) = ChecksumIEEE secret then Some secret else None)"

subsection \<open>Lemmas\<close>

lemma index_of_nth: "distinct xs \<Longrightarrow> n < length xs \<Longrightarrow> index_of (xs ! n) xs = Some n"
proof (induction xs arbitrary: n)
  case (Cons x xs)
  then show ?case by (cases n) auto
qed simp

lemma b64_alphabet_props: "distinct b64_alphabet" "length b64_alphabet = 64" "CHR ''='' \<notin> set b64_alphabet"
  by (simp_all add: b64_alphabet_def)

lemma b64_val_char [simp]: "n < 64 \<Longrightarrow> b64_val (b64_char n) = Some n"
  by (simp add: b64_val_def b64_char_def index_of_nth b64_alphabet_props)

lemma b64_char_pad [simp]: "n < 64 \<Longrightarrow> b64_char n \<noteq> CHR ''=''"
  using b64_alphabet_props nth_mem unfolding b64_char_def by metis

lemma unat_byte: "unat (b :: byte) < 256"
  using unsigned_less [of b, where ?'a = nat] by simp

text \<open>Three bytes from four groups of six bits.\<close>

lemma mod_div_nat: "0 < k \<Longrightarrow> m mod (k * j) div k = m div k mod j" for m k j :: nat
  by (simp add: mod_mult2_eq)

lemma sextets_first: "n div 262144 * 4 + n div 4096 mod 64 div 16 = n div 65536" for n :: nat
proof -
  define x where "x = n div 65536"
  have "n div 4096 mod 64 div 16 = x mod 4" using mod_div_nat [of 16 "n div 4096" 4] by (simp add: x_def flip: div_mult2_eq)
  moreover have "n div 262144 = x div 4" by (simp add: x_def flip: div_mult2_eq)
  ultimately show ?thesis by (simp add: x_def [symmetric])
qed

lemma sextets_second: "n div 4096 mod 64 mod 16 * 16 + n div 64 mod 64 div 4 = n div 256 mod 256" for n :: nat
proof -
  define x where "x = n div 256"
  have "n div 64 mod 64 div 4 = x mod 16" using mod_div_nat [of 4 "n div 64" 16] by (simp add: x_def flip: div_mult2_eq)
  moreover have "n div 4096 = x div 16" by (simp add: x_def flip: div_mult2_eq)
  moreover have "x mod 256 = 16 * (x div 16 mod 16) + x mod 16" using mod_mult2_eq [of x 16 16] by simp
  ultimately show ?thesis by (simp add: x_def [symmetric] mod_mod_cancel)
qed

lemma sextets_third: "n div 64 mod 64 mod 4 * 64 + n mod 64 = n mod 256" for n :: nat
  using mod_mult2_eq [of n 64 4] by (simp add: mod_mod_cancel)

text \<open>The bytes of a number.\<close>

lemma bytes_of:
  fixes a b c :: nat
  assumes "a < 256" "b < 256" "c < 256"
  shows "(a * 65536 + b * 256 + c) div 262144 < 64" "(a * 65536 + b * 256 + c) div 65536 = a"
    "(a * 65536 + b * 256 + c) div 256 mod 256 = b" "(a * 65536 + b * 256 + c) mod 256 = c"
proof -
  have n: "a * 65536 + b * 256 + c = (a * 256 + b) * 256 + c" by simp
  have hi: "(a * 65536 + b * 256 + c) div 256 = a * 256 + b" unfolding n using assms by simp
  have lt: "a * 65536 + b * 256 + c < 64 * 262144" using assms by simp
  show "(a * 65536 + b * 256 + c) div 262144 < 64" by (rule less_mult_imp_div_less [OF lt])
  have "(a * 65536 + b * 256 + c) div 65536 = (a * 256 + b) div 256" by (simp flip: hi div_mult2_eq)
  then show "(a * 65536 + b * 256 + c) div 65536 = a" using assms by simp
  show "(a * 65536 + b * 256 + c) div 256 mod 256 = b" unfolding hi using assms by simp
  show "(a * 65536 + b * 256 + c) mod 256 = c" using assms(3) by (subst n) (simp only: mod_mult_self3 mod_less)
qed

lemmas byte_simps = bytes_of [OF unat_byte unat_byte unat_byte] sextets_first sextets_second sextets_third

lemma b64_roundtrip: "b64_decode (b64_encode bs) = Some bs"
proof (induction bs rule: b64_encode.induct)
  case (1 a b c bs)
  define n where "n = unat a * 65536 + unat b * 256 + unat c"
  note n = byte_simps(1-4) [of a b c, folded n_def]
  show ?case using 1 by (simp add: Let_def n byte_simps(5-7) flip: n_def)
next
  case (2 a b)
  define n where "n = unat a * 65536 + unat b * 256"
  have n: "n div 262144 < 64" "n div 65536 = unat a" "n div 256 mod 256 = unat b"
    using byte_simps(1-3) [of a b "0 :: byte"] by (simp_all add: n_def)
  show ?case by (simp add: Let_def n byte_simps(5-7) flip: n_def)
next
  case (3 a)
  define n where "n = unat a * 65536"
  have n: "n div 262144 < 64" "n div 65536 = unat a"
    using byte_simps(1-2) [of a "0 :: byte" "0 :: byte"] by (simp_all add: n_def)
  show ?case by (simp add: Let_def n byte_simps(5-7) flip: n_def)
qed simp

lemma Uint32_PutUint32 [simp]: "Uint32 (PutUint32 v) = v"
proof (rule bit_word_eqI)
  fix i assume "i < LENGTH(32)"
  then consider "i < 8" | "8 \<le> i" "i < 16" | "16 \<le> i" "i < 24" | "24 \<le> i" "i < 32" by fastforce
  then show "bit (Uint32 (PutUint32 v)) i = bit v i"
    unfolding Uint32_def PutUint32_def
    by cases (auto simp add: bit_simps simp del: push_bit_of_0 push_bit_numeral)
qed

lemma length_PutUint32 [simp]: "length (PutUint32 v) = 4"
  by (simp add: PutUint32_def)

lemma parse_key_format: "parse_key (formatDHChapKey secret) = Some secret"
  by (simp add: parse_key_def formatDHChapKey_def HasPrefix_def HasSuffix_def b64_roundtrip butlast_append Let_def numeral_eq_Suc)

end
