(* ===== verification/ShareTypes.thy ===== *)
theory ShareTypes
  imports CsiTypes RawLocate NvmeAuth
begin

text \<open>
  What the share controllers add to the Kubernetes client: the kinds they write, nodes, secrets, and
  \<open>controllerutil.CreateOrUpdate\<close>, which applies a function to the stored object (or to a new one)
  and yields the object as the API server returned it. Also the two small files every share
  controller uses: \<open>src/internal/controller/common.go\<close> and \<open>pool_predicates.go\<close>.
\<close>

record NodeAddress =
  na_Type :: string
  na_Address :: string

record Node =
  nd_Name :: string
  nd_Addresses :: "NodeAddress list"

record Secret =
  sec_Namespace :: string
  sec_Name :: string
  sec_Data :: props

record 'w ShareClient = "'w CsiClient" +
  update_ZfsShareAttachRequest :: "ZfsShareAttachRequest \<Rightarrow> 'w act"
  patch_status_ZfsShareAttachRequest :: "ZfsShareAttachRequest \<Rightarrow> ZfsShareAttachRequest \<Rightarrow> 'w act"
  list_ZfsShare :: "('w, ZfsShare list) query"
  patch_status_ZfsShare :: "ZfsShare \<Rightarrow> ZfsShare \<Rightarrow> 'w act"
  create_or_update_ZfsShare :: "string \<Rightarrow> (ZfsShare \<Rightarrow> ZfsShare) \<Rightarrow> ('w, ZfsShare) query"
  get_NetworkExport :: "string \<Rightarrow> ('w, NetworkExport) query"
  update_NetworkExport :: "NetworkExport \<Rightarrow> 'w act"
  patch_status_NetworkExport :: "NetworkExport \<Rightarrow> NetworkExport \<Rightarrow> 'w act"
  create_or_update_NetworkExport :: "string \<Rightarrow> (NetworkExport \<Rightarrow> goerr + NetworkExport) \<Rightarrow> ('w, NetworkExport) query"
  get_Node :: "string \<Rightarrow> ('w, Node) query"
  get_Secret :: "string \<Rightarrow> string \<Rightarrow> ('w, Secret) query"
  create_Secret :: "Secret \<Rightarrow> 'w act"
  delete_Secret :: "string \<Rightarrow> string \<Rightarrow> 'w act"

subsection \<open>\<open>common.go\<close>\<close>

abbreviation networkExportFinalizer :: string where
  "networkExportFinalizer \<equiv> ''storage.simple-zfs-csi.io/networkexport''"

definition nodeProtocolPredicate :: "string \<Rightarrow> Protocol \<Rightarrow> NetworkExport \<Rightarrow> bool" where
  "nodeProtocolPredicate nodeName protocol export \<longleftrightarrow>
     nes_NodeName (ne_Spec export) = nodeName \<and> nes_Protocol (ne_Spec export) = protocol"

fun owned_exports :: "string \<Rightarrow> Protocol \<Rightarrow> NetworkExport list \<Rightarrow> NetworkExport list" where
  "owned_exports nodeName protocol [] = []"
| "owned_exports nodeName protocol (s # ss) =
     (if nes_NodeName (ne_Spec s) \<noteq> nodeName \<or> nes_Protocol (ne_Spec s) \<noteq> protocol then owned_exports nodeName protocol ss
      else if om_DeletionTimestamp (ne_Meta s) \<noteq> None then owned_exports nodeName protocol ss
      else s # owned_exports nodeName protocol ss)"

definition listOwnedExports :: "('w, 'b) Reader_scheme \<Rightarrow> string \<Rightarrow> Protocol \<Rightarrow> ('w, NetworkExport list) query" where
  "listOwnedExports c nodeName protocol w =
     (case list_NetworkExport c w of
        (w1, Inl e) \<Rightarrow> (w1, Inl e)
      | (w1, Inr ss) \<Rightarrow> (w1, Inr (owned_exports nodeName protocol ss)))"

definition export_status :: "'w KubeLib \<Rightarrow> NetworkExport \<Rightarrow> NetworkExportPhase \<Rightarrow> string \<Rightarrow> string \<Rightarrow> string \<Rightarrow> NetworkExportStatus" where
  "export_status L export phase reason message nqn =
     (let st = ne_Status export; gen = om_Generation (ne_Meta export) in
      st\<lparr>nest_Phase := phase, nest_ObservedGeneration := gen, nest_Message := message,
         nest_NQN := (if nqn \<noteq> '''' then nqn else nest_NQN st),
         nest_Conditions := SetStatusCondition L (nest_Conditions st)
           \<lparr>cond_Type = ''Exported'', cond_Status = (phase = PhaseExported), cond_Reason = reason,
            cond_Message = message, cond_ObservedGeneration = gen, cond_LastTransitionTime = None\<rparr>\<rparr>)"

definition updateStatus ::
  "'w KubeLib \<Rightarrow> 'w ShareClient \<Rightarrow> NetworkExport \<Rightarrow> NetworkExportPhase \<Rightarrow> string \<Rightarrow> string \<Rightarrow> string \<Rightarrow> 'w act" where
  "updateStatus L c export phase reason message nqn =
     patch_status_NetworkExport c export (export\<lparr>ne_Status := export_status L export phase reason message nqn\<rparr>)"

subsection \<open>\<open>pool_predicates.go\<close>\<close>

text \<open>
  The spec of a ZfsPool has no field. \<open>Semantic.DeepEqual\<close> on labels compares the maps, with nil
  equal to empty.
\<close>

definition same_labels :: "props \<Rightarrow> props \<Rightarrow> bool" where
  "same_labels a b \<longleftrightarrow> (\<forall>k \<in> set (keys a @ keys b). map_of a k = map_of b k)"

definition samePoolIgnoringHeartbeat :: "ZfsPool \<Rightarrow> ZfsPool \<Rightarrow> bool" where
  "samePoolIgnoringHeartbeat a b \<longleftrightarrow>
     (if (om_DeletionTimestamp (zp_Meta a) = None) \<noteq> (om_DeletionTimestamp (zp_Meta b) = None)
         \<or> \<not> same_labels (om_Labels (zp_Meta a)) (om_Labels (zp_Meta b))
      then False
      else (zp_Status a)\<lparr>zpst_LastUpdated := None\<rparr> = (zp_Status b)\<lparr>zpst_LastUpdated := None\<rparr>)"

definition poolChanged :: "ZfsPool \<Rightarrow> ZfsPool \<Rightarrow> bool" where
  "poolChanged oldPool newPool \<longleftrightarrow> \<not> samePoolIgnoringHeartbeat oldPool newPool"

subsection \<open>Lemmas\<close>

lemma owned_exports_filter:
  "owned_exports nodeName protocol ss =
     filter (\<lambda>s. nodeProtocolPredicate nodeName protocol s \<and> om_DeletionTimestamp (ne_Meta s) = None) ss"
  by (induction ss) (auto simp: nodeProtocolPredicate_def)

lemma same_labels_iff: "same_labels a b \<longleftrightarrow> map_of a = map_of b"
proof
  assume "same_labels a b"
  then show "map_of a = map_of b" unfolding same_labels_def fun_eq_iff by (metis in_keys_iff set_append UnCI)
qed (simp add: same_labels_def)

text \<open>An update the filter drops changes nothing a controller reads of the pool.\<close>

lemma dropped_update:
  assumes "\<not> poolChanged p q"
  shows "(zp_Status q)\<lparr>zpst_LastUpdated := zpst_LastUpdated (zp_Status p)\<rparr> = zp_Status p"
proof -
  have "(zp_Status p)\<lparr>zpst_LastUpdated := None\<rparr> = (zp_Status q)\<lparr>zpst_LastUpdated := None\<rparr>"
    using assms by (simp add: poolChanged_def samePoolIgnoringHeartbeat_def split: if_splits)
  then show ?thesis by (cases "zp_Status p"; cases "zp_Status q") simp
qed

end
