(* ===== verification/AttachController.thy ===== *)
theory AttachController
  imports ShareTypes
begin

text \<open>
  \<open>src/internal/controller/zfsshareattachrequest_controller.go\<close>: the operator's reconciler that
  aggregates the attach requests of a volume into one ZfsShare. Logging is left out; the UUIDv5 hash
  and the random source are fields of the reconciler, as \<open>ar_UUID5\<close> and \<open>ar_Rand\<close>.
\<close>

abbreviation zfsShareAttachRequestFinalizer :: string where
  "zfsShareAttachRequestFinalizer \<equiv> ''storage.simple-zfs-csi.io/zfsshareattachrequest''"

abbreviation attachRequeue :: int where "attachRequeue \<equiv> 3000"

record 'w ZfsShareAttachRequestReconciler =
  ar_Client :: "'w ShareClient"
  ar_Lib :: "'w KubeLib"
  ar_Namespace :: string
  ar_DHChapEnabled :: bool
  ar_DHChapSecretKey :: string
  ar_APIReader :: "'w Reader option"
  ar_UUID5 :: "string \<Rightarrow> string"
  ar_Rand :: "nat \<Rightarrow> ('w, bytes) query"

definition ar_gateReader :: "'w ZfsShareAttachRequestReconciler \<Rightarrow> 'w Reader" where
  "ar_gateReader r = (case ar_APIReader r of Some rd \<Rightarrow> rd | None \<Rightarrow> Reader.truncate (ar_Client r))"

subsection \<open>Who is attached\<close>

definition active_request :: "string \<Rightarrow> ZfsShareAttachRequest \<Rightarrow> bool" where
  "active_request volume it \<longleftrightarrow>
     \<not> (zars_VolumeName (zar_Spec it) \<noteq> volume \<or> om_DeletionTimestamp (zar_Meta it) \<noteq> None)"

fun collect_nodes :: "string \<Rightarrow> string list \<Rightarrow> ZfsShareAttachRequest list \<Rightarrow> string list" where
  "collect_nodes volume seen [] = seen"
| "collect_nodes volume seen (it # its) =
     (if \<not> active_request volume it then collect_nodes volume seen its
      else if zars_NodeName (zar_Spec it) \<in> set seen then collect_nodes volume seen its
      else collect_nodes volume (seen @ [zars_NodeName (zar_Spec it)]) its)"

definition activeNodes :: "('w, 'b) Reader_scheme \<Rightarrow> string \<Rightarrow> ('w, string list) query" where
  "activeNodes reader volume w =
     (case list_ZfsShareAttachRequest reader w of
        (w1, Inl e) \<Rightarrow> (w1, Inl e)
      | (w1, Inr its) \<Rightarrow> (w1, Inr (sort (collect_nodes volume [] its))))"

definition older :: "string \<Rightarrow> ZfsShareAttachRequest \<Rightarrow> ZfsShareAttachRequest option \<Rightarrow> ZfsShareAttachRequest option" where
  "older volume it oldest =
     (if \<not> active_request volume it then oldest
      else case oldest of
        None \<Rightarrow> Some it
      | Some o1 \<Rightarrow>
          if om_CreationTimestamp (zar_Meta it) = om_CreationTimestamp (zar_Meta o1)
          then (if om_Name (zar_Meta it) < om_Name (zar_Meta o1) then Some it else oldest)
          else if om_CreationTimestamp (zar_Meta it) < om_CreationTimestamp (zar_Meta o1) then Some it
          else oldest)"

definition oldest_request :: "string \<Rightarrow> ZfsShareAttachRequest list \<Rightarrow> ZfsShareAttachRequest option" where
  "oldest_request volume its = fold (older volume) its None"

definition oldestAttachNode :: "'w ZfsShareAttachRequestReconciler \<Rightarrow> string \<Rightarrow> ('w, string) query" where
  "oldestAttachNode r volume w =
     (case list_ZfsShareAttachRequest (ar_gateReader r) w of
        (w1, Inl e) \<Rightarrow> (w1, Inl e)
      | (w1, Inr its) \<Rightarrow>
          (case oldest_request volume its of
             None \<Rightarrow> (w1, Inl (errorf (''no active attach request for volume '' @ Quote volume)))
           | Some it \<Rightarrow> (w1, Inr (zars_NodeName (zar_Spec it)))))"

definition isSingleNodeVolume :: "'w ZfsShareAttachRequestReconciler \<Rightarrow> string \<Rightarrow> 'w \<Rightarrow> 'w \<times> bool" where
  "isSingleNodeVolume r volume w =
     (case list_ZfsShareAttachRequest (ar_gateReader r) w of
        (w1, Inl e) \<Rightarrow> (w1, False)
      | (w1, Inr its) \<Rightarrow>
          (w1, case find (active_request volume) its of None \<Rightarrow> False | Some it \<Rightarrow> zars_SingleNode (zar_Spec it)))"

subsection \<open>What the share allows\<close>

definition nodeInternalIP :: "'w ZfsShareAttachRequestReconciler \<Rightarrow> string \<Rightarrow> ('w, string) query" where
  "nodeInternalIP r nodeName w =
     (case get_Node (ar_Client r) nodeName w of
        (w1, Inl e) \<Rightarrow> (w1, Inl (wrapf (''get node '' @ Quote nodeName @ '': '') e))
      | (w1, Inr node) \<Rightarrow>
          (w1, case find (\<lambda>a. na_Type a = ''InternalIP'' \<and> na_Address a \<noteq> '''') (nd_Addresses node) of
                 None \<Rightarrow> Inl (errorf (''node '' @ Quote nodeName @ '' has no InternalIP''))
               | Some a \<Rightarrow> Inr (na_Address a)))"

fun resolve_clients :: "'w ZfsShareAttachRequestReconciler \<Rightarrow> string list \<Rightarrow> ('w, NFSClient list) query" where
  "resolve_clients r [] w = (w, Inr [])"
| "resolve_clients r (n # ns) w =
     (case nodeInternalIP r n w of
        (w1, Inl e) \<Rightarrow> (w1, Inl e)
      | (w1, Inr ip) \<Rightarrow>
          (case resolve_clients r ns w1 of
             (w2, Inl e) \<Rightarrow> (w2, Inl e)
           | (w2, Inr cs) \<Rightarrow> (w2, Inr (\<lparr>nc_Client = ip, nc_Options = []\<rparr> # cs))))"

text \<open>\<open>%v\<close> of a slice of strings.\<close>

definition format_list :: "string list \<Rightarrow> string" where
  "format_list xs = ''['' @ Join '' '' xs @ '']''"

definition nfsClientsForNodes :: "'w ZfsShareAttachRequestReconciler \<Rightarrow> string list \<Rightarrow> ('w, NFSClient list) query" where
  "nfsClientsForNodes r nodes w =
     (case resolve_clients r nodes w of
        (w1, Inl e) \<Rightarrow> (w1, Inl e)
      | (w1, Inr clients) \<Rightarrow>
          (w1, if clients = [] then Inl (errorf (''no NFS clients resolved from nodes '' @ format_list nodes)) else Inr clients))"

definition dhchapSecretName :: "string \<Rightarrow> string" where
  "dhchapSecretName volume = ''dhchap-'' @ volume"

definition ensureDHChapSecret :: "'w ZfsShareAttachRequestReconciler \<Rightarrow> string \<Rightarrow> ('w, string) query" where
  "ensureDHChapSecret r volume w =
     (if ar_Namespace r = '''' then (w, Inl (errorf ''operator namespace is unknown; cannot manage DH-CHAP secret''))
      else let name = dhchapSecretName volume in
        case get_Secret (ar_Client r) (ar_Namespace r) name w of
          (w1, Inr _) \<Rightarrow> (w1, Inr name)
        | (w1, Inl e) \<Rightarrow>
            if IsNotFound e then
              (case GenerateDHChapKey (ar_Rand r) w1 of
                 (w2, Inl ge) \<Rightarrow> (w2, Inl ge)
               | (w2, Inr key) \<Rightarrow>
                   (case create_Secret (ar_Client r)
                           \<lparr>sec_Namespace = ar_Namespace r, sec_Name = name,
                            sec_Data = [(ResolveSecretKey (ar_DHChapSecretKey r), key)]\<rparr> w2 of
                      (w3, Some ce) \<Rightarrow> (w3, if errors_Is ce StatusAlreadyExists then Inr name else Inl ce)
                    | (w3, None) \<Rightarrow> (w3, Inr name)))
            else (w1, Inl e))"

definition deleteDHChapSecret :: "'w ZfsShareAttachRequestReconciler \<Rightarrow> string \<Rightarrow> 'w act" where
  "deleteDHChapSecret r volume w =
     (if ar_Namespace r = '''' then (w, None)
      else case delete_Secret (ar_Client r) (ar_Namespace r) (dhchapSecretName volume) w of
        (w1, Some e) \<Rightarrow> (w1, if IsNotFound e then None else Some e)
      | (w1, None) \<Rightarrow> (w1, None))"

text \<open>The index \<open>nodes[0]\<close> of an empty slice panics.\<close>

definition nvmeExportSpec :: "'w ZfsShareAttachRequestReconciler \<Rightarrow> string \<Rightarrow> string list \<Rightarrow> ('w, NVMeoFExportSpec) query" where
  "nvmeExportSpec r volume nodes w =
     (case nodes of
        [] \<Rightarrow> (w, Inl go_panic)
      | node # _ \<Rightarrow>
          let spec = \<lparr>nvme_NQN = '''', nvme_AllowedHosts = [fst (HostIdentity (ar_UUID5 r) node volume)],
                      nvme_DHChapSecretName = '''', nvme_DHChapSecretNamespace = '''', nvme_DHChapSecretKey = ''''\<rparr> in
          if ar_DHChapEnabled r then
            (case ensureDHChapSecret r volume w of
               (w1, Inl e) \<Rightarrow> (w1, Inl e)
             | (w1, Inr name) \<Rightarrow>
                 (w1, Inr (spec\<lparr>nvme_DHChapSecretName := name, nvme_DHChapSecretNamespace := ar_Namespace r,
                                nvme_DHChapSecretKey := ResolveSecretKey (ar_DHChapSecretKey r)\<rparr>)))
          else (w, Inr spec))"

definition shareReadyForGeneration :: "ZfsShare option \<Rightarrow> bool" where
  "shareReadyForGeneration s =
     (case s of
        None \<Rightarrow> False
      | Some sh \<Rightarrow> zshst_Phase (zsh_Status sh) = SharePhaseBound
                   \<and> zshst_ObservedGeneration (zsh_Status sh) \<ge> om_Generation (zsh_Meta sh))"

definition protocolForDatasetType :: "DatasetType \<Rightarrow> goerr + Protocol" where
  "protocolForDatasetType t =
     (if t = DatasetTypeFilesystem then Inr ProtocolNFS
      else if t = DatasetTypeVolume then Inr ProtocolNVMeoF
      else Inl (errorf (''unknown dataset type '' @ Quote t)))"

definition deleteShareIfPresent :: "'w ZfsShareAttachRequestReconciler \<Rightarrow> string \<Rightarrow> 'w act" where
  "deleteShareIfPresent r volume w =
     (case get_ZfsShare (ar_Client r) volume w of
        (w1, Inl e) \<Rightarrow> (w1, IgnoreNotFound e)
      | (w1, Inr _) \<Rightarrow>
          (case delete_ZfsShare (ar_Client r) volume w1 of
             (w2, Some e) \<Rightarrow> (w2, if IsNotFound e then None else Some e)
           | (w2, None) \<Rightarrow> (w2, None)))"

subsection \<open>The volume's share\<close>

text \<open>
  \<open>reconcileVolume\<close> yields the share (none when it was torn down or is not needed), the nodes it is
  exported to, and whether the attach is local.
\<close>

type_synonym vol_result = "ZfsShare option \<times> string list \<times> bool"

definition teardown :: "'w ZfsShareAttachRequestReconciler \<Rightarrow> string \<Rightarrow> ('w, vol_result) query" where
  "teardown r volume w =
     (case delete_ZfsShare (ar_Client r) volume w of (w1, de) \<Rightarrow>
        case Option.bind de IgnoreNotFound of
          Some e \<Rightarrow> (w1, Inl e)
        | None \<Rightarrow>
            (case deleteDHChapSecret r volume w1 of
               (w2, Some e) \<Rightarrow> (w2, Inl e)
             | (w2, None) \<Rightarrow> (w2, Inr (None, [], False))))"

definition gate_pool :: "'w ZfsShareAttachRequestReconciler \<Rightarrow> string \<Rightarrow> ('w, ZfsPool) query" where
  "gate_pool r guid w =
     (case get_ZfsPool (ar_gateReader r) (ResourceName guid) w of
        (w1, Inl e) \<Rightarrow> (w1, Inl (wrapf (''get ZfsPool '' @ Quote guid @ '': '') e))
      | (w1, Inr p) \<Rightarrow> (w1, Inr p))"

definition serves_pool :: "ZfsPool \<Rightarrow> string \<Rightarrow> bool" where
  "serves_pool pool node \<longleftrightarrow> zpst_CurrentNode (zp_Status pool) \<noteq> '''' \<and> zpst_CurrentNode (zp_Status pool) = node"

definition write_share ::
  "'w ZfsShareAttachRequestReconciler \<Rightarrow> string \<Rightarrow> ZfsDataset \<Rightarrow> Protocol \<Rightarrow> NFSExportSpec option \<Rightarrow> NVMeoFExportSpec option
     \<Rightarrow> string list \<Rightarrow> ('w, vol_result) query" where
  "write_share r volume ds protocol nfs nvme exported w =
     (case create_or_update_ZfsShare (ar_Client r) volume
             (\<lambda>s. s\<lparr>zsh_Spec := (zsh_Spec s)\<lparr>zshs_PoolGUID := zds_PoolGUID (zd_Spec ds), zshs_Dataset := zds_Dataset (zd_Spec ds),
                zshs_Protocol := protocol, zshs_NFS := nfs, zshs_NVMeoF := nvme\<rparr>\<rparr>) w of
        (w1, Inl e) \<Rightarrow> (w1, Inl e)
      | (w1, Inr s) \<Rightarrow> (w1, Inr (Some s, exported, False)))"

definition share_nfs_for ::
  "'w ZfsShareAttachRequestReconciler \<Rightarrow> string \<Rightarrow> ZfsDataset \<Rightarrow> string list \<Rightarrow> ('w, vol_result) query" where
  "share_nfs_for r volume ds exported w =
     (case nfsClientsForNodes r exported w of
        (w1, Inl e) \<Rightarrow> (w1, Inl e)
      | (w1, Inr clients) \<Rightarrow> write_share r volume ds ProtocolNFS (Some \<lparr>nfs_Clients = clients\<rparr>) None exported w1)"

definition reconcile_nfs ::
  "'w ZfsShareAttachRequestReconciler \<Rightarrow> string \<Rightarrow> ZfsDataset \<Rightarrow> string list \<Rightarrow> ('w, vol_result) query" where
  "reconcile_nfs r volume ds nodes w =
     (case gate_pool r (zds_PoolGUID (zd_Spec ds)) w of
        (w1, Inl e) \<Rightarrow> (w1, Inl e)
      | (w1, Inr pool) \<Rightarrow>
          (case isSingleNodeVolume r volume w1 of (w2, single) \<Rightarrow>
             if single then
               (case oldestAttachNode r volume w2 of
                  (w3, Inl e) \<Rightarrow> (w3, Inl e)
                | (w3, Inr node) \<Rightarrow>
                    if serves_pool pool node then
                      (case deleteShareIfPresent r volume w3 of
                         (w4, Some e) \<Rightarrow> (w4, Inl e)
                       | (w4, None) \<Rightarrow> (w4, Inr (None, [node], True)))
                    else share_nfs_for r volume ds [node] w3)
             else share_nfs_for r volume ds nodes w2))"

definition reconcile_nvme ::
  "'w ZfsShareAttachRequestReconciler \<Rightarrow> string \<Rightarrow> ZfsDataset \<Rightarrow> ('w, vol_result) query" where
  "reconcile_nvme r volume ds w =
     (case oldestAttachNode r volume w of
        (w1, Inl e) \<Rightarrow> (w1, Inl e)
      | (w1, Inr node) \<Rightarrow>
          (case gate_pool r (zds_PoolGUID (zd_Spec ds)) w1 of
             (w2, Inl e) \<Rightarrow> (w2, Inl e)
           | (w2, Inr pool) \<Rightarrow>
               if serves_pool pool node then
                 (case deleteShareIfPresent r volume w2 of
                    (w3, Some e) \<Rightarrow> (w3, Inl e)
                  | (w3, None) \<Rightarrow>
                      (case deleteDHChapSecret r volume w3 of
                         (w4, Some e) \<Rightarrow> (w4, Inl e)
                       | (w4, None) \<Rightarrow> (w4, Inr (None, [node], True))))
               else
                 (case nvmeExportSpec r volume [node] w2 of
                    (w3, Inl e) \<Rightarrow> (w3, Inl e)
                  | (w3, Inr spec) \<Rightarrow> write_share r volume ds ProtocolNVMeoF None (Some spec) [node] w3)))"

definition reconcile_attached ::
  "'w ZfsShareAttachRequestReconciler \<Rightarrow> string \<Rightarrow> string list \<Rightarrow> ('w, vol_result) query" where
  "reconcile_attached r volume nodes w =
     (case get_ZfsDataset (ar_Client r) volume w of
        (w1, Inl e) \<Rightarrow> (w1, Inl (wrapf (''get ZfsDataset '' @ Quote volume @ '': '') e))
      | (w1, Inr ds) \<Rightarrow>
          (case protocolForDatasetType (zds_Type (zd_Spec ds)) of
             Inl e \<Rightarrow> (w1, Inl e)
           | Inr protocol \<Rightarrow>
               if protocol = ProtocolNFS then reconcile_nfs r volume ds nodes w1
               else reconcile_nvme r volume ds w1))"

definition reconcileVolume :: "'w ZfsShareAttachRequestReconciler \<Rightarrow> string \<Rightarrow> ('w, vol_result) query" where
  "reconcileVolume r volume w =
     (case activeNodes (ar_Client r) volume w of
        (w1, Inl e) \<Rightarrow> (w1, Inl e)
      | (w1, Inr cached) \<Rightarrow>
          (case (if cached = [] then activeNodes (ar_gateReader r) volume w1 else (w1, Inr cached)) of
             (w2, Inl e) \<Rightarrow> (w2, Inl e)
           | (w2, Inr nodes) \<Rightarrow> if nodes = [] then teardown r volume w2 else reconcile_attached r volume nodes w2))"

subsection \<open>The request\<close>

definition request_status :: "'w KubeLib \<Rightarrow> ZfsShareAttachRequest \<Rightarrow> bool \<Rightarrow> string \<Rightarrow> string \<Rightarrow> string \<Rightarrow> ZfsShareAttachRequestStatus" where
  "request_status L ar ready shareName reason message =
     (let st = zar_Status ar; gen = om_Generation (zar_Meta ar) in
      st\<lparr>zarst_Ready := ready, zarst_ShareName := shareName, zarst_ObservedGeneration := gen, zarst_Message := message,
         zarst_Conditions := SetStatusCondition L (zarst_Conditions st)
           \<lparr>cond_Type = ''Ready'', cond_Status = ready, cond_Reason = reason, cond_Message = message,
            cond_ObservedGeneration = gen, cond_LastTransitionTime = None\<rparr>\<rparr>)"

definition ar_setStatus ::
  "'w ZfsShareAttachRequestReconciler \<Rightarrow> ZfsShareAttachRequest \<Rightarrow> bool \<Rightarrow> string \<Rightarrow> string \<Rightarrow> string \<Rightarrow> 'w act" where
  "ar_setStatus r ar ready shareName reason message =
     patch_status_ZfsShareAttachRequest (ar_Client r) ar
       (ar\<lparr>zar_Status := request_status (ar_Lib r) ar ready shareName reason message\<rparr>)"

definition attach_reason :: "string \<Rightarrow> bool \<Rightarrow> bool \<Rightarrow> bool \<Rightarrow> string \<times> string" where
  "attach_reason volume nodeExported localOnly ready =
     (if \<not> nodeExported then (''Waiting'', ''volume '' @ Quote volume @ '' is exported to another node; waiting for it to detach'')
      else if localOnly then (''Local'', ''volume '' @ Quote volume @ '' is local to its own node; no network export needed'')
      else if \<not> ready then (''Exporting'', ''waiting for the aggregated share to be exported'')
      else (''Exported'', ''export live on the current generation for '' @ Quote volume))"

definition ar_attached :: "'w ZfsShareAttachRequestReconciler \<Rightarrow> ZfsShareAttachRequest \<Rightarrow> 'w reconcile" where
  "ar_attached r ar w =
     (let volume = zars_VolumeName (zar_Spec ar) in
      case reconcileVolume r volume w of
        (w1, Inl e) \<Rightarrow> requeue_with attachRequeue (ar_setStatus r ar False volume ''Pending'' (err_text e) w1)
      | (w1, Inr (share, exported, localOnly)) \<Rightarrow>
          (let nodeExported = zars_NodeName (zar_Spec ar) \<in> set exported;
               ready = (nodeExported \<and> (localOnly \<or> shareReadyForGeneration share));
               (reason, msg) = attach_reason volume nodeExported localOnly ready in
           case ar_setStatus r ar ready volume reason msg w1 of
             (w2, Some e) \<Rightarrow> (w2, no_requeue, Some e)
           | (w2, None) \<Rightarrow> (w2, if ready then no_requeue else \<lparr>RequeueAfter = attachRequeue\<rparr>, None)))"

definition ar_terminating :: "'w ZfsShareAttachRequestReconciler \<Rightarrow> ZfsShareAttachRequest \<Rightarrow> 'w reconcile" where
  "ar_terminating r ar w =
     (if ContainsFinalizer (ar_Lib r) (zar_Meta ar) zfsShareAttachRequestFinalizer then
        (case reconcileVolume r (zars_VolumeName (zar_Spec ar)) w of
           (w1, Inl e) \<Rightarrow> (w1, no_requeue, Some e)
         | (w1, Inr _) \<Rightarrow>
             (case update_ZfsShareAttachRequest (ar_Client r)
                     (ar\<lparr>zar_Meta := fst (RemoveFinalizer (ar_Lib r) (zar_Meta ar) zfsShareAttachRequestFinalizer)\<rparr>) w1 of
                (w2, Some e) \<Rightarrow> (w2, no_requeue, IgnoreNotFound e)
              | (w2, None) \<Rightarrow> (w2, no_requeue, None)))
      else (w, no_requeue, None))"

definition ar_Reconcile :: "'w ZfsShareAttachRequestReconciler \<Rightarrow> string \<Rightarrow> 'w reconcile" where
  "ar_Reconcile r req w =
     (case get_ZfsShareAttachRequest (ar_Client r) req w of
        (w1, Inl e) \<Rightarrow> (w1, no_requeue, IgnoreNotFound e)
      | (w1, Inr ar) \<Rightarrow>
          if om_DeletionTimestamp (zar_Meta ar) \<noteq> None then ar_terminating r ar w1
          else if \<not> ContainsFinalizer (ar_Lib r) (zar_Meta ar) zfsShareAttachRequestFinalizer then
            done_with (update_ZfsShareAttachRequest (ar_Client r)
              (ar\<lparr>zar_Meta := AddFinalizer (ar_Lib r) (zar_Meta ar) zfsShareAttachRequestFinalizer\<rparr>) w1)
          else ar_attached r ar w1)"

subsection \<open>Watches\<close>

definition requestsForShare :: "('w, 'b) Reader_scheme \<Rightarrow> ZfsShare \<Rightarrow> 'w \<Rightarrow> 'w \<times> string list" where
  "requestsForShare c share w =
     (case list_ZfsShareAttachRequest c w of
        (w1, Inl e) \<Rightarrow> (w1, [])
      | (w1, Inr its) \<Rightarrow>
          (w1, map (\<lambda>it. om_Name (zar_Meta it)) (filter (\<lambda>it. zars_VolumeName (zar_Spec it) = om_Name (zsh_Meta share)) its)))"

definition requestsForPool :: "('w, 'b) Reader_scheme \<Rightarrow> ZfsPool \<Rightarrow> 'w \<Rightarrow> 'w \<times> string list" where
  "requestsForPool c pool w =
     (case list_ZfsDataset c w of
        (w1, Inl e) \<Rightarrow> (w1, [])
      | (w1, Inr ds) \<Rightarrow>
          (let volumes = map (\<lambda>d. om_Name (zd_Meta d)) (filter (\<lambda>d. zds_PoolGUID (zd_Spec d) = pool_guid pool) ds) in
           if volumes = [] then (w1, [])
           else case list_ZfsShareAttachRequest c w1 of
             (w2, Inl e) \<Rightarrow> (w2, [])
           | (w2, Inr its) \<Rightarrow>
               (w2, map (\<lambda>it. om_Name (zar_Meta it)) (filter (\<lambda>it. zars_VolumeName (zar_Spec it) \<in> set volumes) its))))"

end
