(* ===== verification/AttachSafety.thy ===== *)
theory AttachSafety
  imports AttachController Frame
begin

text \<open>
  Which node of a volume wins, what the reconciler of attach requests writes into shares, when it
  tears one down, and when it reports a request as ready.
\<close>

subsection \<open>The oldest request\<close>

definition not_after :: "ZfsShareAttachRequest \<Rightarrow> ZfsShareAttachRequest \<Rightarrow> bool" where
  "not_after a b \<longleftrightarrow>
     om_CreationTimestamp (zar_Meta a) < om_CreationTimestamp (zar_Meta b)
     \<or> om_CreationTimestamp (zar_Meta a) = om_CreationTimestamp (zar_Meta b) \<and> om_Name (zar_Meta a) \<le> om_Name (zar_Meta b)"

lemma not_after_refl [simp]: "not_after a a"
  by (simp add: not_after_def)

lemma not_after_trans: "not_after a b \<Longrightarrow> not_after b c \<Longrightarrow> not_after a c"
  by (auto simp: not_after_def)

lemma not_after_antisym: "not_after a b \<Longrightarrow> not_after b a \<Longrightarrow> om_Name (zar_Meta a) = om_Name (zar_Meta b)"
  by (auto simp: not_after_def)

definition first_of :: "string \<Rightarrow> ZfsShareAttachRequest set \<Rightarrow> ZfsShareAttachRequest option \<Rightarrow> bool" where
  "first_of volume S x =
     (case x of
        None \<Rightarrow> \<forall>b \<in> S. \<not> active_request volume b
      | Some a \<Rightarrow> a \<in> S \<and> active_request volume a \<and> (\<forall>b \<in> S. active_request volume b \<longrightarrow> not_after a b))"

lemma older_cases:
  "older volume b x =
     (if \<not> active_request volume b then x
      else case x of None \<Rightarrow> Some b | Some a \<Rightarrow> if not_after a b then Some a else Some b)"
  by (auto simp: older_def not_after_def split: option.splits)

lemma not_after_total: "\<not> not_after a b \<Longrightarrow> not_after b a"
  by (auto simp: not_after_def)

lemma first_of_older: "first_of volume S x \<Longrightarrow> first_of volume (insert b S) (older volume b x)"
  by (cases x) (auto simp: older_cases first_of_def dest: not_after_total not_after_trans)

lemma first_of_fold: "first_of volume S x \<Longrightarrow> first_of volume (S \<union> set its) (fold (older volume) its x)"
proof (induction its arbitrary: S x)
  case (Cons a its)
  then show ?case using Cons.IH [OF first_of_older, of S x a] by simp
qed simp

lemma first_of_oldest: "first_of volume (set its) (oldest_request volume its)"
  using first_of_fold [of volume "{}" None its] by (simp add: oldest_request_def first_of_def)

lemma first_of_unique:
  assumes "first_of volume S x" "first_of volume S y" "inj_on (\<lambda>b. om_Name (zar_Meta b)) S"
  shows "x = y"
proof (cases "x = None \<or> y = None")
  case True
  then show ?thesis using assms(1,2) by (auto simp: first_of_def split: option.splits)
next
  case False
  then obtain a b where xy: "x = Some a" "y = Some b" by auto
  then have "not_after a b" "not_after b a" "a \<in> S" "b \<in> S" using assms(1,2) by (auto simp: first_of_def)
  then show ?thesis using assms(3) not_after_antisym xy by (metis inj_onD)
qed

subsection \<open>The attached nodes\<close>

lemma set_collect_nodes:
  "set (collect_nodes volume seen its) = set seen \<union> (\<lambda>it. zars_NodeName (zar_Spec it)) ` {it \<in> set its. active_request volume it}"
  by (induction volume seen its rule: collect_nodes.induct) auto

lemma distinct_collect_nodes: "distinct seen \<Longrightarrow> distinct (collect_nodes volume seen its)"
  by (induction volume seen its rule: collect_nodes.induct) auto

lemma collect_nodes_Nil: "collect_nodes volume [] its = [] \<longleftrightarrow> (\<forall>it \<in> set its. \<not> active_request volume it)"
  using set_collect_nodes [of volume "[]" its] by (metis (no_types, lifting) Collect_empty_eq image_is_empty list.set(1) set_empty sup_bot_left)

lemma activeNodes_Inr:
  "activeNodes reader volume w = (w1, Inr nodes) \<longleftrightarrow>
     (\<exists>its. list_ZfsShareAttachRequest reader w = (w1, Inr its) \<and> nodes = sort (collect_nodes volume [] its))"
  by (auto simp: activeNodes_def split: prod.splits sum.splits)

lemma oldestAttachNode_Inr:
  "oldestAttachNode r volume w = (w1, Inr node) \<longleftrightarrow>
     (\<exists>its it. list_ZfsShareAttachRequest (ar_gateReader r) w = (w1, Inr its) \<and>
        oldest_request volume its = Some it \<and> node = zars_NodeName (zar_Spec it))"
  by (auto simp: oldestAttachNode_def split: prod.splits sum.splits option.splits)

subsection \<open>What is written\<close>

text \<open>
  A share as the reconciler writes it: for NFS a list of clients that is not empty, for NVMe-oF exactly
  one host, the one derived from one node and the volume; never both.
\<close>

definition share_ok :: "(string \<Rightarrow> string) \<Rightarrow> string \<Rightarrow> ZfsShareSpec \<Rightarrow> bool" where
  "share_ok uuid5 volume sp \<longleftrightarrow>
     (zshs_Protocol sp = ProtocolNFS \<and> zshs_NVMeoF sp = None \<and>
        (\<exists>cs. zshs_NFS sp = Some \<lparr>nfs_Clients = cs\<rparr> \<and> cs \<noteq> [] \<and> (\<forall>c \<in> set cs. nc_Client c \<noteq> '''')))
     \<or> (zshs_Protocol sp = ProtocolNVMeoF \<and> zshs_NFS sp = None \<and>
        (\<exists>nv node. zshs_NVMeoF sp = Some nv \<and> nvme_AllowedHosts nv = [fst (HostIdentity uuid5 node volume)]))"

lemma resolve_clients_ok: "resolve_clients r ns w = (w1, Inr cs) \<Longrightarrow> length cs = length ns \<and> (\<forall>c \<in> set cs. nc_Client c \<noteq> '''')"
proof (induction ns arbitrary: w w1 cs)
  case (Cons n ns)
  obtain w2 x where n: "nodeInternalIP r n w = (w2, x)" by fastforce
  obtain w3 y where t: "resolve_clients r ns w2 = (w3, y)" by fastforce
  have "x = Inr ip \<Longrightarrow> ip \<noteq> ''''" for ip
    using n by (auto simp: nodeInternalIP_def find_Some_iff split: prod.splits sum.splits option.splits)
  then show ?case using Cons n t by (auto split: sum.splits)
qed simp

lemma nfsClients_ok: "nfsClientsForNodes r ns w = (w1, Inr cs) \<Longrightarrow> cs \<noteq> [] \<and> (\<forall>c \<in> set cs. nc_Client c \<noteq> '''')"
  by (auto simp: nfsClientsForNodes_def split: prod.splits sum.splits if_splits dest: resolve_clients_ok)

lemma nvmeExportSpec_hosts:
  "nvmeExportSpec r volume [node] w = (w1, Inr spec) \<Longrightarrow> nvme_AllowedHosts spec = [fst (HostIdentity (ar_UUID5 r) node volume)]"
  by (auto simp: nvmeExportSpec_def Let_def split: prod.splits sum.splits if_splits)

text \<open>
  A frame for the reconciler: reads, secrets and the requests' own status keep it, and so does writing
  a share, provided the share is one the reconciler may write.
\<close>

locale ar_frame = frame R for R :: "'w \<Rightarrow> 'w \<Rightarrow> bool" +
  fixes r :: "'w ZfsShareAttachRequestReconciler"
  assumes ar_reads: "keeps R (list_ZfsShareAttachRequest (ar_Client r))" "keeps R (list_ZfsShareAttachRequest (ar_gateReader r))"
      "keeps R (get_ZfsPool (ar_gateReader r) n)" "keeps R (get_ZfsDataset (ar_Client r) n)" "keeps R (get_Node (ar_Client r) n)"
      "keeps R (get_Secret (ar_Client r) n m)" "keeps R (get_ZfsShareAttachRequest (ar_Client r) n)"
      "keeps R (get_ZfsShare (ar_Client r) n)" "keeps R (ar_Rand r k)"
    and ar_writes: "keeps R (create_Secret (ar_Client r) sec)" "keeps R (delete_Secret (ar_Client r) n m)"
      "keeps R (update_ZfsShareAttachRequest (ar_Client r) ar)" "keeps R (patch_status_ZfsShareAttachRequest (ar_Client r) ar ar')"
    and share_write: "(\<And>s. share_ok (ar_UUID5 r) volume (zsh_Spec (f s))) \<Longrightarrow> keeps R (create_or_update_ZfsShare (ar_Client r) volume f)"
begin

declare ar_reads [keeps_rules] ar_writes [keeps_rules]

lemma ar_parts [keeps_rules]:
  "keeps R (activeNodes (ar_Client r) volume)" "keeps R (activeNodes (ar_gateReader r) volume)"
  "keeps R (oldestAttachNode r volume)" "keeps R (isSingleNodeVolume r volume)" "keeps R (nodeInternalIP r n)"
  "keeps R (deleteDHChapSecret r volume)" "keeps R (gate_pool r guid)" "keeps R (ar_setStatus r ar b sn rs ms)"
  unfolding activeNodes_def [abs_def] oldestAttachNode_def [abs_def] isSingleNodeVolume_def [abs_def] nodeInternalIP_def [abs_def]
    deleteDHChapSecret_def [abs_def] gate_pool_def [abs_def] ar_setStatus_def [abs_def]
  by (intro keeps_rules)+

lemma ensureDHChapSecret_keeps [keeps_rules]: "keeps R (ensureDHChapSecret r volume)"
proof -
  have "keeps R (GenerateDHChapKey (ar_Rand r))" unfolding GenerateDHChapKey_def [abs_def] by (intro keeps_rules)
  then show ?thesis unfolding ensureDHChapSecret_def [abs_def] Let_def by (intro keeps_rules)
qed

lemma resolve_clients_keeps [keeps_rules]: "keeps R (resolve_clients r ns)"
proof (induction ns)
  case (Cons n ns)
  have "resolve_clients r (n # ns) = (\<lambda>w. case nodeInternalIP r n w of (w1, x) \<Rightarrow> case x of Inl e \<Rightarrow> (w1, Inl e)
      | Inr ip \<Rightarrow> (case resolve_clients r ns w1 of (w2, y) \<Rightarrow> case y of Inl e \<Rightarrow> (w2, Inl e)
          | Inr cs \<Rightarrow> (w2, Inr (\<lparr>nc_Client = ip, nc_Options = []\<rparr> # cs))))"
    by (rule ext) simp
  then show ?case by (simp only:) (intro keeps_rules Cons)
next
  case Nil
  have "resolve_clients r [] = (\<lambda>w. (w, Inr []))" by (rule ext) simp
  then show ?case by (simp only:) (rule keeps_return)
qed

lemma share_parts [keeps_rules]: "keeps R (nfsClientsForNodes r ns)" "keeps R (nvmeExportSpec r volume ns)"
  unfolding nfsClientsForNodes_def [abs_def] nvmeExportSpec_def [abs_def] Let_def by (intro keeps_rules)+

lemma write_share_keeps:
  assumes "share_ok (ar_UUID5 r) volume \<lparr>zshs_PoolGUID = zds_PoolGUID (zd_Spec ds), zshs_Dataset = zds_Dataset (zd_Spec ds),
    zshs_Protocol = protocol, zshs_NFS = nfs, zshs_NVMeoF = nvme\<rparr>"
  shows "R w (fst (write_share r volume ds protocol nfs nvme exported w))"
proof -
  have "share_ok (ar_UUID5 r) volume ((zsh_Spec s)\<lparr>zshs_PoolGUID := zds_PoolGUID (zd_Spec ds), zshs_Dataset := zds_Dataset (zd_Spec ds),
      zshs_Protocol := protocol, zshs_NFS := nfs, zshs_NVMeoF := nvme\<rparr>)" for s
    using assms by (simp add: share_ok_def)
  then have "keeps R (write_share r volume ds protocol nfs nvme exported)"
    unfolding write_share_def [abs_def] by (intro keeps_rules share_write) simp
  then show ?thesis by (rule keeps_fst)
qed

lemma share_nfs_for_keeps [keeps_rules]: "keeps R (share_nfs_for r volume ds exported)"
  unfolding keeps_def
proof
  fix w
  obtain w1 x where n: "nfsClientsForNodes r exported w = (w1, x)" by fastforce
  then have w1: "R w w1" using keepsD share_parts(1) by fast
  show "R w (fst (share_nfs_for r volume ds exported w))"
  proof (cases x)
    case (Inr cs)
    then have "share_ok (ar_UUID5 r) volume \<lparr>zshs_PoolGUID = zds_PoolGUID (zd_Spec ds), zshs_Dataset = zds_Dataset (zd_Spec ds),
        zshs_Protocol = ProtocolNFS, zshs_NFS = Some \<lparr>nfs_Clients = cs\<rparr>, zshs_NVMeoF = None\<rparr>"
      using nfsClients_ok [of r exported w w1 cs] n by (simp add: share_ok_def)
    from frame_trans [OF w1 write_share_keeps [OF this]] show ?thesis using n Inr by (simp add: share_nfs_for_def)
  qed (use n w1 in \<open>simp add: share_nfs_for_def\<close>)
qed

lemma share_nvme_keeps [keeps_rules]:
  "keeps R (\<lambda>w. case nvmeExportSpec r volume [node] w of (w3, x) \<Rightarrow> case x of Inl e \<Rightarrow> (w3, Inl e)
     | Inr spec \<Rightarrow> write_share r volume ds ProtocolNVMeoF None (Some spec) [node] w3)"
  unfolding keeps_def
proof
  fix w
  obtain w1 x where n: "nvmeExportSpec r volume [node] w = (w1, x)" by fastforce
  then have w1: "R w w1" using keepsD share_parts(2) by fast
  show "R w (fst (case nvmeExportSpec r volume [node] w of (w3, x) \<Rightarrow> case x of Inl e \<Rightarrow> (w3, Inl e)
     | Inr spec \<Rightarrow> write_share r volume ds ProtocolNVMeoF None (Some spec) [node] w3))"
  proof (cases x)
    case (Inr spec)
    then have "share_ok (ar_UUID5 r) volume \<lparr>zshs_PoolGUID = zds_PoolGUID (zd_Spec ds), zshs_Dataset = zds_Dataset (zd_Spec ds),
        zshs_Protocol = ProtocolNVMeoF, zshs_NFS = None, zshs_NVMeoF = Some spec\<rparr>"
      using nvmeExportSpec_hosts n by (fastforce simp: share_ok_def)
    from frame_trans [OF w1 write_share_keeps [OF this]] show ?thesis using n Inr by simp
  qed (use n w1 in simp)
qed

end

text \<open>With deletions of shares in the frame, the whole reconcile keeps it.\<close>

locale ar_frame_delete = ar_frame +
  assumes share_delete: "keeps R (delete_ZfsShare (ar_Client r) n)"
begin

declare share_delete [keeps_rules]

lemma reconcileVolume_keeps [keeps_rules]: "keeps R (reconcileVolume r volume)"
  unfolding reconcileVolume_def [abs_def] reconcile_attached_def [abs_def] reconcile_nfs_def [abs_def] reconcile_nvme_def [abs_def]
    teardown_def [abs_def] deleteShareIfPresent_def [abs_def]
  by (intro keeps_rules)

lemma Reconcile_keeps: "keeps R (ar_Reconcile r req)"
  unfolding ar_Reconcile_def [abs_def] ar_terminating_def [abs_def] ar_attached_def [abs_def] Let_def
  by (intro keeps_rules)

end

subsection \<open>What is reported\<close>

text \<open>
  \<open>CreateOrUpdate\<close> returns the stored object, whose spec is the one its function set.
\<close>

definition stores_spec :: "'w ShareClient \<Rightarrow> bool" where
  "stores_spec c \<longleftrightarrow> (\<forall>n f w w' s. create_or_update_ZfsShare c n f w = (w', Inr s) \<longrightarrow> (\<exists>s0. zsh_Spec s = zsh_Spec (f s0)))"

text \<open>The node has access under the share: by the address it was resolved to, or as the only host.\<close>

definition allows :: "'w ZfsShareAttachRequestReconciler \<Rightarrow> string \<Rightarrow> string \<Rightarrow> ZfsShareSpec \<Rightarrow> bool" where
  "allows r volume node sp \<longleftrightarrow>
     (case zshs_NFS sp of
        Some nfs \<Rightarrow> zshs_Protocol sp = ProtocolNFS \<and>
          (\<exists>w0 w1 ip. nodeInternalIP r node w0 = (w1, Inr ip) \<and> ip \<in> nc_Client ` set (nfs_Clients nfs))
      | None \<Rightarrow> zshs_Protocol sp = ProtocolNVMeoF \<and>
          (\<exists>nv. zshs_NVMeoF sp = Some nv \<and> nvme_AllowedHosts nv = [fst (HostIdentity (ar_UUID5 r) node volume)]))"

lemma resolve_clients_covers:
  "resolve_clients r ns w = (w1, Inr cs) \<Longrightarrow> n \<in> set ns \<Longrightarrow> \<exists>w0 w2 ip. nodeInternalIP r n w0 = (w2, Inr ip) \<and> ip \<in> nc_Client ` set cs"
proof (induction ns arbitrary: w w1 cs)
  case (Cons m ns)
  obtain w2 x where m: "nodeInternalIP r m w = (w2, x)" by fastforce
  obtain w3 y where t: "resolve_clients r ns w2 = (w3, y)" by fastforce
  from Cons.prems(1) m t obtain ip cs' where x: "x = Inr ip" "y = Inr cs'" "cs = \<lparr>nc_Client = ip, nc_Options = []\<rparr> # cs'"
    by (auto split: sum.splits)
  show ?case
  proof (cases "n = m")
    case True
    then show ?thesis using m x by fastforce
  next
    case False
    then show ?thesis using Cons.IH [of w2 w3 cs'] Cons.prems(2) t x by fastforce
  qed
qed simp

lemma nfsClients_cover:
  "nfsClientsForNodes r ns w = (w1, Inr cs) \<Longrightarrow> n \<in> set ns \<Longrightarrow> \<exists>w0 w2 ip. nodeInternalIP r n w0 = (w2, Inr ip) \<and> ip \<in> nc_Client ` set cs"
  by (auto simp: nfsClientsForNodes_def split: prod.splits sum.splits if_splits dest: resolve_clients_covers)

definition vol_sound :: "'w ZfsShareAttachRequestReconciler \<Rightarrow> string \<Rightarrow> vol_result \<Rightarrow> bool" where
  "vol_sound r volume res =
     (case res of (share, exported, localOnly) \<Rightarrow>
        (case share of
           Some s \<Rightarrow> \<not> localOnly \<and> (\<forall>node \<in> set exported. allows r volume node (zsh_Spec s))
         | None \<Rightarrow> if localOnly then (\<exists>node w0 w1 n p. exported = [node] \<and> get_ZfsPool (ar_gateReader r) n w0 = (w1, Inr p) \<and> serves_pool p node)
                   else exported = []))"

lemma write_share_result:
  assumes "stores_spec (ar_Client r)" "write_share r volume ds protocol nfs nvme exported w = (w1, Inr res)"
  shows "\<exists>s. res = (Some s, exported, False) \<and> zshs_Protocol (zsh_Spec s) = protocol \<and> zshs_NFS (zsh_Spec s) = nfs \<and> zshs_NVMeoF (zsh_Spec s) = nvme"
proof -
  let ?f = "\<lambda>s :: ZfsShare. s\<lparr>zsh_Spec := (zsh_Spec s)\<lparr>zshs_PoolGUID := zds_PoolGUID (zd_Spec ds), zshs_Dataset := zds_Dataset (zd_Spec ds),
                zshs_Protocol := protocol, zshs_NFS := nfs, zshs_NVMeoF := nvme\<rparr>\<rparr>"
  obtain w2 x where c: "create_or_update_ZfsShare (ar_Client r) volume ?f w = (w2, x)" by fastforce
  then obtain s where x: "x = Inr s" "res = (Some s, exported, False)" using assms(2) by (auto simp: write_share_def split: sum.splits)
  have law: "create_or_update_ZfsShare (ar_Client r) n f w = (w', Inr s) \<Longrightarrow> \<exists>s0. zsh_Spec s = zsh_Spec (f s0)" for n f w w' s
    using assms(1) unfolding stores_spec_def by blast
  from law [OF c [unfolded x(1)]] obtain s0 where "zsh_Spec s = zsh_Spec (?f s0)" by blast
  then show ?thesis using x by auto
qed

lemma share_nfs_for_sound:
  assumes "stores_spec (ar_Client r)" "share_nfs_for r volume ds exported w = (w1, Inr res)"
  shows "vol_sound r volume res \<and> (\<forall>s. fst res = Some s \<longrightarrow> zshs_Protocol (zsh_Spec s) = ProtocolNFS)"
proof -
  obtain w2 x where n: "nfsClientsForNodes r exported w = (w2, x)" by fastforce
  then obtain cs where x: "x = Inr cs" "write_share r volume ds ProtocolNFS (Some \<lparr>nfs_Clients = cs\<rparr>) None exported w2 = (w1, Inr res)"
    using assms(2) by (auto simp: share_nfs_for_def split: sum.splits)
  from write_share_result [OF assms(1) x(2)] show ?thesis
    using nfsClients_cover n x(1) by (fastforce simp: vol_sound_def allows_def)
qed

lemma gate_pool_Inr:
  "gate_pool r guid w = (w1, Inr p) \<Longrightarrow> get_ZfsPool (ar_gateReader r) (ResourceName guid) w = (w1, Inr p)"
  by (auto simp: gate_pool_def split: prod.splits sum.splits)

lemma reconcile_nfs_sound:
  assumes "stores_spec (ar_Client r)" "reconcile_nfs r volume ds nodes w = (w1, Inr res)"
  shows "vol_sound r volume res \<and> (\<forall>s. fst res = Some s \<longrightarrow> zshs_Protocol (zsh_Spec s) = ProtocolNFS)"
proof -
  obtain w2 x where p: "gate_pool r (zds_PoolGUID (zd_Spec ds)) w = (w2, x)" by fastforce
  then obtain pool where x: "x = Inr pool" using assms(2) by (auto simp: reconcile_nfs_def split: sum.splits)
  obtain w3 single where i: "isSingleNodeVolume r volume w2 = (w3, single)" by fastforce
  obtain w4 y where o: "oldestAttachNode r volume w3 = (w4, y)" by fastforce
  show ?thesis
  proof (cases single)
    case False
    then have "share_nfs_for r volume ds nodes w3 = (w1, Inr res)" using assms(2) p x i by (simp add: reconcile_nfs_def)
    from share_nfs_for_sound [OF assms(1) this] show ?thesis .
  next
    case True
    then obtain node where y: "y = Inr node" using assms(2) p x i o by (auto simp: reconcile_nfs_def split: sum.splits)
    show ?thesis
    proof (cases "serves_pool pool node")
      case True
      then have "res = (None, [node], True)" using assms(2) p x i o y \<open>single\<close>
        by (auto simp: reconcile_nfs_def split: prod.splits option.splits)
      then show ?thesis using True gate_pool_Inr p x by (fastforce simp: vol_sound_def)
    next
      case False
      then have "share_nfs_for r volume ds [node] w4 = (w1, Inr res)" using assms(2) p x i o y \<open>single\<close> by (simp add: reconcile_nfs_def)
      from share_nfs_for_sound [OF assms(1) this] show ?thesis .
    qed
  qed
qed

text \<open>A zvol is exported to the node of the oldest request and to no other.\<close>

lemma reconcile_nvme_sound:
  assumes "stores_spec (ar_Client r)" "reconcile_nvme r volume ds w = (w1, Inr res)"
  shows "vol_sound r volume res \<and> (\<exists>w2 node. oldestAttachNode r volume w = (w2, Inr node) \<and> fst (snd res) = [node])"
proof -
  obtain w2 y where o: "oldestAttachNode r volume w = (w2, y)" by fastforce
  then obtain node where y: "y = Inr node" using assms(2) by (auto simp: reconcile_nvme_def split: sum.splits)
  obtain w3 x where p: "gate_pool r (zds_PoolGUID (zd_Spec ds)) w2 = (w3, x)" by fastforce
  then obtain pool where x: "x = Inr pool" using assms(2) o y by (auto simp: reconcile_nvme_def split: sum.splits)
  show ?thesis
  proof (cases "serves_pool pool node")
    case True
    then have "res = (None, [node], True)" using assms(2) p x o y
      by (auto simp: reconcile_nvme_def split: prod.splits option.splits)
    then show ?thesis using True gate_pool_Inr p x o y by (fastforce simp: vol_sound_def)
  next
    case False
    obtain w4 z where n: "nvmeExportSpec r volume [node] w3 = (w4, z)" by fastforce
    then obtain spec where z: "z = Inr spec" "write_share r volume ds ProtocolNVMeoF None (Some spec) [node] w4 = (w1, Inr res)"
      using assms(2) False p x o y by (auto simp: reconcile_nvme_def split: sum.splits)
    from write_share_result [OF assms(1) z(2)] show ?thesis
      using nvmeExportSpec_hosts n z(1) o y by (fastforce simp: vol_sound_def allows_def)
  qed
qed

lemma reconcile_attached_cases:
  assumes "reconcile_attached r volume nodes w = (w1, Inr res)"
  shows "\<exists>w2 ds. get_ZfsDataset (ar_Client r) volume w = (w2, Inr ds) \<and>
    (zds_Type (zd_Spec ds) = DatasetTypeFilesystem \<and> reconcile_nfs r volume ds nodes w2 = (w1, Inr res)
     \<or> zds_Type (zd_Spec ds) = DatasetTypeVolume \<and> reconcile_nvme r volume ds w2 = (w1, Inr res))"
  using assms by (auto simp: reconcile_attached_def protocolForDatasetType_def split: prod.splits sum.splits if_splits)

lemma reconcileVolume_cases:
  assumes "reconcileVolume r volume w = (w1, Inr res)"
  shows "(\<exists>w2. teardown r volume w2 = (w1, Inr res)) \<or> (\<exists>w2 nodes. nodes \<noteq> [] \<and> reconcile_attached r volume nodes w2 = (w1, Inr res))"
  using assms by (auto simp: reconcileVolume_def split: prod.splits sum.splits if_splits)

lemma teardown_result: "teardown r volume w = (w1, Inr res) \<Longrightarrow> res = (None, [], False)"
  by (auto simp: teardown_def split: prod.splits option.splits)

lemma reconcileVolume_sound:
  assumes "stores_spec (ar_Client r)" "reconcileVolume r volume w = (w1, Inr res)"
  shows "vol_sound r volume res"
  using reconcileVolume_cases [OF assms(2)]
proof (elim disjE exE conjE)
  fix w2 assume "teardown r volume w2 = (w1, Inr res)"
  then show ?thesis by (auto simp: vol_sound_def dest: teardown_result)
next
  fix w2 nodes assume "reconcile_attached r volume nodes w2 = (w1, Inr res)"
  then show ?thesis using reconcile_attached_cases reconcile_nfs_sound reconcile_nvme_sound assms(1) by metis
qed

lemma reconcileVolume_nvme:
  assumes "stores_spec (ar_Client r)" "reconcileVolume r volume w = (w', Inr (Some s, exported, localOnly))"
    "zshs_Protocol (zsh_Spec s) = ProtocolNVMeoF"
  shows "\<exists>w1 w2 node nv. oldestAttachNode r volume w1 = (w2, Inr node) \<and> exported = [node] \<and> zshs_NFS (zsh_Spec s) = None \<and>
    zshs_NVMeoF (zsh_Spec s) = Some nv \<and> nvme_AllowedHosts nv = [fst (HostIdentity (ar_UUID5 r) node volume)]"
  using reconcileVolume_cases [OF assms(2)]
proof (elim disjE exE conjE)
  fix w2 assume "teardown r volume w2 = (w', Inr (Some s, exported, localOnly))"
  then show ?thesis using teardown_result by fastforce
next
  fix w2 nodes assume "reconcile_attached r volume nodes w2 = (w', Inr (Some s, exported, localOnly))"
  from reconcile_attached_cases [OF this] obtain w3 ds where
    "reconcile_nfs r volume ds nodes w3 = (w', Inr (Some s, exported, localOnly))
     \<or> reconcile_nvme r volume ds w3 = (w', Inr (Some s, exported, localOnly))" by blast
  then have "reconcile_nvme r volume ds w3 = (w', Inr (Some s, exported, localOnly))"
  proof
    assume "reconcile_nfs r volume ds nodes w3 = (w', Inr (Some s, exported, localOnly))"
    from reconcile_nfs_sound [OF assms(1) this] show ?thesis using assms(3) by simp
  qed
  from reconcile_nvme_sound [OF assms(1) this] obtain w4 node where
    o: "oldestAttachNode r volume w3 = (w4, Inr node)" "exported = [node]" and "allows r volume node (zsh_Spec s)"
    by (auto simp: vol_sound_def)
  then show ?thesis using assms(3) by (auto simp: allows_def split: option.splits)
qed

text \<open>A pass over a request that ends without an error and asks for no further pass has reported it ready.\<close>

lemma ar_attached_settled:
  assumes "stores_spec (ar_Client r)" "ar_attached r ar w = (w', res, None)" "RequeueAfter res = 0"
  shows "\<exists>w1 share exported localOnly reason msg.
    reconcileVolume r (zars_VolumeName (zar_Spec ar)) w = (w1, Inr (share, exported, localOnly)) \<and>
    ar_setStatus r ar True (zars_VolumeName (zar_Spec ar)) reason msg w1 = (w', None) \<and>
    (case share of
       None \<Rightarrow> localOnly \<and> (\<exists>w2 w3 n p. get_ZfsPool (ar_gateReader r) n w2 = (w3, Inr p) \<and> serves_pool p (zars_NodeName (zar_Spec ar)))
     | Some s \<Rightarrow> shareReadyForGeneration (Some s) \<and> allows r (zars_VolumeName (zar_Spec ar)) (zars_NodeName (zar_Spec ar)) (zsh_Spec s))"
proof -
  let ?v = "zars_VolumeName (zar_Spec ar)" and ?n = "zars_NodeName (zar_Spec ar)"
  obtain w1 x where v: "reconcileVolume r ?v w = (w1, x)" by fastforce
  obtain share exported localOnly where x: "x = Inr (share, exported, localOnly)"
    using assms(2,3) v by (cases x) (auto simp: ar_attached_def Let_def requeue_with_def)
  define ready where "ready = (?n \<in> set exported \<and> (localOnly \<or> shareReadyForGeneration share))"
  obtain reason msg where a: "attach_reason ?v (?n \<in> set exported) localOnly ready = (reason, msg)" by fastforce
  obtain w2 e where s: "ar_setStatus r ar ready ?v reason msg w1 = (w2, e)" by fastforce
  have ready: "ready" "e = None" "w2 = w'"
    using assms(2,3) v x s a by (auto simp: ar_attached_def Let_def ready_def split: option.splits if_splits)
  have "vol_sound r ?v (share, exported, localOnly)" using reconcileVolume_sound [OF assms(1)] v x by simp
  then have "case share of
      None \<Rightarrow> localOnly \<and> (\<exists>w2 w3 n p. get_ZfsPool (ar_gateReader r) n w2 = (w3, Inr p) \<and> serves_pool p ?n)
    | Some s \<Rightarrow> shareReadyForGeneration (Some s) \<and> allows r ?v ?n (zsh_Spec s)"
    using ready(1) by (auto simp: vol_sound_def ready_def split: option.splits if_splits) blast
  moreover have "reconcileVolume r ?v w = (w1, Inr (share, exported, localOnly))" "ar_setStatus r ar True ?v reason msg w1 = (w', None)"
    using v x s ready by simp_all
  ultimately show ?thesis by blast
qed

subsection \<open>When a share goes\<close>

text \<open>
  While the API server lists an active request and its node does not serve the pool itself, no
  deletion of the share is reached, whatever the cache says.
\<close>

context ar_frame
begin

lemma no_teardown:
  assumes "\<And>w w1 its. list_ZfsShareAttachRequest (ar_gateReader r) w = (w1, Inr its) \<Longrightarrow> \<exists>it \<in> set its. active_request volume it"
    and "\<And>w w1 its it w' w2 n p. list_ZfsShareAttachRequest (ar_gateReader r) w = (w1, Inr its) \<Longrightarrow> it \<in> set its \<Longrightarrow>
      active_request volume it \<Longrightarrow> get_ZfsPool (ar_gateReader r) n w' = (w2, Inr p) \<Longrightarrow> \<not> serves_pool p (zars_NodeName (zar_Spec it))"
  shows "keeps R (reconcileVolume r volume)"
proof -
  have remote: "\<not> serves_pool p node"
    if "oldestAttachNode r volume w = (w1, Inr node)" "gate_pool r guid w' = (w2, Inr p)" for w w1 node guid w' w2 p
  proof -
    from that(1) obtain its it where its: "list_ZfsShareAttachRequest (ar_gateReader r) w = (w1, Inr its)"
      "oldest_request volume its = Some it" "node = zars_NodeName (zar_Spec it)" by (auto simp: oldestAttachNode_Inr)
    have "it \<in> set its" "active_request volume it" using first_of_oldest [of volume its] its(2) by (auto simp: first_of_def)
    then show ?thesis using assms(2) its gate_pool_Inr [OF that(2)] by blast
  qed
  have nvme: "R w (fst (reconcile_nvme r volume ds w))" for w ds
  proof -
    obtain w2 y where o: "oldestAttachNode r volume w = (w2, y)" by fastforce
    obtain w3 x where p: "gate_pool r (zds_PoolGUID (zd_Spec ds)) w2 = (w3, x)" by fastforce
    have w2: "R w w2" and w3: "R w2 w3" using o p keepsD ar_parts(3,7) by fast+
    note w3 = frame_trans [OF w2 w3]
    show ?thesis
    proof (cases y)
      case (Inr node)
      show ?thesis
      proof (cases x)
        case (Inr pool)
        have "reconcile_nvme r volume ds w = (case nvmeExportSpec r volume [node] w3 of (w3, x) \<Rightarrow> case x of Inl e \<Rightarrow> (w3, Inl e)
            | Inr spec \<Rightarrow> write_share r volume ds ProtocolNVMeoF None (Some spec) [node] w3)"
          using o p Inr \<open>y = Inr node\<close> remote by (simp add: reconcile_nvme_def)
        then show ?thesis by (simp only:) (rule frame_trans [OF w3 keeps_fst [OF share_nvme_keeps]])
      qed (use o p w3 \<open>y = Inr node\<close> in \<open>simp add: reconcile_nvme_def\<close>)
    qed (use o w2 in \<open>simp add: reconcile_nvme_def\<close>)
  qed
  have nfs: "R w (fst (reconcile_nfs r volume ds nodes w))" for w ds nodes
  proof -
    obtain w2 x where p: "gate_pool r (zds_PoolGUID (zd_Spec ds)) w = (w2, x)" by fastforce
    obtain w3 single where i: "isSingleNodeVolume r volume w2 = (w3, single)" by fastforce
    obtain w4 y where o: "oldestAttachNode r volume w3 = (w4, y)" by fastforce
    have "R w w2" "R w2 w3" "R w3 w4" using o p i keepsD ar_parts(3,4,7) by fast+
    then have rs: "R w w2" "R w w3" "R w w4" using frame_trans by blast+
    show ?thesis
    proof (cases x)
      case (Inr pool)
      have "reconcile_nfs r volume ds nodes w =
          (if single then case y of Inl e \<Rightarrow> (w4, Inl e) | Inr node \<Rightarrow> share_nfs_for r volume ds [node] w4
           else share_nfs_for r volume ds nodes w3)"
        using p i o Inr remote by (auto simp: reconcile_nfs_def split: sum.splits)
      then show ?thesis using rs frame_trans keeps_fst [OF share_nfs_for_keeps] by (auto split: sum.splits)
    qed (use p rs in \<open>simp add: reconcile_nfs_def\<close>)
  qed
  have attached: "keeps R (reconcile_attached r volume nodes)" for nodes
    unfolding reconcile_attached_def [abs_def] by (intro keeps_rules) (use nvme nfs in \<open>simp_all add: keeps_def\<close>)
  show ?thesis
    unfolding keeps_def
  proof
    fix w
    obtain w1 x where a: "activeNodes (ar_Client r) volume w = (w1, x)" by fastforce
    obtain w2 y where b: "activeNodes (ar_gateReader r) volume w1 = (w2, y)" by fastforce
    have "R w w1" "R w1 w2" using a b keepsD ar_parts(1,2) by fast+
    then have rs: "R w w1" "R w w2" using frame_trans by blast+
    have "nodes \<noteq> []" if "y = Inr nodes" for nodes
      using b that assms(1) [of w1 w2] by (auto simp: activeNodes_Inr collect_nodes_Nil)
    then show "R w (fst (reconcileVolume r volume w))"
      using a b rs frame_trans keeps_fst [OF attached] by (auto simp: reconcileVolume_def split: sum.splits)
  qed
qed

end

end
