(* ===== verification/ShareController.thy ===== *)
theory ShareController
  imports ShareTypes
begin

text \<open>
  \<open>src/internal/controller/zfsshare_controller.go\<close>: the translator from a ZfsShare, keyed on pool and
  dataset, to a NetworkExport pinned to the node that serves the pool. \<open>SetControllerReference\<close> is a
  parameter of the reconciler; it may fail, as when another owner controls the export.
\<close>

abbreviation exportReadyRequeue :: int where "exportReadyRequeue \<equiv> 5000"

record 'w ZfsShareReconciler =
  shr_Client :: "'w ShareClient"
  shr_Lib :: "'w KubeLib"
  shr_SetControllerReference :: "ObjectMeta \<Rightarrow> ObjectMeta \<Rightarrow> goerr + ObjectMeta"

definition derivePath :: "Protocol \<Rightarrow> string \<Rightarrow> string \<Rightarrow> string \<Rightarrow> goerr + string" where
  "derivePath protocol baseMountPath poolName dataset =
     (let ds = Trim CHR ''/'' dataset in
      if ds = '''' then Inl (errorf ''dataset is empty'')
      else if protocol = ProtocolNFS then
        (if baseMountPath = '''' then Inl (errorf ''pool baseMountPath is unknown'') else Inr (path_Join [baseMountPath, ds]))
      else if protocol = ProtocolNVMeoF then
        (if poolName = '''' then Inl (errorf ''pool name is unknown'') else Inr (path_Join [''/dev/zvol'', poolName, ds]))
      else Inl (errorf (''unknown protocol '' @ Quote protocol)))"

definition share_status :: "'w KubeLib \<Rightarrow> ZfsShare \<Rightarrow> ZfsSharePhase \<Rightarrow> string \<Rightarrow> string \<Rightarrow> string \<Rightarrow> string \<Rightarrow> ZfsShareStatus" where
  "share_status L share phase nodeName exportPath reason message =
     (let st = zsh_Status share; gen = om_Generation (zsh_Meta share) in
      st\<lparr>zshst_Phase := phase, zshst_NodeName := nodeName, zshst_Path := exportPath,
         zshst_ObservedGeneration := gen, zshst_Message := message,
         zshst_NetworkExportName :=
           (if phase = SharePhaseBound \<or> phase = SharePhaseExporting then om_Name (zsh_Meta share) else zshst_NetworkExportName st),
         zshst_Conditions := SetStatusCondition L (zshst_Conditions st)
           \<lparr>cond_Type = ''Bound'', cond_Status = (phase = SharePhaseBound), cond_Reason = reason,
            cond_Message = message, cond_ObservedGeneration = gen, cond_LastTransitionTime = None\<rparr>\<rparr>)"

definition shr_setStatus ::
  "'w ZfsShareReconciler \<Rightarrow> ZfsShare \<Rightarrow> ZfsSharePhase \<Rightarrow> string \<Rightarrow> string \<Rightarrow> string \<Rightarrow> string \<Rightarrow> 'w act" where
  "shr_setStatus r share phase nodeName exportPath reason message =
     patch_status_ZfsShare (shr_Client r) share
       (share\<lparr>zsh_Status := share_status (shr_Lib r) share phase nodeName exportPath reason message\<rparr>)"

definition render_export :: "'w ZfsShareReconciler \<Rightarrow> ZfsShare \<Rightarrow> string \<Rightarrow> string \<Rightarrow> NetworkExport \<Rightarrow> goerr + NetworkExport" where
  "render_export r share node exportPath export =
     (let spec = (ne_Spec export)\<lparr>nes_NodeName := node, nes_Protocol := zshs_Protocol (zsh_Spec share), nes_Path := exportPath,
                   nes_NFS := zshs_NFS (zsh_Spec share), nes_NVMeoF := zshs_NVMeoF (zsh_Spec share)\<rparr> in
      case shr_SetControllerReference r (zsh_Meta share) (ne_Meta export) of
        Inl e \<Rightarrow> Inl e
      | Inr meta \<Rightarrow> Inr (export\<lparr>ne_Spec := spec, ne_Meta := meta\<rparr>))"

definition exportReady :: "NetworkExport \<Rightarrow> bool" where
  "exportReady export \<longleftrightarrow>
     nest_Phase (ne_Status export) = PhaseExported \<and> nest_ObservedGeneration (ne_Status export) \<ge> om_Generation (ne_Meta export)"

definition shr_render :: "'w ZfsShareReconciler \<Rightarrow> ZfsShare \<Rightarrow> ZfsPool \<Rightarrow> 'w reconcile" where
  "shr_render r share pool w =
     (let st = zp_Status pool; node = zpst_CurrentNode st in
      case derivePath (zshs_Protocol (zsh_Spec share)) (zpst_BaseMountPath st) (zpst_PoolName st) (zshs_Dataset (zsh_Spec share)) of
        Inl e \<Rightarrow> done_with (shr_setStatus r share SharePhaseError node '''' ''PathDeriveFailed'' (err_text e) w)
      | Inr exportPath \<Rightarrow>
          (case create_or_update_NetworkExport (shr_Client r) (om_Name (zsh_Meta share)) (render_export r share node exportPath) w of
             (w1, Inl e) \<Rightarrow> done_with (shr_setStatus r share SharePhaseError node exportPath ''RenderFailed'' (err_text e) w1)
           | (w1, Inr export) \<Rightarrow>
               if \<not> exportReady export then
                 requeue_with exportReadyRequeue
                   (shr_setStatus r share SharePhaseExporting node exportPath ''ExportNotReady'' ''waiting for the node to apply the export'' w1)
               else
                 done_with (shr_setStatus r share SharePhaseBound node exportPath ''Bound''
                   (''exported '' @ exportPath @ '' on '' @ node) w1)))"

definition shr_Reconcile :: "'w ZfsShareReconciler \<Rightarrow> string \<Rightarrow> 'w reconcile" where
  "shr_Reconcile r req w =
     (case get_ZfsShare (shr_Client r) req w of
        (w1, Inl e) \<Rightarrow> (w1, no_requeue, IgnoreNotFound e)
      | (w1, Inr share) \<Rightarrow>
          if om_DeletionTimestamp (zsh_Meta share) \<noteq> None then (w1, no_requeue, None)
          else let poolName = ResourceName (zshs_PoolGUID (zsh_Spec share)) in
            (case get_ZfsPool (shr_Client r) poolName w1 of
               (w2, Inl e) \<Rightarrow>
                 if IsNotFound e
                 then done_with (shr_setStatus r share SharePhasePending '''' '''' ''PoolNotFound'' (''ZfsPool '' @ poolName @ '' not found'') w2)
                 else (w2, no_requeue, Some e)
             | (w2, Inr pool) \<Rightarrow>
                 if zpst_CurrentNode (zp_Status pool) = '''' \<or> zpst_Health (zp_Status pool) = PoolHealthNodeOffline
                 then done_with (shr_setStatus r share SharePhasePending (zpst_CurrentNode (zp_Status pool)) '''' ''PoolUnavailable''
                        ''pool has no reachable current node'' w2)
                 else shr_render r share pool w2))"

definition sharesForPool :: "'w ShareClient \<Rightarrow> ZfsPool \<Rightarrow> 'w \<Rightarrow> 'w \<times> string list" where
  "sharesForPool c pool w =
     (case list_ZfsShare c w of
        (w1, Inl e) \<Rightarrow> (w1, [])
      | (w1, Inr ss) \<Rightarrow>
          (w1, map (\<lambda>s. om_Name (zsh_Meta s)) (filter (\<lambda>s. zshs_PoolGUID (zsh_Spec s) = pool_guid pool) ss)))"

subsection \<open>Lemmas\<close>

text \<open>
  The API server returns the stored export, whose spec is the one the function set; a failing
  function fails the call.
\<close>

definition stores_export :: "'w ShareClient \<Rightarrow> bool" where
  "stores_export c \<longleftrightarrow> (\<forall>n f w w' x. create_or_update_NetworkExport c n f w = (w', Inr x) \<longrightarrow>
     (\<exists>x0 y. f x0 = Inr y \<and> ne_Spec x = ne_Spec y))"

lemma render_export_spec:
  "render_export r share node exportPath x = Inr y \<Longrightarrow>
     ne_Spec y = \<lparr>nes_NodeName = node, nes_Protocol = zshs_Protocol (zsh_Spec share), nes_Path = exportPath,
       nes_NFS = zshs_NFS (zsh_Spec share), nes_NVMeoF = zshs_NVMeoF (zsh_Spec share)\<rparr>"
  by (auto simp: render_export_def Let_def split: sum.splits)

text \<open>
  A pass ends with the share Bound, or it does not report it: the status it writes is Bound only after
  the API server returned the export with the spec of this share, exported in its current generation.
\<close>

lemma shr_render_cases:
  assumes "stores_export (shr_Client r)"
  shows "\<exists>w1 phase path reason msg t. shr_render r share pool w = requeue_with t (shr_setStatus r share phase (zpst_CurrentNode (zp_Status pool)) path reason msg w1) \<and>
    (phase = SharePhaseBound \<longrightarrow> t = 0 \<and> (\<exists>export. exportReady export \<and>
       create_or_update_NetworkExport (shr_Client r) (om_Name (zsh_Meta share)) (render_export r share (zpst_CurrentNode (zp_Status pool)) path) w = (w1, Inr export) \<and>
       ne_Spec export = \<lparr>nes_NodeName = zpst_CurrentNode (zp_Status pool), nes_Protocol = zshs_Protocol (zsh_Spec share), nes_Path = path,
         nes_NFS = zshs_NFS (zsh_Spec share), nes_NVMeoF = zshs_NVMeoF (zsh_Spec share)\<rparr>))"
proof (cases "derivePath (zshs_Protocol (zsh_Spec share)) (zpst_BaseMountPath (zp_Status pool)) (zpst_PoolName (zp_Status pool)) (zshs_Dataset (zsh_Spec share))")
  case (Inl e)
  then have "shr_render r share pool w = requeue_with 0 (shr_setStatus r share SharePhaseError (zpst_CurrentNode (zp_Status pool)) '''' ''PathDeriveFailed'' (err_text e) w)"
    by (simp add: shr_render_def Let_def done_with_def requeue_with_def)
  then show ?thesis by (intro exI conjI) (assumption, simp)
next
  case (Inr path)
  let ?node = "zpst_CurrentNode (zp_Status pool)"
  obtain w1 x where c: "create_or_update_NetworkExport (shr_Client r) (om_Name (zsh_Meta share)) (render_export r share ?node path) w = (w1, x)"
    by fastforce
  show ?thesis
  proof (cases x)
    case (Inl e)
    then have "shr_render r share pool w = requeue_with 0 (shr_setStatus r share SharePhaseError ?node path ''RenderFailed'' (err_text e) w1)"
      using Inr c by (simp add: shr_render_def Let_def done_with_def requeue_with_def)
    then show ?thesis by (intro exI conjI) (assumption, simp)
  next
    case x: (Inr export)
    show ?thesis
    proof (cases "exportReady export")
      case False
      then have "shr_render r share pool w = requeue_with exportReadyRequeue
          (shr_setStatus r share SharePhaseExporting ?node path ''ExportNotReady'' ''waiting for the node to apply the export'' w1)"
        using Inr c x by (simp add: shr_render_def Let_def)
      then show ?thesis by (intro exI conjI) (assumption, simp)
    next
      case True
      then have run: "shr_render r share pool w = requeue_with 0
          (shr_setStatus r share SharePhaseBound ?node path ''Bound'' (''exported '' @ path @ '' on '' @ ?node) w1)"
        using Inr c x by (simp add: shr_render_def Let_def done_with_def requeue_with_def)
      have "ne_Spec export = \<lparr>nes_NodeName = ?node, nes_Protocol = zshs_Protocol (zsh_Spec share), nes_Path = path,
          nes_NFS = zshs_NFS (zsh_Spec share), nes_NVMeoF = zshs_NVMeoF (zsh_Spec share)\<rparr>"
        using assms c x render_export_spec unfolding stores_export_def by metis
      then show ?thesis using run c x True by blast
    qed
  qed
qed

end
