(* ===== verification/HostFs.thy ===== *)
theory HostFs
  imports ZfsApi
begin

text \<open>
  The host the node agents act on, through Go's \<open>os\<close> and \<open>os/exec\<close>: an interface value whose operations
  act on a world \<open>'w\<close>. The kernel behind it (configfs reacts to a \<open>mkdir\<close> by creating attributes) is not
  part of the repository, so the interface is a parameter and what the properties need of it is
  stated as the laws of a locale. A directory entry is its name and whether it is a directory.
\<close>

type_synonym 'w Runner = "string \<Rightarrow> string list \<Rightarrow> ('w, string) query"

record 'w OS =
  os_ReadFile :: "string \<Rightarrow> ('w, string) query"
  os_WriteFile :: "string \<Rightarrow> string \<Rightarrow> 'w act"
  os_Rename :: "string \<Rightarrow> string \<Rightarrow> 'w act"
  os_Stat :: "string \<Rightarrow> ('w, bool) query"
  os_Lstat :: "string \<Rightarrow> ('w, bool) query"
  os_Mkdir :: "string \<Rightarrow> 'w act"
  os_MkdirAll :: "string \<Rightarrow> 'w act"
  os_ReadDir :: "string \<Rightarrow> ('w, (string \<times> bool) list) query"
  os_Readlink :: "string \<Rightarrow> ('w, string) query"
  os_Symlink :: "string \<Rightarrow> string \<Rightarrow> 'w act"
  os_Remove :: "string \<Rightarrow> 'w act"
  os_Command :: "string \<Rightarrow> string list \<Rightarrow> 'w \<Rightarrow> 'w \<times> string \<times> goerr option"

definition os_IsNotExist :: "goerr \<Rightarrow> bool" where
  "os_IsNotExist e \<longleftrightarrow> errors_Is e OsNotExist"

definition os_IsExist :: "goerr \<Rightarrow> bool" where
  "os_IsExist e \<longleftrightarrow> errors_Is e OsExist"

end
