(* ===== verification/NfsExports.thy ===== *)
theory NfsExports
  imports HostFs "HOL-Library.Multiset"
begin

text \<open>
  \<open>src/internal/nfsserver/exports.go\<close>: the text of \<open>/etc/exports\<close> and how it is brought to disk and into
  the kernel. \<open>sort.Slice\<close> is not stable; the exports of a node have different paths, and for those
  every sort gives the same list.
\<close>

definition DefaultOptions :: "string list" where
  "DefaultOptions = [''rw'', ''sync'', ''no_subtree_check'', ''no_root_squash'']"

record ExportClient =
  ec_Client :: string
  ec_Options :: "string list"

record Export =
  ex_Path :: string
  ex_Clients :: "ExportClient list"

definition render_client :: "ExportClient \<Rightarrow> string" where
  "render_client c =
     '' '' @ ec_Client c @ ''('' @ Join '','' (if ec_Options c = [] then DefaultOptions else ec_Options c) @ '')''"

definition render_line :: "Export \<Rightarrow> string" where
  "render_line e = ex_Path e @ concat (map render_client (ex_Clients e)) @ [CHR 10]"

definition RenderExports :: "Export list \<Rightarrow> string" where
  "RenderExports exports =
     ''# Managed by simple-zfs-csi nfs-controller. DO NOT EDIT.'' @ [CHR 10] @ concat (map render_line (sort_key ex_Path exports))"

record ExportManager =
  em_Path :: string
  em_ExportfsBin :: string

definition NewExportManager :: "string \<Rightarrow> ExportManager" where
  "NewExportManager path = \<lparr>em_Path = (if path = '''' then ''/etc/exports'' else path), em_ExportfsBin = ''exportfs''\<rparr>"

definition write_new :: "'w OS \<Rightarrow> ExportManager \<Rightarrow> string \<Rightarrow> ('w, bool) query" where
  "write_new h m content w =
     (let tmp = em_Path m @ ''.tmp'' in
      case os_WriteFile h tmp content w of
        (w1, Some e) \<Rightarrow> (w1, Inl e)
      | (w1, None) \<Rightarrow>
          (case os_Rename h tmp (em_Path m) w1 of
             (w2, Some e) \<Rightarrow> (w2, Inl e)
           | (w2, None) \<Rightarrow> (w2, Inr True)))"

definition writeIfChanged :: "'w OS \<Rightarrow> ExportManager \<Rightarrow> string \<Rightarrow> ('w, bool) query" where
  "writeIfChanged h m content w =
     (case os_ReadFile h (em_Path m) w of (w1, cur) \<Rightarrow>
        if cur = Inr content then (w1, Inr False)
        else case cur of
          Inl e \<Rightarrow> if \<not> os_IsNotExist e then (w1, Inl e) else write_new h m content w1
        | Inr _ \<Rightarrow> write_new h m content w1)"

definition em_reload :: "'w OS \<Rightarrow> ExportManager \<Rightarrow> 'w act" where
  "em_reload h m w =
     (case os_Command h (em_ExportfsBin m) [''-ra''] w of
        (w1, out, Some e) \<Rightarrow> (w1, Some (errorf (''exportfs -ra failed: '' @ err_text e @ '': '' @ TrimSpace out)))
      | (w1, out, None) \<Rightarrow> (w1, None))"

definition em_Apply :: "'w OS \<Rightarrow> ExportManager \<Rightarrow> Export list \<Rightarrow> 'w act" where
  "em_Apply h m exports w =
     (case writeIfChanged h m (RenderExports exports) w of
        (w1, Inl e) \<Rightarrow> (w1, Some e)
      | (w1, Inr changed) \<Rightarrow> if \<not> changed then (w1, None) else em_reload h m w1)"

end
