(* ===== verification/Nvmet.thy ===== *)
theory Nvmet
  imports HostFs
begin

text \<open>
  \<open>src/internal/nvmet/configfs.go\<close>: the kernel NVMe target, programmed by directories, attributes and
  links under configfs. The ranges over Go maps (the attributes of the port) are read in one order.
\<close>

abbreviation DefaultRoot :: string where "DefaultRoot \<equiv> ''/sys/kernel/config/nvmet''"

record PortConfig =
  pc_ID :: string
  pc_TrType :: string
  pc_AdrFam :: string
  pc_TrAddr :: string
  pc_TrSvcID :: string

record Subsystem =
  ss_NQN :: string
  ss_DevicePath :: string
  ss_AllowedHosts :: "string list"
  ss_DHChapKey :: string

record Target =
  tg_Root :: string
  tg_Port :: PortConfig

definition or_default :: "string \<Rightarrow> string \<Rightarrow> string" where
  "or_default s d = (if s = '''' then d else s)"

definition NewTarget :: "string \<Rightarrow> PortConfig \<Rightarrow> Target" where
  "NewTarget root port =
     \<lparr>tg_Root = or_default root DefaultRoot,
      tg_Port = \<lparr>pc_ID = or_default (pc_ID port) ''1'', pc_TrType = or_default (pc_TrType port) ''tcp'',
                 pc_AdrFam = or_default (pc_AdrFam port) ''ipv4'', pc_TrAddr = or_default (pc_TrAddr port) ''0.0.0.0'',
                 pc_TrSvcID = or_default (pc_TrSvcID port) ''4420''\<rparr>\<rparr>"

definition subsystemsDir :: "Target \<Rightarrow> string" where "subsystemsDir t = path_Join [tg_Root t, ''subsystems'']"

definition hostsDir :: "Target \<Rightarrow> string" where "hostsDir t = path_Join [tg_Root t, ''hosts'']"

definition portDir :: "Target \<Rightarrow> string" where "portDir t = path_Join [tg_Root t, ''ports'', pc_ID (tg_Port t)]"

subsection \<open>Primitives\<close>

definition ensureDir :: "'w OS \<Rightarrow> string \<Rightarrow> 'w act" where
  "ensureDir h path w =
     (case os_Stat h path w of
        (w1, Inr _) \<Rightarrow> (w1, None)
      | (w1, Inl e) \<Rightarrow>
          if \<not> os_IsNotExist e then (w1, Some e)
          else (case os_Mkdir h path w1 of
                  (w2, Some e2) \<Rightarrow> (w2, if os_IsExist e2 then None else Some e2)
                | (w2, None) \<Rightarrow> (w2, None)))"

definition make_link :: "'w OS \<Rightarrow> string \<Rightarrow> string \<Rightarrow> 'w act" where
  "make_link h target link w =
     (case os_Symlink h target link w of
        (w1, Some e) \<Rightarrow> (w1, if os_IsExist e then None else Some e)
      | (w1, None) \<Rightarrow> (w1, None))"

definition replace_link :: "'w OS \<Rightarrow> string \<Rightarrow> string \<Rightarrow> 'w act" where
  "replace_link h target link w =
     (case os_Remove h link w of
        (w1, Some e) \<Rightarrow> (w1, Some e)
      | (w1, None) \<Rightarrow> make_link h target link w1)"

definition ensureSymlink :: "'w OS \<Rightarrow> string \<Rightarrow> string \<Rightarrow> 'w act" where
  "ensureSymlink h target link w =
     (case os_Readlink h link w of
        (w1, Inr cur) \<Rightarrow> if cur = target then (w1, None) else replace_link h target link w1
      | (w1, Inl e) \<Rightarrow>
          if \<not> os_IsNotExist e then
            (case os_Lstat h link w1 of
               (w2, Inr _) \<Rightarrow> replace_link h target link w2
             | (w2, Inl _) \<Rightarrow> make_link h target link w2)
          else make_link h target link w1)"

definition removeIfExists :: "'w OS \<Rightarrow> string \<Rightarrow> 'w act" where
  "removeIfExists h path w =
     (case os_Lstat h path w of
        (w1, Inl e) \<Rightarrow> if os_IsNotExist e then (w1, None) else (w1, Some e)
      | (w1, Inr _) \<Rightarrow> os_Remove h path w1)"

definition writeAttr :: "'w OS \<Rightarrow> string \<Rightarrow> string \<Rightarrow> 'w act" where
  "writeAttr h path v = os_WriteFile h path v"

definition readAttr :: "'w OS \<Rightarrow> string \<Rightarrow> ('w, string) query" where
  "readAttr h path w =
     (case os_ReadFile h path w of
        (w1, Inl e) \<Rightarrow> (w1, Inl e)
      | (w1, Inr b) \<Rightarrow> (w1, Inr (TrimSpace b)))"

definition writeAttrIfChanged :: "'w OS \<Rightarrow> string \<Rightarrow> string \<Rightarrow> 'w act" where
  "writeAttrIfChanged h path v w =
     (case readAttr h path w of (w1, cur) \<Rightarrow> if cur = Inr v then (w1, None) else writeAttr h path v w1)"

subsection \<open>The port\<close>

definition Available :: "'w OS \<Rightarrow> Target \<Rightarrow> 'w act" where
  "Available h t w =
     (let configfsRoot = path_Dir (tg_Root t) in
      case os_Stat h configfsRoot w of
        (w1, Inl e) \<Rightarrow> (w1, Some (wrapf (''configfs not available at '' @ configfsRoot
            @ '' (is configfs mounted on the node and into the pod?): '') e))
      | (w1, Inr _) \<Rightarrow>
          (case os_Stat h (tg_Root t) w1 of
             (w2, Inl e) \<Rightarrow>
               (w2, Some (if os_IsNotExist e
                 then errorf (''nvmet configfs tree not found at '' @ tg_Root t
                        @ '': load the nvmet kernel module on the node (e.g. Talos machine.kernel.modules: nvmet and nvmet_tcp)'')
                 else wrapf (''stat nvmet root '' @ tg_Root t @ '': '') e))
           | (w2, Inr isDir) \<Rightarrow> (w2, if isDir then None else Some (errorf (tg_Root t @ '' is not a directory'')))))"

definition TransportModuleLoaded :: "'w OS \<Rightarrow> Target \<Rightarrow> 'w \<Rightarrow> 'w \<times> bool" where
  "TransportModuleLoaded h t w =
     (if pc_TrType (tg_Port t) \<noteq> ''tcp'' then (w, True)
      else case os_Stat h ''/sys/module/nvmet_tcp'' w of
        (w1, Inl e) \<Rightarrow> (w1, False)
      | (w1, Inr _) \<Rightarrow> (w1, True))"

fun set_port_attrs :: "'w OS \<Rightarrow> string \<Rightarrow> (string \<times> string) list \<Rightarrow> 'w act" where
  "set_port_attrs h dir [] w = (w, None)"
| "set_port_attrs h dir ((name, want) # attrs) w =
     (case writeAttrIfChanged h (path_Join [dir, name]) want w of
        (w1, Some e) \<Rightarrow> (w1, Some (wrapf (''set port attr '' @ name @ '': '') e))
      | (w1, None) \<Rightarrow> set_port_attrs h dir attrs w1)"

definition port_attrs :: "PortConfig \<Rightarrow> (string \<times> string) list" where
  "port_attrs p = [(''addr_adrfam'', pc_AdrFam p), (''addr_trtype'', pc_TrType p), (''addr_traddr'', pc_TrAddr p),
     (''addr_trsvcid'', pc_TrSvcID p)]"

definition EnsurePort :: "'w OS \<Rightarrow> Target \<Rightarrow> 'w act" where
  "EnsurePort h t w =
     (case os_MkdirAll h (path_Dir (portDir t)) w of
        (w1, Some e) \<Rightarrow> (w1, Some e)
      | (w1, None) \<Rightarrow>
          (case ensureDir h (portDir t) w1 of
             (w2, Some e) \<Rightarrow> (w2, Some (wrapf (''create port '' @ pc_ID (tg_Port t) @ '': '') e))
           | (w2, None) \<Rightarrow> set_port_attrs h (portDir t) (port_attrs (tg_Port t)) w2))"

subsection \<open>Subsystems\<close>

fun allow_hosts :: "'w OS \<Rightarrow> Target \<Rightarrow> string \<Rightarrow> string list \<Rightarrow> string \<Rightarrow> 'w act" where
  "allow_hosts h t allowedDir [] key w = (w, None)"
| "allow_hosts h t allowedDir (host # hosts) key w =
     (let hostDir = path_Join [hostsDir t, host] in
      case ensureDir h hostDir w of
        (w1, Some e) \<Rightarrow> (w1, Some e)
      | (w1, None) \<Rightarrow>
          (case (if key \<noteq> '''' then writeAttrIfChanged h (path_Join [hostsDir t, host, ''dhchap_key'']) key w1 else (w1, None)) of
             (w2, Some e) \<Rightarrow> (w2, Some (wrapf (''set dhchap_key for host '' @ host @ '': '') e))
           | (w2, None) \<Rightarrow>
               (case ensureSymlink h hostDir (path_Join [allowedDir, host]) w2 of
                  (w3, Some e) \<Rightarrow> (w3, Some e)
                | (w3, None) \<Rightarrow> allow_hosts h t allowedDir hosts key w3)))"

fun drop_hosts :: "'w OS \<Rightarrow> string \<Rightarrow> string list \<Rightarrow> (string \<times> bool) list \<Rightarrow> 'w act" where
  "drop_hosts h allowedDir want [] w = (w, None)"
| "drop_hosts h allowedDir want ((name, d) # es) w =
     (if name \<in> set want then drop_hosts h allowedDir want es w
      else case os_Remove h (path_Join [allowedDir, name]) w of
        (w1, Some e) \<Rightarrow> (w1, Some e)
      | (w1, None) \<Rightarrow> drop_hosts h allowedDir want es w1)"

definition reconcileAllowedHosts :: "'w OS \<Rightarrow> Target \<Rightarrow> string \<Rightarrow> string list \<Rightarrow> string \<Rightarrow> 'w act" where
  "reconcileAllowedHosts h t subDir hosts key w =
     (let allowedDir = path_Join [subDir, ''allowed_hosts''] in
      case allow_hosts h t allowedDir hosts key w of
        (w1, Some e) \<Rightarrow> (w1, Some e)
      | (w1, None) \<Rightarrow>
          (case os_ReadDir h allowedDir w1 of
             (w2, Inl e) \<Rightarrow> (w2, if os_IsNotExist e then None else Some e)
           | (w2, Inr es) \<Rightarrow> drop_hosts h allowedDir hosts es w2))"

definition set_access :: "'w OS \<Rightarrow> Target \<Rightarrow> string \<Rightarrow> Subsystem \<Rightarrow> 'w act" where
  "set_access h t subDir s w =
     (if ss_AllowedHosts s = [] then writeAttrIfChanged h (path_Join [subDir, ''attr_allow_any_host'']) ''1'' w
      else case writeAttrIfChanged h (path_Join [subDir, ''attr_allow_any_host'']) ''0'' w of
        (w1, Some e) \<Rightarrow> (w1, Some e)
      | (w1, None) \<Rightarrow> reconcileAllowedHosts h t subDir (ss_AllowedHosts s) (ss_DHChapKey s) w1)"

text \<open>A namespace is disabled before its device changes; an unreadable device counts as empty.\<close>

definition set_device :: "'w OS \<Rightarrow> string \<Rightarrow> string \<Rightarrow> 'w act" where
  "set_device h nsDir dev w =
     (let devPathFile = path_Join [nsDir, ''device_path'']; enableFile = path_Join [nsDir, ''enable''] in
      case readAttr h devPathFile w of (w1, cur) \<Rightarrow>
        if (case cur of Inl _ \<Rightarrow> '''' | Inr c \<Rightarrow> c) \<noteq> dev then
          (case writeAttrIfChanged h enableFile ''0'' w1 of
             (w2, Some e) \<Rightarrow> (w2, Some e)
           | (w2, None) \<Rightarrow>
               (case writeAttr h devPathFile dev w2 of
                  (w3, Some e) \<Rightarrow> (w3, Some (wrapf (''set device_path='' @ dev @ '': '') e))
                | (w3, None) \<Rightarrow> (w3, None)))
        else (w1, None))"

definition set_namespace :: "'w OS \<Rightarrow> string \<Rightarrow> string \<Rightarrow> 'w act" where
  "set_namespace h subDir dev w =
     (let nsDir = path_Join [subDir, ''namespaces'', ''1''] in
      case ensureDir h nsDir w of
        (w1, Some e) \<Rightarrow> (w1, Some e)
      | (w1, None) \<Rightarrow>
          (case set_device h nsDir dev w1 of
             (w2, Some e) \<Rightarrow> (w2, Some e)
           | (w2, None) \<Rightarrow>
               (case writeAttrIfChanged h (path_Join [nsDir, ''enable'']) ''1'' w2 of
                  (w3, Some e) \<Rightarrow> (w3, Some (wrapf ''enable namespace: '' e))
                | (w3, None) \<Rightarrow> (w3, None))))"

definition ensureSubsystem :: "'w OS \<Rightarrow> Target \<Rightarrow> Subsystem \<Rightarrow> 'w act" where
  "ensureSubsystem h t s w =
     (let subDir = path_Join [subsystemsDir t, ss_NQN s] in
      case ensureDir h subDir w of
        (w1, Some e) \<Rightarrow> (w1, Some e)
      | (w1, None) \<Rightarrow>
          (case set_access h t subDir s w1 of
             (w2, Some e) \<Rightarrow> (w2, Some e)
           | (w2, None) \<Rightarrow>
               (case set_namespace h subDir (ss_DevicePath s) w2 of
                  (w3, Some e) \<Rightarrow> (w3, Some e)
                | (w3, None) \<Rightarrow>
                    (case ensureSymlink h subDir (path_Join [portDir t, ''subsystems'', ss_NQN s]) w3 of
                       (w4, Some e) \<Rightarrow> (w4, Some (wrapf ''attach subsystem to port: '' e))
                     | (w4, None) \<Rightarrow> (w4, None)))))"

text \<open>Errors of these removals are ignored.\<close>

fun remove_links :: "'w OS \<Rightarrow> string \<Rightarrow> (string \<times> bool) list \<Rightarrow> 'w \<Rightarrow> 'w" where
  "remove_links h allowedDir [] w = w"
| "remove_links h allowedDir ((name, d) # es) w = remove_links h allowedDir es (fst (os_Remove h (path_Join [allowedDir, name]) w))"

definition remove_namespace :: "'w OS \<Rightarrow> string \<Rightarrow> 'w act" where
  "remove_namespace h nsDir w =
     (case os_Stat h nsDir w of
        (w1, Inl _) \<Rightarrow> (w1, None)
      | (w1, Inr _) \<Rightarrow>
          (case os_Remove h nsDir (fst (writeAttr h (path_Join [nsDir, ''enable'']) ''0'' w1)) of
             (w2, Some e) \<Rightarrow> (w2, Some (wrapf ''rmdir namespace: '' e))
           | (w2, None) \<Rightarrow> (w2, None)))"

definition removeSubsystem :: "'w OS \<Rightarrow> Target \<Rightarrow> string \<Rightarrow> 'w act" where
  "removeSubsystem h t nqn w =
     (let subDir = path_Join [subsystemsDir t, nqn]; allowedDir = path_Join [subDir, ''allowed_hosts''] in
      case removeIfExists h (path_Join [portDir t, ''subsystems'', nqn]) w of
        (w1, Some e) \<Rightarrow> (w1, Some e)
      | (w1, None) \<Rightarrow>
          (case remove_namespace h (path_Join [subDir, ''namespaces'', ''1'']) w1 of
             (w2, Some e) \<Rightarrow> (w2, Some e)
           | (w2, None) \<Rightarrow>
               (case os_ReadDir h allowedDir w2 of
                  (w3, Inl _) \<Rightarrow> removeIfExists h subDir w3
                | (w3, Inr es) \<Rightarrow> removeIfExists h subDir (remove_links h allowedDir es w3))))"

definition listSubsystems :: "'w OS \<Rightarrow> Target \<Rightarrow> ('w, string list) query" where
  "listSubsystems h t w =
     (case os_ReadDir h (subsystemsDir t) w of
        (w1, Inl e) \<Rightarrow> (w1, if os_IsNotExist e then Inr [] else Inl e)
      | (w1, Inr es) \<Rightarrow> (w1, Inr (map fst (filter snd es))))"

fun remove_undesired :: "'w OS \<Rightarrow> Target \<Rightarrow> string list \<Rightarrow> string list \<Rightarrow> 'w act" where
  "remove_undesired h t want [] w = (w, None)"
| "remove_undesired h t want (nqn # nqns) w =
     (if nqn \<in> set want then remove_undesired h t want nqns w
      else case removeSubsystem h t nqn w of
        (w1, Some e) \<Rightarrow> (w1, Some (wrapf (''remove subsystem '' @ nqn @ '': '') e))
      | (w1, None) \<Rightarrow> remove_undesired h t want nqns w1)"

fun ensure_desired :: "'w OS \<Rightarrow> Target \<Rightarrow> Subsystem list \<Rightarrow> 'w act" where
  "ensure_desired h t [] w = (w, None)"
| "ensure_desired h t (s # ss) w =
     (case ensureSubsystem h t s w of
        (w1, Some e) \<Rightarrow> (w1, Some (wrapf (''ensure subsystem '' @ ss_NQN s @ '': '') e))
      | (w1, None) \<Rightarrow> ensure_desired h t ss w1)"

text \<open>The wanted subsystems by NQN: of two with the same NQN the later one counts.\<close>

definition wanted :: "Subsystem list \<Rightarrow> (string, Subsystem) gomap" where
  "wanted desired = fold (\<lambda>s m. AList.update (ss_NQN s) s m) desired []"

definition in_order :: "(string, Subsystem) gomap \<Rightarrow> Subsystem list" where
  "in_order m = map snd (sort_key fst m)"

definition tg_Reconcile :: "'w OS \<Rightarrow> Target \<Rightarrow> Subsystem list \<Rightarrow> 'w act" where
  "tg_Reconcile h t desired w =
     (case EnsurePort h t w of
        (w1, Some e) \<Rightarrow> (w1, Some e)
      | (w1, None) \<Rightarrow>
          (let want = wanted desired in
           case listSubsystems h t w1 of
             (w2, Inl e) \<Rightarrow> (w2, Some e)
           | (w2, Inr existing) \<Rightarrow>
               (case remove_undesired h t (keys want) existing w2 of
                  (w3, Some e) \<Rightarrow> (w3, Some e)
                | (w3, None) \<Rightarrow> ensure_desired h t (in_order want) w3)))"

end
