(* ===== verification/ExportController.thy ===== *)
theory ExportController
  imports ShareTypes NfsExports Nvmet
begin

text \<open>
  \<open>src/internal/controller/nfs_controller.go\<close> and \<open>nvmeof_controller.go\<close>: the two node agents that bring
  the NetworkExports of their node into the NFS export table and into the kernel NVMe target. A
  failing status update is only logged.
\<close>

subsection \<open>NFS\<close>

record 'w NFSReconciler =
  nr_Client :: "'w ShareClient"
  nr_Lib :: "'w KubeLib"
  nr_OS :: "'w OS"
  nr_NodeName :: string
  nr_Exports :: ExportManager

definition nfs_valid :: "NetworkExport \<Rightarrow> bool" where
  "nfs_valid s \<longleftrightarrow> (case nes_NFS (ne_Spec s) of None \<Rightarrow> False | Some nfs \<Rightarrow> nfs_Clients nfs \<noteq> [])"

definition nr_markInvalid :: "'w NFSReconciler \<Rightarrow> NetworkExport \<Rightarrow> string \<Rightarrow> 'w \<Rightarrow> 'w" where
  "nr_markInvalid r s msg w = fst (updateStatus (nr_Lib r) (nr_Client r) s PhaseError ''InvalidSpec'' msg '''' w)"

definition nr_markError :: "'w NFSReconciler \<Rightarrow> NetworkExport \<Rightarrow> goerr \<Rightarrow> 'w \<Rightarrow> 'w" where
  "nr_markError r s cause w = fst (updateStatus (nr_Lib r) (nr_Client r) s PhaseError ''ExportFailed'' (err_text cause) '''' w)"

definition nr_markExported :: "'w NFSReconciler \<Rightarrow> NetworkExport \<Rightarrow> 'w \<Rightarrow> 'w" where
  "nr_markExported r s w =
     (if \<not> nfs_valid s then w
      else fst (updateStatus (nr_Lib r) (nr_Client r) s PhaseExported ''Exported'' (''exported '' @ nes_Path (ne_Spec s) @ '' over NFS'') '''' w))"

definition nfs_export :: "NetworkExport \<Rightarrow> Export" where
  "nfs_export s =
     \<lparr>ex_Path = nes_Path (ne_Spec s),
      ex_Clients = map (\<lambda>c. \<lparr>ec_Client = nc_Client c, ec_Options = nc_Options c\<rparr>)
        (case nes_NFS (ne_Spec s) of None \<Rightarrow> [] | Some nfs \<Rightarrow> nfs_Clients nfs)\<rparr>"

fun build_exports :: "'w NFSReconciler \<Rightarrow> NetworkExport list \<Rightarrow> 'w \<Rightarrow> 'w \<times> Export list" where
  "build_exports r [] w = (w, [])"
| "build_exports r (s # ss) w =
     (if \<not> nfs_valid s then build_exports r ss (nr_markInvalid r s ''missing spec.nfs.clients'' w)
      else case build_exports r ss w of (w1, es) \<Rightarrow> (w1, nfs_export s # es))"

definition renderExports :: "'w NFSReconciler \<Rightarrow> 'w act" where
  "renderExports r w =
     (case listOwnedExports (nr_Client r) (nr_NodeName r) ProtocolNFS w of
        (w1, Inl e) \<Rightarrow> (w1, Some e)
      | (w1, Inr shares) \<Rightarrow>
          (case build_exports r shares w1 of (w2, exports) \<Rightarrow> em_Apply (nr_OS r) (nr_Exports r) exports w2))"

definition nr_getRequested :: "'w NFSReconciler \<Rightarrow> string \<Rightarrow> 'w \<Rightarrow> 'w \<times> NetworkExport option" where
  "nr_getRequested r req w =
     (case get_NetworkExport (nr_Client r) req w of
        (w1, Inl e) \<Rightarrow> (w1, None)
      | (w1, Inr s) \<Rightarrow>
          (w1, if nes_NodeName (ne_Spec s) \<noteq> nr_NodeName r \<or> nes_Protocol (ne_Spec s) \<noteq> ProtocolNFS then None else Some s))"

definition nr_terminating :: "'w NFSReconciler \<Rightarrow> NetworkExport \<Rightarrow> 'w reconcile" where
  "nr_terminating r export w =
     (if ContainsFinalizer (nr_Lib r) (ne_Meta export) networkExportFinalizer then
        (case renderExports r w of
           (w1, Some e) \<Rightarrow> (w1, no_requeue, Some e)
         | (w1, None) \<Rightarrow>
             (case update_NetworkExport (nr_Client r)
                     (export\<lparr>ne_Meta := fst (RemoveFinalizer (nr_Lib r) (ne_Meta export) networkExportFinalizer)\<rparr>) w1 of
                (w2, Some e) \<Rightarrow> (w2, no_requeue, IgnoreNotFound e)
              | (w2, None) \<Rightarrow> (w2, no_requeue, None)))
      else (w, no_requeue, None))"

definition nr_Reconcile :: "'w NFSReconciler \<Rightarrow> string \<Rightarrow> 'w reconcile" where
  "nr_Reconcile r req w =
     (case nr_getRequested r req w of
        (w1, None) \<Rightarrow> (w1, no_requeue, None)
      | (w1, Some export) \<Rightarrow>
          if om_DeletionTimestamp (ne_Meta export) \<noteq> None then nr_terminating r export w1
          else if \<not> ContainsFinalizer (nr_Lib r) (ne_Meta export) networkExportFinalizer then
            done_with (update_NetworkExport (nr_Client r)
              (export\<lparr>ne_Meta := AddFinalizer (nr_Lib r) (ne_Meta export) networkExportFinalizer\<rparr>) w1)
          else
            (case renderExports r w1 of
               (w2, Some e) \<Rightarrow> (nr_markError r export e w2, no_requeue, Some e)
             | (w2, None) \<Rightarrow> (nr_markExported r export w2, no_requeue, None)))"

subsection \<open>NVMe-oF\<close>

record 'w NVMeoFReconciler =
  vr_Client :: "'w ShareClient"
  vr_Lib :: "'w KubeLib"
  vr_OS :: "'w OS"
  vr_SecretReader :: "(string \<Rightarrow> string \<Rightarrow> ('w, Secret) query) option"
  vr_NodeName :: string
  vr_Target :: Target
  vr_NQNPrefix :: string

definition effectiveNQN :: "'w NVMeoFReconciler \<Rightarrow> NetworkExport \<Rightarrow> string" where
  "effectiveNQN r s =
     (let derived = vr_NQNPrefix r @ '':'' @ nes_NodeName (ne_Spec s) @ '':'' @ om_Name (ne_Meta s) in
      case nes_NVMeoF (ne_Spec s) of
        None \<Rightarrow> derived
      | Some nv \<Rightarrow> if nvme_NQN nv \<noteq> '''' then nvme_NQN nv else derived)"

definition vr_dhchapKey :: "'w NVMeoFReconciler \<Rightarrow> string \<Rightarrow> string \<Rightarrow> string \<Rightarrow> ('w, string) query" where
  "vr_dhchapKey r namespace name dataKey w =
     (if namespace = '''' then (w, Inl (errorf (''dhchap secret '' @ Quote name @ '' has no namespace'')))
      else let reader = (case vr_SecretReader r of Some rd \<Rightarrow> rd | None \<Rightarrow> get_Secret (vr_Client r)) in
        case reader namespace name w of
          (w1, Inl e) \<Rightarrow> (w1, Inl (wrapf (''get dhchap secret '' @ namespace @ ''/'' @ name @ '': '') e))
        | (w1, Inr sec) \<Rightarrow>
            (let k = ResolveSecretKey dataKey; key = mgets (sec_Data sec) k in
             (w1, if key = '''' then Inl (errorf (''dhchap secret '' @ namespace @ ''/'' @ name @ '' missing data key '' @ Quote k))
                  else Inr key)))"

definition vr_access :: "'w NVMeoFReconciler \<Rightarrow> NetworkExport \<Rightarrow> ('w, string list \<times> string) query" where
  "vr_access r s w =
     (case nes_NVMeoF (ne_Spec s) of
        None \<Rightarrow> (w, Inr ([], ''''))
      | Some nv \<Rightarrow>
          if nvme_DHChapSecretName nv \<noteq> '''' then
            (case vr_dhchapKey r (nvme_DHChapSecretNamespace nv) (nvme_DHChapSecretName nv) (nvme_DHChapSecretKey nv) w of
               (w1, Inl e) \<Rightarrow> (w1, Inl e)
             | (w1, Inr key) \<Rightarrow> (w1, Inr (nvme_AllowedHosts nv, key)))
          else (w, Inr (nvme_AllowedHosts nv, '''')))"

fun build_subsystems :: "'w NVMeoFReconciler \<Rightarrow> NetworkExport list \<Rightarrow> ('w, Subsystem list) query" where
  "build_subsystems r [] w = (w, Inr [])"
| "build_subsystems r (s # ss) w =
     (case vr_access r s w of
        (w1, Inl e) \<Rightarrow> (w1, Inl e)
      | (w1, Inr (allowed, key)) \<Rightarrow>
          (case build_subsystems r ss w1 of
             (w2, Inl e) \<Rightarrow> (w2, Inl e)
           | (w2, Inr desired) \<Rightarrow>
               (w2, Inr (\<lparr>ss_NQN = effectiveNQN r s, ss_DevicePath = nes_Path (ne_Spec s), ss_AllowedHosts = allowed,
                          ss_DHChapKey = key\<rparr> # desired))))"

definition renderTarget :: "'w NVMeoFReconciler \<Rightarrow> ('w, props) query" where
  "renderTarget r w =
     (case listOwnedExports (vr_Client r) (vr_NodeName r) ProtocolNVMeoF w of
        (w1, Inl e) \<Rightarrow> (w1, Inl e)
      | (w1, Inr shares) \<Rightarrow>
          (case build_subsystems r shares w1 of
             (w2, Inl e) \<Rightarrow> (w2, Inl e)
           | (w2, Inr desired) \<Rightarrow>
               (case tg_Reconcile (vr_OS r) (vr_Target r) desired w2 of
                  (w3, Some e) \<Rightarrow> (w3, Inl e)
                | (w3, None) \<Rightarrow>
                    (w3, Inr (fold (\<lambda>s m. AList.update (om_Name (ne_Meta s)) (effectiveNQN r s) m) shares [])))))"

definition vr_markError :: "'w NVMeoFReconciler \<Rightarrow> NetworkExport \<Rightarrow> goerr \<Rightarrow> 'w \<Rightarrow> 'w" where
  "vr_markError r s cause w = fst (updateStatus (vr_Lib r) (vr_Client r) s PhaseError ''ExportFailed'' (err_text cause) '''' w)"

definition vr_markExported :: "'w NVMeoFReconciler \<Rightarrow> NetworkExport \<Rightarrow> props \<Rightarrow> 'w \<Rightarrow> 'w" where
  "vr_markExported r s nqnByName w =
     (let found = mgets nqnByName (om_Name (ne_Meta s)); nqn = (if found = '''' then effectiveNQN r s else found) in
      fst (updateStatus (vr_Lib r) (vr_Client r) s PhaseExported ''Exported'' (''exported '' @ nes_Path (ne_Spec s) @ '' as '' @ nqn) nqn w))"

definition vr_getRequested :: "'w NVMeoFReconciler \<Rightarrow> string \<Rightarrow> 'w \<Rightarrow> 'w \<times> NetworkExport option" where
  "vr_getRequested r req w =
     (case get_NetworkExport (vr_Client r) req w of
        (w1, Inl e) \<Rightarrow> (w1, None)
      | (w1, Inr s) \<Rightarrow>
          (w1, if nes_NodeName (ne_Spec s) \<noteq> vr_NodeName r \<or> nes_Protocol (ne_Spec s) \<noteq> ProtocolNVMeoF then None else Some s))"

definition vr_terminating :: "'w NVMeoFReconciler \<Rightarrow> NetworkExport \<Rightarrow> 'w reconcile" where
  "vr_terminating r export w =
     (if ContainsFinalizer (vr_Lib r) (ne_Meta export) networkExportFinalizer then
        (case renderTarget r w of
           (w1, Inl e) \<Rightarrow> (w1, no_requeue, Some e)
         | (w1, Inr _) \<Rightarrow>
             (case update_NetworkExport (vr_Client r)
                     (export\<lparr>ne_Meta := fst (RemoveFinalizer (vr_Lib r) (ne_Meta export) networkExportFinalizer)\<rparr>) w1 of
                (w2, Some e) \<Rightarrow> (w2, no_requeue, IgnoreNotFound e)
              | (w2, None) \<Rightarrow> (w2, no_requeue, None)))
      else (w, no_requeue, None))"

definition vr_Reconcile :: "'w NVMeoFReconciler \<Rightarrow> string \<Rightarrow> 'w reconcile" where
  "vr_Reconcile r req w =
     (case vr_getRequested r req w of
        (w1, None) \<Rightarrow> (w1, no_requeue, None)
      | (w1, Some export) \<Rightarrow>
          if om_DeletionTimestamp (ne_Meta export) \<noteq> None then vr_terminating r export w1
          else if \<not> ContainsFinalizer (vr_Lib r) (ne_Meta export) networkExportFinalizer then
            done_with (update_NetworkExport (vr_Client r)
              (export\<lparr>ne_Meta := AddFinalizer (vr_Lib r) (ne_Meta export) networkExportFinalizer\<rparr>) w1)
          else
            (case renderTarget r w1 of
               (w2, Inl e) \<Rightarrow> (vr_markError r export e w2, no_requeue, Some e)
             | (w2, Inr nqnByName) \<Rightarrow> (vr_markExported r export nqnByName w2, no_requeue, None)))"

end
