(* ===== verification/ExportSafety.thy ===== *)
theory ExportSafety
  imports ExportController Frame
begin

text \<open>
  What the NFS agent puts on disk, when it releases the finalizer of an export, and what a failed
  reload of the kernel table leads to.
\<close>

subsection \<open>The text depends on the set of exports only\<close>

lemma RenderExports_order:
  assumes "mset xs = mset ys" "distinct (map ex_Path xs)"
  shows "RenderExports xs = RenderExports ys"
proof -
  have "inj_on ex_Path (set xs)" using assms(2) by (simp add: distinct_map)
  then have "sort_key ex_Path xs = sort_key ex_Path ys"
    using assms(1) by (intro sort_key_inj_key_eq) simp_all
  then show ?thesis by (simp add: RenderExports_def)
qed

subsection \<open>Files\<close>

text \<open>
  Reading shows a file, writing and renaming set it, and running \<open>exportfs\<close>, like any call to
  Kubernetes, leaves the files of the node alone.
\<close>

locale node_files =
  fixes h :: "'w OS" and files :: "'w \<Rightarrow> string \<Rightarrow> string option"
  assumes read_file: "os_ReadFile h p w = (w1, Inr c) \<Longrightarrow> files w1 p = Some c"
    and write_file: "os_WriteFile h p c w = (w1, None) \<Longrightarrow> files w1 p = Some c"
    and rename_file: "os_Rename h p q w = (w1, None) \<Longrightarrow> files w1 q = files w p"
    and read_files: "os_ReadFile h p w = (w1, x) \<Longrightarrow> files w1 = files w"
    and command_files: "os_Command h b as w = (w1, out, e) \<Longrightarrow> files w1 = files w"
begin

lemma writeIfChanged_file:
  assumes "writeIfChanged h m content w = (w1, Inr changed)"
  shows "files w1 (em_Path m) = Some content"
proof -
  have new: "write_new h m content w = (w1, Inr b) \<Longrightarrow> files w1 (em_Path m) = Some content" for w b
    by (auto simp: write_new_def Let_def rename_file split: prod.splits option.splits dest: write_file)
  obtain w2 cur where r: "os_ReadFile h (em_Path m) w = (w2, cur)" by fastforce
  then consider "cur = Inr content" "w1 = w2" | "write_new h m content w2 = (w1, Inr changed)"
    using assms by (auto simp: writeIfChanged_def split: sum.splits if_splits)
  then show ?thesis using r new read_file by cases auto
qed

lemma Apply_file: "em_Apply h m exports w = (w1, None) \<Longrightarrow> files w1 (em_Path m) = Some (RenderExports exports)"
  by (auto simp: em_Apply_def em_reload_def split: prod.splits sum.splits if_splits option.splits
      dest!: writeIfChanged_file command_files)

end

subsection \<open>Rendering\<close>

definition live_exports :: "string \<Rightarrow> NetworkExport list \<Rightarrow> Export list" where
  "live_exports node ss =
     map nfs_export (filter (\<lambda>s. nes_NodeName (ne_Spec s) = node \<and> nes_Protocol (ne_Spec s) = ProtocolNFS
       \<and> om_DeletionTimestamp (ne_Meta s) = None \<and> nfs_valid s) ss)"

lemma build_exports_list: "snd (build_exports r ss w) = map nfs_export (filter nfs_valid ss)"
  by (induction ss arbitrary: w) (auto split: prod.splits, metis snd_conv)

lemma renderExports_file:
  assumes "node_files (nr_OS r) files" "renderExports r w = (w1, None)"
  shows "\<exists>w0 ss. list_NetworkExport (nr_Client r) w = (w0, Inr ss) \<and>
    files w1 (em_Path (nr_Exports r)) = Some (RenderExports (live_exports (nr_NodeName r) ss))"
proof -
  obtain w0 x where l: "list_NetworkExport (nr_Client r) w = (w0, x)" by fastforce
  then obtain ss where x: "x = Inr ss" using assms(2) by (auto simp: renderExports_def listOwnedExports_def split: sum.splits)
  obtain w2 es where b: "build_exports r (owned_exports (nr_NodeName r) ProtocolNFS ss) w0 = (w2, es)" by fastforce
  then have "em_Apply (nr_OS r) (nr_Exports r) es w2 = (w1, None)"
    using assms(2) l x by (simp add: renderExports_def listOwnedExports_def)
  from node_files.Apply_file [OF assms(1) this] have f: "files w1 (em_Path (nr_Exports r)) = Some (RenderExports es)" .
  have "es = live_exports (nr_NodeName r) ss"
    using build_exports_list [of r "owned_exports (nr_NodeName r) ProtocolNFS ss" w0] b
    by (auto simp: live_exports_def owned_exports_filter nodeProtocolPredicate_def intro!: arg_cong [of _ _ "map nfs_export"] filter_cong)
  then show ?thesis using f l x by blast
qed

text \<open>Nothing is withdrawn from Kubernetes before the host has let it go.\<close>

lemma nr_terminating_released:
  assumes "node_files (nr_OS r) files" "nr_terminating r export w = (w2, res, err)"
    "ContainsFinalizer (nr_Lib r) (ne_Meta export) networkExportFinalizer"
  shows "(\<exists>w1 e. renderExports r w = (w1, Some e) \<and> w2 = w1 \<and> err = Some e)
    \<or> (\<exists>w0 ss w1 e. list_NetworkExport (nr_Client r) w = (w0, Inr ss) \<and>
        files w1 (em_Path (nr_Exports r)) = Some (RenderExports (live_exports (nr_NodeName r) ss)) \<and>
        update_NetworkExport (nr_Client r)
          (export\<lparr>ne_Meta := fst (RemoveFinalizer (nr_Lib r) (ne_Meta export) networkExportFinalizer)\<rparr>) w1 = (w2, e))"
proof -
  obtain w1 x where r: "renderExports r w = (w1, x)" by fastforce
  show ?thesis
  proof (cases x)
    case None
    from renderExports_file [OF assms(1) r [unfolded this]] show ?thesis
      using assms(2,3) r None by (fastforce simp: nr_terminating_def split: prod.splits option.splits)
  qed (use assms(2,3) r in \<open>auto simp: nr_terminating_def\<close>)
qed

subsection \<open>A failed reload\<close>

text \<open>
  When the file on disk already has the wanted text, the kernel table is not loaded again. So after a
  reload that failed, the next pass finds its own text on disk and reports success.
\<close>
lemma Apply_unchanged:
  "os_ReadFile h (em_Path m) w = (w1, Inr (RenderExports exports)) \<Longrightarrow> em_Apply h m exports w = (w1, None)"
  by (simp add: em_Apply_def writeIfChanged_def)

lemma Apply_after_failed_reload:
  assumes "node_files h files" "writeIfChanged h m (RenderExports exports) w = (w1, Inr True)" "em_reload h m w1 = (w2, Some e)"
    "os_ReadFile h (em_Path m) w2 = (w3, Inr c)"
  shows "em_Apply h m exports w = (w2, Some e)" "em_Apply h m exports w2 = (w3, None)"
proof -
  note laws = node_files.writeIfChanged_file [OF assms(1)] node_files.read_file [OF assms(1)] node_files.read_files [OF assms(1)]
    node_files.command_files [OF assms(1)]
  show "em_Apply h m exports w = (w2, Some e)" using assms(2,3) by (simp add: em_Apply_def)
  have "files w1 (em_Path m) = Some (RenderExports exports)" by (rule laws(1) [OF assms(2)])
  moreover have "files w2 = files w1" using assms(3) by (auto simp: em_reload_def split: prod.splits option.splits dest: laws(4))
  ultimately have "c = RenderExports exports" using laws(2) [OF assms(4)] laws(3) [OF assms(4)] by simp
  then show "em_Apply h m exports w2 = (w3, None)" using Apply_unchanged assms(4) by simp
qed

end
