(* ===== verification/ShareStore.thy ===== *)
theory ShareStore
  imports AttachSafety ShareController ExportSafety
begin

text \<open>
  An API server and a host for the share controllers: objects by name, the generation raised by every
  change of a spec, no cache. It satisfies what the properties ask of the client, so that they apply
  to a concrete run from an attach request to the file on the node.
\<close>

record share_world =
  sw_datasets :: "(string, ZfsDataset) gomap"
  sw_pools :: "(string, ZfsPool) gomap"
  sw_shares :: "(string, ZfsShare) gomap"
  sw_requests :: "(string, ZfsShareAttachRequest) gomap"
  sw_exports :: "(string, NetworkExport) gomap"
  sw_nodes :: "(string, Node) gomap"
  sw_secrets :: "(string, Secret) gomap"
  sw_files :: "(string, string) gomap"
  sw_table :: string
  sw_exportfs_works :: bool
  sw_dirs :: "(string, (string \<times> bool) list) gomap"
  sw_devices :: "(string, string) gomap"
  sw_mounted :: "(string, string) gomap"
  sw_clock :: int

definition sw_get :: "(share_world \<Rightarrow> (string, 'o) gomap) \<Rightarrow> string \<Rightarrow> (share_world, 'o) query" where
  "sw_get sel n w = (w, case map_of (sel w) n of None \<Rightarrow> Inl (GoErr (Some StatusNotFound) ''not found'') | Some x \<Rightarrow> Inr x)"

definition sw_put ::
  "(((string, 'o) gomap \<Rightarrow> (string, 'o) gomap) \<Rightarrow> share_world \<Rightarrow> share_world) \<Rightarrow> string \<Rightarrow> 'o \<Rightarrow> share_world act" where
  "sw_put upd n x w = (upd (AList.update n x) w, None)"

definition sw_delete ::
  "(share_world \<Rightarrow> (string, 'o) gomap) \<Rightarrow> (((string, 'o) gomap \<Rightarrow> (string, 'o) gomap) \<Rightarrow> share_world \<Rightarrow> share_world) \<Rightarrow> string
     \<Rightarrow> share_world act" where
  "sw_delete sel upd n w =
     (if map_of (sel w) n = None then (w, Some (GoErr (Some StatusNotFound) ''not found'')) else (upd (AList.delete n) w, None))"

definition new_share :: "string \<Rightarrow> ZfsShare" where
  "new_share n =
     \<lparr>zsh_Meta = new_meta n,
      zsh_Spec = \<lparr>zshs_PoolGUID = '''', zshs_Dataset = '''', zshs_Protocol = '''', zshs_NFS = None, zshs_NVMeoF = None\<rparr>,
      zsh_Status = \<lparr>zshst_Phase = '''', zshst_NodeName = '''', zshst_Path = '''', zshst_NetworkExportName = '''',
        zshst_ObservedGeneration = 0, zshst_Message = '''', zshst_Conditions = []\<rparr>\<rparr>"

definition new_export :: "string \<Rightarrow> NetworkExport" where
  "new_export n =
     \<lparr>ne_Meta = new_meta n,
      ne_Spec = \<lparr>nes_NodeName = '''', nes_Protocol = '''', nes_Path = '''', nes_NFS = None, nes_NVMeoF = None\<rparr>,
      ne_Status = \<lparr>nest_Phase = '''', nest_ObservedGeneration = 0, nest_NQN = '''', nest_Message = '''', nest_Conditions = []\<rparr>\<rparr>"

definition next_generation :: "ObjectMeta \<Rightarrow> ObjectMeta" where
  "next_generation m = m\<lparr>om_Generation := om_Generation m + 1\<rparr>"

definition sw_upsert_share :: "string \<Rightarrow> (ZfsShare \<Rightarrow> ZfsShare) \<Rightarrow> (share_world, ZfsShare) query" where
  "sw_upsert_share n f w =
     (let old = (case map_of (sw_shares w) n of None \<Rightarrow> new_share n | Some s \<Rightarrow> s); new = f old in
      if zsh_Spec new = zsh_Spec old then (w, Inr new)
      else let stored = new\<lparr>zsh_Meta := next_generation (zsh_Meta new)\<rparr> in
        (w\<lparr>sw_shares := AList.update n stored (sw_shares w)\<rparr>, Inr stored))"

definition sw_upsert_export :: "string \<Rightarrow> (NetworkExport \<Rightarrow> goerr + NetworkExport) \<Rightarrow> (share_world, NetworkExport) query" where
  "sw_upsert_export n f w =
     (let old = (case map_of (sw_exports w) n of None \<Rightarrow> new_export n | Some s \<Rightarrow> s) in
      case f old of
        Inl e \<Rightarrow> (w, Inl e)
      | Inr new \<Rightarrow>
          if ne_Spec new = ne_Spec old then (w, Inr new)
          else let stored = new\<lparr>ne_Meta := next_generation (ne_Meta new)\<rparr> in
            (w\<lparr>sw_exports := AList.update n stored (sw_exports w)\<rparr>, Inr stored))"

abbreviation sw_none :: "share_world \<Rightarrow> share_world \<times> (goerr + 'a)" where
  "sw_none w \<equiv> (w, Inl (errorf ''not served''))"

abbreviation sw_none_act :: "share_world act" where
  "sw_none_act w \<equiv> (w, Some (errorf ''not served''))"

definition share_client :: "share_world ShareClient" where
  "share_client =
     \<lparr>get_ZfsDataset = sw_get sw_datasets, get_ZfsSnapshot = (\<lambda>n w. sw_none w), get_ZfsGroupSnapshot = (\<lambda>n w. sw_none w),
      get_ZfsPool = sw_get sw_pools, get_ZfsShare = sw_get sw_shares,
      list_ZfsDataset = (\<lambda>w. (w, Inr (map snd (sw_datasets w)))), list_ZfsSnapshot = (\<lambda>w. sw_none w),
      list_ZfsGroupSnapshot = (\<lambda>w. sw_none w), list_ZfsPool = (\<lambda>w. (w, Inr (map snd (sw_pools w)))),
      list_NetworkExport = (\<lambda>w. (w, Inr (map snd (sw_exports w)))),
      list_ZfsShareAttachRequest = (\<lambda>w. (w, Inr (map snd (sw_requests w)))),
      update_ZfsDataset = (\<lambda>x. sw_none_act), patch_status_ZfsDataset = (\<lambda>x y. sw_put sw_datasets_update (om_Name (zd_Meta y)) y),
      update_ZfsSnapshot = (\<lambda>x. sw_none_act), patch_status_ZfsSnapshot = (\<lambda>x y. sw_none_act),
      create_ZfsSnapshot = (\<lambda>x. sw_none_act), delete_ZfsSnapshot = (\<lambda>x. sw_none_act),
      update_ZfsGroupSnapshot = (\<lambda>x. sw_none_act), patch_status_ZfsGroupSnapshot = (\<lambda>x y. sw_none_act),
      create_ZfsDataset = (\<lambda>x. sw_none_act), delete_ZfsDataset = (\<lambda>n. sw_none_act), replace_ZfsDataset = (\<lambda>x w. sw_none w),
      delete_ZfsShare = sw_delete sw_shares sw_shares_update,
      get_ZfsShareAttachRequest = sw_get sw_requests,
      create_ZfsShareAttachRequest = (\<lambda>x. sw_put sw_requests_update (om_Name (zar_Meta x)) x),
      delete_ZfsShareAttachRequest = sw_delete sw_requests sw_requests_update,
      create_ZfsGroupSnapshot = (\<lambda>x. sw_none_act), delete_ZfsGroupSnapshot = (\<lambda>n. sw_none_act),
      get_ConfigMap = (\<lambda>ns n w. sw_none w), get_PersistentVolumeClaim = (\<lambda>ns n w. sw_none w),
      update_ZfsShareAttachRequest = (\<lambda>x. sw_put sw_requests_update (om_Name (zar_Meta x)) x),
      patch_status_ZfsShareAttachRequest = (\<lambda>x y. sw_put sw_requests_update (om_Name (zar_Meta y)) y),
      list_ZfsShare = (\<lambda>w. (w, Inr (map snd (sw_shares w)))),
      patch_status_ZfsShare = (\<lambda>x y. sw_put sw_shares_update (om_Name (zsh_Meta y)) y),
      create_or_update_ZfsShare = sw_upsert_share,
      get_NetworkExport = sw_get sw_exports,
      update_NetworkExport = (\<lambda>x. sw_put sw_exports_update (om_Name (ne_Meta x)) x),
      patch_status_NetworkExport = (\<lambda>x y. sw_put sw_exports_update (om_Name (ne_Meta y)) y),
      create_or_update_NetworkExport = sw_upsert_export,
      get_Node = sw_get sw_nodes,
      get_Secret = (\<lambda>ns n. sw_get sw_secrets n),
      create_Secret = (\<lambda>x. sw_put sw_secrets_update (sec_Name x) x),
      delete_Secret = (\<lambda>ns. sw_delete sw_secrets sw_secrets_update)\<rparr>"

text \<open>A host with plain files; \<open>exportfs -ra\<close> loads the file into the kernel's table, or fails.\<close>

definition os_missing :: goerr where
  "os_missing = GoErr (Some OsNotExist) ''no such file or directory''"

definition share_os :: "share_world OS" where
  "share_os =
     \<lparr>os_ReadFile = (\<lambda>p w. (w, case map_of (sw_files w) p of None \<Rightarrow> Inl os_missing | Some c \<Rightarrow> Inr c)),
      os_WriteFile = (\<lambda>p c w. (w\<lparr>sw_files := AList.update p c (sw_files w)\<rparr>, None)),
      os_Rename = (\<lambda>p q w. case map_of (sw_files w) p of None \<Rightarrow> (w, Some os_missing)
        | Some c \<Rightarrow> (w\<lparr>sw_files := AList.update q c (AList.delete p (sw_files w))\<rparr>, None)),
      os_Stat = (\<lambda>p w. (w, if map_of (sw_dirs w) p \<noteq> None then Inr True else if map_of (sw_files w) p \<noteq> None then Inr False else Inl os_missing)),
      os_Lstat = (\<lambda>p w. sw_none w), os_Mkdir = (\<lambda>p. sw_none_act),
      os_MkdirAll = (\<lambda>p w. (if map_of (sw_dirs w) p = None then w\<lparr>sw_dirs := AList.update p [] (sw_dirs w)\<rparr> else w, None)),
      os_ReadDir = (\<lambda>p w. (w, case map_of (sw_dirs w) p of None \<Rightarrow> Inl os_missing | Some es \<Rightarrow> Inr es)), os_Readlink = (\<lambda>p w. sw_none w), os_Symlink = (\<lambda>p q. sw_none_act), os_Remove = (\<lambda>p. sw_none_act),
      os_Command = (\<lambda>b as w. if sw_exportfs_works w
        then (w\<lparr>sw_table := (case map_of (sw_files w) ''/etc/exports'' of None \<Rightarrow> '''' | Some c \<Rightarrow> c)\<rparr>, '''', None)
        else (w, ''exportfs: cannot open'', Some (errorf ''exit status 1'')))\<rparr>"

interpretation share_files: node_files share_os "\<lambda>w. map_of (sw_files w)"
  by unfold_locales (auto simp: share_os_def split: option.splits if_splits)

definition demo_ar :: "share_world ZfsShareAttachRequestReconciler" where
  "demo_ar = \<lparr>ar_Client = share_client, ar_Lib = std_lib (\<lambda>w. 0), ar_Namespace = ''csi'', ar_DHChapEnabled = False, ar_DHChapSecretKey = '''',
     ar_APIReader = None, ar_UUID5 = (\<lambda>s. s), ar_Rand = (\<lambda>n w. (w, Inr (replicate n 0)))\<rparr>"

definition demo_shr :: "share_world ZfsShareReconciler" where
  "demo_shr = \<lparr>shr_Client = share_client, shr_Lib = std_lib (\<lambda>w. 0), shr_SetControllerReference = (\<lambda>owner m. Inr m)\<rparr>"

definition demo_nr :: "string \<Rightarrow> share_world NFSReconciler" where
  "demo_nr node = \<lparr>nr_Client = share_client, nr_Lib = std_lib (\<lambda>w. 0), nr_OS = share_os, nr_NodeName = node, nr_Exports = NewExportManager ''''\<rparr>"

lemma stores_share_client: "stores_spec share_client" "stores_export share_client"
proof -
  have "\<exists>s0. zsh_Spec s = zsh_Spec (f s0)" if "sw_upsert_share n f w = (w', Inr s)" for n f w w' and s :: ZfsShare
    using that by (auto simp: sw_upsert_share_def Let_def split: if_splits)
  then show "stores_spec share_client" by (simp add: stores_spec_def share_client_def)
  have "\<exists>x0 y. f x0 = Inr y \<and> ne_Spec x = ne_Spec y" if "sw_upsert_export n f w = (w', Inr x)" for n f w w' and x :: NetworkExport
  proof -
    define old where "old = (case map_of (sw_exports w) n of None \<Rightarrow> new_export n | Some s \<Rightarrow> s)"
    have "\<exists>y. f old = Inr y \<and> ne_Spec x = ne_Spec y"
      using that unfolding sw_upsert_export_def Let_def old_def [symmetric] by (cases "f old") (auto split: if_splits)
    then show ?thesis by blast
  qed
  then show "stores_export share_client" by (simp add: stores_export_def share_client_def)
qed

subsection \<open>Shares stay well formed\<close>

text \<open>Every share in the store is one the aggregation may write.\<close>

definition shares_ok :: "share_world \<Rightarrow> bool" where
  "shares_ok w \<longleftrightarrow> (\<forall>n s. map_of (sw_shares w) n = Some s \<longrightarrow> share_ok (\<lambda>s. s) n (zsh_Spec s))"

definition keeps_ok :: "share_world \<Rightarrow> share_world \<Rightarrow> bool" where
  "keeps_ok w w' \<longleftrightarrow> (shares_ok w \<longrightarrow> shares_ok w')"

lemma upsert_share_keeps_ok:
  assumes "\<And>s. share_ok (\<lambda>s. s) volume (zsh_Spec (f s))"
  shows "keeps keeps_ok (sw_upsert_share volume f)"
  unfolding keeps_def keeps_ok_def
proof (intro allI impI)
  fix w assume "shares_ok w"
  then show "shares_ok (fst (sw_upsert_share volume f w))"
    using assms by (simp add: sw_upsert_share_def Let_def shares_ok_def)
qed

lemma keeps_same_shares: "(\<And>w. sw_shares (fst (f w)) = sw_shares w) \<Longrightarrow> keeps keeps_ok f"
  by (simp add: keeps_def keeps_ok_def shares_ok_def)

lemma keeps_delete_share: "keeps keeps_ok (sw_delete sw_shares sw_shares_update n)"
  by (simp add: keeps_def keeps_ok_def shares_ok_def sw_delete_def)

lemmas demo_ar_defs = demo_ar_def share_client_def ar_gateReader_def Reader.truncate_def sw_get_def sw_put_def

interpretation demo_ar: ar_frame_delete keeps_ok demo_ar
proof
  show "keeps_ok w w" for w by (simp add: keeps_ok_def)
  show "keeps_ok w w1 \<Longrightarrow> keeps_ok w1 w2 \<Longrightarrow> keeps_ok w w2" for w w1 w2 by (auto simp: keeps_ok_def)
  show "keeps keeps_ok (delete_ZfsShare (ar_Client demo_ar) n)" for n
    using keeps_delete_share by (simp add: demo_ar_def share_client_def)
  show "keeps keeps_ok (create_or_update_ZfsShare (ar_Client demo_ar) volume f)"
    if "\<And>s. share_ok (ar_UUID5 demo_ar) volume (zsh_Spec (f s))" for volume f
    using that upsert_share_keeps_ok by (simp add: demo_ar_def share_client_def)
qed (rule keeps_same_shares, simp add: demo_ar_defs sw_delete_def)+

text \<open>A share that is there stays.\<close>

definition keeps_share :: "string \<Rightarrow> share_world \<Rightarrow> share_world \<Rightarrow> bool" where
  "keeps_share n w w' \<longleftrightarrow> (map_of (sw_shares w) n \<noteq> None \<longrightarrow> map_of (sw_shares w') n \<noteq> None)"

interpretation demo_keep: ar_frame "keeps_share n" demo_ar for n
  by unfold_locales
     (auto simp: keeps_def keeps_share_def demo_ar_def share_client_def ar_gateReader_def Reader.truncate_def sw_get_def sw_put_def
        sw_delete_def sw_upsert_share_def Let_def)

subsection \<open>A stale cache\<close>

text \<open>The client's cache has not seen any request yet; the API server lists them.\<close>

definition fixed_reader :: "ZfsShareAttachRequest list \<Rightarrow> ZfsPool \<Rightarrow> share_world Reader" where
  "fixed_reader its p = (Reader.truncate share_client)
     \<lparr>list_ZfsShareAttachRequest := (\<lambda>w. (w, Inr its)), get_ZfsPool := (\<lambda>n w. (w, Inr p))\<rparr>"

definition demo_stale :: "ZfsShareAttachRequest list \<Rightarrow> ZfsPool \<Rightarrow> share_world ZfsShareAttachRequestReconciler" where
  "demo_stale its p = demo_ar\<lparr>ar_Client := share_client\<lparr>list_ZfsShareAttachRequest := (\<lambda>w. (w, Inr []))\<rparr>,
     ar_APIReader := Some (fixed_reader its p)\<rparr>"

interpretation demo_stale: ar_frame "keeps_share n" "demo_stale its p" for n its p
  by unfold_locales
     (auto simp: keeps_def keeps_share_def demo_stale_def fixed_reader_def demo_ar_defs sw_delete_def sw_upsert_share_def Let_def)

subsection \<open>A run\<close>

definition attach_request :: "string \<Rightarrow> string \<Rightarrow> string \<Rightarrow> Time \<Rightarrow> ZfsShareAttachRequest" where
  "attach_request n volume node t =
     \<lparr>zar_Meta = (new_meta n)\<lparr>om_CreationTimestamp := t, om_Finalizers := [zfsShareAttachRequestFinalizer]\<rparr>,
      zar_Spec = \<lparr>zars_VolumeName = volume, zars_NodeName = node, zars_SingleNode = False\<rparr>,
      zar_Status = \<lparr>zarst_Ready = False, zarst_ShareName = '''', zarst_ObservedGeneration = 0, zarst_Message = '''', zarst_Conditions = []\<rparr>\<rparr>"

definition share_dataset :: "string \<Rightarrow> DatasetType \<Rightarrow> ZfsDataset" where
  "share_dataset n ty =
     \<lparr>zd_Meta = new_meta n,
      zd_Spec = \<lparr>zds_PoolGUID = ''42'', zds_Dataset = ''k8s/'' @ n, zds_Type = ty, zds_Properties = [], zds_Filesystem = None,
        zds_Volume = None, zds_Source = None\<rparr>,
      zd_Status = \<lparr>zdst_Phase = DatasetPhaseReady, zdst_ProvisionedAt = None, zdst_CreationTime = None, zdst_Path = '''', zdst_FSType = '''',
        zdst_ObservedGeneration = 0, zdst_Message = '''', zdst_Conditions = []\<rparr>\<rparr>"

definition share_pool :: ZfsPool where
  "share_pool =
     \<lparr>zp_Meta = new_meta ''zpool-42'',
      zp_Status = \<lparr>zpst_GUID = ''42'', zpst_PoolName = ''tank'', zpst_CurrentNode = ''store'', zpst_CurrentIP = ''10.0.0.9'',
        zpst_BaseMountPath = ''/tank'', zpst_Health = PoolHealthOnline, zpst_LastUpdated = None, zpst_Message = ''''\<rparr>\<rparr>"

definition share_node :: "string \<Rightarrow> string \<Rightarrow> Node" where
  "share_node n ip = \<lparr>nd_Name = n, nd_Addresses = [\<lparr>na_Type = ''Hostname'', na_Address = n\<rparr>, \<lparr>na_Type = ''InternalIP'', na_Address = ip\<rparr>]\<rparr>"

text \<open>Two nodes ask for the file system \<open>fs\<close> and race for the zvol \<open>zv\<close>.\<close>

definition share_start :: share_world where
  "share_start =
     \<lparr>sw_datasets = [(''fs'', share_dataset ''fs'' DatasetTypeFilesystem), (''zv'', share_dataset ''zv'' DatasetTypeVolume)],
      sw_pools = [(''zpool-42'', share_pool)], sw_shares = [],
      sw_requests = [(''fs-a'', attach_request ''fs-a'' ''fs'' ''a'' 1), (''fs-b'', attach_request ''fs-b'' ''fs'' ''b'' 2),
        (''zv-b'', attach_request ''zv-b'' ''zv'' ''b'' 2), (''zv-a'', attach_request ''zv-a'' ''zv'' ''a'' 1)],
      sw_exports = [], sw_nodes = [(''a'', share_node ''a'' ''10.0.0.1''), (''b'', share_node ''b'' ''10.0.0.2'')],
      sw_secrets = [], sw_files = [], sw_table = '''', sw_exportfs_works = True,
      sw_dirs = [], sw_devices = [], sw_mounted = [], sw_clock = 0\<rparr>"

definition run_passes :: "(share_world \<Rightarrow> share_world) list \<Rightarrow> share_world \<Rightarrow> share_world" where
  "run_passes ps w = fold (\<lambda>p w. p w) ps w"

abbreviation ar_pass :: "string \<Rightarrow> share_world \<Rightarrow> share_world" where
  "ar_pass n w \<equiv> fst (ar_Reconcile demo_ar n w)"

abbreviation shr_pass :: "string \<Rightarrow> share_world \<Rightarrow> share_world" where
  "shr_pass n w \<equiv> fst (shr_Reconcile demo_shr n w)"

abbreviation nr_pass :: "string \<Rightarrow> share_world \<Rightarrow> share_world" where
  "nr_pass n w \<equiv> fst (nr_Reconcile (demo_nr ''store'') n w)"

text \<open>Request, share, export (its finalizer first), and back up to the request.\<close>

definition share_ready :: share_world where
  "share_ready = run_passes [ar_pass ''fs-a'', shr_pass ''fs'', nr_pass ''fs'', nr_pass ''fs'', shr_pass ''fs'', ar_pass ''fs-a''] share_start"

lemma share_run:
  "map_option (\<lambda>a. zarst_Ready (zar_Status a)) (map_of (sw_requests share_ready) ''fs-a'') = Some True"
  "sw_table share_ready = ''# Managed by simple-zfs-csi nfs-controller. DO NOT EDIT.'' @ [CHR 10] @
     ''/tank/k8s/fs 10.0.0.1(rw,sync,no_subtree_check,no_root_squash) 10.0.0.2(rw,sync,no_subtree_check,no_root_squash)'' @ [CHR 10]"
  by code_simp+

text \<open>The share of a mounted zvol, and a node whose \<open>exportfs\<close> fails.\<close>

definition zvol_shared :: share_world where
  "zvol_shared = run_passes [ar_pass ''zv-a''] share_start"

definition nfs_rendered :: share_world where
  "nfs_rendered = run_passes [ar_pass ''fs-a'', shr_pass ''fs'', nr_pass ''fs''] share_start"

definition nfs_terminating :: share_world where
  "nfs_terminating =
     (let w = run_passes [nr_pass ''fs''] nfs_rendered in
      w\<lparr>sw_exports := mmod ''fs'' (\<lambda>x. x\<lparr>ne_Meta := (ne_Meta x)\<lparr>om_DeletionTimestamp := Some 9\<rparr>\<rparr>) (sw_exports w)\<rparr>)"

end
