(* ===== verification/NodeServer.thy ===== *)
theory NodeServer
  imports ShareTypes HostFs
begin

text \<open>
  \<open>src/internal/csi/node.go\<close>: the CSI node service, which turns a volume id into a mount. The host
  operations are the interface \<open>NodeMounter\<close> of \<open>src/internal/csi/mount.go\<close>; the theory \<open>HostMounter\<close> holds the
  implementation. Connecting a subsystem waits for its device, so it may not return, and neither may
  the publish that calls it: such a result is an option. Logging and the constant capability messages
  are left out.
\<close>

record NVMeConnectOptions =
  nco_Transport :: string
  nco_Addr :: string
  nco_Port :: string
  nco_NQN :: string
  nco_HostNQN :: string
  nco_HostID :: string
  nco_DHChapKey :: string

record VolumeStats =
  vs_AvailableBytes :: int
  vs_TotalBytes :: int
  vs_UsedBytes :: int
  vs_AvailableInodes :: int
  vs_TotalInodes :: int
  vs_UsedInodes :: int
  vs_Block :: bool

record 'w NodeMounter =
  nm_IsMountPoint :: "string \<Rightarrow> ('w, bool) query"
  nm_MakeDir :: "string \<Rightarrow> 'w act"
  nm_MakeFile :: "string \<Rightarrow> 'w act"
  nm_RemovePath :: "string \<Rightarrow> 'w act"
  nm_MountNFS :: "string \<Rightarrow> string \<Rightarrow> string list \<Rightarrow> 'w act"
  nm_FormatAndMount :: "string \<Rightarrow> string \<Rightarrow> string \<Rightarrow> string list \<Rightarrow> ('w, string) query"
  nm_BindMountDevice :: "string \<Rightarrow> string \<Rightarrow> bool \<Rightarrow> 'w act"
  nm_BindMountDir :: "string \<Rightarrow> string \<Rightarrow> bool \<Rightarrow> 'w act"
  nm_Unmount :: "string \<Rightarrow> 'w act"
  nm_NVMeConnect :: "NVMeConnectOptions \<Rightarrow> 'w \<Rightarrow> ('w \<times> (goerr + string)) option"
  nm_NVMeDisconnect :: "string \<Rightarrow> 'w act"
  nm_NVMeDevice :: "string \<Rightarrow> ('w, string) query"
  nm_RescanNVMe :: "string \<Rightarrow> 'w act"
  nm_ResizeFS :: "string \<Rightarrow> string \<Rightarrow> 'w act"
  nm_VolumeStats :: "string \<Rightarrow> ('w, VolumeStats) query"

record 'w NodeServer =
  ns_Client :: "'w ShareClient"
  ns_Lib :: "'w KubeLib"
  ns_Mounter :: "'w NodeMounter"
  ns_UUID5 :: "string \<Rightarrow> string"
  ns_NodeID :: string
  ns_NVMeTransport :: string
  ns_NVMePort :: string

text \<open>A capability with the mount flags of its mount part.\<close>

record NodeCapability = VolumeCapability +
  cap_MountFlags :: "string list"

record NodePublishVolumeRequest =
  npv_VolumeId :: string
  npv_TargetPath :: string
  npv_VolumeCapability :: "NodeCapability option"
  npv_Readonly :: bool

datatype UsageUnit = BYTES | INODES

record VolumeUsage =
  vu_Unit :: UsageUnit
  vu_Available :: int
  vu_Total :: int
  vu_Used :: int

subsection \<open>Helpers\<close>

text \<open>A step of the host that fails with a prefix and code Internal.\<close>

definition host_step :: "string \<Rightarrow> 'w \<times> goerr option \<Rightarrow> 'w \<times> (csierr + unit)" where
  "host_step pre r = (case r of (w, Some e) \<Rightarrow> (w, Inl (Status Internal (pre @ err_text e))) | (w, None) \<Rightarrow> (w, Inr ()))"

definition mountOptions :: "string list \<Rightarrow> bool \<Rightarrow> string list" where
  "mountOptions flags readOnly = (if readOnly then flags @ [''ro''] else flags)"

definition ns_transport :: "'w NodeServer \<Rightarrow> string" where
  "ns_transport n = (if ns_NVMeTransport n \<noteq> '''' then ns_NVMeTransport n else ''tcp'')"

definition ns_port :: "'w NodeServer \<Rightarrow> string" where
  "ns_port n = (if ns_NVMePort n \<noteq> '''' then ns_NVMePort n else ''4420'')"

definition exportNQN :: "NetworkExport \<Rightarrow> string" where
  "exportNQN export =
     (if nest_NQN (ne_Status export) \<noteq> '''' then nest_NQN (ne_Status export)
      else case nes_NVMeoF (ne_Spec export) of Some nv \<Rightarrow> nvme_NQN nv | None \<Rightarrow> '''')"

definition lookupExportNQN :: "'w NodeServer \<Rightarrow> string \<Rightarrow> 'w \<Rightarrow> 'w \<times> string" where
  "lookupExportNQN n volumeID w =
     (case get_NetworkExport (ns_Client n) volumeID w of
        (w1, Inl e) \<Rightarrow> (w1, '''')
      | (w1, Inr export) \<Rightarrow> (w1, exportNQN export))"

definition ns_dhchapKey :: "'w NodeServer \<Rightarrow> NetworkExport \<Rightarrow> ('w, string) query" where
  "ns_dhchapKey n export w =
     (case nes_NVMeoF (ne_Spec export) of
        None \<Rightarrow> (w, Inr '''')
      | Some nv \<Rightarrow>
          let ns = nvme_DHChapSecretNamespace nv; name = nvme_DHChapSecretName nv in
          if name = '''' then (w, Inr '''')
          else if ns = '''' then (w, Inl (errorf (''dhchap secret '' @ Quote name @ '' has no namespace'')))
          else case get_Secret (ns_Client n) ns name w of
            (w1, Inl e) \<Rightarrow> (w1, Inl (wrapf (''get dhchap secret '' @ ns @ ''/'' @ name @ '': '') e))
          | (w1, Inr sec) \<Rightarrow>
              let dataKey = ResolveSecretKey (nvme_DHChapSecretKey nv); key = mgets (sec_Data sec) dataKey in
              (w1, if key = '''' then Inl (errorf (''dhchap secret '' @ ns @ ''/'' @ name @ '' missing data key '' @ Quote dataKey))
                   else Inr key))"

definition record_once :: "'w NodeServer \<Rightarrow> string \<Rightarrow> string \<Rightarrow> 'w act" where
  "record_once n volumeID fsType w =
     (case get_ZfsDataset (ns_Client n) volumeID w of
        (w1, Inl e) \<Rightarrow> (w1, IgnoreNotFound e)
      | (w1, Inr vol) \<Rightarrow>
          if zdst_FSType (zd_Status vol) \<noteq> '''' then (w1, None)
          else patch_status_ZfsDataset (ns_Client n) vol (vol\<lparr>zd_Status := (zd_Status vol)\<lparr>zdst_FSType := fsType\<rparr>\<rparr>) w1)"

definition recordFSType :: "'w NodeServer \<Rightarrow> string \<Rightarrow> string \<Rightarrow> 'w act" where
  "recordFSType n volumeID fsType w =
     (if fsType = '''' then (w, None) else RetryOnConflict (ns_Lib n) (record_once n volumeID fsType) w)"

text \<open>The pool GUID, the dataset, the path the agent reported and the protocol of a volume.\<close>

definition resolveVolume :: "'w NodeServer \<Rightarrow> string \<Rightarrow> ('w, string \<times> string \<times> string \<times> Protocol) cquery" where
  "resolveVolume n volumeID w =
     (case get_ZfsDataset (ns_Client n) volumeID w of
        (w1, Inl e) \<Rightarrow>
          (w1, Inl (if IsNotFound e then Status NotFound (''ZfsDataset '' @ Quote volumeID @ '' not found'')
                    else Status Internal (''get ZfsDataset '' @ Quote volumeID @ '': '' @ err_text e)))
      | (w1, Inr ds) \<Rightarrow>
          (let guid = zds_PoolGUID (zd_Spec ds); dataset = zds_Dataset (zd_Spec ds); path = zdst_Path (zd_Status ds) in
           (w1, if guid = '''' \<or> dataset = '''' then Inl (Status Internal (''ZfsDataset '' @ Quote volumeID @ '' has no poolGUID/dataset''))
                else if zdst_Phase (zd_Status ds) = DatasetPhaseLost
                  then Inl (Status FailedPrecondition (''ZfsDataset '' @ Quote volumeID @ '' is lost: '' @ zdst_Message (zd_Status ds)))
                else if zds_Type (zd_Spec ds) = DatasetTypeFilesystem then Inr (guid, dataset, path, ProtocolNFS)
                else if zds_Type (zd_Spec ds) = DatasetTypeVolume then Inr (guid, dataset, path, ProtocolNVMeoF)
                else Inl (Status Internal (''ZfsDataset '' @ Quote volumeID @ '' has unknown type '' @ Quote (zds_Type (zd_Spec ds)))))))"

definition isLocalToPool :: "string \<Rightarrow> ZfsPool \<Rightarrow> bool" where
  "isLocalToPool nodeID pool \<longleftrightarrow> nodeID \<noteq> '''' \<and> zpst_CurrentNode (zp_Status pool) = nodeID"

definition resolvePool :: "'w NodeServer \<Rightarrow> string \<Rightarrow> ('w, ZfsPool) cquery" where
  "resolvePool n poolGUID w =
     (case get_ZfsPool (ns_Client n) (ResourceName poolGUID) w of
        (w1, Inl e) \<Rightarrow>
          (w1, Inl (if IsNotFound e then Status FailedPrecondition (''ZfsPool for GUID '' @ Quote poolGUID @ '' not found'')
                    else Status Internal (''get ZfsPool '' @ Quote poolGUID @ '': '' @ err_text e)))
      | (w1, Inr pool) \<Rightarrow>
          (w1, if zpst_Health (zp_Status pool) = PoolHealthNodeOffline
               then Inl (Status FailedPrecondition (''storage node '' @ Quote (zpst_CurrentNode (zp_Status pool)) @ '' for pool ''
                      @ Quote poolGUID @ '' is offline''))
               else if zpst_CurrentIP (zp_Status pool) = '''' then Inl (Status FailedPrecondition (''pool '' @ Quote poolGUID @ '' has no current IP''))
               else Inr pool))"

subsection \<open>Publishing\<close>

definition publishNFS :: "'w NodeServer \<Rightarrow> ZfsPool \<Rightarrow> string \<Rightarrow> string \<Rightarrow> bool \<Rightarrow> string list \<Rightarrow> ('w, unit) cquery" where
  "publishNFS n pool dataset targetPath readOnly flags w =
     (if zpst_BaseMountPath (zp_Status pool) = ''''
      then (w, Inl (Status FailedPrecondition (''pool '' @ Quote (om_Name (zp_Meta pool)) @ '' has no base mount path'')))
      else let source = zpst_CurrentIP (zp_Status pool) @ '':'' @ path_Join [zpst_BaseMountPath (zp_Status pool), dataset] in
        case host_step (''create target '' @ Quote targetPath @ '': '') (nm_MakeDir (ns_Mounter n) targetPath w) of
          (w1, Inl e) \<Rightarrow> (w1, Inl e)
        | (w1, Inr _) \<Rightarrow>
            host_step (''mount nfs '' @ Quote source @ '': '') (nm_MountNFS (ns_Mounter n) source targetPath (mountOptions flags readOnly) w1))"

text \<open>A device as a raw block volume, or formatted when it is empty and mounted; a failure to record the type is only logged.\<close>

definition publish_device ::
  "'w NodeServer \<Rightarrow> string \<Rightarrow> string \<Rightarrow> string \<Rightarrow> bool \<Rightarrow> bool \<Rightarrow> string \<Rightarrow> string list \<Rightarrow> ('w, unit) cquery" where
  "publish_device n volumeID device targetPath block readOnly fsType flags w =
     (if block then
        (case host_step (''create block target '' @ Quote targetPath @ '': '') (nm_MakeFile (ns_Mounter n) targetPath w) of
           (w1, Inl e) \<Rightarrow> (w1, Inl e)
         | (w1, Inr _) \<Rightarrow>
             host_step (''bind-mount device '' @ Quote device @ '': '') (nm_BindMountDevice (ns_Mounter n) device targetPath readOnly w1))
      else
        (case host_step (''create target '' @ Quote targetPath @ '': '') (nm_MakeDir (ns_Mounter n) targetPath w) of
           (w1, Inl e) \<Rightarrow> (w1, Inl e)
         | (w1, Inr _) \<Rightarrow>
             (case nm_FormatAndMount (ns_Mounter n) device targetPath fsType (mountOptions flags readOnly) w1 of
                (w2, Inl e) \<Rightarrow> (w2, Inl (Status Internal (''format and mount '' @ Quote device @ '': '' @ err_text e)))
              | (w2, Inr effectiveFS) \<Rightarrow> (fst (recordFSType n volumeID effectiveFS w2), Inr ()))))"

definition connect_options :: "'w NodeServer \<Rightarrow> string \<Rightarrow> ZfsPool \<Rightarrow> string \<Rightarrow> string \<Rightarrow> NVMeConnectOptions" where
  "connect_options n volumeID pool nqn key =
     \<lparr>nco_Transport = ns_transport n, nco_Addr = zpst_CurrentIP (zp_Status pool), nco_Port = ns_port n, nco_NQN = nqn,
      nco_HostNQN = fst (HostIdentity (ns_UUID5 n) (ns_NodeID n) volumeID), nco_HostID = snd (HostIdentity (ns_UUID5 n) (ns_NodeID n) volumeID),
      nco_DHChapKey = key\<rparr>"

definition publishNVMeoF ::
  "'w NodeServer \<Rightarrow> string \<Rightarrow> ZfsPool \<Rightarrow> string \<Rightarrow> bool \<Rightarrow> bool \<Rightarrow> string \<Rightarrow> string list \<Rightarrow> ('w, unit) rpc" where
  "publishNVMeoF n volumeID pool targetPath block readOnly fsType flags w =
     (case get_NetworkExport (ns_Client n) volumeID w of
        (w1, Inl e) \<Rightarrow>
          Some (w1, Inl (Status FailedPrecondition (''NVMe-oF export for volume '' @ Quote volumeID @ '' is not ready: '' @ err_text e)))
      | (w1, Inr export) \<Rightarrow>
          let nqn = exportNQN export in
          if nqn = '''' then Some (w1, Inl (Status FailedPrecondition (''NVMe-oF export for volume '' @ Quote volumeID @ '' is not ready (no NQN)'')))
          else case ns_dhchapKey n export w1 of
            (w2, Inl e) \<Rightarrow>
              Some (w2, Inl (Status FailedPrecondition (''resolve DH-CHAP secret for volume '' @ Quote volumeID @ '': '' @ err_text e)))
          | (w2, Inr key) \<Rightarrow>
              (case nm_NVMeConnect (ns_Mounter n) (connect_options n volumeID pool nqn key) w2 of
                 None \<Rightarrow> None
               | Some (w3, Inl e) \<Rightarrow> Some (w3, Inl (Status Internal (''nvme connect: '' @ err_text e)))
               | Some (w3, Inr device) \<Rightarrow> Some (publish_device n volumeID device targetPath block readOnly fsType flags w3)))"

definition publishLocalZvol ::
  "'w NodeServer \<Rightarrow> string \<Rightarrow> string \<Rightarrow> string \<Rightarrow> bool \<Rightarrow> bool \<Rightarrow> string \<Rightarrow> string list \<Rightarrow> ('w, unit) cquery" where
  "publishLocalZvol n volumeID devicePath targetPath block readOnly fsType flags w =
     (if devicePath = '''' then (w, Inl (Status FailedPrecondition (''volume '' @ Quote volumeID @ '' has no local device path yet'')))
      else publish_device n volumeID devicePath targetPath block readOnly fsType flags w)"

definition publishLocalDataset :: "'w NodeServer \<Rightarrow> string \<Rightarrow> string \<Rightarrow> bool \<Rightarrow> ('w, unit) cquery" where
  "publishLocalDataset n sourcePath targetPath readOnly w =
     (if sourcePath = '''' then (w, Inl (Status FailedPrecondition ''dataset has no local mount path yet''))
      else case host_step (''create target '' @ Quote targetPath @ '': '') (nm_MakeDir (ns_Mounter n) targetPath w) of
        (w1, Inl e) \<Rightarrow> (w1, Inl e)
      | (w1, Inr _) \<Rightarrow>
          host_step (''bind-mount dataset '' @ Quote sourcePath @ '': '') (nm_BindMountDir (ns_Mounter n) sourcePath targetPath readOnly w1))"

definition is_single_node :: "NodeCapability \<Rightarrow> bool" where
  "is_single_node cap \<longleftrightarrow> cap_AccessMode cap = Some SINGLE_NODE_WRITER \<or> cap_AccessMode cap = Some SINGLE_NODE_READER_ONLY"

definition publish_by_protocol ::
  "'w NodeServer \<Rightarrow> NodePublishVolumeRequest \<Rightarrow> NodeCapability \<Rightarrow> ZfsPool \<Rightarrow> string \<Rightarrow> string \<Rightarrow> Protocol \<Rightarrow> ('w, unit) rpc" where
  "publish_by_protocol n req cap pool dataset statusPath protocol w =
     (let volumeID = npv_VolumeId req; targetPath = npv_TargetPath req; readOnly = npv_Readonly req; block = cap_Block cap;
          mountFlags = (case cap_Mount cap of None \<Rightarrow> [] | Some _ \<Rightarrow> cap_MountFlags cap);
          fsType = (case cap_Mount cap of None \<Rightarrow> '''' | Some t \<Rightarrow> t) in
      if protocol = ProtocolNFS then
        Some (if block then (w, Inl (Status InvalidArgument ''block volumeMode is not supported for nfs''))
              else if is_single_node cap \<and> isLocalToPool (ns_NodeID n) pool then publishLocalDataset n statusPath targetPath readOnly w
              else publishNFS n pool dataset targetPath readOnly mountFlags w)
      else if protocol = ProtocolNVMeoF then
        (if isLocalToPool (ns_NodeID n) pool
         then Some (publishLocalZvol n volumeID statusPath targetPath block readOnly fsType mountFlags w)
         else publishNVMeoF n volumeID pool targetPath block readOnly fsType mountFlags w)
      else Some (w, Inl (Status InvalidArgument (''unknown protocol '' @ Quote protocol))))"

definition NodePublishVolume :: "'w NodeServer \<Rightarrow> NodePublishVolumeRequest \<Rightarrow> ('w, unit) rpc" where
  "NodePublishVolume n req w =
     (if npv_VolumeId req = '''' then Some (w, Inl (Status InvalidArgument ''volume id is required''))
      else if npv_TargetPath req = '''' then Some (w, Inl (Status InvalidArgument ''target path is required''))
      else case npv_VolumeCapability req of
        None \<Rightarrow> Some (w, Inl (Status InvalidArgument ''volume capability is required''))
      | Some cap \<Rightarrow>
          then_rpc (Some (resolveVolume n (npv_VolumeId req) w)) (\<lambda>(guid, dataset, statusPath, protocol) w1.
          then_rpc (Some (resolvePool n guid w1)) (\<lambda>pool w2.
            case nm_IsMountPoint (ns_Mounter n) (npv_TargetPath req) w2 of
              (w3, Inl e) \<Rightarrow> Some (w3, Inl (Status Internal (''check mount '' @ Quote (npv_TargetPath req) @ '': '' @ err_text e)))
            | (w3, Inr mounted) \<Rightarrow>
                if mounted then Some (w3, Inr ()) else publish_by_protocol n req cap pool dataset statusPath protocol w3)))"

definition NodeUnpublishVolume :: "'w NodeServer \<Rightarrow> string \<Rightarrow> string \<Rightarrow> ('w, unit) cquery" where
  "NodeUnpublishVolume n volumeID targetPath w =
     (if volumeID = '''' then (w, Inl (Status InvalidArgument ''volume id is required''))
      else if targetPath = '''' then (w, Inl (Status InvalidArgument ''target path is required''))
      else case host_step (''unmount '' @ Quote targetPath @ '': '') (nm_Unmount (ns_Mounter n) targetPath w) of
        (w1, Inl e) \<Rightarrow> (w1, Inl e)
      | (w1, Inr _) \<Rightarrow>
          (case host_step (''remove target '' @ Quote targetPath @ '': '') (nm_RemovePath (ns_Mounter n) targetPath w1) of
             (w2, Inl e) \<Rightarrow> (w2, Inl e)
           | (w2, Inr _) \<Rightarrow>
               (case lookupExportNQN n volumeID w2 of (w3, nqn) \<Rightarrow>
                  (if nqn \<noteq> '''' then fst (nm_NVMeDisconnect (ns_Mounter n) nqn w3) else w3, Inr ()))))"

definition remote_device :: "'w NodeServer \<Rightarrow> string \<Rightarrow> ('w, string) cquery" where
  "remote_device n volumeID w =
     (case lookupExportNQN n volumeID w of (w1, nqn) \<Rightarrow>
        if nqn = '''' then (w1, Inl (Status FailedPrecondition (''NVMe-oF export for volume '' @ Quote volumeID @ '' not found'')))
        else case nm_NVMeDevice (ns_Mounter n) nqn w1 of
          (w2, Inl e) \<Rightarrow> (w2, Inl (Status Internal (''locate nvme device for '' @ Quote volumeID @ '': '' @ err_text e)))
        | (w2, Inr device) \<Rightarrow>
            if device = '''' then (w2, Inl (Status FailedPrecondition (''nvme device for volume '' @ Quote volumeID @ '' is not connected'')))
            else case nm_RescanNVMe (ns_Mounter n) nqn w2 of
              (w3, Some e) \<Rightarrow> (w3, Inl (Status Internal (''rescan nvme device '' @ Quote device @ '': '' @ err_text e)))
            | (w3, None) \<Rightarrow> (w3, Inr device))"

definition NodeExpandVolume :: "'w NodeServer \<Rightarrow> string \<Rightarrow> string \<Rightarrow> VolumeCapability option \<Rightarrow> ('w, unit) cquery" where
  "NodeExpandVolume n volumeID volumePath cap w =
     (if volumeID = '''' then (w, Inl (Status InvalidArgument ''volume id is required''))
      else if volumePath = '''' then (w, Inl (Status InvalidArgument ''volume path is required''))
      else case resolveVolume n volumeID w of
        (w1, Inl e) \<Rightarrow> (w1, Inl e)
      | (w1, Inr (guid, _, statusPath, protocol)) \<Rightarrow>
          if protocol \<noteq> ProtocolNVMeoF then (w1, Inr ())
          else case resolvePool n guid w1 of
            (w2, Inl e) \<Rightarrow> (w2, Inl e)
          | (w2, Inr pool) \<Rightarrow>
              (case (if isLocalToPool (ns_NodeID n) pool
                     then (w2, if statusPath = ''''
                               then Inl (Status FailedPrecondition (''volume '' @ Quote volumeID @ '' has no local device path yet'')) else Inr statusPath)
                     else remote_device n volumeID w2) of
                 (w3, Inl e) \<Rightarrow> (w3, Inl e)
               | (w3, Inr device) \<Rightarrow>
                   if (case cap of None \<Rightarrow> False | Some c \<Rightarrow> cap_Block c) then (w3, Inr ())
                   else host_step (''resize filesystem on '' @ Quote device @ '': '') (nm_ResizeFS (ns_Mounter n) device volumePath w3)))"

definition NodeGetVolumeStats :: "'w NodeServer \<Rightarrow> string \<Rightarrow> string \<Rightarrow> ('w, VolumeUsage list) cquery" where
  "NodeGetVolumeStats n volumeID volumePath w =
     (if volumeID = '''' then (w, Inl (Status InvalidArgument ''volume id is required''))
      else if volumePath = '''' then (w, Inl (Status InvalidArgument ''volume path is required''))
      else case nm_VolumeStats (ns_Mounter n) volumePath w of
        (w1, Inl e) \<Rightarrow>
          (w1, Inl (if os_IsNotExist e then Status NotFound (''volume path '' @ Quote volumePath @ '' does not exist'')
                    else Status Internal (''stat volume path '' @ Quote volumePath @ '': '' @ err_text e)))
      | (w1, Inr stats) \<Rightarrow>
          (w1, Inr (\<lparr>vu_Unit = BYTES, vu_Available = vs_AvailableBytes stats, vu_Total = vs_TotalBytes stats, vu_Used = vs_UsedBytes stats\<rparr>
             # (if vs_Block stats then []
                else [\<lparr>vu_Unit = INODES, vu_Available = vs_AvailableInodes stats, vu_Total = vs_TotalInodes stats, vu_Used = vs_UsedInodes stats\<rparr>]))))"

definition NodeGetInfo :: "'w NodeServer \<Rightarrow> string" where
  "NodeGetInfo n = ns_NodeID n"

end
