(* ===== verification/HostMounter.thy ===== *)
theory HostMounter
  imports NodeServer HostFs
begin

text \<open>
  \<open>src/internal/csi/mount.go\<close>: the mounter that shells out to \<open>mount\<close>, \<open>nvme\<close> and \<open>mkfs\<close> and reads
  \<open>/proc\<close> and \<open>/sys\<close>. The command runner, the operating system, the clock, the race of a command against
  a deadline and the decoder of the JSON list of \<open>nvme\<close> are parameters. \<open>os.IsNotExist\<close> does not look
  through a wrapped error, so an error that is only wrapped keeps its text and loses its kind.
\<close>

record FileMode =
  fm_Device :: bool
  fm_CharDevice :: bool

record Statfs =
  sf_Bsize :: int
  sf_Blocks :: int
  sf_Bfree :: int
  sf_Bavail :: int
  sf_Files :: int
  sf_Ffree :: int

text \<open>One entry of \<open>nvme list\<close>: device path and subsystem of the flat form, subsystems with their namespaces of the nested one.\<close>

record NVMeListEntry =
  le_DevicePath :: string
  le_SubsystemNQN :: string
  le_Subsystems :: "(string \<times> (string \<times> string) list) list"

record 'w hostMounter =
  hm_run :: "'w Runner"
  hm_OS :: "'w OS"
  hm_OpenCreate :: "string \<Rightarrow> 'w act"
  hm_StatMode :: "string \<Rightarrow> ('w, FileMode) query"
  hm_Open :: "string \<Rightarrow> 'w act"
  hm_BlockSize :: "string \<Rightarrow> ('w, int) query"
  hm_Statfs :: "string \<Rightarrow> ('w, Statfs) query"
  hm_Race :: "int \<Rightarrow> 'w act \<Rightarrow> 'w \<Rightarrow> 'w \<times> goerr option option"
  hm_Now :: "'w \<Rightarrow> 'w \<times> int"
  hm_Wait :: "int \<Rightarrow> 'w act"
  hm_Unmarshal :: "string \<Rightarrow> NVMeListEntry list option"
  hm_unmountTimeout :: int
  hm_forceLazyUnmount :: bool

abbreviation defaultUnmountTimeout :: int where "defaultUnmountTimeout \<equiv> 90000"

definition run_act :: "'w hostMounter \<Rightarrow> string \<Rightarrow> string list \<Rightarrow> 'w act" where
  "run_act m name args w = (case hm_run m name args w of (w1, Inl e) \<Rightarrow> (w1, Some e) | (w1, Inr _) \<Rightarrow> (w1, None))"

subsection \<open>Paths and mounts\<close>

definition mount_line :: "string \<Rightarrow> string \<Rightarrow> bool" where
  "mount_line path line \<longleftrightarrow> length (Fields line) \<ge> 2 \<and> Fields line ! 1 = path"

definition IsMountPoint :: "'w hostMounter \<Rightarrow> string \<Rightarrow> ('w, bool) query" where
  "IsMountPoint m path w =
     (case os_Stat (hm_OS m) path w of
        (w1, Inl e) \<Rightarrow> (w1, if os_IsNotExist e then Inr False else Inl e)
      | (w1, Inr _) \<Rightarrow>
          (case os_ReadFile (hm_OS m) ''/proc/mounts'' w1 of
             (w2, Inl e) \<Rightarrow> (w2, Inl (errorf (''read /proc/mounts: '' @ err_text e)))
           | (w2, Inr text) \<Rightarrow> (w2, Inr (\<exists>line \<in> set (Split (CHR 10) text). mount_line (path_Clean path) line))))"

definition MakeDir :: "'w hostMounter \<Rightarrow> string \<Rightarrow> 'w act" where
  "MakeDir m path = os_MkdirAll (hm_OS m) path"

definition MakeFile :: "'w hostMounter \<Rightarrow> string \<Rightarrow> 'w act" where
  "MakeFile m path w =
     (case os_MkdirAll (hm_OS m) (path_Dir path) w of
        (w1, Some e) \<Rightarrow> (w1, Some e)
      | (w1, None) \<Rightarrow>
          (case hm_OpenCreate m path w1 of
             (w2, Some e) \<Rightarrow> (w2, if os_IsExist e then None else Some e)
           | (w2, None) \<Rightarrow> (w2, None)))"

definition RemovePath :: "'w hostMounter \<Rightarrow> string \<Rightarrow> 'w act" where
  "RemovePath m path w =
     (case os_Remove (hm_OS m) path w of
        (w1, Some e) \<Rightarrow> (w1, if os_IsNotExist e then None else Some e)
      | (w1, None) \<Rightarrow> (w1, None))"

definition with_options :: "string list \<Rightarrow> string list" where
  "with_options options = (if options \<noteq> [] then [''-o'', Join '','' options] else [])"

definition MountNFS :: "'w hostMounter \<Rightarrow> string \<Rightarrow> string \<Rightarrow> string list \<Rightarrow> 'w act" where
  "MountNFS m source target options = run_act m ''mount'' ([''-t'', ''nfs''] @ with_options options @ [source, target])"

text \<open>Any failure of \<open>blkid\<close> counts as a device without a file system.\<close>

definition detectFS :: "'w hostMounter \<Rightarrow> string \<Rightarrow> ('w, string) query" where
  "detectFS m device w =
     (case hm_run m ''blkid'' [''-o'', ''value'', ''-s'', ''TYPE'', device] w of
        (w1, Inl e) \<Rightarrow> (w1, Inr '''')
      | (w1, Inr out) \<Rightarrow> (w1, Inr (TrimSpace out)))"

definition mkfs_args :: "string \<Rightarrow> string \<Rightarrow> string list" where
  "mkfs_args fsType device =
     (if fsType = ''ext4'' \<or> fsType = ''ext3'' then [''-F''] else []) @ (if fsType = ''xfs'' then [''-f''] else []) @ [device]"

definition mount_fs :: "'w hostMounter \<Rightarrow> string \<Rightarrow> string \<Rightarrow> string \<Rightarrow> string list \<Rightarrow> ('w, string) query" where
  "mount_fs m device target fsType options w =
     (case hm_run m ''mount'' ([''-t'', fsType] @ with_options options @ [device, target]) w of
        (w1, Inl e) \<Rightarrow> (w1, Inl e)
      | (w1, Inr _) \<Rightarrow> (w1, Inr fsType))"

definition FormatAndMount :: "'w hostMounter \<Rightarrow> string \<Rightarrow> string \<Rightarrow> string \<Rightarrow> string list \<Rightarrow> ('w, string) query" where
  "FormatAndMount m device target fsType0 options w =
     (let fsType = (if fsType0 = '''' then ''ext4'' else fsType0) in
      case detectFS m device w of
        (w1, Inl e) \<Rightarrow> (w1, Inl e)
      | (w1, Inr existing) \<Rightarrow>
          if existing = '''' then
            (case hm_run m (''mkfs.'' @ fsType) (mkfs_args fsType device) w1 of
               (w2, Inl e) \<Rightarrow> (w2, Inl (wrapf (''mkfs.'' @ fsType @ '' '' @ device @ '': '') e))
             | (w2, Inr _) \<Rightarrow> mount_fs m device target fsType options w2)
          else if existing \<noteq> fsType then
            (w1, Inl (errorf (''device '' @ device @ '' is formatted as '' @ Quote existing @ '', but '' @ Quote fsType
               @ '' was requested: refusing to mount with a mismatched filesystem type'')))
          else mount_fs m device target fsType options w1)"

definition BindMountDevice :: "'w hostMounter \<Rightarrow> string \<Rightarrow> string \<Rightarrow> bool \<Rightarrow> 'w act" where
  "BindMountDevice m device target readOnly =
     run_act m ''mount'' [''-o'', if readOnly then ''bind,ro'' else ''bind'', device, target]"

definition selinuxActive :: "'w hostMounter \<Rightarrow> 'w \<Rightarrow> 'w \<times> bool" where
  "selinuxActive m w = (case os_ReadFile (hm_OS m) ''/sys/fs/selinux/enforce'' w of (w1, Inl _) \<Rightarrow> (w1, False) | (w1, Inr _) \<Rightarrow> (w1, True))"

definition BindMountDir :: "'w hostMounter \<Rightarrow> string \<Rightarrow> string \<Rightarrow> bool \<Rightarrow> 'w act" where
  "BindMountDir m source target readOnly w =
     (case selinuxActive m w of (w1, active) \<Rightarrow>
        run_act m ''mount'' [''-o'', ''bind'' @ (if active then '',context=system_u:object_r:container_file_t:s0'' else '''')
          @ (if readOnly then '',ro'' else ''''), source, target] w1)"

text \<open>The plain \<open>umount\<close> is raced against the deadline; it may stay stuck, but the call does not.\<close>

definition Unmount :: "'w hostMounter \<Rightarrow> string \<Rightarrow> 'w act" where
  "Unmount m target w =
     (let timeout = (if hm_unmountTimeout m \<le> 0 then defaultUnmountTimeout else hm_unmountTimeout m) in
      case hm_Race m timeout (run_act m ''umount'' [target]) w of (w1, raced) \<Rightarrow>
        case (case raced of Some r \<Rightarrow> r | None \<Rightarrow> Some (errorf ''context deadline exceeded'')) of
          None \<Rightarrow> (w1, None)
        | Some e \<Rightarrow>
            if Contains (err_text e) ''not mounted'' then (w1, None)
            else if \<not> hm_forceLazyUnmount m then (w1, Some e)
            else (case run_act m ''umount'' [''-f'', ''-l'', target] w1 of
                    (w2, Some e2) \<Rightarrow> (w2, if Contains (err_text e2) ''not mounted'' then None else Some e2)
                  | (w2, None) \<Rightarrow> (w2, None)))"

subsection \<open>NVMe devices\<close>

abbreviation sysClassNVMe :: string where "sysClassNVMe \<equiv> ''/sys/class/nvme''"

abbreviation sysBlock :: string where "sysBlock \<equiv> ''/sys/block''"

definition nvmeDeviceReady :: "'w OS \<Rightarrow> string \<Rightarrow> string \<Rightarrow> 'w \<Rightarrow> 'w \<times> bool" where
  "nvmeDeviceReady h sysBlockRoot dev w =
     (let base = TrimPrefix dev ''/dev/'' in
      if base = '''' then (w, False)
      else case os_ReadFile h (path_Join [sysBlockRoot, base, ''size'']) w of
        (w1, Inl e) \<Rightarrow> (w1, False)
      | (w1, Inr b) \<Rightarrow> (w1, case ParseInt (TrimSpace b) of (n, bad) \<Rightarrow> \<not> bad \<and> n > 0))"

fun controllers_in :: "'w OS \<Rightarrow> string \<Rightarrow> string \<Rightarrow> (string \<times> bool) list \<Rightarrow> 'w \<Rightarrow> 'w \<times> string list" where
  "controllers_in h root nqn [] w = (w, [])"
| "controllers_in h root nqn ((c, d) # cs) w =
     (case os_ReadFile h (path_Join [root, c, ''subsysnqn'']) w of
        (w1, Inl e) \<Rightarrow> controllers_in h root nqn cs w1
      | (w1, Inr b) \<Rightarrow>
          (case controllers_in h root nqn cs w1 of (w2, out) \<Rightarrow> (w2, if TrimSpace b = nqn then c # out else out)))"

definition nvmeControllersForNQN :: "'w OS \<Rightarrow> string \<Rightarrow> string \<Rightarrow> 'w \<Rightarrow> 'w \<times> string list" where
  "nvmeControllersForNQN h root nqn w =
     (case os_ReadDir h root w of
        (w1, Inl e) \<Rightarrow> (w1, [])
      | (w1, Inr cs) \<Rightarrow> controllers_in h root nqn cs w1)"

text \<open>The expression \<open>^(nvme\d+)c\d+(n\d+)$\<close> with its two groups.\<close>

definition digits_then :: "string \<Rightarrow> (string \<times> string) option" where
  "digits_then s = (let ds = takeWhile is_digit s in if ds = '''' then None else Some (ds, dropWhile is_digit s))"

definition expect :: "string \<Rightarrow> string \<Rightarrow> string option" where
  "expect p s = (if HasPrefix s p then Some (drop (length p) s) else None)"

definition nvmePathDeviceRe :: "string \<Rightarrow> (string \<times> string) option" where
  "nvmePathDeviceRe name =
     (case expect ''nvme'' name of None \<Rightarrow> None | Some r1 \<Rightarrow>
      case digits_then r1 of None \<Rightarrow> None | Some (inst, r2) \<Rightarrow>
      case expect ''c'' r2 of None \<Rightarrow> None | Some r3 \<Rightarrow>
      case digits_then r3 of None \<Rightarrow> None | Some (ctrl, r4) \<Rightarrow>
      case expect ''n'' r4 of None \<Rightarrow> None | Some r5 \<Rightarrow>
      case digits_then r5 of None \<Rightarrow> None | Some (ns, r6) \<Rightarrow>
        if r6 = '''' then Some (''nvme'' @ inst, ''n'' @ ns) else None)"

text \<open>The entries of a controller: a direct namespace wins at once, else the last path device.\<close>

fun namespace_in :: "string \<Rightarrow> string \<Rightarrow> (string \<times> bool) list \<Rightarrow> string" where
  "namespace_in directPrefix mpathHead [] = mpathHead"
| "namespace_in directPrefix mpathHead ((name, d) # es) =
     (if HasPrefix name directPrefix then ''/dev/'' @ name
      else case nvmePathDeviceRe name of
        Some (a, b) \<Rightarrow> namespace_in directPrefix (''/dev/'' @ a @ b) es
      | None \<Rightarrow> namespace_in directPrefix mpathHead es)"

fun namespace_of :: "'w OS \<Rightarrow> string \<Rightarrow> string list \<Rightarrow> 'w \<Rightarrow> 'w \<times> string" where
  "namespace_of h root [] w = (w, '''')"
| "namespace_of h root (ctrl # ctrls) w =
     (case os_ReadDir h (path_Join [root, ctrl]) w of
        (w1, Inl e) \<Rightarrow> namespace_of h root ctrls w1
      | (w1, Inr es) \<Rightarrow>
          (let dev = namespace_in (ctrl @ ''n'') '''' es in if dev \<noteq> '''' then (w1, dev) else namespace_of h root ctrls w1))"

definition nvmeNamespaceFromSysfs :: "'w OS \<Rightarrow> string \<Rightarrow> string \<Rightarrow> 'w \<Rightarrow> 'w \<times> string" where
  "nvmeNamespaceFromSysfs h root nqn w = (case nvmeControllersForNQN h root nqn w of (w1, ctrls) \<Rightarrow> namespace_of h root ctrls w1)"

definition nvmeControllerFromSysfs :: "'w OS \<Rightarrow> string \<Rightarrow> string \<Rightarrow> 'w \<Rightarrow> 'w \<times> string" where
  "nvmeControllerFromSysfs h root nqn w =
     (case nvmeControllersForNQN h root nqn w of
        (w1, []) \<Rightarrow> (w1, '''')
      | (w1, ctrl # _) \<Rightarrow> (w1, ''/dev/'' @ ctrl))"

definition ns_name :: "string \<times> string \<Rightarrow> string" where
  "ns_name ns = (if fst ns = '''' then snd ns else fst ns)"

definition entry_device :: "string \<Rightarrow> NVMeListEntry \<Rightarrow> string option" where
  "entry_device nqn d =
     (if le_SubsystemNQN d = nqn \<and> le_DevicePath d \<noteq> '''' then Some (le_DevicePath d)
      else map_option (\<lambda>n. ''/dev/'' @ n)
        (find (\<lambda>n. n \<noteq> '''') (concat (map (\<lambda>(q, nss). if q \<noteq> nqn then [] else map ns_name nss) (le_Subsystems d)))))"

definition parseNVMeListDevice :: "'w hostMounter \<Rightarrow> string \<Rightarrow> string \<Rightarrow> string" where
  "parseNVMeListDevice m out nqn =
     (case hm_Unmarshal m out of
        None \<Rightarrow> ''''
      | Some devices \<Rightarrow> (case List.map_filter (entry_device nqn) devices of [] \<Rightarrow> '''' | dev # _ \<Rightarrow> dev))"

definition nvmeDevice :: "'w hostMounter \<Rightarrow> string \<Rightarrow> ('w, string) query" where
  "nvmeDevice m nqn w =
     (case nvmeNamespaceFromSysfs (hm_OS m) sysClassNVMe nqn w of (w1, dev) \<Rightarrow>
        if dev \<noteq> '''' then (w1, Inr dev)
        else case hm_run m ''nvme'' [''list'', ''-o'', ''json''] w1 of
          (w2, Inl e) \<Rightarrow> (w2, Inr '''')
        | (w2, Inr out) \<Rightarrow> (w2, Inr (parseNVMeListDevice m out nqn)))"

text \<open>The device when it is there and has a size.\<close>

definition ready_device :: "'w hostMounter \<Rightarrow> string \<Rightarrow> 'w \<Rightarrow> 'w \<times> string option" where
  "ready_device m nqn w =
     (case nvmeDevice m nqn w of
        (w1, Inl _) \<Rightarrow> (w1, None)
      | (w1, Inr dev) \<Rightarrow>
          if dev = '''' then (w1, None)
          else case nvmeDeviceReady (hm_OS m) sysBlock dev w1 of (w2, ok) \<Rightarrow> (w2, if ok then Some dev else None))"

abbreviation nvmeConnectTimeout :: int where "nvmeConnectTimeout \<equiv> 10000"

abbreviation nvmeDevicePoll :: int where "nvmeDevicePoll \<equiv> 500"

definition nudge :: "'w hostMounter \<Rightarrow> string \<Rightarrow> 'w \<Rightarrow> 'w" where
  "nudge m nqn w =
     (case nvmeControllerFromSysfs (hm_OS m) sysClassNVMe nqn w of (w1, ctrl) \<Rightarrow>
        if ctrl \<noteq> '''' then fst (hm_run m ''nvme'' [''ns-rescan'', ctrl] w1) else w1)"

partial_function (option) poll_device :: "'w hostMounter \<Rightarrow> string \<Rightarrow> int \<Rightarrow> 'w \<Rightarrow> ('w \<times> (goerr + string)) option" where
  "poll_device m nqn deadline w =
     (case ready_device m nqn w of
        (w1, Some dev) \<Rightarrow> Some (w1, Inr dev)
      | (w1, None) \<Rightarrow>
          (case hm_Now m (nudge m nqn w1) of (w2, now) \<Rightarrow>
             if now > deadline then Some (w2, Inr '''')
             else (case hm_Wait m nvmeDevicePoll w2 of
                     (w3, Some e) \<Rightarrow> Some (w3, Inl e)
                   | (w3, None) \<Rightarrow> poll_device m nqn deadline w3)))"

declare poll_device.simps [code]

definition waitNVMeDevice :: "'w hostMounter \<Rightarrow> string \<Rightarrow> int \<Rightarrow> 'w \<Rightarrow> ('w \<times> (goerr + string)) option" where
  "waitNVMeDevice m nqn timeout w = (case hm_Now m w of (w1, now) \<Rightarrow> poll_device m nqn (now + timeout) w1)"

definition connect_args :: "NVMeConnectOptions \<Rightarrow> string list" where
  "connect_args o1 =
     [''connect'', ''-t'', nco_Transport o1, ''-a'', nco_Addr o1, ''-s'', nco_Port o1, ''-n'', nco_NQN o1]
     @ (if nco_HostNQN o1 \<noteq> '''' then [''--hostnqn'', nco_HostNQN o1] else [])
     @ (if nco_HostID o1 \<noteq> '''' then [''--hostid'', nco_HostID o1] else [])
     @ (if nco_DHChapKey o1 \<noteq> '''' then [''--dhchap-secret'', nco_DHChapKey o1] else [])"

definition await_device :: "'w hostMounter \<Rightarrow> string \<Rightarrow> 'w \<Rightarrow> ('w \<times> (goerr + string)) option" where
  "await_device m nqn w =
     map_option (\<lambda>(w1, r). case r of
          Inl e \<Rightarrow> (w1, Inl e)
        | Inr dev \<Rightarrow> (w1, if dev = '''' then Inl (errorf (''nvme device for '' @ nqn @ '' not found after connect'')) else Inr dev))
       (waitNVMeDevice m nqn nvmeConnectTimeout w)"

definition NVMeConnect :: "'w hostMounter \<Rightarrow> NVMeConnectOptions \<Rightarrow> 'w \<Rightarrow> ('w \<times> (goerr + string)) option" where
  "NVMeConnect m o1 w =
     (case ready_device m (nco_NQN o1) w of
        (w1, Some dev) \<Rightarrow> Some (w1, Inr dev)
      | (w1, None) \<Rightarrow>
          (case hm_run m ''nvme'' (connect_args o1) w1 of
             (w2, Inl e) \<Rightarrow>
               if \<not> Contains (ToLower (err_text e)) ''already connected''
               then Some (w2, Inl (wrapf (''nvme connect '' @ nco_NQN o1 @ '': '') e))
               else await_device m (nco_NQN o1) w2
           | (w2, Inr _) \<Rightarrow> await_device m (nco_NQN o1) w2))"

definition NVMeDisconnect :: "'w hostMounter \<Rightarrow> string \<Rightarrow> 'w act" where
  "NVMeDisconnect m nqn w =
     (case run_act m ''nvme'' [''disconnect'', ''-n'', nqn] w of
        (w1, Some e) \<Rightarrow> (w1, if Contains (err_text e) ''not found'' then None else Some e)
      | (w1, None) \<Rightarrow> (w1, None))"

fun rescan_all :: "'w hostMounter \<Rightarrow> string list \<Rightarrow> 'w act" where
  "rescan_all m [] w = (w, None)"
| "rescan_all m (ctrl # ctrls) w =
     (case run_act m ''nvme'' [''ns-rescan'', ''/dev/'' @ ctrl] w of
        (w1, Some e) \<Rightarrow> (w1, Some e)
      | (w1, None) \<Rightarrow> rescan_all m ctrls w1)"

definition RescanNVMe :: "'w hostMounter \<Rightarrow> string \<Rightarrow> 'w act" where
  "RescanNVMe m nqn w =
     (if nqn = '''' then (w, Some (errorf ''nqn is empty''))
      else case nvmeControllersForNQN (hm_OS m) sysClassNVMe nqn w of (w1, ctrls) \<Rightarrow>
        if ctrls = [] then (w1, Some (errorf (''no nvme controller connected for nqn '' @ Quote nqn))) else rescan_all m ctrls w1)"

subsection \<open>Size and usage\<close>

definition ResizeFS :: "'w hostMounter \<Rightarrow> string \<Rightarrow> string \<Rightarrow> 'w act" where
  "ResizeFS m device volumePath w =
     (case detectFS m device w of
        (w1, Inl e) \<Rightarrow> (w1, Some e)
      | (w1, Inr fsType) \<Rightarrow>
          if fsType = '''' then (w1, None)
          else if HasPrefix fsType ''ext'' then run_act m ''resize2fs'' [device] w1
          else if fsType = ''xfs'' then run_act m ''xfs_growfs'' [volumePath] w1
          else run_act m ''resize2fs'' [device] w1)"

definition blockDeviceStats :: "'w hostMounter \<Rightarrow> string \<Rightarrow> ('w, VolumeStats) query" where
  "blockDeviceStats m devicePath w =
     (case hm_Open m devicePath w of
        (w1, Some e) \<Rightarrow> (w1, Inl (errorf (''open block device '' @ Quote devicePath @ '': '' @ err_text e)))
      | (w1, None) \<Rightarrow>
          (case hm_BlockSize m devicePath w1 of
             (w2, Inl e) \<Rightarrow> (w2, Inl (errorf (''get size of block device '' @ Quote devicePath @ '': '' @ err_text e)))
           | (w2, Inr sz) \<Rightarrow>
               (w2, Inr \<lparr>vs_AvailableBytes = 0, vs_TotalBytes = int64 sz, vs_UsedBytes = 0, vs_AvailableInodes = 0, vs_TotalInodes = 0,
                  vs_UsedInodes = 0, vs_Block = True\<rparr>)))"

definition filesystemStats :: "'w hostMounter \<Rightarrow> string \<Rightarrow> ('w, VolumeStats) query" where
  "filesystemStats m path w =
     (case hm_Statfs m path w of
        (w1, Inl e) \<Rightarrow> (w1, Inl (errorf (''statfs '' @ Quote path @ '': '' @ err_text e)))
      | (w1, Inr st) \<Rightarrow>
          (let total = int64 (int64 (sf_Blocks st) * sf_Bsize st); free = int64 (int64 (sf_Bfree st) * sf_Bsize st);
               avail = int64 (int64 (sf_Bavail st) * sf_Bsize st); totalInodes = int64 (sf_Files st); availInodes = int64 (sf_Ffree st) in
           (w1, Inr \<lparr>vs_AvailableBytes = avail, vs_TotalBytes = total, vs_UsedBytes = int64 (total - free),
              vs_AvailableInodes = availInodes, vs_TotalInodes = totalInodes, vs_UsedInodes = int64 (totalInodes - availInodes), vs_Block = False\<rparr>)))"

definition hm_VolumeStats :: "'w hostMounter \<Rightarrow> string \<Rightarrow> ('w, VolumeStats) query" where
  "hm_VolumeStats m volumePath w =
     (case hm_StatMode m volumePath w of
        (w1, Inl e) \<Rightarrow> (w1, Inl e)
      | (w1, Inr mode) \<Rightarrow>
          if fm_Device mode \<and> \<not> fm_CharDevice mode then blockDeviceStats m volumePath w1 else filesystemStats m volumePath w1)"

text \<open>\<open>NewHostMounter\<close>: the default deadline, and the methods as the interface the node service uses.\<close>

definition NewHostMounter :: "'w hostMounter \<Rightarrow> int \<Rightarrow> bool \<Rightarrow> 'w hostMounter" where
  "NewHostMounter m timeout force =
     m\<lparr>hm_unmountTimeout := (if timeout \<le> 0 then defaultUnmountTimeout else timeout), hm_forceLazyUnmount := force\<rparr>"

definition as_mounter :: "'w hostMounter \<Rightarrow> 'w NodeMounter" where
  "as_mounter m =
     \<lparr>nm_IsMountPoint = IsMountPoint m, nm_MakeDir = MakeDir m, nm_MakeFile = MakeFile m, nm_RemovePath = RemovePath m,
      nm_MountNFS = MountNFS m, nm_FormatAndMount = FormatAndMount m, nm_BindMountDevice = BindMountDevice m,
      nm_BindMountDir = BindMountDir m, nm_Unmount = Unmount m, nm_NVMeConnect = NVMeConnect m, nm_NVMeDisconnect = NVMeDisconnect m,
      nm_NVMeDevice = nvmeDevice m, nm_RescanNVMe = RescanNVMe m, nm_ResizeFS = ResizeFS m, nm_VolumeStats = hm_VolumeStats m\<rparr>"

lemma as_mounter_sel:
  "nm_IsMountPoint (as_mounter m) = IsMountPoint m" "nm_MakeDir (as_mounter m) = MakeDir m" "nm_MakeFile (as_mounter m) = MakeFile m"
  "nm_RemovePath (as_mounter m) = RemovePath m" "nm_MountNFS (as_mounter m) = MountNFS m" "nm_FormatAndMount (as_mounter m) = FormatAndMount m"
  "nm_BindMountDevice (as_mounter m) = BindMountDevice m" "nm_BindMountDir (as_mounter m) = BindMountDir m" "nm_Unmount (as_mounter m) = Unmount m"
  "nm_NVMeConnect (as_mounter m) = NVMeConnect m" "nm_NVMeDisconnect (as_mounter m) = NVMeDisconnect m"
  by (simp_all add: as_mounter_def)

end
