(* ===== verification/NodeSafety.thy ===== *)
theory NodeSafety
  imports HostMounter Frame
begin

text \<open>
  What the node service does to the host: when it formats a device, when a call that waits for a
  device returns, and which identity it presents to the target.
\<close>

definition keeps_opt :: "('w \<Rightarrow> 'w \<Rightarrow> bool) \<Rightarrow> ('w \<Rightarrow> ('w \<times> 'r) option) \<Rightarrow> bool" where
  "keeps_opt R f \<longleftrightarrow> (\<forall>w w' x. f w = Some (w', x) \<longrightarrow> R w w')"

context frame
begin

lemma keeps_opt_Some [keeps_rules]: "keeps R f \<Longrightarrow> keeps_opt R (\<lambda>w. Some (f w))"
  unfolding keeps_def keeps_opt_def by (metis fst_conv option.inject)

lemma keeps_opt_if [keeps_rules]: "(c \<Longrightarrow> keeps_opt R f) \<Longrightarrow> (\<not> c \<Longrightarrow> keeps_opt R g) \<Longrightarrow> keeps_opt R (\<lambda>w. if c then f w else g w)"
  by (simp add: keeps_opt_def)

lemma keeps_opt_bind [keeps_rules]:
  assumes "keeps R f" "\<And>x. keeps_opt R (g x)"
  shows "keeps_opt R (\<lambda>w. case f w of (w1, x) \<Rightarrow> g x w1)"
  unfolding keeps_opt_def
proof (intro allI impI)
  fix w w' y assume a: "(case f w of (w1, x) \<Rightarrow> g x w1) = Some (w', y)"
  obtain w1 x where f: "f w = (w1, x)" by fastforce
  then have "R w1 w'" using a assms(2) [of x] by (simp add: keeps_opt_def)
  then show "R w w'" using frame_trans [OF keepsD [OF assms(1) f]] by blast
qed

lemma keeps_opt_sum [keeps_rules]:
  "(\<And>e. x = Inl e \<Longrightarrow> keeps_opt R (f e)) \<Longrightarrow> (\<And>y. x = Inr y \<Longrightarrow> keeps_opt R (g y)) \<Longrightarrow>
   keeps_opt R (\<lambda>w. case x of Inl e \<Rightarrow> f e w | Inr y \<Rightarrow> g y w)"
  by (cases x) (simp_all add: keeps_opt_def)

lemma keeps_opt_option [keeps_rules]:
  "(x = None \<Longrightarrow> keeps_opt R f) \<Longrightarrow> (\<And>y. x = Some y \<Longrightarrow> keeps_opt R (g y)) \<Longrightarrow>
   keeps_opt R (\<lambda>w. case x of None \<Rightarrow> f w | Some y \<Rightarrow> g y w)"
  by (cases x) (simp_all add: keeps_opt_def)

lemma keeps_opt_prod [keeps_rules]: "(\<And>a b. x = (a, b) \<Longrightarrow> keeps_opt R (f a b)) \<Longrightarrow> keeps_opt R (\<lambda>w. case x of (a, b) \<Rightarrow> f a b w)"
  by (cases x) (simp_all add: keeps_opt_def)

lemma keeps_opt_split [keeps_rules]: "(\<And>a b. x = (a, b) \<Longrightarrow> keeps_opt R (f a b)) \<Longrightarrow> keeps_opt R (case_prod f x)"
  by (cases x) simp

lemma keeps_opt_case [keeps_rules]:
  assumes "keeps_opt R f" "\<And>e. keeps R (g e)" "\<And>y. keeps_opt R (k y)"
  shows "keeps_opt R (\<lambda>w. case f w of None \<Rightarrow> None | Some (w1, Inl e) \<Rightarrow> Some (g e w1) | Some (w1, Inr y) \<Rightarrow> k y w1)"
  unfolding keeps_opt_def
proof (intro allI impI)
  fix w w' z assume a: "(case f w of None \<Rightarrow> None | Some (w1, Inl e) \<Rightarrow> Some (g e w1) | Some (w1, Inr y) \<Rightarrow> k y w1) = Some (w', z)"
  then obtain w1 x where f: "f w = Some (w1, x)" by (cases "f w") auto
  then have w1: "R w w1" using assms(1) by (simp add: keeps_opt_def)
  moreover have "R w1 w'"
  proof (cases x)
    case (Inl e)
    then have "g e w1 = (w', z)" using a f by simp
    then show ?thesis using keepsD [OF assms(2)] by blast
  next
    case (Inr y)
    then have "k y w1 = Some (w', z)" using a f by simp
    then show ?thesis using assms(3) [of y] unfolding keeps_opt_def by blast
  qed
  ultimately show "R w w'" by (rule frame_trans)
qed

lemma keeps_opt_then [keeps_rules]:
  assumes "keeps_opt R f" "\<And>y. keeps_opt R (k y)"
  shows "keeps_opt R (\<lambda>w. then_rpc (f w) k)"
  unfolding keeps_opt_def
proof (intro allI impI)
  fix w w' z assume a: "then_rpc (f w) k = Some (w', z)"
  then obtain w1 x where f: "f w = Some (w1, x)" by (cases "f w") auto
  then have w1: "R w w1" using assms(1) by (simp add: keeps_opt_def)
  moreover have "R w1 w'"
  proof (cases x)
    case (Inr y)
    then have "k y w1 = Some (w', z)" using a f by simp
    then show ?thesis using assms(2) [of y] unfolding keeps_opt_def by blast
  qed (use a f frame_refl in auto)
  ultimately show "R w w'" by (rule frame_trans)
qed

lemma keeps_host_step [keeps_rules]: "keeps R f \<Longrightarrow> keeps R (\<lambda>w. host_step pre (f w))"
  by (auto simp: keeps_def host_step_def split: prod.splits option.splits) (metis fst_conv)+

end

subsection \<open>No command formats\<close>

text \<open>
  Everything the node does to the world keeps the frame, except a command that formats; and \<open>blkid\<close>
  reports a file system on every device.
\<close>

locale node_frame = frame R + kube_lib L for R :: "'w \<Rightarrow> 'w \<Rightarrow> bool" and L :: "'w KubeLib" +
  fixes m :: "'w hostMounter" and c :: "'w ShareClient"
  assumes run_keeps: "\<not> HasPrefix name ''mkfs.'' \<Longrightarrow> keeps R (hm_run m name args)"
    and os_keeps: "keeps R (os_Stat (hm_OS m) p)" "keeps R (os_ReadFile (hm_OS m) p)" "keeps R (os_ReadDir (hm_OS m) p)"
      "keeps R (os_MkdirAll (hm_OS m) p)" "keeps R (os_Remove (hm_OS m) p)" "keeps R (hm_OpenCreate m p)"
      "keeps R (hm_Now m)" "keeps R (hm_Wait m t)"
    and race_keeps: "keeps R f \<Longrightarrow> keeps R (hm_Race m t f)"
    and api_keeps: "keeps R (get_ZfsDataset c n)" "keeps R (get_ZfsPool c n)" "keeps R (get_NetworkExport c n)"
      "keeps R (get_Secret c ns n)" "keeps R (patch_status_ZfsDataset c vol vol')"
begin

declare os_keeps [keeps_rules] api_keeps [keeps_rules]

lemma retry_keeps [keeps_rules]: "keeps R f \<Longrightarrow> keeps R (RetryOnConflict L f)"
  unfolding keeps_def
proof
  fix w assume "\<forall>w. R w (fst (f w))"
  then show "R w (fst (RetryOnConflict L f w))"
    by (intro retry_invariant [where I = "R w"]) (use frame_refl frame_trans in \<open>metis fst_conv\<close>)+
qed

lemma programs [keeps_rules]:
  "keeps R (hm_run m ''blkid'' as)" "keeps R (hm_run m ''mount'' as)" "keeps R (hm_run m ''nvme'' as)" "keeps R (hm_run m ''umount'' as)"
  by (rule run_keeps, simp add: HasPrefix_def)+

lemma run_act_keeps [keeps_rules]:
  "keeps R (run_act m ''mount'' as)" "keeps R (run_act m ''nvme'' as)" "keeps R (run_act m ''umount'' as)"
  unfolding run_act_def [abs_def] by (intro keeps_rules)+

lemma controllers_keeps [keeps_rules]: "keeps R (controllers_in (hm_OS m) root nqn cs)"
proof (induction cs)
  case (Cons x cs)
  obtain n d where x: "x = (n, d)" by fastforce
  have "controllers_in (hm_OS m) root nqn (x # cs) = (\<lambda>w. case os_ReadFile (hm_OS m) (path_Join [root, n, ''subsysnqn'']) w of (w1, y) \<Rightarrow>
      case y of Inl e \<Rightarrow> controllers_in (hm_OS m) root nqn cs w1
      | Inr b \<Rightarrow> (case controllers_in (hm_OS m) root nqn cs w1 of (w2, out) \<Rightarrow> (w2, if TrimSpace b = nqn then n # out else out)))"
    by (rule ext) (simp add: x)
  then show ?case by (simp only:) (intro keeps_rules Cons)
next
  case Nil
  have "controllers_in (hm_OS m) root nqn [] = (\<lambda>w. (w, []))" by (rule ext) simp
  then show ?case by (simp only:) (rule keeps_return)
qed

lemma namespace_keeps [keeps_rules]: "keeps R (namespace_of (hm_OS m) root cs)"
proof (induction cs)
  case (Cons x cs)
  have "namespace_of (hm_OS m) root (x # cs) = (\<lambda>w. case os_ReadDir (hm_OS m) (path_Join [root, x]) w of (w1, y) \<Rightarrow>
      case y of Inl e \<Rightarrow> namespace_of (hm_OS m) root cs w1
      | Inr es \<Rightarrow> if namespace_in (x @ ''n'') '''' es \<noteq> '''' then (w1, namespace_in (x @ ''n'') '''' es) else namespace_of (hm_OS m) root cs w1)"
    by (rule ext) (simp add: Let_def)
  then show ?case by (simp only:) (intro keeps_rules Cons)
next
  case Nil
  have "namespace_of (hm_OS m) root [] = (\<lambda>w. (w, ''''))" by (rule ext) simp
  then show ?case by (simp only:) (rule keeps_return)
qed

lemma device_keeps [keeps_rules]:
  "keeps R (nvmeControllersForNQN (hm_OS m) root nqn)" "keeps R (nvmeDeviceReady (hm_OS m) root dev)"
  unfolding nvmeControllersForNQN_def [abs_def] nvmeDeviceReady_def [abs_def] Let_def by (intro keeps_rules)+

lemma ready_device_keeps [keeps_rules]: "keeps R (ready_device m nqn)"
  unfolding ready_device_def [abs_def] nvmeDevice_def [abs_def] nvmeNamespaceFromSysfs_def [abs_def] by (intro keeps_rules)

lemma nudge_keeps: "R w (nudge m nqn w)"
proof -
  have "keeps R (nvmeControllerFromSysfs (hm_OS m) sysClassNVMe nqn)"
    unfolding nvmeControllerFromSysfs_def [abs_def] by (intro keeps_rules)
  then have "R w w1" if "nvmeControllerFromSysfs (hm_OS m) sysClassNVMe nqn w = (w1, ctrl)" for w1 ctrl
    using that keepsD by fast
  then show ?thesis
    using frame_trans keeps_fst [OF programs(3)] by (auto simp: nudge_def split: prod.splits)
qed

lemma poll_device_keeps [keeps_rules]: "keeps_opt R (poll_device m nqn deadline)"
  unfolding keeps_opt_def
proof (intro allI impI)
  fix w w' x assume "poll_device m nqn deadline w = Some (w', x)"
  then have "m = m \<longrightarrow> R w (fst (w', x))"
  proof (rule poll_device.raw_induct [where P = "\<lambda>m' nqn d w y. m' = m \<longrightarrow> R w (fst y)", rotated], intro impI)
    fix self :: "'w hostMounter \<Rightarrow> string \<Rightarrow> int \<Rightarrow> 'w \<Rightarrow> ('w \<times> (goerr + string)) option" and m' nqn deadline w y
    assume IH: "\<And>m' nqn d w y. self m' nqn d w = Some y \<Longrightarrow> m' = m \<longrightarrow> R w (fst y)"
      and body: "(case ready_device m' nqn w of
        (w1, None) \<Rightarrow> (case hm_Now m' (nudge m' nqn w1) of (w2, now) \<Rightarrow>
             if now > deadline then Some (w2, Inr '''')
             else (case hm_Wait m' nvmeDevicePoll w2 of
                     (w3, None) \<Rightarrow> self m' nqn deadline w3
                   | (w3, Some e) \<Rightarrow> Some (w3, Inl e)))
      | (w1, Some dev) \<Rightarrow> Some (w1, Inr dev)) = Some y" and m': "m' = m"
    obtain w1 r where 1: "ready_device m nqn w = (w1, r)" by fastforce
    obtain w2 now where 2: "hm_Now m (nudge m nqn w1) = (w2, now)" by fastforce
    obtain w3 e where 3: "hm_Wait m nvmeDevicePoll w2 = (w3, e)" by fastforce
    have R1: "R w w1" using keepsD [OF ready_device_keeps 1] .
    have R2: "R w w2" using frame_trans [OF frame_trans [OF R1 nudge_keeps] keepsD [OF os_keeps(7) 2]] .
    have R3: "R w w3" using frame_trans [OF R2 keepsD [OF os_keeps(8) 3]] .
    have R4: "R w (fst y)" if "self m nqn deadline w3 = Some y" using frame_trans [OF R3] IH [OF that] by blast
    show "R w (fst y)"
      using body [unfolded m' 1 prod.case 2 3] R1 R2 R3 R4 by (cases r; cases e; cases "now > deadline") auto
  qed
  then show "R w w'" by simp
qed

lemma connect_keeps [keeps_rules]: "keeps_opt R (NVMeConnect m opts)"
proof -
  have wait: "keeps_opt R (waitNVMeDevice m nqn t)" for nqn t unfolding waitNVMeDevice_def [abs_def] by (intro keeps_rules)
  have "keeps_opt R (await_device m nqn)" for nqn
    unfolding keeps_opt_def
  proof (intro allI impI)
    fix w w' x assume a: "await_device m nqn w = Some (w', x)"
    then obtain w1 r where "waitNVMeDevice m nqn nvmeConnectTimeout w = Some (w1, r)" by (auto simp: await_device_def)
    moreover have "w' = w1" using a calculation by (cases r) (auto simp: await_device_def)
    ultimately show "R w w'" using wait unfolding keeps_opt_def by blast
  qed
  then show ?thesis unfolding NVMeConnect_def [abs_def] by (intro keeps_rules)
qed

lemma host_keeps [keeps_rules]:
  "keeps R (IsMountPoint m p)" "keeps R (MakeDir m p)" "keeps R (MakeFile m p)" "keeps R (MountNFS m s t opts)"
  "keeps R (BindMountDevice m s t ro)" "keeps R (BindMountDir m s t ro)"
  unfolding IsMountPoint_def [abs_def] MakeDir_def MakeFile_def [abs_def] MountNFS_def BindMountDevice_def BindMountDir_def [abs_def]
    selinuxActive_def [abs_def]
  by (intro keeps_rules)+

end

text \<open>
  \<open>fsof\<close> reads the file system on one device: \<open>blkid\<close> reports it, formatting another device leaves it alone,
  and so does everything that does not format.
\<close>

locale formatted_node = node_frame "\<lambda>w w'. fsof w \<noteq> '''' \<longrightarrow> fsof w' = fsof w" L m c for fsof :: "'w \<Rightarrow> string" and L m c +
  fixes disk :: string
  assumes other_disk: "last args \<noteq> disk \<Longrightarrow> fsof (fst (hm_run m name args w)) = fsof w"
    and blkid_reports: "fsof w \<noteq> '''' \<Longrightarrow> \<exists>w1 out. hm_run m ''blkid'' [''-o'', ''value'', ''-s'', ''TYPE'', disk] w = (w1, Inr out) \<and> TrimSpace out \<noteq> ''''"
begin

abbreviation kept :: "'w \<Rightarrow> 'w \<Rightarrow> bool" where
  "kept w w' \<equiv> fsof w \<noteq> '''' \<longrightarrow> fsof w' = fsof w"

lemma mount_fs_keeps [keeps_rules]: "keeps kept (mount_fs m dev t fsType opts)"
  unfolding mount_fs_def [abs_def] by (intro keeps_rules)

lemma FormatAndMount_keeps [keeps_rules]: "keeps kept (FormatAndMount m dev t fs opts)"
proof (cases "dev = disk")
  case True
  show ?thesis unfolding keeps_def
  proof (intro allI impI)
    fix w assume f: "fsof w \<noteq> ''''"
    then obtain w1 out where b: "hm_run m ''blkid'' [''-o'', ''value'', ''-s'', ''TYPE'', disk] w = (w1, Inr out)" "TrimSpace out \<noteq> ''''"
      using blkid_reports by blast
    have w1: "fsof w1 = fsof w" using keepsD [OF programs(1) b(1)] f by blast
    have "fsof (fst (mount_fs m dev t fsType opts w1)) = fsof w" for fsType
      using keeps_fst [OF mount_fs_keeps, of w1] w1 f by metis
    then show "fsof (fst (FormatAndMount m dev t fs opts w)) = fsof w" using b w1 True by (simp add: FormatAndMount_def detectFS_def Let_def)
  qed
next
  case False
  have "keeps kept (hm_run m name (mkfs_args fsType dev))" for name fsType
    using False other_disk by (simp add: keeps_def mkfs_args_def)
  then show ?thesis unfolding FormatAndMount_def [abs_def] detectFS_def [abs_def] Let_def by (intro keeps_rules)
qed

lemma publish_device_keeps:
  assumes "ns_Client n = c" "ns_Lib n = L" "ns_Mounter n = as_mounter m"
  shows "keeps kept (publish_device n volumeID device targetPath block ro fs flags)"
proof -
  have "keeps kept (record_once n v t)" for v t unfolding record_once_def [abs_def] assms by (intro keeps_rules)
  then have "keeps kept (recordFSType n v t)" for v t unfolding recordFSType_def [abs_def] assms by (intro keeps_rules)
  then show ?thesis unfolding publish_device_def [abs_def] assms(3) as_mounter_sel by (intro keeps_rules)
qed

lemma publish_keeps:
  assumes "ns_Client n = c" "ns_Lib n = L" "ns_Mounter n = as_mounter m"
  shows "keeps_opt kept (NodePublishVolume n req)"
proof -
  have volume: "keeps kept (resolveVolume n v)" "keeps kept (resolvePool n g)" for v g
    unfolding resolveVolume_def [abs_def] resolvePool_def [abs_def] Let_def assms by (intro keeps_rules)+
  have key: "keeps kept (ns_dhchapKey n x)" for x
    unfolding ns_dhchapKey_def [abs_def] Let_def assms by (intro keeps_rules)
  have local: "keeps kept (publishNFS n pool ds t ro flags)" "keeps kept (publishLocalDataset n sp t ro)"
      "keeps kept (publishLocalZvol n v sp t block ro fs flags)" for pool ds t ro flags sp v block fs
    unfolding publishNFS_def [abs_def] publishLocalDataset_def [abs_def] publishLocalZvol_def [abs_def] Let_def assms(3) as_mounter_sel
    by (intro keeps_rules publish_device_keeps assms)+
  have remote: "keeps_opt kept (publishNVMeoF n v pool t block ro fs flags)" for v pool t block ro fs flags
    unfolding publishNVMeoF_def [abs_def] Let_def assms(1,3) as_mounter_sel by (intro keeps_rules key publish_device_keeps assms)
  show ?thesis
    unfolding NodePublishVolume_def [abs_def] publish_by_protocol_def [abs_def] Let_def assms(3) as_mounter_sel
    by (intro keeps_rules volume local remote)
qed

end

subsection \<open>Waiting ends\<close>

text \<open>The clock is the host's: it never goes back, and a wait that is not cut short lasts as long as asked.\<close>

locale node_clock = node_frame "\<lambda>w w'. clock w \<le> clock w'" L m c for clock :: "'w \<Rightarrow> int" and L m c +
  assumes now_clock: "hm_Now m w = (w1, t) \<Longrightarrow> t = clock w1"
    and wait_clock: "hm_Wait m d w = (w1, None) \<Longrightarrow> clock w + d \<le> clock w1"
begin

lemma poll_device_returns: "\<exists>r. poll_device m nqn deadline w = Some r"
proof (induction "nat (deadline + 1 - clock w)" arbitrary: w rule: less_induct)
  case less
  obtain w1 r where 1: "ready_device m nqn w = (w1, r)" by fastforce
  obtain w2 now where 2: "hm_Now m (nudge m nqn w1) = (w2, now)" by fastforce
  obtain w3 e where 3: "hm_Wait m nvmeDevicePoll w2 = (w3, e)" by fastforce
  have "clock w \<le> clock w1" using keepsD [OF ready_device_keeps 1] .
  also have "clock w1 \<le> clock (nudge m nqn w1)" by (rule nudge_keeps)
  also have "clock (nudge m nqn w1) \<le> clock w2" using keepsD [OF os_keeps(7) 2] .
  finally have "nat (deadline + 1 - clock w3) < nat (deadline + 1 - clock w)" if "e = None" "\<not> now > deadline"
    using that now_clock [OF 2] wait_clock [of nvmeDevicePoll w2 w3] 3 by simp
  then show ?case using less [of w3] 1 2 3 by (cases r; cases e) (subst poll_device.simps, simp)+
qed

lemma NVMeConnect_returns: "\<exists>r. NVMeConnect m opts w = Some r"
proof -
  have await: "\<exists>r. await_device m nqn w = Some r" for nqn w
  proof -
    obtain w1 now where "hm_Now m w = (w1, now)" by fastforce
    moreover obtain r where "poll_device m nqn (now + nvmeConnectTimeout) w1 = Some r" using poll_device_returns by blast
    ultimately show ?thesis by (simp add: await_device_def waitNVMeDevice_def)
  qed
  obtain w1 r where 1: "ready_device m (nco_NQN opts) w = (w1, r)" by fastforce
  obtain w2 x where 2: "hm_run m ''nvme'' (connect_args opts) w1 = (w2, x)" by fastforce
  show ?thesis using 1 2 await [of "nco_NQN opts" w2] by (cases r; cases x) (simp_all add: NVMeConnect_def)
qed

lemma publish_returns:
  assumes "ns_Mounter n = as_mounter m"
  shows "\<exists>r. NodePublishVolume n req w = Some r"
proof -
  have nvme: "\<exists>r. publishNVMeoF n v pool t block ro fs flags w = Some r" for v pool t block ro fs flags w
  proof -
    obtain w1 x where 1: "get_NetworkExport (ns_Client n) v w = (w1, x)" by fastforce
    show ?thesis
    proof (cases x)
      case (Inr export)
      obtain w2 y where 2: "ns_dhchapKey n export w1 = (w2, y)" by fastforce
      show ?thesis
      proof (cases y)
        case key: (Inr key)
        obtain w3 z where "NVMeConnect m (connect_options n v pool (exportNQN export) key) w2 = Some (w3, z)"
          using NVMeConnect_returns by fastforce
        then show ?thesis using 1 2 Inr key by (cases z) (simp_all add: publishNVMeoF_def Let_def assms as_mounter_sel)
      qed (use 1 2 Inr in \<open>simp add: publishNVMeoF_def Let_def\<close>)
    qed (use 1 in \<open>simp add: publishNVMeoF_def\<close>)
  qed
  then have by_protocol: "\<exists>r. publish_by_protocol n req cap pool ds sp protocol w = Some r" for cap pool ds sp protocol w
    by (simp add: publish_by_protocol_def Let_def)
  obtain w1 x where 1: "resolveVolume n (npv_VolumeId req) w = (w1, x)" by fastforce
  show ?thesis
  proof (cases "npv_VolumeId req = '''' \<or> npv_TargetPath req = '''' \<or> npv_VolumeCapability req = None \<or> isl x")
    case True
    then show ?thesis using 1 by (cases x) (auto simp: NodePublishVolume_def split: option.split)
  next
    case False
    then obtain cap guid ds sp protocol where c: "npv_VolumeCapability req = Some cap" "x = Inr (guid, ds, sp, protocol)"
      by (cases x) auto
    obtain w2 y where 2: "resolvePool n guid w1 = (w2, y)" by fastforce
    obtain w3 z where 3: "nm_IsMountPoint (ns_Mounter n) (npv_TargetPath req) w2 = (w3, z)" by fastforce
    show ?thesis using False c 1 2 3 by_protocol by (cases y; cases z) (simp_all add: NodePublishVolume_def)
  qed
qed

end

subsection \<open>Identities\<close>

text \<open>Of all nodes only the one named in the identity can present it.\<close>

lemma HostIdentity_inj:
  assumes "inj uuid5" "fst (HostIdentity uuid5 a volume) = fst (HostIdentity uuid5 b volume)"
  shows "a = b"
  using assms by (auto simp: HostIdentity_def Let_def dest: injD)

end
