(* ===== verification/NodeStore.thy ===== *)
theory NodeStore
  imports ShareStore NodeSafety
begin

text \<open>
  A host for the node service on top of the store of the share controllers: devices with the type of
  the file system on them, mounts, a connected NVMe device in \<open>/sys\<close>, and a clock that waits advance.
\<close>

definition connect_sysfs :: "string \<Rightarrow> share_world \<Rightarrow> share_world" where
  "connect_sysfs nqn w =
     w\<lparr>sw_dirs := AList.update sysClassNVMe [(''nvme0'', False)] (AList.update ''/sys/class/nvme/nvme0'' [(''nvme0c0n1'', True)] (sw_dirs w)),
       sw_files := AList.update ''/sys/class/nvme/nvme0/subsysnqn'' nqn (AList.update ''/sys/block/nvme0n1/size'' ''8'' (sw_files w))\<rparr>"

definition node_run :: "share_world Runner" where
  "node_run name args w =
     (if name = ''blkid'' then
        (w, case map_of (sw_devices w) (last args) of None \<Rightarrow> Inl (errorf ''exit status 2'')
            | Some t \<Rightarrow> if t = ''io-error'' then Inl (errorf ''exit status 4'') else Inr t)
      else if HasPrefix name ''mkfs.'' then
        (w\<lparr>sw_devices := AList.update (last args) (TrimPrefix name ''mkfs.'') (sw_devices w)\<rparr>, Inr '''')
      else if name = ''mount'' then
        (w\<lparr>sw_mounted := AList.update (last args) (last (butlast args)) (sw_mounted w)\<rparr>, Inr '''')
      else if name = ''nvme'' \<and> take 1 args = [''connect''] then (connect_sysfs (args ! 8) w, Inr '''')
      else (w, Inr ''''))"

definition node_mounter :: "share_world hostMounter" where
  "node_mounter =
     \<lparr>hm_run = node_run, hm_OS = share_os, hm_OpenCreate = (\<lambda>p w. (w\<lparr>sw_files := AList.update p '''' (sw_files w)\<rparr>, None)),
      hm_StatMode = (\<lambda>p w. (w, Inr \<lparr>fm_Device = False, fm_CharDevice = False\<rparr>)), hm_Open = (\<lambda>p w. (w, None)),
      hm_BlockSize = (\<lambda>p w. (w, Inr 4096)),
      hm_Statfs = (\<lambda>p w. (w, Inr \<lparr>sf_Bsize = 4096, sf_Blocks = 10, sf_Bfree = 4, sf_Bavail = 3, sf_Files = 5, sf_Ffree = 2\<rparr>)),
      hm_Race = (\<lambda>t f w. map_prod id Some (f w)), hm_Now = (\<lambda>w. (w, sw_clock w)),
      hm_Wait = (\<lambda>d w. (w\<lparr>sw_clock := sw_clock w + max 0 d\<rparr>, None)), hm_Unmarshal = (\<lambda>s. None),
      hm_unmountTimeout = 0, hm_forceLazyUnmount = False\<rparr>"

definition demo_node :: "share_world hostMounter \<Rightarrow> string \<Rightarrow> share_world NodeServer" where
  "demo_node m node =
     \<lparr>ns_Client = share_client, ns_Lib = std_lib (\<lambda>w. 0), ns_Mounter = as_mounter m, ns_UUID5 = (\<lambda>s. s), ns_NodeID = node,
      ns_NVMeTransport = '''', ns_NVMePort = ''''\<rparr>"

text \<open>The file system \<open>blkid\<close> finds on a device.\<close>

definition fs_on :: "string \<Rightarrow> share_world \<Rightarrow> string" where
  "fs_on device w =
     (case map_of (sw_devices w) device of None \<Rightarrow> '''' | Some t \<Rightarrow> if t = ''io-error'' then '''' else TrimSpace t)"

lemmas node_world_defs = node_mounter_def node_run_def connect_sysfs_def share_os_def share_client_def sw_get_def sw_put_def

interpretation formatted_demo: formatted_node "fs_on device" "std_lib (\<lambda>w. 0)" node_mounter share_client device for device
proof unfold_locales
  show "keeps (\<lambda>w w'. fs_on device w \<noteq> '''' \<longrightarrow> fs_on device w' = fs_on device w) (hm_Race node_mounter t f)"
    if "keeps (\<lambda>w w'. fs_on device w \<noteq> '''' \<longrightarrow> fs_on device w' = fs_on device w) f" for t f
    using that by (auto simp: keeps_def node_world_defs)
  show "fs_on device (fst (hm_run node_mounter name args w)) = fs_on device w" if "last args \<noteq> device" for name args w
    using that by (auto simp: fs_on_def node_world_defs update_conv')
qed (auto simp: keeps_def fs_on_def node_world_defs split: option.split option.splits if_splits)

interpretation demo_clock: node_clock sw_clock "std_lib (\<lambda>w. 0)" node_mounter share_client
proof unfold_locales
  show "keeps (\<lambda>w w'. sw_clock w \<le> sw_clock w') (hm_Race node_mounter t f)" if "keeps (\<lambda>w w'. sw_clock w \<le> sw_clock w') f" for t f
    using that by (auto simp: keeps_def node_world_defs)
qed (auto simp: keeps_def node_world_defs split: option.split)

subsection \<open>A publish\<close>

definition demo_publish :: "string \<Rightarrow> NodePublishVolumeRequest" where
  "demo_publish volume =
     \<lparr>npv_VolumeId = volume, npv_TargetPath = ''/target'',
      npv_VolumeCapability = Some \<lparr>cap_Block = False, cap_Mount = Some '''', cap_AccessMode = Some SINGLE_NODE_WRITER, cap_MountFlags = []\<rparr>,
      npv_Readonly = False\<rparr>"

text \<open>The zvol is exported and holds a file system of another type than the one asked for, or cannot be read.\<close>

definition exported_start :: "string \<Rightarrow> share_world" where
  "exported_start t = share_start\<lparr>sw_exports := [(''zv'', (new_export ''zv'')\<lparr>ne_Status := (ne_Status (new_export ''zv''))\<lparr>nest_NQN := ''nqn.zv''\<rparr>\<rparr>)],
     sw_devices := [(''/dev/nvme0n1'', t)]\<rparr>"

definition formatted_start :: share_world where "formatted_start = exported_start ''xfs''"

definition unreadable_start :: share_world where "unreadable_start = exported_start ''io-error''"

text \<open>The pass of the operator over the zvol.\<close>

lemma zvol_demo_run:
  "\<exists>s. snd (reconcileVolume demo_ar ''zv'' share_start) = Inr (Some s, [''a''], False) \<and> zshs_Protocol (zsh_Spec s) = ProtocolNVMeoF"
proof -
  define res where "res = snd (reconcileVolume demo_ar ''zv'' share_start)"
  have "(case res of Inr (Some s, e, l) \<Rightarrow> e = [''a''] \<and> \<not> l \<and> zshs_Protocol (zsh_Spec s) = ProtocolNVMeoF | _ \<Rightarrow> False)"
    unfolding res_def by code_simp
  then show ?thesis unfolding res_def [symmetric] by (auto split: sum.splits option.splits prod.splits)
qed

end
