(* ===== verification/ZfsCli.thy ===== *)
theory ZfsCli
  imports HostFs
begin

text \<open>
  The host side of \<open>src/internal/zpool\<close>: the command-line implementation \<open>CLI\<close> of the interface \<open>ZFS\<close>
  (\<open>zfs.go\<close>), the runners (\<open>execRunner\<close> of \<open>discover.go\<close>, \<open>hostexec.go\<close>, \<open>logging.go\<close>), pool discovery
  (\<open>discover.go\<close>) and the scrub commands with their report (\<open>scrub.go\<close>). The programs behind a runner are not
  part of the repository: a runner is a parameter, and so is \<open>exec.CommandContext\<close>. What a log line
  says is left out, so the logging runner only passes its call on.
\<close>

subsection \<open>Runners\<close>

text \<open>\<open>exec.CommandContext(..).Output()\<close>: the output, or the error and, when the program exited, its error output.\<close>

type_synonym 'w Exec = "string \<Rightarrow> string list \<Rightarrow> 'w \<Rightarrow> 'w \<times> (goerr \<times> string option + string)"

definition execRunner :: "'w Exec \<Rightarrow> 'w Runner" where
  "execRunner ex name args w =
     (case ex name args w of
        (w1, Inl (e, Some stderr)) \<Rightarrow> (w1, Inl (errorf (name @ '' '' @ Join '' '' args @ '': '' @ err_text e @ '': '' @ TrimSpace stderr)))
      | (w1, Inl (e, None)) \<Rightarrow> (w1, Inl (wrapf (name @ '' '' @ Join '' '' args @ '': '') e))
      | (w1, Inr out) \<Rightarrow> (w1, Inr out))"

text \<open>A nil runner stands for the real one.\<close>

definition runner_or :: "'w Exec \<Rightarrow> 'w Runner option \<Rightarrow> 'w Runner" where
  "runner_or ex run = (case run of None \<Rightarrow> execRunner ex | Some r \<Rightarrow> r)"

definition LoggingRunner :: "'w Exec \<Rightarrow> 'w Runner option \<Rightarrow> 'w Runner" where
  "LoggingRunner ex base name args w = runner_or ex base name args w"

definition DefaultHostPathDirs :: "string list" where
  "DefaultHostPathDirs =
     [''/usr/local/sbin'', ''/usr/local/bin'', ''/usr/sbin'', ''/usr/bin'', ''/sbin'', ''/bin'', ''/run/current-system/sw/bin'']"

abbreviation (input) HostExecNone :: string where "HostExecNone \<equiv> ''''"

abbreviation HostExecChroot :: string where "HostExecChroot \<equiv> ''chroot''"

abbreviation HostExecNsenter :: string where "HostExecNsenter \<equiv> ''nsenter''"

record HostExec =
  he_Mode :: string
  he_HostRoot :: string
  he_TargetPID :: int
  he_PathDirs :: "string list"

definition fileExists :: "'w OS \<Rightarrow> string \<Rightarrow> 'w \<Rightarrow> 'w \<times> bool" where
  "fileExists os p w = (case os_Stat os p w of (w1, Inl _) \<Rightarrow> (w1, False) | (w1, Inr isDir) \<Rightarrow> (w1, \<not> isDir))"

fun probe_dirs :: "'w OS \<Rightarrow> string \<Rightarrow> string \<Rightarrow> string list \<Rightarrow> 'w \<Rightarrow> 'w \<times> string option" where
  "probe_dirs os probeRoot name [] w = (w, None)"
| "probe_dirs os probeRoot name (d # ds) w =
     (case fileExists os (path_Join [probeRoot, d, name]) w of (w1, ok) \<Rightarrow>
        if ok then (w1, Some (path_Join [d, name])) else probe_dirs os probeRoot name ds w1)"

definition resolveHostBinary :: "'w OS \<Rightarrow> string \<Rightarrow> string \<Rightarrow> string list \<Rightarrow> 'w \<Rightarrow> 'w \<times> string option" where
  "resolveHostBinary os probeRoot name dirs w =
     (if Contains name ''/'' then
        (case fileExists os (path_Join [probeRoot, name]) w of (w1, ok) \<Rightarrow> (w1, if ok then Some name else None))
      else probe_dirs os probeRoot name dirs w)"

text \<open>What the command becomes on the host: the resolved binary, or a clean environment with the search path.\<close>

definition host_command :: "string option \<Rightarrow> string list \<Rightarrow> string \<Rightarrow> string list \<Rightarrow> string list" where
  "host_command hostBin dirs name args =
     (case hostBin of
        Some b \<Rightarrow> b # args
      | None \<Rightarrow> [''/usr/bin/env'', ''-i'', ''PATH='' @ Join '':'' dirs, name] @ args)"

definition BuildRunner :: "'w Exec \<Rightarrow> 'w OS \<Rightarrow> HostExec \<Rightarrow> 'w Runner option \<Rightarrow> 'w Runner" where
  "BuildRunner ex os h base0 name args w =
     (let base = runner_or ex base0 in
      if he_Mode h = HostExecNone \<or> he_Mode h = ''none'' then base name args w
      else
        let dirs = (if he_PathDirs h = [] then DefaultHostPathDirs else he_PathDirs h);
            hostRoot = (if he_HostRoot h = '''' then ''/host'' else he_HostRoot h);
            pid = (if he_TargetPID h \<le> 0 then 1 else he_TargetPID h);
            probeRoot = (if he_Mode h = HostExecChroot then hostRoot
              else if he_Mode h = HostExecNsenter then ''/proc/'' @ FormatInt pid @ ''/root'' else '''') in
        case resolveHostBinary os probeRoot name dirs w of (w1, hostBin) \<Rightarrow>
          if he_Mode h = HostExecChroot then base ''chroot'' (hostRoot # host_command hostBin dirs name args) w1
          else if he_Mode h = HostExecNsenter then
            base ''nsenter'' ([''--target'', FormatInt pid, ''--mount'', ''--uts'', ''--ipc'', ''--net'', ''--''] @ host_command hostBin dirs name args) w1
          else (w1, Inl (errorf (''unknown host-exec mode '' @ Quote (he_Mode h)))))"

subsection \<open>The command-line ZFS\<close>

record 'w CLI =
  cli_Bin :: string
  cli_Run :: "'w Runner option"
  cli_Exec :: "'w Exec"

definition NewZFS :: "'w Exec \<Rightarrow> 'w Runner option \<Rightarrow> 'w CLI" where
  "NewZFS ex run = \<lparr>cli_Bin = ''zfs'', cli_Run = run, cli_Exec = ex\<rparr>"

definition cli_exec :: "'w CLI \<Rightarrow> 'w Runner" where
  "cli_exec z = runner_or (cli_Exec z) (cli_Run z)"

definition cli_run :: "'w CLI \<Rightarrow> string list \<Rightarrow> ('w, string) query" where
  "cli_run z args = cli_exec z (if cli_Bin z = '''' then ''zfs'' else cli_Bin z) args"

definition cli_act :: "'w CLI \<Rightarrow> string list \<Rightarrow> 'w act" where
  "cli_act z args w = (case cli_run z args w of (w1, Inl e) \<Rightarrow> (w1, Some e) | (w1, Inr _) \<Rightarrow> (w1, None))"

definition isNotExist :: "goerr \<Rightarrow> bool" where
  "isNotExist e \<longleftrightarrow> Contains (err_text e) ''does not exist'' \<or> Contains (err_text e) ''could not find any snapshots to destroy''"

definition isExists :: "goerr \<Rightarrow> bool" where
  "isExists e \<longleftrightarrow> Contains (err_text e) ''already exists''"

definition normalizeMountpoint :: "string \<Rightarrow> string" where
  "normalizeMountpoint mp = (if TrimSpace mp \<in> {'''', ''-'', ''none'', ''legacy''} then '''' else TrimSpace mp)"

definition propArgs :: "props \<Rightarrow> string list" where
  "propArgs ps = concat (map (\<lambda>k. [''-o'', k @ ''='' @ mgets ps k]) (sort (keys ps)))"

definition chownSpec :: "int option \<Rightarrow> int option \<Rightarrow> string" where
  "chownSpec uid gid =
     (let u = (case uid of None \<Rightarrow> '''' | Some n \<Rightarrow> FormatInt n); g = (case gid of None \<Rightarrow> '''' | Some n \<Rightarrow> FormatInt n) in
      if g = '''' then u else u @ '':'' @ g)"

definition cli_chmod :: "'w CLI \<Rightarrow> string \<Rightarrow> string \<Rightarrow> 'w act" where
  "cli_chmod z mountpoint mode w =
     (if mode = '''' then (w, None)
      else case cli_exec z ''chmod'' [mode, mountpoint] w of
        (w1, Inl e) \<Rightarrow> (w1, Some (wrapf (''chmod '' @ mode @ '' '' @ mountpoint @ '': '') e))
      | (w1, Inr _) \<Rightarrow> (w1, None))"

definition cli_ApplyOwnership :: "'w CLI \<Rightarrow> string \<Rightarrow> int option \<Rightarrow> int option \<Rightarrow> string \<Rightarrow> 'w act" where
  "cli_ApplyOwnership z mountpoint uid gid mode w =
     (if mountpoint = '''' then (w, Some (errorf ''mountpoint is empty''))
      else if uid \<noteq> None \<or> gid \<noteq> None then
        (case cli_exec z ''chown'' [chownSpec uid gid, mountpoint] w of
           (w1, Inl e) \<Rightarrow> (w1, Some (wrapf (''chown '' @ chownSpec uid gid @ '' '' @ mountpoint @ '': '') e))
         | (w1, Inr _) \<Rightarrow> cli_chmod z mountpoint mode w1)
      else cli_chmod z mountpoint mode w)"

definition cli_CreateDataset :: "'w CLI \<Rightarrow> string \<Rightarrow> props \<Rightarrow> 'w act" where
  "cli_CreateDataset z name ps w =
     (if name = '''' then (w, Some (errorf ''dataset name is empty'')) else cli_act z ([''create''] @ propArgs ps @ [name]) w)"

definition cli_CreateZvol :: "'w CLI \<Rightarrow> string \<Rightarrow> int \<Rightarrow> props \<Rightarrow> 'w act" where
  "cli_CreateZvol z name sizeBytes ps w =
     (if name = '''' then (w, Some (errorf ''zvol name is empty''))
      else if sizeBytes \<le> 0 then (w, Some (errorf (''zvol size must be > 0, got '' @ FormatInt sizeBytes)))
      else cli_act z ([''create'', ''-V'', FormatInt sizeBytes] @ propArgs ps @ [name]) w)"

text \<open>A failure that means the object is gone, or is there already, is a success.\<close>

definition tolerate :: "(goerr \<Rightarrow> bool) \<Rightarrow> 'w \<times> goerr option \<Rightarrow> 'w \<times> goerr option" where
  "tolerate ok r = (case r of (w, Some e) \<Rightarrow> (w, if ok e then None else Some e) | (w, None) \<Rightarrow> (w, None))"

definition cli_Destroy :: "'w CLI \<Rightarrow> string \<Rightarrow> bool \<Rightarrow> 'w act" where
  "cli_Destroy z name recursive w =
     (if name = '''' then (w, Some (errorf ''dataset name is empty''))
      else tolerate isNotExist (cli_act z ([''destroy''] @ (if recursive then [''-r''] else []) @ [name]) w))"

definition cli_DestroySnapshotDeferred :: "'w CLI \<Rightarrow> string \<Rightarrow> 'w act" where
  "cli_DestroySnapshotDeferred z snapshot w =
     (if \<not> Contains snapshot ''@'' then (w, Some (errorf (''snapshot name '' @ Quote snapshot @ '' must be of the form pool/dataset@snap'')))
      else tolerate isNotExist (cli_act z [''destroy'', ''-d'', snapshot] w))"

definition cli_Get :: "'w CLI \<Rightarrow> string \<Rightarrow> string \<Rightarrow> ('w, string) query" where
  "cli_Get z name property w =
     (case cli_run z [''get'', ''-H'', ''-p'', ''-o'', ''value'', property, name] w of
        (w1, Inl e) \<Rightarrow> (w1, Inl (if isNotExist e then not_exist_err name else e))
      | (w1, Inr out) \<Rightarrow> (w1, Inr (TrimSpace out)))"

definition snapshot_name_err :: "string list \<Rightarrow> goerr option" where
  "snapshot_name_err names =
     (if names = [] then Some (errorf ''snapshot name is empty'')
      else case find (\<lambda>n. n = '''' \<or> \<not> Contains n ''@'') names of
        None \<Rightarrow> None
      | Some n \<Rightarrow> Some (errorf (if n = '''' then ''snapshot name is empty''
          else ''snapshot name '' @ Quote n @ '' must be of the form pool/dataset@snap'')))"

text \<open>After an \<open>already exists\<close> for several names: success only when every one of them is there.\<close>

fun all_exist :: "'w CLI \<Rightarrow> string list \<Rightarrow> 'w act" where
  "all_exist z [] w = (w, None)"
| "all_exist z (name # names) w =
     (case cli_Get z name ''type'' w of
        (w1, Inl e) \<Rightarrow>
          (w1, Some (if errors_Is e ErrNotExist
             then GoErr (Some ErrSnapshotsPartiallyExist) (partially_exist_text @ '': '' @ name @ '' is missing'') else e))
      | (w1, Inr _) \<Rightarrow> all_exist z names w1)"

definition cli_Snapshot :: "'w CLI \<Rightarrow> string list \<Rightarrow> 'w act" where
  "cli_Snapshot z names w =
     (case snapshot_name_err names of
        Some e \<Rightarrow> (w, Some e)
      | None \<Rightarrow>
          (case cli_act z (''snapshot'' # names) w of
             (w1, None) \<Rightarrow> (w1, None)
           | (w1, Some e) \<Rightarrow>
               if \<not> isExists e then (w1, Some e)
               else if length names = 1 then (w1, None)
               else all_exist z names w1))"

definition cli_Clone :: "'w CLI \<Rightarrow> string \<Rightarrow> string \<Rightarrow> props \<Rightarrow> 'w act" where
  "cli_Clone z snapshot dest ps w =
     (if snapshot = '''' \<or> dest = '''' then (w, Some (errorf ''clone requires both snapshot and dest names''))
      else if \<not> Contains snapshot ''@'' then (w, Some (errorf (''clone source '' @ Quote snapshot @ '' must be a snapshot (pool/dataset@snap)'')))
      else tolerate isExists (cli_act z ([''clone''] @ propArgs ps @ [snapshot, dest]) w))"

definition nonempty_trimmed :: "string list \<Rightarrow> string list" where
  "nonempty_trimmed ls = filter (\<lambda>l. l \<noteq> '''') (map TrimSpace ls)"

definition out_lines :: "string \<Rightarrow> string list" where
  "out_lines out = Split (CHR 10) (TrimRight (CHR 10) out)"

definition cli_ListSnapshots :: "'w CLI \<Rightarrow> string \<Rightarrow> ('w, string list) query" where
  "cli_ListSnapshots z dataset w =
     (if dataset = '''' then (w, Inl (errorf ''dataset name is empty''))
      else case cli_run z [''list'', ''-H'', ''-o'', ''name'', ''-t'', ''snapshot'', ''-d'', ''1'', ''-s'', ''creation'', dataset] w of
        (w1, Inl e) \<Rightarrow> (w1, Inl (if isNotExist e then not_exist_err dataset else e))
      | (w1, Inr out) \<Rightarrow> (w1, Inr (nonempty_trimmed (out_lines out))))"

definition cli_Clones :: "'w CLI \<Rightarrow> string \<Rightarrow> ('w, string list) query" where
  "cli_Clones z snapshot w =
     (if \<not> Contains snapshot ''@'' then (w, Inl (errorf (''clones requires a snapshot name (pool/dataset@snap), got '' @ Quote snapshot)))
      else case cli_Get z snapshot ''clones'' w of
        (w1, Inl e) \<Rightarrow> (w1, Inl e)
      | (w1, Inr val) \<Rightarrow>
          (w1, Inr (if TrimSpace val = '''' \<or> TrimSpace val = ''-'' then [] else nonempty_trimmed (Split (CHR '','') (TrimSpace val)))))"

abbreviation promoteMaxAttempts :: nat where "promoteMaxAttempts \<equiv> 20"

definition isOriginEmpty :: "string \<Rightarrow> bool" where
  "isOriginEmpty origin \<longleftrightarrow> TrimSpace origin = '''' \<or> TrimSpace origin = ''-''"

text \<open>The attempts that are left; \<open>prev\<close> is the origin as last read.\<close>

fun promote_attempts :: "'w CLI \<Rightarrow> string \<Rightarrow> nat \<Rightarrow> string \<Rightarrow> 'w act" where
  "promote_attempts z dataset 0 prev w =
     (w, Some (errorf (''zfs promote '' @ dataset @ '': origin did not change after '' @ FormatInt (int promoteMaxAttempts) @ '' attempts'')))"
| "promote_attempts z dataset (Suc left) prev w =
     (case cli_run z [''promote'', dataset] w of
        (w1, Inl e) \<Rightarrow>
          (w1, Some (wrapf (''zfs promote '' @ dataset @ '' (attempt '' @ FormatInt (int (promoteMaxAttempts - left)) @ ''/''
             @ FormatInt (int promoteMaxAttempts) @ ''): '') e))
      | (w1, Inr _) \<Rightarrow>
          (case cli_Get z dataset ''origin'' w1 of
             (w2, Inl e) \<Rightarrow> (w2, Some e)
           | (w2, Inr now) \<Rightarrow> if now \<noteq> prev then (w2, None) else promote_attempts z dataset left now w2))"

definition cli_Promote :: "'w CLI \<Rightarrow> string \<Rightarrow> 'w act" where
  "cli_Promote z dataset w =
     (if dataset = '''' then (w, Some (errorf ''dataset name is empty''))
      else case cli_Get z dataset ''origin'' w of
        (w1, Inl e) \<Rightarrow> (w1, Some e)
      | (w1, Inr prev) \<Rightarrow> if isOriginEmpty prev then (w1, None) else promote_attempts z dataset promoteMaxAttempts prev w1)"

definition cli_SetProperty :: "'w CLI \<Rightarrow> string \<Rightarrow> string \<Rightarrow> string \<Rightarrow> 'w act" where
  "cli_SetProperty z name property val w =
     (if name = '''' then (w, Some (errorf ''dataset name is empty''))
      else if property = '''' then (w, Some (errorf ''property is empty''))
      else cli_act z [''set'', property @ ''='' @ val, name] w)"

text \<open>One line of \<open>zfs list\<close>; blank and short lines are skipped.\<close>

definition list_line :: "string \<Rightarrow> Dataset option" where
  "list_line line =
     (let fields = Split (CHR 9) line in
      if TrimSpace line = '''' \<or> length fields < 2 then None
      else Some \<lparr>Dataset_Name = fields ! 0, Dataset_Type = fields ! 1,
        Dataset_Mountpoint = (if length fields \<ge> 3 then normalizeMountpoint (fields ! 2) else '''')\<rparr>)"

definition cli_List :: "'w CLI \<Rightarrow> DatasetKind \<Rightarrow> ('w, Dataset list) query" where
  "cli_List z kind w =
     (case cli_run z [''list'', ''-H'', ''-p'', ''-o'', ''name,type,mountpoint'', ''-t'', if kind = '''' then KindAll else kind] w of
        (w1, Inl e) \<Rightarrow> (w1, Inl e)
      | (w1, Inr out) \<Rightarrow> (w1, Inr (List.map_filter list_line (out_lines out))))"

text \<open>The methods as a value of the interface.\<close>

definition cli_ZFS :: "'w CLI \<Rightarrow> 'w ZFS" where
  "cli_ZFS z =
     \<lparr>CreateDataset = cli_CreateDataset z, CreateZvol = cli_CreateZvol z, Snapshot = cli_Snapshot z, Clone = cli_Clone z,
      Promote = cli_Promote z, Destroy = cli_Destroy z, DestroySnapshotDeferred = cli_DestroySnapshotDeferred z,
      ListSnapshots = cli_ListSnapshots z, Clones = cli_Clones z, Get = cli_Get z, SetProperty = cli_SetProperty z,
      ListDatasets = cli_List z, ApplyOwnership = cli_ApplyOwnership z\<rparr>"

end
