(* ===== verification/PoolTools.thy ===== *)
theory PoolTools
  imports ZfsCli Kube
begin

text \<open>
  Pools as the nodes see them: discovery (\<open>src/internal/zpool/discover.go\<close>), the scrub commands
  (\<open>src/internal/zpool/scrub.go\<close>) and the program that runs one scrub (\<open>src/cmd/zpool-scrub/main.go\<close>), the
  reporter that publishes the pools of a node (\<open>src/internal/controller/zpool_discovery.go\<close>) and the watcher
  that marks the pools of a dead node (\<open>src/internal/controller/zpool_watcher.go\<close>).
\<close>

subsection \<open>Discovery\<close>

record Pool =
  pool_Name :: string
  pool_GUID :: string
  pool_Health :: ZfsPoolHealth
  pool_Mountpoint :: string

record 'w Discoverer =
  d_ZpoolBin :: string
  d_ZfsBin :: string
  d_Run :: "'w Runner option"
  d_Exec :: "'w Exec"

definition NewDiscoverer :: "'w Exec \<Rightarrow> 'w Discoverer" where
  "NewDiscoverer ex = \<lparr>d_ZpoolBin = ''zpool'', d_ZfsBin = ''zfs'', d_Run = Some (execRunner ex), d_Exec = ex\<rparr>"

definition MapHealth :: "string \<Rightarrow> ZfsPoolHealth" where
  "MapHealth state =
     (let s = ToUpper (TrimSpace state) in
      if s = ''ONLINE'' then PoolHealthOnline
      else if s = ''DEGRADED'' then PoolHealthDegraded
      else if s \<in> {''FAULTED'', ''OFFLINE'', ''UNAVAIL'', ''REMOVED''} then PoolHealthFaulted
      else if s = ''SUSPENDED'' then PoolHealthSuspended
      else PoolHealthUnknown)"

definition d_mountpoint :: "'w Discoverer \<Rightarrow> 'w Runner \<Rightarrow> string \<Rightarrow> ('w, string) query" where
  "d_mountpoint d run pool w =
     (case cli_Get \<lparr>cli_Bin = d_ZfsBin d, cli_Run = Some run, cli_Exec = d_Exec d\<rparr> pool ''mountpoint'' w of
        (w1, Inl e) \<Rightarrow> (w1, Inl e)
      | (w1, Inr mp) \<Rightarrow> (w1, Inr (normalizeMountpoint mp)))"

text \<open>The loop over the lines of \<open>zpool list\<close>; a mountpoint that cannot be read stays empty.\<close>

fun discover_lines :: "'w Discoverer \<Rightarrow> 'w Runner \<Rightarrow> string list \<Rightarrow> 'w \<Rightarrow> 'w \<times> Pool list" where
  "discover_lines d run [] w = (w, [])"
| "discover_lines d run (line # lines) w =
     (let fields = Fields (TrimSpace line) in
      if TrimSpace line = '''' \<or> length fields < 3 then discover_lines d run lines w
      else case d_mountpoint d run (fields ! 0) w of (w1, mp) \<Rightarrow>
        case discover_lines d run lines w1 of (w2, pools) \<Rightarrow>
          (w2, \<lparr>pool_Name = fields ! 0, pool_GUID = fields ! 1, pool_Health = MapHealth (fields ! 2),
                pool_Mountpoint = (case mp of Inl _ \<Rightarrow> '''' | Inr m \<Rightarrow> m)\<rparr> # pools))"

definition Discover :: "'w Discoverer \<Rightarrow> ('w, Pool list) query" where
  "Discover d w =
     (let run = runner_or (d_Exec d) (d_Run d) in
      case run (if d_ZpoolBin d = '''' then ''zpool'' else d_ZpoolBin d) [''list'', ''-H'', ''-o'', ''name,guid,health''] w of
        (w1, Inl e) \<Rightarrow> (w1, Inl (wrapf ''list pools: '' e))
      | (w1, Inr out) \<Rightarrow> (case discover_lines d run (out_lines out) w1 of (w2, pools) \<Rightarrow> (w2, Inr pools)))"

subsection \<open>Scrub\<close>

definition zpool_bin :: "string \<Rightarrow> string" where
  "zpool_bin b = (if b = '''' then ''zpool'' else b)"

definition guid_line :: "string \<Rightarrow> string \<Rightarrow> string option" where
  "guid_line guid line =
     (let fields = Fields (TrimSpace line) in if length fields \<ge> 2 \<and> fields ! 1 = guid then Some (fields ! 0) else None)"

definition PoolNameByGUID :: "'w Runner \<Rightarrow> string \<Rightarrow> string \<Rightarrow> ('w, string) query" where
  "PoolNameByGUID run b guid w =
     (case run (zpool_bin b) [''list'', ''-H'', ''-o'', ''name,guid''] w of
        (w1, Inl e) \<Rightarrow> (w1, Inl (wrapf ''list pools: '' e))
      | (w1, Inr out) \<Rightarrow>
          (w1, case List.map_filter (guid_line guid) (out_lines out) of
                 n # _ \<Rightarrow> Inr n
               | [] \<Rightarrow> Inl (errorf (''no pool with GUID '' @ Quote guid @ '' is imported on this node''))))"

definition Scrub :: "'w Runner \<Rightarrow> string \<Rightarrow> string \<Rightarrow> 'w act" where
  "Scrub run b pool w =
     (case run (zpool_bin b) [''scrub'', ''-w'', pool] w of
        (w1, Inl e) \<Rightarrow> (w1, Some (wrapf (''scrub '' @ pool @ '': '') e))
      | (w1, Inr _) \<Rightarrow> (w1, None))"

definition zpool_Status :: "'w Runner \<Rightarrow> string \<Rightarrow> string \<Rightarrow> ('w, string) query" where
  "zpool_Status run b pool w =
     (case run (zpool_bin b) [''status'', pool] w of
        (w1, Inl e) \<Rightarrow> (w1, Inl (wrapf (''status '' @ pool @ '': '') e))
      | (w1, Inr out) \<Rightarrow> (w1, Inr out))"

record ScrubReport =
  sr_State :: string
  sr_Scan :: string
  sr_Errors :: string
  sr_OK :: bool

definition report_line :: "string \<Rightarrow> ScrubReport \<Rightarrow> ScrubReport" where
  "report_line raw r =
     (let line = TrimSpace raw in
      if HasPrefix line ''state:'' then r\<lparr>sr_State := TrimSpace (TrimPrefix line ''state:'')\<rparr>
      else if HasPrefix line ''scan:'' then r\<lparr>sr_Scan := TrimSpace (TrimPrefix line ''scan:'')\<rparr>
      else if HasPrefix line ''errors:'' then r\<lparr>sr_Errors := TrimSpace (TrimPrefix line ''errors:'')\<rparr>
      else r)"

definition ParseScrubReport :: "string \<Rightarrow> ScrubReport" where
  "ParseScrubReport status =
     (let r = fold report_line (Split (CHR 10) status) \<lparr>sr_State = '''', sr_Scan = '''', sr_Errors = '''', sr_OK = False\<rparr> in
      r\<lparr>sr_OK := ToUpper (sr_State r) = ''ONLINE'' \<and> Contains (ToLower (sr_Errors r)) ''no known data errors''
         \<and> (\<not> Contains (sr_Scan r) ''with '' \<or> Contains (sr_Scan r) ''with 0 errors'')\<rparr>)"

text \<open>The program of a scrub pod: its exit code. The options are parsed before.\<close>

definition scrub_main :: "'w Exec \<Rightarrow> 'w OS \<Rightarrow> HostExec \<Rightarrow> string \<Rightarrow> string \<Rightarrow> 'w \<Rightarrow> 'w \<times> int" where
  "scrub_main ex os h b poolGUID w =
     (if poolGUID = '''' then (w, 2)
      else let run = BuildRunner ex os h None in
        case PoolNameByGUID run b poolGUID w of
          (w1, Inl _) \<Rightarrow> (w1, 1)
        | (w1, Inr pool) \<Rightarrow>
            (case Scrub run b pool w1 of
               (w2, Some _) \<Rightarrow> (w2, 1)
             | (w2, None) \<Rightarrow>
                 (case zpool_Status run b pool w2 of
                    (w3, Inl _) \<Rightarrow> (w3, 1)
                  | (w3, Inr status) \<Rightarrow> (w3, if sr_OK (ParseScrubReport status) then 0 else 1))))"

subsection \<open>The reporter of a node\<close>

text \<open>What the pool components need of the API server; \<open>Create\<close> returns the object as stored.\<close>

record CoreNode =
  cn_Name :: string
  cn_Conditions :: "(string \<times> string) list"

record 'w PoolClient =
  pc_get_ZfsPool :: "string \<Rightarrow> ('w, ZfsPool) query"
  pc_list_ZfsPool :: "('w, ZfsPool list) query"
  pc_create_ZfsPool :: "ZfsPool \<Rightarrow> ('w, ZfsPool) query"
  pc_patch_status_ZfsPool :: "ZfsPool \<Rightarrow> ZfsPool \<Rightarrow> 'w act"
  pc_get_Node :: "string \<Rightarrow> ('w, CoreNode) query"
  pc_Now :: "'w \<Rightarrow> 'w \<times> Time"

record 'w PoolReporter =
  pr_Client :: "'w PoolClient"
  pr_NodeName :: string
  pr_NodeIP :: string
  pr_Discoverer :: "'w Discoverer"

definition new_pool :: "string \<Rightarrow> ZfsPool" where
  "new_pool n =
     \<lparr>zp_Meta = new_meta n,
      zp_Status = \<lparr>zpst_GUID = '''', zpst_PoolName = '''', zpst_CurrentNode = '''', zpst_CurrentIP = '''', zpst_BaseMountPath = '''',
        zpst_Health = '''', zpst_LastUpdated = None, zpst_Message = ''''\<rparr>\<rparr>"

text \<open>The object to patch: read, or created, or read again when another process created it first.\<close>

definition pool_object :: "'w PoolReporter \<Rightarrow> string \<Rightarrow> ('w, ZfsPool) query" where
  "pool_object r name w =
     (case pc_get_ZfsPool (pr_Client r) name w of
        (w1, Inr pool) \<Rightarrow> (w1, Inr pool)
      | (w1, Inl e) \<Rightarrow>
          if \<not> IsNotFound e then (w1, Inl e)
          else case pc_create_ZfsPool (pr_Client r) (new_pool name) w1 of
            (w2, Inr pool) \<Rightarrow> (w2, Inr pool)
          | (w2, Inl e2) \<Rightarrow> if errors_Is e2 StatusAlreadyExists then pc_get_ZfsPool (pr_Client r) name w2 else (w2, Inl e2))"

definition reported :: "'w PoolReporter \<Rightarrow> Pool \<Rightarrow> Time \<Rightarrow> ZfsPool \<Rightarrow> ZfsPool" where
  "reported r p now pool =
     pool\<lparr>zp_Status := (zp_Status pool)\<lparr>zpst_GUID := pool_GUID p, zpst_PoolName := pool_Name p, zpst_CurrentNode := pr_NodeName r,
       zpst_CurrentIP := pr_NodeIP r, zpst_BaseMountPath := pool_Mountpoint p, zpst_Health := pool_Health p,
       zpst_LastUpdated := Some now, zpst_Message := ''reported by '' @ pr_NodeName r\<rparr>\<rparr>"

definition upsert :: "'w PoolReporter \<Rightarrow> Pool \<Rightarrow> 'w act" where
  "upsert r p w =
     (case pool_object r (ResourceName (pool_GUID p)) w of
        (w1, Inl e) \<Rightarrow> (w1, Some e)
      | (w1, Inr pool) \<Rightarrow>
          (case pc_Now (pr_Client r) w1 of (w2, now) \<Rightarrow> pc_patch_status_ZfsPool (pr_Client r) pool (reported r p now pool) w2))"

definition reportOnce :: "'w PoolReporter \<Rightarrow> 'w \<Rightarrow> 'w" where
  "reportOnce r w =
     (case Discover (pr_Discoverer r) w of
        (w1, Inl _) \<Rightarrow> w1
      | (w1, Inr pools) \<Rightarrow> fold (\<lambda>p w. fst (upsert r p w)) pools w1)"

text \<open>The loop until the context ends, which it does after so many ticks.\<close>

definition pr_Start :: "'w PoolReporter \<Rightarrow> nat \<Rightarrow> 'w \<Rightarrow> 'w" where
  "pr_Start r ticks w = (reportOnce r ^^ ticks) (reportOnce r w)"

subsection \<open>The watcher\<close>

definition nodeReady :: "CoreNode \<Rightarrow> bool" where
  "nodeReady node = (case find (\<lambda>(t, s). t = ''Ready'') (cn_Conditions node) of Some (t, s) \<Rightarrow> s = ''True'' | None \<Rightarrow> False)"

definition offlined :: "string \<Rightarrow> Time \<Rightarrow> ZfsPool \<Rightarrow> ZfsPool" where
  "offlined nodeName now p =
     p\<lparr>zp_Status := (zp_Status p)\<lparr>zpst_Health := PoolHealthNodeOffline, zpst_LastUpdated := Some now,
       zpst_Message := ''node '' @ nodeName @ '' is unreachable; offlined by watcher''\<rparr>\<rparr>"

fun offline_pools :: "'w PoolClient \<Rightarrow> string \<Rightarrow> ZfsPool list \<Rightarrow> 'w act" where
  "offline_pools c nodeName [] w = (w, None)"
| "offline_pools c nodeName (p # ps) w =
     (if zpst_CurrentNode (zp_Status p) \<noteq> nodeName \<or> zpst_Health (zp_Status p) = PoolHealthNodeOffline then offline_pools c nodeName ps w
      else case pc_Now c w of (w1, now) \<Rightarrow>
        case pc_patch_status_ZfsPool c p (offlined nodeName now p) w1 of
          (w2, Some e) \<Rightarrow> (w2, Some e)
        | (w2, None) \<Rightarrow> offline_pools c nodeName ps w2)"

definition offlinePoolsForNode :: "'w PoolClient \<Rightarrow> string \<Rightarrow> 'w act" where
  "offlinePoolsForNode c nodeName w =
     (case pc_list_ZfsPool c w of
        (w1, Inl e) \<Rightarrow> (w1, Some e)
      | (w1, Inr pools) \<Rightarrow> offline_pools c nodeName pools w1)"

definition pw_Reconcile :: "'w PoolClient \<Rightarrow> string \<Rightarrow> 'w reconcile" where
  "pw_Reconcile c req w =
     (case pc_get_Node c req w of
        (w1, Inl e) \<Rightarrow> if IsNotFound e then done_with (offlinePoolsForNode c req w1) else done_with (w1, Some e)
      | (w1, Inr node) \<Rightarrow> if nodeReady node then done_with (w1, None) else done_with (offlinePoolsForNode c (cn_Name node) w1))"

end
