(* ===== verification/PoolSafety.thy ===== *)
theory PoolSafety
  imports PoolTools NodeServer
begin

text \<open>
  The pool objects between the reporters of the nodes, the watcher and the node service. The locale
  says what the API server promises when nobody else writes in between: reads show the stored object,
  a patch stores the new one.
\<close>

locale pool_store =
  fixes c :: "'w PoolClient" and view :: "'w \<Rightarrow> string \<rightharpoonup> ZfsPool"
  assumes named: "view w n = Some p \<Longrightarrow> om_Name (zp_Meta p) = n"
    and get_view: "view (fst (pc_get_ZfsPool c n w)) = view w"
    and get_Some: "view w n = Some p \<Longrightarrow> snd (pc_get_ZfsPool c n w) = Inr p"
    and get_None: "view w n = None \<Longrightarrow> \<exists>e. snd (pc_get_ZfsPool c n w) = Inl e \<and> IsNotFound e"
    and list_view: "view (fst (pc_list_ZfsPool c w)) = view w"
    and list_all: "snd (pc_list_ZfsPool c w) = Inr ps \<Longrightarrow> set ps = ran (view w) \<and> distinct ps"
    and create_new: "pc_create_ZfsPool c p w = (w1, Inr q) \<Longrightarrow>
      om_Name (zp_Meta q) = om_Name (zp_Meta p) \<and> view w1 = (view w)(om_Name (zp_Meta p) \<mapsto> q)"
    and create_fails: "pc_create_ZfsPool c p w = (w1, Inl e) \<Longrightarrow> view w1 = view w"
    and patch_stores: "pc_patch_status_ZfsPool c old new w = (w1, None) \<Longrightarrow> view w1 = (view w)(om_Name (zp_Meta new) \<mapsto> new)"
    and now_view: "view (fst (pc_Now c w)) = view w"
    and node_view: "view (fst (pc_get_Node c n w)) = view w"
begin

lemma offline_pools_view:
  assumes "offline_pools c node ps w = (w', None)" "\<forall>p \<in> set ps. view w (om_Name (zp_Meta p)) = Some p" "distinct ps"
  shows "\<exists>f. view w' = (\<lambda>n. map_option (\<lambda>p. if p \<in> set ps \<and> zpst_CurrentNode (zp_Status p) = node \<and>
    zpst_Health (zp_Status p) \<noteq> PoolHealthNodeOffline then offlined node (f p) p else p) (view w n))"
  using assms
proof (induction ps arbitrary: w)
  case Nil
  then show ?case by (simp add: option.map_ident)
next
  case (Cons p ps)
  have vp: "view w (om_Name (zp_Meta p)) = Some p" using Cons(3) by simp
  show ?case
  proof (cases "zpst_CurrentNode (zp_Status p) \<noteq> node \<or> zpst_Health (zp_Status p) = PoolHealthNodeOffline")
    case True
    then have "offline_pools c node ps w = (w', None)" using Cons(2) by simp
    from Cons(1) [OF this] Cons(3,4) obtain f where f: "view w' = (\<lambda>n. map_option (\<lambda>p. if p \<in> set ps \<and> zpst_CurrentNode (zp_Status p) = node \<and>
      zpst_Health (zp_Status p) \<noteq> PoolHealthNodeOffline then offlined node (f p) p else p) (view w n))" by auto
    show ?thesis by (rule exI [of _ f]) (use f True in \<open>auto intro!: ext option.map_cong0\<close>)
  next
    case False
    obtain w1 now where n: "pc_Now c w = (w1, now)" by fastforce
    obtain w2 e where s: "pc_patch_status_ZfsPool c p (offlined node now p) w1 = (w2, e)" by fastforce
    have e: "e = None" "offline_pools c node ps w2 = (w', None)" using Cons(2) False n s by (auto split: option.splits)
    have v1: "view w1 = view w" using now_view [of w] n by simp
    have v2: "view w2 = (view w)(om_Name (zp_Meta p) \<mapsto> offlined node now p)"
      using patch_stores [of p "offlined node now p" w1 w2] s e(1) v1 by (simp add: offlined_def)
    have other: "om_Name (zp_Meta q) \<noteq> om_Name (zp_Meta p)" if "q \<in> set ps" for q
      using Cons(3,4) that vp by (metis distinct.simps(2) list.set_intros(2) option.inject)
    have "\<forall>q \<in> set ps. view w2 (om_Name (zp_Meta q)) = Some q" using Cons(3) other v2 by auto
    from Cons(1) [OF e(2) this] Cons(4) obtain f where f: "view w' = (\<lambda>n. map_option (\<lambda>p. if p \<in> set ps \<and> zpst_CurrentNode (zp_Status p) = node \<and>
      zpst_Health (zp_Status p) \<noteq> PoolHealthNodeOffline then offlined node (f p) p else p) (view w2 n))" by auto
    have off: "offlined node now p \<notin> set ps" using other [of "offlined node now p"] by (auto simp: offlined_def)
    show ?thesis
    proof (rule exI [of _ "f(p := now)"], rule ext)
      fix n
      show "view w' n = map_option (\<lambda>q. if q \<in> set (p # ps) \<and> zpst_CurrentNode (zp_Status q) = node \<and>
        zpst_Health (zp_Status q) \<noteq> PoolHealthNodeOffline then offlined node ((f(p := now)) q) q else q) (view w n)"
      proof (cases "n = om_Name (zp_Meta p)")
        case True
        then have "view w' n = Some (offlined node now p)" unfolding f v2 using off by simp
        then show ?thesis using True vp False by simp
      next
        case n: False
        show ?thesis
        proof (cases "view w n")
          case (Some q)
          have "q \<noteq> p" using named [OF Some] n by blast
          then show ?thesis unfolding f v2 using n Some by simp
        qed (simp add: f v2 n)
      qed
    qed
  qed
qed

text \<open>A pass over a node that is not ready: every pool the node reported last is offline, every other pool is as before.\<close>

lemma watcher_pass:
  assumes "pw_Reconcile c req w = (w', res, None)" "\<And>node. snd (pc_get_Node c req w) = Inr node \<Longrightarrow> cn_Name node = req \<and> \<not> nodeReady node"
    "view w n = Some p"
  shows "\<exists>p'. view w' n = Some p' \<and> zpst_CurrentNode (zp_Status p') = zpst_CurrentNode (zp_Status p) \<and>
    (if zpst_CurrentNode (zp_Status p) = req then zpst_Health (zp_Status p') = PoolHealthNodeOffline else p' = p)"
proof -
  obtain w1 x where g: "pc_get_Node c req w = (w1, x)" by fastforce
  have v1: "view w1 = view w" using node_view [of req w] g by simp
  have off: "offlinePoolsForNode c req w1 = (w', None)"
    using assms(1,2) g by (cases x; cases "offlinePoolsForNode c req w1") (auto simp: pw_Reconcile_def done_with_def split: if_splits)
  obtain w2 y where l: "pc_list_ZfsPool c w1 = (w2, y)" by fastforce
  have v2: "view w2 = view w" using list_view [of w1] l v1 by simp
  obtain ps where ps: "y = Inr ps" "offline_pools c req ps w2 = (w', None)"
    using off l by (cases y) (auto simp: offlinePoolsForNode_def)
  have all: "set ps = ran (view w2)" "distinct ps" using list_all [of w1 ps] l ps(1) v1 v2 by auto
  have "\<forall>q \<in> set ps. view w2 (om_Name (zp_Meta q)) = Some q" using all(1) named by (fastforce simp: ran_def)
  from offline_pools_view [OF ps(2) this all(2)] obtain f where
    "view w' = (\<lambda>n. map_option (\<lambda>p. if p \<in> set ps \<and> zpst_CurrentNode (zp_Status p) = req \<and>
      zpst_Health (zp_Status p) \<noteq> PoolHealthNodeOffline then offlined req (f p) p else p) (view w2 n))" by blast
  moreover have "p \<in> set ps" using all(1) assms(3) v2 by (auto simp: ran_def)
  ultimately show ?thesis using assms(3) v2 by (auto simp: offlined_def)
qed

text \<open>A report: the pool belongs to the node that sees it, with the health it sees; every other pool is as before.\<close>

lemma pool_object_view:
  assumes "pr_Client r = c" "pool_object r n w = (w1, Inr p)"
  shows "om_Name (zp_Meta p) = n \<and> (\<forall>k. k \<noteq> n \<longrightarrow> view w1 k = view w k)"
proof -
  obtain w2 x where g: "pc_get_ZfsPool c n w = (w2, x)" by fastforce
  have v2: "view w2 = view w" using get_view [of n w] g by simp
  show ?thesis
  proof (cases x)
    case (Inr q)
    then have "view w n = Some q" using get_Some [of w n] get_None [of w n] g by (cases "view w n") auto
    then show ?thesis using assms g Inr v2 named by (auto simp: pool_object_def)
  next
    case (Inl e)
    obtain w3 y where cr: "pc_create_ZfsPool c (new_pool n) w2 = (w3, y)" by fastforce
    have nm: "om_Name (zp_Meta (new_pool n)) = n" by (simp add: new_pool_def new_meta_def)
    show ?thesis
    proof (cases y)
      case (Inr q)
      then show ?thesis using assms g Inl cr create_new [of "new_pool n" w2 w3 q] nm v2
        by (auto simp: pool_object_def split: if_splits)
    next
      case (Inl e2)
      have v3: "view w3 = view w" using create_fails [of "new_pool n" w2 w3 e2] cr Inl v2 by simp
      have again: "pc_get_ZfsPool c n w3 = (w1, Inr p)"
        using assms g \<open>x = Inl e\<close> cr Inl by (auto simp: pool_object_def split: if_splits)
      then have "view w3 n = Some p" using get_Some [of w3 n] get_None [of w3 n] by (cases "view w3 n") auto
      then show ?thesis using named get_view [of n w3] again v3 by auto
    qed
  qed
qed

lemma upsert_view:
  assumes "pr_Client r = c" "upsert r p w = (w', None)"
  shows "\<exists>q. view w' (ResourceName (pool_GUID p)) = Some q \<and> zpst_CurrentNode (zp_Status q) = pr_NodeName r \<and>
    zpst_CurrentIP (zp_Status q) = pr_NodeIP r \<and> zpst_Health (zp_Status q) = pool_Health p \<and>
    (\<forall>k. k \<noteq> ResourceName (pool_GUID p) \<longrightarrow> view w' k = view w k)"
proof -
  obtain w1 x where o: "pool_object r (ResourceName (pool_GUID p)) w = (w1, x)" by fastforce
  then obtain q where q: "x = Inr q" using assms(2) by (cases x) (auto simp: upsert_def)
  obtain w2 now where n: "pc_Now c w1 = (w2, now)" by fastforce
  have "view w2 = view w1" using now_view [of w1] n by simp
  moreover have "pc_patch_status_ZfsPool c q (reported r p now q) w2 = (w', None)" using assms o q n by (simp add: upsert_def)
  ultimately have "view w' = (view w1)(om_Name (zp_Meta q) \<mapsto> reported r p now q)"
    using patch_stores [of q "reported r p now q" w2 w'] by (simp add: reported_def)
  then show ?thesis using pool_object_view [OF assms(1) o [unfolded q]] by (auto simp: reported_def)
qed

text \<open>The node service does not mount from a pool whose node is offline.\<close>

lemma offline_refused:
  assumes "get_ZfsPool (ns_Client n) = pc_get_ZfsPool c" "view w (ResourceName guid) = Some p"
    "zpst_Health (zp_Status p) = PoolHealthNodeOffline"
  shows "\<exists>w' msg. resolvePool n guid w = (w', Inl (Status FailedPrecondition msg)) \<and> view w' = view w"
proof -
  obtain w1 x where g: "pc_get_ZfsPool c (ResourceName guid) w = (w1, x)" by fastforce
  then show ?thesis using get_Some [OF assms(2)] get_view [of "ResourceName guid" w] assms(1,3) by (auto simp: resolvePool_def)
qed

end

end
