(* ===== verification/ScrubController.thy ===== *)
theory ScrubController
  imports PoolTools
begin

text \<open>
  Scrubs as Kubernetes jobs: the types of \<open>src/api/v1alpha1/zfspoolscrub_types.go\<close>, the shared helpers of
  \<open>src/internal/controller/scrub_controller.go\<close>, one run (\<open>zfspoolscrubjob_controller.go\<close>) and a schedule
  (\<open>zfspoolscrubcronjob_controller.go\<close>). Of the batch and pod types the fields the controllers read or write
  are kept. The API client, \<open>controllerutil\<close> and the YAML decoder are parameters; the watches are left out.
\<close>

subsection \<open>Types\<close>

type_synonym ZfsPoolScrubPhase = string

abbreviation ScrubPhasePending :: ZfsPoolScrubPhase where "ScrubPhasePending \<equiv> ''Pending''"

abbreviation ScrubPhaseRunning :: ZfsPoolScrubPhase where "ScrubPhaseRunning \<equiv> ''Running''"

abbreviation ScrubPhaseSucceeded :: ZfsPoolScrubPhase where "ScrubPhaseSucceeded \<equiv> ''Succeeded''"

abbreviation ScrubPhaseFailed :: ZfsPoolScrubPhase where "ScrubPhaseFailed \<equiv> ''Failed''"

record ZfsPoolScrubJobSpec =
  sjs_PoolGUID :: string
  sjs_Timeout :: "int option"
  sjs_ActiveDeadlineSeconds :: "int option"
  sjs_TTLSecondsAfterFinished :: "int option"

record ZfsPoolScrubJobStatus =
  sjst_Phase :: ZfsPoolScrubPhase
  sjst_JobName :: string
  sjst_StartTime :: "Time option"
  sjst_CompletionTime :: "Time option"
  sjst_Message :: string

record ZfsPoolScrubJob =
  sj_Meta :: ObjectMeta
  sj_Namespace :: string
  sj_Spec :: ZfsPoolScrubJobSpec
  sj_Status :: ZfsPoolScrubJobStatus

record ZfsPoolScrubCronJobSpec =
  scs_PoolGUID :: string
  scs_Schedule :: string
  scs_Suspend :: "bool option"
  scs_StartingDeadlineSeconds :: "int option"
  scs_Timeout :: "int option"
  scs_ActiveDeadlineSeconds :: "int option"
  scs_SuccessfulJobsHistoryLimit :: "int option"
  scs_FailedJobsHistoryLimit :: "int option"

record ZfsPoolScrubCronJobStatus =
  scst_CronJobName :: string
  scst_Suspended :: bool
  scst_CurrentNode :: string
  scst_LastScheduleTime :: "Time option"
  scst_Message :: string

record ZfsPoolScrubCronJob =
  sc_Meta :: ObjectMeta
  sc_Namespace :: string
  sc_Spec :: ZfsPoolScrubCronJobSpec
  sc_Status :: ZfsPoolScrubCronJobStatus

text \<open>The batch and core objects.\<close>

record Container =
  ct_Name :: string
  ct_Args :: "string list"
  ct_TerminationMessagePolicy :: string

record NodeSelectorRequirement =
  nsr_Key :: string
  nsr_Operator :: string
  nsr_Values :: "string list"

record PodSpec =
  ps_NodeAffinity :: "NodeSelectorRequirement list list option"
  ps_Containers :: "Container list"

record JobSpec =
  js_Pod :: PodSpec
  js_ActiveDeadlineSeconds :: "int option"
  js_TTLSecondsAfterFinished :: "int option"

record JobCondition =
  jc_Type :: string
  jc_Status :: string
  jc_Reason :: string
  jc_Message :: string

record Job =
  job_Meta :: ObjectMeta
  job_Namespace :: string
  job_Spec :: JobSpec
  job_StartTime :: "Time option"
  job_Conditions :: "JobCondition list"

record CronJobSpec =
  cjs_Schedule :: string
  cjs_StartingDeadlineSeconds :: "int option"
  cjs_SuccessfulJobsHistoryLimit :: "int option"
  cjs_FailedJobsHistoryLimit :: "int option"
  cjs_Suspend :: "bool option"
  cjs_JobSpec :: JobSpec

record CronJob =
  cj_Meta :: ObjectMeta
  cj_Namespace :: string
  cj_Spec :: CronJobSpec
  cj_LastScheduleTime :: "Time option"

text \<open>The terminated containers of a pod: exit code and message.\<close>

type_synonym Pod = "(int \<times> string) option list"

record 'w ScrubClient =
  scl_get_ScrubJob :: "string \<Rightarrow> string \<Rightarrow> ('w, ZfsPoolScrubJob) query"
  scl_update_status_ScrubJob :: "ZfsPoolScrubJob \<Rightarrow> 'w act"
  scl_get_ScrubCronJob :: "string \<Rightarrow> string \<Rightarrow> ('w, ZfsPoolScrubCronJob) query"
  scl_update_status_ScrubCronJob :: "ZfsPoolScrubCronJob \<Rightarrow> 'w act"
  scl_list_ScrubCronJob :: "string \<Rightarrow> ('w, ZfsPoolScrubCronJob list) query"
  scl_get_Job :: "string \<Rightarrow> string \<Rightarrow> ('w, Job) query"
  scl_create_Job :: "Job \<Rightarrow> 'w act"
  scl_list_Pod :: "string \<Rightarrow> string \<Rightarrow> ('w, Pod list) query"
  scl_get_ConfigMap :: "string \<Rightarrow> string \<Rightarrow> ('w, props) query"
  scl_list_ZfsPool :: "('w, ZfsPool list) query"
  scl_create_or_update_CronJob :: "string \<Rightarrow> string \<Rightarrow> (CronJob \<Rightarrow> goerr + CronJob) \<Rightarrow> ('w, CronJob) query"

record 'w ScrubReconciler =
  scr_Client :: "'w ScrubClient"
  scr_APIReader :: "'w ScrubClient option"
  scr_Namespace :: string
  scr_ConfigMapName :: string
  scr_IsControlledBy :: "ObjectMeta \<Rightarrow> ObjectMeta \<Rightarrow> bool"
  scr_SetControllerReference :: "ObjectMeta \<Rightarrow> ObjectMeta \<Rightarrow> goerr + ObjectMeta"
  scr_Unmarshal :: "string \<Rightarrow> goerr + CronJob option"
  scr_Now :: "'w \<Rightarrow> 'w \<times> Time"

record ScrubResult = Result +
  Requeue :: bool

abbreviation scrub_done :: ScrubResult where "scrub_done \<equiv> \<lparr>RequeueAfter = 0, Requeue = False\<rparr>"

subsection \<open>Durations\<close>

text \<open>\<open>time.Duration.String\<close>: nanoseconds as \<open>1h2m3.5s\<close>, or one smaller unit below a second.\<close>

definition fmt_frac :: "nat \<Rightarrow> nat \<Rightarrow> string" where
  "fmt_frac v prec =
     (let ds = nat_digits (v mod 10 ^ prec); t = TrimRight CHR ''0'' (replicate (prec - length ds) CHR ''0'' @ ds) in
      if t = '''' then '''' else ''.'' @ t)"

definition fmt_unit :: "nat \<Rightarrow> nat \<Rightarrow> string" where
  "fmt_unit v prec = nat_digits (v div 10 ^ prec) @ fmt_frac v prec"

definition Duration_String :: "int \<Rightarrow> string" where
  "Duration_String d =
     (let u = nat \<bar>d\<bar>; s = u div 10 ^ 9; m = s div 60; h = m div 60;
          body = (if u = 0 then ''0s''
            else if u < 10 ^ 3 then nat_digits u @ ''ns''
            else if u < 10 ^ 6 then fmt_unit u 3 @ [CHR 0xC2, CHR 0xB5] @ ''s''
            else if u < 10 ^ 9 then fmt_unit u 6 @ ''ms''
            else (if h > 0 then nat_digits h @ ''h'' else '''') @ (if m > 0 then nat_digits (m mod 60) @ ''m'' else '''')
              @ nat_digits (s mod 60) @ fmt_frac u 9 @ ''s'') in
      if d < 0 then ''-'' @ body else body)"

subsection \<open>Shared helpers\<close>

abbreviation scrubComponentLabel :: string where "scrubComponentLabel \<equiv> ''app.kubernetes.io/component''"

abbreviation scrubComponentValue :: string where "scrubComponentValue \<equiv> ''scrub''"

abbreviation scrubPoolGUIDLabel :: string where "scrubPoolGUIDLabel \<equiv> ''maintenance.simple-zfs-csi.io/pool-guid''"

abbreviation scrubConfigKey :: string where "scrubConfigKey \<equiv> ''config.yaml''"

abbreviation scrubContainerName :: string where "scrubContainerName \<equiv> ''scrub''"

abbreviation errScrubTemplateMissing :: string where "errScrubTemplateMissing \<equiv> ''scrub template ConfigMap is missing or empty''"

datatype template = TemplateMissing | TemplateError goerr | Template CronJob

definition parse_template :: "'w ScrubReconciler \<Rightarrow> props \<Rightarrow> template" where
  "parse_template r data =
     (let raw = mgets data scrubConfigKey in
      if TrimSpace raw = '''' then TemplateMissing
      else case scr_Unmarshal r raw of
        Inl e \<Rightarrow> TemplateError (wrapf ''parse scrub template: '' e)
      | Inr None \<Rightarrow> TemplateMissing
      | Inr (Some t) \<Rightarrow> Template t)"

definition loadScrubTemplate :: "'w ScrubReconciler \<Rightarrow> 'w \<Rightarrow> 'w \<times> template" where
  "loadScrubTemplate r w =
     (if scr_ConfigMapName r = '''' then (w, TemplateMissing)
      else case scl_get_ConfigMap (scr_Client r) (scr_Namespace r) (scr_ConfigMapName r) w of
        (w1, Inl e) \<Rightarrow> (w1, if IsNotFound e then TemplateMissing else TemplateError e)
      | (w1, Inr data) \<Rightarrow> (w1, parse_template r data))"

definition zfsPoolGUID :: "ZfsPool \<Rightarrow> string" where
  "zfsPoolGUID p = (if zpst_GUID (zp_Status p) \<noteq> '''' then zpst_GUID (zp_Status p) else TrimPrefix (om_Name (zp_Meta p)) ''zpool-'')"

definition poolsByGUID :: "'w ScrubClient \<Rightarrow> ('w, (string, ZfsPool) gomap) query" where
  "poolsByGUID c w =
     (case scl_list_ZfsPool c w of
        (w1, Inl e) \<Rightarrow> (w1, Inl e)
      | (w1, Inr ps) \<Rightarrow> (w1, Inr (fold (\<lambda>p. AList.update (zfsPoolGUID p) p) ps [])))"

text \<open>The node a scrub must run on and the reason why it cannot run, one of them empty.\<close>

definition scrubPoolHost :: "ZfsPool option \<Rightarrow> string \<times> string" where
  "scrubPoolHost pool =
     (case pool of
        None \<Rightarrow> ('''', ''pool not found'')
      | Some p \<Rightarrow>
          if zpst_Health (zp_Status p) = PoolHealthNodeOffline then ('''', [CHR ''p'', CHR ''o'', CHR ''o'', CHR ''l'', CHR 39] @ ''s node is offline'')
          else if zpst_CurrentNode (zp_Status p) = '''' then ('''', ''pool has no current node'')
          else (zpst_CurrentNode (zp_Status p), ''''))"

record scrubJobOverrides =
  ov_timeout :: string
  ov_activeDeadlineSeconds :: "int option"
  ov_ttlSecondsAfterFinished :: "int option"

definition withArg :: "string list \<Rightarrow> string \<Rightarrow> string \<Rightarrow> string list" where
  "withArg args p v = filter (\<lambda>a. \<not> HasPrefix a p) args @ [p @ v]"

definition setHostnameAffinity :: "PodSpec \<Rightarrow> string \<Rightarrow> PodSpec" where
  "setHostnameAffinity pod node =
     pod\<lparr>ps_NodeAffinity := Some [[\<lparr>nsr_Key = ''kubernetes.io/hostname'', nsr_Operator = ''In'', nsr_Values = [node]\<rparr>]]\<rparr>"

text \<open>The last container called \<open>scrub\<close>, or the first one.\<close>

definition scrub_index :: "Container list \<Rightarrow> nat" where
  "scrub_index cs = fold (\<lambda>i idx. if ct_Name (cs ! i) = scrubContainerName then i else idx) [0..<length cs] 0"

definition scrub_container :: "string \<Rightarrow> scrubJobOverrides \<Rightarrow> Container \<Rightarrow> Container" where
  "scrub_container guid ov c =
     (let args = withArg (ct_Args c) ''--pool-guid='' guid in
      c\<lparr>ct_Args := (if ov_timeout ov \<noteq> '''' then withArg args ''--timeout='' (ov_timeout ov) else args),
        ct_TerminationMessagePolicy := ''FallbackToLogsOnError''\<rparr>)"

definition buildScrubJobSpec :: "CronJob \<Rightarrow> string \<Rightarrow> string \<Rightarrow> scrubJobOverrides \<Rightarrow> JobSpec" where
  "buildScrubJobSpec tmpl guid node ov =
     (let spec = cjs_JobSpec (cj_Spec tmpl);
          pod0 = (if node \<noteq> '''' then setHostnameAffinity (js_Pod spec) node else js_Pod spec);
          cs = ps_Containers pod0;
          pod = (if cs = [] then pod0
                 else pod0\<lparr>ps_Containers := cs[scrub_index cs := scrub_container guid ov (cs ! scrub_index cs)]\<rparr>) in
      spec\<lparr>js_Pod := pod,
        js_ActiveDeadlineSeconds := (case ov_activeDeadlineSeconds ov of None \<Rightarrow> js_ActiveDeadlineSeconds spec | Some n \<Rightarrow> Some n),
        js_TTLSecondsAfterFinished := (case ov_ttlSecondsAfterFinished ov of None \<Rightarrow> js_TTLSecondsAfterFinished spec | Some n \<Rightarrow> Some n)\<rparr>)"

subsection \<open>One run\<close>

abbreviation scrubTemplateRetry :: int where "scrubTemplateRetry \<equiv> 30000"

abbreviation maxScrubMessage :: nat where "maxScrubMessage \<equiv> 1024"

definition truncateScrubMessage :: "string \<Rightarrow> string" where
  "truncateScrubMessage s =
     (if length s \<le> maxScrubMessage then s else [CHR 0xE2, CHR 0x80, CHR 0xA6] @ drop (length s - maxScrubMessage) s)"

definition sj_phase_set :: "ZfsPoolScrubPhase \<Rightarrow> string \<Rightarrow> ZfsPoolScrubJob \<Rightarrow> ZfsPoolScrubJob" where
  "sj_phase_set phase msg cr = cr\<lparr>sj_Status := (sj_Status cr)\<lparr>sjst_Phase := phase, sjst_Message := truncateScrubMessage msg\<rparr>\<rparr>"

definition sj_setPhase :: "'w ScrubReconciler \<Rightarrow> ZfsPoolScrubJob \<Rightarrow> ZfsPoolScrubPhase \<Rightarrow> string \<Rightarrow> 'w act" where
  "sj_setPhase r cr phase msg w =
     (if sjst_Phase (sj_Status cr) = phase \<and> sjst_Message (sj_Status cr) = msg then (w, None)
      else scl_update_status_ScrubJob (scr_Client r) (sj_phase_set phase msg cr) w)"

definition sj_setPending :: "'w ScrubReconciler \<Rightarrow> ZfsPoolScrubJob \<Rightarrow> string \<Rightarrow> 'w act" where
  "sj_setPending r cr msg = sj_setPhase r cr ScrubPhasePending msg"

definition sj_finish :: "'w ScrubReconciler \<Rightarrow> ZfsPoolScrubJob \<Rightarrow> ZfsPoolScrubPhase \<Rightarrow> string \<Rightarrow> 'w act" where
  "sj_finish r cr phase msg w =
     (case scr_Now r w of (w1, now) \<Rightarrow>
        scl_update_status_ScrubJob (scr_Client r)
          (sj_phase_set phase msg (cr\<lparr>sj_Status := (sj_Status cr)\<lparr>sjst_CompletionTime := Some now\<rparr>\<rparr>)) w1)"

definition failed_container :: "Pod list \<Rightarrow> (int \<times> string) option" where
  "failed_container pods = find (\<lambda>(code, msg). code \<noteq> 0) (List.map_filter id (concat pods))"

definition failureMessage :: "'w ScrubReconciler \<Rightarrow> Job \<Rightarrow> 'w \<Rightarrow> 'w \<times> string" where
  "failureMessage r job w =
     (let reader = (case scr_APIReader r of None \<Rightarrow> scr_Client r | Some x \<Rightarrow> x) in
      case scl_list_Pod reader (job_Namespace job) (om_Name (job_Meta job)) w of
        (w1, Inl _) \<Rightarrow> (w1, '''')
      | (w1, Inr pods) \<Rightarrow>
          (w1, case failed_container pods of
                 None \<Rightarrow> ''''
               | Some (code, msg) \<Rightarrow>
                   truncateScrubMessage (if TrimSpace msg = '''' then ''scrub container exited with code '' @ FormatInt code else TrimSpace msg)))"

definition terminal_condition :: "JobCondition \<Rightarrow> bool" where
  "terminal_condition c \<longleftrightarrow> jc_Status c = ''True'' \<and> (jc_Type c = ''Complete'' \<or> jc_Type c = ''Failed'')"

definition syncFromJob :: "'w ScrubReconciler \<Rightarrow> ZfsPoolScrubJob \<Rightarrow> Job \<Rightarrow> 'w act" where
  "syncFromJob r cr0 job w =
     (let cr = cr0\<lparr>sj_Status := (sj_Status cr0)\<lparr>sjst_JobName := om_Name (job_Meta job), sjst_StartTime := job_StartTime job\<rparr>\<rparr> in
      case find terminal_condition (job_Conditions job) of
        None \<Rightarrow> sj_setPhase r cr ScrubPhaseRunning (sjst_Message (sj_Status cr)) w
      | Some c \<Rightarrow>
          if jc_Type c = ''Complete'' then sj_finish r cr ScrubPhaseSucceeded ''scrub completed cleanly'' w
          else case failureMessage r job w of (w1, msg) \<Rightarrow>
            sj_finish r cr ScrubPhaseFailed (if msg = '''' then jc_Reason c @ '': '' @ jc_Message c else msg) w1)"

definition scrub_job :: "ZfsPoolScrubJob \<Rightarrow> CronJob \<Rightarrow> string \<Rightarrow> Job" where
  "scrub_job cr tmpl node =
     \<lparr>job_Meta = (new_meta (om_Name (sj_Meta cr)))\<lparr>om_Labels := [(scrubComponentLabel, scrubComponentValue),
        (scrubPoolGUIDLabel, sjs_PoolGUID (sj_Spec cr))]\<rparr>,
      job_Namespace = sj_Namespace cr,
      job_Spec = buildScrubJobSpec tmpl (sjs_PoolGUID (sj_Spec cr)) node
        \<lparr>ov_timeout = (case sjs_Timeout (sj_Spec cr) of None \<Rightarrow> '''' | Some d \<Rightarrow> Duration_String d),
         ov_activeDeadlineSeconds = sjs_ActiveDeadlineSeconds (sj_Spec cr),
         ov_ttlSecondsAfterFinished = sjs_TTLSecondsAfterFinished (sj_Spec cr)\<rparr>,
      job_StartTime = None, job_Conditions = []\<rparr>"

definition scrub_act :: "'w \<times> goerr option \<Rightarrow> 'w \<times> ScrubResult \<times> goerr option" where
  "scrub_act r = (fst r, scrub_done, snd r)"

text \<open>Create the job on the node; an existing one is looked at in the next pass.\<close>

definition sj_create :: "'w ScrubReconciler \<Rightarrow> ZfsPoolScrubJob \<Rightarrow> CronJob \<Rightarrow> string \<Rightarrow> 'w \<Rightarrow> 'w \<times> ScrubResult \<times> goerr option" where
  "sj_create r cr tmpl node w =
     (let job = scrub_job cr tmpl node in
      case scr_SetControllerReference r (sj_Meta cr) (job_Meta job) of
        Inl e \<Rightarrow> scrub_act (w, Some e)
      | Inr meta \<Rightarrow>
          (case scl_create_Job (scr_Client r) (job\<lparr>job_Meta := meta\<rparr>) w of
             (w1, Some e) \<Rightarrow>
               if errors_Is e StatusAlreadyExists then (w1, \<lparr>RequeueAfter = 0, Requeue = True\<rparr>, None)
               else scrub_act (sj_finish r cr ScrubPhaseFailed (''create scrub Job: '' @ err_text e) w1)
           | (w1, None) \<Rightarrow>
               scrub_act (sj_setPhase r (cr\<lparr>sj_Status := (sj_Status cr)\<lparr>sjst_JobName := om_Name meta\<rparr>\<rparr>) ScrubPhaseRunning
                 (''scrub started on node '' @ node) w1)))"

definition sj_start :: "'w ScrubReconciler \<Rightarrow> ZfsPoolScrubJob \<Rightarrow> 'w \<Rightarrow> 'w \<times> ScrubResult \<times> goerr option" where
  "sj_start r cr w =
     (case loadScrubTemplate r w of
        (w1, TemplateMissing) \<Rightarrow>
          (case sj_setPending r cr errScrubTemplateMissing w1 of (w2, e) \<Rightarrow> (w2, \<lparr>RequeueAfter = scrubTemplateRetry, Requeue = False\<rparr>, e))
      | (w1, TemplateError e) \<Rightarrow> scrub_act (w1, Some e)
      | (w1, Template tmpl) \<Rightarrow>
          (case poolsByGUID (scr_Client r) w1 of
             (w2, Inl e) \<Rightarrow> scrub_act (w2, Some e)
           | (w2, Inr pools) \<Rightarrow>
               (case scrubPoolHost (map_of pools (sjs_PoolGUID (sj_Spec cr))) of (node, unavailable) \<Rightarrow>
                  if unavailable \<noteq> ''''
                  then scrub_act (sj_finish r cr ScrubPhaseFailed (''cannot scrub pool '' @ sjs_PoolGUID (sj_Spec cr) @ '': '' @ unavailable) w2)
                  else sj_create r cr tmpl node w2)))"

definition sj_Reconcile :: "'w ScrubReconciler \<Rightarrow> string \<Rightarrow> string \<Rightarrow> 'w \<Rightarrow> 'w \<times> ScrubResult \<times> goerr option" where
  "sj_Reconcile r ns name w =
     (case scl_get_ScrubJob (scr_Client r) ns name w of
        (w1, Inl e) \<Rightarrow> scrub_act (w1, IgnoreNotFound e)
      | (w1, Inr cr) \<Rightarrow>
          if sjst_Phase (sj_Status cr) = ScrubPhaseSucceeded \<or> sjst_Phase (sj_Status cr) = ScrubPhaseFailed then scrub_act (w1, None)
          else case scl_get_Job (scr_Client r) (sj_Namespace cr) (om_Name (sj_Meta cr)) w1 of
            (w2, Inl e) \<Rightarrow>
              if \<not> IsNotFound e then scrub_act (w2, Some e)
              else if sjst_Phase (sj_Status cr) = ScrubPhaseRunning
              then scrub_act (sj_finish r cr ScrubPhaseFailed ''the scrub Job disappeared before it finished'' w2)
              else sj_start r cr w2
          | (w2, Inr job) \<Rightarrow>
              if \<not> scr_IsControlledBy r (job_Meta job) (sj_Meta cr)
              then scrub_act (sj_finish r cr ScrubPhaseFailed
                (''a Job named '' @ Quote (om_Name (job_Meta job)) @ '' already exists and is not owned by this scrub'') w2)
              else scrub_act (syncFromJob r cr job w2))"

subsection \<open>A schedule\<close>

definition or_template :: "int option \<Rightarrow> int option \<Rightarrow> int option" where
  "or_template v t = (case v of None \<Rightarrow> t | Some n \<Rightarrow> Some n)"

text \<open>The mutation of the CronJob: the template with the settings of the schedule, pinned and suspended as the pool is.\<close>

definition cron_spec :: "ZfsPoolScrubCronJob \<Rightarrow> CronJob \<Rightarrow> string \<Rightarrow> string \<Rightarrow> CronJobSpec" where
  "cron_spec cr tmpl node unavailable =
     (let sp = sc_Spec cr; t = cj_Spec tmpl in
      t\<lparr>cjs_Schedule := scs_Schedule sp,
        cjs_StartingDeadlineSeconds := or_template (scs_StartingDeadlineSeconds sp) (cjs_StartingDeadlineSeconds t),
        cjs_SuccessfulJobsHistoryLimit := or_template (scs_SuccessfulJobsHistoryLimit sp) (cjs_SuccessfulJobsHistoryLimit t),
        cjs_FailedJobsHistoryLimit := or_template (scs_FailedJobsHistoryLimit sp) (cjs_FailedJobsHistoryLimit t),
        cjs_JobSpec := buildScrubJobSpec tmpl (scs_PoolGUID sp) node
          \<lparr>ov_timeout = (case scs_Timeout sp of None \<Rightarrow> '''' | Some d \<Rightarrow> Duration_String d),
           ov_activeDeadlineSeconds = scs_ActiveDeadlineSeconds sp, ov_ttlSecondsAfterFinished = None\<rparr>,
        cjs_Suspend := Some (unavailable \<noteq> '''' \<or> scs_Suspend sp = Some True)\<rparr>)"

definition cron_labels :: "ZfsPoolScrubCronJob \<Rightarrow> CronJob \<Rightarrow> props" where
  "cron_labels cr tmpl =
     AList.update scrubPoolGUIDLabel (scs_PoolGUID (sc_Spec cr)) (AList.update scrubComponentLabel scrubComponentValue (om_Labels (cj_Meta tmpl)))"

definition mutate_cron :: "'w ScrubReconciler \<Rightarrow> ZfsPoolScrubCronJob \<Rightarrow> CronJob \<Rightarrow> string \<Rightarrow> string \<Rightarrow> CronJob \<Rightarrow> goerr + CronJob" where
  "mutate_cron r cr tmpl node unavailable cj =
     (let cj1 = cj\<lparr>cj_Spec := cron_spec cr tmpl node unavailable, cj_Meta := (cj_Meta cj)\<lparr>om_Labels := cron_labels cr tmpl\<rparr>\<rparr> in
      case scr_SetControllerReference r (sc_Meta cr) (cj_Meta cj1) of
        Inl e \<Rightarrow> Inl e
      | Inr meta \<Rightarrow> Inr (cj1\<lparr>cj_Meta := meta\<rparr>))"

definition cron_status :: "CronJob \<Rightarrow> string \<Rightarrow> string \<Rightarrow> ZfsPoolScrubCronJobStatus" where
  "cron_status cj node unavailable =
     \<lparr>scst_CronJobName = om_Name (cj_Meta cj), scst_Suspended = (cjs_Suspend (cj_Spec cj) = Some True), scst_CurrentNode = node,
      scst_LastScheduleTime = cj_LastScheduleTime cj, scst_Message = (if unavailable \<noteq> '''' then ''suspended: '' @ unavailable else '''')\<rparr>"

definition sc_Reconcile :: "'w ScrubReconciler \<Rightarrow> string \<Rightarrow> string \<Rightarrow> 'w \<Rightarrow> 'w \<times> ScrubResult \<times> goerr option" where
  "sc_Reconcile r ns name w =
     (case scl_get_ScrubCronJob (scr_Client r) ns name w of
        (w1, Inl e) \<Rightarrow> scrub_act (w1, IgnoreNotFound e)
      | (w1, Inr cr) \<Rightarrow>
          (case loadScrubTemplate r w1 of
             (w2, TemplateMissing) \<Rightarrow>
               (case scl_update_status_ScrubCronJob (scr_Client r) (cr\<lparr>sc_Status := (sc_Status cr)\<lparr>scst_Message := errScrubTemplateMissing\<rparr>\<rparr>) w2 of
                  (w3, Some e) \<Rightarrow> scrub_act (w3, Some e)
                | (w3, None) \<Rightarrow> (w3, \<lparr>RequeueAfter = scrubTemplateRetry, Requeue = False\<rparr>, None))
           | (w2, TemplateError e) \<Rightarrow> scrub_act (w2, Some e)
           | (w2, Template tmpl) \<Rightarrow>
               (case poolsByGUID (scr_Client r) w2 of
                  (w3, Inl e) \<Rightarrow> scrub_act (w3, Some e)
                | (w3, Inr pools) \<Rightarrow>
                    (case scrubPoolHost (map_of pools (scs_PoolGUID (sc_Spec cr))) of (node, unavailable) \<Rightarrow>
                       case scl_create_or_update_CronJob (scr_Client r) (sc_Namespace cr) (om_Name (sc_Meta cr))
                              (mutate_cron r cr tmpl node unavailable) w3 of
                         (w4, Inl e) \<Rightarrow> scrub_act (w4, Some e)
                       | (w4, Inr cj) \<Rightarrow>
                           scrub_act (scl_update_status_ScrubCronJob (scr_Client r) (cr\<lparr>sc_Status := cron_status cj node unavailable\<rparr>) w4)))))"

definition sc_requestsForPool :: "'w ScrubReconciler \<Rightarrow> ZfsPool \<Rightarrow> 'w \<Rightarrow> 'w \<times> (string \<times> string) list" where
  "sc_requestsForPool r pool w =
     (case scl_list_ScrubCronJob (scr_Client r) (scr_Namespace r) w of
        (w1, Inl _) \<Rightarrow> (w1, [])
      | (w1, Inr l) \<Rightarrow>
          (w1, map (\<lambda>x. (sc_Namespace x, om_Name (sc_Meta x))) (filter (\<lambda>x. scs_PoolGUID (sc_Spec x) = zfsPoolGUID pool) l)))"

definition sc_requestsForAll :: "'w ScrubReconciler \<Rightarrow> 'w \<Rightarrow> 'w \<times> (string \<times> string) list" where
  "sc_requestsForAll r w =
     (case scl_list_ScrubCronJob (scr_Client r) (scr_Namespace r) w of
        (w1, Inl _) \<Rightarrow> (w1, [])
      | (w1, Inr l) \<Rightarrow> (w1, map (\<lambda>x. (sc_Namespace x, om_Name (sc_Meta x))) l))"

end
