(* ===== verification/ScrubSafety.thy ===== *)
theory ScrubSafety
  imports ScrubController Frame
begin

text \<open>
  What the scrub controller does over time: which jobs it creates, and how the phase of a run advances. A
  run is a sequence of passes with anything else in between that does not write the object itself.
\<close>

subsection \<open>Jobs\<close>

text \<open>A job on the node that serves the pool, for that pool and no other.\<close>

definition pinned_to :: "string \<Rightarrow> JobSpec \<Rightarrow> bool" where
  "pinned_to node spec \<longleftrightarrow>
     ps_NodeAffinity (js_Pod spec) = Some [[\<lparr>nsr_Key = ''kubernetes.io/hostname'', nsr_Operator = ''In'', nsr_Values = [node]\<rparr>]]"

definition scrubs_only :: "string \<Rightarrow> JobSpec \<Rightarrow> bool" where
  "scrubs_only guid spec \<longleftrightarrow> (ps_Containers (js_Pod spec) \<noteq> [] \<longrightarrow>
     (\<exists>c \<in> set (ps_Containers (js_Pod spec)). filter (\<lambda>a. HasPrefix a ''--pool-guid='') (ct_Args c) = [''--pool-guid='' @ guid]))"

definition servable :: "ZfsPool set \<Rightarrow> string \<Rightarrow> string \<Rightarrow> bool" where
  "servable P guid node \<longleftrightarrow> (\<exists>p \<in> P. zfsPoolGUID p = guid \<and> zpst_CurrentNode (zp_Status p) = node \<and> node \<noteq> '''' \<and>
     zpst_Health (zp_Status p) \<noteq> PoolHealthNodeOffline)"

definition good_jobs :: "ZfsPool set \<Rightarrow> Job set" where
  "good_jobs P = {j. \<exists>guid node. servable P guid node \<and> pinned_to node (job_Spec j) \<and> scrubs_only guid (job_Spec j) \<and>
     map_of (om_Labels (job_Meta j)) scrubPoolGUIDLabel = Some guid}"

lemma withArg_once: "filter (\<lambda>a. HasPrefix a p) (withArg args p v) = [p @ v]"
  by (simp add: withArg_def filter_empty_conv)

lemma withArg_other:
  assumes "\<And>a. HasPrefix a p \<Longrightarrow> \<not> HasPrefix a q"
  shows "filter (\<lambda>a. HasPrefix a p) (withArg args q v) = filter (\<lambda>a. HasPrefix a p) args"
proof -
  have "\<not> HasPrefix (q @ v) p" using assms HasPrefix_append by blast
  moreover have "filter (\<lambda>a. \<not> HasPrefix a q \<and> HasPrefix a p) args = filter (\<lambda>a. HasPrefix a p) args" by (rule filter_cong) (use assms in auto)
  ultimately show ?thesis by (simp add: withArg_def conj_commute)
qed

lemma scrub_index_bound: "cs \<noteq> [] \<Longrightarrow> scrub_index cs < length cs"
proof -
  have "fold (\<lambda>i idx. if ct_Name (cs ! i) = scrubContainerName then i else idx) is a < n" if "\<forall>i \<in> set is. i < n" "a < n" for "is" a and n :: nat
    using that by (induction "is" arbitrary: a) auto
  then show "cs \<noteq> [] \<Longrightarrow> scrub_index cs < length cs" unfolding scrub_index_def by simp
qed

lemma scrub_container_args: "filter (\<lambda>a. HasPrefix a ''--pool-guid='') (ct_Args (scrub_container guid ov c)) = [''--pool-guid='' @ guid]"
proof -
  have d: "\<not> HasPrefix a ''--timeout=''" if "HasPrefix a ''--pool-guid=''" for a
  proof
    assume "HasPrefix a ''--timeout=''"
    with that obtain t u where "a = ''--pool-guid='' @ t" "a = ''--timeout='' @ u" by (metis append_take_drop_id HasPrefix_def)
    then show False by simp
  qed
  then show ?thesis unfolding scrub_container_def Let_def using withArg_once withArg_other [OF d] by simp
qed

lemma buildScrubJobSpec_ok:
  assumes "node \<noteq> ''''"
  shows "pinned_to node (buildScrubJobSpec tmpl guid node ov) \<and> scrubs_only guid (buildScrubJobSpec tmpl guid node ov)"
proof -
  let ?cs = "ps_Containers (js_Pod (cjs_JobSpec (cj_Spec tmpl)))"
  have "scrub_container guid ov (?cs ! scrub_index ?cs) \<in> set (?cs[scrub_index ?cs := scrub_container guid ov (?cs ! scrub_index ?cs)])" if "?cs \<noteq> []"
    by (rule set_update_memI [OF scrub_index_bound [OF that]])
  then show ?thesis using assms scrub_container_args
    by (auto simp: pinned_to_def scrubs_only_def buildScrubJobSpec_def setHostnameAffinity_def Let_def)
qed

text \<open>Everything a pass does keeps the frame, except that only jobs of the right kind may be created.\<close>

locale scrub_frame = frame R for R :: "'w \<Rightarrow> 'w \<Rightarrow> bool" +
  fixes r :: "'w ScrubReconciler" and P :: "ZfsPool set"
  assumes reads_keep: "keeps R (scl_get_ScrubJob (scr_Client r) ns n)" "keeps R (scl_get_Job (scr_Client r) ns n)"
      "keeps R (scl_get_ConfigMap (scr_Client r) ns n)" "keeps R (scl_list_ZfsPool (scr_Client r))" "keeps R (scr_Now r)"
      "keeps R (scl_list_Pod (scr_Client r) ns n)" "scr_APIReader r = Some x \<Longrightarrow> keeps R (scl_list_Pod x ns n)"
    and status_keeps: "keeps R (scl_update_status_ScrubJob (scr_Client r) cr)"
    and pools_listed: "scl_list_ZfsPool (scr_Client r) w = (w1, Inr ps) \<Longrightarrow> set ps \<subseteq> P"
    and owner_meta: "scr_SetControllerReference r owner m = Inr m' \<Longrightarrow> om_Labels m' = om_Labels m"
    and create_keeps: "servable P guid node \<Longrightarrow> pinned_to node (job_Spec job) \<Longrightarrow> scrubs_only guid (job_Spec job) \<Longrightarrow>
      map_of (om_Labels (job_Meta job)) scrubPoolGUIDLabel = Some guid \<Longrightarrow> keeps R (scl_create_Job (scr_Client r) job)"
begin

declare reads_keep [keeps_rules] status_keeps [keeps_rules]

lemma scrub_act_keeps [keeps_rules]: "keeps R f \<Longrightarrow> keeps R (\<lambda>w. scrub_act (f w))"
  by (simp add: keeps_def scrub_act_def)

lemma finish_keeps [keeps_rules]: "keeps R (sj_finish r cr phase msg)" "keeps R (sj_setPhase r cr phase msg)" "keeps R (sj_setPending r cr msg)"
  unfolding sj_finish_def [abs_def] sj_setPending_def sj_setPhase_def [abs_def] by (intro keeps_rules)+

lemma sync_keeps [keeps_rules]: "keeps R (syncFromJob r cr job)"
proof -
  have "keeps R (failureMessage r job)" for job
  proof (cases "scr_APIReader r")
    case None
    show ?thesis unfolding failureMessage_def [abs_def] Let_def None option.case by (intro keeps_rules)
  next
    case (Some x)
    show ?thesis unfolding failureMessage_def [abs_def] Let_def Some option.case by (intro keeps_rules Some)
  qed
  then show ?thesis unfolding syncFromJob_def [abs_def] Let_def by (intro keeps_rules)
qed

lemma template_keeps [keeps_rules]: "keeps R (loadScrubTemplate r)"
  unfolding loadScrubTemplate_def [abs_def] by (intro keeps_rules)

lemma create_job_keeps:
  assumes "servable P (sjs_PoolGUID (sj_Spec cr)) node"
  shows "keeps R (sj_create r cr tmpl node)"
proof -
  have n: "node \<noteq> ''''" using assms by (auto simp: servable_def)
  have "keeps R (scl_create_Job (scr_Client r) ((scrub_job cr tmpl node)\<lparr>job_Meta := meta\<rparr>))"
    if m: "scr_SetControllerReference r (sj_Meta cr) (job_Meta (scrub_job cr tmpl node)) = Inr meta" for meta
    by (rule create_keeps [OF assms]) (use buildScrubJobSpec_ok [OF n] owner_meta [OF m] in \<open>simp_all add: scrub_job_def\<close>)
  then show ?thesis unfolding sj_create_def [abs_def] Let_def by (intro keeps_rules)
qed

lemma poolsByGUID_servable:
  assumes "poolsByGUID (scr_Client r) w = (w1, Inr pools)" "scrubPoolHost (map_of pools guid) = (node, '''')"
  shows "servable P guid node"
proof -
  obtain ps where ps: "scl_list_ZfsPool (scr_Client r) w = (w1, Inr ps)" "pools = fold (\<lambda>p. AList.update (zfsPoolGUID p) p) ps []"
    using assms(1) by (auto simp: poolsByGUID_def split: prod.splits sum.splits)
  have "map_of (fold (\<lambda>p. AList.update (zfsPoolGUID p) p) ps acc) g = Some p \<Longrightarrow> (p \<in> set ps \<and> zfsPoolGUID p = g) \<or> map_of acc g = Some p" for acc g p
  proof (induction ps arbitrary: acc)
    case (Cons a ps)
    from Cons(1) [of "AList.update (zfsPoolGUID a) a acc"] Cons(2) show ?case by (auto simp: update_conv' split: if_splits)
  qed simp
  then have "p \<in> set ps \<and> zfsPoolGUID p = guid" if "map_of pools guid = Some p" for p using that ps(2) by fastforce
  then show ?thesis using assms(2) pools_listed [OF ps(1)]
    by (cases "map_of pools guid") (auto simp: servable_def scrubPoolHost_def split: if_splits)
qed

lemma start_keeps [keeps_rules]: "keeps R (sj_start r cr)"
  unfolding keeps_def
proof
  fix w
  obtain w1 t where t: "loadScrubTemplate r w = (w1, t)" by fastforce
  have R1: "R w w1" using keepsD [OF template_keeps t] .
  show "R w (fst (sj_start r cr w))"
  proof (cases t)
    case TemplateMissing
    have "R w (fst (sj_setPending r cr errScrubTemplateMissing w1))" by (rule frame_trans [OF R1 keeps_fst [OF finish_keeps(3)]])
    then show ?thesis using t TemplateMissing by (cases "sj_setPending r cr errScrubTemplateMissing w1") (simp add: sj_start_def)
  next
    case (TemplateError e)
    then show ?thesis using t R1 by (simp add: sj_start_def scrub_act_def)
  next
    case (Template tmpl)
    obtain w2 x where p: "poolsByGUID (scr_Client r) w1 = (w2, x)" by fastforce
    have "keeps R (poolsByGUID (scr_Client r))" unfolding poolsByGUID_def [abs_def] by (intro keeps_rules)
    then have R2: "R w w2" using frame_trans [OF R1] keepsD p by fast
    show ?thesis
    proof (cases x)
      case (Inl e)
      then show ?thesis using t Template p R2 by (simp add: sj_start_def scrub_act_def)
    next
      case (Inr pools)
      obtain node u where h: "scrubPoolHost (map_of pools (sjs_PoolGUID (sj_Spec cr))) = (node, u)" by fastforce
      have "R w (fst (sj_finish r cr ScrubPhaseFailed msg w2))" for msg by (rule frame_trans [OF R2 keeps_fst [OF finish_keeps(1)]])
      moreover have "R w (fst (sj_create r cr tmpl node w2))" if "u = ''''"
        using frame_trans [OF R2 keeps_fst [OF create_job_keeps]] poolsByGUID_servable [OF p [unfolded Inr]] h that by blast
      ultimately show ?thesis using t Template p Inr h by (simp add: sj_start_def scrub_act_def)
    qed
  qed
qed

lemma run_keeps: "keeps R (sj_Reconcile r ns n)"
  unfolding sj_Reconcile_def [abs_def] by (intro keeps_rules)

end

subsection \<open>Phases\<close>

definition terminal :: "ZfsPoolScrubPhase \<Rightarrow> bool" where
  "terminal p \<longleftrightarrow> p = ScrubPhaseSucceeded \<or> p = ScrubPhaseFailed"

text \<open>The phases a pass may go to.\<close>

inductive phase_step :: "ZfsPoolScrubPhase \<Rightarrow> ZfsPoolScrubPhase \<Rightarrow> bool" where
  wait: "\<not> terminal p \<Longrightarrow> p \<noteq> ScrubPhaseRunning \<Longrightarrow> phase_step p ScrubPhasePending"
| run: "\<not> terminal p \<Longrightarrow> phase_step p ScrubPhaseRunning"
| finish: "\<not> terminal p \<Longrightarrow> terminal q \<Longrightarrow> phase_step p q"

text \<open>A run: passes over the object, and anything in between that leaves the stored object alone.\<close>

inductive scrub_run :: "'w ScrubReconciler \<Rightarrow> string \<Rightarrow> string \<Rightarrow> ('w \<Rightarrow> ZfsPoolScrubJob option) \<Rightarrow> 'w \<Rightarrow> 'w \<Rightarrow> bool"
  for r ns name crv where
  start: "scrub_run r ns name crv w w"
| pass: "scrub_run r ns name crv w w1 \<Longrightarrow> scrub_run r ns name crv w (fst (sj_Reconcile r ns name w1))"
| other: "scrub_run r ns name crv w w1 \<Longrightarrow> crv w2 = crv w1 \<Longrightarrow> scrub_run r ns name crv w w2"

text \<open>The stored object, which only the controller writes.\<close>

locale scrub_store =
  fixes r :: "'w ScrubReconciler" and ns name :: string and crv :: "'w \<Rightarrow> ZfsPoolScrubJob option"
  assumes get_crv: "scl_get_ScrubJob (scr_Client r) ns name w = (w1, x) \<Longrightarrow> crv w1 = crv w \<and> (\<forall>cr. x = Inr cr \<longrightarrow> crv w = Some cr)"
    and reads_crv: "crv (fst (scl_get_Job (scr_Client r) k n w)) = crv w" "crv (fst (scl_get_ConfigMap (scr_Client r) k n w)) = crv w"
      "crv (fst (scl_list_ZfsPool (scr_Client r) w)) = crv w" "crv (fst (scr_Now r w)) = crv w"
      "crv (fst (scl_list_Pod (scr_Client r) k n w)) = crv w" "scr_APIReader r = Some y \<Longrightarrow> crv (fst (scl_list_Pod y k n w)) = crv w"
    and create_crv: "crv (fst (scl_create_Job (scr_Client r) job w)) = crv w"
    and update_crv: "crv (fst (scl_update_status_ScrubJob (scr_Client r) cr w)) \<in> {crv w, Some cr}"
begin

text \<open>A write of the status, when it happens, is one of the allowed phase changes.\<close>

definition advances :: "'w \<Rightarrow> ZfsPoolScrubJob \<Rightarrow> 'w \<Rightarrow> bool" where
  "advances w cr w' \<longleftrightarrow> crv w' = crv w \<or> (\<exists>cr'. crv w' = Some cr' \<and> phase_step (sjst_Phase (sj_Status cr)) (sjst_Phase (sj_Status cr')))"

lemma setPhase_advances:
  assumes "phase_step (sjst_Phase (sj_Status cr)) phase" "sjst_Phase (sj_Status cr1) = sjst_Phase (sj_Status cr)"
  shows "advances w cr (fst (sj_setPhase r cr1 phase msg w))"
  using assms update_crv [of "sj_phase_set phase msg cr1" w] by (auto simp: advances_def sj_setPhase_def sj_phase_set_def)

lemma finish_advances:
  assumes "\<not> terminal (sjst_Phase (sj_Status cr))" "terminal phase"
  shows "advances w cr (fst (sj_finish r cr1 phase msg w))"
proof -
  obtain w1 now where n: "scr_Now r w = (w1, now)" by fastforce
  then have "crv w1 = crv w" using reads_crv(4) [of w] by simp
  moreover note update_crv [of "sj_phase_set phase msg (cr1\<lparr>sj_Status := (sj_Status cr1)\<lparr>sjst_CompletionTime := Some now\<rparr>\<rparr>)" w1]
  ultimately show ?thesis using n phase_step.finish [OF assms] by (auto simp: advances_def sj_finish_def sj_phase_set_def)
qed

lemma advances_cong: "crv w1 = crv w \<Longrightarrow> advances w1 cr w' \<longleftrightarrow> advances w cr w'"
  by (simp add: advances_def)

lemma sync_advances:
  assumes "\<not> terminal (sjst_Phase (sj_Status cr))"
  shows "advances w cr (fst (syncFromJob r cr job w))"
proof (cases "find terminal_condition (job_Conditions job)")
  case None
  then show ?thesis using setPhase_advances [OF phase_step.run [OF assms]] by (simp add: syncFromJob_def Let_def)
next
  case (Some c)
  obtain w1 msg where f: "failureMessage r job w = (w1, msg)" by fastforce
  define reader where "reader = (case scr_APIReader r of None \<Rightarrow> scr_Client r | Some x \<Rightarrow> x)"
  obtain w0 y where l: "scl_list_Pod reader (job_Namespace job) (om_Name (job_Meta job)) w = (w0, y)" by fastforce
  have "crv w0 = crv w" using l reads_crv(5,6) by (cases "scr_APIReader r") (auto simp: reader_def, (metis fst_conv)+)
  moreover have "w1 = w0" using f l by (cases y) (auto simp: failureMessage_def Let_def reader_def)
  ultimately have v: "crv w1 = crv w" by simp
  have fin: "terminal ph \<Longrightarrow> crv w2 = crv w \<Longrightarrow> advances w cr (fst (sj_finish r cr1 ph msg w2))" for ph cr1 msg w2
    using finish_advances [OF assms] advances_cong by blast
  show ?thesis
  proof (cases "jc_Type c = ''Complete''")
    case True
    then show ?thesis unfolding syncFromJob_def Let_def using Some by (simp add: fin terminal_def)
  next
    case False
    then show ?thesis unfolding syncFromJob_def Let_def using Some f v by (simp add: fin terminal_def)
  qed
qed

lemma create_advances:
  assumes "\<not> terminal (sjst_Phase (sj_Status cr))"
  shows "advances w cr (fst (sj_create r cr tmpl node w))"
proof (cases "scr_SetControllerReference r (sj_Meta cr) (job_Meta (scrub_job cr tmpl node))")
  case (Inl e)
  then show ?thesis by (simp add: sj_create_def Let_def scrub_act_def advances_def)
next
  case (Inr meta)
  obtain w1 e where c: "scl_create_Job (scr_Client r) ((scrub_job cr tmpl node)\<lparr>job_Meta := meta\<rparr>) w = (w1, e)" by fastforce
  have v: "crv w1 = crv w" using create_crv [of "(scrub_job cr tmpl node)\<lparr>job_Meta := meta\<rparr>" w] c by simp
  show ?thesis
  proof (cases e)
    case None
    have "advances w cr (fst (sj_setPhase r (cr\<lparr>sj_Status := (sj_Status cr)\<lparr>sjst_JobName := om_Name meta\<rparr>\<rparr>) ScrubPhaseRunning msg w1))" for msg
      unfolding advances_cong [OF v, symmetric] by (rule setPhase_advances [OF phase_step.run [OF assms]]) simp
    then show ?thesis using Inr c None by (simp add: sj_create_def Let_def scrub_act_def)
  next
    case (Some x)
    have "advances w cr (fst (sj_finish r cr ScrubPhaseFailed msg w1))" for msg
      unfolding advances_cong [OF v, symmetric] by (rule finish_advances [OF assms]) (simp add: terminal_def)
    moreover have "advances w cr w1" using v by (simp add: advances_def)
    ultimately show ?thesis using Inr c Some by (simp add: sj_create_def Let_def scrub_act_def)
  qed
qed

lemma start_advances:
  assumes "\<not> terminal (sjst_Phase (sj_Status cr))" "sjst_Phase (sj_Status cr) \<noteq> ScrubPhaseRunning"
  shows "advances w cr (fst (sj_start r cr w))"
proof -
  obtain w1 t where t: "loadScrubTemplate r w = (w1, t)" by fastforce
  have v1: "crv w1 = crv w" using t reads_crv(2) by (auto simp: loadScrubTemplate_def split: if_splits prod.splits sum.splits) (metis fst_conv)+
  show ?thesis
  proof (cases t)
    case TemplateMissing
    have "advances w1 cr (fst (sj_setPending r cr errScrubTemplateMissing w1))"
      unfolding sj_setPending_def by (rule setPhase_advances [OF phase_step.wait [OF assms]]) simp
    then show ?thesis using t TemplateMissing advances_cong [OF v1]
      by (cases "sj_setPending r cr errScrubTemplateMissing w1") (simp add: sj_start_def)
  next
    case (TemplateError e)
    then show ?thesis using t v1 by (simp add: sj_start_def scrub_act_def advances_def)
  next
    case (Template tmpl)
    obtain w2 x where p: "poolsByGUID (scr_Client r) w1 = (w2, x)" by fastforce
    have v2: "crv w2 = crv w" using p reads_crv(3) [of w1] v1 by (auto simp: poolsByGUID_def split: prod.splits sum.splits)
    have f: "advances w cr (fst (sj_finish r cr ScrubPhaseFailed msg w2))" "advances w cr (fst (sj_create r cr tmpl n w2))" "advances w cr w2" for msg n
      unfolding advances_cong [OF v2, symmetric]
      by (rule finish_advances [OF assms(1)], simp add: terminal_def) (rule create_advances [OF assms(1)], simp add: advances_def)
    show ?thesis
    proof (cases x)
      case (Inr pools)
      obtain node u where "scrubPoolHost (map_of pools (sjs_PoolGUID (sj_Spec cr))) = (node, u)" by fastforce
      then show ?thesis using t Template p Inr f by (simp add: sj_start_def scrub_act_def)
    qed (use t Template p f in \<open>simp add: sj_start_def scrub_act_def\<close>)
  qed
qed

lemma pass_advances:
  "crv (fst (sj_Reconcile r ns name w)) = crv w \<or>
   (\<exists>cr cr'. crv w = Some cr \<and> crv (fst (sj_Reconcile r ns name w)) = Some cr' \<and>
      phase_step (sjst_Phase (sj_Status cr)) (sjst_Phase (sj_Status cr')))"
proof -
  obtain w1 x where g: "scl_get_ScrubJob (scr_Client r) ns name w = (w1, x)" by fastforce
  note v1 = get_crv [OF g]
  show ?thesis
  proof (cases x)
    case (Inl e)
    then show ?thesis using g v1 by (simp add: sj_Reconcile_def scrub_act_def)
  next
    case (Inr cr)
    have cr: "crv w = Some cr" using v1 Inr by blast
    show ?thesis
    proof (cases "terminal (sjst_Phase (sj_Status cr))")
      case True
      then show ?thesis using g v1 Inr by (auto simp: sj_Reconcile_def scrub_act_def terminal_def)
    next
      case False
      obtain w2 y where j: "scl_get_Job (scr_Client r) (sj_Namespace cr) (om_Name (sj_Meta cr)) w1 = (w2, y)" by fastforce
      have v2: "crv w2 = crv w" using reads_crv(1) [of "sj_Namespace cr" "om_Name (sj_Meta cr)" w1] j v1 by simp
      have f: "advances w cr (fst (sj_finish r cr ScrubPhaseFailed msg w2))" "advances w cr w2" for msg
        unfolding advances_cong [OF v2, symmetric] by (rule finish_advances [OF False], simp add: terminal_def) (simp add: advances_def)
      have "advances w cr (fst (sj_Reconcile r ns name w))"
      proof (cases y)
        case (Inl e)
        have "advances w cr (fst (sj_start r cr w2))" if "sjst_Phase (sj_Status cr) \<noteq> ScrubPhaseRunning"
          unfolding advances_cong [OF v2, symmetric] by (rule start_advances [OF False that])
        then show ?thesis using g \<open>x = Inr cr\<close> j Inl f False v2
          by (auto simp: sj_Reconcile_def scrub_act_def terminal_def)
      next
        case (Inr job)
        have "advances w cr (fst (syncFromJob r cr job w2))" unfolding advances_cong [OF v2, symmetric] by (rule sync_advances [OF False])
        then show ?thesis using g \<open>x = Inr cr\<close> j Inr f False by (auto simp: sj_Reconcile_def scrub_act_def terminal_def)
      qed
      then show ?thesis using cr by (auto simp: advances_def)
    qed
  qed
qed

text \<open>Over a whole run: a terminal object is final, and a run that has started never waits again.\<close>

lemma run_phases:
  assumes "scrub_run r ns name crv w w'" "crv w = Some cr"
  shows "\<exists>cr'. crv w' = Some cr' \<and>
    (terminal (sjst_Phase (sj_Status cr)) \<longrightarrow> cr' = cr) \<and>
    (sjst_Phase (sj_Status cr) = ScrubPhaseRunning \<longrightarrow> sjst_Phase (sj_Status cr') = ScrubPhaseRunning \<or> terminal (sjst_Phase (sj_Status cr')))"
  using assms
proof (induction rule: scrub_run.induct)
  case (pass w w1)
  then show ?case using pass_advances [of w1] by (auto simp: terminal_def elim: phase_step.cases)
qed auto

end

end
