(* ===== verification/PoolStore.thy ===== *)
theory PoolStore
  imports NodeStore PoolSafety ScrubSafety
begin

text \<open>
  A store for the pool components on the world of the share controllers, and one for a scrub run: the
  object, its job, the template and the clock.
\<close>

subsection \<open>Pools\<close>

definition pools_of :: "share_world \<Rightarrow> string \<rightharpoonup> ZfsPool" where
  "pools_of w n = (case map_of (sw_pools w) n of None \<Rightarrow> None | Some p \<Rightarrow> if om_Name (zp_Meta p) = n then Some p else None)"

definition pool_list :: "share_world \<Rightarrow> ZfsPool list" where
  "pool_list w = map snd (filter (\<lambda>(n, p). om_Name (zp_Meta p) = n) (AList.clearjunk (sw_pools w)))"

text \<open>A node that is in the store is ready, any other is gone.\<close>

definition pool_client :: "share_world PoolClient" where
  "pool_client =
     \<lparr>pc_get_ZfsPool = (\<lambda>n w. (w, case pools_of w n of None \<Rightarrow> Inl (GoErr (Some StatusNotFound) ''not found'') | Some p \<Rightarrow> Inr p)),
      pc_list_ZfsPool = (\<lambda>w. (w, Inr (pool_list w))),
      pc_create_ZfsPool = (\<lambda>p w. if pools_of w (om_Name (zp_Meta p)) \<noteq> None then (w, Inl (GoErr (Some StatusAlreadyExists) ''exists''))
        else (w\<lparr>sw_pools := AList.update (om_Name (zp_Meta p)) p (sw_pools w)\<rparr>, Inr p)),
      pc_patch_status_ZfsPool = (\<lambda>x y w. (w\<lparr>sw_pools := AList.update (om_Name (zp_Meta y)) y (sw_pools w)\<rparr>, None)),
      pc_get_Node = (\<lambda>n w. (w, if map_of (sw_nodes w) n = None then Inl (GoErr (Some StatusNotFound) ''not found'')
        else Inr \<lparr>cn_Name = n, cn_Conditions = [(''MemoryPressure'', ''False''), (''Ready'', ''True'')]\<rparr>)),
      pc_Now = (\<lambda>w. (w, sw_clock w))\<rparr>"

lemma pools_of_update: "pools_of (w\<lparr>sw_pools := AList.update (om_Name (zp_Meta p)) p (sw_pools w)\<rparr>) = (pools_of w)(om_Name (zp_Meta p) \<mapsto> p)"
  by (rule ext) (simp add: pools_of_def update_conv')

lemma demo_key: "pools_of w n = Some p \<Longrightarrow> n = om_Name (zp_Meta p)"
  by (auto simp: pools_of_def split: option.splits if_splits)

lemma set_pool_list: "set (pool_list w) = ran (pools_of w)" "distinct (pool_list w)"
proof -
  let ?m = "filter (\<lambda>(n, p). om_Name (zp_Meta p) = n) (AList.clearjunk (sw_pools w))"
  have in_m: "(n, p) \<in> set ?m \<longleftrightarrow> pools_of w n = Some p" for n p
  proof -
    have "wf_map (AList.clearjunk (sw_pools w))" by (simp add: wf_map_def keys_def distinct_clearjunk)
    then have "(n, p) \<in> set (AList.clearjunk (sw_pools w)) \<longleftrightarrow> map_of (sw_pools w) n = Some p"
      by (simp only: wf_map_in_iff map_of_clearjunk)
    then show ?thesis by (cases "map_of (sw_pools w) n") (auto simp: pools_of_def)
  qed
  have "set (pool_list w) = snd ` {x. pools_of w (fst x) = Some (snd x)}"
    unfolding pool_list_def set_map using in_m by (metis (mono_tags, lifting) Collect_cong prod.collapse Collect_mem_eq)
  also have "\<dots> = ran (pools_of w)" unfolding ran_def by (auto simp: image_iff)
  finally show "set (pool_list w) = ran (pools_of w)" .
  have "distinct (map fst (AList.clearjunk (sw_pools w)))" by (rule distinct_clearjunk)
  then have "distinct ?m" by (metis distinct_filter distinct_map)
  moreover have "inj_on snd (set ?m)"
  proof (rule inj_onI)
    fix x y assume "x \<in> set ?m" "y \<in> set ?m" "snd x = snd y"
    moreover have "z \<in> set ?m \<Longrightarrow> fst z = om_Name (zp_Meta (snd z))" for z using in_m [of "fst z" "snd z"] demo_key by simp
    ultimately show "x = y" by (metis prod.collapse)
  qed
  ultimately show "distinct (pool_list w)" unfolding pool_list_def by (simp only: distinct_map)
qed

interpretation demo_pools: pool_store pool_client pools_of
proof
  show "pools_of w n = Some p \<Longrightarrow> om_Name (zp_Meta p) = n" for w n p by (auto simp: pools_of_def split: option.splits if_splits)
qed (auto simp: pool_client_def set_pool_list pools_of_update IsNotFound_def split: if_splits)

text \<open>A node with the pool \<open>tank\<close>.\<close>

definition zpool_run :: "share_world Runner" where
  "zpool_run name args w = (w, Inr (if name = ''zpool'' then ''tank'' @ [CHR 9] @ ''42'' @ [CHR 9] @ ''ONLINE'' @ [CHR 10] else ''/tank'' @ [CHR 10]))"

definition demo_reporter :: "share_world PoolReporter" where
  "demo_reporter =
     \<lparr>pr_Client = pool_client, pr_NodeName = ''a'', pr_NodeIP = ''10.0.0.1'',
      pr_Discoverer = \<lparr>d_ZpoolBin = '''', d_ZfsBin = '''', d_Run = Some zpool_run, d_Exec = (\<lambda>n as w. (w, Inr ''''))\<rparr>\<rparr>"

definition tank_on_a :: Pool where
  "tank_on_a = \<lparr>pool_Name = ''tank'', pool_GUID = ''42'', pool_Health = PoolHealthOnline, pool_Mountpoint = ''/tank''\<rparr>"

subsection \<open>A scrub run\<close>

record scrub_world =
  spw_cr :: "ZfsPoolScrubJob option"
  spw_job :: "Job option"
  spw_pods :: "Pod list"
  spw_config :: string
  spw_clock :: int

definition scrub_template :: CronJob where
  "scrub_template =
     \<lparr>cj_Meta = new_meta ''scrub'', cj_Namespace = ''csi'',
      cj_Spec = \<lparr>cjs_Schedule = '''', cjs_StartingDeadlineSeconds = None, cjs_SuccessfulJobsHistoryLimit = None, cjs_FailedJobsHistoryLimit = None,
        cjs_Suspend = None,
        cjs_JobSpec = \<lparr>js_Pod = \<lparr>ps_NodeAffinity = None, ps_Containers = [\<lparr>ct_Name = ''scrub'', ct_Args = [''--pool-guid=none''], ct_TerminationMessagePolicy = ''''\<rparr>]\<rparr>,
          js_ActiveDeadlineSeconds = None, js_TTLSecondsAfterFinished = None\<rparr>\<rparr>,
      cj_LastScheduleTime = None\<rparr>"

definition scrub_client :: "scrub_world ScrubClient" where
  "scrub_client =
     \<lparr>scl_get_ScrubJob = (\<lambda>ns n w. (w, case spw_cr w of None \<Rightarrow> Inl (GoErr (Some StatusNotFound) ''not found'') | Some cr \<Rightarrow> Inr cr)),
      scl_update_status_ScrubJob = (\<lambda>cr w. (w\<lparr>spw_cr := Some cr\<rparr>, None)),
      scl_get_ScrubCronJob = (\<lambda>ns n w. (w, Inl (GoErr (Some StatusNotFound) ''not found''))),
      scl_update_status_ScrubCronJob = (\<lambda>cr w. (w, None)), scl_list_ScrubCronJob = (\<lambda>ns w. (w, Inr [])),
      scl_get_Job = (\<lambda>ns n w. (w, case spw_job w of None \<Rightarrow> Inl (GoErr (Some StatusNotFound) ''not found'') | Some j \<Rightarrow> Inr j)),
      scl_create_Job = (\<lambda>j w. (w\<lparr>spw_job := Some j\<rparr>, None)),
      scl_list_Pod = (\<lambda>ns n w. (w, Inr (spw_pods w))),
      scl_get_ConfigMap = (\<lambda>ns n w. (w, Inr [(scrubConfigKey, spw_config w)])),
      scl_list_ZfsPool = (\<lambda>w. (w, Inr [share_pool])),
      scl_create_or_update_CronJob = (\<lambda>ns n f w. (w, f scrub_template))\<rparr>"

definition demo_scrub :: "scrub_world ScrubReconciler" where
  "demo_scrub =
     \<lparr>scr_Client = scrub_client, scr_APIReader = None, scr_Namespace = ''csi'', scr_ConfigMapName = ''scrub'',
      scr_IsControlledBy = (\<lambda>a b. True), scr_SetControllerReference = (\<lambda>owner m. Inr m),
      scr_Unmarshal = (\<lambda>s. Inr (Some scrub_template)), scr_Now = (\<lambda>w. (w, spw_clock w))\<rparr>"

interpretation demo_scrub: scrub_store demo_scrub ns name spw_cr for ns name
  by unfold_locales (auto simp: demo_scrub_def scrub_client_def split: option.splits)

interpretation demo_scrub_jobs: scrub_frame "\<lambda>w w'. set_option (spw_job w') \<subseteq> set_option (spw_job w) \<union> good_jobs {share_pool}" demo_scrub "{share_pool}"
  by unfold_locales (auto simp: good_jobs_def keeps_def demo_scrub_def scrub_client_def)

definition scrub_cr :: ZfsPoolScrubJob where
  "scrub_cr =
     \<lparr>sj_Meta = new_meta ''once'', sj_Namespace = ''csi'',
      sj_Spec = \<lparr>sjs_PoolGUID = ''42'', sjs_Timeout = None, sjs_ActiveDeadlineSeconds = None, sjs_TTLSecondsAfterFinished = None\<rparr>,
      sj_Status = \<lparr>sjst_Phase = '''', sjst_JobName = '''', sjst_StartTime = None, sjst_CompletionTime = None, sjst_Message = ''''\<rparr>\<rparr>"

definition scrub_begin :: scrub_world where
  "scrub_begin = \<lparr>spw_cr = Some scrub_cr, spw_job = None, spw_pods = [], spw_config = ''template'', spw_clock = 7\<rparr>"

text \<open>After the first pass the job starts at time 9.\<close>

definition scrub_running :: scrub_world where
  "scrub_running =
     (let w = fst (sj_Reconcile demo_scrub ''csi'' ''once'' scrub_begin) in
      w\<lparr>spw_job := map_option (\<lambda>j. j\<lparr>job_StartTime := Some 9\<rparr>) (spw_job w)\<rparr>)"

subsection \<open>A pool whose scrub was cancelled\<close>

definition canceled_output :: "string list \<Rightarrow> string" where
  "canceled_output args =
     (if args = [''list'', ''-H'', ''-o'', ''name,guid''] then ''tank'' @ [CHR 9] @ ''42'' @ [CHR 10]
      else if take 1 args = [''status''] then
        ''  pool: tank'' @ [CHR 10] @ '' state: ONLINE'' @ [CHR 10] @ ''  scan: scrub canceled on Sun Jul 25 16:07:49 2021'' @ [CHR 10]
        @ ''errors: No known data errors'' @ [CHR 10]
      else '''')"

definition canceled_zpool :: "share_world Exec" where
  "canceled_zpool name args w = (w, Inr (canceled_output args))"

end
