(* ===== verification/ZfsCliSpec.thy ===== *)
theory ZfsCliSpec
  imports ZfsCli MemZfs_Ops
begin

text \<open>
  The command-line implementation against the in-memory one. The locale states what the program \<open>zfs\<close>
  does, command by command, in terms of the in-memory state: it prints what the state holds, and it
  reports an object that is missing or already there as an error. Over such a program every method of
  \<open>CLI\<close> that has logic of its own ends as the method of the in-memory ZFS does. The text of other error
  messages is left open.
\<close>

subsection \<open>Output lines\<close>

lemma concat_lines: "ns \<noteq> [] \<Longrightarrow> concat (map (\<lambda>s. s @ [c]) ns) = Join [c] ns @ [c]"
  by (induction ns rule: induct_list012) auto

lemma last_Join: "ns \<noteq> [] \<Longrightarrow> last ns \<noteq> [] \<Longrightarrow> last (Join sep ns) = last (last ns) \<and> Join sep ns \<noteq> []"
  by (induction sep ns rule: Join.induct) (auto split: if_splits)

lemma TrimRight_snoc: "TrimRight c (xs @ [c]) = TrimRight c xs"
  by (simp add: TrimRight_def)

lemma TrimRight_other: "xs \<noteq> [] \<Longrightarrow> last xs \<noteq> c \<Longrightarrow> TrimRight c xs = xs"
  by (cases xs rule: rev_cases) (simp_all add: TrimRight_def)

lemma Join_no_space:
  "\<forall>x \<in> set ns. \<forall>c \<in> set x. \<not> P c \<Longrightarrow> \<forall>c \<in> set sep. \<not> P c \<Longrightarrow> \<forall>c \<in> set (Join sep ns). \<not> P c"
  by (induction sep ns rule: Join.induct) auto

definition word :: "string \<Rightarrow> bool" where
  "word s \<longleftrightarrow> s \<noteq> '''' \<and> (\<forall>c \<in> set s. \<not> isSpace c)"

lemma isSpace_newline [simp]: "isSpace (CHR 10)"
  by code_simp

lemma word_newline: "word n \<Longrightarrow> CHR 10 \<notin> set n"
  using isSpace_newline by (auto simp: word_def simp del: isSpace_newline)

lemma nonempty_trimmed_words: "\<forall>n \<in> set ns. word n \<Longrightarrow> nonempty_trimmed ns = ns"
  by (induction ns) (auto simp: nonempty_trimmed_def word_def TrimSpace_no_space)

lemma TrimSpace_line: "TrimSpace (s @ [CHR 10]) = TrimSpace s"
proof -
  have *: "rev (dropWhile isSpace (rev (dropWhile isSpace (s @ [CHR 10])))) = rev (dropWhile isSpace (rev (dropWhile isSpace s)))"
  proof (cases "\<forall>c \<in> set s. isSpace c")
    case True
    then have "dropWhile isSpace s = []" "dropWhile isSpace (s @ [CHR 10]) = []" by (simp_all only: dropWhile_eq_Nil_conv) auto
    then show ?thesis by (simp only:)
  next
    case False
    then obtain c where "c \<in> set s" "\<not> isSpace c" by blast
    from dropWhile_append1 [of c s isSpace, OF this] show ?thesis by simp
  qed
  then show ?thesis by (simp add: TrimSpace_def)
qed

lemma lines_roundtrip:
  assumes "\<forall>n \<in> set ns. word n"
  shows "nonempty_trimmed (out_lines (concat (map (\<lambda>s. s @ [CHR 10]) ns))) = ns"
proof (cases "ns = []")
  case True
  then show ?thesis by (simp add: out_lines_def TrimRight_def nonempty_trimmed_def TrimSpace_def)
next
  case False
  have l: "word (last ns)" using False assms by simp
  then have "last (last ns) \<noteq> CHR 10" by (metis isSpace_newline last_in_set word_def)
  then have "TrimRight (CHR 10) (Join [CHR 10] ns) = Join [CHR 10] ns"
    using last_Join [OF False, of "[CHR 10]"] l by (intro TrimRight_other) (auto simp: word_def)
  then have "out_lines (concat (map (\<lambda>s. s @ [CHR 10]) ns)) = Split (CHR 10) (Join [CHR 10] ns)"
    by (simp add: out_lines_def concat_lines [OF False] TrimRight_snoc)
  also have "\<dots> = ns" using assms False by (intro Split_Join) (auto dest: word_newline)
  finally show ?thesis using nonempty_trimmed_words [OF assms] by simp
qed

subsection \<open>What the program zfs does\<close>

definition same_pool :: "Mem \<Rightarrow> Mem \<Rightarrow> bool" where
  "same_pool m m' \<longleftrightarrow> m_ds m' = m_ds m \<and> m_txg m' = m_txg m"

definition missing :: "string \<Rightarrow> Mem \<Rightarrow> bool" where
  "missing n m \<longleftrightarrow> isl (snd (Mem_Get n ''type'' m))"

text \<open>The program succeeded, or failed with an error of the given kind.\<close>

definition succeeds :: "'w \<times> (goerr + string) \<Rightarrow> 'w \<Rightarrow> bool" where
  "succeeds r w \<longleftrightarrow> (\<exists>out. r = (w, Inr out))"

definition fails :: "(goerr \<Rightarrow> bool) \<Rightarrow> 'w \<times> (goerr + string) \<Rightarrow> 'w \<Rightarrow> bool" where
  "fails kind r w \<longleftrightarrow> (\<exists>e. r = (w, Inl e) \<and> err_is e = None \<and> kind e)"

text \<open>The program ends as a method of the in-memory ZFS does.\<close>

definition follows :: "('w \<Rightarrow> Mem) \<Rightarrow> (goerr \<Rightarrow> bool) \<Rightarrow> 'w \<times> (goerr + string) \<Rightarrow> Mem \<times> goerr option \<Rightarrow> bool" where
  "follows st kind r s \<longleftrightarrow> (\<exists>w. same_pool (fst s) (st w) \<and> (if snd s = None then succeeds r w else fails kind r w))"

lemma Contains_at: "Contains s ''@'' \<longleftrightarrow> CHR ''@'' \<in> set s"
  by (induction s) (auto simp: HasPrefix_def)

lemma snapshot_name_err_None: "snapshot_name_err names = None \<longleftrightarrow> names \<noteq> [] \<and> (\<forall>n \<in> set names. CHR ''@'' \<in> set n)"
  by (auto simp: snapshot_name_err_def Contains_at find_None_iff find_Some_iff split: option.split) (metis empty_iff list.set(1) nth_mem)

lemma injected_quiet: "m_inj m = [] \<Longrightarrow> injected op n m = (m, None)"
  by (simp add: injected_def)

lemma count_existing_cong: "m_ds m = m_ds m' \<Longrightarrow> count_existing m names = count_existing m' names"
  by (induction names) (auto split: prod.split option.split sum.split)

lemma missing_snap: "CHR ''@'' \<in> set n \<Longrightarrow> missing n m \<longleftrightarrow> (case split_name n of (dn, sn, b) \<Rightarrow> snap_in (m_ds m) dn sn = None)"
  by (auto simp: missing_def Mem_Get_def snap_in_def split_name_def split: option.splits)

lemma count_existing_length:
  "count_existing m names = Inr k \<Longrightarrow> \<forall>n \<in> set names. CHR ''@'' \<in> set n \<Longrightarrow>
   k \<le> length names \<and> (k = length names \<longleftrightarrow> (\<forall>n \<in> set names. \<not> missing n m))"
proof (induction names arbitrary: k)
  case (Cons n names)
  obtain dn sn b where sp: "split_name n = (dn, sn, b)" by (metis prod_cases3)
  obtain d j where d: "map_of (m_ds m) dn = Some d" "count_existing m names = Inr j" "k = (if map_of (ds_snaps d) sn \<noteq> None then Suc j else j)"
    using Cons(2) sp by (auto split: option.splits sum.splits)
  have "missing n m \<longleftrightarrow> map_of (ds_snaps d) sn = None" using Cons(3) sp d(1) by (simp add: missing_snap snap_in_def)
  then show ?case using Cons(1) [OF d(2)] Cons(3) d(3) by auto
qed simp

text \<open>The outcome of the in-memory snapshot call without injected errors.\<close>

lemma Snapshot_quiet:
  assumes "m_inj m = []" "snapshot_name_err names = None"
  shows "isl (count_existing m names) \<Longrightarrow> \<exists>m' e. Mem_Snapshot names m = (m', Some e) \<and> same_pool m' m \<and> \<not> errors_Is e ErrSnapshotsPartiallyExist"
    "count_existing m names = Inr 0 \<Longrightarrow> snd (Mem_Snapshot names m) = None"
    "count_existing m names = Inr k \<Longrightarrow> k > 0 \<Longrightarrow> \<exists>m'. same_pool m' m \<and> Mem_Snapshot names m = (m',
       if k = length names \<or> length names = 1 then None else Some (GoErr (Some ErrSnapshotsPartiallyExist) partially_exist_text))"
proof -
  define m1 where "m1 = record_call (''snapshot '' @ Join '' '' names) m"
  have m1: "m_ds m1 = m_ds m" "m_txg m1 = m_txg m" "m_inj m1 = []" using assms(1) by (simp_all add: m1_def record_call_def)
  have c: "count_existing m1 names = count_existing m names" using m1(1) by (rule count_existing_cong)
  have f: "names \<noteq> []" "find (\<lambda>n. CHR ''@'' \<notin> set n) names = None" using assms(2) by (auto simp: snapshot_name_err_None find_None_iff)
  note eq = Mem_Snapshot_def m1_def [symmetric] Let_def injected_quiet [OF m1(3)]
  show "count_existing m names = Inr 0 \<Longrightarrow> snd (Mem_Snapshot names m) = None" unfolding eq using f c by simp
  show "\<exists>m'. same_pool m' m \<and> Mem_Snapshot names m = (m',
       if k = length names \<or> length names = 1 then None else Some (GoErr (Some ErrSnapshotsPartiallyExist) partially_exist_text))"
    if "count_existing m names = Inr k" "k > 0" unfolding eq using that f c m1 by (auto simp: same_pool_def)
  show "\<exists>m' e. Mem_Snapshot names m = (m', Some e) \<and> same_pool m' m \<and> \<not> errors_Is e ErrSnapshotsPartiallyExist"
    if "isl (count_existing m names)"
  proof -
    have "\<exists>x. e = notExist x" if "count_existing m names = Inl e" for e
      using that by (induction names) (auto split: prod.splits option.splits sum.splits)
    then show ?thesis unfolding eq using that f c m1 by (cases "count_existing m names") (auto simp: same_pool_def notExist_def)
  qed
qed

text \<open>Names that can be told apart in the output: no white space, no comma.\<close>

definition pool_words :: "Mem \<Rightarrow> bool" where
  "pool_words m \<longleftrightarrow> (\<forall>n d. map_of (m_ds m) n = Some d \<longrightarrow> word n \<and> n \<noteq> ''-'' \<and> CHR '','' \<notin> set n \<and>
     (\<forall>sn s. map_of (ds_snaps d) sn = Some s \<longrightarrow> (\<forall>c \<in> set sn. \<not> isSpace c)))"

lemma pool_words_list:
  assumes "\<forall>(n, d) \<in> set (m_ds m). word n \<and> n \<noteq> ''-'' \<and> CHR '','' \<notin> set n \<and> (\<forall>(sn, s) \<in> set (ds_snaps d). \<forall>c \<in> set sn. \<not> isSpace c)"
  shows "pool_words m"
  using assms unfolding pool_words_def by (fastforce dest: map_of_SomeD)

lemma word_snap: "pool_words m \<Longrightarrow> snap_in (m_ds m) dn sn = Some s \<Longrightarrow> word (snap_full dn sn)"
  by (fastforce simp: pool_words_def snap_in_def word_def snap_full_def isSpace_def split: option.splits)

lemma word_trim: "word s \<Longrightarrow> TrimSpace s = s"
  by (simp add: word_def TrimSpace_no_space)

lemma snap_full_dash [simp]: "snap_full dn sn \<noteq> ''-''" "''-'' \<noteq> snap_full dn sn"
proof -
  show "snap_full dn sn \<noteq> ''-''"
  proof
    assume "snap_full dn sn = ''-''"
    then show False using at_in_snap_full [of dn sn] by simp
  qed
  then show "''-'' \<noteq> snap_full dn sn" by metis
qed

text \<open>What \<open>zfs get origin\<close> shows of a dataset.\<close>

definition shown_origin :: "dsmap \<Rightarrow> string \<Rightarrow> string" where
  "shown_origin ds n = (if origin_in ds n = '''' then ''-'' else origin_in ds n)"

lemma Get_origin: "is_name n \<Longrightarrow> map_of (m_ds m) n = Some d \<Longrightarrow> snd (Mem_Get n ''origin'' m) = Inr (shown_origin (m_ds m) n)"
  by (simp add: Mem_Get_def get_dataset_def shown_origin_def origin_in_def)

text \<open>A promote that succeeds changes what is shown.\<close>

lemma shown_origin_promoted:
  assumes nm: "names_ok (m_ds m)" "lineage_ok (m_ds m)" and pw: "pool_words m"
    and pr: "promotable (m_ds m) n pn osn os mv" and d: "map_of (m_ds m) n = Some d" "ds_origin d = snap_full pn osn"
  shows "TrimSpace (shown_origin (promoted pn n osn mv (m_ds m)) n) \<noteq> TrimSpace (shown_origin (m_ds m) n)"
proof -
  have o: "shown_origin (m_ds m) n = snap_full pn osn" using d by (simp add: shown_origin_def origin_in_def)
  have p: "is_name pn" "pn \<noteq> n" "snap_in (m_ds m) pn osn = Some os" using pr by (auto simp: promotable_def)
  have b: "TrimSpace (snap_full pn osn) = snap_full pn osn" using word_snap [OF pw p(3)] by (rule word_trim)
  show ?thesis
  proof (cases "origin_in (m_ds m) pn = ''''")
    case True
    then have "shown_origin (promoted pn n osn mv (m_ds m)) n = ''-''"
      using d p(2) by (simp add: shown_origin_def origin_in_promoted [OF nm(1) pr])
    moreover have "TrimSpace ''-'' = ''-''" by code_simp
    ultimately show ?thesis using o b by simp
  next
    case False
    from parent_origin [OF nm pr False] obtain q qs s where q: "origin_in (m_ds m) pn = snap_full q qs" "is_name q"
      "snap_in (m_ds m) q qs = Some s" "q \<noteq> pn" by metis
    have "reorigin_all pn n (map sn_name mv) (snap_full q qs) = snap_full q qs" using q p by (intro reorigin_all_other) auto
    then have "shown_origin (promoted pn n osn mv (m_ds m)) n = snap_full q qs"
      using d p(2) q by (simp add: shown_origin_def origin_in_promoted [OF nm(1) pr])
    then show ?thesis using o b q p word_trim [OF word_snap [OF pw q(3)]] by (simp add: snap_full_inj)
  qed
qed

lemma tolerate_simps [simp]:
  "tolerate ok (w1, None) = (w1, None)" "tolerate ok (w1, Some e) = (w1, if ok e then None else Some e)"
  by (simp_all add: tolerate_def)

lemma Destroy_missing:
  assumes "missing n m" "m_inj m = []" "names_ok (m_ds m)"
  shows "same_pool (fst (Mem_Destroy n r m)) m \<and> snd (Mem_Destroy n r m) = None"
proof -
  have q: "m_inj (record_call (''destroy '' @ n) m) = []" using assms(2) by (simp add: record_call_def)
  have ds: "m_ds (record_call l m) = m_ds m" "m_txg (record_call l m) = m_txg m" for l by (simp_all add: record_call_def)
  obtain dn sn b where sp: "split_name n = (dn, sn, b)" by (metis prod_cases3)
  show ?thesis
  proof (cases b)
    case True
    then have "CHR ''@'' \<in> set n" using sp by (simp add: split_name_def split: if_splits)
    then have "snap_in (m_ds m) dn sn = None" using assms(1) sp by (simp add: missing_snap)
    then show ?thesis unfolding Mem_Destroy_def injected_quiet [OF q] using True sp
      by (simp add: destroy_snapshot_def snap_at_snap_in ds same_pool_def)
  next
    case False
    then have "map_of (m_ds m) n = None" using assms(1) sp split_name_ds [of n dn sn]
      by (auto simp: missing_def Mem_Get_def split: option.splits)
    then show ?thesis unfolding Mem_Destroy_def injected_quiet [OF q] using False sp
      by (simp add: destroy_dataset_def ds same_pool_def)
  qed
qed

text \<open>A method ends as its counterpart: the same datasets and snapshots, and success when that succeeds.\<close>

definition agrees :: "('w \<Rightarrow> Mem) \<Rightarrow> 'w \<times> goerr option \<Rightarrow> Mem \<times> goerr option \<Rightarrow> bool" where
  "agrees st r s \<longleftrightarrow> same_pool (fst s) (st (fst r)) \<and> (snd r = None \<longleftrightarrow> snd s = None)"

text \<open>A property map in the order of its keys, as it is written on the command line.\<close>

definition canonical :: "props \<Rightarrow> bool" where
  "canonical ps \<longleftrightarrow> sorted (keys ps) \<and> wf_map ps \<and> (\<forall>k \<in> set (keys ps). CHR ''='' \<notin> set k)"

locale zfs_program =
  fixes z :: "'w CLI" and st :: "'w \<Rightarrow> Mem"
  assumes quiet: "m_inj (st w) = []"
    and get_ok: "snd (Mem_Get n p (st w)) = Inr v \<Longrightarrow>
      \<exists>w1. cli_run z [''get'', ''-H'', ''-p'', ''-o'', ''value'', p, n] w = (w1, Inr (v @ [CHR 10])) \<and> st w1 = st w"
    and get_missing: "isl (snd (Mem_Get n p (st w))) \<Longrightarrow>
      \<exists>w1. fails isNotExist (cli_run z [''get'', ''-H'', ''-p'', ''-o'', ''value'', p, n] w) w1 \<and> st w1 = st w"
    and list_ok: "snd (Mem_ListSnapshots n (st w)) = Inr ns \<Longrightarrow>
      \<exists>w1. cli_run z [''list'', ''-H'', ''-o'', ''name'', ''-t'', ''snapshot'', ''-d'', ''1'', ''-s'', ''creation'', n] w
        = (w1, Inr (concat (map (\<lambda>s. s @ [CHR 10]) ns))) \<and> st w1 = st w"
    and list_missing: "isl (snd (Mem_ListSnapshots n (st w))) \<Longrightarrow>
      \<exists>w1. fails isNotExist (cli_run z [''list'', ''-H'', ''-o'', ''name'', ''-t'', ''snapshot'', ''-d'', ''1'', ''-s'', ''creation'', n] w) w1 \<and> st w1 = st w"
    and snapshot_taken: "snapshot_name_err names = None \<Longrightarrow> count_existing (st w) names = Inr 0 \<Longrightarrow>
      follows st (\<lambda>e. True) (cli_run z (''snapshot'' # names) w) (Mem_Snapshot names (st w))"
    and snapshot_exists: "snapshot_name_err names = None \<Longrightarrow> count_existing (st w) names = Inr k \<Longrightarrow> k > 0 \<Longrightarrow>
      \<exists>w1. fails isExists (cli_run z (''snapshot'' # names) w) w1 \<and> st w1 = st w"
    and snapshot_no_dataset: "snapshot_name_err names = None \<Longrightarrow> isl (count_existing (st w) names) \<Longrightarrow>
      \<exists>w1. fails (\<lambda>e. \<not> isExists e) (cli_run z (''snapshot'' # names) w) w1 \<and> st w1 = st w"
    and promote_clone: "map_of (m_ds (st w)) n = Some d \<Longrightarrow> ds_origin d \<noteq> '''' \<Longrightarrow>
      follows st (\<lambda>e. True) (cli_run z [''promote'', n] w) (Mem_Promote n (st w))"
    and destroy_missing: "missing n (st w) \<Longrightarrow>
      \<exists>w1. fails isNotExist (cli_run z ([''destroy''] @ (if r then [''-r''] else []) @ [n]) w) w1 \<and> st w1 = st w"
    and destroy_there: "\<not> missing n (st w) \<Longrightarrow> \<not> (r \<and> CHR ''@'' \<in> set n) \<Longrightarrow>
      follows st (\<lambda>e. \<not> isNotExist e) (cli_run z ([''destroy''] @ (if r then [''-r''] else []) @ [n]) w) (Mem_Destroy n r (st w))"
    and defer_missing: "missing n (st w) \<Longrightarrow> \<exists>w1. fails isNotExist (cli_run z [''destroy'', ''-d'', n] w) w1 \<and> st w1 = st w"
    and defer_there: "\<not> missing n (st w) \<Longrightarrow> CHR ''@'' \<in> set n \<Longrightarrow>
      follows st (\<lambda>e. \<not> isNotExist e) (cli_run z [''destroy'', ''-d'', n] w) (Mem_DestroySnapshotDeferred n (st w))"
    and clone_there: "canonical ps \<Longrightarrow> \<not> missing s (st w) \<Longrightarrow> CHR ''@'' \<in> set s \<Longrightarrow> map_of (m_ds (st w)) dest \<noteq> None \<Longrightarrow>
      \<exists>w1. fails isExists (cli_run z ([''clone''] @ propArgs ps @ [s, dest]) w) w1 \<and> st w1 = st w"
    and clone_new: "canonical ps \<Longrightarrow> missing s (st w) \<or> map_of (m_ds (st w)) dest = None \<Longrightarrow> CHR ''@'' \<in> set s \<Longrightarrow>
      follows st (\<lambda>e. \<not> isExists e) (cli_run z ([''clone''] @ propArgs ps @ [s, dest]) w) (Mem_Clone s dest ps (st w))"
begin

lemma Get_conforms:
  obtains w1 where "cli_Get z n p w = (w1, case snd (Mem_Get n p (st w)) of Inr v \<Rightarrow> Inr (TrimSpace v) | Inl _ \<Rightarrow> Inl (not_exist_err n))"
    "st w1 = st w"
proof (cases "snd (Mem_Get n p (st w))")
  case (Inl e)
  then show ?thesis using get_missing [of n p w] that by (auto simp: cli_Get_def fails_def)
next
  case (Inr v)
  then show ?thesis using get_ok [OF Inr] that by (auto simp: cli_Get_def TrimSpace_line)
qed

lemma all_exist_conforms:
  "all_exist z names w = (w1, r) \<Longrightarrow> st w1 = st w \<and> (r = None \<longleftrightarrow> (\<forall>n \<in> set names. \<not> missing n (st w))) \<and>
     (\<forall>e. r = Some e \<longrightarrow> errors_Is e ErrSnapshotsPartiallyExist)"
proof (induction names arbitrary: w)
  case (Cons n names)
  obtain w0 where g: "cli_Get z n ''type'' w = (w0, case snd (Mem_Get n ''type'' (st w)) of Inr v \<Rightarrow> Inr (TrimSpace v) | Inl _ \<Rightarrow> Inl (not_exist_err n))"
    "st w0 = st w" using Get_conforms by blast
  show ?case
  proof (cases "missing n (st w)")
    case True
    then show ?thesis using Cons(2) g by (cases "snd (Mem_Get n ''type'' (st w))") (auto simp: missing_def)
  next
    case False
    then have "all_exist z names w0 = (w1, r)" using Cons(2) g by (cases "snd (Mem_Get n ''type'' (st w))") (auto simp: missing_def)
    from Cons(1) [OF this] show ?thesis using False g(2) by simp
  qed
qed simp

lemma follows_act:
  "follows st kind (cli_run z args w) s \<Longrightarrow> same_pool (fst s) (st (fst (cli_act z args w))) \<and>
     (snd (cli_act z args w) = None \<longleftrightarrow> snd s = None) \<and> (\<forall>e. snd (cli_act z args w) = Some e \<longrightarrow> kind e \<and> err_is e = None)"
  by (auto simp: follows_def succeeds_def fails_def cli_act_def split: if_splits)

lemma fails_act: "fails kind (cli_run z args w) w1 \<Longrightarrow> \<exists>e. cli_act z args w = (w1, Some e) \<and> kind e \<and> err_is e = None"
  by (auto simp: fails_def cli_act_def)

lemma Snapshot_conforms:
  assumes "snapshot_name_err names = None"
  shows "agrees st (cli_Snapshot z names w) (Mem_Snapshot names (st w)) \<and>
    ((\<exists>e. snd (cli_Snapshot z names w) = Some e \<and> errors_Is e ErrSnapshotsPartiallyExist) \<longleftrightarrow>
     (\<exists>e. snd (Mem_Snapshot names (st w)) = Some e \<and> errors_Is e ErrSnapshotsPartiallyExist))"
proof (cases "count_existing (st w) names")
  case (Inl e)
  then obtain w1 e1 where "cli_act z (''snapshot'' # names) w = (w1, Some e1)" "\<not> isExists e1" "err_is e1 = None" "st w1 = st w"
    using fails_act snapshot_no_dataset [OF assms, of w] by (auto dest!: fails_act)
  then have "cli_Snapshot z names w = (w1, Some e1)" "st w1 = st w" "\<not> errors_Is e1 ErrSnapshotsPartiallyExist"
    using assms by (auto simp: cli_Snapshot_def errors_Is_def)
  then show ?thesis using Snapshot_quiet(1) [OF quiet assms, of w] Inl by (auto simp: agrees_def same_pool_def)
next
  case (Inr k)
  show ?thesis
  proof (cases "k = 0")
    case True
    note s = Snapshot_quiet(2) [OF quiet assms Inr [unfolded True]]
    from follows_act [OF snapshot_taken [OF assms Inr [unfolded True]]] s have
      "same_pool (fst (Mem_Snapshot names (st w))) (st (fst (cli_act z (''snapshot'' # names) w)))" "snd (cli_act z (''snapshot'' # names) w) = None" by auto
    then have "cli_Snapshot z names w = cli_act z (''snapshot'' # names) w" "snd (cli_act z (''snapshot'' # names) w) = None"
      "same_pool (fst (Mem_Snapshot names (st w))) (st (fst (cli_act z (''snapshot'' # names) w)))"
      using assms by (auto simp: cli_Snapshot_def split: prod.split)
    then show ?thesis using s by (simp add: agrees_def)
  next
    case False
    then obtain w1 e1 where a: "cli_act z (''snapshot'' # names) w = (w1, Some e1)" "isExists e1" "st w1 = st w"
      using snapshot_exists [OF assms Inr] by (auto dest!: fails_act)
    obtain w2 r where r: "all_exist z names w1 = (w2, r)" by fastforce
    have c: "cli_Snapshot z names w = (if length names = 1 then (w1, None) else (w2, r))"
      using assms a r by (simp add: cli_Snapshot_def)
    obtain m' where m': "same_pool m' (st w)" "Mem_Snapshot names (st w) = (m',
       if k = length names \<or> length names = 1 then None else Some (GoErr (Some ErrSnapshotsPartiallyExist) partially_exist_text))"
      using Snapshot_quiet(3) [OF quiet assms Inr] False by blast
    have k: "k = length names \<longleftrightarrow> (\<forall>n \<in> set names. \<not> missing n (st w))"
      using count_existing_length [OF Inr] assms by (simp add: snapshot_name_err_None)
    from all_exist_conforms [OF r] a(3) k show ?thesis
      unfolding c m'(2) agrees_def using m'(1) by (cases r) (auto simp: same_pool_def)
  qed
qed

lemma Promote_conforms:
  assumes "mem_inv (st w)" "pool_words (st w)" "is_name n" "n \<noteq> ''''"
  shows "agrees st (cli_Promote z n w) (Mem_Promote n (st w))"
proof -
  have nm: "names_ok (m_ds (st w))" "lineage_ok (m_ds (st w))" using assms(1) by (auto simp: mem_inv_def ds_inv_def)
  obtain w1 where g: "cli_Get z n ''origin'' w = (w1, case snd (Mem_Get n ''origin'' (st w)) of Inr v \<Rightarrow> Inr (TrimSpace v) | Inl _ \<Rightarrow> Inl (not_exist_err n))"
    "st w1 = st w" using Get_conforms by blast
  have clone: "cli_Promote z n w = promote_attempts z n promoteMaxAttempts (TrimSpace (shown_origin (m_ds (st w)) n)) w1 \<and>
      word (shown_origin (m_ds (st w)) n)" if d: "map_of (m_ds (st w)) n = Some d" "ds_origin d \<noteq> ''''" for d
  proof -
    from lineageE [OF nm d] obtain pn osn p os where o: "ds_origin d = snap_full pn osn" "map_of (m_ds (st w)) pn = Some p"
      "map_of (ds_snaps p) osn = Some os" by metis
    have s: "shown_origin (m_ds (st w)) n = snap_full pn osn" using d o by (simp add: shown_origin_def origin_in_def)
    have wd: "word (snap_full pn osn)" using word_snap [OF assms(2)] o by (simp add: snap_in_def)
    then have "\<not> isOriginEmpty (TrimSpace (snap_full pn osn))"
      by (simp add: isOriginEmpty_def word_trim)
    then show ?thesis using g assms(4) Get_origin [OF assms(3) d(1)] s wd by (simp add: cli_Promote_def)
  qed
  show ?thesis using assms(1)
  proof (cases rule: Promote_cases [where n = n])
    case missing
    then have "cli_Promote z n w = (w1, Some (not_exist_err n))" using g assms(3,4) by (simp add: cli_Promote_def Mem_Get_def)
    then show ?thesis using missing g(2) by (simp add: agrees_def same_pool_def)
  next
    case (independent d)
    have "TrimSpace ''-'' = ''-''" by code_simp
    then have "cli_Promote z n w = (w1, None)" using g assms(4) Get_origin [OF assms(3) independent(1)] independent(1,2)
      by (simp add: cli_Promote_def shown_origin_def origin_in_def isOriginEmpty_def)
    then show ?thesis using independent g(2) by (simp add: agrees_def same_pool_def)
  next
    case (failed m2 e d)
    from promote_clone [of w1 n d] failed g(2) obtain w2 e2 where "cli_run z [''promote'', n] w1 = (w2, Inl e2)" "same_pool m2 (st w2)"
      by (auto simp: follows_def fails_def)
    then show ?thesis using clone [OF failed(1,2)] failed(3) by (simp add: agrees_def numeral_eq_Suc)
  next
    case (moved m2 d pn osn os)
    from promote_clone [of w1 n d] moved g(2) obtain w2 out where r: "cli_run z [''promote'', n] w1 = (w2, Inr out)" "same_pool m2 (st w2)"
      by (auto simp: follows_def succeeds_def)
    let ?ds = "promoted pn n osn (moved_of (m_ds (st w)) pn os) (m_ds (st w))"
    have ds: "m_ds (st w2) = ?ds" using r(2) moved(5) by (simp add: same_pool_def)
    obtain d2 where d2: "map_of ?ds n = Some d2" using dom_promoted [OF nm(1) moved(3)] moved(1) by fastforce
    obtain w3 where "cli_Get z n ''origin'' w2 = (w3, Inr (TrimSpace (shown_origin ?ds n)))" "st w3 = st w2"
      using Get_conforms [of n "''origin''" w2] Get_origin [OF assms(3), of "st w2"] d2 ds by auto
    moreover have "TrimSpace (shown_origin ?ds n) \<noteq> TrimSpace (shown_origin (m_ds (st w)) n)"
      by (rule shown_origin_promoted [OF nm assms(2) moved(3,1,2)])
    ultimately show ?thesis using clone [OF moved(1)] moved(2,4) r by (simp add: agrees_def numeral_eq_Suc)
  qed
qed

lemma ListSnapshots_conforms:
  assumes "names_ok (m_ds (st w))" "pool_words (st w)" "n \<noteq> ''''"
  shows "snd (cli_ListSnapshots z n w) = snd (Mem_ListSnapshots n (st w)) \<and> st (fst (cli_ListSnapshots z n w)) = st w"
proof (cases "map_of (m_ds (st w)) n")
  case None
  then show ?thesis using list_missing [of n w] assms(3) by (auto simp: cli_ListSnapshots_def fails_def Mem_ListSnapshots_def)
next
  case (Some d)
  have l: "snd (Mem_ListSnapshots n (st w)) = Inr (snapNames d)" using Some by (simp add: Mem_ListSnapshots_def)
  have "\<forall>x \<in> set (snapNames d). word x" using set_snapNames [OF assms(1) Some] word_snap [OF assms(2), of n] Some by (auto simp: snap_in_def)
  then show ?thesis using list_ok [OF l] l assms(3) by (auto simp: cli_ListSnapshots_def lines_roundtrip)
qed

lemma Clones_conforms:
  assumes "names_ok (m_ds (st w))" "pool_words (st w)"
  shows "snd (cli_Clones z s w) = snd (Mem_Clones s (st w)) \<and> st (fst (cli_Clones z s w)) = st w"
proof (cases "CHR ''@'' \<in> set s")
  case False
  then show ?thesis by (simp add: cli_Clones_def Contains_at Mem_Clones_def split_name_def)
next
  case True
  obtain dn sn where sp: "split_name s = (dn, sn, True)" using True by (simp add: split_name_def)
  obtain w1 where g: "cli_Get z s ''clones'' w = (w1, case snd (Mem_Get s ''clones'' (st w)) of Inr v \<Rightarrow> Inr (TrimSpace v) | Inl _ \<Rightarrow> Inl (not_exist_err s))"
    "st w1 = st w" using Get_conforms by blast
  show ?thesis
  proof (cases "snap_at (st w) dn sn")
    case None
    then have "snd (Mem_Get s ''clones'' (st w)) = Inl (not_exist_err s)" using sp by (auto simp: Mem_Get_def snap_at_def split: option.splits)
    then show ?thesis using g True None sp by (simp add: cli_Clones_def Contains_at Mem_Clones_def)
  next
    case (Some x)
    let ?cs = "clonesOf (st w) s"
    have get: "snd (Mem_Get s ''clones'' (st w)) = Inr (if ?cs \<noteq> [] then Join '','' ?cs else ''-'')"
      using Some sp by (auto simp: Mem_Get_def snap_at_def get_snapshot_def Let_def split: option.splits)
    have c: "\<forall>n \<in> set ?cs. word n \<and> n \<noteq> ''-'' \<and> CHR '','' \<notin> set n"
      using set_clonesOf [OF assms(1)] assms(2) by (auto simp: pool_words_def)
    show ?thesis
    proof (cases "?cs = []")
      case True
      have "TrimSpace ''-'' = ''-''" by code_simp
      then show ?thesis using True g get \<open>CHR ''@'' \<in> set s\<close> Some sp by (simp add: cli_Clones_def Contains_at Mem_Clones_def)
    next
      case False
      have "\<forall>x \<in> set (Join '','' ?cs). \<not> isSpace x"
        using c by (intro Join_no_space) (auto simp: word_def isSpace_def)
      then have t: "TrimSpace (Join '','' ?cs) = Join '','' ?cs" by (rule TrimSpace_no_space)
      have j: "Split (CHR '','') (Join '','' ?cs) = ?cs" using c False by (intro Split_Join) auto
      have "Join '','' ?cs \<noteq> ''''" "Join '','' ?cs \<noteq> ''-''"
      proof -
        show "Join '','' ?cs \<noteq> ''''" using last_Join [OF False] c False by (auto simp: word_def)
        show "Join '','' ?cs \<noteq> ''-''"
        proof
          assume "Join '','' ?cs = ''-''"
          then have "?cs = [''-'']" using j by simp
          then show False using c by auto
        qed
      qed
      then show ?thesis using False g get \<open>CHR ''@'' \<in> set s\<close> Some sp t j c
        by (simp add: cli_Clones_def Contains_at Mem_Clones_def nonempty_trimmed_words)
    qed
  qed
qed

lemma follows_tolerate:
  assumes "follows st (\<lambda>e. \<not> kind e) (cli_run z args w) s"
  shows "agrees st (tolerate kind (cli_act z args w)) s"
proof -
  obtain w1 r where a: "cli_act z args w = (w1, r)" by fastforce
  show ?thesis using follows_act [OF assms] a by (cases r) (auto simp: agrees_def)
qed

lemma Destroy_conforms:
  assumes "names_ok (m_ds (st w))" "n \<noteq> ''''" "\<not> (r \<and> CHR ''@'' \<in> set n)"
  shows "agrees st (cli_Destroy z n r w) (Mem_Destroy n r (st w))"
proof (cases "missing n (st w)")
  case True
  then obtain w1 e where "cli_act z ([''destroy''] @ (if r then [''-r''] else []) @ [n]) w = (w1, Some e)" "isNotExist e" "st w1 = st w"
    using destroy_missing [OF True, of r] fails_act by blast
  then have "cli_Destroy z n r w = (w1, None)" "st w1 = st w" using assms(2) by (simp_all add: cli_Destroy_def)
  then show ?thesis using Destroy_missing [OF True quiet assms(1), of r] by (simp add: agrees_def same_pool_def)
next
  case False
  then show ?thesis using follows_tolerate [OF destroy_there [OF False assms(3)]] assms(2) by (simp add: cli_Destroy_def)
qed

lemma DestroySnapshotDeferred_conforms:
  assumes "CHR ''@'' \<in> set n"
  shows "agrees st (cli_DestroySnapshotDeferred z n w) (Mem_DestroySnapshotDeferred n (st w))"
proof (cases "missing n (st w)")
  case True
  then obtain w1 e where "cli_act z [''destroy'', ''-d'', n] w = (w1, Some e)" "isNotExist e" "st w1 = st w"
    using defer_missing [OF True] by (auto dest!: fails_act)
  then have "cli_DestroySnapshotDeferred z n w = (w1, None)" "st w1 = st w"
    using assms by (simp_all add: cli_DestroySnapshotDeferred_def Contains_at)
  moreover obtain dn sn where "split_name n = (dn, sn, True)" using assms by (simp add: split_name_def)
  moreover have "m_inj (record_call (''destroy -d '' @ n) (st w)) = []" using quiet by (simp add: record_call_def)
  ultimately show ?thesis using True assms
    by (simp add: agrees_def same_pool_def Mem_DestroySnapshotDeferred_def missing_snap injected_quiet snap_at_snap_in Let_def)
next
  case False
  then show ?thesis using follows_tolerate [OF defer_there [OF False assms]] assms
    by (simp add: cli_DestroySnapshotDeferred_def Contains_at)
qed

lemma Clone_conforms:
  assumes "CHR ''@'' \<in> set s" "dest \<noteq> ''''" "canonical ps"
  shows "agrees st (cli_Clone z s dest ps w) (Mem_Clone s dest ps (st w))"
proof -
  have c: "cli_Clone z s dest ps w = tolerate isExists (cli_act z ([''clone''] @ propArgs ps @ [s, dest]) w)"
    using assms by (auto simp: cli_Clone_def Contains_at)
  show ?thesis
  proof (cases "missing s (st w) \<or> map_of (m_ds (st w)) dest = None")
    case True
    then show ?thesis unfolding c by (rule follows_tolerate [OF clone_new [OF assms(3) _ assms(1)]])
  next
    case False
    then obtain w1 e where "cli_act z ([''clone''] @ propArgs ps @ [s, dest]) w = (w1, Some e)" "isExists e" "st w1 = st w"
      using clone_there [OF assms(3), of s w dest] assms(1) by (auto dest!: fails_act)
    moreover obtain dn sn where "split_name s = (dn, sn, True)" using assms by (simp add: split_name_def)
    moreover have "m_inj (record_call (''clone '' @ s @ '' '' @ dest) (st w)) = []" using quiet by (simp add: record_call_def)
    ultimately show ?thesis unfolding c using False assms(1)
      by (auto simp: agrees_def same_pool_def Mem_Clone_def missing_snap injected_quiet snap_in_def Let_def split: option.splits)
  qed
qed

end

subsection \<open>The in-memory ZFS as such a program\<close>

fun parse_props :: "string list \<Rightarrow> props \<times> string list" where
  "parse_props (f # kv # rest) =
     (if f = ''-o'' then (case parse_props rest of (ps, as) \<Rightarrow> ((before CHR ''='' kv, after CHR ''='' kv) # ps, as)) else ([], f # kv # rest))"
| "parse_props as = ([], as)"

lemma parse_args:
  "\<forall>k \<in> set ks. CHR ''='' \<notin> set k \<Longrightarrow> a \<noteq> ''-o'' \<Longrightarrow>
   parse_props (concat (map (\<lambda>k. [''-o'', k @ ''='' @ f k]) ks) @ [a, b]) = (map (\<lambda>k. (k, f k)) ks, [a, b])"
  by (induction ks) (simp_all add: before_append after_append)

lemma parse_propArgs:
  assumes "canonical ps" "CHR ''@'' \<in> set a"
  shows "parse_props (propArgs ps @ [a, b]) = (ps, [a, b])"
proof -
  have "map (\<lambda>k. (k, mgets ps k)) (keys ps) = ps"
    unfolding keys_def list.map_comp by (rule map_idI) (use assms(1) in \<open>auto simp: canonical_def mgets_def wf_map_in_iff\<close>)
  moreover have "sort (keys ps) = keys ps" using assms(1) by (simp add: canonical_def sorted_sort_id)
  moreover have "a \<noteq> ''-o''" using assms(2) by auto
  ultimately show ?thesis using assms(1) parse_args [of "keys ps" a "mgets ps" b] by (simp add: canonical_def propArgs_def)
qed

text \<open>The replies of the program: what a method of the in-memory ZFS did, or an error with the text of zfs.\<close>

definition no_dataset :: "goerr" where "no_dataset = errorf ''dataset does not exist''"

definition name_taken :: "goerr" where "name_taken = errorf ''dataset already exists''"

definition refused :: "goerr" where "refused = errorf ''operation refused''"

definition act_reply :: "Mem \<times> goerr option \<Rightarrow> Mem \<times> (goerr + string)" where
  "act_reply r = (case r of (m, None) \<Rightarrow> (m, Inr '''') | (m, Some _) \<Rightarrow> (m, Inl refused))"

definition quietly :: "Mem \<Rightarrow> Mem" where
  "quietly m = m\<lparr>m_inj := []\<rparr>"

definition run_snapshot :: "string list \<Rightarrow> Mem \<Rightarrow> Mem \<times> (goerr + string)" where
  "run_snapshot names m =
     (case count_existing m names of
        Inl _ \<Rightarrow> (m, Inl no_dataset)
      | Inr k \<Rightarrow> if k > 0 then (m, Inl name_taken) else act_reply (Mem_Snapshot names m))"

definition run_clone :: "props \<times> string list \<Rightarrow> Mem \<Rightarrow> Mem \<times> (goerr + string)" where
  "run_clone a m =
     (case a of (ps, as) \<Rightarrow>
        if \<not> missing (as ! 0) m \<and> map_of (m_ds m) (as ! 1) \<noteq> None then (m, Inl name_taken)
        else act_reply (Mem_Clone (as ! 0) (as ! 1) ps m))"

definition mem_program :: "Mem Runner" where
  "mem_program name args m0 =
     (let m = quietly m0; cmd = hd args in
      if cmd = ''get'' then (m, case snd (Mem_Get (args ! 6) (args ! 5) m) of Inl _ \<Rightarrow> Inl no_dataset | Inr v \<Rightarrow> Inr (v @ [CHR 10]))
      else if cmd = ''list'' then
        (m, case snd (Mem_ListSnapshots (last args) m) of Inl _ \<Rightarrow> Inl no_dataset | Inr ns \<Rightarrow> Inr (concat (map (\<lambda>s. s @ [CHR 10]) ns)))
      else if cmd = ''snapshot'' then run_snapshot (tl args) m
      else if cmd = ''promote'' then act_reply (Mem_Promote (args ! 1) m)
      else if cmd = ''destroy'' then
        (if missing (last args) m then (m, Inl no_dataset)
         else act_reply (if args ! 1 = ''-d'' \<and> length args = 3 then Mem_DestroySnapshotDeferred (last args) m
           else Mem_Destroy (last args) (length args = 3) m))
      else if cmd = ''clone'' then run_clone (parse_props (tl args)) m
      else (m, Inr ''''))"

definition mem_cli :: "Mem CLI" where
  "mem_cli = NewZFS (\<lambda>name args m. (m, Inr '''')) (Some mem_program)"

lemma mem_cli_run: "cli_run mem_cli args m = mem_program ''zfs'' args m"
  by (simp add: cli_run_def cli_exec_def mem_cli_def NewZFS_def runner_or_def)

lemma reply_kinds [simp]:
  "isNotExist no_dataset" "\<not> isExists no_dataset" "isExists name_taken" "\<not> isNotExist refused" "\<not> isExists refused"
  "err_is no_dataset = None" "err_is name_taken = None" "err_is refused = None"
  by code_simp+

lemma quietly_quietly [simp]: "quietly (quietly m) = quietly m" "m_inj (quietly m) = []"
  by (simp_all add: quietly_def)

lemma follows_reply: "kind refused \<Longrightarrow> follows quietly kind (act_reply r) r"
  by (cases r; cases "snd r") (auto simp: follows_def act_reply_def same_pool_def succeeds_def fails_def quietly_def)

lemmas mem_cli_defs = mem_cli_run mem_program_def Let_def

interpretation mem_cli: zfs_program mem_cli quietly
proof
  fix n p v ns w
  show "snd (Mem_Get n p (quietly w)) = Inr v \<Longrightarrow>
      \<exists>w1. cli_run mem_cli [''get'', ''-H'', ''-p'', ''-o'', ''value'', p, n] w = (w1, Inr (v @ [CHR 10])) \<and> quietly w1 = quietly w"
    "isl (snd (Mem_Get n p (quietly w))) \<Longrightarrow>
      \<exists>w1. fails isNotExist (cli_run mem_cli [''get'', ''-H'', ''-p'', ''-o'', ''value'', p, n] w) w1 \<and> quietly w1 = quietly w"
    by (auto simp: mem_cli_defs fails_def isl_def)
  show "snd (Mem_ListSnapshots n (quietly w)) = Inr ns \<Longrightarrow>
      \<exists>w1. cli_run mem_cli [''list'', ''-H'', ''-o'', ''name'', ''-t'', ''snapshot'', ''-d'', ''1'', ''-s'', ''creation'', n] w
        = (w1, Inr (concat (map (\<lambda>s. s @ [CHR 10]) ns))) \<and> quietly w1 = quietly w"
    "isl (snd (Mem_ListSnapshots n (quietly w))) \<Longrightarrow>
      \<exists>w1. fails isNotExist (cli_run mem_cli [''list'', ''-H'', ''-o'', ''name'', ''-t'', ''snapshot'', ''-d'', ''1'', ''-s'', ''creation'', n] w) w1
        \<and> quietly w1 = quietly w"
    by (auto simp: mem_cli_defs fails_def isl_def)
next
  fix names k w assume "snapshot_name_err names = None"
  show "count_existing (quietly w) names = Inr 0 \<Longrightarrow>
      follows quietly (\<lambda>e. True) (cli_run mem_cli (''snapshot'' # names) w) (Mem_Snapshot names (quietly w))"
    "count_existing (quietly w) names = Inr k \<Longrightarrow> k > 0 \<Longrightarrow>
      \<exists>w1. fails isExists (cli_run mem_cli (''snapshot'' # names) w) w1 \<and> quietly w1 = quietly w"
    "isl (count_existing (quietly w) names) \<Longrightarrow>
      \<exists>w1. fails (\<lambda>e. \<not> isExists e) (cli_run mem_cli (''snapshot'' # names) w) w1 \<and> quietly w1 = quietly w"
    by (auto simp: mem_cli_defs run_snapshot_def fails_def isl_def intro!: follows_reply)
next
  fix n r w
  show "missing n (quietly w) \<Longrightarrow>
      \<exists>w1. fails isNotExist (cli_run mem_cli ([''destroy''] @ (if r then [''-r''] else []) @ [n]) w) w1 \<and> quietly w1 = quietly w"
    "missing n (quietly w) \<Longrightarrow> \<exists>w1. fails isNotExist (cli_run mem_cli [''destroy'', ''-d'', n] w) w1 \<and> quietly w1 = quietly w"
    "\<not> missing n (quietly w) \<Longrightarrow> \<not> (r \<and> CHR ''@'' \<in> set n) \<Longrightarrow>
      follows quietly (\<lambda>e. \<not> isNotExist e) (cli_run mem_cli ([''destroy''] @ (if r then [''-r''] else []) @ [n]) w) (Mem_Destroy n r (quietly w))"
    "\<not> missing n (quietly w) \<Longrightarrow> CHR ''@'' \<in> set n \<Longrightarrow>
      follows quietly (\<lambda>e. \<not> isNotExist e) (cli_run mem_cli [''destroy'', ''-d'', n] w) (Mem_DestroySnapshotDeferred n (quietly w))"
    by (auto simp: mem_cli_defs fails_def intro!: follows_reply)
next
  fix s dest ps w assume at: "CHR ''@'' \<in> set s"
  show "\<exists>w1. fails isExists (cli_run mem_cli ([''clone''] @ propArgs ps @ [s, dest]) w) w1 \<and> quietly w1 = quietly w"
    if "canonical ps" "\<not> missing s (quietly w)" "map_of (m_ds (quietly w)) dest \<noteq> None"
    using that by (auto simp: mem_cli_defs run_clone_def parse_propArgs [OF that(1) at] fails_def)
  show "follows quietly (\<lambda>e. \<not> isExists e) (cli_run mem_cli ([''clone''] @ propArgs ps @ [s, dest]) w) (Mem_Clone s dest ps (quietly w))"
    if "canonical ps" "missing s (quietly w) \<or> map_of (m_ds (quietly w)) dest = None"
    using that by (auto simp: mem_cli_defs run_clone_def parse_propArgs [OF that(1) at] intro!: follows_reply)
qed (auto simp: mem_cli_defs intro!: follows_reply)

end
