(* ===== verification/Conformance.thy ===== *)
theory Conformance
  imports MemZfs
begin

text \<open>
  \<open>src/internal/zpool/zfsconf/conformance.go\<close>: the suite that states, case by case, what the driver relies on
  in ZFS, and that runs unchanged against every implementation of the interface \<open>ZFS\<close>.

  A case runs in an environment: the world of the implementation, the counter of fresh names and the
  errors reported so far. \<open>t.Errorf\<close> records an error and goes on, \<open>t.Fatal\<close> records one and ends the case
  (the result \<open>None\<close>). Of a report the subject is kept, not the printed values. Pauses, which order
  snapshots on a clock of whole seconds, have no counterpart.
\<close>

subsection \<open>The environment\<close>

record 'w tenv =
  e_world :: 'w
  e_n :: nat
  e_errors :: "string list"

record 'w under_test =
  e_z :: "'w ZFS"
  e_root :: string
  e_kind :: DatasetKind

type_synonym ('w, 'a) tstep = "'w tenv \<Rightarrow> 'w tenv \<times> 'a option"

definition tbind :: "('w, 'a) tstep \<Rightarrow> ('a \<Rightarrow> ('w, 'b) tstep) \<Rightarrow> ('w, 'b) tstep" where
  "tbind m f e = (case m e of (e1, None) \<Rightarrow> (e1, None) | (e1, Some x) \<Rightarrow> f x e1)"

definition tthen :: "('w, unit) tstep \<Rightarrow> ('w, 'b) tstep \<Rightarrow> ('w, 'b) tstep" where
  "tthen m k e = (case m e of (e1, None) \<Rightarrow> (e1, None) | (e1, Some _) \<Rightarrow> k e1)"

fun t_block :: "('w, unit) tstep list \<Rightarrow> ('w, unit) tstep" where
  "t_block [] e = (e, Some ())"
| "t_block (m # ms) e = (case m e of (e1, None) \<Rightarrow> (e1, None) | (e1, Some _) \<Rightarrow> t_block ms e1)"

definition Errorf :: "string \<Rightarrow> ('w, unit) tstep" where
  "Errorf msg e = (e\<lparr>e_errors := e_errors e @ [msg]\<rparr>, Some ())"

definition Fatal :: "string \<Rightarrow> ('w, 'a) tstep" where
  "Fatal msg e = (e\<lparr>e_errors := e_errors e @ [msg]\<rparr>, None)"

fun retry_busy :: "nat \<Rightarrow> 'w act \<Rightarrow> goerr option \<Rightarrow> 'w act" where
  "retry_busy 0 f err w = (w, err)"
| "retry_busy (Suc k) f err w =
     (case f w of
        (w1, None) \<Rightarrow> (w1, None)
      | (w1, Some e) \<Rightarrow> if \<not> Contains (err_text e) ''dataset is busy'' then (w1, Some e) else retry_busy k f (Some e) w1)"

definition retryBusy :: "'w act \<Rightarrow> 'w act" where
  "retryBusy f w = retry_busy 15 f None w"

text \<open>A call that has to succeed, and one whose value is used.\<close>

definition t_must :: "'w act \<Rightarrow> ('w, unit) tstep" where
  "t_must f e =
     (case f (e_world e) of
        (w1, None) \<Rightarrow> (e\<lparr>e_world := w1\<rparr>, Some ())
      | (w1, Some err) \<Rightarrow> Fatal (err_text err) (e\<lparr>e_world := w1\<rparr>))"

definition t_must_get :: "('w, 'a) query \<Rightarrow> ('w, 'a) tstep" where
  "t_must_get f e =
     (case f (e_world e) of
        (w1, Inr x) \<Rightarrow> (e\<lparr>e_world := w1\<rparr>, Some x)
      | (w1, Inl err) \<Rightarrow> Fatal (err_text err) (e\<lparr>e_world := w1\<rparr>))"

definition t_name :: "'w under_test \<Rightarrow> string \<Rightarrow> ('w, string) tstep" where
  "t_name c p e = (e\<lparr>e_n := e_n e + 1\<rparr>, Some (e_root c @ ''/'' @ p @ nat_digits (e_n e + 1)))"

definition t_mk :: "'w under_test \<Rightarrow> ('w, string) tstep" where
  "t_mk c e =
     (case t_name c ''d'' e of
        (e1, None) \<Rightarrow> (e1, None)
      | (e1, Some n) \<Rightarrow>
          (case t_must (if e_kind c = KindVolume then CreateZvol (e_z c) n 8388608 [] else CreateDataset (e_z c) n []) e1 of
             (e2, None) \<Rightarrow> (e2, None)
           | (e2, Some _) \<Rightarrow> (e2, Some n)))"

definition t_snap :: "'w under_test \<Rightarrow> string \<Rightarrow> string list \<Rightarrow> ('w, unit) tstep" where
  "t_snap c ds shorts e = t_block (map (\<lambda>s. t_must (Snapshot (e_z c) [ds @ ''@'' @ s])) shorts) e"

definition t_clone :: "'w under_test \<Rightarrow> string \<Rightarrow> ('w, string) tstep" where
  "t_clone c snap e =
     (case t_name c ''c'' e of
        (e1, None) \<Rightarrow> (e1, None)
      | (e1, Some n) \<Rightarrow>
          (case t_must (Clone (e_z c) snap n []) e1 of
             (e2, None) \<Rightarrow> (e2, None)
           | (e2, Some _) \<Rightarrow> (e2, Some n)))"

definition t_destroy :: "'w under_test \<Rightarrow> string \<Rightarrow> ('w, unit) tstep" where
  "t_destroy c n e = t_must (retryBusy (Destroy (e_z c) n False)) e"

definition t_origin :: "'w under_test \<Rightarrow> string \<Rightarrow> ('w, string) tstep" where
  "t_origin c ds e =
     (case t_must_get (Get (e_z c) ds ''origin'') e of
        (e1, None) \<Rightarrow> (e1, None)
      | (e1, Some v) \<Rightarrow> (e1, Some (if v = ''-'' then '''' else v)))"

text \<open>\<open>s[strings.Index(s, "@")+1:]\<close>: without an \<open>@\<close> the whole string.\<close>

definition t_snaps :: "'w under_test \<Rightarrow> string \<Rightarrow> ('w, string list) tstep" where
  "t_snaps c ds e =
     (case t_must_get (ListSnapshots (e_z c) ds) e of
        (e1, None) \<Rightarrow> (e1, None)
      | (e1, Some l) \<Rightarrow> (e1, Some (sort (map (\<lambda>s. if CHR ''@'' \<in> set s then after CHR ''@'' s else s) l))))"

definition t_clonesOf :: "'w under_test \<Rightarrow> string \<Rightarrow> ('w, string list) tstep" where
  "t_clonesOf c snap e =
     (case t_must_get (Clones (e_z c) snap) e of (e1, None) \<Rightarrow> (e1, None) | (e1, Some l) \<Rightarrow> (e1, Some (sort l)))"

definition t_get :: "'w under_test \<Rightarrow> string \<Rightarrow> string \<Rightarrow> ('w, string) tstep" where
  "t_get c n prop e = t_must_get (Get (e_z c) n prop) e"

definition t_exists :: "'w under_test \<Rightarrow> string \<Rightarrow> ('w, bool) tstep" where
  "t_exists c n e =
     (case Get (e_z c) n ''type'' (e_world e) of
        (w1, Inr _) \<Rightarrow> (e\<lparr>e_world := w1\<rparr>, Some True)
      | (w1, Inl err) \<Rightarrow>
          if errors_Is err ErrNotExist then (e\<lparr>e_world := w1\<rparr>, Some False) else Fatal (err_text err) (e\<lparr>e_world := w1\<rparr>))"

definition t_eq :: "string \<Rightarrow> 'a \<Rightarrow> 'a \<Rightarrow> ('w, unit) tstep" where
  "t_eq what got want e = (if got = want then (e, Some ()) else Errorf what e)"

definition t_errHas :: "string \<Rightarrow> goerr option \<Rightarrow> string list \<Rightarrow> ('w, unit) tstep" where
  "t_errHas what err texts e =
     (case err of
        None \<Rightarrow> Errorf what e
      | Some x \<Rightarrow> fold (\<lambda>t (e', r). if Contains (err_text x) t then (e', r) else Errorf what e') texts (e, Some ()))"

definition t_deferred :: "'w under_test \<Rightarrow> string \<Rightarrow> ('w, bool) tstep" where
  "t_deferred c snap e =
     (case t_get c snap ''defer_destroy'' e of (e1, None) \<Rightarrow> (e1, None) | (e1, Some v) \<Rightarrow> (e1, Some (v = ''on'')))"

definition sorted_names :: "string list \<Rightarrow> string list" where
  "sorted_names ss = sort ss"

text \<open>The checks of a case: what a reading step yields, and how a call fails.\<close>

definition expect_eq :: "string \<Rightarrow> ('w, 'a) tstep \<Rightarrow> 'a \<Rightarrow> ('w, unit) tstep" where
  "expect_eq what m want e = (case m e of (e1, None) \<Rightarrow> (e1, None) | (e1, Some got) \<Rightarrow> t_eq what got want e1)"

definition expect_err :: "string \<Rightarrow> 'w act \<Rightarrow> string list \<Rightarrow> ('w, unit) tstep" where
  "expect_err what f texts e = (case f (e_world e) of (w1, err) \<Rightarrow> t_errHas what err texts (e\<lparr>e_world := w1\<rparr>))"

subsection \<open>Deferred destroy\<close>

definition deferred_no_clone :: "'w under_test \<Rightarrow> ('w, unit) tstep" where
  "deferred_no_clone c = tbind (t_mk c) (\<lambda>a. t_block
     [t_snap c a [''s''],
      t_must (DestroySnapshotDeferred (e_z c) (a @ ''@s'')),
      expect_eq ''snapshots'' (t_snaps c a) []])"

definition deferred_with_clone :: "'w under_test \<Rightarrow> ('w, unit) tstep" where
  "deferred_with_clone c = tbind (t_mk c) (\<lambda>a. tthen (t_snap c a [''s'']) (tbind (t_clone c (a @ ''@s'')) (\<lambda>cl. tthen (t_block
     [t_must (DestroySnapshotDeferred (e_z c) (a @ ''@s'')),
      t_must (DestroySnapshotDeferred (e_z c) (a @ ''@s'')),
      expect_eq ''snapshots stay visible'' (t_snaps c a) [''s''],
      expect_eq ''marked'' (t_deferred c (a @ ''@s'')) True,
      expect_eq ''clones'' (t_clonesOf c (a @ ''@s'')) [cl]])
     (tbind (t_clone c (a @ ''@s'')) (\<lambda>c2. t_block
       [expect_eq ''clones'' (t_clonesOf c (a @ ''@s'')) (sorted_names [cl, c2]),
        t_destroy c cl,
        expect_eq ''still pinned by the other clone'' (t_snaps c a) [''s''],
        t_destroy c c2,
        expect_eq ''removed by ZFS with the last clone'' (t_snaps c a) []])))))"

definition deferred_missing :: "'w under_test \<Rightarrow> ('w, unit) tstep" where
  "deferred_missing c = tbind (t_mk c) (\<lambda>a. t_block
     [t_must (DestroySnapshotDeferred (e_z c) (a @ ''@nope'')),
      t_must (DestroySnapshotDeferred (e_z c) (e_root c @ ''/nodataset@nope''))])"

definition snapshot_of_clone :: "'w under_test \<Rightarrow> ('w, unit) tstep" where
  "snapshot_of_clone c = tbind (t_mk c) (\<lambda>a. tthen (t_snap c a [''o'']) (tbind (t_clone c (a @ ''@o'')) (\<lambda>cl. t_block
     [t_must (DestroySnapshotDeferred (e_z c) (a @ ''@o'')),
      t_snap c cl [''mine''],
      expect_eq ''origin still pinned'' (t_snaps c a) [''o''],
      expect_eq ''clones'' (t_clonesOf c (a @ ''@o'')) [cl]])))"

subsection \<open>Promote\<close>

definition promote_moves_older :: "'w under_test \<Rightarrow> ('w, unit) tstep" where
  "promote_moves_older c = tbind (t_mk c) (\<lambda>a. tthen (t_snap c a [''s1'', ''s2'', ''s3'']) (tbind (t_clone c (a @ ''@s2'')) (\<lambda>cl. t_block
     [t_must (Promote (e_z c) cl),
      expect_eq ''promoted dataset'' (t_snaps c cl) [''s1'', ''s2''],
      expect_eq ''old parent keeps the newer one'' (t_snaps c a) [''s3''],
      expect_eq ''old parent is now a clone'' (t_origin c a) (cl @ ''@s2''),
      expect_eq ''promoted is independent'' (t_origin c cl) '''',
      t_must (Promote (e_z c) cl)])))"

definition promote_moves_mark :: "'w under_test \<Rightarrow> ('w, unit) tstep" where
  "promote_moves_mark c = tbind (t_mk c) (\<lambda>a. tthen (t_snap c a [''s'']) (tthen (t_must (SetProperty (e_z c) (a @ ''@s'') ''t:role'' ''x''))
     (tbind (t_clone c (a @ ''@s'')) (\<lambda>cl. t_block
       [t_must (DestroySnapshotDeferred (e_z c) (a @ ''@s'')),
        t_must (Promote (e_z c) cl),
        expect_eq ''moved'' (t_snaps c a) [],
        expect_eq ''snapshot on promoted'' (t_snaps c cl) [''s''],
        expect_eq ''mark moved'' (t_deferred c (cl @ ''@s'')) True,
        expect_eq ''property moved'' (t_get c (cl @ ''@s'') ''t:role'') ''x'',
        expect_eq ''old parent is its clone'' (t_clonesOf c (cl @ ''@s'')) [a]]))))"

definition promote_takes_origin :: "'w under_test \<Rightarrow> ('w, unit) tstep" where
  "promote_takes_origin c = tbind (t_mk c) (\<lambda>q. tthen (t_snap c q [''x'']) (tbind (t_clone c (q @ ''@x'')) (\<lambda>p.
     tthen (t_snap c p [''o'']) (tbind (t_clone c (p @ ''@o'')) (\<lambda>cl. t_block
       [t_must (Promote (e_z c) cl),
        expect_eq ''promoted takes the old parent's origin'' (t_origin c cl) (q @ ''@x''),
        expect_eq ''old parent clones the moved snapshot'' (t_origin c p) (cl @ ''@o'')])))))"

definition promote_reparents :: "'w under_test \<Rightarrow> ('w, unit) tstep" where
  "promote_reparents c = tbind (t_mk c) (\<lambda>a. tthen (t_snap c a [''s'']) (tbind (t_clone c (a @ ''@s'')) (\<lambda>c1.
     tbind (t_clone c (a @ ''@s'')) (\<lambda>c2. t_block
       [t_must (Promote (e_z c) c1),
        expect_eq ''sibling origin'' (t_origin c c2) (c1 @ ''@s''),
        expect_eq ''clones of the moved snapshot'' (t_clonesOf c (c1 @ ''@s'')) (sorted_names [a, c2])]))))"

definition promote_conflict :: "'w under_test \<Rightarrow> ('w, unit) tstep" where
  "promote_conflict c = tbind (t_mk c) (\<lambda>a. tthen (t_snap c a [''x'']) (tbind (t_clone c (a @ ''@x'')) (\<lambda>cl. t_block
     [t_snap c cl [''x''],
      expect_err ''promote'' (Promote (e_z c) cl) [''conflicting snapshot '' @ [CHR 39] @ ''x'' @ [CHR 39]],
      expect_eq ''nothing moved'' (t_snaps c a) [''x'']])))"

definition promote_chain :: "'w under_test \<Rightarrow> ('w, unit) tstep" where
  "promote_chain c = tbind (t_mk c) (\<lambda>a. tthen (t_snap c a [''s'']) (tbind (t_clone c (a @ ''@s'')) (\<lambda>b.
     tthen (t_snap c b [''t'']) (tbind (t_clone c (b @ ''@t'')) (\<lambda>cl. t_block
       [t_must (Promote (e_z c) cl),
        expect_eq ''c owns t'' (t_snaps c cl) [''t''],
        expect_eq ''b is a clone of c@t'' (t_origin c b) (cl @ ''@t''),
        expect_eq ''a is still the origin of b's lineage'' (t_origin c cl) (a @ ''@s'')])))))"

subsection \<open>Destroy of datasets\<close>

definition destroy_refused :: "'w under_test \<Rightarrow> ('w, unit) tstep" where
  "destroy_refused c = tbind (t_mk c) (\<lambda>a. tthen (t_snap c a [''plain''])
     (tthen (expect_err ''plain snapshot'' (Destroy (e_z c) a False) [''has children''])
     (tbind (t_mk c) (\<lambda>b. tthen (t_snap c b [''m'']) (tbind (t_clone c (b @ ''@m'')) (\<lambda>cl. t_block
       [t_must (DestroySnapshotDeferred (e_z c) (b @ ''@m'')),
        expect_err ''marked snapshot'' (Destroy (e_z c) b False) [''has children''],
        expect_err ''recursive with outside clone'' (Destroy (e_z c) b True) [''has dependent clones''],
        expect_err ''snapshot with clone'' (Destroy (e_z c) (b @ ''@m'') False) [''dependent clones''],
        t_destroy c cl,
        expect_eq ''marked snapshot went with its last clone'' (t_snaps c b) [],
        t_destroy c b,
        expect_eq ''gone'' (t_exists c b) False]))))))"

definition destroy_missing :: "'w under_test \<Rightarrow> ('w, unit) tstep" where
  "destroy_missing c = t_block
     [t_must (Destroy (e_z c) (e_root c @ ''/nope'') False),
      t_must (Destroy (e_z c) (e_root c @ ''/nope@s'') False)]"

definition promote_then_destroy :: "'w under_test \<Rightarrow> ('w, unit) tstep" where
  "promote_then_destroy c = tbind (t_mk c) (\<lambda>a. tthen (t_snap c a [''raw'']) (tbind (t_clone c (a @ ''@raw'')) (\<lambda>bk.
     tbind (t_clone c (a @ ''@raw'')) (\<lambda>r. t_block
       [t_must (DestroySnapshotDeferred (e_z c) (a @ ''@raw'')),
        t_must (Promote (e_z c) bk),
        t_must (Promote (e_z c) r),
        t_destroy c bk,
        expect_eq ''r owns the marked snapshot'' (t_snaps c r) [''raw''],
        t_destroy c a,
        expect_eq ''a gone'' (t_exists c a) False]))))"

subsection \<open>Listings, snapshots and clone properties\<close>

definition list_order :: "'w under_test \<Rightarrow> ('w, unit) tstep" where
  "list_order c = tbind (t_mk c) (\<lambda>a. tthen (t_block (map (\<lambda>s. t_snap c a [s]) [''s1'', ''s2'', ''s3'']))
     (tbind (t_clone c (a @ ''@s2'')) (\<lambda>cl. t_block
       [t_must (Promote (e_z c) cl),
        expect_eq ''oldest first'' (t_must_get (ListSnapshots (e_z c) cl)) [cl @ ''@s1'', cl @ ''@s2'']])))"

definition t_partial :: "'w under_test \<Rightarrow> string list \<Rightarrow> ('w, unit) tstep" where
  "t_partial c names e =
     (case Snapshot (e_z c) names (e_world e) of
        (w1, err) \<Rightarrow>
          if (case err of None \<Rightarrow> False | Some x \<Rightarrow> errors_Is x ErrSnapshotsPartiallyExist) then (e\<lparr>e_world := w1\<rparr>, Some ())
          else Errorf ''partial'' (e\<lparr>e_world := w1\<rparr>))"

definition atomic_multi :: "'w under_test \<Rightarrow> ('w, unit) tstep" where
  "atomic_multi c = tbind (t_mk c) (\<lambda>a. tbind (t_mk c) (\<lambda>b. t_block
     [t_must (Snapshot (e_z c) [a @ ''@g'', b @ ''@g'']),
      tbind (t_get c (a @ ''@g'') ''createtxg'') (\<lambda>x. tbind (t_get c (b @ ''@g'') ''createtxg'') (\<lambda>y. t_eq ''same transaction group'' x y)),
      t_must (Snapshot (e_z c) [a @ ''@g'', b @ ''@g'']),
      t_partial c [a @ ''@g'', b @ ''@h''],
      expect_eq ''nothing created by the failed call'' (t_exists c (b @ ''@h'')) False,
      expect_err ''missing dataset'' (Snapshot (e_z c) [a @ ''@z'', e_root c @ ''/nope@z'']) [''does not exist''],
      expect_eq ''atomic: no member created'' (t_exists c (a @ ''@z'')) False]))"

definition clone_properties :: "'w under_test \<Rightarrow> ('w, unit) tstep" where
  "clone_properties c = tbind (t_mk c) (\<lambda>a. tthen (t_snap c a [''s'']) (tbind (t_name c ''c'') (\<lambda>cl. t_block
     [t_must (Clone (e_z c) (a @ ''@s'') cl [(''t:p'', ''v'')]),
      expect_eq ''prop'' (t_get c cl ''t:p'') ''v'',
      t_must (Clone (e_z c) (a @ ''@s'') cl [])])))"

subsection \<open>User properties\<close>

definition user_properties :: "'w under_test \<Rightarrow> ('w, unit) tstep" where
  "user_properties c =
     (let ps = [(''t:role'', ''volume''), (''t:owner'', ''u1'')] in
      tbind (t_name c ''d'') (\<lambda>n. tthen (t_block
       [t_must (if e_kind c = KindVolume then CreateZvol (e_z c) n 8388608 ps else CreateDataset (e_z c) n ps),
        expect_eq ''role'' (t_get c n ''t:role'') ''volume'',
        t_snap c n [''s''],
        expect_eq ''snapshot reads the dataset's value until set'' (t_get c (n @ ''@s'') ''t:role'') ''volume'',
        t_must (SetProperty (e_z c) (n @ ''@s'') ''t:role'' ''raw''),
        expect_eq ''snapshot local value'' (t_get c (n @ ''@s'') ''t:role'') ''raw'',
        expect_eq ''dataset unchanged'' (t_get c n ''t:role'') ''volume''])
       (tbind (t_name c ''c'') (\<lambda>cl. t_block
         [t_must (Clone (e_z c) (n @ ''@s'') cl [(''t:role'', ''backing'')]),
          expect_eq ''clone has its own value'' (t_get c cl ''t:role'') ''backing'',
          expect_eq ''clone does not inherit the snapshot's owner'' (t_get c cl ''t:owner'') ''-'',
          expect_eq ''unset property'' (t_get c n ''t:none'') ''-'']))))"

definition user_properties_inherited :: "'w under_test \<Rightarrow> ('w, unit) tstep" where
  "user_properties_inherited c = tbind (t_name c ''p'') (\<lambda>p. t_block
     [t_must (CreateDataset (e_z c) p [(''t:role'', ''inherit-me'')]),
      t_must (CreateDataset (e_z c) (p @ ''/kid'') []),
      expect_eq ''kid inherits'' (t_get c (p @ ''/kid'') ''t:role'') ''inherit-me''])"

definition snapshot_rejects :: "'w under_test \<Rightarrow> ('w, unit) tstep" where
  "snapshot_rejects c = tbind (t_mk c) (\<lambda>a. t_block
     [t_snap c a [''s''],
      expect_err ''set'' (SetProperty (e_z c) (a @ ''@s'') ''compression'' ''off'') [''snapshot''],
      expect_err ''missing'' (SetProperty (e_z c) (a @ ''@nope'') ''t:x'' ''1'') [''does not exist'']])"

definition properties_survive :: "'w under_test \<Rightarrow> ('w, unit) tstep" where
  "properties_survive c = tbind (t_mk c) (\<lambda>a. tthen (t_snap c a [''s'']) (tthen (t_must (SetProperty (e_z c) (a @ ''@s'') ''t:owner'' ''uid''))
     (tbind (t_clone c (a @ ''@s'')) (\<lambda>cl. t_block
       [t_must (DestroySnapshotDeferred (e_z c) (a @ ''@s'')),
        expect_eq ''after mark'' (t_get c (a @ ''@s'') ''t:owner'') ''uid'',
        t_must (Promote (e_z c) cl),
        expect_eq ''after promote'' (t_get c (cl @ ''@s'') ''t:owner'') ''uid'']))))"

definition backing_follows_raw :: "'w under_test \<Rightarrow> ('w, unit) tstep" where
  "backing_follows_raw c = tbind (t_mk c) (\<lambda>src. tthen (t_snap c src [''raw'']) (tbind (t_clone c (src @ ''@raw'')) (\<lambda>bk.
     tbind (t_clone c (src @ ''@raw'')) (\<lambda>r1. tbind (t_clone c (src @ ''@raw'')) (\<lambda>r2. t_block
       [expect_eq ''initially on the source'' (t_origin c bk) (src @ ''@raw''),
        t_must (DestroySnapshotDeferred (e_z c) (src @ ''@raw'')),
        t_must (Promote (e_z c) r1),
        expect_eq ''after promoting a restore'' (t_origin c bk) (r1 @ ''@raw''),
        t_must (Promote (e_z c) r2),
        expect_eq ''after promoting another restore'' (t_origin c bk) (r2 @ ''@raw''),
        t_must (Promote (e_z c) bk),
        expect_eq ''the raw snapshot moved onto the promoted backing clone'' (t_must_get (ListSnapshots (e_z c) bk)) [bk @ ''@raw''],
        expect_eq ''backing origin is empty'' (t_origin c bk) ''''])))))"

subsection \<open>The suite\<close>

record 'w testCase =
  tc_name :: string
  tc_fsOnly :: bool
  tc_run :: "'w under_test \<Rightarrow> ('w, unit) tstep"

definition cases :: "'w testCase list" where
  "cases = map (\<lambda>(n, fs, f). \<lparr>tc_name = n, tc_fsOnly = fs, tc_run = f\<rparr>)
     [(''deferred-no-clone-destroys-at-once'', False, deferred_no_clone),
      (''deferred-with-clone-marks-and-last-clone-removes'', False, deferred_with_clone),
      (''deferred-missing-is-not-an-error'', False, deferred_missing),
      (''snapshot-of-a-clone-does-not-release-its-origin'', False, snapshot_of_clone),
      (''promote-moves-origin-and-older-snapshots'', False, promote_moves_older),
      (''promote-moves-mark-and-user-properties'', False, promote_moves_mark),
      (''promote-takes-over-the-parents-origin'', False, promote_takes_origin),
      (''promote-reparents-sibling-clones'', False, promote_reparents),
      (''promote-conflict-names-the-snapshot'', False, promote_conflict),
      (''promote-of-a-chain-moves-one-level'', False, promote_chain),
      (''destroy-refused-while-snapshots-exist'', False, destroy_refused),
      (''destroy-missing-is-not-an-error'', False, destroy_missing),
      (''promote-then-destroy-old-parent-frees-marked-snapshot'', False, promote_then_destroy),
      (''snapshot-list-order-after-promote'', False, list_order),
      (''atomic-multi-snapshot'', False, atomic_multi),
      (''clone-applies-properties'', False, clone_properties),
      (''user-properties-on-create-and-clone'', False, user_properties),
      (''user-properties-are-inherited-from-the-parent-dataset'', True, user_properties_inherited),
      (''snapshot-rejects-non-user-properties'', False, snapshot_rejects),
      (''properties-survive-deferred-destroy-and-promote'', False, properties_survive),
      (''backing-clone-origin-follows-the-raw-snapshot'', False, backing_follows_raw)]"

record 'w Options =
  opt_Check :: "('w \<Rightarrow> goerr option) option"
  opt_Skip :: props

text \<open>
  One subtest: its dataset is created, the case runs, the invariant is checked unless the case ended early, and the
  dataset is destroyed whatever happened. The errors of the subtest are the result; a skipped case has none.
\<close>

definition checked :: "'w Options \<Rightarrow> 'w tenv \<times> unit option \<Rightarrow> 'w tenv" where
  "checked opt r =
     (case r of
        (e, None) \<Rightarrow> e
      | (e, Some _) \<Rightarrow>
          (case opt_Check opt of
             None \<Rightarrow> e
           | Some check \<Rightarrow> (case check (e_world e) of None \<Rightarrow> e | Some err \<Rightarrow> fst (Errorf (''invariant: '' @ err_text err) e))))"

definition cleaned_up :: "'w under_test \<Rightarrow> 'w tenv \<Rightarrow> 'w \<times> string list" where
  "cleaned_up c e = (fst (retryBusy (Destroy (e_z c) (e_root c) True) (e_world e)), e_errors e)"

definition run_in :: "'w under_test \<Rightarrow> 'w Options \<Rightarrow> 'w testCase \<Rightarrow> 'w \<Rightarrow> 'w \<times> string list" where
  "run_in c opt tc w =
     (case t_must (CreateDataset (e_z c) (e_root c) [(''mountpoint'', ''none'')]) \<lparr>e_world = w, e_n = 0, e_errors = []\<rparr> of
        (e1, None) \<Rightarrow> (e_world e1, e_errors e1)
      | (e1, Some _) \<Rightarrow>
          cleaned_up c (checked opt (tc_run tc c e1)))"

definition run_case :: "'w ZFS \<Rightarrow> string \<Rightarrow> 'w Options \<Rightarrow> DatasetKind \<Rightarrow> 'w testCase \<Rightarrow> 'w \<Rightarrow> 'w \<times> string list" where
  "run_case z root opt kind tc w =
     (if map_of (opt_Skip opt) (tc_name tc) \<noteq> None then (w, [])
      else run_in \<lparr>e_z = z, e_root = root @ ''/'' @ kind @ ''-'' @ tc_name tc, e_kind = kind\<rparr> opt tc w)"

fun run_cases :: "'w ZFS \<Rightarrow> string \<Rightarrow> 'w Options \<Rightarrow> (DatasetKind \<times> 'w testCase) list \<Rightarrow> 'w \<Rightarrow> 'w \<times> (string \<times> string list) list" where
  "run_cases z root opt [] w = (w, [])"
| "run_cases z root opt ((kind, tc) # cs) w =
     (case run_case z root opt kind tc w of
        (w1, errs) \<Rightarrow>
          (case run_cases z root opt cs w1 of
             (w2, rest) \<Rightarrow> (w2, (kind @ ''/'' @ tc_name tc, errs) # rest)))"

definition subtests :: "(DatasetKind \<times> 'w testCase) list" where
  "subtests = concat (map (\<lambda>kind. map (Pair kind) (filter (\<lambda>tc. \<not> (tc_fsOnly tc \<and> kind \<noteq> KindFilesystem)) cases))
     [KindFilesystem, KindVolume])"

text \<open>The suite fails at once when its root cannot be created; otherwise the result names every subtest with its errors.\<close>

definition Run :: "'w ZFS \<Rightarrow> string \<Rightarrow> 'w Options \<Rightarrow> 'w \<Rightarrow> 'w \<times> (goerr + (string \<times> string list) list)" where
  "Run z root opt w =
     (case CreateDataset z root [(''mountpoint'', ''none'')] w of
        (w1, Some e) \<Rightarrow> (w1, Inl e)
      | (w1, None) \<Rightarrow>
          (case run_cases z root opt subtests w1 of
             (w2, res) \<Rightarrow> (fst (retryBusy (Destroy z root True) w2), Inr res)))"

definition passed :: "'w \<times> (goerr + (string \<times> string list) list) \<Rightarrow> bool" where
  "passed r \<longleftrightarrow> (case snd r of Inl _ \<Rightarrow> False | Inr res \<Rightarrow> list_all (\<lambda>(n, errs). errs = []) res)"

text \<open>A subtest below a dataset of any name, and the suite on the in-memory ZFS, each case in a pool of its own.\<close>

definition conforms :: "'w ZFS \<Rightarrow> string \<Rightarrow> 'w Options \<Rightarrow> 'w \<Rightarrow> DatasetKind \<times> 'w testCase \<Rightarrow> bool" where
  "conforms z root opt w s \<longleftrightarrow> snd (run_in \<lparr>e_z = z, e_root = root, e_kind = fst s\<rparr> opt (snd s) w) = []"

lemma mem_filesystem_conforms:
  "list_all (conforms mem_ZFS ''t/x'' \<lparr>opt_Check = Some Mem_Check, opt_Skip = []\<rparr> (Mem_New [''t''])) (take 21 subtests)"
  by code_simp

lemma mem_volume_conforms:
  "list_all (conforms mem_ZFS ''t/x'' \<lparr>opt_Check = Some Mem_Check, opt_Skip = []\<rparr> (Mem_New [''t''])) (drop 21 subtests)"
  by code_simp

end
