(* ===== verification/Migrate.thy ===== *)
theory Migrate
  imports Kube Labels ZfsCli
begin

text \<open>
  \<open>src/internal/migrate\<close> and \<open>src/cmd/zfs-migrate/main.go\<close>: the one-time migration of a pool from before the labels. An audit
  derives from the custom resources which ZFS object belongs to which of them, and plans the labels, the
  deferred destruction of old snapshots and the stamps that are missing; what it cannot derive is a
  finding. The printed report is left out.
\<close>

abbreviation RestoreSourceSnapshot :: string where "RestoreSourceSnapshot \<equiv> ''restore-source''"

record Obj =
  obj_Name :: string
  obj_Origin :: string
  obj_Role :: string
  obj_Owner :: string
  obj_Deferred :: bool

definition obj_IsSnapshot :: "Obj \<Rightarrow> bool" where
  "obj_IsSnapshot o' \<longleftrightarrow> CHR ''@'' \<in> set (obj_Name o')"

definition obj_Short :: "Obj \<Rightarrow> string" where
  "obj_Short o' = (if CHR ''@'' \<in> set (obj_Name o') then after CHR ''@'' (obj_Name o') else '''')"

definition obj_Dataset :: "Obj \<Rightarrow> string" where
  "obj_Dataset o' = (if CHR ''@'' \<in> set (obj_Name o') then before CHR ''@'' (obj_Name o') else obj_Name o')"

record 'w Backend =
  be_List :: "string list \<Rightarrow> ('w, Obj list) query"
  be_Set :: "string \<Rightarrow> string \<Rightarrow> string \<Rightarrow> 'w act"
  be_DestroyDeferred :: "string \<Rightarrow> 'w act"

record 'w MigrateKube =
  StampDatasetProvisioned :: "string \<Rightarrow> Time \<Rightarrow> 'w act"
  StampSnapshotProvisioned :: "string \<Rightarrow> Time \<Rightarrow> 'w act"
  SetSnapshotSourceType :: "string \<Rightarrow> DatasetType \<Rightarrow> 'w act"

record Input =
  in_Pools :: props
  in_Datasets :: "ZfsDataset list"
  in_Snapshots :: "ZfsSnapshot list"

abbreviation ActSet :: string where "ActSet \<equiv> ''set''"

abbreviation ActDestroyDeferred :: string where "ActDestroyDeferred \<equiv> ''destroy-deferred''"

abbreviation ActStampDataset :: string where "ActStampDataset \<equiv> ''stamp-dataset-provisioned''"

abbreviation ActStampSnapshot :: string where "ActStampSnapshot \<equiv> ''stamp-snapshot-provisioned''"

abbreviation ActSnapshotSourceType :: string where "ActSnapshotSourceType \<equiv> ''set-snapshot-source-type''"

record Action =
  act_Kind :: string
  act_Target :: string
  act_Prop :: string
  act_Value :: string
  act_At :: Time
  act_Reason :: string

subsection \<open>Printing an action\<close>

text \<open>\<open>t.UTC().Format(time.RFC3339)\<close> of a number of seconds: the civil date by 400-year eras.\<close>

definition pad :: "nat \<Rightarrow> int \<Rightarrow> string" where
  "pad width n = (if n < 0 then ''-'' else '''') @ (let s = FormatInt \<bar>n\<bar> in replicate (width - length s) CHR ''0'' @ s)"

definition civil :: "int \<Rightarrow> int \<times> int \<times> int" where
  "civil days =
     (let z = days + 719468; era = z div 146097; doe = z - era * 146097;
          yoe = (doe - doe div 1460 + doe div 36524 - doe div 146096) div 365;
          doy = doe - (365 * yoe + yoe div 4 - yoe div 100);
          mp = (5 * doy + 2) div 153; m = (if mp < 10 then mp + 3 else mp - 9)
      in (yoe + era * 400 + (if m \<le> 2 then 1 else 0), m, doy - (153 * mp + 2) div 5 + 1))"

definition RFC3339 :: "Time \<Rightarrow> string" where
  "RFC3339 t =
     (case civil (t div 86400) of
        (y, m, d) \<Rightarrow>
          let s = t mod 86400
          in pad 4 y @ ''-'' @ pad 2 m @ ''-'' @ pad 2 d @ ''T'' @ pad 2 (s div 3600) @ '':'' @ pad 2 (s div 60 mod 60) @ '':'' @ pad 2 (s mod 60) @ ''Z'')"

definition Action_String :: "Action \<Rightarrow> string" where
  "Action_String a =
     (let reason = ''    # '' @ act_Reason a in
      if act_Kind a = ActSet then ''zfs set '' @ act_Prop a @ ''='' @ act_Value a @ '' '' @ act_Target a @ reason
      else if act_Kind a = ActDestroyDeferred then ''zfs destroy -d '' @ act_Target a @ reason
      else if act_Kind a = ActStampDataset then ''ZfsDataset '' @ act_Target a @ '': status.provisionedAt='' @ RFC3339 (act_At a) @ reason
      else if act_Kind a = ActStampSnapshot then ''ZfsSnapshot '' @ act_Target a @ '': status.provisionedAt='' @ RFC3339 (act_At a) @ reason
      else ''ZfsSnapshot '' @ act_Target a @ '': spec.sourceType='' @ act_Value a @ reason)"

subsection \<open>The plan\<close>

abbreviation Blocker :: string where "Blocker \<equiv> ''blocker''"

abbreviation Info :: string where "Info \<equiv> ''info''"

record Finding =
  fd_Severity :: string
  fd_Subject :: string
  fd_Message :: string

record Plan =
  Actions :: "Action list"
  Findings :: "Finding list"
  Labelled :: int
  Marked :: int

definition Blockers :: "Plan \<Rightarrow> Finding list" where
  "Blockers p = filter (\<lambda>f. fd_Severity f = Blocker) (Findings p)"

definition Clean :: "Plan \<Rightarrow> bool" where
  "Clean p \<longleftrightarrow> Actions p = [] \<and> Blockers p = []"

definition empty_plan :: Plan where
  "empty_plan = \<lparr>Actions = [], Findings = [], Labelled = 0, Marked = 0\<rparr>"

definition finding :: "string \<Rightarrow> string \<Rightarrow> string \<Rightarrow> Plan \<Rightarrow> Plan" where
  "finding sev subject msg p = p\<lparr>Findings := Findings p @ [\<lparr>fd_Severity = sev, fd_Subject = subject, fd_Message = msg\<rparr>]\<rparr>"

definition planned :: "Action \<Rightarrow> Plan \<Rightarrow> Plan" where
  "planned a p = p\<lparr>Actions := Actions p @ [a]\<rparr>"

record claim =
  cl_role :: string
  cl_owner :: string
  cl_reason :: string

definition poolOf :: "Input \<Rightarrow> string \<Rightarrow> string option" where
  "poolOf inp guid = (case map_of (in_Pools inp) guid of None \<Rightarrow> None | Some n \<Rightarrow> if n \<noteq> '''' then Some n else None)"

definition root_of :: "string \<Rightarrow> string \<Rightarrow> string" where
  "root_of pool dataset = (let dir = path_Dir (Trim CHR ''/'' dataset) in if dir = ''.'' then pool else pool @ ''/'' @ dir)"

definition sortedKeys :: "(string, bool) gomap \<Rightarrow> string list" where
  "sortedKeys m = sort (keys m)"

text \<open>The roots to list, of every object whose pool is known by name.\<close>

definition add_root :: "Input \<Rightarrow> string \<Rightarrow> string \<Rightarrow> string \<Rightarrow> (string, bool) gomap \<times> Plan \<Rightarrow> (string, bool) gomap \<times> Plan" where
  "add_root inp subject guid dataset s =
     (case s of (roots, p) \<Rightarrow>
        (case poolOf inp guid of
           None \<Rightarrow> (roots, finding Blocker subject (''pool '' @ guid @ '' has no known name'') p)
         | Some pool \<Rightarrow> (AList.update (root_of pool dataset) True roots, p)))"

definition all_roots :: "Input \<Rightarrow> (string, bool) gomap \<times> Plan" where
  "all_roots inp =
     fold (\<lambda>s. add_root inp (''ZfsSnapshot '' @ om_Name (zs_Meta s)) (zss_PoolGUID (zs_Spec s)) (zss_Dataset (zs_Spec s))) (in_Snapshots inp)
       (fold (\<lambda>d. add_root inp (''ZfsDataset '' @ om_Name (zd_Meta d)) (zds_PoolGUID (zd_Spec d)) (zds_Dataset (zd_Spec d))) (in_Datasets inp)
          ([], empty_plan))"

definition datasetCR :: "Input \<Rightarrow> (string, ZfsDataset) gomap" where
  "datasetCR inp = fold (\<lambda>d. AList.update (om_Name (zd_Meta d)) d) (in_Datasets inp) []"

definition byName :: "Obj list \<Rightarrow> (string, Obj) gomap" where
  "byName objs = fold (\<lambda>o'. AList.update (obj_Name o') o') objs []"

definition snapsByShort :: "Obj list \<Rightarrow> string \<Rightarrow> Obj list" where
  "snapsByShort objs s = filter (\<lambda>o'. obj_IsSnapshot o' \<and> obj_Short o' = s) objs"

definition obj_names :: "Obj list \<Rightarrow> string" where
  "obj_names os = Join '', '' (map obj_Name os)"

definition settled :: "string \<Rightarrow> string list \<Rightarrow> bool" where
  "settled phase states \<longleftrightarrow> phase \<in> set states"

definition provisionedTime :: "Condition list \<Rightarrow> Time \<Rightarrow> Time" where
  "provisionedTime conds now =
     (case find (\<lambda>c. cond_Type c = ''Ready'' \<and> cond_Status c \<and> cond_LastTransitionTime c \<noteq> None) conds of
        None \<Rightarrow> now
      | Some c \<Rightarrow> the (cond_LastTransitionTime c))"

definition isDriverSnapshot :: "Obj \<Rightarrow> bool" where
  "isDriverSnapshot o' \<longleftrightarrow> HasPrefix (obj_Short o') ''csi-snap-'' \<or> HasPrefix (obj_Short o') ''clone-''"

definition add :: "string \<Rightarrow> string \<Rightarrow> string \<Rightarrow> string \<Rightarrow> (string, claim) gomap \<times> Plan \<Rightarrow> (string, claim) gomap \<times> Plan" where
  "add n role owner reason s =
     (case s of (claims, p) \<Rightarrow>
        (case map_of claims n of
           Some prev \<Rightarrow>
             if cl_role prev \<noteq> role \<or> cl_owner prev \<noteq> owner then
               (claims, finding Blocker n (''claimed twice: '' @ cl_role prev @ '' by '' @ cl_owner prev @ '' and '' @ role @ '' by '' @ owner) p)
             else (AList.update n \<lparr>cl_role = role, cl_owner = owner, cl_reason = reason\<rparr> claims, p)
         | None \<Rightarrow> (AList.update n \<lparr>cl_role = role, cl_owner = owner, cl_reason = reason\<rparr> claims, p)))"

definition stamp :: "string \<Rightarrow> string \<Rightarrow> Time \<Rightarrow> Action" where
  "stamp kind target at =
     \<lparr>act_Kind = kind, act_Target = target, act_Prop = '''', act_Value = '''', act_At = at, act_Reason = ''predates status.provisionedAt''\<rparr>"

definition with_plan :: "(Plan \<Rightarrow> Plan) \<Rightarrow> 'a \<times> Plan \<Rightarrow> 'a \<times> Plan" where
  "with_plan f s = (fst s, f (snd s))"

definition audit_dataset :: "Input \<Rightarrow> Obj list \<Rightarrow> Time \<Rightarrow> ZfsDataset \<Rightarrow> (string, claim) gomap \<times> Plan \<Rightarrow> (string, claim) gomap \<times> Plan" where
  "audit_dataset inp objs now d s =
     (case poolOf inp (zds_PoolGUID (zd_Spec d)) of
        None \<Rightarrow> s
      | Some pool \<Rightarrow>
          let name = om_Name (zd_Meta d); uid = om_UID (zd_Meta d); phase = zdst_Phase (zd_Status d);
              full = pool @ ''/'' @ Trim CHR ''/'' (zds_Dataset (zd_Spec d))
          in if map_of (byName objs) full = None then
               (if phase = DatasetPhaseReady \<or> phase = DatasetPhaseLost
                then with_plan (finding Info (''ZfsDataset '' @ name) (''dataset '' @ full @ '' does not exist'')) s else s)
             else
               let s1 = add full RoleVolume uid (''volume of ZfsDataset '' @ name) s;
                   s2 = fold (\<lambda>o'. add (obj_Name o') RoleCloneOrigin uid (''clone origin of ZfsDataset '' @ name))
                          (snapsByShort objs (''clone-'' @ name)) s1
               in if zdst_ProvisionedAt (zd_Status d) = None \<and> settled phase [DatasetPhaseReady, DatasetPhaseLost]
                  then with_plan (planned (stamp ActStampDataset name (provisionedTime (zdst_Conditions (zd_Status d)) now))) s2 else s2)"

definition source_cr :: "Input \<Rightarrow> ZfsSnapshot \<Rightarrow> ZfsDataset option" where
  "source_cr inp s =
     (let v = zss_SourceVolume (zs_Spec s) in if v = '''' then None else map_of (datasetCR inp) v)"

definition claim_raw :: "Obj list \<Rightarrow> ZfsSnapshot \<Rightarrow> (string, claim) gomap \<times> Plan \<Rightarrow> (string, claim) gomap \<times> Plan" where
  "claim_raw objs s st =
     (let short = zss_SnapshotName (zs_Spec s); subject = ''ZfsSnapshot '' @ om_Name (zs_Meta s) in
      case snapsByShort objs short of
        [] \<Rightarrow> with_plan (finding Info subject (''raw snapshot '' @ Quote short @ '' not found'')) st
      | [o'] \<Rightarrow> add (obj_Name o') RoleRaw (om_UID (zs_Meta s)) (''raw snapshot of ZfsSnapshot '' @ om_Name (zs_Meta s)) st
      | raws \<Rightarrow> with_plan (finding Blocker subject (''raw snapshot name '' @ Quote short @ '' is ambiguous: '' @ obj_names raws)) st)"

definition backing_of :: "Input \<Rightarrow> string \<Rightarrow> ZfsSnapshot \<Rightarrow> string" where
  "backing_of inp pool s =
     (let srcPath = (case source_cr inp s of None \<Rightarrow> zss_Dataset (zs_Spec s) | Some cr \<Rightarrow> zds_Dataset (zd_Spec cr))
      in pool @ ''/'' @ path_Join [path_Dir (Trim CHR ''/'' srcPath), zss_SnapshotName (zs_Spec s)])"

definition claim_backing :: "Input \<Rightarrow> Obj list \<Rightarrow> string \<Rightarrow> ZfsSnapshot \<Rightarrow> (string, claim) gomap \<times> Plan \<Rightarrow> (string, claim) gomap \<times> Plan" where
  "claim_backing inp objs pool s st =
     (let backing = backing_of inp pool s in
      if map_of (byName objs) backing \<noteq> None then
        add backing RoleBacking (om_UID (zs_Meta s)) (''backing clone of ZfsSnapshot '' @ om_Name (zs_Meta s)) st
      else with_plan (finding Info (''ZfsSnapshot '' @ om_Name (zs_Meta s)) (''backing clone '' @ backing @ '' not found'')) st)"

definition stamp_snapshot :: "Time \<Rightarrow> ZfsSnapshot \<Rightarrow> Plan \<Rightarrow> Plan" where
  "stamp_snapshot now s p =
     (if zsst_ProvisionedAt (zs_Status s) = None \<and> settled (zsst_Phase (zs_Status s)) [SnapshotPhaseReady, SnapshotPhaseLost]
      then planned (stamp ActStampSnapshot (om_Name (zs_Meta s)) (provisionedTime (zsst_Conditions (zs_Status s)) now)) p else p)"

definition fix_source_type :: "Input \<Rightarrow> ZfsSnapshot \<Rightarrow> Plan \<Rightarrow> Plan" where
  "fix_source_type inp s p =
     (if zss_SourceType (zs_Spec s) \<noteq> '''' then p
      else case source_cr inp s of
             Some cr \<Rightarrow>
               planned \<lparr>act_Kind = ActSnapshotSourceType, act_Target = om_Name (zs_Meta s), act_Prop = '''', act_Value = zds_Type (zd_Spec cr),
                 act_At = 0, act_Reason = ''copied from ZfsDataset '' @ om_Name (zd_Meta cr)\<rparr> p
           | None \<Rightarrow>
               finding Blocker (''ZfsSnapshot '' @ om_Name (zs_Meta s)) (''spec.sourceType is empty and the source ZfsDataset '' @
                 Quote (zss_SourceVolume (zs_Spec s)) @ '' is gone; set it by hand'') p)"

definition audit_snapshot :: "Input \<Rightarrow> Obj list \<Rightarrow> Time \<Rightarrow> ZfsSnapshot \<Rightarrow> (string, claim) gomap \<times> Plan \<Rightarrow> (string, claim) gomap \<times> Plan" where
  "audit_snapshot inp objs now s st =
     (case poolOf inp (zss_PoolGUID (zs_Spec s)) of
        None \<Rightarrow> st
      | Some pool \<Rightarrow>
          with_plan (fix_source_type inp s) (with_plan (stamp_snapshot now s) (claim_backing inp objs pool s (claim_raw objs s st))))"

text \<open>Old self-snapshots, only on a dataset that is claimed as a backing clone or a volume.\<close>

definition audit_restore :: "(string, claim) gomap \<Rightarrow> Obj \<Rightarrow> Plan \<Rightarrow> Plan" where
  "audit_restore claims o' p =
     (if (case map_of claims (obj_Dataset o') of None \<Rightarrow> True | Some c \<Rightarrow> cl_role c \<noteq> RoleBacking \<and> cl_role c \<noteq> RoleVolume) then
        finding Blocker (obj_Name o') ''old restore-source snapshot on a dataset the migration does not own'' p
      else if obj_Deferred o' then p\<lparr>Marked := Marked p + 1\<rparr>
      else planned \<lparr>act_Kind = ActDestroyDeferred, act_Target = obj_Name o', act_Prop = '''', act_Value = '''', act_At = 0,
             act_Reason = ''old restore-source snapshot''\<rparr> p)"

definition audit_label :: "string \<Rightarrow> string \<Rightarrow> string \<times> string \<times> string \<Rightarrow> Plan \<times> bool \<Rightarrow> Plan \<times> bool" where
  "audit_label n reason l s =
     (case l of (prop, have', want) \<Rightarrow>
      case s of (p, ok) \<Rightarrow>
        if have' = want then (p, ok)
        else if have' \<noteq> '''' then (finding Blocker n (''label '' @ prop @ '' is '' @ Quote have' @ '', derived '' @ Quote want) p, False)
        else (planned \<lparr>act_Kind = ActSet, act_Target = n, act_Prop = prop, act_Value = want, act_At = 0, act_Reason = reason\<rparr> p, False))"

definition no_object :: Obj where
  "no_object = \<lparr>obj_Name = '''', obj_Origin = '''', obj_Role = '''', obj_Owner = '''', obj_Deferred = False\<rparr>"

definition audit_labels :: "Obj list \<Rightarrow> string \<times> claim \<Rightarrow> Plan \<Rightarrow> Plan" where
  "audit_labels objs nc p =
     (case nc of (n, c) \<Rightarrow>
        let o' = (case map_of (byName objs) n of None \<Rightarrow> no_object | Some x \<Rightarrow> x);
            (p1, ok) = fold (audit_label n (cl_reason c)) [(PropRole, obj_Role o', cl_role c), (PropOwner, obj_Owner o', cl_owner c)] (p, True)
        in if ok then p1\<lparr>Labelled := Labelled p1 + 1\<rparr> else p1)"

definition audit_unowned :: "(string, claim) gomap \<Rightarrow> string list \<Rightarrow> Obj \<Rightarrow> Plan \<Rightarrow> Plan" where
  "audit_unowned claims rootList o' p =
     (if map_of claims (obj_Name o') \<noteq> None \<or> obj_Name o' \<in> set rootList \<or> obj_Short o' = RestoreSourceSnapshot then p
      else if obj_Role o' \<noteq> '''' \<or> isDriverSnapshot o' then
        finding Info (obj_Name o') (''no CR owns this object (role '' @ Quote (obj_Role o') @ '', owner '' @ Quote (obj_Owner o') @ '')'') p
      else p)"

definition claims_of :: "Input \<Rightarrow> Obj list \<Rightarrow> Time \<Rightarrow> Plan \<Rightarrow> (string, claim) gomap \<times> Plan" where
  "claims_of inp objs now p =
     fold (audit_snapshot inp objs now) (in_Snapshots inp) (fold (audit_dataset inp objs now) (in_Datasets inp) ([], p))"

definition audit :: "Input \<Rightarrow> string list \<Rightarrow> Obj list \<Rightarrow> Time \<Rightarrow> Plan \<Rightarrow> Plan" where
  "audit inp rootList objs now p0 =
     (case claims_of inp objs now p0 of
        (claims, p1) \<Rightarrow>
          let p2 = fold (audit_restore claims) (snapsByShort objs RestoreSourceSnapshot) p1;
              p3 = fold (audit_labels objs) (map (\<lambda>n. (n, the (map_of claims n))) (sort (keys claims))) p2
          in fold (audit_unowned claims rootList) objs p3)"

definition Compute :: "Input \<Rightarrow> 'w Backend \<Rightarrow> Time \<Rightarrow> ('w, Plan) query" where
  "Compute inp be now w =
     (case all_roots inp of
        (roots, p0) \<Rightarrow>
          (case be_List be (sortedKeys roots) w of
             (w1, Inl e) \<Rightarrow> (w1, Inl e)
           | (w1, Inr objs) \<Rightarrow> (w1, Inr (audit inp (sortedKeys roots) objs now p0))))"

subsection \<open>Apply\<close>

definition perform :: "'w Backend \<Rightarrow> 'w MigrateKube \<Rightarrow> Action \<Rightarrow> 'w act" where
  "perform be k a w =
     (if act_Kind a = ActSet then be_Set be (act_Target a) (act_Prop a) (act_Value a) w
      else if act_Kind a = ActDestroyDeferred then be_DestroyDeferred be (act_Target a) w
      else if act_Kind a = ActStampDataset then StampDatasetProvisioned k (act_Target a) (act_At a) w
      else if act_Kind a = ActStampSnapshot then StampSnapshotProvisioned k (act_Target a) (act_At a) w
      else if act_Kind a = ActSnapshotSourceType then SetSnapshotSourceType k (act_Target a) (act_Value a) w
      else (w, None))"

fun Apply :: "Action list \<Rightarrow> 'w Backend \<Rightarrow> 'w MigrateKube \<Rightarrow> 'w act" where
  "Apply [] be k w = (w, None)"
| "Apply (a # as) be k w =
     (case perform be k a w of
        (w1, Some e) \<Rightarrow> (w1, Some (wrapf (Action_String a @ '': '') e))
      | (w1, None) \<Rightarrow> Apply as be k w1)"

end
