(* ===== verification/MigrateCli.thy ===== *)
theory MigrateCli
  imports Migrate
begin

text \<open>
  The two sides of the migration and its program: \<open>CLIBackend\<close> of \<open>src/internal/migrate/cli.go\<close>, which runs \<open>zfs\<close>, and the
  Kubernetes side and \<open>run\<close> of \<open>src/cmd/zfs-migrate/main.go\<close>. The commands run in a pod through \<open>kubectl exec\<close>. How the
  Kubernetes client is made, the flags and the printed report are left out.
\<close>

subsection \<open>The zfs side\<close>

abbreviation objectTypes :: string where "objectTypes \<equiv> ''filesystem,volume,snapshot''"

definition withinOneLevel :: "string \<Rightarrow> string \<Rightarrow> bool" where
  "withinOneLevel name root =
     (let ds = before CHR ''@'' name
      in ds = root \<or> HasPrefix ds (root @ ''/'') \<and> CHR ''/'' \<notin> set (drop (length (root @ ''/'')) ds))"

definition splitLines :: "string \<Rightarrow> string list" where
  "splitLines s = filter (\<lambda>l. TrimSpace l \<noteq> '''') (Split CHR 10 s)"

text \<open>The objects found so far, by name; the order of the map is the order they were found in.\<close>

definition list_object :: "string \<Rightarrow> string list \<Rightarrow> (string, Obj) gomap \<Rightarrow> (string, Obj) gomap" where
  "list_object root f found =
     (if map_of found (f ! 0) \<noteq> None \<or> \<not> withinOneLevel (f ! 0) root then found
      else found @ [(f ! 0, \<lparr>obj_Name = f ! 0, obj_Origin = (if f ! 1 \<noteq> ''-'' then f ! 1 else ''''), obj_Role = '''', obj_Owner = '''',
        obj_Deferred = (f ! 2 = ''on'')\<rparr>)])"

fun list_objects :: "string \<Rightarrow> string list \<Rightarrow> (string, Obj) gomap \<Rightarrow> goerr + (string, Obj) gomap" where
  "list_objects root [] found = Inr found"
| "list_objects root (line # ls) found =
     (let f = Split CHR 9 line in
      if length f \<noteq> 3 then Inl (errorf (''unexpected zfs list line '' @ Quote line))
      else list_objects root ls (list_object root f found))"

definition set_label :: "string \<Rightarrow> string \<Rightarrow> Obj \<Rightarrow> Obj" where
  "set_label prop v o' =
     (if prop = PropRole then o'\<lparr>obj_Role := v\<rparr> else if prop = PropOwner then o'\<lparr>obj_Owner := v\<rparr> else o')"

fun read_labels :: "string list \<Rightarrow> (string, Obj) gomap \<Rightarrow> goerr + (string, Obj) gomap" where
  "read_labels [] found = Inr found"
| "read_labels (line # ls) found =
     (let f = Split CHR 9 line in
      if length f \<noteq> 3 then Inl (errorf (''unexpected zfs get line '' @ Quote line))
      else read_labels ls (mmod (f ! 0) (set_label (f ! 1) (f ! 2)) found))"

definition list_args :: "string \<Rightarrow> string list" where
  "list_args root = [''list'', ''-H'', ''-p'', ''-t'', objectTypes, ''-d'', ''2'', ''-o'', ''name,origin,defer_destroy'', root]"

definition get_args :: "string \<Rightarrow> string list" where
  "get_args root = [''get'', ''-H'', ''-p'', ''-s'', ''local'', ''-t'', objectTypes, ''-d'', ''2'', ''-o'', ''name,property,value'',
     PropRole @ '','' @ PropOwner, root]"

fun list_roots :: "'w Runner \<Rightarrow> string list \<Rightarrow> (string, Obj) gomap \<Rightarrow> ('w, (string, Obj) gomap) query" where
  "list_roots run [] found w = (w, Inr found)"
| "list_roots run (root # rs) found w =
     (case run ''zfs'' (list_args root) w of
        (w1, Inl e) \<Rightarrow> if Contains (err_text e) ''does not exist'' then list_roots run rs found w1 else (w1, Inl e)
      | (w1, Inr out) \<Rightarrow>
          (case list_objects root (splitLines out) found of
             Inl e \<Rightarrow> (w1, Inl e)
           | Inr found1 \<Rightarrow>
               (case run ''zfs'' (get_args root) w1 of
                  (w2, Inl e) \<Rightarrow> (w2, Inl e)
                | (w2, Inr out2) \<Rightarrow>
                    (case read_labels (splitLines out2) found1 of
                       Inl e \<Rightarrow> (w2, Inl e)
                     | Inr found2 \<Rightarrow> list_roots run rs found2 w2))))"

definition cb_List :: "'w Runner \<Rightarrow> string list \<Rightarrow> ('w, Obj list) query" where
  "cb_List run roots w =
     (case list_roots run roots [] w of (w1, Inl e) \<Rightarrow> (w1, Inl e) | (w1, Inr found) \<Rightarrow> (w1, Inr (map snd found)))"

definition cb_Set :: "'w Runner \<Rightarrow> string \<Rightarrow> string \<Rightarrow> string \<Rightarrow> 'w act" where
  "cb_Set run name prop value w =
     (case run ''zfs'' [''set'', prop @ ''='' @ value, name] w of (w1, Inl e) \<Rightarrow> (w1, Some e) | (w1, Inr _) \<Rightarrow> (w1, None))"

definition cb_DestroyDeferred :: "'w Runner \<Rightarrow> string \<Rightarrow> 'w act" where
  "cb_DestroyDeferred run snapshot w =
     (case run ''zfs'' [''destroy'', ''-d'', snapshot] w of (w1, Inl e) \<Rightarrow> (w1, Some e) | (w1, Inr _) \<Rightarrow> (w1, None))"

definition CLIBackend :: "'w Runner \<Rightarrow> 'w Backend" where
  "CLIBackend run = \<lparr>be_List = cb_List run, be_Set = cb_Set run, be_DestroyDeferred = cb_DestroyDeferred run\<rparr>"

subsection \<open>The Kubernetes side\<close>

record 'w MigrateClient = "'w Reader" +
  list_toolbox :: "string \<Rightarrow> ('w, string list) query"
  update_status_ZfsDataset :: "ZfsDataset \<Rightarrow> 'w act"
  update_status_ZfsSnapshot :: "ZfsSnapshot \<Rightarrow> 'w act"
  mc_update_ZfsSnapshot :: "ZfsSnapshot \<Rightarrow> 'w act"
  mc_Now :: "'w \<Rightarrow> 'w \<times> Time"

definition mk_StampDataset :: "'w MigrateClient \<Rightarrow> string \<Rightarrow> Time \<Rightarrow> 'w act" where
  "mk_StampDataset c n at w =
     (case get_ZfsDataset c n w of
        (w1, Inl e) \<Rightarrow> (w1, Some e)
      | (w1, Inr d) \<Rightarrow>
          if zdst_ProvisionedAt (zd_Status d) \<noteq> None then (w1, None)
          else update_status_ZfsDataset c (d\<lparr>zd_Status := (zd_Status d)\<lparr>zdst_ProvisionedAt := Some at\<rparr>\<rparr>) w1)"

definition mk_StampSnapshot :: "'w MigrateClient \<Rightarrow> string \<Rightarrow> Time \<Rightarrow> 'w act" where
  "mk_StampSnapshot c n at w =
     (case get_ZfsSnapshot c n w of
        (w1, Inl e) \<Rightarrow> (w1, Some e)
      | (w1, Inr s) \<Rightarrow>
          if zsst_ProvisionedAt (zs_Status s) \<noteq> None then (w1, None)
          else update_status_ZfsSnapshot c (s\<lparr>zs_Status := (zs_Status s)\<lparr>zsst_ProvisionedAt := Some at\<rparr>\<rparr>) w1)"

definition mk_SetSourceType :: "'w MigrateClient \<Rightarrow> string \<Rightarrow> DatasetType \<Rightarrow> 'w act" where
  "mk_SetSourceType c n t w =
     (case get_ZfsSnapshot c n w of
        (w1, Inl e) \<Rightarrow> (w1, Some e)
      | (w1, Inr s) \<Rightarrow>
          if zss_SourceType (zs_Spec s) \<noteq> '''' then (w1, None)
          else mc_update_ZfsSnapshot c (s\<lparr>zs_Spec := (zs_Spec s)\<lparr>zss_SourceType := t\<rparr>\<rparr>) w1)"

definition migrate_kube :: "'w MigrateClient \<Rightarrow> 'w MigrateKube" where
  "migrate_kube c =
     \<lparr>StampDatasetProvisioned = mk_StampDataset c, StampSnapshotProvisioned = mk_StampSnapshot c,
      SetSnapshotSourceType = mk_SetSourceType c\<rparr>"

subsection \<open>The program\<close>

definition kubectl_runner :: "'w Exec \<Rightarrow> string \<Rightarrow> string \<Rightarrow> string \<Rightarrow> 'w Runner" where
  "kubectl_runner ex kubeContext namespace pod name args w =
     (case ex ''kubectl'' ((if kubeContext \<noteq> '''' then [''--context'', kubeContext] else []) @
             [''-n'', namespace, ''exec'', pod, ''--'', name] @ args) w of
        (w1, Inl (e, Some stderr)) \<Rightarrow> (w1, Inl (errorf (name @ '' '' @ Join '' '' args @ '': '' @ err_text e @ '': '' @ TrimSpace stderr)))
      | (w1, Inl (e, None)) \<Rightarrow> (w1, Inl e)
      | (w1, Inr out) \<Rightarrow> (w1, Inr out))"

text \<open>How \<open>run\<close> ends: with its error or none, or by an exit in the middle.\<close>

datatype run_end = Returned "goerr option" | Exited int

definition pools_by_guid :: "ZfsPool list \<Rightarrow> props" where
  "pools_by_guid pl = fold (\<lambda>p. AList.update (zpst_GUID (zp_Status p)) (zpst_PoolName (zp_Status p))) pl []"

definition read_objects :: "'w MigrateClient \<Rightarrow> ('w, ZfsDataset list \<times> ZfsSnapshot list) query" where
  "read_objects c w =
     (case list_ZfsDataset c w of
        (w1, Inl e) \<Rightarrow> (w1, Inl e)
      | (w1, Inr dl) \<Rightarrow>
          (case list_ZfsSnapshot c w1 of (w2, Inl e) \<Rightarrow> (w2, Inl e) | (w2, Inr sl) \<Rightarrow> (w2, Inr (dl, sl))))"

definition compute_now :: "'w MigrateClient \<Rightarrow> 'w Backend \<Rightarrow> props \<Rightarrow> ('w, Plan) query" where
  "compute_now c be pools w =
     (case read_objects c w of
        (w1, Inl e) \<Rightarrow> (w1, Inl e)
      | (w1, Inr (dl, sl)) \<Rightarrow>
          (case mc_Now c w1 of
             (w2, now) \<Rightarrow> Compute \<lparr>in_Pools = pools, in_Datasets = dl, in_Snapshots = sl\<rparr> be now w2))"

definition apply_and_check :: "'w MigrateClient \<Rightarrow> 'w Backend \<Rightarrow> props \<Rightarrow> Plan \<Rightarrow> 'w \<Rightarrow> 'w \<times> run_end" where
  "apply_and_check c be pools plan w =
     (case Apply (Actions plan) be (migrate_kube c) w of
        (w1, Some e) \<Rightarrow> (w1, Returned (Some e))
      | (w1, None) \<Rightarrow>
          (case compute_now c be pools w1 of
             (w2, Inl e) \<Rightarrow> (w2, Returned (Some e))
           | (w2, Inr plan2) \<Rightarrow> (w2, if Clean plan2 then Returned None else Exited 1)))"

definition migrate_run :: "'w MigrateClient \<Rightarrow> 'w Exec \<Rightarrow> string \<Rightarrow> string \<Rightarrow> bool \<Rightarrow> 'w \<Rightarrow> 'w \<times> run_end" where
  "migrate_run c ex kubeContext namespace apply' w =
     (case list_toolbox c namespace w of
        (w1, Inl e) \<Rightarrow> (w1, Returned (Some e))
      | (w1, Inr []) \<Rightarrow> (w1, Returned (Some (errorf (''no toolbox pod in namespace '' @ namespace))))
      | (w1, Inr (pod # _)) \<Rightarrow>
          let be = CLIBackend (kubectl_runner ex kubeContext namespace pod)
          in (case list_ZfsPool c w1 of
                (w2, Inl e) \<Rightarrow> (w2, Returned (Some e))
              | (w2, Inr pl) \<Rightarrow>
                  (case compute_now c be (pools_by_guid pl) w2 of
                     (w3, Inl e) \<Rightarrow> (w3, Returned (Some e))
                   | (w3, Inr plan) \<Rightarrow>
                       if Blockers plan \<noteq> [] then (w3, Exited 1)
                       else if Actions plan = [] then (w3, Returned None)
                       else if \<not> apply' then (w3, Exited 3)
                       else apply_and_check c be (pools_by_guid pl) plan w3)))"

definition exit_code :: "run_end \<Rightarrow> int" where
  "exit_code r = (case r of Returned None \<Rightarrow> 0 | Returned (Some _) \<Rightarrow> 1 | Exited k \<Rightarrow> k)"

end
