(* ===== verification/MigrateSpec.thy ===== *)
theory MigrateSpec
  imports MigrateCli
begin

text \<open>
  What an audit of the migration plans, in closed form: which object it derives which labels for, and
  which actions and blockers follow.
\<close>

subsection \<open>Plans that grow\<close>

lemma finding_simps [simp]:
  "Actions (finding sev sub msg p) = Actions p"
  "Blockers (finding sev sub msg p) = [] \<longleftrightarrow> Blockers p = [] \<and> sev \<noteq> Blocker"
  by (auto simp: finding_def Blockers_def)

lemma planned_simps [simp]: "Actions (planned a p) = Actions p @ [a]" "Blockers (planned a p) = Blockers p"
  by (simp_all add: planned_def Blockers_def)

lemma counter_simps [simp]:
  "Blockers (p\<lparr>Labelled := l\<rparr>) = Blockers p" "Blockers (p\<lparr>Marked := m\<rparr>) = Blockers p"
  by (simp_all add: Blockers_def)

text \<open>A pass over the plan that adds the actions \<open>as\<close> and a blocker unless \<open>b\<close> holds.\<close>

definition grows :: "Action list \<Rightarrow> bool \<Rightarrow> Plan \<Rightarrow> Plan \<Rightarrow> bool" where
  "grows as b p p' \<longleftrightarrow> Actions p' = Actions p @ as \<and> (Blockers p' = [] \<longleftrightarrow> Blockers p = [] \<and> b)"

lemma grows_fold:
  assumes "\<And>x p. grows (A x) (B x) p (f x p)"
  shows "grows (concat (map A xs)) (\<forall>x \<in> set xs. B x) p (fold f xs p)"
proof (induction xs arbitrary: p)
  case (Cons x xs)
  then show ?case using Cons [of "f x p"] assms [where x = x and p = p] by (auto simp: grows_def)
qed (simp add: grows_def)

subsection \<open>Claims\<close>

text \<open>The labels the claims stand for; two claims for one name must agree.\<close>

definition derived :: "(string, claim) gomap \<Rightarrow> (string \<times> string \<times> string) set" where
  "derived claims = {(n, cl_role c, cl_owner c) | n c. map_of claims n = Some c}"

definition consistent :: "(string \<times> string \<times> string) set \<Rightarrow> bool" where
  "consistent X \<longleftrightarrow> (\<forall>n l l'. (n, l) \<in> X \<longrightarrow> (n, l') \<in> X \<longrightarrow> l = l')"

lemma consistentD: "consistent X \<Longrightarrow> (n, l) \<in> X \<Longrightarrow> (n, l') \<in> X \<Longrightarrow> l = l'"
  unfolding consistent_def by blast

lemma consistent_subset: "consistent Y \<Longrightarrow> X \<subseteq> Y \<Longrightarrow> consistent X"
  unfolding consistent_def by blast

lemma derived_iff: "(n, r, u) \<in> derived claims \<longleftrightarrow> (\<exists>c. map_of claims n = Some c \<and> cl_role c = r \<and> cl_owner c = u)"
  by (auto simp: derived_def)

lemma derived_Nil [simp]: "derived [] = {}"
  by (simp add: derived_def)

lemma consistent_derived [simp]: "consistent (derived claims)"
  by (auto simp: consistent_def derived_iff)

lemma derived_update:
  "derived (AList.update n c claims) = {(n', l) \<in> derived claims. n' \<noteq> n} \<union> {(n, cl_role c, cl_owner c)}"
  by (auto simp: derived_def split: if_splits)

text \<open>A pass over claims and plan that claims \<open>X\<close>.\<close>

definition claims_grow ::
  "(string \<times> string \<times> string) set \<Rightarrow> Action list \<Rightarrow> bool \<Rightarrow> (string, claim) gomap \<times> Plan \<Rightarrow> (string, claim) gomap \<times> Plan \<Rightarrow> bool" where
  "claims_grow X as b s s' \<longleftrightarrow>
     grows as (b \<and> consistent (derived (fst s) \<union> X)) (snd s) (snd s') \<and>
     derived (fst s) \<subseteq> derived (fst s') \<and> derived (fst s') \<subseteq> derived (fst s) \<union> X \<and>
     (Blockers (snd s') = [] \<longrightarrow> derived (fst s') = derived (fst s) \<union> X)"

lemma claims_grow_refl: "claims_grow {} [] True s s"
  by (simp add: claims_grow_def grows_def)

lemma claims_grow_trans:
  assumes "claims_grow X as b s s1" "claims_grow Y as' b' s1 s2"
  shows "claims_grow (X \<union> Y) (as @ as') (b \<and> b') s s2"
proof -
  note g1 = assms(1) [unfolded claims_grow_def grows_def] and g2 = assms(2) [unfolded claims_grow_def grows_def]
  have acts: "Actions (snd s1) = Actions (snd s) @ as" "Actions (snd s2) = Actions (snd s1) @ as'" using g1 g2 by blast+
  have bl: "Blockers (snd s1) = [] \<longleftrightarrow> Blockers (snd s) = [] \<and> b \<and> consistent (derived (fst s) \<union> X)"
    "Blockers (snd s2) = [] \<longleftrightarrow> Blockers (snd s1) = [] \<and> b' \<and> consistent (derived (fst s1) \<union> Y)" using g1 g2 by blast+
  have sub: "derived (fst s) \<subseteq> derived (fst s1)" "derived (fst s1) \<subseteq> derived (fst s) \<union> X"
    "derived (fst s1) \<subseteq> derived (fst s2)" "derived (fst s2) \<subseteq> derived (fst s1) \<union> Y" using g1 g2 by blast+
  have eq: "Blockers (snd s1) = [] \<longrightarrow> derived (fst s1) = derived (fst s) \<union> X"
    "Blockers (snd s2) = [] \<longrightarrow> derived (fst s2) = derived (fst s1) \<union> Y" using g1 g2 by blast+
  have less: "consistent (derived (fst s) \<union> X)" if "consistent (derived (fst s) \<union> (X \<union> Y))"
    by (rule consistent_subset [OF that]) blast
  have "Blockers (snd s2) = [] \<longleftrightarrow> Blockers (snd s) = [] \<and> (b \<and> b') \<and> consistent (derived (fst s) \<union> (X \<union> Y))"
  proof (cases "Blockers (snd s1) = []")
    case True
    then have "derived (fst s1) \<union> Y = derived (fst s) \<union> (X \<union> Y)" using eq(1) by (simp add: Un_assoc)
    then show ?thesis using True bl by simp
  next
    case False
    then show ?thesis using bl less by blast
  qed
  moreover have "Blockers (snd s2) = [] \<longrightarrow> derived (fst s2) = derived (fst s) \<union> (X \<union> Y)" using bl(2) eq by (simp add: Un_assoc)
  moreover have "derived (fst s) \<subseteq> derived (fst s2)" "derived (fst s2) \<subseteq> derived (fst s) \<union> (X \<union> Y)" using sub by blast+
  ultimately show ?thesis unfolding claims_grow_def grows_def acts append_assoc by blast
qed

lemma claims_grow_plan: "(\<And>p. grows as b p (f p)) \<Longrightarrow> claims_grow {} as b s (with_plan f s)"
  by (simp add: claims_grow_def with_plan_def)

lemma claims_grow_add: "claims_grow {(n, role, owner)} [] True s (add n role owner reason s)"
proof -
  obtain claims p where s: "s = (claims, p)" by (cases s)
  show ?thesis
  proof (cases "map_of claims n")
    case None
    have none: "(n, l) \<notin> derived claims" for l using None by (cases l) (simp add: derived_iff)
    have "consistent (derived claims \<union> {(n, role, owner)})"
      unfolding consistent_def using none consistentD [OF consistent_derived, of _ _ claims] by blast
    moreover have "{(n', l) \<in> derived claims. n' \<noteq> n} = derived claims" using none by auto
    ultimately show ?thesis using None s by (simp add: add_def claims_grow_def grows_def derived_update subset_insertI)
  next
    case (Some c)
    then have c: "(n, cl_role c, cl_owner c) \<in> derived claims" by (auto simp: derived_iff)
    show ?thesis
    proof (cases "cl_role c = role \<and> cl_owner c = owner")
      case True
      then have "derived claims \<union> {(n, role, owner)} = derived claims" using c by auto
      moreover have "{(n', l) \<in> derived claims. n' \<noteq> n} \<union> {(n, role, owner)} = derived claims"
        (is "?L = _")
      proof
        show "?L \<subseteq> derived claims" using True c by auto
        show "derived claims \<subseteq> ?L" using True consistentD [OF consistent_derived c] by fastforce
      qed
      ultimately show ?thesis using Some True s by (simp add: add_def claims_grow_def grows_def derived_update)
    next
      case False
      then have "\<not> consistent (derived claims \<union> {(n, role, owner)})"
        using consistentD [of "derived claims \<union> {(n, role, owner)}" n "(cl_role c, cl_owner c)" "(role, owner)"] c by auto
      then show ?thesis using Some False s by (auto simp: add_def claims_grow_def grows_def)
    qed
  qed
qed

lemma claims_grow_fold:
  assumes "\<And>x s. claims_grow (X x) (A x) (B x) s (f x s)"
  shows "claims_grow (\<Union>x \<in> set xs. X x) (concat (map A xs)) (\<forall>x \<in> set xs. B x) s (fold f xs s)"
proof (induction xs arbitrary: s)
  case Nil
  then show ?case using claims_grow_refl by simp
next
  case (Cons x xs)
  then show ?case using claims_grow_trans [OF assms [of x s] Cons [of "f x s"]] by simp
qed

subsection \<open>What is claimed for each object\<close>

text \<open>Snapshots claimed for a dataset, actions for it; the same for a snapshot, and when it blocks.\<close>

definition full_path :: "string \<Rightarrow> ZfsDataset \<Rightarrow> string" where
  "full_path pool d = pool @ ''/'' @ Trim CHR ''/'' (zds_Dataset (zd_Spec d))"

definition listed :: "Obj list \<Rightarrow> string \<Rightarrow> bool" where
  "listed objs n \<longleftrightarrow> n \<in> obj_Name ` set objs"

definition ds_claims :: "Input \<Rightarrow> Obj list \<Rightarrow> ZfsDataset \<Rightarrow> (string \<times> string \<times> string) set" where
  "ds_claims inp objs d =
     (case poolOf inp (zds_PoolGUID (zd_Spec d)) of
        None \<Rightarrow> {}
      | Some pool \<Rightarrow>
          if \<not> listed objs (full_path pool d) then {}
          else insert (full_path pool d, RoleVolume, om_UID (zd_Meta d))
            {(obj_Name o', RoleCloneOrigin, om_UID (zd_Meta d)) | o'. o' \<in> set (snapsByShort objs (''clone-'' @ om_Name (zd_Meta d)))})"

definition ds_acts :: "Input \<Rightarrow> Obj list \<Rightarrow> Time \<Rightarrow> ZfsDataset \<Rightarrow> Action list" where
  "ds_acts inp objs now d =
     (case poolOf inp (zds_PoolGUID (zd_Spec d)) of
        None \<Rightarrow> []
      | Some pool \<Rightarrow>
          if listed objs (full_path pool d) \<and> zdst_ProvisionedAt (zd_Status d) = None \<and>
             settled (zdst_Phase (zd_Status d)) [DatasetPhaseReady, DatasetPhaseLost]
          then [stamp ActStampDataset (om_Name (zd_Meta d)) (provisionedTime (zdst_Conditions (zd_Status d)) now)] else [])"

definition raw_claim :: "Obj list \<Rightarrow> ZfsSnapshot \<Rightarrow> (string \<times> string \<times> string) set" where
  "raw_claim objs s =
     (case snapsByShort objs (zss_SnapshotName (zs_Spec s)) of [o'] \<Rightarrow> {(obj_Name o', RoleRaw, om_UID (zs_Meta s))} | _ \<Rightarrow> {})"

definition backing_claim :: "Input \<Rightarrow> Obj list \<Rightarrow> string \<Rightarrow> ZfsSnapshot \<Rightarrow> (string \<times> string \<times> string) set" where
  "backing_claim inp objs pool s =
     (if listed objs (backing_of inp pool s) then {(backing_of inp pool s, RoleBacking, om_UID (zs_Meta s))} else {})"

definition sn_claims :: "Input \<Rightarrow> Obj list \<Rightarrow> ZfsSnapshot \<Rightarrow> (string \<times> string \<times> string) set" where
  "sn_claims inp objs s =
     (case poolOf inp (zss_PoolGUID (zs_Spec s)) of None \<Rightarrow> {} | Some pool \<Rightarrow> raw_claim objs s \<union> backing_claim inp objs pool s)"

definition stamp_acts :: "Time \<Rightarrow> ZfsSnapshot \<Rightarrow> Action list" where
  "stamp_acts now s =
     (if zsst_ProvisionedAt (zs_Status s) = None \<and> settled (zsst_Phase (zs_Status s)) [SnapshotPhaseReady, SnapshotPhaseLost]
      then [stamp ActStampSnapshot (om_Name (zs_Meta s)) (provisionedTime (zsst_Conditions (zs_Status s)) now)] else [])"

definition type_acts :: "Input \<Rightarrow> ZfsSnapshot \<Rightarrow> Action list" where
  "type_acts inp s =
     (if zss_SourceType (zs_Spec s) \<noteq> '''' then []
      else case source_cr inp s of
             None \<Rightarrow> []
           | Some cr \<Rightarrow> [\<lparr>act_Kind = ActSnapshotSourceType, act_Target = om_Name (zs_Meta s), act_Prop = '''', act_Value = zds_Type (zd_Spec cr),
                 act_At = 0, act_Reason = ''copied from ZfsDataset '' @ om_Name (zd_Meta cr)\<rparr>])"

definition sn_acts :: "Input \<Rightarrow> Time \<Rightarrow> ZfsSnapshot \<Rightarrow> Action list" where
  "sn_acts inp now s =
     (case poolOf inp (zss_PoolGUID (zs_Spec s)) of None \<Rightarrow> [] | Some pool \<Rightarrow> stamp_acts now s @ type_acts inp s)"

definition sn_ok :: "Input \<Rightarrow> Obj list \<Rightarrow> ZfsSnapshot \<Rightarrow> bool" where
  "sn_ok inp objs s \<longleftrightarrow>
     (case poolOf inp (zss_PoolGUID (zs_Spec s)) of
        None \<Rightarrow> True
      | Some pool \<Rightarrow>
          length (snapsByShort objs (zss_SnapshotName (zs_Spec s))) \<le> 1 \<and> (zss_SourceType (zs_Spec s) = '''' \<longrightarrow> source_cr inp s \<noteq> None))"

lemma byName_other: "n \<notin> obj_Name ` set objs \<Longrightarrow> map_of (fold (\<lambda>o'. AList.update (obj_Name o') o') objs m) n = map_of m n"
  by (induction objs arbitrary: m) auto

lemma byName_None [simp]: "map_of (byName objs) n = None \<longleftrightarrow> \<not> listed objs n"
proof -
  have "map_of (fold (\<lambda>o'. AList.update (obj_Name o') o') objs m) n = None \<longleftrightarrow> map_of m n = None \<and> n \<notin> obj_Name ` set objs" for m
    by (induction objs arbitrary: m) auto
  then show ?thesis by (simp add: byName_def listed_def)
qed

lemma byName_Some: "map_of (byName objs) n = Some o' \<Longrightarrow> o' \<in> set objs \<and> obj_Name o' = n"
proof -
  have "map_of (fold (\<lambda>o'. AList.update (obj_Name o') o') objs m) n = Some o' \<Longrightarrow> map_of m n = Some o' \<or> o' \<in> set objs \<and> obj_Name o' = n" for m
    by (induction objs arbitrary: m) (fastforce split: if_splits)+
  then show "map_of (byName objs) n = Some o' \<Longrightarrow> ?thesis" unfolding byName_def by fastforce
qed

lemma audit_dataset_grows:
  "claims_grow (ds_claims inp objs d) (ds_acts inp objs now d) True s (audit_dataset inp objs now d s)"
proof (cases "poolOf inp (zds_PoolGUID (zd_Spec d))")
  case None
  then show ?thesis using claims_grow_refl by (simp add: audit_dataset_def ds_claims_def ds_acts_def)
next
  case (Some pool)
  let ?full = "full_path pool d" and ?n = "om_Name (zd_Meta d)" and ?u = "om_UID (zd_Meta d)"
  show ?thesis
  proof (cases "listed objs ?full")
    case False
    have "claims_grow {} [] True s (with_plan (finding Info sub msg) s)" for sub msg
      by (rule claims_grow_plan) (simp add: grows_def)
    then show ?thesis using Some False claims_grow_refl
      by (simp add: audit_dataset_def ds_claims_def ds_acts_def full_path_def Let_def)
  next
    case True
    let ?s1 = "add ?full RoleVolume ?u (''volume of ZfsDataset '' @ ?n) s" and ?os = "snapsByShort objs (''clone-'' @ ?n)"
    let ?s2 = "fold (\<lambda>o'. add (obj_Name o') RoleCloneOrigin ?u (''clone origin of ZfsDataset '' @ ?n)) ?os ?s1"
    have X: "{(?full, RoleVolume, ?u)} \<union> (\<Union>o' \<in> set ?os. {(obj_Name o', RoleCloneOrigin, ?u)}) = ds_claims inp objs d"
      using Some True by (auto simp: ds_claims_def)
    have g: "claims_grow (ds_claims inp objs d) [] True s ?s2"
    proof -
      have "claims_grow (\<Union>o' \<in> set ?os. {(obj_Name o', RoleCloneOrigin, ?u)}) (concat (map (\<lambda>_. []) ?os)) (\<forall>o' \<in> set ?os. True) ?s1 ?s2"
        by (rule claims_grow_fold, rule claims_grow_add)
      moreover have "concat (map (\<lambda>_. []) ?os) = ([] :: Action list)" "(\<forall>o' \<in> set ?os. True) = True" by simp_all
      ultimately have "claims_grow (\<Union>o' \<in> set ?os. {(obj_Name o', RoleCloneOrigin, ?u)}) [] True ?s1 ?s2" by (simp only:)
      from claims_grow_trans [OF claims_grow_add this] show ?thesis unfolding X by (simp only: append_Nil simp_thms)
    qed
    have "claims_grow {} [a] True ?s2 (with_plan (planned a) ?s2)" for a
      by (rule claims_grow_plan) (simp add: grows_def)
    from claims_grow_trans [OF g this] g show ?thesis using Some True
      by (simp add: audit_dataset_def ds_acts_def full_path_def Let_def)
  qed
qed

lemma audit_snapshot_grows:
  "claims_grow (sn_claims inp objs s) (sn_acts inp now s) (sn_ok inp objs s) st (audit_snapshot inp objs now s st)"
proof (cases "poolOf inp (zss_PoolGUID (zs_Spec s))")
  case None
  then show ?thesis using claims_grow_refl by (simp add: audit_snapshot_def sn_claims_def sn_acts_def sn_ok_def)
next
  case (Some pool)
  have f: "claims_grow {} [] (sev \<noteq> Blocker) x (with_plan (finding sev sub msg) x)" for sev sub msg x
    by (rule claims_grow_plan) (simp add: grows_def)
  have raw: "claims_grow (raw_claim objs s) [] (length (snapsByShort objs (zss_SnapshotName (zs_Spec s))) \<le> 1) x (claim_raw objs s x)" for x
    using f [of Info] f [of Blocker] claims_grow_add
    by (auto simp: claim_raw_def raw_claim_def Let_def split: list.split)
  have backing: "claims_grow (backing_claim inp objs pool s) [] True x (claim_backing inp objs pool s x)" for x
    using f [of Info] claims_grow_add by (simp add: claim_backing_def backing_claim_def Let_def)
  have st: "claims_grow {} (stamp_acts now s) True x (with_plan (stamp_snapshot now s) x)" for x
    by (rule claims_grow_plan) (simp add: grows_def stamp_snapshot_def stamp_acts_def)
  have ty: "claims_grow {} (type_acts inp s) (zss_SourceType (zs_Spec s) = '''' \<longrightarrow> source_cr inp s \<noteq> None) x (with_plan (fix_source_type inp s) x)" for x
    by (rule claims_grow_plan) (auto simp: grows_def fix_source_type_def type_acts_def split: option.split)
  show ?thesis using Some claims_grow_trans [OF claims_grow_trans [OF claims_grow_trans [OF raw backing] st] ty]
    by (simp add: audit_snapshot_def sn_claims_def sn_acts_def sn_ok_def)
qed

subsection \<open>Old snapshots and labels\<close>

definition restore_ok :: "(string, claim) gomap \<Rightarrow> Obj \<Rightarrow> bool" where
  "restore_ok claims o' \<longleftrightarrow> (\<exists>u. (obj_Dataset o', RoleBacking, u) \<in> derived claims \<or> (obj_Dataset o', RoleVolume, u) \<in> derived claims)"

definition restore_acts :: "(string, claim) gomap \<Rightarrow> Obj \<Rightarrow> Action list" where
  "restore_acts claims o' =
     (if restore_ok claims o' \<and> \<not> obj_Deferred o'
      then [\<lparr>act_Kind = ActDestroyDeferred, act_Target = obj_Name o', act_Prop = '''', act_Value = '''', act_At = 0,
             act_Reason = ''old restore-source snapshot''\<rparr>] else [])"

lemma restore_ok_alt:
  "restore_ok claims o' \<longleftrightarrow> \<not> (case map_of claims (obj_Dataset o') of None \<Rightarrow> True | Some c \<Rightarrow> cl_role c \<noteq> RoleBacking \<and> cl_role c \<noteq> RoleVolume)"
  by (auto simp: restore_ok_def derived_iff split: option.split)

lemma audit_restore_grows: "grows (restore_acts claims o') (restore_ok claims o') p (audit_restore claims o' p)"
  unfolding audit_restore_def restore_acts_def grows_def by (auto simp: restore_ok_alt)

definition obj_at :: "Obj list \<Rightarrow> string \<Rightarrow> Obj" where
  "obj_at objs n = (case map_of (byName objs) n of None \<Rightarrow> no_object | Some x \<Rightarrow> x)"

definition label :: "string \<Rightarrow> Obj \<Rightarrow> string" where
  "label prop o' = (if prop = PropRole then obj_Role o' else obj_Owner o')"

definition wanted :: "claim \<Rightarrow> string \<Rightarrow> string" where
  "wanted c prop = (if prop = PropRole then cl_role c else cl_owner c)"

definition label_act :: "Obj list \<Rightarrow> string \<times> claim \<Rightarrow> string \<Rightarrow> Action list" where
  "label_act objs nc prop =
     (if label prop (obj_at objs (fst nc)) = '''' \<and> wanted (snd nc) prop \<noteq> ''''
      then [\<lparr>act_Kind = ActSet, act_Target = fst nc, act_Prop = prop, act_Value = wanted (snd nc) prop, act_At = 0, act_Reason = cl_reason (snd nc)\<rparr>]
      else [])"

definition label_ok :: "Obj list \<Rightarrow> string \<times> claim \<Rightarrow> bool" where
  "label_ok objs nc \<longleftrightarrow>
     (\<forall>prop \<in> {PropRole, PropOwner}. label prop (obj_at objs (fst nc)) = '''' \<or> label prop (obj_at objs (fst nc)) = wanted (snd nc) prop)"

lemma audit_labels_grows:
  "grows (label_act objs nc PropRole @ label_act objs nc PropOwner) (label_ok objs nc) p (audit_labels objs nc p)"
  by (cases nc) (auto simp: grows_def audit_labels_def audit_label_def label_act_def label_ok_def label_def wanted_def obj_at_def Let_def)

lemma audit_unowned_grows: "grows [] True p (audit_unowned claims rl o' p)"
  by (simp add: grows_def audit_unowned_def)

definition claim_list :: "(string, claim) gomap \<Rightarrow> (string \<times> claim) list" where
  "claim_list claims = map (\<lambda>n. (n, the (map_of claims n))) (sort (keys claims))"

lemma set_claim_list: "(n, c) \<in> set (claim_list claims) \<longleftrightarrow> map_of claims n = Some c"
  by (force simp: claim_list_def in_keys_iff)

subsection \<open>The plan of an audit\<close>

definition all_claims :: "Input \<Rightarrow> Obj list \<Rightarrow> (string \<times> string \<times> string) set" where
  "all_claims inp objs = (\<Union>d \<in> set (in_Datasets inp). ds_claims inp objs d) \<union> (\<Union>s \<in> set (in_Snapshots inp). sn_claims inp objs s)"

definition all_acts :: "Input \<Rightarrow> Obj list \<Rightarrow> Time \<Rightarrow> (string, claim) gomap \<Rightarrow> Action set" where
  "all_acts inp objs now claims =
     (\<Union>d \<in> set (in_Datasets inp). set (ds_acts inp objs now d)) \<union> (\<Union>s \<in> set (in_Snapshots inp). set (sn_acts inp now s)) \<union>
     (\<Union>o' \<in> set (snapsByShort objs RestoreSourceSnapshot). set (restore_acts claims o')) \<union>
     (\<Union>nc \<in> set (claim_list claims). set (label_act objs nc PropRole) \<union> set (label_act objs nc PropOwner))"

text \<open>The claims are in order, and every old snapshot and every label agrees with them.\<close>

definition claims_ok :: "Input \<Rightarrow> Obj list \<Rightarrow> bool" where
  "claims_ok inp objs \<longleftrightarrow> (\<forall>s \<in> set (in_Snapshots inp). sn_ok inp objs s) \<and> consistent (all_claims inp objs)"

definition objects_ok :: "Obj list \<Rightarrow> (string, claim) gomap \<Rightarrow> bool" where
  "objects_ok objs claims \<longleftrightarrow>
     (\<forall>o' \<in> set (snapsByShort objs RestoreSourceSnapshot). restore_ok claims o') \<and> (\<forall>nc \<in> set (claim_list claims). label_ok objs nc)"

definition audited :: "Input \<Rightarrow> Obj list \<Rightarrow> Time \<Rightarrow> Plan \<Rightarrow> (string, claim) gomap \<Rightarrow> Plan \<Rightarrow> bool" where
  "audited inp objs now p0 claims plan \<longleftrightarrow>
     set (Actions plan) = set (Actions p0) \<union> all_acts inp objs now claims \<and>
     (Blockers plan = [] \<longleftrightarrow> Blockers p0 = [] \<and> claims_ok inp objs \<and> objects_ok objs claims) \<and>
     derived claims \<subseteq> all_claims inp objs \<and> (Blockers p0 = [] \<and> claims_ok inp objs \<longrightarrow> derived claims = all_claims inp objs)"

lemma audit_result: "\<exists>claims. audited inp objs now p0 claims (audit inp rl objs now p0)"
proof -
  obtain claims p1 where c: "claims_of inp objs now p0 = (claims, p1)" by fastforce
  have ds: "claims_grow (\<Union>d \<in> set ds. ds_claims inp objs d) (concat (map (ds_acts inp objs now) ds)) (\<forall>d \<in> set ds. True) s
      (fold (audit_dataset inp objs now) ds s)" for ds s
    by (rule claims_grow_fold, rule audit_dataset_grows)
  have sn: "claims_grow (\<Union>x \<in> set ss. sn_claims inp objs x) (concat (map (sn_acts inp now) ss)) (\<forall>x \<in> set ss. sn_ok inp objs x) s
      (fold (audit_snapshot inp objs now) ss s)" for ss s
    by (rule claims_grow_fold, rule audit_snapshot_grows)
  note g = claims_grow_trans [OF ds sn, of "in_Datasets inp" "in_Snapshots inp" "([], p0)", folded claims_of_def all_claims_def,
      unfolded c claims_grow_def grows_def fst_conv snd_conv derived_Nil Un_empty_left]
  let ?p2 = "fold (audit_restore claims) (snapsByShort objs RestoreSourceSnapshot) p1"
  let ?p3 = "fold (audit_labels objs) (claim_list claims) ?p2"
  note rest = grows_fold [of "restore_acts claims" "restore_ok claims" "audit_restore claims", OF audit_restore_grows,
      of "snapsByShort objs RestoreSourceSnapshot" p1, unfolded grows_def]
  note labs = grows_fold [of "\<lambda>nc. label_act objs nc PropRole @ label_act objs nc PropOwner" "label_ok objs" "audit_labels objs",
      OF audit_labels_grows, of "claim_list claims" ?p2, unfolded grows_def]
  note unow = grows_fold [of "\<lambda>_. []" "\<lambda>_. True" "audit_unowned claims rl", OF audit_unowned_grows, of objs ?p3, unfolded grows_def]
  have a: "audit inp rl objs now p0 = fold (audit_unowned claims rl) objs ?p3" using c by (simp add: audit_def claim_list_def Let_def)
  have acts: "set (Actions (audit inp rl objs now p0)) = set (Actions p0) \<union> all_acts inp objs now claims"
    unfolding a all_acts_def using g rest labs unow by (simp add: Un_assoc)
  have "Blockers (audit inp rl objs now p0) = [] \<longleftrightarrow> Blockers p0 = [] \<and> claims_ok inp objs \<and> objects_ok objs claims"
    unfolding a claims_ok_def objects_ok_def using g rest labs unow by blast
  then show ?thesis using acts g unfolding audited_def claims_ok_def by blast
qed

lemma snapsByShort_iff: "o' \<in> set (snapsByShort objs s) \<longleftrightarrow> o' \<in> set objs \<and> obj_IsSnapshot o' \<and> obj_Short o' = s"
  by (auto simp: snapsByShort_def)

lemma claims_listed:
  assumes "(n, l) \<in> all_claims inp objs"
  shows "listed objs n"
proof -
  consider d where "(n, l) \<in> ds_claims inp objs d" | s where "(n, l) \<in> sn_claims inp objs s" using assms unfolding all_claims_def by blast
  then show ?thesis
  proof cases
    case 1
    then show ?thesis by (auto simp: ds_claims_def snapsByShort_iff listed_def split: option.splits if_splits)
  next
    case 2
    then obtain pool where "(n, l) \<in> raw_claim objs s \<or> (n, l) \<in> backing_claim inp objs pool s"
      by (auto simp: sn_claims_def split: option.splits)
    then show ?thesis
    proof
      assume "(n, l) \<in> raw_claim objs s"
      then obtain o' where "snapsByShort objs (zss_SnapshotName (zs_Spec s)) = [o']" "n = obj_Name o'"
        unfolding raw_claim_def by (auto split: list.splits)
      then show ?thesis using snapsByShort_iff [of o' objs "zss_SnapshotName (zs_Spec s)"] by (auto simp: listed_def)
    qed (auto simp: backing_claim_def split: if_splits)
  qed
qed

lemma obj_at_listed: "listed objs n \<Longrightarrow> obj_at objs n \<in> set objs \<and> obj_Name (obj_at objs n) = n"
  using byName_Some [of objs n] byName_None [of objs n] by (auto simp: obj_at_def split: option.splits)

lemma stamp_Kind [simp]: "act_Kind (stamp k n t) = k" "act_Target (stamp k n t) = n" "act_At (stamp k n t) = t"
  by (simp_all add: stamp_def)

text \<open>Where the actions of each kind come from.\<close>

lemma all_acts_Set:
  assumes "a \<in> all_acts inp objs now claims" "act_Kind a = ActSet"
  obtains c where "map_of claims (act_Target a) = Some c" "act_Prop a \<in> {PropRole, PropOwner}" "act_Value a = wanted c (act_Prop a)"
    "label (act_Prop a) (obj_at objs (act_Target a)) = ''''" "act_Value a \<noteq> ''''"
proof -
  have "\<exists>nc \<in> set (claim_list claims). a \<in> set (label_act objs nc PropRole) \<or> a \<in> set (label_act objs nc PropOwner)"
    using assms unfolding all_acts_def
    by (auto simp: ds_acts_def sn_acts_def stamp_acts_def type_acts_def restore_acts_def split: option.splits if_splits)
  then show ?thesis using that by (auto simp: label_act_def set_claim_list split: if_splits)
qed

lemma all_acts_Destroy:
  assumes "a \<in> all_acts inp objs now claims" "act_Kind a = ActDestroyDeferred"
  obtains o' where "o' \<in> set (snapsByShort objs RestoreSourceSnapshot)" "act_Target a = obj_Name o'" "restore_ok claims o'" "\<not> obj_Deferred o'"
  using assms that unfolding all_acts_def
  by (auto simp: ds_acts_def sn_acts_def stamp_acts_def type_acts_def restore_acts_def label_act_def split: option.splits if_splits)

lemma all_roots_plan: "Actions (snd (all_roots inp)) = []"
proof -
  have f: "Actions (snd (fold (\<lambda>x. add_root inp (F x) (G x) (H x)) xs s)) = Actions (snd s)" for F G H and xs :: "'x list" and s
    by (induction xs arbitrary: s) (auto simp: add_root_def split: prod.splits option.splits)
  show ?thesis by (simp add: all_roots_def f) (simp add: empty_plan_def)
qed

end
