(* ===== verification/MigrateStore.thy ===== *)
theory MigrateStore
  imports MigrateSpec
begin

text \<open>
  The migration from audit to audit. The locales state what the API server and the pool do when nobody else writes:
  reads show what is stored, a change that succeeds is made. The listing shows the objects at most one
  level below the roots, setting a label sets it, a deferred destroy marks the snapshot or removes it, a
  status update replaces the status, an update the spec.
\<close>

subsection \<open>The store\<close>

definition relabel :: "string \<Rightarrow> string \<Rightarrow> string \<Rightarrow> Obj \<Rightarrow> Obj" where
  "relabel n prop v o' = (if obj_Name o' = n then set_label prop v o' else o')"

definition mark :: "string \<Rightarrow> Obj \<Rightarrow> Obj" where
  "mark n o' = (if obj_Name o' = n then o'\<lparr>obj_Deferred := True\<rparr> else o')"

locale migrate_client =
  fixes c :: "'w MigrateClient" and ok :: "'w \<Rightarrow> bool"
    and ov :: "'w \<Rightarrow> Obj list" and dv :: "'w \<Rightarrow> ZfsDataset list" and sv :: "'w \<Rightarrow> ZfsSnapshot list"
    and plain_label :: "string \<Rightarrow> bool"
  assumes distinct_names: "ok w \<Longrightarrow> distinct (map (\<lambda>d. om_Name (zd_Meta d)) (dv w)) \<and> distinct (map (\<lambda>s. om_Name (zs_Meta s)) (sv w))"
    and plain_uids: "ok w \<Longrightarrow> d \<in> set (dv w) \<Longrightarrow> plain_label (om_UID (zd_Meta d))" "ok w \<Longrightarrow> s \<in> set (sv w) \<Longrightarrow> plain_label (om_UID (zs_Meta s))"
    and plain_roles: "plain_label RoleVolume" "plain_label RoleCloneOrigin" "plain_label RoleRaw" "plain_label RoleBacking"
    and typed: "ok w \<Longrightarrow> d \<in> set (dv w) \<Longrightarrow> zds_Type (zd_Spec d) \<noteq> ''''"
    and now_law: "ok w \<Longrightarrow> mc_Now c w = (w', t) \<Longrightarrow> ok w' \<and> ov w' = ov w \<and> dv w' = dv w \<and> sv w' = sv w"
    and list_datasets: "ok w \<Longrightarrow> list_ZfsDataset c w = (w', Inr ds) \<Longrightarrow> ok w' \<and> ov w' = ov w \<and> dv w' = dv w \<and> sv w' = sv w \<and> ds = dv w"
    and list_snapshots: "ok w \<Longrightarrow> list_ZfsSnapshot c w = (w', Inr ss) \<Longrightarrow> ok w' \<and> ov w' = ov w \<and> dv w' = dv w \<and> sv w' = sv w \<and> ss = sv w"
    and get_dataset: "ok w \<Longrightarrow> get_ZfsDataset c n w = (w', Inr d) \<Longrightarrow>
      ok w' \<and> ov w' = ov w \<and> dv w' = dv w \<and> sv w' = sv w \<and> d \<in> set (dv w) \<and> om_Name (zd_Meta d) = n"
    and get_snapshot: "ok w \<Longrightarrow> get_ZfsSnapshot c n w = (w', Inr s) \<Longrightarrow>
      ok w' \<and> ov w' = ov w \<and> dv w' = dv w \<and> sv w' = sv w \<and> s \<in> set (sv w) \<and> om_Name (zs_Meta s) = n"
    and status_dataset: "ok w \<Longrightarrow> update_status_ZfsDataset c d w = (w', None) \<Longrightarrow>
      ok w' \<and> ov w' = ov w \<and> sv w' = sv w \<and>
      dv w' = map (\<lambda>x. if om_Name (zd_Meta x) = om_Name (zd_Meta d) then x\<lparr>zd_Status := zd_Status d\<rparr> else x) (dv w)"
    and status_snapshot: "ok w \<Longrightarrow> update_status_ZfsSnapshot c s w = (w', None) \<Longrightarrow>
      ok w' \<and> ov w' = ov w \<and> dv w' = dv w \<and>
      sv w' = map (\<lambda>x. if om_Name (zs_Meta x) = om_Name (zs_Meta s) then x\<lparr>zs_Status := zs_Status s\<rparr> else x) (sv w)"
    and update_snapshot: "ok w \<Longrightarrow> mc_update_ZfsSnapshot c s w = (w', None) \<Longrightarrow>
      ok w' \<and> ov w' = ov w \<and> dv w' = dv w \<and>
      sv w' = map (\<lambda>x. if om_Name (zs_Meta x) = om_Name (zs_Meta s) then x\<lparr>zs_Spec := zs_Spec s\<rparr> else x) (sv w)"
begin

end

text \<open>The pool, by what a backend does.\<close>

locale migrate_store = migrate_client c ok ov dv sv plain_label
  for c :: "'w MigrateClient" and ok :: "'w \<Rightarrow> bool" and ov :: "'w \<Rightarrow> Obj list" and dv :: "'w \<Rightarrow> ZfsDataset list"
    and sv :: "'w \<Rightarrow> ZfsSnapshot list" and plain_label :: "string \<Rightarrow> bool" +
  fixes be :: "'w Backend"
  assumes list_law: "ok w \<Longrightarrow> be_List be roots w = (w', Inr objs) \<Longrightarrow>
      ok w' \<and> ov w' = ov w \<and> dv w' = dv w \<and> sv w' = sv w \<and> distinct (map obj_Name objs) \<and>
      set objs = {o' \<in> set (ov w). \<exists>r \<in> set roots. withinOneLevel (obj_Name o') r}"
    and set_law: "ok w \<Longrightarrow> be_Set be n prop v w = (w', None) \<Longrightarrow> prop \<in> {PropRole, PropOwner} \<Longrightarrow> plain_label v \<Longrightarrow> v \<noteq> '''' \<Longrightarrow>
      ok w' \<and> ov w' = map (relabel n prop v) (ov w) \<and> dv w' = dv w \<and> sv w' = sv w"
    and destroy_law: "ok w \<Longrightarrow> be_DestroyDeferred be n w = (w', None) \<Longrightarrow>
      ok w' \<and> (ov w' = map (mark n) (ov w) \<or> ov w' = filter (\<lambda>o'. obj_Name o' \<noteq> n) (ov w)) \<and> dv w' = dv w \<and> sv w' = sv w"
begin

end

subsection \<open>What a list of actions leaves behind\<close>

text \<open>An object afterwards is one from before, with a label that was set or is unchanged.\<close>

definition sets :: "Action set \<Rightarrow> string \<Rightarrow> string \<Rightarrow> string set" where
  "sets A n prop = {act_Value a | a. a \<in> A \<and> act_Kind a = ActSet \<and> act_Target a = n \<and> act_Prop a = prop}"

definition destroyed :: "Action set \<Rightarrow> string set" where
  "destroyed A = {act_Target a | a. a \<in> A \<and> act_Kind a = ActDestroyDeferred}"

definition obj_after :: "Action set \<Rightarrow> Obj \<Rightarrow> Obj \<Rightarrow> bool" where
  "obj_after A x y \<longleftrightarrow> obj_Name y = obj_Name x \<and>
     (\<forall>prop \<in> {PropRole, PropOwner}.
        label prop y = label prop x \<and> sets A (obj_Name x) prop = {} \<or> label prop y \<in> sets A (obj_Name x) prop) \<and>
     (obj_Deferred x \<or> obj_Name x \<in> destroyed A \<longrightarrow> obj_Deferred y)"

definition objs_after :: "Action set \<Rightarrow> Obj list \<Rightarrow> Obj list \<Rightarrow> bool" where
  "objs_after A os os' \<longleftrightarrow>
     (\<forall>y \<in> set os'. \<exists>x \<in> set os. obj_after A x y) \<and>
     (\<forall>x \<in> set os. obj_Name x \<notin> destroyed A \<longrightarrow> (\<exists>y \<in> set os'. obj_Name y = obj_Name x))"

definition ds_after :: "Action set \<Rightarrow> ZfsDataset \<Rightarrow> ZfsDataset \<Rightarrow> bool" where
  "ds_after A d d' \<longleftrightarrow> zd_Meta d' = zd_Meta d \<and> zd_Spec d' = zd_Spec d \<and> zdst_Phase (zd_Status d') = zdst_Phase (zd_Status d) \<and>
     (zdst_ProvisionedAt (zd_Status d') = None \<longrightarrow> zdst_ProvisionedAt (zd_Status d) = None \<and>
        (\<forall>a \<in> A. \<not> (act_Kind a = ActStampDataset \<and> act_Target a = om_Name (zd_Meta d))))"

definition sn_after :: "Action set \<Rightarrow> ZfsSnapshot \<Rightarrow> ZfsSnapshot \<Rightarrow> bool" where
  "sn_after A s s' \<longleftrightarrow> zs_Meta s' = zs_Meta s \<and> (\<exists>t. zs_Spec s' = (zs_Spec s)\<lparr>zss_SourceType := t\<rparr>) \<and>
     zsst_Phase (zs_Status s') = zsst_Phase (zs_Status s) \<and>
     (zsst_ProvisionedAt (zs_Status s') = None \<longrightarrow> zsst_ProvisionedAt (zs_Status s) = None \<and>
        (\<forall>a \<in> A. \<not> (act_Kind a = ActStampSnapshot \<and> act_Target a = om_Name (zs_Meta s)))) \<and>
     (zss_SourceType (zs_Spec s') = '''' \<longrightarrow> zss_SourceType (zs_Spec s) = '''' \<and>
        (\<forall>a \<in> A. \<not> (act_Kind a = ActSnapshotSourceType \<and> act_Target a = om_Name (zs_Meta s) \<and> act_Value a \<noteq> '''')))"

lemma sets_Un [simp]: "sets (A \<union> B) n prop = sets A n prop \<union> sets B n prop" "destroyed (A \<union> B) = destroyed A \<union> destroyed B"
  by (auto simp: sets_def destroyed_def)

lemma obj_after_name: "obj_after A x y \<Longrightarrow> obj_Name y = obj_Name x"
  by (simp add: obj_after_def)

lemma obj_after_label:
  "obj_after A x y \<Longrightarrow> p \<in> {PropRole, PropOwner} \<Longrightarrow>
     label p y = label p x \<and> sets A (obj_Name x) p = {} \<or> label p y \<in> sets A (obj_Name x) p"
  unfolding obj_after_def by blast

lemma obj_after_deferred: "obj_after A x y \<Longrightarrow> obj_Deferred x \<or> obj_Name x \<in> destroyed A \<Longrightarrow> obj_Deferred y"
  by (simp add: obj_after_def)

lemma objs_afterD: "objs_after A os os' \<Longrightarrow> y \<in> set os' \<Longrightarrow> \<exists>x \<in> set os. obj_after A x y"
  by (simp add: objs_after_def)

lemma objs_after_kept: "objs_after A os os' \<Longrightarrow> x \<in> set os \<Longrightarrow> obj_Name x \<notin> destroyed A \<Longrightarrow> \<exists>y \<in> set os'. obj_Name y = obj_Name x"
  by (simp add: objs_after_def)

lemma obj_after_trans:
  assumes "obj_after A x y" "obj_after B y z"
  shows "obj_after (A \<union> B) x z"
proof -
  note n = obj_after_name [OF assms(1)] obj_after_name [OF assms(2)]
  have "label p z = label p x \<and> sets (A \<union> B) (obj_Name x) p = {} \<or> label p z \<in> sets (A \<union> B) (obj_Name x) p"
    if p: "p \<in> {PropRole, PropOwner}" for p
    using obj_after_label [OF assms(1) p] obj_after_label [OF assms(2) p, unfolded n(1)] by auto
  moreover have "obj_Deferred z" if "obj_Deferred x \<or> obj_Name x \<in> destroyed (A \<union> B)"
    using that obj_after_deferred [OF assms(1)] obj_after_deferred [OF assms(2), unfolded n(1)] by auto
  ultimately show ?thesis using n unfolding obj_after_def by simp
qed

lemma objs_after_trans:
  assumes "objs_after A os os1" "objs_after B os1 os2"
  shows "objs_after (A \<union> B) os os2"
proof -
  have "\<exists>x \<in> set os. obj_after (A \<union> B) x z" if z: "z \<in> set os2" for z
  proof -
    obtain y where y: "y \<in> set os1" "obj_after B y z" using objs_afterD [OF assms(2) z] by blast
    then obtain x where "x \<in> set os" "obj_after A x y" using objs_afterD [OF assms(1)] by blast
    then show ?thesis using obj_after_trans y by blast
  qed
  moreover have "\<exists>z \<in> set os2. obj_Name z = obj_Name x" if x: "x \<in> set os" "obj_Name x \<notin> destroyed (A \<union> B)" for x
  proof -
    obtain y where y: "y \<in> set os1" "obj_Name y = obj_Name x" using objs_after_kept [OF assms(1) x(1)] x(2) by auto
    then show ?thesis using objs_after_kept [OF assms(2) y(1)] x(2) by auto
  qed
  ultimately show ?thesis unfolding objs_after_def by blast
qed

lemma ds_after_trans: "ds_after A d d1 \<Longrightarrow> ds_after B d1 d2 \<Longrightarrow> ds_after (A \<union> B) d d2"
  unfolding ds_after_def by auto

lemma sn_after_trans: "sn_after A s s1 \<Longrightarrow> sn_after B s1 s2 \<Longrightarrow> sn_after (A \<union> B) s s2"
  unfolding sn_after_def by auto

lemma set_label_simps [simp]: "obj_Name (set_label p v x) = obj_Name x" "obj_Deferred (set_label p v x) = obj_Deferred x"
  by (simp_all add: set_label_def)

lemma objs_after_map:
  assumes "\<And>x. obj_after A x (f x)"
  shows "objs_after A os (map f os)"
proof -
  have "\<exists>y \<in> set (map f os). obj_Name y = obj_Name x" if "x \<in> set os" for x
    using that obj_after_name [OF assms [of x]] by (intro bexI [of _ "f x"]) auto
  then show ?thesis using assms by (auto simp: objs_after_def)
qed

lemma objs_after_filter:
  assumes "\<And>x. P x \<Longrightarrow> obj_after A x x" "\<And>x. \<not> P x \<Longrightarrow> obj_Name x \<in> destroyed A"
  shows "objs_after A os (filter P os)"
  unfolding objs_after_def set_filter using assms by blast

lemma objs_after_relabel:
  assumes "act_Kind a = ActSet" "act_Prop a \<in> {PropRole, PropOwner}"
  shows "objs_after {a} os (map (relabel (act_Target a) (act_Prop a) (act_Value a)) os)"
  by (rule objs_after_map) (use assms in \<open>auto simp: obj_after_def relabel_def set_label_def label_def sets_def destroyed_def\<close>)

lemma objs_after_destroy:
  assumes "act_Kind a = ActDestroyDeferred" "os' = map (mark (act_Target a)) os \<or> os' = filter (\<lambda>o'. obj_Name o' \<noteq> act_Target a) os"
  shows "objs_after {a} os os'"
  using assms(2)
proof
  assume "os' = map (mark (act_Target a)) os"
  then show ?thesis using assms(1)
    by (auto simp: obj_after_def mark_def label_def sets_def destroyed_def intro!: objs_after_map)
next
  assume "os' = filter (\<lambda>o'. obj_Name o' \<noteq> act_Target a) os"
  moreover have "obj_Name x = act_Target a \<Longrightarrow> obj_Name x \<in> destroyed {a}" "obj_Name x \<noteq> act_Target a \<Longrightarrow> obj_after {a} x x" for x
    using assms(1) by (auto simp: obj_after_def sets_def destroyed_def)
  ultimately show ?thesis by (auto intro!: objs_after_filter)
qed

lemma spec_self: "\<exists>t. s = s\<lparr>zss_SourceType := t\<rparr>"
  by (rule exI [of _ "zss_SourceType s"]) simp

lemma objs_after_same: "act_Kind a \<noteq> ActSet \<Longrightarrow> act_Kind a \<noteq> ActDestroyDeferred \<Longrightarrow> objs_after {a} os os"
  by (auto simp: objs_after_def obj_after_def sets_def destroyed_def)

lemma ds_after_same: "act_Kind a \<noteq> ActStampDataset \<Longrightarrow> list_all2 (ds_after {a}) ds ds"
  by (rule list.rel_refl) (simp add: ds_after_def)

lemma sn_after_same: "act_Kind a \<noteq> ActStampSnapshot \<Longrightarrow> act_Kind a \<noteq> ActSnapshotSourceType \<Longrightarrow> list_all2 (sn_after {a}) ss ss"
  by (rule list.rel_refl) (auto simp: sn_after_def intro: spec_self)

text \<open>A write to the one object of a name.\<close>

lemma list_all2_write:
  assumes "distinct (map name xs)" "d \<in> set xs" "\<And>x. x \<in> set xs \<Longrightarrow> name x \<noteq> name d \<Longrightarrow> R x x" "R d (f d)"
  shows "list_all2 R xs (map (\<lambda>x. if name x = name d then f x else x) xs)"
proof -
  have "x = d" if "x \<in> set xs" "name x = name d" for x using assms(1,2) that by (simp add: distinct_map inj_on_def)
  then show ?thesis using assms(3,4) by (auto simp: list_all2_map2 intro!: list.rel_refl_strong)
qed

lemma list_all2_unwritten:
  assumes "distinct (map name xs)" "d \<in> set xs" "\<And>x. x \<in> set xs \<Longrightarrow> name x \<noteq> name d \<Longrightarrow> R x x" "R d d"
  shows "list_all2 R xs xs"
  using list_all2_write [OF assms(1,2), of R "\<lambda>x. x"] assms(3,4) by simp

definition store_after ::
  "('w \<Rightarrow> Obj list) \<Rightarrow> ('w \<Rightarrow> ZfsDataset list) \<Rightarrow> ('w \<Rightarrow> ZfsSnapshot list) \<Rightarrow> Action set \<Rightarrow> 'w \<Rightarrow> 'w \<Rightarrow> bool" where
  "store_after ov dv sv A w w' \<longleftrightarrow>
     objs_after A (ov w) (ov w') \<and> list_all2 (ds_after A) (dv w) (dv w') \<and> list_all2 (sn_after A) (sv w) (sv w')"

lemma store_after_trans:
  assumes "store_after ov dv sv A w w1" "store_after ov dv sv B w1 w2"
  shows "store_after ov dv sv (A \<union> B) w w2"
proof -
  have "list_all2 (ds_after (A \<union> B)) (dv w) (dv w2)"
    by (rule list_all2_trans [of "ds_after A" "ds_after B" _ _ "dv w1"]) (use assms ds_after_trans in \<open>auto simp: store_after_def\<close>)
  moreover have "list_all2 (sn_after (A \<union> B)) (sv w) (sv w2)"
    by (rule list_all2_trans [of "sn_after A" "sn_after B" _ _ "sv w1"]) (use assms sn_after_trans in \<open>auto simp: store_after_def\<close>)
  ultimately show ?thesis using assms objs_after_trans unfolding store_after_def by blast
qed

context migrate_store
begin

lemma stamp_dataset_after:
  assumes "ok w" "mk_StampDataset c (act_Target a) (act_At a) w = (w', None)" "act_Kind a = ActStampDataset"
  shows "ok w' \<and> ov w' = ov w \<and> sv w' = sv w \<and> list_all2 (ds_after {a}) (dv w) (dv w')"
proof -
  obtain w1 d where g: "get_ZfsDataset c (act_Target a) w = (w1, Inr d)" using assms(2) by (auto simp: mk_StampDataset_def split: prod.splits sum.splits)
  note s = get_dataset [OF assms(1) g]
  have dist: "distinct (map (\<lambda>d. om_Name (zd_Meta d)) (dv w))" using distinct_names [OF assms(1)] by blast
  show ?thesis
  proof (cases "zdst_ProvisionedAt (zd_Status d) = None")
    case False
    have "list_all2 (ds_after {a}) (dv w) (dv w)"
      by (rule list_all2_unwritten [OF dist]) (use s False in \<open>auto simp: ds_after_def\<close>)
    then show ?thesis using assms(2) g s False by (auto simp: mk_StampDataset_def)
  next
    case True
    let ?d = "d\<lparr>zd_Status := (zd_Status d)\<lparr>zdst_ProvisionedAt := Some (act_At a)\<rparr>\<rparr>"
    have u: "update_status_ZfsDataset c ?d w1 = (w', None)" using assms(2) g True by (simp add: mk_StampDataset_def)
    have "list_all2 (ds_after {a}) (dv w) (map (\<lambda>x. if om_Name (zd_Meta x) = om_Name (zd_Meta d) then x\<lparr>zd_Status := zd_Status ?d\<rparr> else x) (dv w))"
      by (rule list_all2_write [OF dist]) (use s in \<open>auto simp: ds_after_def\<close>)
    then show ?thesis using status_dataset [OF _ u] s by auto
  qed
qed

lemma stamp_snapshot_after:
  assumes "ok w" "mk_StampSnapshot c (act_Target a) (act_At a) w = (w', None)" "act_Kind a = ActStampSnapshot"
  shows "ok w' \<and> ov w' = ov w \<and> dv w' = dv w \<and> list_all2 (sn_after {a}) (sv w) (sv w')"
proof -
  obtain w1 d where g: "get_ZfsSnapshot c (act_Target a) w = (w1, Inr d)" using assms(2) by (auto simp: mk_StampSnapshot_def split: prod.splits sum.splits)
  note s = get_snapshot [OF assms(1) g]
  have dist: "distinct (map (\<lambda>d. om_Name (zs_Meta d)) (sv w))" using distinct_names [OF assms(1)] by blast
  have refl: "sn_after {a} x x" if "om_Name (zs_Meta x) \<noteq> act_Target a \<or> zsst_ProvisionedAt (zs_Status x) \<noteq> None" for x
    using that assms(3) by (auto simp: sn_after_def intro: spec_self)
  show ?thesis
  proof (cases "zsst_ProvisionedAt (zs_Status d) = None")
    case False
    have "list_all2 (sn_after {a}) (sv w) (sv w)"
      by (rule list_all2_unwritten [OF dist]) (use s False refl in auto)
    then show ?thesis using assms(2) g s False by (auto simp: mk_StampSnapshot_def)
  next
    case True
    let ?d = "d\<lparr>zs_Status := (zs_Status d)\<lparr>zsst_ProvisionedAt := Some (act_At a)\<rparr>\<rparr>"
    have u: "update_status_ZfsSnapshot c ?d w1 = (w', None)" using assms(2) g True by (simp add: mk_StampSnapshot_def)
    have "sn_after {a} d (d\<lparr>zs_Status := zs_Status ?d\<rparr>)"
      using assms(3) by (auto simp: sn_after_def intro: spec_self)
    then have "list_all2 (sn_after {a}) (sv w) (map (\<lambda>x. if om_Name (zs_Meta x) = om_Name (zs_Meta d) then x\<lparr>zs_Status := zs_Status ?d\<rparr> else x) (sv w))"
      by (intro list_all2_write [OF dist]) (use s refl in auto)
    then show ?thesis using status_snapshot [OF _ u] s by auto
  qed
qed

lemma source_type_after:
  assumes "ok w" "mk_SetSourceType c (act_Target a) (act_Value a) w = (w', None)" "act_Kind a = ActSnapshotSourceType"
  shows "ok w' \<and> ov w' = ov w \<and> dv w' = dv w \<and> list_all2 (sn_after {a}) (sv w) (sv w')"
proof -
  obtain w1 d where g: "get_ZfsSnapshot c (act_Target a) w = (w1, Inr d)" using assms(2) by (auto simp: mk_SetSourceType_def split: prod.splits sum.splits)
  note s = get_snapshot [OF assms(1) g]
  have dist: "distinct (map (\<lambda>d. om_Name (zs_Meta d)) (sv w))" using distinct_names [OF assms(1)] by blast
  have refl: "sn_after {a} x x" if "om_Name (zs_Meta x) \<noteq> act_Target a \<or> zss_SourceType (zs_Spec x) \<noteq> ''''" for x
    using that assms(3) by (auto simp: sn_after_def intro: spec_self)
  show ?thesis
  proof (cases "zss_SourceType (zs_Spec d) = ''''")
    case False
    have "list_all2 (sn_after {a}) (sv w) (sv w)"
      by (rule list_all2_unwritten [OF dist]) (use s False refl in auto)
    then show ?thesis using assms(2) g s False by (auto simp: mk_SetSourceType_def)
  next
    case True
    let ?d = "d\<lparr>zs_Spec := (zs_Spec d)\<lparr>zss_SourceType := act_Value a\<rparr>\<rparr>"
    have u: "mc_update_ZfsSnapshot c ?d w1 = (w', None)" using assms(2) g True by (simp add: mk_SetSourceType_def)
    have "sn_after {a} d (d\<lparr>zs_Spec := zs_Spec ?d\<rparr>)" using assms(3) True by (auto simp: sn_after_def)
    then have "list_all2 (sn_after {a}) (sv w) (map (\<lambda>x. if om_Name (zs_Meta x) = om_Name (zs_Meta d) then x\<lparr>zs_Spec := zs_Spec ?d\<rparr> else x) (sv w))"
      by (intro list_all2_write [OF dist]) (use s refl in auto)
    then show ?thesis using update_snapshot [OF _ u] s by auto
  qed
qed

lemma perform_after:
  assumes "ok w" "perform be (migrate_kube c) a w = (w', None)"
    "act_Kind a = ActSet \<Longrightarrow> act_Prop a \<in> {PropRole, PropOwner} \<and> plain_label (act_Value a) \<and> act_Value a \<noteq> ''''"
  shows "ok w' \<and> store_after ov dv sv {a} w w'"
proof -
  consider "act_Kind a = ActSet" | "act_Kind a = ActDestroyDeferred" | "act_Kind a = ActStampDataset" | "act_Kind a = ActStampSnapshot"
    | "act_Kind a = ActSnapshotSourceType" | "act_Kind a \<notin> {ActSet, ActDestroyDeferred, ActStampDataset, ActStampSnapshot, ActSnapshotSourceType}"
    by blast
  then show ?thesis
  proof cases
    case 1
    then have "be_Set be (act_Target a) (act_Prop a) (act_Value a) w = (w', None)" using assms(2) by (simp add: perform_def)
    then show ?thesis using set_law [OF assms(1)] assms(3) [OF 1] 1
      by (simp add: store_after_def objs_after_relabel ds_after_same sn_after_same)
  next
    case 2
    then have "be_DestroyDeferred be (act_Target a) w = (w', None)" using assms(2) by (simp add: perform_def)
    then show ?thesis using destroy_law [OF assms(1)] 2
      by (simp add: store_after_def objs_after_destroy ds_after_same sn_after_same)
  next
    case 3
    then have "mk_StampDataset c (act_Target a) (act_At a) w = (w', None)" using assms(2) by (simp add: perform_def migrate_kube_def)
    from stamp_dataset_after [OF assms(1) this 3] 3 show ?thesis by (simp add: store_after_def objs_after_same sn_after_same)
  next
    case 4
    then have "mk_StampSnapshot c (act_Target a) (act_At a) w = (w', None)" using assms(2) by (simp add: perform_def migrate_kube_def)
    from stamp_snapshot_after [OF assms(1) this 4] 4 show ?thesis by (simp add: store_after_def objs_after_same ds_after_same)
  next
    case 5
    then have "mk_SetSourceType c (act_Target a) (act_Value a) w = (w', None)" using assms(2) by (simp add: perform_def migrate_kube_def)
    from source_type_after [OF assms(1) this 5] 5 show ?thesis by (simp add: store_after_def objs_after_same ds_after_same)
  next
    case 6
    then show ?thesis using assms(1,2) by (simp add: perform_def store_after_def objs_after_same ds_after_same sn_after_same)
  qed
qed

lemma Apply_after:
  assumes "ok w" "Apply as be (migrate_kube c) w = (w', None)"
    "\<forall>a \<in> set as. act_Kind a = ActSet \<longrightarrow> act_Prop a \<in> {PropRole, PropOwner} \<and> plain_label (act_Value a) \<and> act_Value a \<noteq> ''''"
  shows "ok w' \<and> store_after ov dv sv (set as) w w'"
  using assms
proof (induction as arbitrary: w)
  case Nil
  have "list_all2 (ds_after {}) (dv w) (dv w)" by (rule list.rel_refl) (simp add: ds_after_def)
  moreover have "list_all2 (sn_after {}) (sv w) (sv w)" by (rule list.rel_refl) (auto simp: sn_after_def intro: spec_self)
  moreover have "objs_after {} (ov w) (ov w)" by (auto simp: objs_after_def obj_after_def sets_def destroyed_def)
  ultimately show ?case using Nil by (simp add: store_after_def)
next
  case (Cons a as)
  obtain w1 where p: "perform be (migrate_kube c) a w = (w1, None)" "Apply as be (migrate_kube c) w1 = (w', None)"
    using Cons.prems(2) by (auto split: prod.splits option.splits)
  have a: "ok w1 \<and> store_after ov dv sv {a} w w1" using perform_after [OF Cons.prems(1) p(1)] Cons.prems(3) by simp
  then have "ok w' \<and> store_after ov dv sv (set as) w1 w'" using Cons.IH [OF _ p(2)] Cons.prems(3) by simp
  then show ?case using a store_after_trans [of ov dv sv "{a}" w w1 "set as" w'] by simp
qed

end

end
