(* ===== verification/MigrateClean.thy ===== *)
theory MigrateClean
  imports MigrateStore
begin

text \<open>
  The audit after a migration. An audit without blockers whose actions were all made is followed by an audit that finds
  nothing left to do.
\<close>

subsection \<open>What the second audit sees\<close>

lemma name_determines:
  assumes "obj_Name y = obj_Name x"
  shows "obj_Short y = obj_Short x" "obj_IsSnapshot y = obj_IsSnapshot x" "obj_Dataset y = obj_Dataset x"
  using assms by (simp_all add: obj_Short_def obj_IsSnapshot_def obj_Dataset_def)

lemma listed_after: "objs_after A os os' \<Longrightarrow> listed os' n \<Longrightarrow> listed os n"
  using objs_afterD obj_after_name unfolding listed_def by fastforce

lemma listed_kept:
  assumes "objs_after A os os'" "listed os n" "n \<notin> destroyed A"
  shows "listed os' n"
proof -
  obtain x where x: "x \<in> set os" "obj_Name x = n" using assms(2) by (auto simp: listed_def)
  then obtain y where "y \<in> set os'" "obj_Name y = n" using objs_after_kept [OF assms(1) x(1)] assms(3) by auto
  then show ?thesis by (auto simp: listed_def)
qed

lemma short_after:
  assumes "objs_after A os os'" "y \<in> set (snapsByShort os' s)"
  obtains x where "x \<in> set (snapsByShort os s)" "obj_after A x y"
proof -
  from assms(2) have y: "y \<in> set os'" "obj_IsSnapshot y" "obj_Short y = s" by (simp_all add: snapsByShort_iff)
  then obtain x where x: "x \<in> set os" "obj_after A x y" using objs_afterD [OF assms(1)] by blast
  from name_determines [OF obj_after_name [OF x(2)]] show ?thesis using that x y by (simp add: snapsByShort_iff)
qed

lemma short_name_after:
  assumes "objs_after A os os'" "y \<in> set (snapsByShort os' s)"
  shows "obj_Name y \<in> obj_Name ` set (snapsByShort os s)"
proof -
  obtain x where "x \<in> set (snapsByShort os s)" "obj_after A x y" using short_after [OF assms] by blast
  then show ?thesis using obj_after_name by (metis imageI)
qed

lemma in_set_rel2: "list_all2 R xs ys \<Longrightarrow> y \<in> set ys \<Longrightarrow> \<exists>x \<in> set xs. R x y"
  by (metis in_set_conv_nth list_all2_conv_all_nth)

lemma length_short_after:
  assumes "objs_after A os os'" "distinct (map obj_Name os)" "distinct (map obj_Name os')"
  shows "length (snapsByShort os' s) \<le> length (snapsByShort os s)"
proof -
  have d: "distinct (map obj_Name (snapsByShort os s))" "distinct (map obj_Name (snapsByShort os' s))"
    using assms(2,3) by (simp_all add: snapsByShort_def distinct_map_filter)
  have "set (map obj_Name (snapsByShort os' s)) \<subseteq> set (map obj_Name (snapsByShort os s))"
    using short_name_after [OF assms(1)] by auto
  from card_mono [OF _ this] show ?thesis using distinct_card [OF d(1)] distinct_card [OF d(2)] by simp
qed

lemma datasetCR_after:
  assumes "list_all2 (ds_after A) (in_Datasets i1) (in_Datasets i2)"
  shows "rel_option (ds_after A) (map_of (datasetCR i1) v) (map_of (datasetCR i2) v)"
proof -
  have "rel_option (ds_after A) (map_of (fold (\<lambda>d. AList.update (om_Name (zd_Meta d)) d) ds m) v)
      (map_of (fold (\<lambda>d. AList.update (om_Name (zd_Meta d)) d) ds' m') v)"
    if "list_all2 (ds_after A) ds ds'" "\<And>v. rel_option (ds_after A) (map_of m v) (map_of m' v)" for ds ds' m m'
    using that
  proof (induction ds ds' arbitrary: m m' rule: list_all2_induct)
    case (Cons d ds d' ds')
    have "om_Name (zd_Meta d') = om_Name (zd_Meta d)" using Cons.hyps(1) by (simp add: ds_after_def)
    then show ?case using Cons.IH [of "AList.update (om_Name (zd_Meta d)) d m" "AList.update (om_Name (zd_Meta d)) d' m'"] Cons.hyps(1) Cons.prems
      by simp
  qed simp
  from this [OF assms, of "[]" "[]"] show ?thesis by (simp add: datasetCR_def)
qed

lemma source_cr_after:
  assumes "list_all2 (ds_after A) (in_Datasets i1) (in_Datasets i2)" "sn_after A s s'"
  shows "rel_option (ds_after A) (source_cr i1 s) (source_cr i2 s')"
proof -
  have "zss_SourceVolume (zs_Spec s') = zss_SourceVolume (zs_Spec s)" using assms(2) by (auto simp: sn_after_def)
  then show ?thesis using datasetCR_after [OF assms(1)] by (simp add: source_cr_def Let_def)
qed

lemma backing_of_after:
  assumes "list_all2 (ds_after A) (in_Datasets i1) (in_Datasets i2)" "sn_after A s s'"
  shows "backing_of i2 pool s' = backing_of i1 pool s"
proof -
  have "zss_Dataset (zs_Spec s') = zss_Dataset (zs_Spec s)" "zss_SnapshotName (zs_Spec s') = zss_SnapshotName (zs_Spec s)"
    using assms(2) by (auto simp: sn_after_def)
  moreover have "(case source_cr i2 s' of None \<Rightarrow> zss_Dataset (zs_Spec s) | Some cr \<Rightarrow> zds_Dataset (zd_Spec cr)) =
      (case source_cr i1 s of None \<Rightarrow> zss_Dataset (zs_Spec s) | Some cr \<Rightarrow> zds_Dataset (zd_Spec cr))"
    using source_cr_after [OF assms] by (cases "source_cr i1 s"; cases "source_cr i2 s'") (auto simp: ds_after_def)
  ultimately show ?thesis by (simp add: backing_of_def cong: option.case_cong)
qed

subsection \<open>Claims of the second audit\<close>

lemma ds_claims_after:
  assumes "in_Pools i2 = in_Pools i1" "objs_after A os os'" "ds_after A d d'"
  shows "ds_claims i2 os' d' \<subseteq> ds_claims i1 os d"
proof -
  have same: "zd_Meta d' = zd_Meta d" "zd_Spec d' = zd_Spec d" "poolOf i2 = poolOf i1" using assms(1,3) by (auto simp: ds_after_def poolOf_def fun_eq_iff)
  have "obj_Name y \<in> obj_Name ` set (snapsByShort os s)" if "y \<in> set (snapsByShort os' s)" for y s
    by (rule short_name_after [OF assms(2) that])
  then show ?thesis using same listed_after [OF assms(2)]
    by (auto simp: ds_claims_def full_path_def image_iff split: option.splits)
qed

lemma sn_claims_after:
  assumes "in_Pools i2 = in_Pools i1" "objs_after A os os'" "distinct (map obj_Name os)" "distinct (map obj_Name os')"
    "list_all2 (ds_after A) (in_Datasets i1) (in_Datasets i2)" "sn_after A s s'" "sn_ok i1 os s"
  shows "sn_claims i2 os' s' \<subseteq> sn_claims i1 os s"
proof -
  have same: "zs_Meta s' = zs_Meta s" "zss_PoolGUID (zs_Spec s') = zss_PoolGUID (zs_Spec s)"
    "zss_SnapshotName (zs_Spec s') = zss_SnapshotName (zs_Spec s)" "poolOf i2 = poolOf i1"
    using assms(1,6) by (auto simp: sn_after_def poolOf_def fun_eq_iff)
  let ?n = "zss_SnapshotName (zs_Spec s)"
  have raw: "raw_claim os' s' \<subseteq> raw_claim os s" if "length (snapsByShort os ?n) \<le> 1"
  proof (cases "snapsByShort os' ?n")
    case (Cons y ys)
    then have "y \<in> set (snapsByShort os' ?n)" by simp
    then obtain x where x: "x \<in> set (snapsByShort os ?n)" "obj_after A x y" by (rule short_after [OF assms(2)])
    then have "snapsByShort os ?n = [x]" using that by (cases "snapsByShort os ?n") auto
    moreover have "ys = []" using le_trans [OF length_short_after [OF assms(2-4), of ?n] that] Cons by simp
    ultimately show ?thesis using Cons same obj_after_name [OF x(2)] by (simp add: raw_claim_def)
  qed (simp add: raw_claim_def same)
  have backing: "backing_claim i2 os' pool s' \<subseteq> backing_claim i1 os pool s" for pool
    using backing_of_after [OF assms(5,6)] listed_after [OF assms(2)] same by (auto simp: backing_claim_def)
  show ?thesis
  proof (cases "poolOf i1 (zss_PoolGUID (zs_Spec s))")
    case (Some pool)
    then have "length (snapsByShort os ?n) \<le> 1" using assms(7) by (simp add: sn_ok_def)
    then show ?thesis using raw backing [of pool] Some same by (auto simp: sn_claims_def)
  qed (simp add: sn_claims_def same)
qed

lemma all_claims_after:
  assumes "in_Pools i2 = in_Pools i1" "objs_after A os os'" "distinct (map obj_Name os)" "distinct (map obj_Name os')"
    "list_all2 (ds_after A) (in_Datasets i1) (in_Datasets i2)" "list_all2 (sn_after A) (in_Snapshots i1) (in_Snapshots i2)"
    "\<forall>s \<in> set (in_Snapshots i1). sn_ok i1 os s"
  shows "all_claims i2 os' \<subseteq> all_claims i1 os"
proof
  fix t
  assume "t \<in> all_claims i2 os'"
  then consider d' where "d' \<in> set (in_Datasets i2)" "t \<in> ds_claims i2 os' d'" | s' where "s' \<in> set (in_Snapshots i2)" "t \<in> sn_claims i2 os' s'"
    unfolding all_claims_def by blast
  then show "t \<in> all_claims i1 os"
  proof cases
    case 1
    then obtain d where "d \<in> set (in_Datasets i1)" "ds_after A d d'" using in_set_rel2 [OF assms(5) 1(1)] by blast
    then show ?thesis using 1 ds_claims_after [OF assms(1,2)] unfolding all_claims_def by blast
  next
    case 2
    then obtain s where "s \<in> set (in_Snapshots i1)" "sn_after A s s'" using in_set_rel2 [OF assms(6) 2(1)] by blast
    then show ?thesis using 2 sn_claims_after [OF assms(1-5)] assms(7) unfolding all_claims_def by blast
  qed
qed

text \<open>Volumes and backing clones stay claimed: only snapshots are destroyed.\<close>

lemma dataset_claims_kept:
  assumes "in_Pools i2 = in_Pools i1" "objs_after A os os'" "list_all2 (ds_after A) (in_Datasets i1) (in_Datasets i2)"
    "list_all2 (sn_after A) (in_Snapshots i1) (in_Snapshots i2)" "n \<notin> destroyed A" "r \<in> {RoleVolume, RoleBacking}"
    "(n, r, u) \<in> all_claims i1 os"
  shows "(n, r, u) \<in> all_claims i2 os'"
proof -
  have pools: "poolOf i2 = poolOf i1" using assms(1) by (simp add: poolOf_def fun_eq_iff)
  consider d where "d \<in> set (in_Datasets i1)" "(n, r, u) \<in> ds_claims i1 os d" | s where "s \<in> set (in_Snapshots i1)" "(n, r, u) \<in> sn_claims i1 os s"
    using assms(7) unfolding all_claims_def by blast
  then show ?thesis
  proof cases
    case 1
    then obtain d' where d': "d' \<in> set (in_Datasets i2)" "ds_after A d d'" using in_set_rel2 [of "\<lambda>x y. ds_after A y x" "in_Datasets i2"] assms(3)
      by (metis list_all2_conv_all_nth in_set_conv_nth)
    then have "zd_Meta d' = zd_Meta d" "zd_Spec d' = zd_Spec d" by (auto simp: ds_after_def)
    then have "(n, r, u) \<in> ds_claims i2 os' d'" using 1(2) assms(6) pools listed_kept [OF assms(2) _ assms(5)]
      by (auto simp: ds_claims_def full_path_def split: option.splits if_splits)
    then show ?thesis using d'(1) unfolding all_claims_def by blast
  next
    case 2
    then obtain s' where s': "s' \<in> set (in_Snapshots i2)" "sn_after A s s'" using assms(4)
      by (metis list_all2_conv_all_nth in_set_conv_nth)
    obtain pool where pool: "poolOf i1 (zss_PoolGUID (zs_Spec s)) = Some pool" using 2(2) by (auto simp: sn_claims_def split: option.splits)
    have "(n, r, u) \<notin> raw_claim os s" using assms(6) by (auto simp: raw_claim_def split: list.splits)
    then have b: "(n, r, u) \<in> backing_claim i1 os pool s" using 2(2) pool by (auto simp: sn_claims_def)
    then have "(n, r, u) \<in> backing_claim i2 os' pool s'"
      using listed_kept [OF assms(2) _ assms(5)] backing_of_after [OF assms(3) s'(2)] s'(2)
      by (auto simp: backing_claim_def sn_after_def split: if_splits)
    moreover have "zss_PoolGUID (zs_Spec s') = zss_PoolGUID (zs_Spec s)" using s'(2) by (auto simp: sn_after_def)
    ultimately show ?thesis using s'(1) pool pools unfolding all_claims_def by (force simp: sn_claims_def)
  qed
qed

subsection \<open>The second audit\<close>

text \<open>What an object that was audited carries after the actions of the plan.\<close>

lemma label_after:
  assumes A: "A = all_acts inp os now claims" and c: "map_of claims (obj_Name x) = Some c" "label_ok os (obj_Name x, c)"
    and x: "x \<in> set os" "distinct (map obj_Name os)" "obj_after A x y" and p: "p \<in> {PropRole, PropOwner}"
  shows "label p y = wanted c p"
proof -
  have "listed os (obj_Name x)" using x(1) by (auto simp: listed_def)
  from obj_at_listed [OF this] have at: "obj_at os (obj_Name x) = x" using x(1,2) by (simp add: distinct_map inj_on_def)
  have ok: "label p x = '''' \<or> label p x = wanted c p" using c(2) p at unfolding label_ok_def by fastforce
  show ?thesis
  proof (cases "label p y \<in> sets A (obj_Name x) p")
    case True
    then obtain a where a: "a \<in> A" "act_Kind a = ActSet" "act_Target a = obj_Name x" "act_Prop a = p" "act_Value a = label p y" by (auto simp: sets_def)
    from all_acts_Set [OF a(1) [unfolded A] a(2)] obtain c' where "map_of claims (obj_Name x) = Some c'" "label p y = wanted c' p" using a by metis
    then show ?thesis using c(1) by simp
  next
    case False
    then have same: "label p y = label p x" "sets A (obj_Name x) p = {}" using obj_after_label [OF x(3) p] by blast+
    have "label_act os (obj_Name x, c) p = []"
    proof (rule ccontr)
      assume n: "label_act os (obj_Name x, c) p \<noteq> []"
      then obtain a where a: "label_act os (obj_Name x, c) p = [a]" "act_Kind a = ActSet" "act_Target a = obj_Name x" "act_Prop a = p"
        by (auto simp: label_act_def split: if_splits)
      have "(obj_Name x, c) \<in> set (claim_list claims)" using c(1) by (simp add: set_claim_list)
      then have "a \<in> A" using a(1) p unfolding A all_acts_def by fastforce
      then show False using same(2) a by (auto simp: sets_def)
    qed
    then show ?thesis using same(1) ok at by (auto simp: label_act_def split: if_splits)
  qed
qed

lemma ds_acts_after:
  assumes "in_Pools i2 = in_Pools i1" "objs_after A os os'" "ds_after A d d'" "set (ds_acts i1 os now d) \<subseteq> A"
  shows "ds_acts i2 os' now' d' = []"
proof (rule ccontr)
  assume n: "ds_acts i2 os' now' d' \<noteq> []"
  have same: "zd_Meta d' = zd_Meta d" "zd_Spec d' = zd_Spec d" "zdst_Phase (zd_Status d') = zdst_Phase (zd_Status d)" "poolOf i2 = poolOf i1"
    using assms(1,3) by (auto simp: ds_after_def poolOf_def fun_eq_iff)
  from n obtain pool where p: "poolOf i1 (zds_PoolGUID (zd_Spec d)) = Some pool" "listed os' (full_path pool d)" "zdst_ProvisionedAt (zd_Status d') = None"
    "settled (zdst_Phase (zd_Status d)) [DatasetPhaseReady, DatasetPhaseLost]"
    using same by (auto simp: ds_acts_def full_path_def split: option.splits if_splits)
  have none: "zdst_ProvisionedAt (zd_Status d) = None" "\<forall>a \<in> A. \<not> (act_Kind a = ActStampDataset \<and> act_Target a = om_Name (zd_Meta d))"
    using assms(3) p(3) by (auto simp: ds_after_def)
  have "stamp ActStampDataset (om_Name (zd_Meta d)) (provisionedTime (zdst_Conditions (zd_Status d)) now) \<in> A"
    using assms(4) p none(1) listed_after [OF assms(2) p(2)] by (simp add: ds_acts_def)
  then show False using none(2) by force
qed

lemma sn_acts_after:
  assumes "in_Pools i2 = in_Pools i1" "list_all2 (ds_after A) (in_Datasets i1) (in_Datasets i2)" "sn_after A s s'"
    "set (sn_acts i1 now s) \<subseteq> A" "sn_ok i1 os s" "\<And>d. source_cr i1 s = Some d \<Longrightarrow> zds_Type (zd_Spec d) \<noteq> ''''"
  shows "sn_acts i2 now' s' = [] \<and> (poolOf i2 (zss_PoolGUID (zs_Spec s')) \<noteq> None \<longrightarrow> zss_SourceType (zs_Spec s') \<noteq> '''')"
proof (cases "poolOf i1 (zss_PoolGUID (zs_Spec s))")
  case None
  then show ?thesis using assms(1,3) by (auto simp: sn_acts_def sn_after_def poolOf_def)
next
  case (Some pool)
  have same: "zs_Meta s' = zs_Meta s" "zsst_Phase (zs_Status s') = zsst_Phase (zs_Status s)" using assms(3) by (auto simp: sn_after_def)
  have A: "set (stamp_acts now s) \<subseteq> A" "set (type_acts i1 s) \<subseteq> A" using assms(4) Some by (simp_all add: sn_acts_def)
  have "stamp_acts now' s' = []"
  proof (rule ccontr)
    assume "stamp_acts now' s' \<noteq> []"
    then have p: "zsst_ProvisionedAt (zs_Status s') = None" "settled (zsst_Phase (zs_Status s)) [SnapshotPhaseReady, SnapshotPhaseLost]"
      using same by (auto simp: stamp_acts_def split: if_splits)
    then have none: "zsst_ProvisionedAt (zs_Status s) = None" "\<forall>a \<in> A. \<not> (act_Kind a = ActStampSnapshot \<and> act_Target a = om_Name (zs_Meta s))"
      using assms(3) by (auto simp: sn_after_def)
    then have "stamp ActStampSnapshot (om_Name (zs_Meta s)) (provisionedTime (zsst_Conditions (zs_Status s)) now) \<in> A"
      using A(1) p(2) by (simp add: stamp_acts_def)
    then show False using none(2) by force
  qed
  moreover have t: "zss_SourceType (zs_Spec s') \<noteq> ''''"
  proof
    assume "zss_SourceType (zs_Spec s') = ''''"
    then have none: "zss_SourceType (zs_Spec s) = ''''"
      "\<forall>a \<in> A. \<not> (act_Kind a = ActSnapshotSourceType \<and> act_Target a = om_Name (zs_Meta s) \<and> act_Value a \<noteq> '''')"
      using assms(3) by (auto simp: sn_after_def)
    obtain cr where cr: "source_cr i1 s = Some cr" using assms(5) Some none(1) by (auto simp: sn_ok_def)
    then show False using A(2) none assms(6) [OF cr] by (auto simp: type_acts_def)
  qed
  ultimately show ?thesis by (auto simp: sn_acts_def type_acts_def split: option.splits)
qed

lemma source_cr_in: "source_cr inp s = Some d \<Longrightarrow> d \<in> set (in_Datasets inp)"
proof -
  have "map_of (fold (\<lambda>d. AList.update (om_Name (zd_Meta d)) d) ds m) v = Some d \<Longrightarrow> map_of m v = Some d \<or> d \<in> set ds" for ds m v
    by (induction ds arbitrary: m) (fastforce split: if_splits)+
  from this [of "in_Datasets inp" "[]"] show "source_cr inp s = Some d \<Longrightarrow> ?thesis"
    by (auto simp: source_cr_def datasetCR_def Let_def split: if_splits)
qed

lemma snapshots_after:
  assumes pools: "in_Pools i2 = in_Pools i1" and after: "objs_after A os os'" "distinct (map obj_Name os)" "distinct (map obj_Name os')"
    and ds: "list_all2 (ds_after A) (in_Datasets i1) (in_Datasets i2)" and s: "sn_after A s s'" "sn_ok i1 os s" "set (sn_acts i1 now s) \<subseteq> A"
    and typed: "\<And>d. d \<in> set (in_Datasets i1) \<Longrightarrow> zds_Type (zd_Spec d) \<noteq> ''''"
  shows "sn_acts i2 now' s' = []" "sn_ok i2 os' s'"
proof -
  have a: "sn_acts i2 now' s' = []" "poolOf i2 (zss_PoolGUID (zs_Spec s')) \<noteq> None \<longrightarrow> zss_SourceType (zs_Spec s') \<noteq> ''''"
    using sn_acts_after [OF pools ds s(1,3,2)] typed source_cr_in by blast+
  have "length (snapsByShort os' (zss_SnapshotName (zs_Spec s'))) \<le> 1" if "poolOf i2 (zss_PoolGUID (zs_Spec s')) \<noteq> None"
  proof -
    have "length (snapsByShort os (zss_SnapshotName (zs_Spec s))) \<le> 1"
      using s(1,2) that pools by (auto simp: sn_ok_def sn_after_def poolOf_def split: option.splits)
    then show ?thesis using le_trans [OF length_short_after [OF after]] s(1) by (auto simp: sn_after_def)
  qed
  then show "sn_ok i2 os' s'" using a by (auto simp: sn_ok_def split: option.splits)
  show "sn_acts i2 now' s' = []" by (rule a)
qed

lemma destroyed_snapshot:
  assumes "n \<in> destroyed (all_acts inp os now claims)"
  shows "CHR ''@'' \<in> set n"
proof -
  obtain a where a: "a \<in> all_acts inp os now claims" "act_Kind a = ActDestroyDeferred" "act_Target a = n" using assms by (auto simp: destroyed_def)
  then obtain o' where "o' \<in> set (snapsByShort os RestoreSourceSnapshot)" "n = obj_Name o'" using all_acts_Destroy [OF a(1,2)] by metis
  then show ?thesis by (simp add: snapsByShort_iff obj_IsSnapshot_def)
qed

lemma restore_after:
  assumes A: "A = all_acts i1 os now claims" and pools: "in_Pools i2 = in_Pools i1" and after: "objs_after A os os'"
    and ds: "list_all2 (ds_after A) (in_Datasets i1) (in_Datasets i2)" and sn: "list_all2 (sn_after A) (in_Snapshots i1) (in_Snapshots i2)"
    and der: "derived claims = all_claims i1 os" "derived claims2 = all_claims i2 os'"
    and ok: "objects_ok os claims" and y: "y \<in> set (snapsByShort os' RestoreSourceSnapshot)"
  shows "restore_ok claims2 y \<and> obj_Deferred y"
proof -
  obtain x where x: "x \<in> set (snapsByShort os RestoreSourceSnapshot)" "obj_after A x y" by (rule short_after [OF after y])
  have rest: "restore_ok claims x" using ok x(1) unfolding objects_ok_def by blast
  have "obj_Name x \<in> destroyed A" if "\<not> obj_Deferred x"
    using that x(1) rest unfolding A all_acts_def destroyed_def by (force simp: restore_acts_def)
  then have "obj_Deferred y" using obj_after_deferred [OF x(2)] by blast
  have "CHR ''@'' \<notin> set (obj_Dataset x)" by (auto simp: obj_Dataset_def before_def dest: set_takeWhileD)
  then have keep: "obj_Dataset x \<notin> destroyed A" using destroyed_snapshot unfolding A by blast
  obtain u r where u: "r \<in> {RoleVolume, RoleBacking}" "(obj_Dataset x, r, u) \<in> all_claims i1 os" using rest der(1) unfolding restore_ok_def by blast
  then have "(obj_Dataset x, r, u) \<in> derived claims2" unfolding der(2) by (rule dataset_claims_kept [OF pools after ds sn keep])
  moreover have "obj_Dataset y = obj_Dataset x" using name_determines(3) [OF obj_after_name [OF x(2)]] .
  ultimately have "restore_ok claims2 y" using u(1) unfolding restore_ok_def by auto
  then show ?thesis using \<open>obj_Deferred y\<close> by blast
qed

lemma labels_after:
  assumes A: "A = all_acts i1 os now claims" and after: "objs_after A os os'" "distinct (map obj_Name os)"
    and der: "derived claims = all_claims i1 os" "derived claims2 \<subseteq> all_claims i2 os'" "all_claims i2 os' \<subseteq> all_claims i1 os"
    and ok: "objects_ok os claims" and m: "(n, c2) \<in> set (claim_list claims2)" and p: "p \<in> {PropRole, PropOwner}"
  shows "label p (obj_at os' n) = wanted c2 p"
proof -
  have d: "(n, cl_role c2, cl_owner c2) \<in> all_claims i2 os'" using m der(2) by (auto simp: set_claim_list derived_iff)
  have y: "obj_at os' n \<in> set os'" "obj_Name (obj_at os' n) = n" using obj_at_listed [OF claims_listed [OF d]] by blast+
  obtain x where x: "x \<in> set os" "obj_after A x (obj_at os' n)" using objs_afterD [OF after(1) y(1)] by blast
  have nx: "obj_Name x = n" using obj_after_name [OF x(2)] y(2) by simp
  have "(n, cl_role c2, cl_owner c2) \<in> derived claims" using d der(1,3) by blast
  then obtain c1 where c1: "map_of claims n = Some c1" "cl_role c1 = cl_role c2" "cl_owner c1 = cl_owner c2" unfolding derived_iff by blast
  have "label_ok os (n, c1)" using ok c1(1) unfolding objects_ok_def by (simp add: set_claim_list)
  from label_after [OF A _ _ x(1) after(2) x(2) p, of c1] this nx c1 show ?thesis by (simp add: wanted_def)
qed

lemma second_audit:
  assumes pools: "in_Pools i2 = in_Pools i1" and plan: "plan = audit i1 rl os now p0" "Blockers plan = []" "Actions p0 = []"
    and after: "objs_after (set (Actions plan)) os os'" "distinct (map obj_Name os)" "distinct (map obj_Name os')"
    and ds: "list_all2 (ds_after (set (Actions plan))) (in_Datasets i1) (in_Datasets i2)"
    and sn: "list_all2 (sn_after (set (Actions plan))) (in_Snapshots i1) (in_Snapshots i2)"
    and typed: "\<And>d. d \<in> set (in_Datasets i1) \<Longrightarrow> zds_Type (zd_Spec d) \<noteq> ''''"
  shows "Clean (audit i2 rl' os' now' p0)"
proof -
  obtain claims where c: "audited i1 os now p0 claims plan" using audit_result plan(1) by blast
  obtain claims2 where c2: "audited i2 os' now' p0 claims2 (audit i2 rl' os' now' p0)" using audit_result by blast
  define A where "A = all_acts i1 os now claims"
  have A: "set (Actions plan) = A" using c plan(3) by (simp add: A_def audited_def)
  note after = after [unfolded A] and ds = ds [unfolded A] and sn = sn [unfolded A]
  have none: "Blockers p0 = []" and ok: "claims_ok i1 os" "objects_ok os claims" and der: "derived claims = all_claims i1 os"
    using c plan(2) unfolding audited_def by blast+
  have sns: "\<forall>s \<in> set (in_Snapshots i1). sn_ok i1 os s" and con: "consistent (all_claims i1 os)" using ok(1) unfolding claims_ok_def by blast+
  have sub: "all_claims i2 os' \<subseteq> all_claims i1 os" by (rule all_claims_after [OF pools after ds sn sns])
  have snaps: "sn_acts i2 now' s' = []" "sn_ok i2 os' s'" if s': "s' \<in> set (in_Snapshots i2)" for s'
  proof -
    obtain s where s: "s \<in> set (in_Snapshots i1)" "sn_after A s s'" using in_set_rel2 [OF sn s'] by blast
    have "set (sn_acts i1 now s) \<subseteq> A" using s(1) unfolding A_def all_acts_def by blast
    note snapshots_after [OF pools after ds s(2) sns [THEN bspec, OF s(1)] this typed]
    then show "sn_acts i2 now' s' = []" "sn_ok i2 os' s'" by blast+
  qed
  have ok2: "claims_ok i2 os'" using snaps consistent_subset [OF con sub] unfolding claims_ok_def by blast
  have der2: "derived claims2 = all_claims i2 os'" using c2 none ok2 unfolding audited_def by blast
  have restore: "restore_ok claims2 y \<and> obj_Deferred y" if "y \<in> set (snapsByShort os' RestoreSourceSnapshot)" for y
    by (rule restore_after [OF A_def pools after(1) ds sn der der2 ok(2) that])
  have lab: "label p (obj_at os' n) = wanted c2 p" if "(n, c2) \<in> set (claim_list claims2)" "p \<in> {PropRole, PropOwner}" for n c2 p
    by (rule labels_after [OF A_def after(1,2) der _ sub ok(2) that]) (simp add: der2)
  have dsa: "ds_acts i2 os' now' d' = []" if d': "d' \<in> set (in_Datasets i2)" for d'
  proof -
    obtain d where d: "d \<in> set (in_Datasets i1)" "ds_after A d d'" using in_set_rel2 [OF ds d'] by blast
    have "set (ds_acts i1 os now d) \<subseteq> A" using d(1) unfolding A_def all_acts_def by blast
    then show ?thesis by (rule ds_acts_after [OF pools after(1) d(2)])
  qed
  have "objects_ok os' claims2" using restore lab by (auto simp: objects_ok_def label_ok_def)
  moreover have "all_acts i2 os' now' claims2 = {}"
    using dsa snaps restore lab by (auto simp: all_acts_def restore_acts_def label_act_def)
  ultimately show ?thesis using c2 plan(3) none ok2 by (simp add: Clean_def audited_def)
qed

subsection \<open>The program\<close>

lemma raw_claim_whom: "(n, r, u) \<in> raw_claim objs s \<Longrightarrow> r = RoleRaw \<and> u = om_UID (zs_Meta s)"
  by (cases "snapsByShort objs (zss_SnapshotName (zs_Spec s))"; cases "tl (snapsByShort objs (zss_SnapshotName (zs_Spec s)))")
     (auto simp: raw_claim_def)

lemma sn_claims_whom: "(n, r, u) \<in> sn_claims inp objs s \<Longrightarrow> r \<in> {RoleRaw, RoleBacking} \<and> u = om_UID (zs_Meta s)"
  by (auto simp: sn_claims_def backing_claim_def dest: raw_claim_whom split: option.splits if_splits)

lemma ds_claims_whom: "(n, r, u) \<in> ds_claims inp objs d \<Longrightarrow> r \<in> {RoleVolume, RoleCloneOrigin} \<and> u = om_UID (zd_Meta d)"
  by (auto simp: ds_claims_def split: option.splits if_splits)

lemma claims_of_whom:
  assumes "(n, r, u) \<in> all_claims inp objs"
  shows "r \<in> {RoleVolume, RoleCloneOrigin, RoleRaw, RoleBacking}"
    "(\<exists>d \<in> set (in_Datasets inp). u = om_UID (zd_Meta d)) \<or> (\<exists>s \<in> set (in_Snapshots inp). u = om_UID (zs_Meta s))"
  using assms ds_claims_whom sn_claims_whom unfolding all_claims_def by blast+

lemma all_roots_after:
  assumes "in_Pools i2 = in_Pools i1" "list_all2 (ds_after A) (in_Datasets i1) (in_Datasets i2)" "list_all2 (sn_after A) (in_Snapshots i1) (in_Snapshots i2)"
  shows "all_roots i2 = all_roots i1"
proof -
  have p: "add_root i2 = add_root i1" using assms(1) by (simp add: add_root_def poolOf_def fun_eq_iff)
  have f: "fold g xs s = fold g' ys s" if "list_all2 R xs ys" "\<And>x y. R x y \<Longrightarrow> g x = g' y" for R g g' xs ys s
    using that by (induction xs ys arbitrary: s rule: list_all2_induct) auto
  show ?thesis unfolding all_roots_def p
    by (rule f [OF assms(3), symmetric, THEN trans]; (auto simp: sn_after_def)?)
       (rule arg_cong [where f = "fold _ _"], rule f [OF assms(2), symmetric], auto simp: ds_after_def)
qed

lemma objs_after_listing:
  assumes "objs_after A os os'" "set ls = {o' \<in> set os. P (obj_Name o')}" "set ls' = {o' \<in> set os'. P (obj_Name o')}"
  shows "objs_after A ls ls'"
proof -
  have "\<exists>x \<in> set ls. obj_after A x y" if y: "y \<in> set ls'" for y
  proof -
    obtain x where x: "x \<in> set os" "obj_after A x y" using objs_afterD [OF assms(1)] y assms(3) by blast
    then show ?thesis using y assms(2,3) obj_after_name [OF x(2)] by auto
  qed
  moreover have "\<exists>y \<in> set ls'. obj_Name y = obj_Name x" if x: "x \<in> set ls" "obj_Name x \<notin> destroyed A" for x
  proof -
    obtain y where "y \<in> set os'" "obj_Name y = obj_Name x" using objs_after_kept [OF assms(1) _ x(2)] x(1) assms(2) by blast
    then show ?thesis using x(1) assms(2,3) by auto
  qed
  ultimately show ?thesis unfolding objs_after_def by blast
qed

context migrate_store
begin

lemma compute_now_result:
  assumes "ok w" "compute_now c be pools w = (w', Inr plan)"
  obtains objs now where "ok w'" "ov w' = ov w" "dv w' = dv w" "sv w' = sv w" "distinct (map obj_Name objs)"
    "set objs = {o' \<in> set (ov w). \<exists>r \<in> set (sortedKeys (fst (all_roots \<lparr>in_Pools = pools, in_Datasets = dv w, in_Snapshots = sv w\<rparr>))).
       withinOneLevel (obj_Name o') r}"
    "plan = audit \<lparr>in_Pools = pools, in_Datasets = dv w, in_Snapshots = sv w\<rparr>
       (sortedKeys (fst (all_roots \<lparr>in_Pools = pools, in_Datasets = dv w, in_Snapshots = sv w\<rparr>))) objs now
       (snd (all_roots \<lparr>in_Pools = pools, in_Datasets = dv w, in_Snapshots = sv w\<rparr>))"
proof -
  obtain w1 ds where 1: "list_ZfsDataset c w = (w1, Inr ds)"
    using assms(2) by (auto simp: compute_now_def read_objects_def split: prod.splits sum.splits)
  note l1 = list_datasets [OF assms(1) 1]
  obtain w2 ss where 2: "list_ZfsSnapshot c w1 = (w2, Inr ss)"
    using assms(2) 1 by (auto simp: compute_now_def read_objects_def split: prod.splits sum.splits)
  have ok1: "ok w1" using l1 by blast
  note l2 = list_snapshots [OF ok1 2]
  obtain w3 now where 3: "mc_Now c w2 = (w3, now)" by fastforce
  have ok2: "ok w2" using l2 by blast
  note l3 = now_law [OF ok2 3]
  let ?i = "\<lparr>in_Pools = pools, in_Datasets = dv w, in_Snapshots = sv w\<rparr>"
  have comp: "Compute ?i be now w3 = (w', Inr plan)" using assms(2) 1 2 3 l1 l2 by (simp add: compute_now_def read_objects_def)
  obtain objs where 4: "be_List be (sortedKeys (fst (all_roots ?i))) w3 = (w', Inr objs)"
    "plan = audit ?i (sortedKeys (fst (all_roots ?i))) objs now (snd (all_roots ?i))"
    using comp by (auto simp: Compute_def split: prod.splits sum.splits)
  have ok3: "ok w3" using l3 by blast
  note l4 = list_law [OF ok3 4(1)]
  show ?thesis by (rule that [of objs now]) (use l1 l2 l3 l4 4(2) in auto)
qed

lemma plan_values:
  assumes "ok w" "audited \<lparr>in_Pools = pools, in_Datasets = dv w, in_Snapshots = sv w\<rparr> objs now p0 claims plan" "Actions p0 = []"
    "a \<in> set (Actions plan)" "act_Kind a = ActSet"
  shows "act_Prop a \<in> {PropRole, PropOwner} \<and> plain_label (act_Value a) \<and> act_Value a \<noteq> ''''"
proof -
  let ?i = "\<lparr>in_Pools = pools, in_Datasets = dv w, in_Snapshots = sv w\<rparr>"
  have "a \<in> all_acts ?i objs now claims" using assms(2-4) by (simp add: audited_def)
  from all_acts_Set [OF this assms(5)] obtain cl where cl: "map_of claims (act_Target a) = Some cl" "act_Prop a \<in> {PropRole, PropOwner}"
    "act_Value a = wanted cl (act_Prop a)" "act_Value a \<noteq> ''''" by metis
  have "(act_Target a, cl_role cl, cl_owner cl) \<in> derived claims" using cl(1) by (auto simp: derived_iff)
  then have "(act_Target a, cl_role cl, cl_owner cl) \<in> all_claims ?i objs" using assms(2) unfolding audited_def by blast
  from claims_of_whom [OF this] have "plain_label (cl_role cl)" "plain_label (cl_owner cl)"
    using plain_roles plain_uids(1) [OF assms(1)] plain_uids(2) [OF assms(1)] by auto
  then show ?thesis using cl by (auto simp: wanted_def)
qed

lemma migration_completes:
  assumes "ok w" "compute_now c be pools w = (w1, Inr plan)" "Blockers plan = []" "apply_and_check c be pools plan w1 = (w2, r)"
  shows "r \<noteq> Exited k"
proof (cases "Apply (Actions plan) be (migrate_kube c) w1")
  case (Pair w3 e)
  let ?i = "\<lparr>in_Pools = pools, in_Datasets = dv w, in_Snapshots = sv w\<rparr>"
  let ?rl = "sortedKeys (fst (all_roots ?i))" and ?p0 = "snd (all_roots ?i)"
  obtain objs now where 1: "ok w1" "ov w1 = ov w" "dv w1 = dv w" "sv w1 = sv w" "distinct (map obj_Name objs)"
    "set objs = {o' \<in> set (ov w). \<exists>r \<in> set ?rl. withinOneLevel (obj_Name o') r}" "plan = audit ?i ?rl objs now ?p0"
    by (rule compute_now_result [OF assms(1,2)])
  obtain claims where c: "audited ?i objs now ?p0 claims plan" using audit_result 1(7) by blast
  show ?thesis
  proof (cases e)
    case None
    have "\<forall>a \<in> set (Actions plan). act_Kind a = ActSet \<longrightarrow> act_Prop a \<in> {PropRole, PropOwner} \<and> plain_label (act_Value a) \<and> act_Value a \<noteq> ''''"
      using plan_values [OF assms(1) c all_roots_plan] by blast
    from Apply_after [OF 1(1) Pair [unfolded None] this] have s: "ok w3" "objs_after (set (Actions plan)) (ov w) (ov w3)"
      "list_all2 (ds_after (set (Actions plan))) (dv w) (dv w3)" "list_all2 (sn_after (set (Actions plan))) (sv w) (sv w3)"
      unfolding store_after_def 1(2-4) by blast+
    have "Clean plan2" if p2: "compute_now c be pools w3 = (w4, Inr plan2)" for w4 plan2
    proof -
      let ?i2 = "\<lparr>in_Pools = pools, in_Datasets = dv w3, in_Snapshots = sv w3\<rparr>"
      have roots: "all_roots ?i2 = all_roots ?i" by (rule all_roots_after) (use s(3,4) in simp_all)
      obtain objs2 now2 where 2: "distinct (map obj_Name objs2)" "set objs2 = {o' \<in> set (ov w3). \<exists>r \<in> set ?rl. withinOneLevel (obj_Name o') r}"
        "plan2 = audit ?i2 ?rl objs2 now2 ?p0" by (rule compute_now_result [OF s(1) p2, unfolded roots])
      have after: "objs_after (set (Actions plan)) objs objs2"
        by (rule objs_after_listing [OF s(2), where P = "\<lambda>n. \<exists>r \<in> set ?rl. withinOneLevel n r", OF 1(6) 2(2)])
      show ?thesis unfolding 2(3)
        by (rule second_audit [OF _ 1(7) assms(3) all_roots_plan after 1(5) 2(1)]) (use s(3,4) typed [OF assms(1)] in simp_all)
    qed
    then show ?thesis using assms(4) Pair None by (auto simp: apply_and_check_def split: prod.splits sum.splits)
  qed (use assms(4) Pair in \<open>auto simp: apply_and_check_def\<close>)
qed

end

end
