(* ===== verification/MigrateBackend.thy ===== *)
theory MigrateBackend
  imports MigrateClean ZfsCliSpec
begin

text \<open>
  The backend of the migration reads what \<open>zfs\<close> prints. The locale says what the program prints and does: one line per
  object and one per label that is set on the object itself; the listing of the backend is then exactly the set of
  objects at most one level below the roots, with their own labels.
\<close>

subsection \<open>Rows of text\<close>

definition rows_text :: "string list list \<Rightarrow> string" where
  "rows_text rows = concat (map (\<lambda>r. Join [CHR 9] r @ [CHR 10]) rows)"

definition plain_field :: "string \<Rightarrow> bool" where
  "plain_field s \<longleftrightarrow> CHR 9 \<notin> set s \<and> CHR 10 \<notin> set s"

definition row_ok :: "string list \<Rightarrow> bool" where
  "row_ok r \<longleftrightarrow> length r = 3 \<and> (\<forall>f \<in> set r. plain_field f) \<and> (\<exists>ch \<in> set (hd r). \<not> isSpace ch)"

lemma set_Join: "set (Join sep xs) \<subseteq> set sep \<union> (\<Union>x \<in> set xs. set x)"
  by (induction sep xs rule: Join.induct) auto

lemma set_Join_member: "x \<in> set xs \<Longrightarrow> set x \<subseteq> set (Join sep xs)"
  by (induction sep xs rule: Join.induct) auto

lemma TrimSpace_Nil: "TrimSpace s = '''' \<longleftrightarrow> (\<forall>ch \<in> set s. isSpace ch)"
proof -
  have "TrimSpace s = '''' \<longleftrightarrow> (\<forall>ch \<in> set (dropWhile isSpace s). isSpace ch)" by (simp add: TrimSpace_def)
  also have "\<dots> \<longleftrightarrow> (\<forall>ch \<in> set s. isSpace ch)"
    using dropWhile_eq_Nil_conv [of isSpace s] hd_dropWhile [of isSpace s] by (metis dropWhile_eq_self_iff list.set_sel(1) set_dropWhileD)
  finally show ?thesis .
qed

lemma splitLines_rows:
  assumes "\<forall>r \<in> set rows. row_ok r"
  shows "splitLines (rows_text rows) = map (Join [CHR 9]) rows"
  using assms
proof (induction rows)
  case (Cons r rows)
  have nl: "CHR 10 \<notin> set (Join [CHR 9] r)" using Cons.prems set_Join [of "[CHR 9]" r] by (auto simp: row_ok_def plain_field_def)
  have "r \<noteq> []" using Cons.prems by (auto simp: row_ok_def)
  then have "set (hd r) \<subseteq> set (Join [CHR 9] r)" using set_Join_member [of "hd r" r] by simp
  then have "TrimSpace (Join [CHR 9] r) \<noteq> ''''" using Cons.prems unfolding TrimSpace_Nil by (auto simp: row_ok_def)
  then show ?case using Cons nl by (simp add: rows_text_def splitLines_def Split_append)
qed (simp add: rows_text_def splitLines_def TrimSpace_Nil)

lemma Split_row: "row_ok r \<Longrightarrow> Split CHR 9 (Join [CHR 9] r) = r"
  by (rule Split_Join) (auto simp: row_ok_def plain_field_def)

lemma list_objects_rows:
  "\<forall>r \<in> set rows. row_ok r \<Longrightarrow> list_objects root (map (Join [CHR 9]) rows) found = Inr (fold (list_object root) rows found)"
  by (induction rows arbitrary: found) (simp_all add: Split_row, simp add: row_ok_def)

lemma read_labels_rows:
  "\<forall>r \<in> set rows. row_ok r \<Longrightarrow>
     read_labels (map (Join [CHR 9]) rows) found = Inr (fold (\<lambda>f. mmod (f ! 0) (set_label (f ! 1) (f ! 2))) rows found)"
  by (induction rows arbitrary: found) (simp_all add: Split_row, simp add: row_ok_def)

subsection \<open>The objects found\<close>

definition blank :: "Obj \<Rightarrow> Obj" where
  "blank o' = o'\<lparr>obj_Role := '''', obj_Owner := ''''\<rparr>"

definition object_row :: "Obj \<Rightarrow> string list \<Rightarrow> bool" where
  "object_row o' f \<longleftrightarrow> f ! 0 = obj_Name o' \<and> (if f ! 1 \<noteq> ''-'' then f ! 1 else '''') = obj_Origin o' \<and> (f ! 2 = ''on'' \<longleftrightarrow> obj_Deferred o')"

definition label_row :: "Obj \<Rightarrow> string list \<Rightarrow> bool" where
  "label_row o' f \<longleftrightarrow> f ! 0 = obj_Name o' \<and> f ! 1 \<in> {PropRole, PropOwner} \<and> f ! 2 = label (f ! 1) o'"

lemma list_object_row:
  "object_row o' f \<Longrightarrow> list_object root f found =
     (if map_of found (obj_Name o') \<noteq> None \<or> \<not> withinOneLevel (obj_Name o') root then found else found @ [(obj_Name o', blank o')])"
  by (auto simp: list_object_def object_row_def blank_def)

text \<open>New entries are objects one level below the root, their labels not read yet.\<close>

definition extends :: "Obj list \<Rightarrow> string \<Rightarrow> (string, Obj) gomap \<Rightarrow> (string, Obj) gomap \<Rightarrow> bool" where
  "extends os root m m' \<longleftrightarrow> distinct (keys m') \<and> set (keys m) \<subseteq> set (keys m') \<and>
     (\<forall>n x. map_of m' n = Some x \<longrightarrow>
        map_of m n = Some x \<or> (\<exists>o' \<in> set os. obj_Name o' = n \<and> x = blank o' \<and> withinOneLevel n root))"

lemma extends_trans: "extends os root m m1 \<Longrightarrow> extends os root m1 m2 \<Longrightarrow> extends os root m m2"
  unfolding extends_def by blast

lemma list_object_extends:
  assumes "o' \<in> set os" "object_row o' f" "distinct (keys m)"
  shows "extends os root m (list_object root f m)" "withinOneLevel (f ! 0) root \<Longrightarrow> f ! 0 \<in> set (keys (list_object root f m))"
proof -
  have n: "f ! 0 = obj_Name o'" using assms(2) by (simp add: object_row_def)
  have k: "map_of m n = None \<longleftrightarrow> n \<notin> set (keys m)" for n by (auto simp: keys_def map_of_eq_None_iff)
  show "extends os root m (list_object root f m)"
  proof (cases "map_of m (obj_Name o') \<noteq> None \<or> \<not> withinOneLevel (obj_Name o') root")
    case False
    then show ?thesis using assms k [of "obj_Name o'"]
      by (auto simp: extends_def list_object_row keys_def map_add_Some_iff)
  qed (use assms in \<open>simp add: extends_def list_object_row\<close>)
  show "withinOneLevel (f ! 0) root \<Longrightarrow> f ! 0 \<in> set (keys (list_object root f m))"
    using k [of "obj_Name o'"] n list_object_row [OF assms(2)] by (auto simp: keys_def)
qed

lemma list_rows_extend:
  assumes "\<forall>f \<in> set rows. \<exists>o' \<in> set os. object_row o' f" "distinct (keys m)"
  shows "extends os root m (fold (list_object root) rows m)"
    "f \<in> set rows \<Longrightarrow> withinOneLevel (f ! 0) root \<Longrightarrow> f ! 0 \<in> set (keys (fold (list_object root) rows m))"
proof -
  have "extends os root m (fold (list_object root) rows m) \<and>
      (\<forall>f \<in> set rows. withinOneLevel (f ! 0) root \<longrightarrow> f ! 0 \<in> set (keys (fold (list_object root) rows m)))"
    using assms
  proof (induction rows arbitrary: m)
    case (Cons f rows)
    obtain o' where o': "o' \<in> set os" "object_row o' f" using Cons.prems(1) by auto
    note s = list_object_extends [OF o' Cons.prems(2), of root]
    have d: "distinct (keys (list_object root f m))" using s(1) by (simp add: extends_def)
    note i = Cons.IH [OF _ d]
    have e: "extends os root (list_object root f m) (fold (list_object root) (f # rows) m)" using i Cons.prems(1) by simp
    then have sub: "set (keys (list_object root f m)) \<subseteq> set (keys (fold (list_object root) (f # rows) m))" by (simp add: extends_def)
    show ?case using extends_trans [OF s(1) e] sub s(2) i Cons.prems(1) by auto
  qed (simp add: extends_def)
  then show "extends os root m (fold (list_object root) rows m)"
    "f \<in> set rows \<Longrightarrow> withinOneLevel (f ! 0) root \<Longrightarrow> f ! 0 \<in> set (keys (fold (list_object root) rows m))" by blast+
qed

subsection \<open>Their labels\<close>

definition relabelled :: "string list list \<Rightarrow> string \<Rightarrow> Obj \<Rightarrow> Obj" where
  "relabelled rows n x = fold (\<lambda>f x. if f ! 0 = n then set_label (f ! 1) (f ! 2) x else x) rows x"

lemma labels_read:
  "map_of (fold (\<lambda>f. mmod (f ! 0) (set_label (f ! 1) (f ! 2))) rows m) n = map_option (relabelled rows n) (map_of m n)"
  "keys (fold (\<lambda>f. mmod (f ! 0) (set_label (f ! 1) (f ! 2))) rows m) = keys m"
proof -
  show "map_of (fold (\<lambda>f. mmod (f ! 0) (set_label (f ! 1) (f ! 2))) rows m) n = map_option (relabelled rows n) (map_of m n)"
    by (induction rows arbitrary: m) (auto simp: relabelled_def [abs_def] option.map_comp comp_def option.map_ident option.map_id id_def)
  show "keys (fold (\<lambda>f. mmod (f ! 0) (set_label (f ! 1) (f ! 2))) rows m) = keys m"
    by (induction rows arbitrary: m) auto
qed

text \<open>An object whose labels are blank or its own has all its own once every label that is set was read.\<close>

lemma relabelled_own:
  assumes "\<forall>f \<in> set rows. f ! 0 = obj_Name o' \<longrightarrow> label_row o' f"
    "x = o' \<or> x = blank o' \<and> (\<forall>p \<in> {PropRole, PropOwner}. label p o' \<noteq> '''' \<longrightarrow> (\<exists>f \<in> set rows. f ! 0 = obj_Name o' \<and> f ! 1 = p))"
  shows "relabelled rows (obj_Name o') x = o'"
proof -
  let ?h = "\<lambda>p rows. \<exists>f \<in> set rows. f ! 0 = obj_Name o' \<and> f ! 1 = p"
  have "relabelled rows (obj_Name o') x = x\<lparr>obj_Role := if ?h PropRole rows then obj_Role o' else obj_Role x,
      obj_Owner := if ?h PropOwner rows then obj_Owner o' else obj_Owner x\<rparr>"
    if "\<forall>f \<in> set rows. f ! 0 = obj_Name o' \<longrightarrow> label_row o' f" for rows x
    using that
  proof (induction rows arbitrary: x)
    case (Cons f rows)
    then have IH: "relabelled rows (obj_Name o') y = y\<lparr>obj_Role := if ?h PropRole rows then obj_Role o' else obj_Role y,
      obj_Owner := if ?h PropOwner rows then obj_Owner o' else obj_Owner y\<rparr>" for y by simp
    show ?case
    proof (cases "f ! 0 = obj_Name o'")
      case True
      then have "f ! 1 = PropRole \<and> f ! 2 = obj_Role o' \<or> f ! 1 = PropOwner \<and> f ! 2 = obj_Owner o'"
        using Cons.prems by (auto simp: label_row_def label_def)
      moreover have "relabelled (f # rows) (obj_Name o') x = relabelled rows (obj_Name o') (set_label (f ! 1) (f ! 2) x)" using True by (simp add: relabelled_def)
      ultimately show ?thesis using True unfolding IH by (auto simp: set_label_def)
    next
      case False
      then have "relabelled (f # rows) (obj_Name o') x = relabelled rows (obj_Name o') x" by (simp add: relabelled_def)
      then show ?thesis using False unfolding IH by simp
    qed
  qed (simp add: relabelled_def)
  from this [OF assms(1)] show ?thesis using assms(2) by (auto simp: blank_def label_def)
qed

subsection \<open>What zfs prints and does\<close>

locale zfs_objects =
  fixes run :: "'w Runner" and ok :: "'w \<Rightarrow> bool" and ov :: "'w \<Rightarrow> Obj list" and rest :: "'w \<Rightarrow> 'r"
  assumes names_distinct: "ok w \<Longrightarrow> distinct (map obj_Name (ov w))"
    and zlist: "ok w \<Longrightarrow> run ''zfs'' (list_args root) w = (w', Inr out) \<Longrightarrow> ok w' \<and> ov w' = ov w \<and> rest w' = rest w \<and>
      (\<exists>rows. out = rows_text rows \<and> (\<forall>f \<in> set rows. row_ok f \<and> (\<exists>o' \<in> set (ov w). object_row o' f)) \<and>
         (\<forall>o' \<in> set (ov w). withinOneLevel (obj_Name o') root \<longrightarrow> (\<exists>f \<in> set rows. f ! 0 = obj_Name o')))"
    and zlist_missing: "ok w \<Longrightarrow> run ''zfs'' (list_args root) w = (w', Inl e) \<Longrightarrow> Contains (err_text e) ''does not exist'' \<Longrightarrow>
      ok w' \<and> ov w' = ov w \<and> rest w' = rest w \<and> (\<forall>o' \<in> set (ov w). \<not> withinOneLevel (obj_Name o') root)"
    and zget: "ok w \<Longrightarrow> run ''zfs'' (get_args root) w = (w', Inr out) \<Longrightarrow> ok w' \<and> ov w' = ov w \<and> rest w' = rest w \<and>
      (\<exists>rows. out = rows_text rows \<and> (\<forall>f \<in> set rows. row_ok f \<and> (\<exists>o' \<in> set (ov w). label_row o' f)) \<and>
         (\<forall>o' \<in> set (ov w). \<forall>p \<in> {PropRole, PropOwner}. withinOneLevel (obj_Name o') root \<longrightarrow> label p o' \<noteq> '''' \<longrightarrow>
            (\<exists>f \<in> set rows. f ! 0 = obj_Name o' \<and> f ! 1 = p)))"
    and zset: "ok w \<Longrightarrow> run ''zfs'' [''set'', p @ ''='' @ v, n] w = (w', Inr out) \<Longrightarrow> p \<in> {PropRole, PropOwner} \<Longrightarrow> plain_field v \<Longrightarrow> v \<noteq> '''' \<Longrightarrow>
      ok w' \<and> ov w' = map (relabel n p v) (ov w) \<and> rest w' = rest w"
    and zdestroy: "ok w \<Longrightarrow> run ''zfs'' [''destroy'', ''-d'', n] w = (w', Inr out) \<Longrightarrow>
      ok w' \<and> (ov w' = map (mark n) (ov w) \<or> ov w' = filter (\<lambda>o'. obj_Name o' \<noteq> n) (ov w)) \<and> rest w' = rest w"
begin

lemma own_name: "ok w \<Longrightarrow> x \<in> set (ov w) \<Longrightarrow> y \<in> set (ov w) \<Longrightarrow> obj_Name x = obj_Name y \<Longrightarrow> x = y"
  using names_distinct by (auto simp: distinct_map inj_on_def)

lemma own_entry:
  assumes "ok w" "\<And>n x. map_of found n = Some x \<Longrightarrow> x \<in> set (ov w) \<and> obj_Name x = n" "m = found"
  shows "map_of m n = Some x \<longleftrightarrow> x \<in> set (ov w) \<and> obj_Name x = n \<and> map_of found n \<noteq> None"
proof (cases "map_of found n")
  case (Some y)
  then have "y \<in> set (ov w)" "obj_Name y = n" using assms(2) by blast+
  then show ?thesis unfolding assms(3) Some using own_name [OF assms(1), of y x] by blast
qed (simp add: assms(3))

text \<open>One root: the listing and the labels below it are added to what was found before.\<close>

lemma root_found:
  assumes ok: "ok w" and found: "distinct (keys found)" "\<forall>n x. map_of found n = Some x \<longrightarrow> x \<in> set (ov w) \<and> obj_Name x = n"
    and rows: "\<forall>f \<in> set rows. row_ok f \<and> (\<exists>o' \<in> set (ov w). object_row o' f)"
      "\<forall>o' \<in> set (ov w). withinOneLevel (obj_Name o') root \<longrightarrow> (\<exists>f \<in> set rows. f ! 0 = obj_Name o')"
    and rows2: "\<forall>f \<in> set rows2. row_ok f \<and> (\<exists>o' \<in> set (ov w). label_row o' f)"
      "\<forall>o' \<in> set (ov w). \<forall>p \<in> {PropRole, PropOwner}. withinOneLevel (obj_Name o') root \<longrightarrow> label p o' \<noteq> '''' \<longrightarrow>
         (\<exists>f \<in> set rows2. f ! 0 = obj_Name o' \<and> f ! 1 = p)"
    and m: "m = fold (\<lambda>f. mmod (f ! 0) (set_label (f ! 1) (f ! 2))) rows2 (fold (list_object root) rows found)"
  shows "distinct (keys m)" "map_of m n = Some x \<Longrightarrow> x \<in> set (ov w) \<and> obj_Name x = n \<and> (map_of found n \<noteq> None \<or> withinOneLevel n root)"
    "o' \<in> set (ov w) \<Longrightarrow> map_of found (obj_Name o') \<noteq> None \<or> withinOneLevel (obj_Name o') root \<Longrightarrow> map_of m (obj_Name o') \<noteq> None"
proof -
  let ?m1 = "fold (list_object root) rows found"
  have e: "extends (ov w) root found ?m1" by (rule list_rows_extend) (use rows found(1) in auto)
  have k: "(map_of m n = None) = (n \<notin> set (keys m))" for m :: "(string, Obj) gomap" and n by (auto simp: keys_def map_of_eq_None_iff)
  have keys: "keys m = keys ?m1" unfolding m by (rule labels_read)
  show "distinct (keys m)" unfolding keys using e by (simp add: extends_def)
  show "map_of m n = Some x \<Longrightarrow> x \<in> set (ov w) \<and> obj_Name x = n \<and> (map_of found n \<noteq> None \<or> withinOneLevel n root)"
  proof -
    assume "map_of m n = Some x"
    then obtain y where y: "map_of ?m1 n = Some y" "x = relabelled rows2 n y" unfolding m labels_read by auto
    obtain o' where o': "o' \<in> set (ov w)" "obj_Name o' = n" "y = o' \<or> y = blank o' \<and> withinOneLevel n root" "map_of found n \<noteq> None \<or> withinOneLevel n root"
      using e y(1) found(2) unfolding extends_def by (metis option.distinct(1))
    have "\<forall>f \<in> set rows2. f ! 0 = obj_Name o' \<longrightarrow> label_row o' f"
    proof (intro ballI impI)
      fix f
      assume f: "f \<in> set rows2" "f ! 0 = obj_Name o'"
      then obtain o2 where o2: "o2 \<in> set (ov w)" "label_row o2 f" using rows2(1) by blast
      have "obj_Name o2 = obj_Name o'" using o2(2) f(2) unfolding label_row_def by (elim conjE) (rule trans, rule sym)
      then have "o2 = o'" by (rule own_name [OF ok o2(1) o'(1)])
      then show "label_row o' f" using o2(2) by simp
    qed
    then have "x = o'" unfolding y(2) o'(2) [symmetric] by (rule relabelled_own) (use o' rows2(2) in auto)
    then show ?thesis using o' by simp
  qed
  show "map_of m (obj_Name o') \<noteq> None" if o': "o' \<in> set (ov w)" "map_of found (obj_Name o') \<noteq> None \<or> withinOneLevel (obj_Name o') root"
  proof -
    have "obj_Name o' \<in> set (keys ?m1)"
    proof (cases "map_of found (obj_Name o') = None")
      case True
      then obtain f where f: "f \<in> set rows" "f ! 0 = obj_Name o'" using o' rows(2) by auto
      then show ?thesis using list_rows_extend(2) [of rows "ov w" found f root] rows(1) found(1) o' True by auto
    next
      case False
      then show ?thesis using e k [of found] unfolding extends_def by auto
    qed
    then show ?thesis unfolding k keys by simp
  qed
qed

lemma list_roots_found:
  assumes "ok w" "list_roots run roots found w = (w', Inr m)" "distinct (keys found)"
    "\<And>n x. map_of found n = Some x \<Longrightarrow> x \<in> set (ov w) \<and> obj_Name x = n"
  shows "ok w' \<and> ov w' = ov w \<and> rest w' = rest w \<and> distinct (keys m) \<and>
    (\<forall>n x. map_of m n = Some x \<longleftrightarrow> x \<in> set (ov w) \<and> obj_Name x = n \<and> (map_of found n \<noteq> None \<or> (\<exists>r \<in> set roots. withinOneLevel n r)))"
  using assms
proof (induction roots arbitrary: found w)
  case Nil
  then have m: "m = found" "w' = w" by simp_all
  have "map_of m n = Some x \<longleftrightarrow> x \<in> set (ov w) \<and> obj_Name x = n \<and> map_of found n \<noteq> None" for n x
    by (rule own_entry [OF Nil.prems(1,4) m(1)])
  moreover have "distinct (keys m)" using m(1) Nil.prems(3) by (simp only:)
  ultimately show ?case unfolding m(2) using Nil.prems(1) by (simp only: list.set empty_iff bex_simps HOL.simp_thms)
next
  case (Cons root roots)
  show ?case
  proof (cases "run ''zfs'' (list_args root) w")
    case (Pair w1 res)
    show ?thesis
    proof (cases res)
      case (Inl e)
      have nx: "Contains (err_text e) ''does not exist''" "list_roots run roots found w1 = (w', Inr m)"
        using Cons.prems(2) Pair Inl by (auto split: if_splits)
      note z = zlist_missing [OF Cons.prems(1) Pair [unfolded Inl] nx(1)]
      have i: "ok w' \<and> ov w' = ov w1 \<and> rest w' = rest w1 \<and> distinct (keys m) \<and>
          (\<forall>n x. map_of m n = Some x \<longleftrightarrow> x \<in> set (ov w1) \<and> obj_Name x = n \<and> (map_of found n \<noteq> None \<or> (\<exists>r \<in> set roots. withinOneLevel n r)))"
        by (rule Cons.IH [OF _ nx(2) Cons.prems(3)]) (use z Cons.prems(4) in auto)
      then show ?thesis using z by auto
    next
      case (Inr out)
      from zlist [OF Cons.prems(1) Pair [unfolded Inr]] obtain rows where z: "ok w1" "ov w1 = ov w" "rest w1 = rest w" "out = rows_text rows"
        and rows: "\<forall>f \<in> set rows. row_ok f \<and> (\<exists>o' \<in> set (ov w1). object_row o' f)"
          "\<forall>o' \<in> set (ov w1). withinOneLevel (obj_Name o') root \<longrightarrow> (\<exists>f \<in> set rows. f ! 0 = obj_Name o')" by (elim conjE exE) (simp only:)
      have l: "list_objects root (splitLines out) found = Inr (fold (list_object root) rows found)"
        using rows z(4) by (simp add: splitLines_rows list_objects_rows)
      obtain w2 out2 where g: "run ''zfs'' (get_args root) w1 = (w2, Inr out2)"
        using Cons.prems(2) Pair Inr l by (auto split: prod.splits sum.splits)
      from zget [OF z(1) g] obtain rows2 where z2: "ok w2" "ov w2 = ov w1" "rest w2 = rest w1" "out2 = rows_text rows2"
        and rows2: "\<forall>f \<in> set rows2. row_ok f \<and> (\<exists>o' \<in> set (ov w1). label_row o' f)"
          "\<forall>o' \<in> set (ov w1). \<forall>p \<in> {PropRole, PropOwner}. withinOneLevel (obj_Name o') root \<longrightarrow> label p o' \<noteq> '''' \<longrightarrow>
             (\<exists>f \<in> set rows2. f ! 0 = obj_Name o' \<and> f ! 1 = p)" by (elim conjE exE) (simp only:)
      define m1 where "m1 = fold (\<lambda>f. mmod (f ! 0) (set_label (f ! 1) (f ! 2))) rows2 (fold (list_object root) rows found)"
      have r: "read_labels (splitLines out2) (fold (list_object root) rows found) = Inr m1"
        using rows2 z2(4) by (simp add: splitLines_rows read_labels_rows m1_def)
      have next': "list_roots run roots m1 w2 = (w', Inr m)" using Cons.prems(2) Pair Inr l g r by simp
      have found: "\<forall>n x. map_of found n = Some x \<longrightarrow> x \<in> set (ov w1) \<and> obj_Name x = n" unfolding z(2) using Cons.prems(4) by blast
      note f = root_found [OF z(1) Cons.prems(3) found rows rows2 m1_def]
      have i: "ok w' \<and> ov w' = ov w2 \<and> rest w' = rest w2 \<and> distinct (keys m) \<and>
          (\<forall>n x. map_of m n = Some x \<longleftrightarrow> x \<in> set (ov w2) \<and> obj_Name x = n \<and> (map_of m1 n \<noteq> None \<or> (\<exists>r \<in> set roots. withinOneLevel n r)))"
        by (rule Cons.IH [OF z2(1) next' f(1)]) (use f(2) z2(2) in auto)
      have both: "map_of m1 n \<noteq> None \<longleftrightarrow> map_of found n \<noteq> None \<or> withinOneLevel n root" if "x \<in> set (ov w1)" "obj_Name x = n" for n x
        using f(2) [of n] f(3) [OF that(1)] unfolding that(2) by (cases "map_of m1 n") blast+
      have "map_of m n = Some x \<longleftrightarrow> x \<in> set (ov w) \<and> obj_Name x = n \<and> (map_of found n \<noteq> None \<or> (\<exists>r \<in> set (root # roots). withinOneLevel n r))" for n x
        using i both [of x n] z(2) z2(2) by (metis (full_types) list.set_intros(1) list.set_intros(2) set_ConsD)
      then show ?thesis using i z z2 by simp
    qed
  qed
qed

lemma List_lists:
  assumes "ok w" "cb_List run roots w = (w', Inr objs)"
  shows "ok w' \<and> ov w' = ov w \<and> rest w' = rest w \<and> distinct (map obj_Name objs) \<and>
    set objs = {o' \<in> set (ov w). \<exists>r \<in> set roots. withinOneLevel (obj_Name o') r}"
proof -
  obtain m where m: "list_roots run roots [] w = (w', Inr m)" "objs = map snd m" using assms(2) by (auto simp: cb_List_def split: prod.splits sum.splits)
  have f: "ok w' \<and> ov w' = ov w \<and> rest w' = rest w \<and> distinct (keys m) \<and>
      (\<forall>n x. map_of m n = Some x \<longleftrightarrow> x \<in> set (ov w) \<and> obj_Name x = n \<and> (map_of [] n \<noteq> (None :: Obj option) \<or> (\<exists>r \<in> set roots. withinOneLevel n r)))"
    by (rule list_roots_found [OF assms(1) m(1)]) (simp_all add: keys_def)
  have e: "(n, x) \<in> set m \<longleftrightarrow> map_of m n = Some x" for n x using f wf_map_in_iff [of m] by (simp add: wf_map_def)
  have "obj_Name x = n" if "(n, x) \<in> set m" for n x using that f unfolding e by blast
  then have "map obj_Name objs = keys m" unfolding m(2) keys_def by (auto intro!: map_cong)
  moreover have "set objs = {o' \<in> set (ov w). \<exists>r \<in> set roots. withinOneLevel (obj_Name o') r}"
  proof -
    have "x \<in> set objs \<longleftrightarrow> (\<exists>n. map_of m n = Some x)" for x using e by (auto simp: m(2) image_iff Bex_def)
    then have "x \<in> set objs \<longleftrightarrow> x \<in> set (ov w) \<and> (\<exists>r \<in> set roots. withinOneLevel (obj_Name x) r)" for x using f by simp
    then show ?thesis by (simp add: set_eq_iff)
  qed
  ultimately show ?thesis using f by simp
qed

lemma Set_sets:
  assumes "ok w" "cb_Set run n p v w = (w', None)" "p \<in> {PropRole, PropOwner}" "plain_field v" "v \<noteq> ''''"
  shows "ok w' \<and> ov w' = map (relabel n p v) (ov w) \<and> rest w' = rest w"
proof -
  obtain out where "run ''zfs'' [''set'', p @ ''='' @ v, n] w = (w', Inr out)" using assms(2) by (auto simp: cb_Set_def split: prod.splits sum.splits)
  then show ?thesis using zset [OF assms(1) _ assms(3-5)] by blast
qed

lemma DestroyDeferred_marks:
  assumes "ok w" "cb_DestroyDeferred run n w = (w', None)"
  shows "ok w' \<and> (ov w' = map (mark n) (ov w) \<or> ov w' = filter (\<lambda>o'. obj_Name o' \<noteq> n) (ov w)) \<and> rest w' = rest w"
proof -
  obtain out where "run ''zfs'' [''destroy'', ''-d'', n] w = (w', Inr out)" using assms(2) by (auto simp: cb_DestroyDeferred_def split: prod.splits sum.splits)
  then show ?thesis using zdestroy [OF assms(1)] by blast
qed

end

text \<open>An API server and a pool behind \<open>zfs\<close> make a store of the migration.\<close>

locale zfs_migration = zfs_objects run ok ov "\<lambda>w. (dv w, sv w)" + migrate_client c ok ov dv sv plain_field
  for run :: "'w Runner" and c :: "'w MigrateClient" and ok :: "'w \<Rightarrow> bool" and ov :: "'w \<Rightarrow> Obj list"
    and dv :: "'w \<Rightarrow> ZfsDataset list" and sv :: "'w \<Rightarrow> ZfsSnapshot list"
begin

end

sublocale zfs_migration \<subseteq> store: migrate_store c ok ov dv sv plain_field "CLIBackend run"
proof
  show "be_List (CLIBackend run) roots w = (w', Inr objs) \<Longrightarrow> ok w \<Longrightarrow>
      ok w' \<and> ov w' = ov w \<and> dv w' = dv w \<and> sv w' = sv w \<and> distinct (map obj_Name objs) \<and>
      set objs = {o' \<in> set (ov w). \<exists>r \<in> set roots. withinOneLevel (obj_Name o') r}" for roots w w' objs
    using List_lists [of w roots w' objs] by (simp add: CLIBackend_def)
  show "ok w \<Longrightarrow> be_Set (CLIBackend run) n p v w = (w', None) \<Longrightarrow> p \<in> {PropRole, PropOwner} \<Longrightarrow> plain_field v \<Longrightarrow> v \<noteq> '''' \<Longrightarrow>
      ok w' \<and> ov w' = map (relabel n p v) (ov w) \<and> dv w' = dv w \<and> sv w' = sv w" for w n p v w'
    using Set_sets [of w n p v w'] by (simp add: CLIBackend_def)
  show "ok w \<Longrightarrow> be_DestroyDeferred (CLIBackend run) n w = (w', None) \<Longrightarrow>
      ok w' \<and> (ov w' = map (mark n) (ov w) \<or> ov w' = filter (\<lambda>o'. obj_Name o' \<noteq> n) (ov w)) \<and> dv w' = dv w \<and> sv w' = sv w" for w n w'
    using DestroyDeferred_marks [of w n w'] by (simp add: CLIBackend_def)
qed

text \<open>
  A run that applies its plan. An exit in the middle is the one before the first change, for a blocker; after the
  changes the second audit is always clean.
\<close>

context zfs_migration
begin

lemma migrate_run_ends:
  assumes "ok w" "run = kubectl_runner ex kubeContext namespace pod" "list_toolbox c namespace w = (w, Inr (pod # pods))"
    "list_ZfsPool c w = (w, Inr pl)" "migrate_run c ex kubeContext namespace True w = (w', r)" "r = Exited k"
  shows "ov w' = ov w \<and> dv w' = dv w \<and> sv w' = sv w \<and>
    (\<exists>plan. compute_now c (CLIBackend run) (pools_by_guid pl) w = (w', Inr plan) \<and> Blockers plan \<noteq> [])"
proof -
  let ?be = "CLIBackend run"
  have run: "(case compute_now c ?be (pools_by_guid pl) w of
       (w3, Inl e) \<Rightarrow> (w3, Returned (Some e))
     | (w3, Inr plan) \<Rightarrow>
         if Blockers plan \<noteq> [] then (w3, Exited 1)
         else if Actions plan = [] then (w3, Returned None)
         else apply_and_check c ?be (pools_by_guid pl) plan w3) = (w', r)"
    using assms(5) unfolding migrate_run_def assms(3) Let_def assms(2) by (simp add: assms(4)) (simp only: not_True_eq_False if_False)
  then obtain w3 plan where p: "compute_now c ?be (pools_by_guid pl) w = (w3, Inr plan)" using assms(6) by (auto split: prod.splits sum.splits)
  have "Blockers plan \<noteq> []"
  proof
    assume b: "Blockers plan = []"
    then have "apply_and_check c ?be (pools_by_guid pl) plan w3 = (w', r)" using run p assms(6) by (auto split: if_splits)
    from store.migration_completes [OF assms(1) p b this] assms(6) show False by blast
  qed
  moreover from this have "w' = w3" using run p by simp
  moreover have "ov w3 = ov w \<and> dv w3 = dv w \<and> sv w3 = sv w" by (rule store.compute_now_result [OF assms(1) p]) blast
  ultimately show ?thesis using p by blast
qed

end

end
