(* ===== verification/MigrateDemo.thy ===== *)
theory MigrateDemo
  imports MigrateBackend ApiStore
begin

text \<open>
  A cluster to migrate: the objects of a pool with their labels beside the small API server, a \<open>zfs\<close> that answers the
  four commands of the migration behind \<open>kubectl exec\<close>, and the client. The locales of the migration are
  interpreted on it.
\<close>

type_synonym mig_world = "Obj list \<times> api"

subsection \<open>zfs\<close>

definition below :: "string \<Rightarrow> Obj \<Rightarrow> bool" where
  "below root o' \<longleftrightarrow> before CHR ''@'' (obj_Name o') = root \<or> HasPrefix (before CHR ''@'' (obj_Name o')) (root @ ''/'')"

definition list_row :: "Obj \<Rightarrow> string list" where
  "list_row o' = [obj_Name o', if obj_Origin o' = '''' then ''-'' else obj_Origin o', if obj_Deferred o' then ''on'' else ''off'']"

definition get_rows :: "Obj \<Rightarrow> string list list" where
  "get_rows o' = map (\<lambda>p. [obj_Name o', p, label p o']) (filter (\<lambda>p. label p o' \<noteq> '''') [PropRole, PropOwner])"

definition no_such :: "goerr \<times> string option" where
  "no_such = (errorf ''exit status 1'', Some ''cannot open: dataset does not exist'')"

definition mig_zfs :: "string list \<Rightarrow> mig_world \<Rightarrow> mig_world \<times> (goerr \<times> string option + string)" where
  "mig_zfs args w =
     (if args = list_args (last args) then
        (w, if filter (below (last args)) (fst w) = [] then Inl no_such
            else Inr (rows_text (map list_row (filter (below (last args)) (fst w)))))
      else if args = get_args (last args) then (w, Inr (rows_text (concat (map get_rows (filter (below (last args)) (fst w))))))
      else case args of
             [op, a, n] \<Rightarrow>
               if op = ''set'' then ((map (relabel n (before CHR ''='' a) (after CHR ''='' a)) (fst w), snd w), Inr '''')
               else if op = ''destroy'' \<and> a = ''-d'' then
                 ((if \<exists>o' \<in> set (fst w). obj_Origin o' = n then map (mark n) (fst w) else filter (\<lambda>o'. obj_Name o' \<noteq> n) (fst w), snd w), Inr '''')
               else (w, Inl no_such)
           | _ \<Rightarrow> (w, Inl no_such))"

definition mig_exec :: "mig_world Exec" where
  "mig_exec name args w = (case dropWhile (\<lambda>a. a \<noteq> ''--'') args of _ # prog # as \<Rightarrow> mig_zfs as w | _ \<Rightarrow> (w, Inl no_such))"

definition mig_run :: "mig_world Runner" where
  "mig_run = kubectl_runner mig_exec '''' ''zfs'' ''toolbox-0''"

definition mig_client :: "mig_world MigrateClient" where
  "mig_client = Reader.extend api_reader
     \<lparr>list_toolbox = (\<lambda>ns w. (w, Inr [''toolbox-0''])),
      update_status_ZfsDataset = (\<lambda>d. api_change a_datasets a_datasets_update (om_Name (zd_Meta d)) (\<lambda>x. x\<lparr>zd_Status := zd_Status d\<rparr>)),
      update_status_ZfsSnapshot = (\<lambda>s. api_change a_snapshots a_snapshots_update (om_Name (zs_Meta s)) (\<lambda>x. x\<lparr>zs_Status := zs_Status s\<rparr>)),
      mc_update_ZfsSnapshot = (\<lambda>s. api_change a_snapshots a_snapshots_update (om_Name (zs_Meta s)) (\<lambda>x. x\<lparr>zs_Spec := zs_Spec s\<rparr>)),
      mc_Now = (\<lambda>w. (w, 9))\<rparr>"

subsection \<open>What is kept of the world\<close>

definition obj_ok :: "Obj \<Rightarrow> bool" where
  "obj_ok o' \<longleftrightarrow> plain_field (obj_Name o') \<and> plain_field (obj_Origin o') \<and> plain_field (obj_Role o') \<and> plain_field (obj_Owner o') \<and>
     obj_Origin o' \<noteq> ''-'' \<and> (\<exists>ch \<in> set (obj_Name o'). \<not> isSpace ch)"

definition keyed :: "('o \<Rightarrow> string) \<Rightarrow> (string, 'o) gomap \<Rightarrow> bool" where
  "keyed name m \<longleftrightarrow> distinct (keys m) \<and> (\<forall>(n, x) \<in> set m. name x = n)"

definition mig_ok :: "mig_world \<Rightarrow> bool" where
  "mig_ok w \<longleftrightarrow>
     distinct (map obj_Name (fst w)) \<and> list_all obj_ok (fst w) \<and>
     keyed (\<lambda>d. om_Name (zd_Meta d)) (a_datasets (snd w)) \<and> keyed (\<lambda>s. om_Name (zs_Meta s)) (a_snapshots (snd w)) \<and>
     list_all (\<lambda>d. plain_field (om_UID (zd_Meta d)) \<and> zds_Type (zd_Spec d) \<noteq> '''') (map snd (a_datasets (snd w))) \<and>
     list_all (\<lambda>s. plain_field (om_UID (zs_Meta s))) (map snd (a_snapshots (snd w)))"

definition mig_datasets :: "mig_world \<Rightarrow> ZfsDataset list" where
  "mig_datasets w = map snd (a_datasets (snd w))"

definition mig_snapshots :: "mig_world \<Rightarrow> ZfsSnapshot list" where
  "mig_snapshots w = map snd (a_snapshots (snd w))"

lemma keyed_distinct: "keyed name m \<Longrightarrow> map name (map snd m) = keys m"
  by (auto simp: keyed_def keys_def)

lemma keyed_change:
  assumes "keyed name m" "\<And>x. name (f x) = name x"
  shows "keyed name (mmod n f m)" "map snd (mmod n f m) = map (\<lambda>x. if name x = n then f x else x) (map snd m)"
proof -
  have k: "keys (mmod n f m) = keys m" by (induction m) (auto simp: mmod_def keys_def)
  show "keyed name (mmod n f m)" unfolding keyed_def k using assms by (auto simp: keyed_def mmod_def)
  show "map snd (mmod n f m) = map (\<lambda>x. if name x = n then f x else x) (map snd m)" using assms(1) by (auto simp: keyed_def mmod_def)
qed

lemma mig_client_simps [simp]:
  "list_ZfsDataset mig_client w = (w, Inr (mig_datasets w))" "list_ZfsSnapshot mig_client w = (w, Inr (mig_snapshots w))"
  "get_ZfsDataset mig_client n w = api_get a_datasets n w" "get_ZfsSnapshot mig_client n w = api_get a_snapshots n w"
  "mc_Now mig_client w = (w, 9)" "list_toolbox mig_client ns w = (w, Inr [''toolbox-0''])"
  "update_status_ZfsDataset mig_client d = api_change a_datasets a_datasets_update (om_Name (zd_Meta d)) (\<lambda>x. x\<lparr>zd_Status := zd_Status d\<rparr>)"
  "update_status_ZfsSnapshot mig_client s = api_change a_snapshots a_snapshots_update (om_Name (zs_Meta s)) (\<lambda>x. x\<lparr>zs_Status := zs_Status s\<rparr>)"
  "mc_update_ZfsSnapshot mig_client s = api_change a_snapshots a_snapshots_update (om_Name (zs_Meta s)) (\<lambda>x. x\<lparr>zs_Spec := zs_Spec s\<rparr>)"
  by (simp_all add: mig_client_def api_reader_def Reader.defs api_list_def mig_datasets_def mig_snapshots_def)

lemma mig_run_zfs:
  "mig_run ''zfs'' args w =
     (case mig_zfs args w of
        (w1, Inl (e, Some stderr)) \<Rightarrow> (w1, Inl (errorf (''zfs'' @ '' '' @ Join '' '' args @ '': '' @ err_text e @ '': '' @ TrimSpace stderr)))
      | (w1, Inl (e, None)) \<Rightarrow> (w1, Inl e)
      | (w1, Inr out) \<Rightarrow> (w1, Inr out))"
  by (simp add: mig_run_def kubectl_runner_def mig_exec_def)

lemma mig_zfs_args [simp]:
  "mig_zfs (list_args root) w = (w, if filter (below root) (fst w) = [] then Inl no_such else Inr (rows_text (map list_row (filter (below root) (fst w)))))"
  "mig_zfs (get_args root) w = (w, Inr (rows_text (concat (map get_rows (filter (below root) (fst w))))))"
  "mig_zfs [''set'', a, n] w = ((map (relabel n (before CHR ''='' a) (after CHR ''='' a)) (fst w), snd w), Inr '''')"
  "mig_zfs [''destroy'', ''-d'', n] w =
     ((if \<exists>o' \<in> set (fst w). obj_Origin o' = n then map (mark n) (fst w) else filter (\<lambda>o'. obj_Name o' \<noteq> n) (fst w), snd w), Inr '''')"
  by (simp_all add: mig_zfs_def list_args_def get_args_def)

lemma within_below: "withinOneLevel (obj_Name o') root \<Longrightarrow> below root o'"
  by (auto simp: withinOneLevel_def below_def Let_def)

lemma plain_words [simp]: "plain_field PropRole" "plain_field PropOwner" "plain_field ''-''" "plain_field ''on''" "plain_field ''off''"
  by (simp_all add: plain_field_def)

lemma list_row_ok: "obj_ok o' \<Longrightarrow> row_ok (list_row o') \<and> object_row o' (list_row o')"
  by (auto simp: obj_ok_def row_ok_def object_row_def list_row_def)

lemma in_get_rows: "f \<in> set (get_rows o') \<longleftrightarrow> (\<exists>p \<in> {PropRole, PropOwner}. label p o' \<noteq> '''' \<and> f = [obj_Name o', p, label p o'])"
  unfolding get_rows_def set_map set_filter list.set by blast

lemma get_rows_ok: "obj_ok o' \<Longrightarrow> f \<in> set (get_rows o') \<Longrightarrow> row_ok f \<and> label_row o' f"
  unfolding in_get_rows by (auto simp: obj_ok_def row_ok_def label_row_def label_def)

lemma before_eq: "p \<in> {PropRole, PropOwner} \<Longrightarrow> before CHR ''='' (p @ ''='' @ v) = p \<and> after CHR ''='' (p @ ''='' @ v) = v"
  by (auto simp: before_def after_def)

lemma mig_ok_zfs:
  assumes "mig_ok w" "list_all obj_ok os" "distinct (map obj_Name os)"
  shows "mig_ok (os, snd w)"
  using assms by (simp add: mig_ok_def)

interpretation mig_pool: zfs_objects mig_run mig_ok fst "\<lambda>w. (mig_datasets w, mig_snapshots w)"
proof
  fix w w' :: mig_world and root out e n p v
  assume ok: "mig_ok w"
  then have os: "distinct (map obj_Name (fst w))" "\<And>o'. o' \<in> set (fst w) \<Longrightarrow> obj_ok o'" by (auto simp: mig_ok_def list_all_iff)
  show "distinct (map obj_Name (fst w))" by (rule os)
  show "mig_ok w' \<and> fst w' = fst w \<and> (mig_datasets w', mig_snapshots w') = (mig_datasets w, mig_snapshots w) \<and>
      (\<exists>rows. out = rows_text rows \<and> (\<forall>f \<in> set rows. row_ok f \<and> (\<exists>o' \<in> set (fst w). object_row o' f)) \<and>
         (\<forall>o' \<in> set (fst w). withinOneLevel (obj_Name o') root \<longrightarrow> (\<exists>f \<in> set rows. f ! 0 = obj_Name o')))"
    if r: "mig_run ''zfs'' (list_args root) w = (w', Inr out)"
  proof -
    have "w' = w" "out = rows_text (map list_row (filter (below root) (fst w)))" using r by (auto simp: mig_run_zfs no_such_def split: if_splits)
    moreover have "\<exists>o' \<in> set (fst w). object_row o' f" "row_ok f" if "f \<in> set (map list_row (filter (below root) (fst w)))" for f
      using that list_row_ok [OF os(2)] by auto
    moreover have "\<exists>f \<in> set (map list_row (filter (below root) (fst w))). f ! 0 = obj_Name o'" if "o' \<in> set (fst w)" "withinOneLevel (obj_Name o') root" for o'
      using that within_below [OF that(2)] by (intro bexI [of _ "list_row o'"]) (auto simp: list_row_def)
    ultimately show ?thesis using ok by blast
  qed
  show "mig_ok w' \<and> fst w' = fst w \<and> (mig_datasets w', mig_snapshots w') = (mig_datasets w, mig_snapshots w) \<and>
      (\<forall>o' \<in> set (fst w). \<not> withinOneLevel (obj_Name o') root)"
    if r: "mig_run ''zfs'' (list_args root) w = (w', Inl e)"
    using r ok within_below by (auto simp: mig_run_zfs no_such_def filter_empty_conv split: if_splits)
  show "mig_ok w' \<and> fst w' = fst w \<and> (mig_datasets w', mig_snapshots w') = (mig_datasets w, mig_snapshots w) \<and>
      (\<exists>rows. out = rows_text rows \<and> (\<forall>f \<in> set rows. row_ok f \<and> (\<exists>o' \<in> set (fst w). label_row o' f)) \<and>
         (\<forall>o' \<in> set (fst w). \<forall>p \<in> {PropRole, PropOwner}. withinOneLevel (obj_Name o') root \<longrightarrow> label p o' \<noteq> '''' \<longrightarrow>
            (\<exists>f \<in> set rows. f ! 0 = obj_Name o' \<and> f ! 1 = p)))"
    if r: "mig_run ''zfs'' (get_args root) w = (w', Inr out)"
  proof -
    let ?rows = "concat (map get_rows (filter (below root) (fst w)))"
    have "w' = w" "out = rows_text ?rows" using r by (auto simp: mig_run_zfs)
    moreover have "\<exists>f \<in> set (get_rows o'). f ! 0 = obj_Name o' \<and> f ! 1 = p" if "p \<in> {PropRole, PropOwner}" "label p o' \<noteq> ''''" for p o'
      using that by (intro bexI [of _ "[obj_Name o', p, label p o']"]) (auto simp: in_get_rows)
    then have "\<exists>f \<in> set ?rows. f ! 0 = obj_Name o' \<and> f ! 1 = p"
      if "o' \<in> set (fst w)" "p \<in> {PropRole, PropOwner}" "withinOneLevel (obj_Name o') root" "label p o' \<noteq> ''''" for p o'
      using that within_below [OF that(3)] by auto
    moreover have "row_ok f" "\<exists>o' \<in> set (fst w). label_row o' f" if "f \<in> set ?rows" for f
      using that get_rows_ok [OF os(2)] by auto
    ultimately show ?thesis using ok by blast
  qed
  show "mig_ok w' \<and> fst w' = map (relabel n p v) (fst w) \<and> (mig_datasets w', mig_snapshots w') = (mig_datasets w, mig_snapshots w)"
    if r: "mig_run ''zfs'' [''set'', p @ ''='' @ v, n] w = (w', Inr out)" "p \<in> {PropRole, PropOwner}" "plain_field v"
  proof -
    have w': "w' = (map (relabel n p v) (fst w), snd w)" using r(1) before_eq [OF r(2), of v] by (simp add: mig_run_zfs)
    have "obj_ok (relabel n p v o')" if "obj_ok o'" for o' using that r(3) by (auto simp: relabel_def set_label_def obj_ok_def)
    moreover have "map obj_Name (map (relabel n p v) (fst w)) = map obj_Name (fst w)" by (simp add: relabel_def)
    ultimately have "mig_ok w'" unfolding w' using os by (intro mig_ok_zfs [OF ok]) (auto simp only: list_all_iff set_map)
    then show ?thesis by (simp add: w' mig_datasets_def mig_snapshots_def)
  qed
  show "mig_ok w' \<and> (fst w' = map (mark n) (fst w) \<or> fst w' = filter (\<lambda>o'. obj_Name o' \<noteq> n) (fst w)) \<and>
      (mig_datasets w', mig_snapshots w') = (mig_datasets w, mig_snapshots w)"
    if r: "mig_run ''zfs'' [''destroy'', ''-d'', n] w = (w', Inr out)"
  proof -
    have w': "w' = (map (mark n) (fst w), snd w) \<or> w' = (filter (\<lambda>o'. obj_Name o' \<noteq> n) (fst w), snd w)"
      using r by (auto simp: mig_run_zfs split: if_splits)
    have "obj_ok (mark n o')" if "obj_ok o'" for o' using that by (auto simp: mark_def obj_ok_def)
    moreover have "map obj_Name (map (mark n) (fst w)) = map obj_Name (fst w)" by (simp add: mark_def)
    ultimately have "mig_ok (map (mark n) (fst w), snd w)" "mig_ok (filter (\<lambda>o'. obj_Name o' \<noteq> n) (fst w), snd w)"
      using os by (auto intro!: mig_ok_zfs [OF ok] simp only: list_all_iff set_map set_filter distinct_map_filter)
    then show ?thesis using w' by (auto simp: mig_datasets_def mig_snapshots_def)
  qed
qed

lemma mig_keyed:
  assumes "mig_ok w"
  shows "keyed (\<lambda>d. om_Name (zd_Meta d)) (a_datasets (snd w))" "keyed (\<lambda>s. om_Name (zs_Meta s)) (a_snapshots (snd w))"
  using assms by (simp_all add: mig_ok_def)

lemma api_get_keyed:
  assumes "keyed name (sel (snd w))" "api_get sel n w = (w', Inr x)"
  shows "w' = w \<and> x \<in> set (map snd (sel (snd w))) \<and> name x = n"
proof -
  have "w' = w" "map_of (sel (snd w)) n = Some x" using assms(2) by (auto simp: api_get_def split: option.splits)
  then show ?thesis using assms(1) map_of_SomeD [of "sel (snd w)" n x] by (force simp: keyed_def)
qed

lemma list_all_write: "list_all P xs \<Longrightarrow> (\<And>x. P x \<Longrightarrow> P (f x)) \<Longrightarrow> list_all P (map (\<lambda>x. if Q x then f x else x) xs)"
  by (auto simp: list_all_iff)

lemma mig_snapshot_change:
  assumes ok: "mig_ok w" and f: "\<And>x. zs_Meta (f x) = zs_Meta x"
    and r: "api_change a_snapshots a_snapshots_update n f w = (w', None)"
  shows "mig_ok w' \<and> fst w' = fst w \<and> mig_datasets w' = mig_datasets w \<and>
    mig_snapshots w' = map (\<lambda>x. if om_Name (zs_Meta x) = n then f x else x) (mig_snapshots w)"
proof -
  have w': "w' = (fst w, a_snapshots_update (mmod n f) (snd w))" using r by (auto simp: api_change_def split: if_splits)
  have k: "keyed (\<lambda>s. om_Name (zs_Meta s)) (mmod n f (a_snapshots (snd w)))"
    "map snd (mmod n f (a_snapshots (snd w))) = map (\<lambda>x. if om_Name (zs_Meta x) = n then f x else x) (map snd (a_snapshots (snd w)))"
    by (rule keyed_change [OF mig_keyed(2) [OF ok]], simp add: f)+
  have p: "list_all (\<lambda>s. plain_field (om_UID (zs_Meta s))) (map snd (a_snapshots (snd w)))" using ok by (simp add: mig_ok_def)
  have "list_all (\<lambda>s. plain_field (om_UID (zs_Meta s))) (map snd (mmod n f (a_snapshots (snd w))))"
    unfolding k(2) by (rule list_all_write [OF p]) (simp add: f)
  then have "mig_ok w'" using ok k(1) unfolding mig_ok_def w' by simp
  then show ?thesis using k(2) by (simp add: w' mig_datasets_def mig_snapshots_def)
qed

lemma mig_dataset_change:
  assumes ok: "mig_ok w" and f: "\<And>x. zd_Meta (f x) = zd_Meta x" "\<And>x. zd_Spec (f x) = zd_Spec x"
    and r: "api_change a_datasets a_datasets_update n f w = (w', None)"
  shows "mig_ok w' \<and> fst w' = fst w \<and> mig_snapshots w' = mig_snapshots w \<and>
    mig_datasets w' = map (\<lambda>x. if om_Name (zd_Meta x) = n then f x else x) (mig_datasets w)"
proof -
  have w': "w' = (fst w, a_datasets_update (mmod n f) (snd w))" using r by (auto simp: api_change_def split: if_splits)
  have k: "keyed (\<lambda>d. om_Name (zd_Meta d)) (mmod n f (a_datasets (snd w)))"
    "map snd (mmod n f (a_datasets (snd w))) = map (\<lambda>x. if om_Name (zd_Meta x) = n then f x else x) (map snd (a_datasets (snd w)))"
    by (rule keyed_change [OF mig_keyed(1) [OF ok]], simp add: f)+
  have p: "list_all (\<lambda>d. plain_field (om_UID (zd_Meta d)) \<and> zds_Type (zd_Spec d) \<noteq> '''') (map snd (a_datasets (snd w)))" using ok by (simp add: mig_ok_def)
  have "list_all (\<lambda>d. plain_field (om_UID (zd_Meta d)) \<and> zds_Type (zd_Spec d) \<noteq> '''') (map snd (mmod n f (a_datasets (snd w))))"
    unfolding k(2) by (rule list_all_write [OF p]) (simp add: f)
  then have "mig_ok w'" using ok k(1) unfolding mig_ok_def w' by simp
  then show ?thesis using k(2) by (simp add: w' mig_datasets_def mig_snapshots_def)
qed

interpretation mig_api: migrate_client mig_client mig_ok fst mig_datasets mig_snapshots plain_field
proof
  fix w w' :: mig_world and n
  assume ok: "mig_ok w"
  show "distinct (map (\<lambda>d. om_Name (zd_Meta d)) (mig_datasets w)) \<and> distinct (map (\<lambda>s. om_Name (zs_Meta s)) (mig_snapshots w))"
    using mig_keyed [OF ok, THEN keyed_distinct] mig_keyed [OF ok] unfolding mig_datasets_def mig_snapshots_def by (simp only: keyed_def)
  show "d \<in> set (mig_datasets w) \<Longrightarrow> plain_field (om_UID (zd_Meta d))" "d \<in> set (mig_datasets w) \<Longrightarrow> zds_Type (zd_Spec d) \<noteq> ''''" for d
    using ok by (auto simp: mig_ok_def list_all_iff mig_datasets_def)
  show "s \<in> set (mig_snapshots w) \<Longrightarrow> plain_field (om_UID (zs_Meta s))" for s
    using ok by (auto simp: mig_ok_def list_all_iff mig_snapshots_def)
  show "get_ZfsDataset mig_client n w = (w', Inr d) \<Longrightarrow> mig_ok w' \<and> fst w' = fst w \<and> mig_datasets w' = mig_datasets w \<and>
      mig_snapshots w' = mig_snapshots w \<and> d \<in> set (mig_datasets w) \<and> om_Name (zd_Meta d) = n" for d
    using ok api_get_keyed [where sel = a_datasets, OF mig_keyed(1) [OF ok], of n w' d] unfolding mig_client_simps mig_datasets_def by blast
  show "get_ZfsSnapshot mig_client n w = (w', Inr s) \<Longrightarrow> mig_ok w' \<and> fst w' = fst w \<and> mig_datasets w' = mig_datasets w \<and>
      mig_snapshots w' = mig_snapshots w \<and> s \<in> set (mig_snapshots w) \<and> om_Name (zs_Meta s) = n" for s
    using ok api_get_keyed [where sel = a_snapshots, OF mig_keyed(2) [OF ok], of n w' s] unfolding mig_client_simps mig_snapshots_def by blast
  show "update_status_ZfsDataset mig_client d w = (w', None) \<Longrightarrow> mig_ok w' \<and> fst w' = fst w \<and> mig_snapshots w' = mig_snapshots w \<and>
      mig_datasets w' = map (\<lambda>x. if om_Name (zd_Meta x) = om_Name (zd_Meta d) then x\<lparr>zd_Status := zd_Status d\<rparr> else x) (mig_datasets w)" for d
    unfolding mig_client_simps by (rule mig_dataset_change [OF ok]) simp_all
  show "update_status_ZfsSnapshot mig_client s w = (w', None) \<Longrightarrow> mig_ok w' \<and> fst w' = fst w \<and> mig_datasets w' = mig_datasets w \<and>
      mig_snapshots w' = map (\<lambda>x. if om_Name (zs_Meta x) = om_Name (zs_Meta s) then x\<lparr>zs_Status := zs_Status s\<rparr> else x) (mig_snapshots w)"
    "mc_update_ZfsSnapshot mig_client s w = (w', None) \<Longrightarrow> mig_ok w' \<and> fst w' = fst w \<and> mig_datasets w' = mig_datasets w \<and>
      mig_snapshots w' = map (\<lambda>x. if om_Name (zs_Meta x) = om_Name (zs_Meta s) then x\<lparr>zs_Spec := zs_Spec s\<rparr> else x) (mig_snapshots w)" for s
    unfolding mig_client_simps by (rule mig_snapshot_change [OF ok]; simp)+
qed (simp_all add: plain_field_def)

interpretation mig_cluster: zfs_migration mig_run mig_client mig_ok fst mig_datasets mig_snapshots
  by unfold_locales

subsection \<open>A cluster before the migration\<close>

definition old_dataset :: ZfsDataset where
  "old_dataset =
     \<lparr>zd_Meta = (new_meta ''pvc-1'')\<lparr>om_UID := ''u1''\<rparr>,
      zd_Spec = \<lparr>zds_PoolGUID = ''42'', zds_Dataset = ''v/p'', zds_Type = DatasetTypeFilesystem, zds_Properties = [],
        zds_Filesystem = None, zds_Volume = None, zds_Source = None\<rparr>,
      zd_Status = \<lparr>zdst_Phase = DatasetPhaseReady, zdst_ProvisionedAt = None, zdst_CreationTime = None, zdst_Path = ''t/v/p'',
        zdst_FSType = '''', zdst_ObservedGeneration = 1, zdst_Message = '''', zdst_Conditions = []\<rparr>\<rparr>"

definition old_snapshot :: ZfsSnapshot where
  "old_snapshot =
     \<lparr>zs_Meta = (new_meta ''s1'')\<lparr>om_UID := ''u2''\<rparr>,
      zs_Spec = \<lparr>zss_PoolGUID = ''42'', zss_Dataset = ''v/p'', zss_SnapshotName = ''csi-snap-1'', zss_SourceVolume = ''pvc-1'', zss_SourceType = '''',
        zss_SourceFSType = '''', zss_SourceVolblocksize = '''', zss_SourceProperties = [], zss_GroupSnapshotID = ''''\<rparr>,
      zs_Status = zero_snapshot_status\<lparr>zsst_Phase := SnapshotPhaseReady\<rparr>\<rparr>"

definition old_pool :: ZfsPool where
  "old_pool =
     \<lparr>zp_Meta = new_meta ''zpool-42'',
      zp_Status = \<lparr>zpst_GUID = ''42'', zpst_PoolName = ''t'', zpst_CurrentNode = ''a'', zpst_CurrentIP = '''', zpst_BaseMountPath = ''/t'',
        zpst_Health = PoolHealthOnline, zpst_LastUpdated = None, zpst_Message = ''''\<rparr>\<rparr>"

definition old_api :: api where
  "old_api = empty_api\<lparr>a_datasets := [(''pvc-1'', old_dataset)], a_snapshots := [(''s1'', old_snapshot)], a_pools := [(''zpool-42'', old_pool)]\<rparr>"

definition plain_obj :: "string \<Rightarrow> string \<Rightarrow> Obj" where
  "plain_obj n origin = \<lparr>obj_Name = n, obj_Origin = origin, obj_Role = '''', obj_Owner = '''', obj_Deferred = False\<rparr>"

definition old_objects :: "Obj list" where
  "old_objects =
     [plain_obj ''t/v'' '''', plain_obj ''t/v/p'' '''', plain_obj ''t/v/p@csi-snap-1'' '''', plain_obj ''t/v/csi-snap-1'' ''t/v/p@csi-snap-1'',
      plain_obj ''t/v/csi-snap-1@restore-source'' '''']"

text \<open>With an old snapshot on a dataset no object stands for.\<close>

definition stray_objects :: "Obj list" where
  "stray_objects = old_objects @ [plain_obj ''t/v/x'' '''', plain_obj ''t/v/x@restore-source'' '''']"

lemma old_ok: "mig_ok (old_objects, old_api)" "mig_ok (stray_objects, old_api)"
  by code_simp+

lemma old_runs:
  "map (\<lambda>o'. (obj_Name o', obj_Role o', obj_Owner o')) (fst (fst (migrate_run mig_client mig_exec '''' ''zfs'' True (old_objects, old_api)))) =
     [(''t/v'', '''', ''''), (''t/v/p'', RoleVolume, ''u1''), (''t/v/p@csi-snap-1'', RoleRaw, ''u2''), (''t/v/csi-snap-1'', RoleBacking, ''u2'')]"
  by code_simp

lemma old_ends: "snd (migrate_run mig_client mig_exec '''' ''zfs'' True (old_objects, old_api)) = Returned None"
  by code_simp

lemma stray_ends: "snd (migrate_run mig_client mig_exec '''' ''zfs'' True (stray_objects, old_api)) = Exited 1"
  by code_simp

end
