(* ===== verification/Spec2Isabelle.thy ===== *)
theory Spec2Isabelle
  imports Examples PoolStore ZfsCliSpec Conformance MigrateDemo
begin

text \<open>
  A verification development of simple-zfs-csi, a CSI driver that serves ZFS datasets and zvols to Kubernetes.

  \<^bold>\<open>The program.\<close> A volume is a custom resource \<open>ZfsDataset\<close>, a snapshot a \<open>ZfsSnapshot\<close>, several snapshots of one
  instant a \<open>ZfsGroupSnapshot\<close>, a pool a \<open>ZfsPool\<close> that the node it is imported on reports. The CSI controller
  service (\<open>src/internal/csi\<close>) turns calls of Kubernetes into these objects and waits for them. Agents on the
  storage nodes (\<open>src/internal/controller\<close>) reconcile them against ZFS (\<open>src/internal/zpool\<close>): they create, clone,
  snapshot, promote and destroy. To attach a volume to a node the service writes a \<open>ZfsShareAttachRequest\<close>; the
  operator derives one \<open>ZfsShare\<close> per volume from the requests, translates it into an NFS or NVMe-oF export
  object, and agents on the storage node bring the export to \<open>/etc/exports\<close> or to configfs. The node service
  mounts what it finds there. Scrubs run as Kubernetes jobs. A tool migrates pools of older releases.

  \<^bold>\<open>The model.\<close> Go code is translated function by function into state-passing HOL functions. A Go error is a value
  \<open>goerr\<close> (text and sentinel), a fallible call returns a sum or an option, a nil pointer is \<open>None\<close>, a Go map is an
  association list, \<open>int64\<close> is an \<open>int\<close> with the wrap-around written out where sums are taken. Everything outside the
  repository is a parameter: the Kubernetes client and its libraries (theories \<open>Kube\<close>, \<open>ShareTypes\<close>, \<open>CsiTypes\<close>), UUIDs,
  SHA-256, YAML and JSON, the random source, the clock, the operating system and the commands (\<open>HostFs\<close>). They are
  records of functions on an arbitrary world \<open>'w\<close>; what the code relies on is stated as the assumptions of a locale and
  every locale is interpreted on concrete definitions. Names are those of the source, with a prefix where two types
  have a method of the same name (\<open>Mem_\<close> for the in-memory ZFS, \<open>cli_\<close> for the command line, \<open>dr_\<close>, \<open>sr_\<close>, \<open>gr_\<close>
  for the agents of datasets, snapshots and groups, \<open>ar_\<close>, \<open>shr_\<close>, \<open>nr_\<close> for attach requests, shares and NFS,
  \<open>ns_\<close> and \<open>hm_\<close> for the node service and its mounter, \<open>pr_\<close>, \<open>pw_\<close>, \<open>sj_\<close>, \<open>sc_\<close> for pools and scrubs).

  \<^bold>\<open>Shared theories.\<close> \<open>Prelude\<close>: maps as association lists. \<open>GoLib\<close>: error values, \<open>strings\<close>, \<open>strconv\<close>, \<open>path\<close>, with
  the round trips the parsers rest on. \<open>ApiTypes\<close>: the custom resources (\<open>src/api/v1alpha1\<close>). \<open>Frame\<close>: what a
  procedure leaves alone, as rules that follow the shape of the code.

  \<^bold>\<open>ZFS.\<close> \<open>ZfsApi\<close>: the interface of \<open>zpool/zfs.go\<close>. \<open>MemZfs\<close>: \<open>zpool/memzfs/mem.go\<close>, every method; \<open>MemZfs_Inv\<close>,
  \<open>MemZfs_Promote\<close>, \<open>MemZfs_Ops\<close> prove its invariant (lineage of clones, no dangling origin, deferred snapshots have
  clones) for every method and give promote in closed form. \<open>ZfsCli\<close>: the command-line implementation in \<open>zfs.go\<close>,
  the runners of \<open>discover.go\<close>, \<open>hostexec.go\<close>, \<open>logging.go\<close>. \<open>ZfsCliSpec\<close>: over a \<open>zfs\<close> program that acts like the
  in-memory model, the command line refines it. \<open>Labels\<close>, \<open>LabelsMem\<close>: \<open>zpool/labels.go\<close>. \<open>Conformance\<close>: the suite
  \<open>zpool/zfsconf\<close>, run on the in-memory ZFS.

  \<^bold>\<open>Agents.\<close> \<open>Detach\<close>: \<open>controller/promote.go\<close>, the loop that empties a dataset of snapshots before it is destroyed;
  \<open>DetachSpec\<close> relates it to abstract shedding of the clone graph, \<open>DetachMem\<close> discharges the contract on the in-memory
  ZFS, with convergence. \<open>RawLocate\<close>, \<open>Track\<close>: \<open>rawlocate.go\<close> and why a raw snapshot is found after every promote.
  \<open>DatasetController\<close>, \<open>SnapshotController\<close>, \<open>GroupController\<close>: the three agents; \<open>DatasetSafety\<close>, \<open>SnapshotSafety\<close>,
  \<open>GroupSafety\<close> say what they never do, \<open>DatasetSize\<close>, \<open>VolumeDelete\<close>, \<open>GroupMem\<close> what they achieve on the in-memory
  ZFS. \<open>ApiStore\<close> and \<open>Examples\<close> are a small API server and concrete pools.

  \<^bold>\<open>CSI.\<close> \<open>CsiParams\<close>: \<open>csi/params.go\<close>. \<open>CsiTypes\<close>, \<open>CsiController\<close>, \<open>CsiSnapshots\<close>: \<open>controller.go\<close>, \<open>clone.go\<close>,
  \<open>snapshot.go\<close>, \<open>groupcontroller.go\<close>. \<open>CsiSpec\<close>, \<open>CsiLive\<close>, \<open>CsiDemo\<close>: retries, paging, what a successful call has
  seen, and that calls return. \<open>NodeServer\<close>, \<open>HostMounter\<close>: \<open>node.go\<close> and \<open>mount.go\<close>; \<open>NodeSafety\<close>, \<open>NodeStore\<close>: no
  device with data is formatted, publishing returns, and a concrete host.

  \<^bold>\<open>Sharing.\<close> \<open>AttachController\<close>, \<open>ShareController\<close>: the operator's side; \<open>NvmeAuth\<close>: \<open>nvmeauth.go\<close>; \<open>NfsExports\<close>,
  \<open>Nvmet\<close>, \<open>ExportController\<close>: the node's side (\<open>nfsserver/exports.go\<close>, \<open>nvmet/configfs.go\<close> and the two export
  controllers). \<open>AttachSafety\<close>, \<open>ExportSafety\<close>, \<open>ShareStore\<close>: who gets access, when readiness is reported, when an
  export is withdrawn.

  \<^bold>\<open>Pools and scrubs.\<close> \<open>PoolTools\<close>: \<open>discover.go\<close>, \<open>zpool_discovery.go\<close>, \<open>zpool_watcher.go\<close>, \<open>scrub.go\<close> and
  \<open>cmd/zpool-scrub\<close>. \<open>ScrubController\<close>: the two scrub reconcilers. \<open>PoolSafety\<close>, \<open>ScrubSafety\<close>, \<open>PoolStore\<close>: failover
  of a dead node, the phases of a run, where scrub jobs go.

  \<^bold>\<open>Migration.\<close> \<open>Migrate\<close>: \<open>migrate/migrate.go\<close>, the audit and its plan. \<open>MigrateCli\<close>: \<open>migrate/cli.go\<close> and
  \<open>cmd/zfs-migrate\<close>. \<open>MigrateSpec\<close> gives the plan in closed form; \<open>MigrateStore\<close> states what the API server and the pool do and
  what a list of actions leaves behind; \<open>MigrateClean\<close>: the audit after the actions is clean. \<open>MigrateBackend\<close>: the listing
  read from the lines of \<open>zfs\<close> is the set of objects, so a pool behind \<open>zfs\<close> is such a store. \<open>MigrateDemo\<close>: a cluster
  that is migrated.

  \<^bold>\<open>Bounds.\<close> Loops with a bound in the code keep it: a hundred rounds of the detach loop, twenty attempts of a promote.
  Loops that wait for something (\<open>poll\<close>, the wait for an NVMe device, the retries of a create that races) are
  \<open>partial_function (option)\<close>, where \<open>None\<close> is a call that never returns; that they return under a deadline that ticks
  is proved. The loop of the pool reporter, which only ends with its context, is given the number of its ticks. Nothing
  else needs fuel.

  \<^bold>\<open>This theory\<close> states the properties, most of them a few steps over the component theories, each with an application to
  a concrete state. Properties without a number support the ones around them.

  \<^bold>\<open>Not modelled.\<close> The wiring: \<open>SetupWithManager\<close>, the main functions but those of the scrub pod and the migration, the gRPC
  listener and the constant answers of \<open>identity.go\<close>; logging; \<open>nfsserver/server.go\<close>, which starts and watches daemons;
  \<open>kubeenv\<close>, which reads one file; the generated deep copies, which are identities on values.
\<close>

section \<open>The in-memory ZFS\<close>

text \<open>C1. Every state the in-memory ZFS can reach from \<open>New\<close> by calls of its methods satisfies the
  well-formedness invariant (lineage, no dangling origins, deferred snapshots have clones, parents
  exist), and the method \<open>Check\<close> finds nothing to report.\<close>

theorem mem_reachable_consistent:
  assumes "mem_reachable m"
  shows "mem_inv m \<and> Mem_Check m = None"
  using assms reachable_inv mem_inv_Check by blast

theorem mem_reachable_consistent_witness: "mem_reachable demo \<and> mem_inv demo \<and> Mem_Check demo = None"
  using mem_reachable_consistent [OF demo_reachable] demo_reachable by blast



text \<open>No promote on a reachable state dereferences a nil pointer: the origin's dataset and snapshot are
  always there (an injected error is passed through).\<close>

theorem promote_never_panics:
  assumes "mem_reachable m" "no_panic_inj m" "snd (Mem_Promote n m) = Some e"
  shows "\<not> errors_Is e SPanic"
  using reachable_inv [OF assms(1)]
  by (cases rule: Promote_cases [where n = n]) (use assms(2,3) in auto)

theorem promote_never_panics_witness:
  "\<exists>e. snd (Mem_Promote ''tank/none'' demo) = Some e \<and> \<not> errors_Is e SPanic"
proof -
  have "m_inj demo = []" "snd (Mem_Promote ''tank/none'' demo) \<noteq> None" by code_simp+
  then show ?thesis using promote_never_panics [OF demo_reachable, of "''tank/none''"] by (auto simp: no_panic_inj_def)
qed

text \<open>C3. One snapshot call is atomic: it changes no snapshot, or takes every snapshot it names, on
  existing datasets, under names that were free, all in one new transaction group, and touches no
  other snapshot.\<close>

theorem snapshot_atomic:
  assumes "Mem_Snapshot names m = (m', r)"
  shows "(\<forall>dn sn. snap_in (m_ds m') dn sn = snap_in (m_ds m) dn sn) \<or>
    (r = None \<and> m_txg m' = m_txg m + 1 \<and>
     (\<forall>dn sn. snap_in (m_ds m') dn sn =
        (if snap_full dn sn \<in> set names \<and> is_name dn then Some (new_snap sn (m_txg m + 1)) else snap_in (m_ds m) dn sn)) \<and>
     (\<forall>dn sn. snap_full dn sn \<in> set names \<and> is_name dn \<longrightarrow> map_of (m_ds m) dn \<noteq> None \<and> snap_in (m_ds m) dn sn = None))"
  using Snapshot_cases [OF assms] by auto

theorem snapshot_atomic_witness:
  "snap_in (m_ds (fst (Mem_Snapshot [''tank/k8s@a'', ''tank/k8s/vol@a''] demo))) ''tank/k8s'' ''a'' =
   Some (new_snap ''a'' 2)"
proof -
  let ?r = "Mem_Snapshot [''tank/k8s@a'', ''tank/k8s/vol@a''] demo"
  have facts: "snap_in (m_ds (fst ?r)) ''tank/k8s'' ''a'' \<noteq> snap_in (m_ds demo) ''tank/k8s'' ''a''" "m_txg demo + 1 = 2"
    "snap_full ''tank/k8s'' ''a'' \<in> set [''tank/k8s@a'', ''tank/k8s/vol@a''] \<and> is_name ''tank/k8s''"
    by code_simp+
  have "\<forall>dn sn. snap_in (m_ds (fst ?r)) dn sn = (if snap_full dn sn \<in> set [''tank/k8s@a'', ''tank/k8s/vol@a''] \<and> is_name dn
      then Some (new_snap sn (m_txg demo + 1)) else snap_in (m_ds demo) dn sn)"
    using snapshot_atomic [OF prod.collapse [symmetric], of "[''tank/k8s@a'', ''tank/k8s/vol@a'']" demo] facts(1) by blast
  from this [rule_format, of "''tank/k8s''" "''a''"] show ?thesis unfolding facts(2) if_P [OF facts(3)] .
qed

text \<open>A non-recursive destroy of a dataset, whatever its outcome, leaves every other dataset with its
  kind, properties, size and origin, leaves every snapshot that is not marked for deferred
  destruction, adds none, and on success the dataset is gone.\<close>

theorem destroy_is_local:
  assumes "mem_reachable m" "is_name n" "Mem_Destroy n False m = (m', e)"
  shows "(\<forall>k. k \<noteq> n \<longrightarrow> map_option core (map_of (m_ds m') k) = map_option core (map_of (m_ds m) k)) \<and>
    (\<forall>dn sn s. snap_in (m_ds m) dn sn = Some s \<and> \<not> sn_deferred s \<longrightarrow> snap_in (m_ds m') dn sn = Some s) \<and>
    (\<forall>dn sn s. snap_in (m_ds m') dn sn = Some s \<longrightarrow> snap_in (m_ds m) dn sn = Some s) \<and>
    (e = None \<longrightarrow> map_of (m_ds m') n = None)"
  using Destroy_keeps [OF reachable_inv [OF assms(1)] assms(2,3)] by blast

theorem destroy_is_local_witness:
  "map_of (m_ds (fst (Mem_Destroy ''tank/k8s/csi-snap-1'' False demo))) ''tank/k8s/csi-snap-1'' = None"
proof -
  have "is_name ''tank/k8s/csi-snap-1''" "snd (Mem_Destroy ''tank/k8s/csi-snap-1'' False demo) = None" by code_simp+
  with destroy_is_local [OF demo_reachable this(1) surjective_pairing] show ?thesis by blast
qed

section \<open>Emptying a dataset\<close>

text \<open>C4. The detach loop refines shedding: seen through the clone graph, every run, whatever its outcome, is a
  sequence of the two abstract steps (drop a snapshot of the dataset that nothing clones; promote a clone of
  one of its snapshots), and when it reports success the dataset has no snapshot left, so that a non-recursive
  destroy does not meet any.\<close>

theorem detach_refines_shedding:
  assumes "mem_inv (fst w)" "quiet_reader mem_view c"
    "detachAndCleanSnapshots c (lift_ZFS mem_ZFS) g p full w = (w', r)"
  shows "mg.shed full (mem_view w) (mem_view w') \<and> (r = None \<longrightarrow> graph_snaps (mem_view w') full = {})"
  using mg.detach_rounds_shed [OF assms(2), of w] assms(1,3) unfolding detachAndCleanSnapshots_def mem_inv_view by blast

theorem detach_refines_shedding_witness:
  "graph_snaps (mem_view (fst (detachAndCleanSnapshots demo_reader (lift_ZFS mem_ZFS) ''42'' ''tank'' ''tank/k8s/vol'' (demo, ())))) ''tank/k8s/vol'' = {}"
proof -
  let ?r = "detachAndCleanSnapshots demo_reader (lift_ZFS mem_ZFS) ''42'' ''tank'' ''tank/k8s/vol'' (demo, ())"
  have "snd ?r = None" by code_simp
  then have "?r = (fst ?r, None)" by (metis prod.collapse)
  moreover have "mem_inv (fst (demo, ()))" "quiet_reader mem_view demo_reader" using demo_inv demo_quiet by simp_all
  ultimately show ?thesis using detach_refines_shedding [of "(demo, ())" demo_reader "''42''" "''tank''" "''tank/k8s/vol''" "fst ?r" None] by blast
qed

text \<open>Whatever the outcome of the loop, it loses nothing that is needed: every dataset stays with its
  kind, properties and size, every snapshot of another dataset stays where it is, and every snapshot
  of the dataset that had a clone still exists unchanged and still has a clone.\<close>

theorem detach_loses_nothing:
  assumes "mem_inv (fst w)" "quiet_reader mem_view c"
    "detachAndCleanSnapshots c (lift_ZFS mem_ZFS) g p full w = (w', r)"
  shows "mem_inv (fst w') \<and> keeps_data full (m_ds (fst w)) (m_ds (fst w'))"
  using detach_mem(1,2) [OF assms] by simp

theorem detach_loses_nothing_witness:
  "keeps_data ''tank/k8s/vol'' (m_ds demo)
     (m_ds (fst (fst (detachAndCleanSnapshots demo_reader (lift_ZFS mem_ZFS) ''42'' ''tank'' ''tank/k8s/vol'' (demo, ())))))"
  using detach_loses_nothing [of "(demo, ())" demo_reader "''42''" "''tank''" "''tank/k8s/vol''"] demo_inv demo_quiet
  by (metis fst_conv prod.collapse)

text \<open>C5. The loop reaches its end: when the snapshots are the driver's and their short names unique, the
  clones are known to the driver, ZFS calls do not fail, and the dataset has fewer snapshots than
  the loop has rounds, then it succeeds.\<close>

theorem detach_converges:
  assumes "mem_inv (fst w)" "m_inj (fst w) = []" "answers c dl sl"
    "detachable (is_known (known_paths g dl) (backing_names g sl) p) full (m_ds (fst w))"
    "card {sn. snap_in (m_ds (fst w)) full sn \<noteq> None} < maxDetachRounds"
  shows "snd (detachAndCleanSnapshots c (lift_ZFS mem_ZFS) g p full w) = None"
  using detach_mem_live [OF assms] .

theorem detach_converges_witness:
  "snd (detachAndCleanSnapshots demo_reader (lift_ZFS mem_ZFS) ''42'' ''tank'' ''tank/k8s/vol'' (demo, ())) = None"
proof -
  have "m_inj demo = []" "length (all_snaps (m_ds demo)) < maxDetachRounds" by code_simp+
  with detach_converges [of "(demo, ())" demo_reader "[]" "[demo_snapshot]" "''42''" "''tank''" "''tank/k8s/vol''"]
    demo_inv demo_answers demo_detachable few_snaps [of "m_ds demo" "''tank/k8s/vol''"]
  show ?thesis by simp
qed

text \<open>C6. A snapshot whose name is not one of the driver's stops the loop before it touches anything: the
  error names such a snapshot and the world is unchanged.\<close>

theorem detach_refuses_foreign:
  assumes "mem_inv (fst w)" "snap_in (m_ds (fst w)) full sn \<noteq> None" "\<not> driverSnapshotSuffix sn"
  shows "\<exists>sn'. snap_in (m_ds (fst w)) full sn' \<noteq> None \<and>
    detachAndCleanSnapshots c (lift_ZFS mem_ZFS) g p full w = (w, Some (foreign_snapshot_err (snap_full full sn')))"
  using detach_foreign_mem [OF assms] .

theorem detach_refuses_foreign_witness:
  "\<exists>(w :: Mem \<times> unit) e. fst w = fst (Mem_Snapshot [''tank/k8s/vol@manual''] demo) \<and>
     detachAndCleanSnapshots demo_reader (lift_ZFS mem_ZFS) ''42'' ''tank'' ''tank/k8s/vol'' w = (w, Some e)"
proof -
  let ?w = "(fst (Mem_Snapshot [''tank/k8s/vol@manual''] demo), ())"
  have "mem_inv (fst ?w)" using Snapshot_inv [OF demo_inv] by simp
  moreover have "snap_in (m_ds (fst ?w)) ''tank/k8s/vol'' ''manual'' \<noteq> None" "\<not> driverSnapshotSuffix ''manual''" by code_simp+
  ultimately obtain sn' where
    "detachAndCleanSnapshots demo_reader (lift_ZFS mem_ZFS) ''42'' ''tank'' ''tank/k8s/vol'' ?w =
     (?w, Some (foreign_snapshot_err (snap_full ''tank/k8s/vol'' sn')))"
    using detach_refuses_foreign [of ?w "''tank/k8s/vol''" "''manual''" demo_reader "''42''" "''tank''"] by blast
  moreover have "fst ?w = fst (Mem_Snapshot [''tank/k8s/vol@manual''] demo)" by (rule fst_conv)
  ultimately show ?thesis by blast
qed

section \<open>Raw snapshots and the deletion of a volume\<close>

text \<open>The lookup of a raw snapshot finds it where it is, as long as the backing clone is a clone of it
  or carries it as its youngest snapshot, and changes nothing; the recorded name is not needed.\<close>

theorem locate_finds_raw:
  assumes "mem_inv (fst w)" "driver_names (m_ds (fst w))" "raw_at (m_ds (fst w)) b sn r"
  shows "locateRawSnapshot (lift_ZFS mem_ZFS) b recorded sn w = (w, Inr (snap_full r sn))"
  using locate_mem [OF assms] .

theorem locate_finds_raw_witness:
  "locateRawSnapshot (lift_ZFS mem_ZFS) ''tank/k8s/csi-snap-1'' ''nonsense'' ''csi-snap-1'' (demo, ()) =
   ((demo, ()), Inr ''tank/k8s/vol@csi-snap-1'')"
proof -
  have "mem_inv (fst (demo, ()))" "driver_names (m_ds (fst (demo, ())))"
    "raw_at (m_ds (fst (demo, ()))) ''tank/k8s/csi-snap-1'' ''csi-snap-1'' ''tank/k8s/vol''"
    unfolding fst_conv by (rule demo_inv demo_names demo_raw)+
  from locate_finds_raw [OF this, of "''nonsense''"] show ?thesis by (simp add: snap_full_def)
qed

text \<open>A promote of any dataset, of the backing clone, the source or another clone, keeps the raw
  snapshot known to its backing clone, so the lookup still finds it, unchanged.\<close>

theorem promote_keeps_raw_known:
  assumes "mem_inv (fst w)" "driver_names (m_ds (fst w))" "raw_at (m_ds (fst w)) b sn r"
    "Promote (lift_ZFS mem_ZFS) n w = (w', e)"
  shows "\<exists>r'. locateRawSnapshot (lift_ZFS mem_ZFS) b recorded sn w' = (w', Inr (snap_full r' sn)) \<and>
    snap_in (m_ds (fst w')) r' sn = snap_in (m_ds (fst w)) r sn"
proof -
  have p: "Mem_Promote n (fst w) = (fst w', e)" using assms(4) by (simp add: mem_ZFS_def lift_op_eq)
  have inv': "mem_inv (fst w')" using Promote_inv [OF assms(1), of n] p by simp
  obtain r' where "driver_names (m_ds (fst w'))" "raw_at (m_ds (fst w')) b sn r'"
    "snap_in (m_ds (fst w')) r' sn = snap_in (m_ds (fst w)) r sn"
    using Promote_raw_at [OF assms(1-3) p] by blast
  then show ?thesis using locate_mem [OF inv'] by blast
qed

theorem promote_keeps_raw_known_witness:
  "\<exists>r'. locateRawSnapshot (lift_ZFS mem_ZFS) ''tank/k8s/csi-snap-1'' ''nonsense'' ''csi-snap-1''
      (fst (Promote (lift_ZFS mem_ZFS) ''tank/k8s/csi-snap-1'' (demo, ()))) =
    (fst (Promote (lift_ZFS mem_ZFS) ''tank/k8s/csi-snap-1'' (demo, ())), Inr (snap_full r' ''csi-snap-1''))"
proof -
  have "mem_inv (fst (demo, ()))" "driver_names (m_ds (fst (demo, ())))"
    "raw_at (m_ds (fst (demo, ()))) ''tank/k8s/csi-snap-1'' ''csi-snap-1'' ''tank/k8s/vol''"
    unfolding fst_conv by (rule demo_inv demo_names demo_raw)+
  from promote_keeps_raw_known [OF this surjective_pairing, of "''nonsense''"] show ?thesis by blast
qed

text \<open>C7. A pass of the agent over a volume that is being deleted keeps the ZFS state well-formed and
  loses nothing that belongs to others: every other dataset, every snapshot on another dataset and
  every snapshot of the volume that something clones, except those already marked for destruction
  and the volume's own clone origin. When the pass reports no error the dataset is gone.\<close>

theorem volume_delete_safe:
  assumes "dr_kube same_zfs r" "dr_ZFS r = lift_ZFS mem_ZFS" "mem_inv (fst w)"
    "deletes r req w vol p full" "dr_Reconcile r req w = (w', res, e)"
  shows "mem_inv (fst w') \<and> keeps_others full (own_suffix vol) (m_ds (fst w)) (m_ds (fst w')) \<and>
    (e = None \<longrightarrow> map_of (m_ds (fst w')) full = None)"
  using reconcile_deletes [OF assms] by blast

theorem volume_delete_safe_witness:
  "map_of (m_ds (fst (fst (dr_Reconcile (demo_dr ''node-a'') ''vol'' demo_delete_world)))) ''tank/k8s/vol'' = None"
proof -
  let ?r = "dr_Reconcile (demo_dr ''node-a'') ''vol'' demo_delete_world"
  have "snd (snd ?r) = None" by code_simp
  then have "?r = (fst ?r, fst (snd ?r), None)" by (metis prod.collapse)
  moreover have "dr_ZFS (demo_dr ''node-a'') = lift_ZFS mem_ZFS" "fst demo_delete_world = demo"
    by (simp_all add: demo_dr_def demo_delete_world_def)
  ultimately show ?thesis
    using volume_delete_safe [OF demo_kube(1) _ _ demo_deletes, of "fst ?r" "fst (snd ?r)" None] demo_inv by simp
qed

text \<open>C8. Deleting the source volume leaves its snapshots restorable: after the pass, whatever its
  outcome, the lookup finds the raw snapshot of every ZfsSnapshot that is not itself being deleted,
  and the snapshot is the same.\<close>

theorem volume_delete_keeps_snapshots:
  assumes "dr_kube same_zfs r" "dr_ZFS r = lift_ZFS mem_ZFS" "mem_inv (fst w)"
    "deletes r req w vol p full" "dr_Reconcile r req w = (w', res, e)"
    "driver_names (m_ds (fst w))" "raw_at (m_ds (fst w)) b sn rr" "b \<noteq> full"
    "snap_in (m_ds (fst w)) rr sn = Some s" "\<not> sn_deferred s" "sn \<noteq> ''clone-'' @ om_Name (zd_Meta vol)"
  shows "\<exists>r'. locateRawSnapshot (lift_ZFS mem_ZFS) b recorded sn w' = (w', Inr (snap_full r' sn)) \<and>
    snap_in (m_ds (fst w')) r' sn = Some s"
  using reconcile_deletes_restorable [OF assms] .

theorem volume_delete_keeps_snapshots_witness:
  "\<exists>r'. snd (locateRawSnapshot (lift_ZFS mem_ZFS) ''tank/k8s/csi-snap-1'' ''nonsense'' ''csi-snap-1''
      (fst (dr_Reconcile (demo_dr ''node-a'') ''vol'' demo_delete_world))) = Inr (snap_full r' ''csi-snap-1'')"
proof -
  let ?r = "dr_Reconcile (demo_dr ''node-a'') ''vol'' demo_delete_world"
  have d: "dr_ZFS (demo_dr ''node-a'') = lift_ZFS mem_ZFS" "fst demo_delete_world = demo"
    by (simp_all add: demo_dr_def demo_delete_world_def)
  obtain s where s: "snap_in (m_ds demo) ''tank/k8s/vol'' ''csi-snap-1'' = Some s" using raw_at_snap [OF demo_raw] by blast
  have "\<not> sn_deferred (the (snap_in (m_ds demo) ''tank/k8s/vol'' ''csi-snap-1''))" by code_simp
  then have nd: "\<not> sn_deferred s" using s by simp
  have ne: "''csi-snap-1'' \<noteq> ''clone-'' @ om_Name (zd_Meta demo_deleted)" "''tank/k8s/csi-snap-1'' \<noteq> ''tank/k8s/vol''"
    by code_simp+
  have run: "?r = (fst ?r, fst (snd ?r), snd (snd ?r))" by simp
  have w: "mem_inv (fst demo_delete_world)" "driver_names (m_ds (fst demo_delete_world))"
    "raw_at (m_ds (fst demo_delete_world)) ''tank/k8s/csi-snap-1'' ''csi-snap-1'' ''tank/k8s/vol''"
    "snap_in (m_ds (fst demo_delete_world)) ''tank/k8s/vol'' ''csi-snap-1'' = Some s"
    unfolding d(2) by (rule demo_inv demo_names demo_raw s)+
  from volume_delete_keeps_snapshots [OF demo_kube(1) d(1) w(1) demo_deletes run w(2,3) ne(2) w(4) nd ne(1), of "''nonsense''"]
  show ?thesis by (metis snd_conv)
qed

section \<open>The agents\<close>

text \<open>C9. The dataset agent leaves ZFS alone, whatever its ZFS is, when the pool of the object is unknown or
  served by another node, also when the object is being deleted.\<close>

theorem dataset_agent_stays_home:
  assumes "dr_kube same_zfs r" "get_ZfsDataset (dr_Client r) req w = (w1, Inr vol)"
    "get_pool (dr_Client r) (zds_PoolGUID (zd_Spec vol)) w1 = (w2, Inr pool)" "\<not> hosted_here (dr_NodeName r) pool"
  shows "fst (fst (dr_Reconcile r req w)) = fst w"
  using dr_kube.reconcile_elsewhere [OF assms] by (simp add: same_zfs_def)

theorem dataset_agent_stays_home_witness: "fst (fst (dr_Reconcile (demo_dr ''node-b'') ''vol'' demo_world)) = demo"
proof -
  have "\<not> hosted_here (dr_NodeName (demo_dr ''node-b'')) (Some demo_pool)" "zds_PoolGUID (zd_Spec demo_vol) = ''42''"
    "fst demo_world = demo" by (code_simp, simp add: demo_vol_def, simp add: demo_world_def)
  then show ?thesis
    using dataset_agent_stays_home [OF demo_kube(1) demo_gets(1), of "''node-b''" demo_world "Some demo_pool"] demo_gets(2) by simp
qed

text \<open>C10. A dataset that was provisioned once is never created, cloned, destroyed or snapshotted again: a pass
  over it that is not a deletion leaves every dataset and every snapshot in place (it may set a size).\<close>

theorem provisioned_never_recreated:
  assumes "dr_kube same_zfs r" "dr_ZFS r = lift_ZFS mem_ZFS" "get_ZfsDataset (dr_Client r) req w = (w1, Inr vol)"
    "get_pool (dr_Client r) (zds_PoolGUID (zd_Spec vol)) w1 = (w2, Inr pool)"
    "om_DeletionTimestamp (zd_Meta vol) = None" "zdst_ProvisionedAt (zd_Status vol) \<noteq> None"
  shows "same_objects w (fst (dr_Reconcile r req w))"
proof (rule dr_frame.reconcile_provisioned [OF dr_frame_objects [OF assms(1,2)] assms(3-5)])
  show "datasetProvisioned vol" using assms(6) by (simp add: datasetProvisioned_def)
qed (simp only: assms(2) mem_set_keeps(1))

theorem provisioned_never_recreated_witness:
  "same_objects demo_world (fst (dr_Reconcile (demo_dr ''node-a'') ''vol'' demo_world))"
proof -
  have "zds_PoolGUID (zd_Spec demo_vol) = ''42''" "om_DeletionTimestamp (zd_Meta demo_vol) = None"
    "zdst_ProvisionedAt (zd_Status demo_vol) \<noteq> None" by code_simp+
  then show ?thesis
    using provisioned_never_recreated [OF demo_kube(1) demo_agents(1) demo_gets(1), of "''node-a''" demo_world "Some demo_pool"]
      demo_gets(2) by simp
qed

text \<open>The snapshot agent leaves ZFS alone when the pool is unknown or served by another node.\<close>

theorem snapshot_agent_stays_home:
  assumes "sr_kube same_zfs r" "get_ZfsSnapshot (sr_Client r) req w = (w1, Inr snap)"
    "get_pool (sr_Client r) (zss_PoolGUID (zs_Spec snap)) w1 = (w2, Inr pool)" "\<not> hosted_here (sr_NodeName r) pool"
  shows "fst (fst (sr_Reconcile r req w)) = fst w"
  using sr_kube.sr_reconcile_elsewhere [OF assms] by (simp add: same_zfs_def)

theorem snapshot_agent_stays_home_witness:
  "fst (fst (sr_Reconcile (demo_sr ''node-b'') ''snap-1'' (with_snapshot demo_snapshot))) = demo"
proof -
  have "\<not> hosted_here (sr_NodeName (demo_sr ''node-b'')) (Some demo_pool)" "zss_PoolGUID (zs_Spec demo_snapshot) = ''42''"
    "fst (with_snapshot demo_snapshot) = demo" by (code_simp, simp add: demo_snapshot_def, simp add: with_snapshot_def)
  then show ?thesis
    using snapshot_agent_stays_home [OF demo_kube(2) demo_gets(3) [of "''node-b''" demo_snapshot]] demo_gets(4) by simp
qed

text \<open>C11. A snapshot that was Ready before is only observed: a pass over it that is not a deletion changes
  nothing in ZFS, also when the raw snapshot is gone.\<close>

theorem settled_snapshot_only_observed:
  assumes "sr_kube same_zfs r" "sr_ZFS r = lift_ZFS mem_ZFS" "get_ZfsSnapshot (sr_Client r) req w = (w1, Inr snap)"
    "get_pool (sr_Client r) (zss_PoolGUID (zs_Spec snap)) w1 = (w2, Inr pool)"
    "om_DeletionTimestamp (zs_Meta snap) = None" "zsst_ProvisionedAt (zs_Status snap) \<noteq> None"
  shows "fst (fst (sr_Reconcile r req w)) = fst w"
proof -
  have f: "sr_frame same_zfs r" using assms(1,2) mem_frame.zfs_frame_axioms by (simp add: sr_frame_def sr_kube_def agent_frame_def)
  have "same_zfs w (fst (sr_Reconcile r req w))"
    by (rule sr_kube.sr_reconcile_live [OF assms(1,3,4,5)]) (rule sr_frame.keeps_settled [OF f assms(6)])
  then show ?thesis by (simp add: same_zfs_def)
qed

theorem settled_snapshot_only_observed_witness:
  "fst (fst (sr_Reconcile (demo_sr ''node-a'') ''snap-1'' (with_snapshot demo_settled))) = demo"
proof -
  have "zss_PoolGUID (zs_Spec demo_settled) = ''42''" "om_DeletionTimestamp (zs_Meta demo_settled) = None"
    "zsst_ProvisionedAt (zs_Status demo_settled) \<noteq> None" by code_simp+
  then show ?thesis
    using settled_snapshot_only_observed [OF demo_kube(2) demo_agents(2) demo_gets(3) [of "''node-a''" demo_settled]] demo_gets(4)
    by (simp add: with_snapshot_def)
qed

text \<open>A member of a group never takes its own snapshot: a pass over it that is not a deletion opens no
  transaction group, which every snapshot call that takes something does.\<close>

theorem group_member_takes_no_snapshot:
  assumes "sr_kube same_zfs r" "sr_ZFS r = lift_ZFS mem_ZFS" "get_ZfsSnapshot (sr_Client r) req w = (w1, Inr snap)"
    "get_pool (sr_Client r) (zss_PoolGUID (zs_Spec snap)) w1 = (w2, Inr pool)"
    "om_DeletionTimestamp (zs_Meta snap) = None" "zss_GroupSnapshotID (zs_Spec snap) \<noteq> ''''"
  shows "m_txg (fst (fst (sr_Reconcile r req w))) = m_txg (fst w)"
proof -
  note f = sr_frame_txg [OF assms(1,2)]
  then have k: "sr_kube same_txg r" by (simp add: sr_frame_def)
  have "same_txg w (fst (sr_Reconcile r req w))"
    by (rule sr_kube.sr_reconcile_live [OF k assms(3,4,5)], rule sr_frame.keeps_group_member [OF f assms(6)])
       (simp_all only: assms(2) mem_set_keeps(2,3))
  then show ?thesis by (simp add: same_txg_def)
qed

theorem group_member_takes_no_snapshot_witness:
  "m_txg (fst (fst (sr_Reconcile (demo_sr ''node-a'') ''snap-1'' (with_snapshot demo_member)))) = m_txg demo"
proof -
  have "zss_PoolGUID (zs_Spec demo_member) = ''42''" "om_DeletionTimestamp (zs_Meta demo_member) = None"
    "zss_GroupSnapshotID (zs_Spec demo_member) \<noteq> ''''" by code_simp+
  then show ?thesis
    using group_member_takes_no_snapshot [OF demo_kube(2) demo_agents(2) demo_gets(3) [of "''node-a''" demo_member]] demo_gets(4)
    by (simp add: with_snapshot_def)
qed

text \<open>C12. A pass over a group snapshot that is not being deleted takes no snapshot at all, or exactly one
  snapshot per member, under the member's name, all new and all in one transaction group.\<close>

theorem group_snapshot_one_instant:
  assumes "gr_kube same_zfs r" "gr_ZFS r = lift_ZFS mem_ZFS"
    "get_ZfsGroupSnapshot (gr_Client r) req w = (w1, Inr grp)" "om_DeletionTimestamp (zg_Meta grp) = None"
  shows "(\<forall>dn sn. snap_in (m_ds (fst (fst (gr_Reconcile r req w)))) dn sn = snap_in (m_ds (fst w)) dn sn) \<or>
     (\<exists>names. member_names names (zgs_Members (zg_Spec grp)) \<and> took names (fst w) (fst (fst (gr_Reconcile r req w))))"
  using group_one_instant [OF assms] .

theorem group_snapshot_one_instant_witness:
  "\<exists>names. member_names names (zgs_Members (zg_Spec demo_group)) \<and>
     took names demo (fst (fst (gr_Reconcile (demo_gr ''node-a'') ''grp'' (with_group demo_group))))"
proof -
  let ?m = "fst (fst (gr_Reconcile (demo_gr ''node-a'') ''grp'' (with_group demo_group)))"
  have "om_DeletionTimestamp (zg_Meta demo_group) = None" "snap_in (m_ds ?m) ''tank/k8s'' ''csi-g-2'' \<noteq> snap_in (m_ds demo) ''tank/k8s'' ''csi-g-2''"
    by code_simp+
  moreover have "fst (with_group demo_group) = demo" by (simp add: with_group_def)
  ultimately show ?thesis
    using group_snapshot_one_instant [OF demo_gr_kube demo_agents(3) demo_gets(5) [of "''node-a''" demo_group]] by metis
qed



section \<open>Sizes, labels and status\<close>

text \<open>C14. Rounding a zvol size up to its block size gives a multiple of the block, at least the size asked for
  and less than one block more, as long as the sum stays within \<open>int64\<close>.\<close>

theorem alignUp_bounds:
  assumes "0 < sz" "0 < block" "sz + block \<le> 2 ^ 63"
  shows "block dvd alignUp sz block \<and> sz \<le> alignUp sz block \<and> alignUp sz block < sz + block \<and> is_int64 (alignUp sz block)"
  using alignUp_spec [OF assms] assms by (auto simp: is_int64_def mod_eq_0_iff_dvd)

theorem alignUp_bounds_witness: "16384 dvd alignUp 1000000 16384 \<and> 1000000 \<le> alignUp 1000000 16384 \<and> alignUp 1000000 16384 < 1016384"
  using alignUp_bounds [of 1000000 16384] by simp

text \<open>A zvol never shrinks, and when the call succeeds its size is the larger of what it was and what is
  wanted, rounded up to the block size.\<close>

theorem zvol_grows_only:
  assumes "mem_inv (fst w)" "map_of (m_ds (fst w)) full = Some d" "ds_kind d = KindVolume" "is_int64 (ds_volsize d)"
    "zds_Type (zd_Spec vol) = DatasetTypeVolume" "zds_Volume (zd_Spec vol) = Some cfg"
    "ensureSize (lift_ZFS mem_ZFS) vol full w = (w', e)"
    "is_int64 (alignUp (q_Value (vc_Size cfg)) (volblockBytes (vc_Volblocksize cfg)))"
  shows "\<exists>d'. map_of (m_ds (fst w')) full = Some d' \<and> ds_volsize d \<le> ds_volsize d' \<and>
    (e = None \<longrightarrow> ds_volsize d' = max (ds_volsize d) (alignUp (q_Value (vc_Size cfg)) (volblockBytes (vc_Volblocksize cfg))))"
  using ensureSize_volume [OF assms] .

theorem zvol_grows_only_witness:
  "\<exists>d'. map_of (m_ds (fst (fst (ensureSize (lift_ZFS mem_ZFS) demo_zvol ''tank/zv'' (demo_zvol_mem, ()))))) ''tank/zv'' = Some d' \<and>
     ds_volsize d' = 100"
proof -
  let ?r = "ensureSize (lift_ZFS mem_ZFS) demo_zvol ''tank/zv'' (demo_zvol_mem, ())"
  have f: "map_option (\<lambda>d. (ds_kind d, ds_volsize d)) (map_of (m_ds demo_zvol_mem) ''tank/zv'') = Some (KindVolume, 8)"
    "snd ?r = None" "zds_Type (zd_Spec demo_zvol) = DatasetTypeVolume"
    "zds_Volume (zd_Spec demo_zvol) = Some \<lparr>vc_Size = NewQuantity 95, vc_Volblocksize = ''10''\<rparr>"
    "alignUp 95 (volblockBytes ''10'') = 100" "is_int64 100" "is_int64 8" "q_Value (NewQuantity 95) = 95"
    by code_simp+
  obtain d where d: "map_of (m_ds demo_zvol_mem) ''tank/zv'' = Some d" "ds_kind d = KindVolume" "ds_volsize d = 8"
    using f(1) by auto
  have run: "ensureSize (lift_ZFS mem_ZFS) demo_zvol ''tank/zv'' (demo_zvol_mem, ()) = (fst ?r, None)"
    using f(2) by (metis prod.collapse)
  show ?thesis using zvol_grows_only [of "(demo_zvol_mem, ())" "''tank/zv''" d demo_zvol, OF _ _ d(2) _ f(3,4) run] d f(5-8) demo_zvol_inv by (simp, blast)
qed

text \<open>After a successful pass the quota ZFS reports for a filesystem is the one the object asks for,
  \<open>none\<close> when it asks for none.\<close>

theorem filesystem_quota_converges:
  assumes "mem_inv (fst w)" "map_of (m_ds (fst w)) full = Some d" "zds_Type (zd_Spec vol) = DatasetTypeFilesystem"
    "ensureSize (lift_ZFS mem_ZFS) vol full w = (w', None)"
  shows "\<exists>v. snd (Mem_Get full ''refquota'' (fst w')) = Inr v \<and>
    refquotaEqual v (case quota_of vol of Some q \<Rightarrow> FormatInt (q_Value q) | None \<Rightarrow> ''none'')"
  using ensureSize_filesystem [OF assms] .

theorem filesystem_quota_converges_witness:
  "\<exists>v. snd (Mem_Get ''tank/k8s/vol'' ''refquota'' (fst (fst (ensureSize (lift_ZFS mem_ZFS) demo_vol ''tank/k8s/vol'' (demo, ()))))) = Inr v \<and>
     refquotaEqual v ''64''"
proof -
  let ?r = "ensureSize (lift_ZFS mem_ZFS) demo_vol ''tank/k8s/vol'' (demo, ())"
  have f: "map_of (m_ds demo) ''tank/k8s/vol'' \<noteq> None" "snd ?r = None" "zds_Type (zd_Spec demo_vol) = DatasetTypeFilesystem"
    "(case quota_of demo_vol of Some q \<Rightarrow> FormatInt (q_Value q) | None \<Rightarrow> ''none'') = ''64''"
    by code_simp+
  obtain d where d: "map_of (m_ds (fst (demo, ()))) ''tank/k8s/vol'' = Some d" using f(1) by auto
  have run: "?r = (fst ?r, None)" using f(2) by (metis prod.collapse)
  have inv: "mem_inv (fst (demo, ()))" unfolding fst_conv by (rule demo_inv)
  from filesystem_quota_converges [OF inv d f(3) run] show ?thesis unfolding f(4) .
qed

text \<open>After a successful \<open>EnsureLabels\<close> the object carries the role and the owner, and a second call finds
  nothing to do and changes nothing.\<close>

theorem labels_established:
  assumes "EnsureLabels (lift_ZFS mem_ZFS) n role owner w = (w', None)" "TrimSpace role = role" "TrimSpace owner = owner"
    "fst (split_name n) \<noteq> ''''" "owner \<noteq> ''''"
  shows "(\<exists>x. snd (Mem_Get n PropRole (fst w')) = Inr x \<and> TrimSpace x = role) \<and>
    (\<exists>x. snd (Mem_Get n PropOwner (fst w')) = Inr x \<and> TrimSpace x = owner) \<and>
    EnsureLabels (lift_ZFS mem_ZFS) n role owner w' = (w', None)"
proof -
  note e = EnsureLabels_mem [OF assms(1-4)]
  have "\<forall>(p, v) \<in> set (LabelProps role owner). \<exists>x. snd (Mem_Get n p (fst w')) = Inr x \<and> TrimSpace x = v"
    using e(1) e(2) [OF assms(5)] by (auto simp: LabelProps_def Let_def)
  then show ?thesis using e(1) e(2) [OF assms(5)] unfolding EnsureLabels_def by (intro conjI ensure_props_idem)
qed

theorem labels_established_witness:
  "\<exists>x. snd (Mem_Get ''tank/k8s'' PropOwner (fst (fst (EnsureLabels (lift_ZFS mem_ZFS) ''tank/k8s'' RoleVolume ''uid-9'' (demo, ()))))) = Inr x \<and>
     TrimSpace x = ''uid-9''"
proof -
  let ?r = "EnsureLabels (lift_ZFS mem_ZFS) ''tank/k8s'' RoleVolume ''uid-9'' (demo, ())"
  have f: "snd ?r = None" "TrimSpace RoleVolume = RoleVolume" "TrimSpace ''uid-9'' = ''uid-9''" "fst (split_name ''tank/k8s'') \<noteq> ''''"
    "''uid-9'' \<noteq> ''''" by code_simp+
  have run: "?r = (fst ?r, None)" using f(1) by (metis prod.collapse)
  from labels_established [OF run f(2-5)] show ?thesis by blast
qed

section \<open>The CSI controller service\<close>

text \<open>C15. Where a parameter comes from: the pool and the dataset prefix only ever from the StorageClass; any
  other key from the PVC's annotations if they are enabled and carry it, else from the StorageClass
  (never a reserved key), else from the provisioner's defaults.\<close>

theorem parameter_precedence:
  assumes "wf_map defaults" "wf_map sc" "wf_map anns"
  shows "map_of (ResolveParameters defaults sc anns p) x =
    (let from_class = (if HasPrefix x reservedParamPrefix then None else map_of sc x) in
     if x \<in> set storageClassOnlyParams then from_class
     else (case annotated anns p x of Some v \<Rightarrow> Some v | None \<Rightarrow>
            (case from_class of Some v \<Rightarrow> Some v | None \<Rightarrow> map_of defaults x)))"
  using ResolveParameters_lookup [OF assms] .

theorem parameter_precedence_witness:
  "map_of (ResolveParameters [(''poolGUID'', ''evil'')] [(''poolGUID'', ''42'')] [(''a/poolGUID'', ''evil'')] ''a/'') ''poolGUID'' = Some ''42''"
proof -
  have "wf_map [(''poolGUID'', ''evil'')]" "wf_map [(''poolGUID'', ''42'')]" "wf_map [(''a/poolGUID'', ''evil'')]" by code_simp+
  from parameter_precedence [OF this, of "''a/''" "''poolGUID''"] show ?thesis
    by (simp add: storageClassOnlyParams_def HasPrefix_def)
qed

text \<open>C16. What the validation lets through: a pool, a protocol with the dataset type that belongs to it, owner
  ids that are not negative, a mode that is octal, and no ownership at all for a zvol.\<close>

theorem params_well_typed:
  assumes "ParseParams p = Inr rp"
  shows "rp_PoolGUID rp \<noteq> '''' \<and>
    ((rp_Protocol rp = ProtocolNFS \<and> rp_DatasetType rp = DatasetTypeFilesystem) \<or>
     (rp_Protocol rp = ProtocolNVMeoF \<and> rp_DatasetType rp = DatasetTypeVolume \<and> rp_UID rp = None \<and> rp_GID rp = None \<and> rp_Mode rp = '''')) \<and>
    (\<forall>n. rp_UID rp = Some n \<or> rp_GID rp = Some n \<longrightarrow> 0 \<le> n) \<and>
    (rp_Mode rp \<noteq> '''' \<longrightarrow> ParseUint_8_32 (rp_Mode rp) \<noteq> None)"
proof -
  obtain proto t where 1: "TrimSpace (mgets p ParamPoolGUID) \<noteq> ''''" "parse_protocol (mgets p ParamProtocol) = Inr (proto, t)"
    using assms by (auto simp: ParseParams_def Let_def split: if_splits sum.splits)
  then obtain reject uid gid mode where 2: "parse_reject (mgets p ParamRejectCrossPrefixClones) = Inr reject"
    "parse_ownership t p = Inr (uid, gid, mode)"
    using assms by (auto simp: ParseParams_def Let_def split: if_splits sum.splits)
  have rp: "rp_PoolGUID rp = TrimSpace (mgets p ParamPoolGUID)" "rp_Protocol rp = proto" "rp_DatasetType rp = t"
    "rp_UID rp = uid" "rp_GID rp = gid" "rp_Mode rp = mode"
    using assms 1 2 by (auto simp: ParseParams_def Let_def)
  have t: "(proto = ProtocolNFS \<and> t = DatasetTypeFilesystem) \<or> (proto = ProtocolNVMeoF \<and> t = DatasetTypeVolume)"
    using 1(2) by (auto simp: parse_protocol_def Let_def split: if_splits)
  have i: "parseOptionalID raw k = Inr (Some n) \<Longrightarrow> 0 \<le> n" for raw k n
    by (auto simp: parseOptionalID_def Let_def split: if_splits prod.splits)
  have m: "parseOptionalMode raw = Inr s \<Longrightarrow> s \<noteq> '''' \<Longrightarrow> ParseUint_8_32 s \<noteq> None" for raw s
    by (auto simp: parseOptionalMode_def Let_def split: if_splits)
  have own: "(\<forall>n. uid = Some n \<or> gid = Some n \<longrightarrow> 0 \<le> n) \<and> (mode \<noteq> '''' \<longrightarrow> ParseUint_8_32 mode \<noteq> None)"
    "t \<noteq> DatasetTypeFilesystem \<Longrightarrow> uid = None \<and> gid = None \<and> mode = ''''"
    using 2(2) i m by (auto simp: parse_ownership_def split: if_splits sum.splits)
  show ?thesis using rp t own 1(1) by auto
qed

theorem params_well_typed_witness:
  "rp_DatasetType (projr (ParseParams [(''poolGUID'', ''42''), (''protocol'', ''nvmeof''), (''uid'', ''x'')])) = DatasetTypeVolume"
proof -
  let ?p = "[(''poolGUID'', ''42''), (''protocol'', ''nvmeof''), (''uid'', ''x'')]"
  have f: "isl (ParseParams ?p) = False" "rp_Protocol (projr (ParseParams ?p)) = ProtocolNVMeoF" "ProtocolNVMeoF \<noteq> ProtocolNFS" by code_simp+
  then have "ParseParams ?p = Inr (projr (ParseParams ?p))" by (cases "ParseParams ?p") simp_all
  from params_well_typed [OF this] f(2,3) show ?thesis by argo
qed





text \<open>\<open>CreateVolume\<close> answers with the requested name and size, and only after it has read the object of
  that name as Ready.\<close>

theorem create_volume_ready:
  assumes "CreateVolume c req w = Some (w', Inr v)"
  shows "cv_VolumeId v = cvr_Name req \<and> cv_CapacityBytes v = capacityBytes (cvr_CapacityRange req) \<and>
    (\<exists>w0 vol. get_ZfsDataset (cs_Client c) (cvr_Name req) w0 = (w', Inr vol) \<and> zdst_Phase (zd_Status vol) = DatasetPhaseReady)"
  using CreateVolume_sound [OF assms] .

theorem create_volume_ready_witness:
  "\<exists>v. map_option snd (CreateVolume demo_cs demo_create demo_csi_world) = Some (Inr v) \<and> cv_VolumeId v = ''pvc''"
proof -
  let ?r = "CreateVolume demo_cs demo_create demo_csi_world"
  have f: "map_option (\<lambda>r. isl (snd r)) ?r = Some False" "cvr_Name demo_create = ''pvc''" by code_simp+
  then obtain w' v where r: "?r = Some (w', Inr v)" by (auto simp: isl_def) (metis obj_sumE)
  with create_volume_ready [OF r] f(2) show ?thesis by simp
qed

text \<open>\<open>DeleteVolume\<close> reports success only after it has read that the object is gone.\<close>

theorem delete_volume_gone:
  assumes "DeleteVolume c n w = Some (w', Inr u)"
  shows "\<exists>w0 e. get_ZfsDataset (cs_Client c) n w0 = (w', Inl e) \<and> IsNotFound e"
  using DeleteVolume_sound [OF assms] .

theorem delete_volume_gone_witness:
  "\<exists>w' w0 e. DeleteVolume demo_cs ''pvc'' demo_restored = Some (w', Inr ()) \<and>
     get_ZfsDataset (cs_Client demo_cs) ''pvc'' w0 = (w', Inl e) \<and> IsNotFound e"
proof -
  let ?r = "DeleteVolume demo_cs ''pvc'' demo_restored"
  have "map_option snd ?r = Some (Inr ())" by code_simp
  then obtain w' where r: "?r = Some (w', Inr ())" by auto
  from delete_volume_gone [OF r] r show ?thesis by blast
qed

text \<open>C19. Every waiting call of the controller service returns, when its context has a deadline that ticks and
  lost races use up and no call turns back.\<close>

theorem csi_calls_return:
  assumes "csi_deadline c left"
  shows "(\<exists>r. CreateVolume c creq w = Some r) \<and> (\<exists>r. DeleteVolume c n w = Some r) \<and>
    (\<exists>r. ControllerPublishVolume c preq w = Some r) \<and> (\<exists>r. CreateSnapshot c n src w = Some r) \<and>
    (\<exists>r. ControllerExpandVolume c n cap w = Some r)"
  unfolding returns_def [symmetric]
  by (intro conjI csi_deadline.CreateVolume_returns [OF assms] csi_deadline.DeleteVolume_returns [OF assms]
      csi_deadline.ControllerPublishVolume_returns [OF assms] csi_deadline.CreateSnapshot_returns [OF assms]
      csi_deadline.ControllerExpandVolume_returns [OF assms])

theorem csi_calls_return_witness: "\<exists>r. CreateVolume demo_cs demo_create demo_csi_world = Some r"
  using csi_calls_return [OF demo_cs.csi_deadline_axioms] by blast

text \<open>C20. A volume that may be attached to one node only is not attached to a second one: when any attach
  request for another node exists, also one that is going away, the call fails and writes nothing.\<close>

theorem publish_one_node:
  assumes "pr_VolumeId req \<noteq> ''''" "pr_NodeId req \<noteq> ''''"
    "\<not> hasMultiNodeAccessMode (the_capability (pr_VolumeCapability req))"
    "get_ZfsDataset (cs_Client c) (pr_VolumeId req) w = (w1, Inr vol)"
    "list_ZfsShareAttachRequest (cs_Client c) w1 = (w2, Inr ars)"
    "ar \<in> set ars" "zars_VolumeName (zar_Spec ar) = pr_VolumeId req" "zars_NodeName (zar_Spec ar) \<noteq> pr_NodeId req"
    "\<forall>x \<in> set ars. zars_NodeName (zar_Spec x) \<noteq> ''''"
  shows "\<exists>msg. ControllerPublishVolume c req w = Some (w2, Inl (Status FailedPrecondition msg))"
  using publish_refused [OF assms] .

theorem publish_one_node_witness:
  "\<exists>msg. ControllerPublishVolume demo_cs \<lparr>pr_VolumeId = ''pvc'', pr_NodeId = ''node-b'', pr_VolumeCapability = None\<rparr> demo_attached =
     Some (demo_attached, Inl (Status FailedPrecondition msg))"
proof -
  let ?req = "\<lparr>pr_VolumeId = ''pvc'', pr_NodeId = ''node-b'', pr_VolumeCapability = None\<rparr>"
  let ?ar = "new_request ''pvc-x'' ''pvc'' ''node-a'' True"
  have g: "get_ZfsDataset (cs_Client demo_cs) (pr_VolumeId ?req) demo_attached =
      (demo_attached, Inr (zero_dataset ''pvc'' ((volumeSpec demo_rp ''d2'' 10)\<lparr>zds_Source := Some (snapshot_ref ''snap-a'')\<rparr>)))"
    "list_ZfsShareAttachRequest (cs_Client demo_cs) demo_attached = (demo_attached, Inr [?ar])"
    by (simp_all add: demo_cs_def csi_client_def cw_get_def demo_attached_def demo_restored_def)
  show ?thesis by (rule publish_one_node [OF _ _ _ g, of ?ar])
      (simp_all add: new_request_def hasMultiNodeAccessMode_def the_capability_def)
qed

text \<open>C21. A client that follows the page tokens of \<open>ListSnapshots\<close> gets every snapshot exactly once, in order,
  and reaches the last page.\<close>

theorem list_pages_complete:
  assumes "0 < k" "int (length items) < 2 ^ 63"
  shows "follow (Suc (length items)) items k '''' = Some (map snapshotMessage items)"
  using follow_all [OF assms(1) le0 assms(2), of "Suc (length items)"] by simp

theorem list_pages_complete_witness:
  "follow 4 [demo_snapshot, demo_settled, demo_member] 2 '''' = Some (map snapshotMessage [demo_snapshot, demo_settled, demo_member])"
  using list_pages_complete [of 2 "[demo_snapshot, demo_settled, demo_member]"] by (simp add: eval_nat_numeral)

section \<open>Sharing volumes\<close>

text \<open>C22. A zvol is exported to one node: when a pass has written an NVMe-oF share, whatever requests race for the
  volume, the only node it counts as exported is the node of the oldest active request the API server listed, ties
  broken by name, and the share allows the host identity of that node and nothing else.\<close>

theorem zvol_single_host:
  assumes "stores_spec (ar_Client r)" "reconcileVolume r volume w = (w', Inr (Some s, exported, localOnly))"
    "zshs_Protocol (zsh_Spec s) = ProtocolNVMeoF"
  shows "\<exists>w1 w2 its it nv. list_ZfsShareAttachRequest (ar_gateReader r) w1 = (w2, Inr its) \<and> first_of volume (set its) (Some it) \<and>
    exported = [zars_NodeName (zar_Spec it)] \<and> zshs_NFS (zsh_Spec s) = None \<and> zshs_NVMeoF (zsh_Spec s) = Some nv \<and>
    nvme_AllowedHosts nv = [fst (HostIdentity (ar_UUID5 r) (zars_NodeName (zar_Spec it)) volume)]"
proof -
  from reconcileVolume_nvme [OF assms] obtain w1 w2 node nv where
    o: "oldestAttachNode r volume w1 = (w2, Inr node)" and n: "exported = [node]" "zshs_NFS (zsh_Spec s) = None"
    "zshs_NVMeoF (zsh_Spec s) = Some nv" "nvme_AllowedHosts nv = [fst (HostIdentity (ar_UUID5 r) node volume)]" by blast
  from o obtain its it where "list_ZfsShareAttachRequest (ar_gateReader r) w1 = (w2, Inr its)" "oldest_request volume its = Some it"
    "node = zars_NodeName (zar_Spec it)" by (auto simp: oldestAttachNode_Inr)
  then show ?thesis using n first_of_oldest [of volume its] by auto
qed

theorem zvol_single_host_witness:
  "\<exists>s exported (it :: ZfsShareAttachRequest). snd (reconcileVolume demo_ar ''zv'' share_start) = Inr (Some s, exported, False) \<and>
     exported = [zars_NodeName (zar_Spec it)] \<and> map_option nvme_AllowedHosts (zshs_NVMeoF (zsh_Spec s)) = Some [''nqn.2014-08.org.nvmexpress:uuid:a/zv'']"
proof -
  define res where "res = (case snd (reconcileVolume demo_ar ''zv'' share_start) of Inr x \<Rightarrow> x | Inl _ \<Rightarrow> (None, [], True))"
  have "\<not> isl (snd (reconcileVolume demo_ar ''zv'' share_start)) \<and> fst res \<noteq> None \<and> \<not> snd (snd res) \<and>
      zshs_Protocol (zsh_Spec (the (fst res))) = ProtocolNVMeoF \<and>
      map_option nvme_AllowedHosts (zshs_NVMeoF (zsh_Spec (the (fst res)))) = Some [''nqn.2014-08.org.nvmexpress:uuid:a/zv'']"
    unfolding res_def by code_simp
  then obtain s exported where s: "snd (reconcileVolume demo_ar ''zv'' share_start) = Inr (Some s, exported, False)"
    "zshs_Protocol (zsh_Spec s) = ProtocolNVMeoF" "map_option nvme_AllowedHosts (zshs_NVMeoF (zsh_Spec s)) = Some [''nqn.2014-08.org.nvmexpress:uuid:a/zv'']"
    unfolding res_def by (cases "snd (reconcileVolume demo_ar ''zv'' share_start)") auto
  have c: "stores_spec (ar_Client demo_ar)" using stores_share_client(1) by (simp add: demo_ar_def)
  have "reconcileVolume demo_ar ''zv'' share_start = (fst (reconcileVolume demo_ar ''zv'' share_start), Inr (Some s, exported, False))"
    using s(1) by (metis prod.collapse)
  from zvol_single_host [OF c this s(2)] show ?thesis using s by blast
qed



text \<open>C24. A stale cache never takes an export away: while every list the API server gives contains an active request
  for the volume, and no node with such a request serves a pool the API server reports, a pass does not
  delete the share, whatever the cached client says. (Any change that deletions of shares do not make is kept, so
  no deletion is called.)\<close>

theorem stale_cache_keeps_share:
  assumes "ar_frame R r"
    "\<And>w w1 its. list_ZfsShareAttachRequest (ar_gateReader r) w = (w1, Inr its) \<Longrightarrow> \<exists>it \<in> set its. active_request volume it"
    "\<And>w w1 its it w' w2 n p. list_ZfsShareAttachRequest (ar_gateReader r) w = (w1, Inr its) \<Longrightarrow> it \<in> set its \<Longrightarrow>
      active_request volume it \<Longrightarrow> get_ZfsPool (ar_gateReader r) n w' = (w2, Inr p) \<Longrightarrow> \<not> serves_pool p (zars_NodeName (zar_Spec it))"
  shows "R w (fst (reconcileVolume r volume w))"
  using ar_frame.no_teardown [OF assms] by (simp add: keeps_fst)

theorem stale_cache_keeps_share_witness:
  "map_of (sw_shares (fst (reconcileVolume (demo_stale [attach_request ''zv-a'' ''zv'' ''a'' 1] share_pool) ''zv'' zvol_shared))) ''zv'' \<noteq> None"
proof -
  have "active_request ''zv'' (attach_request ''zv-a'' ''zv'' ''a'' 1)" "\<not> serves_pool share_pool (zars_NodeName (zar_Spec (attach_request ''zv-a'' ''zv'' ''a'' 1)))"
    "map_of (sw_shares zvol_shared) ''zv'' \<noteq> None" by code_simp+
  then show ?thesis
    using stale_cache_keeps_share [OF demo_stale.ar_frame_axioms [of "''zv''" "[attach_request ''zv-a'' ''zv'' ''a'' 1]" share_pool], of "''zv''" zvol_shared]
    by (simp add: demo_stale_def ar_gateReader_def fixed_reader_def keeps_share_def)
qed

text \<open>A share is reported bound only for what the node has confirmed: a pass over a share whose pool is served ends
  with one status update, and when that says Bound, the API server had just returned the export with exactly
  the node, path and access lists of this share, exported in its current generation.\<close>

theorem share_bound_is_live:
  assumes "stores_export (shr_Client r)" "get_ZfsShare (shr_Client r) req w = (w0, Inr share)" "om_DeletionTimestamp (zsh_Meta share) = None"
    "get_ZfsPool (shr_Client r) (ResourceName (zshs_PoolGUID (zsh_Spec share))) w0 = (w1, Inr pool)"
    "zpst_CurrentNode (zp_Status pool) \<noteq> ''''" "zpst_Health (zp_Status pool) \<noteq> PoolHealthNodeOffline"
  shows "\<exists>w2 phase path reason msg t.
    shr_Reconcile r req w = requeue_with t (shr_setStatus r share phase (zpst_CurrentNode (zp_Status pool)) path reason msg w2) \<and>
    (phase = SharePhaseBound \<longrightarrow> t = 0 \<and> (\<exists>export. exportReady export \<and>
       create_or_update_NetworkExport (shr_Client r) (om_Name (zsh_Meta share))
         (render_export r share (zpst_CurrentNode (zp_Status pool)) path) w1 = (w2, Inr export) \<and>
       ne_Spec export = \<lparr>nes_NodeName = zpst_CurrentNode (zp_Status pool), nes_Protocol = zshs_Protocol (zsh_Spec share), nes_Path = path,
         nes_NFS = zshs_NFS (zsh_Spec share), nes_NVMeoF = zshs_NVMeoF (zsh_Spec share)\<rparr>))"
proof -
  have "shr_Reconcile r req w = shr_render r share pool w1" using assms(2-6) by (simp add: shr_Reconcile_def Let_def)
  then show ?thesis using shr_render_cases [OF assms(1), of share pool w1] by simp
qed

theorem share_bound_is_live_witness:
  "\<exists>w2 phase path reason msg t. shr_Reconcile demo_shr ''fs'' share_ready =
     requeue_with t (shr_setStatus demo_shr (the (map_of (sw_shares share_ready) ''fs'')) phase ''store'' path reason msg w2) \<and>
     (phase = SharePhaseBound \<longrightarrow> t = 0)"
proof -
  let ?s = "the (map_of (sw_shares share_ready) ''fs'')"
  have g: "get_ZfsShare (shr_Client demo_shr) ''fs'' share_ready = (share_ready, Inr ?s)"
    by (simp add: demo_shr_def share_client_def sw_get_def) code_simp
  have p: "get_ZfsPool (shr_Client demo_shr) (ResourceName (zshs_PoolGUID (zsh_Spec ?s))) share_ready = (share_ready, Inr share_pool)"
    by (simp add: demo_shr_def share_client_def sw_get_def) code_simp
  have f: "om_DeletionTimestamp (zsh_Meta ?s) = None" "zpst_CurrentNode (zp_Status share_pool) \<noteq> ''''"
    "zpst_Health (zp_Status share_pool) \<noteq> PoolHealthNodeOffline" "zpst_CurrentNode (zp_Status share_pool) = ''store''" by code_simp+
  have c: "stores_export (shr_Client demo_shr)" using stores_share_client(2) by (simp add: demo_shr_def)
  from share_bound_is_live [OF c g f(1) p f(2,3)] show ?thesis unfolding f(4) by blast
qed

text \<open>C25. An NFS export is withdrawn from the node before its object may go: a pass over a terminating export
  either fails without touching the object, or brings to disk exactly the exports of this node that are not
  terminating, and only then releases the finalizer.\<close>

theorem nfs_withdrawn_before_release:
  assumes "node_files (nr_OS r) files" "get_NetworkExport (nr_Client r) req w = (w0, Inr export)"
    "nodeProtocolPredicate (nr_NodeName r) ProtocolNFS export" "om_DeletionTimestamp (ne_Meta export) \<noteq> None"
    "ContainsFinalizer (nr_Lib r) (ne_Meta export) networkExportFinalizer" "nr_Reconcile r req w = (w', res, err)"
  shows "(\<exists>e. renderExports r w0 = (w', Some e) \<and> err = Some e)
    \<or> (\<exists>w1 ss w2 e. list_NetworkExport (nr_Client r) w0 = (w1, Inr ss) \<and>
        files w2 (em_Path (nr_Exports r)) = Some (RenderExports (live_exports (nr_NodeName r) ss)) \<and>
        update_NetworkExport (nr_Client r)
          (export\<lparr>ne_Meta := fst (RemoveFinalizer (nr_Lib r) (ne_Meta export) networkExportFinalizer)\<rparr>) w2 = (w', e))"
proof -
  have "nr_terminating r export w0 = (w', res, err)"
    using assms(2-6) by (auto simp: nr_Reconcile_def nr_getRequested_def nodeProtocolPredicate_def)
  from nr_terminating_released [OF assms(1) this assms(5)] show ?thesis by blast
qed

theorem nfs_withdrawn_before_release_witness:
  "\<exists>w2 e. map_of (sw_files w2) ''/etc/exports'' = Some (RenderExports (live_exports ''store'' (map snd (sw_exports nfs_terminating)))) \<and>
     sw_put sw_exports_update ''fs'' ((the (map_of (sw_exports nfs_terminating) ''fs''))\<lparr>ne_Meta :=
       (ne_Meta (the (map_of (sw_exports nfs_terminating) ''fs'')))\<lparr>om_Finalizers := []\<rparr>\<rparr>) w2 =
       (fst (nr_Reconcile (demo_nr ''store'') ''fs'' nfs_terminating), e)"
proof -
  let ?x = "the (map_of (sw_exports nfs_terminating) ''fs'')" and ?r = "demo_nr ''store''"
  have g: "get_NetworkExport (nr_Client ?r) ''fs'' nfs_terminating = (nfs_terminating, Inr ?x)"
    by (simp add: demo_nr_def share_client_def sw_get_def) code_simp
  have f: "nodeProtocolPredicate (nr_NodeName ?r) ProtocolNFS ?x" "om_DeletionTimestamp (ne_Meta ?x) \<noteq> None"
    "ContainsFinalizer (nr_Lib ?r) (ne_Meta ?x) networkExportFinalizer" "snd (renderExports ?r nfs_terminating) = None"
    "om_Name (ne_Meta ?x) = ''fs''" "fst (RemoveFinalizer (nr_Lib ?r) (ne_Meta ?x) networkExportFinalizer) = (ne_Meta ?x)\<lparr>om_Finalizers := []\<rparr>"
    by code_simp+
  have h: "node_files (nr_OS ?r) (\<lambda>w. map_of (sw_files w))" using share_files.node_files_axioms by (simp add: demo_nr_def)
  have run: "nr_Reconcile ?r ''fs'' nfs_terminating = (fst (nr_Reconcile ?r ''fs'' nfs_terminating), fst (snd (nr_Reconcile ?r ''fs'' nfs_terminating)),
      snd (snd (nr_Reconcile ?r ''fs'' nfs_terminating)))" by simp
  from nfs_withdrawn_before_release [OF h g f(1-3) run] f(4) obtain w1 ss w2 e where
    l: "list_NetworkExport (nr_Client ?r) nfs_terminating = (w1, Inr ss)" and
    w2: "map_of (sw_files w2) (em_Path (nr_Exports ?r)) = Some (RenderExports (live_exports (nr_NodeName ?r) ss))"
    "update_NetworkExport (nr_Client ?r) (?x\<lparr>ne_Meta := fst (RemoveFinalizer (nr_Lib ?r) (ne_Meta ?x) networkExportFinalizer)\<rparr>) w2 =
       (fst (nr_Reconcile ?r ''fs'' nfs_terminating), e)" by auto
  have "ss = map snd (sw_exports nfs_terminating)" "nr_NodeName ?r = ''store''" "em_Path (nr_Exports ?r) = ''/etc/exports''"
    using l by (simp_all add: demo_nr_def share_client_def NewExportManager_def)
  moreover have "update_NetworkExport (nr_Client ?r) (?x\<lparr>ne_Meta := fst (RemoveFinalizer (nr_Lib ?r) (ne_Meta ?x) networkExportFinalizer)\<rparr>) w2 =
      sw_put sw_exports_update ''fs'' (?x\<lparr>ne_Meta := (ne_Meta ?x)\<lparr>om_Finalizers := []\<rparr>\<rparr>) w2"
    unfolding f(6) using f(5) by (simp add: demo_nr_def share_client_def)
  ultimately show ?thesis using w2 by metis
qed

text \<open>C26. A failed \<open>exportfs\<close> is forgotten: the file is written before the kernel table is loaded, so when the load fails,
  the next attempt finds the file as it should be, does not run \<open>exportfs\<close> at all and reports success.\<close>

theorem failed_reload_forgotten:
  assumes "node_files h files" "writeIfChanged h m (RenderExports exports) w = (w1, Inr True)" "em_reload h m w1 = (w2, Some e)"
    "os_ReadFile h (em_Path m) w2 = (w3, Inr c)"
  shows "em_Apply h m exports w = (w2, Some e) \<and> em_Apply h m exports w2 = (w3, None)"
  using Apply_after_failed_reload [OF assms] by blast

theorem failed_reload_forgotten_witness:
  "\<exists>w2 e. em_Apply share_os (NewExportManager '''') [\<lparr>ex_Path = ''/tank/fs'', ex_Clients = []\<rparr>] (share_start\<lparr>sw_exportfs_works := False\<rparr>) = (w2, Some e) \<and>
     em_Apply share_os (NewExportManager '''') [\<lparr>ex_Path = ''/tank/fs'', ex_Clients = []\<rparr>] w2 = (w2, None) \<and> sw_table w2 = ''''"
proof -
  let ?w = "share_start\<lparr>sw_exportfs_works := False\<rparr>" and ?m = "NewExportManager ''''" and ?es = "[\<lparr>ex_Path = ''/tank/fs'', ex_Clients = []\<rparr>]"
  define w1 where "w1 = fst (writeIfChanged share_os ?m (RenderExports ?es) ?w)"
  define w2 where "w2 = fst (em_reload share_os ?m w1)"
  have "snd (writeIfChanged share_os ?m (RenderExports ?es) ?w) = Inr True" "snd (em_reload share_os ?m w1) \<noteq> None" "sw_table w2 = ''''"
    "map_of (sw_files w2) ''/etc/exports'' \<noteq> None" unfolding w2_def w1_def by code_simp+
  then obtain e c where 1: "writeIfChanged share_os ?m (RenderExports ?es) ?w = (w1, Inr True)" "em_reload share_os ?m w1 = (w2, Some e)"
    "os_ReadFile share_os (em_Path ?m) w2 = (w2, Inr c)" "sw_table w2 = ''''"
    unfolding w1_def w2_def by (auto simp: share_os_def NewExportManager_def prod_eq_iff)
  from failed_reload_forgotten [OF share_files.node_files_axioms 1(1-3)] show ?thesis using 1(4) by blast
qed

text \<open>C27. A DH-CHAP key carries its secret: reading the key the driver generates gives back the random bytes, and the
  checksum in it is the secret's.\<close>

theorem dhchap_key_roundtrip:
  assumes "GenerateDHChapKey rand w = (w', Inr key)"
  shows "\<exists>secret. rand 32 w = (w', Inr secret) \<and> key = formatDHChapKey secret \<and> parse_key key = Some secret"
  using assms by (auto simp: GenerateDHChapKey_def parse_key_format split: prod.splits sum.splits)

theorem dhchap_key_roundtrip_witness:
  "\<exists>secret. parse_key (formatDHChapKey (replicate 32 7)) = Some secret \<and> length secret = 32"
proof -
  have "GenerateDHChapKey (\<lambda>n (w :: unit). (w, Inr (replicate n 7))) () = ((), Inr (formatDHChapKey (replicate 32 7)))"
    by (simp add: GenerateDHChapKey_def)
  from dhchap_key_roundtrip [OF this] show ?thesis by auto
qed

section \<open>The node service\<close>





text \<open>C30. The node and the operator agree on who may connect: the identity the node service presents to the target of a
  zvol is one the share allows exactly when the node is the one the zvol is exported to. Both sides compute
  the identity from the node name with the same UUID function, which has to tell the two names apart.\<close>

theorem host_identity_agrees:
  assumes "stores_spec (ar_Client r)" "reconcileVolume r volume w = (w', Inr (Some s, exported, localOnly))"
    "zshs_Protocol (zsh_Spec s) = ProtocolNVMeoF" "ns_UUID5 n = ar_UUID5 r"
    "\<And>x. x \<in> set exported \<Longrightarrow> ar_UUID5 r (x @ ''/'' @ volume) = ar_UUID5 r (ns_NodeID n @ ''/'' @ volume) \<Longrightarrow> x = ns_NodeID n"
  shows "\<exists>nv. zshs_NVMeoF (zsh_Spec s) = Some nv \<and>
    (nco_HostNQN (connect_options n volume pool nqn key) \<in> set (nvme_AllowedHosts nv) \<longleftrightarrow> exported = [ns_NodeID n])"
proof -
  from reconcileVolume_nvme [OF assms(1-3)] obtain node nv where n: "exported = [node]" "zshs_NVMeoF (zsh_Spec s) = Some nv"
    "nvme_AllowedHosts nv = [fst (HostIdentity (ar_UUID5 r) node volume)]" by blast
  then have "fst (HostIdentity (ar_UUID5 r) (ns_NodeID n) volume) = fst (HostIdentity (ar_UUID5 r) node volume) \<longleftrightarrow> node = ns_NodeID n"
    using assms(5) [of node] by (auto simp: HostIdentity_def Let_def)
  then show ?thesis using n assms(4) by (simp add: connect_options_def)
qed

theorem host_identity_agrees_witness:
  "\<exists>s exported nv. snd (reconcileVolume demo_ar ''zv'' share_start) = Inr (Some s, exported, False) \<and> zshs_NVMeoF (zsh_Spec s) = Some nv \<and>
     nco_HostNQN (connect_options (demo_node node_mounter ''a'') ''zv'' share_pool ''nqn'' '''') \<in> set (nvme_AllowedHosts nv) \<and>
     nco_HostNQN (connect_options (demo_node node_mounter ''b'') ''zv'' share_pool ''nqn'' '''') \<notin> set (nvme_AllowedHosts nv)"
proof -
  have u: "ns_UUID5 (demo_node node_mounter x) = ar_UUID5 demo_ar" "ns_NodeID (demo_node node_mounter x) = x" for x
    by (simp_all add: demo_node_def demo_ar_def)
  obtain s exported where s: "snd (reconcileVolume demo_ar ''zv'' share_start) = Inr (Some s, exported, False)"
    "zshs_Protocol (zsh_Spec s) = ProtocolNVMeoF" "exported = [''a'']" using zvol_demo_run by blast
  then have run: "reconcileVolume demo_ar ''zv'' share_start = (fst (reconcileVolume demo_ar ''zv'' share_start), Inr (Some s, exported, False))"
    by (metis prod.collapse)
  have c: "stores_spec (ar_Client demo_ar)" using stores_share_client(1) by (simp add: demo_ar_def)
  have inj: "ar_UUID5 demo_ar (x @ ''/'' @ ''zv'') = ar_UUID5 demo_ar (y @ ''/'' @ ''zv'') \<Longrightarrow> x = y" for x y by (simp add: demo_ar_def)
  have agree: "\<exists>nv. zshs_NVMeoF (zsh_Spec s) = Some nv \<and>
      (nco_HostNQN (connect_options (demo_node node_mounter x) ''zv'' share_pool ''nqn'' '''') \<in> set (nvme_AllowedHosts nv) \<longleftrightarrow> exported = [x])" for x
    using host_identity_agrees [OF c run s(2) u(1), of x share_pool "''nqn''" "''''"] inj unfolding u(2) by blast
  show ?thesis using agree [of "''a''"] agree [of "''b''"] s(1,3) by auto
qed

text \<open>Publishing ends: with a clock that does not go back and waits that last as long as asked, every call of
  \<open>NodePublishVolume\<close> returns, also when the device never appears.\<close>

theorem node_publish_returns:
  assumes "node_clock clock L m c" "ns_Mounter n = as_mounter m"
  shows "\<exists>w' r. NodePublishVolume n req w = Some (w', r)"
  using node_clock.publish_returns [OF assms] by fast

theorem node_publish_returns_witness:
  "\<exists>w' r. NodePublishVolume (demo_node node_mounter ''a'') (demo_publish ''zv'') formatted_start = Some (w', r)"
  using node_publish_returns [OF demo_clock.node_clock_axioms, of "demo_node node_mounter ''a''"] by (simp add: demo_node_def)

section \<open>The command-line ZFS\<close>

text \<open>C31. The command-line ZFS refines the in-memory one. Over a \<open>zfs\<close> program whose commands do to the pool what the
  in-memory model says, and which reports a missing or an existing object as \<open>zfs\<close> does, every method of
  \<open>CLI\<close> with logic of its own leaves the same datasets and snapshots and succeeds when its counterpart
  succeeds: in particular a snapshot of several datasets of which only some exist is reported as such, and a
  promote ends with the first attempt that changed the origin. The listings it parses are the ones the program
  printed.\<close>

theorem cli_refines_mem:
  assumes "zfs_program z st" "mem_inv (st w)" "pool_words (st w)" "is_name n" "n \<noteq> ''''" "CHR ''@'' \<in> set s" "canonical ps"
    "dest \<noteq> ''''" "snapshot_name_err names = None"
  shows "agrees st (cli_Snapshot z names w) (Mem_Snapshot names (st w)) \<and>
    ((\<exists>e. snd (cli_Snapshot z names w) = Some e \<and> errors_Is e ErrSnapshotsPartiallyExist) \<longleftrightarrow>
     (\<exists>e. snd (Mem_Snapshot names (st w)) = Some e \<and> errors_Is e ErrSnapshotsPartiallyExist)) \<and>
    agrees st (cli_Promote z n w) (Mem_Promote n (st w)) \<and>
    agrees st (cli_Clone z s dest ps w) (Mem_Clone s dest ps (st w)) \<and>
    agrees st (cli_Destroy z n r w) (Mem_Destroy n r (st w)) \<and>
    agrees st (cli_Destroy z s False w) (Mem_Destroy s False (st w)) \<and>
    agrees st (cli_DestroySnapshotDeferred z s w) (Mem_DestroySnapshotDeferred s (st w)) \<and>
    snd (cli_ListSnapshots z n w) = snd (Mem_ListSnapshots n (st w)) \<and>
    snd (cli_Clones z s w) = snd (Mem_Clones s (st w))"
proof -
  have nm: "names_ok (m_ds (st w))" using assms(2) by (simp add: mem_inv_def ds_inv_def)
  have names: "s \<noteq> ''''" "CHR ''@'' \<notin> set n" using assms(4,6) by (auto simp: is_name_def)
  show ?thesis
    using zfs_program.Snapshot_conforms [OF assms(1,9)] zfs_program.Promote_conforms [OF assms(1-5)]
      zfs_program.Clone_conforms [OF assms(1,6,8,7)] zfs_program.Destroy_conforms [OF assms(1) nm]
      zfs_program.DestroySnapshotDeferred_conforms [OF assms(1,6)] zfs_program.ListSnapshots_conforms [OF assms(1) nm assms(3,5)]
      zfs_program.Clones_conforms [OF assms(1) nm assms(3)] names assms(5) by simp
qed

theorem cli_refines_mem_witness:
  "agrees quietly (cli_Promote mem_cli ''tank/k8s/csi-snap-1'' demo) (Mem_Promote ''tank/k8s/csi-snap-1'' (quietly demo)) \<and>
   snd (cli_Promote mem_cli ''tank/k8s/csi-snap-1'' demo) = None \<and>
   snd (cli_Clones mem_cli ''tank/k8s/vol@csi-snap-1'' demo) = Inr [''tank/k8s/csi-snap-1'']"
proof -
  have inv: "mem_inv (quietly demo)" using reachable_inv [OF demo_reachable] by (simp add: mem_inv_def quietly_def)
  have pw: "pool_words (quietly demo)" by (rule pool_words_list) code_simp
  have facts: "is_name ''tank/k8s/csi-snap-1''" "CHR ''@'' \<in> set ''tank/k8s/vol@csi-snap-1''" "canonical []" by code_simp+
  have name: "snapshot_name_err [''tank@x''] = None" by (rule is_none_None) code_simp
  have "Option.is_none (snd (Mem_Promote ''tank/k8s/csi-snap-1'' (quietly demo)))"
    "case snd (Mem_Clones ''tank/k8s/vol@csi-snap-1'' (quietly demo)) of Inr xs \<Rightarrow> xs = [''tank/k8s/csi-snap-1''] | Inl _ \<Rightarrow> False" by code_simp+
  then show ?thesis
    using cli_refines_mem [OF mem_cli.zfs_program_axioms inv pw facts(1) _ facts(2,3) _ name, of "''tank/x''" True]
    by (simp add: agrees_def Option.is_none_def split: sum.splits)
qed

section \<open>Pools and scrubs\<close>

text \<open>C32. A dead node fails fast and fails over: after a pass of the watcher over a node that is gone or not ready, the
  node service refuses every volume on a pool that node reported last, before it mounts anything; once another
  node reports the pool, a further pass over the dead node leaves that report alone, so the pool is routed to
  the new node with the health that node saw. Pools of other nodes are never touched.\<close>

theorem dead_node_fails_over:
  assumes "pool_store c view" "\<And>x node. x \<in> {w, w2} \<Longrightarrow> snd (pc_get_Node c dead x) = Inr node \<Longrightarrow> cn_Name node = dead \<and> \<not> nodeReady node"
    "pw_Reconcile c dead w = (w1, res1, None)" "view w (ResourceName (pool_GUID p)) = Some q" "zpst_CurrentNode (zp_Status q) = dead"
    "get_ZfsPool (ns_Client n) = pc_get_ZfsPool c"
    "pr_Client r = c" "pr_NodeName r \<noteq> dead" "upsert r p w1 = (w2, None)" "pw_Reconcile c dead w2 = (w3, res3, None)"
  shows "(\<exists>w1' msg. resolvePool n (pool_GUID p) w1 = (w1', Inl (Status FailedPrecondition msg))) \<and>
    (\<exists>q3. view w3 (ResourceName (pool_GUID p)) = Some q3 \<and> zpst_CurrentNode (zp_Status q3) = pr_NodeName r \<and>
       zpst_CurrentIP (zp_Status q3) = pr_NodeIP r \<and> zpst_Health (zp_Status q3) = pool_Health p) \<and>
    (\<forall>k x. view w k = Some x \<longrightarrow> zpst_CurrentNode (zp_Status x) \<noteq> dead \<longrightarrow> k \<noteq> ResourceName (pool_GUID p) \<longrightarrow> view w3 k = Some x)"
proof -
  have pass: "\<exists>p'. view w' k = Some p' \<and> zpst_CurrentNode (zp_Status p') = zpst_CurrentNode (zp_Status x) \<and>
      (if zpst_CurrentNode (zp_Status x) = dead then zpst_Health (zp_Status p') = PoolHealthNodeOffline else p' = x)"
    if "w0 \<in> {w, w2}" "pw_Reconcile c dead w0 = (w', res, None)" "view w0 k = Some x" for w0 w' res k x
    by (rule pool_store.watcher_pass [OF assms(1) that(2) assms(2) [OF that(1)] that(3)])
  obtain q1 where q1: "view w1 (ResourceName (pool_GUID p)) = Some q1" "zpst_Health (zp_Status q1) = PoolHealthNodeOffline"
    using pass [OF _ assms(3,4)] assms(5) by auto
  obtain q2 where q2: "view w2 (ResourceName (pool_GUID p)) = Some q2" "zpst_CurrentNode (zp_Status q2) = pr_NodeName r"
    "zpst_CurrentIP (zp_Status q2) = pr_NodeIP r" "zpst_Health (zp_Status q2) = pool_Health p"
    "\<And>k. k \<noteq> ResourceName (pool_GUID p) \<Longrightarrow> view w2 k = view w1 k"
    using pool_store.upsert_view [OF assms(1,7,9)] by blast
  have "view w3 k = Some x" if k: "view w k = Some x" "zpst_CurrentNode (zp_Status x) \<noteq> dead" "k \<noteq> ResourceName (pool_GUID p)" for k x
    using pass [OF _ assms(3) k(1)] pass [OF _ assms(10), of k x] q2(5) [OF k(3)] k(2) by auto
  then show ?thesis
    using pool_store.offline_refused [OF assms(1,6) q1] pass [OF _ assms(10) q2(1)] q2 assms(8) by auto
qed

theorem dead_node_fails_over_witness:
  "\<exists>w1' msg. resolvePool ((demo_node node_mounter ''b'')\<lparr>ns_Client := share_client\<lparr>get_ZfsPool := pc_get_ZfsPool pool_client\<rparr>\<rparr>) ''42''
      (fst (pw_Reconcile pool_client ''store'' share_start)) = (w1', Inl (Status FailedPrecondition msg))"
proof -
  let ?w1 = "fst (pw_Reconcile pool_client ''store'' share_start)" and ?r = demo_reporter
  let ?w2 = "fst (upsert ?r tank_on_a ?w1)"
  let ?w3 = "fst (pw_Reconcile pool_client ''store'' ?w2)"
  have runs: "snd (pw_Reconcile pool_client ''store'' share_start) = (no_requeue, None)" "snd (upsert ?r tank_on_a ?w1) = None"
    "snd (pw_Reconcile pool_client ''store'' ?w2) = (no_requeue, None)" by code_simp+
  have eqs: "pw_Reconcile pool_client ''store'' share_start = (?w1, no_requeue, None)" "upsert ?r tank_on_a ?w1 = (?w2, None)"
    "pw_Reconcile pool_client ''store'' ?w2 = (?w3, no_requeue, None)" using runs by (metis prod.collapse)+
  have v: "pools_of share_start (ResourceName (pool_GUID tank_on_a)) = Some share_pool" by code_simp
  have s: "zpst_CurrentNode (zp_Status share_pool) = ''store''" "pool_GUID tank_on_a = ''42''" "pr_NodeName ?r \<noteq> ''store''" "pr_Client ?r = pool_client"
    by (simp_all add: share_pool_def tank_on_a_def demo_reporter_def)
  have "map_of (sw_nodes share_start) ''store'' = None" "map_of (sw_nodes ?w2) ''store'' = None" by code_simp+
  then have node: "cn_Name node = ''store'' \<and> \<not> nodeReady node"
    if "x \<in> {share_start, ?w2}" "snd (pc_get_Node pool_client ''store'' x) = Inr node" for x node
    using that by (auto simp: pool_client_def)
  let ?n = "(demo_node node_mounter ''b'')\<lparr>ns_Client := share_client\<lparr>get_ZfsPool := pc_get_ZfsPool pool_client\<rparr>\<rparr>"
  have c: "get_ZfsPool (ns_Client ?n) = pc_get_ZfsPool pool_client" by simp
  from dead_node_fails_over [OF demo_pools.pool_store_axioms node eqs(1) v s(1) c s(4,3) eqs(2,3)] s(2) show ?thesis by simp
qed

text \<open>C33. A scrub runs once: over any sequence of passes of the controller, whatever happens in between to the job, the
  pods, the pools and the template, an object that has succeeded or failed is never written again, and one
  that is running never goes back to waiting.\<close>

theorem scrub_phase_forward:
  assumes "scrub_store r ns name crv" "scrub_run r ns name crv w w'" "crv w = Some cr"
  shows "\<exists>cr'. crv w' = Some cr' \<and> (terminal (sjst_Phase (sj_Status cr)) \<longrightarrow> cr' = cr) \<and>
    (sjst_Phase (sj_Status cr) = ScrubPhaseRunning \<longrightarrow> sjst_Phase (sj_Status cr') = ScrubPhaseRunning \<or> terminal (sjst_Phase (sj_Status cr')))"
  by (rule scrub_store.run_phases [OF assms])

theorem scrub_phase_forward_witness:
  "\<exists>cr'. spw_cr (fst (sj_Reconcile demo_scrub ''csi'' ''once'' scrub_running)) = Some cr' \<and>
     (sjst_Phase (sj_Status cr') = ScrubPhaseRunning \<or> terminal (sjst_Phase (sj_Status cr')))"
proof -
  have "map_option (\<lambda>cr. sjst_Phase (sj_Status cr)) (spw_cr scrub_running) = Some ScrubPhaseRunning" by code_simp
  then obtain cr where cr: "spw_cr scrub_running = Some cr" "sjst_Phase (sj_Status cr) = ScrubPhaseRunning" by blast
  have "scrub_run demo_scrub ''csi'' ''once'' spw_cr scrub_running (fst (sj_Reconcile demo_scrub ''csi'' ''once'' scrub_running))"
    by (intro scrub_run.pass scrub_run.start)
  from scrub_phase_forward [OF demo_scrub.scrub_store_axioms this cr(1)] cr(2) show ?thesis by blast
qed





text \<open>C36. A scrub that was cancelled counts as passed: the program of the scrub pod exits with 0 when the pool is online
  without known data errors and the scan line has no error count, which is what \<open>zpool status\<close> shows after
  a scrub was cancelled.\<close>

theorem canceled_scrub_passes:
  assumes "poolGUID \<noteq> ''''" "PoolNameByGUID (BuildRunner ex os h None) b poolGUID w = (w1, Inr pool)"
    "Scrub (BuildRunner ex os h None) b pool w1 = (w2, None)"
    "zpool_Status (BuildRunner ex os h None) b pool w2 = (w3, Inr status)"
    "sr_State (ParseScrubReport status) = ''ONLINE''" "sr_Errors (ParseScrubReport status) = ''No known data errors''"
    "sr_Scan (ParseScrubReport status) = ''scrub canceled on '' @ date" "\<not> Contains (''scrub canceled on '' @ date) ''with ''"
  shows "scrub_main ex os h b poolGUID w = (w3, 0)"
proof -
  have "ToUpper ''ONLINE'' = ''ONLINE''" "Contains (ToLower ''No known data errors'') ''no known data errors''" by code_simp+
  then have "sr_OK (ParseScrubReport status)" using assms(5-8) by (simp add: ParseScrubReport_def Let_def)
  then show ?thesis using assms(1-4) by (simp add: scrub_main_def Let_def)
qed

theorem canceled_scrub_passes_witness:
  "scrub_main canceled_zpool share_os \<lparr>he_Mode = '''', he_HostRoot = '''', he_TargetPID = 0, he_PathDirs = []\<rparr> '''' ''42'' share_start = (share_start, 0)"
proof -
  let ?h = "\<lparr>he_Mode = '''', he_HostRoot = '''', he_TargetPID = 0, he_PathDirs = []\<rparr>"
  let ?run = "BuildRunner canceled_zpool share_os ?h None"
  have run: "?run name args w = (w, Inr (canceled_output args))" for name args w
    by (simp add: BuildRunner_def runner_or_def execRunner_def canceled_zpool_def)
  have f: "List.map_filter (guid_line ''42'') (out_lines (canceled_output [''list'', ''-H'', ''-o'', ''name,guid''])) = [''tank'']"
    "sr_State (ParseScrubReport (canceled_output [''status'', ''tank''])) = ''ONLINE''"
    "sr_Errors (ParseScrubReport (canceled_output [''status'', ''tank''])) = ''No known data errors''"
    "sr_Scan (ParseScrubReport (canceled_output [''status'', ''tank''])) = ''scrub canceled on '' @ ''Sun Jul 25 16:07:49 2021''"
    "\<not> Contains (''scrub canceled on '' @ ''Sun Jul 25 16:07:49 2021'') ''with ''" by code_simp+
  show ?thesis
    by (rule canceled_scrub_passes [OF _ _ _ _ f(2-5)]) (simp_all add: PoolNameByGUID_def Scrub_def zpool_Status_def run f(1))
qed


text \<open>C38. The migration guesses nothing. A label it plans to set belongs to an object the listing shows, is not set
  yet, and has the role and the owner some custom resource claims for that very object; a snapshot it plans to
  destroy is an old \<open>restore-source\<close> snapshot, not yet marked, of a dataset that is claimed as a volume or as a
  backing clone.\<close>

theorem migration_never_guesses:
  assumes "Compute inp be now w = (w', Inr plan)" "a \<in> set (Actions plan)"
    "be_List be (sortedKeys (fst (all_roots inp))) w = (w', Inr objs)"
  shows "(act_Kind a = ActSet \<longrightarrow>
      (\<exists>o' \<in> set objs. obj_Name o' = act_Target a \<and> label (act_Prop a) o' = '''' \<and>
        (\<exists>role owner. (act_Target a, role, owner) \<in> all_claims inp objs \<and>
           (act_Prop a, act_Value a) \<in> {(PropRole, role), (PropOwner, owner)}))) \<and>
    (act_Kind a = ActDestroyDeferred \<longrightarrow>
      (\<exists>o' \<in> set objs. obj_Name o' = act_Target a \<and> obj_IsSnapshot o' \<and> obj_Short o' = RestoreSourceSnapshot \<and> \<not> obj_Deferred o' \<and>
        (\<exists>role \<in> {RoleVolume, RoleBacking}. \<exists>owner. (obj_Dataset o', role, owner) \<in> all_claims inp objs)))"
proof -
  obtain claims where acts: "a \<in> all_acts inp objs now claims" and sub: "derived claims \<subseteq> all_claims inp objs"
  proof -
    have "plan = audit inp (sortedKeys (fst (all_roots inp))) objs now (snd (all_roots inp))"
      using assms(1,3) by (auto simp: Compute_def split: prod.splits)
    then show thesis using audit_result [of inp objs now "snd (all_roots inp)" "sortedKeys (fst (all_roots inp))"] assms(2) all_roots_plan [of inp] that
      by (auto simp: audited_def)
  qed
  have "\<exists>o' \<in> set objs. obj_Name o' = act_Target a \<and> label (act_Prop a) o' = '''' \<and>
      (\<exists>role owner. (act_Target a, role, owner) \<in> all_claims inp objs \<and> (act_Prop a, act_Value a) \<in> {(PropRole, role), (PropOwner, owner)})"
    if set: "act_Kind a = ActSet"
  proof -
    from all_acts_Set [OF acts set] obtain c where c: "map_of claims (act_Target a) = Some c" "act_Prop a \<in> {PropRole, PropOwner}"
      "act_Value a = wanted c (act_Prop a)" "label (act_Prop a) (obj_at objs (act_Target a)) = ''''" by metis
    have d: "(act_Target a, cl_role c, cl_owner c) \<in> all_claims inp objs" using sub c(1) by (auto simp: derived_iff)
    show ?thesis using obj_at_listed [OF claims_listed [OF d]] d c by (auto simp: wanted_def)
  qed
  moreover have "\<exists>o' \<in> set objs. obj_Name o' = act_Target a \<and> obj_IsSnapshot o' \<and> obj_Short o' = RestoreSourceSnapshot \<and> \<not> obj_Deferred o' \<and>
      (\<exists>role \<in> {RoleVolume, RoleBacking}. \<exists>owner. (obj_Dataset o', role, owner) \<in> all_claims inp objs)"
    if destroy: "act_Kind a = ActDestroyDeferred"
  proof -
    from all_acts_Destroy [OF acts destroy] obtain o' where o': "o' \<in> set (snapsByShort objs RestoreSourceSnapshot)" "act_Target a = obj_Name o'"
      "restore_ok claims o'" "\<not> obj_Deferred o'" by metis
    then show ?thesis using sub by (auto simp: snapsByShort_iff restore_ok_def intro!: bexI [of _ o'])
  qed
  ultimately show ?thesis by blast
qed

theorem migration_never_guesses_witness:
  "let inp = \<lparr>in_Pools = [(''42'', ''t'')], in_Datasets = [old_dataset], in_Snapshots = [old_snapshot]\<rparr>;
       be = CLIBackend mig_run; w = (old_objects, old_api) in
   \<exists>plan. Compute inp be 9 w = (w, Inr plan) \<and> length (Actions plan) = 10 \<and>
     (\<forall>a \<in> set (Actions plan). act_Kind a = ActSet \<longrightarrow> (\<exists>o' \<in> set old_objects. obj_Name o' = act_Target a \<and> label (act_Prop a) o' = ''''))"
proof -
  let ?inp = "\<lparr>in_Pools = [(''42'', ''t'')], in_Datasets = [old_dataset], in_Snapshots = [old_snapshot]\<rparr>"
  let ?be = "CLIBackend mig_run" and ?w = "(old_objects, old_api)"
  let ?p = "Compute ?inp ?be 9 ?w"
  have l: "be_List ?be (sortedKeys (fst (all_roots ?inp))) ?w = (?w, Inr old_objects)" by code_simp
  have p: "?p = (?w, Inr (projr (snd ?p)))" by code_simp
  have "length (Actions (projr (snd ?p))) = 10" by code_simp
  then show ?thesis using migration_never_guesses [OF p _ l] p unfolding Let_def by blast
qed

text \<open>C39. A migration that is told to apply its plan changes either nothing or everything that was missing. If it
  stops with an exit code in the middle, a blocker stopped it before the first change: after the changes the
  second audit is always clean. The API server and \<open>zfs\<close> behave as documented (\<open>zfs_migration\<close>): a read shows what is
  stored, a change that succeeds is made, nobody else writes.\<close>

theorem migration_ends_clean:
  assumes "zfs_migration (kubectl_runner ex kubeContext namespace pod) c ok ov dv sv" "ok w"
    "list_toolbox c namespace w = (w, Inr (pod # pods))" "list_ZfsPool c w = (w, Inr pl)"
    "migrate_run c ex kubeContext namespace True w = (w', Exited k)"
  shows "ov w' = ov w \<and> dv w' = dv w \<and> sv w' = sv w \<and>
    (\<exists>plan. compute_now c (CLIBackend (kubectl_runner ex kubeContext namespace pod)) (pools_by_guid pl) w = (w', Inr plan) \<and> Blockers plan \<noteq> [])"
  by (rule zfs_migration.migrate_run_ends [OF assms(1,2) refl assms(3-5) refl])

theorem migration_ends_clean_witness:
  "snd (migrate_run mig_client mig_exec '''' ''zfs'' True (stray_objects, old_api)) = Exited 1 \<and>
   fst (fst (migrate_run mig_client mig_exec '''' ''zfs'' True (stray_objects, old_api))) = stray_objects \<and>
   snd (migrate_run mig_client mig_exec '''' ''zfs'' True (old_objects, old_api)) = Returned None"
proof -
  let ?w = "(stray_objects, old_api)"
  let ?r = "migrate_run mig_client mig_exec '''' ''zfs'' True ?w"
  have r: "?r = (fst ?r, Exited 1)" using stray_ends by (metis prod.collapse)
  have pools: "list_ZfsPool mig_client ?w = (?w, Inr [old_pool])" by code_simp
  have "zfs_migration (kubectl_runner mig_exec '''' ''zfs'' ''toolbox-0'') mig_client mig_ok fst mig_datasets mig_snapshots"
    using mig_cluster.zfs_migration_axioms unfolding mig_run_def .
  from migration_ends_clean [OF this old_ok(2) _ pools r, of "[]"] show ?thesis using stray_ends old_ends by simp
qed

text \<open>C40. Reading back what \<open>zfs\<close> prints. The backend's listing is exactly the set of objects at most one level below
  the roots, each once and with the labels that are set on it, whatever roots overlap and however many of them do not
  exist.\<close>

theorem cli_backend_lists:
  assumes "zfs_objects run ok ov rest" "ok w" "be_List (CLIBackend run) roots w = (w', Inr objs)"
  shows "distinct (map obj_Name objs) \<and> set objs = {o' \<in> set (ov w). \<exists>r \<in> set roots. withinOneLevel (obj_Name o') r}"
  using zfs_objects.List_lists [OF assms(1,2)] assms(3) by (simp add: CLIBackend_def)

theorem cli_backend_lists_witness:
  "be_List (CLIBackend mig_run) [''gone'', ''t/v/p'', ''t/v''] (stray_objects, old_api) = ((stray_objects, old_api), Inr (map ((!) stray_objects) [1, 2, 0, 3, 4, 5, 6])) \<and>
   set (map ((!) stray_objects) [1, 2, 0, 3, 4, 5, 6]) = {o' \<in> set stray_objects. \<exists>r \<in> {''gone'', ''t/v/p'', ''t/v''}. withinOneLevel (obj_Name o') r}"
proof -
  have l: "be_List (CLIBackend mig_run) [''gone'', ''t/v/p'', ''t/v''] (stray_objects, old_api) =
      ((stray_objects, old_api), Inr (map ((!) stray_objects) [1, 2, 0, 3, 4, 5, 6]))" by code_simp
  from cli_backend_lists [OF mig_pool.zfs_objects_axioms old_ok(2) l] l show ?thesis by simp
qed

end
